(* ===== verification/Fw_Prelude.thy ===== *)
theory Fw_Prelude
  imports Main "HOL-Library.Word" "HOL-Library.Monad_Syntax"
begin

unbundle bit_operations_syntax

text \<open>
  Shared vocabulary of the development: the widths of the C integer types, the model of the
  microcontroller's input and output, the byte packing every CAN driver of the repository
  repeats, and the generic lemmas on words, bits, options and iteration.

  The iLLD calls (\<open>IfxPort_*\<close>, \<open>IfxStm_*\<close>, \<open>waitTime\<close>, \<open>IfxCan_*\<close>) are not part of
  the repository. What they return is a parameter, the record \<open>hw\<close>: the \<open>n\<close>-th read of
  the program sees the \<open>n\<close>-th value of an arbitrary environment. What the program asks
  them to do is recorded: the last level commanded on each pin, the last mode, and the log of
  all pin commands and waits, most recent first.
\<close>

section \<open>Integer widths\<close>

type_synonym u8 = "8 word"
type_synonym u16 = "16 word"
type_synonym u32 = "32 word"

named_theorems fw_simps \<open>rewrite rules of the firmware models\<close>
named_theorems fw_frame \<open>fields an operation leaves unchanged\<close>
named_theorems fw_inv \<open>preservation of the component invariants\<close>

section \<open>Pins, timers and the environment\<close>

text \<open>A pin is a port number and a pin number: P33.7 is \<open>(33, 7)\<close>.\<close>

type_synonym pin = "nat \<times> nat"

datatype pin_mode = OutputPushPull | InputPullDown | InputPullUp

datatype io_event = SetPin pin bool | WaitUs u32

text \<open>The status of \<open>IfxCan_Can_sendMessage\<close>: the one value the code tests, and the others.\<close>

datatype can_status = NotSentBusy | SentStatus u32

record hw =
  hw_pin :: "nat \<Rightarrow> pin \<Rightarrow> bool"        \<comment> \<open>IfxPort_getPinState at the n-th read\<close>
  hw_stm :: "nat \<Rightarrow> u32"                \<comment> \<open>IfxStm_getLower at the n-th read\<close>
  hw_ticks_us :: u32                     \<comment> \<open>IfxStm_getTicksFromMicroseconds (timer, 1)\<close>
  hw_can :: "nat \<Rightarrow> can_status"         \<comment> \<open>IfxCan_Can_sendMessage at the n-th call\<close>

record io =
  io_reads :: nat
  pin_cmd :: "pin \<Rightarrow> bool"
  pin_cfg :: "pin \<Rightarrow> pin_mode option"
  io_log :: "io_event list"

definition set_pin :: "pin \<Rightarrow> bool \<Rightarrow> 'a io_scheme \<Rightarrow> 'a io_scheme" where
  "set_pin p b s = s\<lparr>pin_cmd := (pin_cmd s)(p := b), io_log := SetPin p b # io_log s\<rparr>"

definition set_mode :: "pin \<Rightarrow> pin_mode \<Rightarrow> 'a io_scheme \<Rightarrow> 'a io_scheme" where
  "set_mode p m s = s\<lparr>pin_cfg := (pin_cfg s)(p \<mapsto> m)\<rparr>"

definition wait_us :: "u32 \<Rightarrow> 'a io_scheme \<Rightarrow> 'a io_scheme" where
  "wait_us n s = s\<lparr>io_log := WaitUs n # io_log s\<rparr>"

definition read_pin :: "hw \<Rightarrow> pin \<Rightarrow> 'a io_scheme \<Rightarrow> bool \<times> 'a io_scheme" where
  "read_pin h p s = (hw_pin h (io_reads s) p, s\<lparr>io_reads := Suc (io_reads s)\<rparr>)"

definition read_stm :: "hw \<Rightarrow> 'a io_scheme \<Rightarrow> u32 \<times> 'a io_scheme" where
  "read_stm h s = (hw_stm h (io_reads s), s\<lparr>io_reads := Suc (io_reads s)\<rparr>)"

text \<open>The total time a stretch of the log asks \<open>waitTime\<close> to spend.\<close>

fun waited :: "io_event list \<Rightarrow> nat" where
  "waited [] = 0"
| "waited (WaitUs n # es) = unat n + waited es"
| "waited (SetPin _ _ # es) = waited es"

lemma waited_append [simp]: "waited (es @ fs) = waited es + waited fs"
  by (induction es rule: waited.induct) simp_all

section \<open>Bytes of a word\<close>

definition byte_at :: "nat \<Rightarrow> u32 \<Rightarrow> u8" where
  "byte_at n w = ucast (drop_bit n w AND 0xFF)"

text \<open>The drivers build a data word with four shifted ORs into 0.\<close>

definition pack_le :: "u8 \<Rightarrow> u8 \<Rightarrow> u8 \<Rightarrow> u8 \<Rightarrow> u32" where
  "pack_le a b c d =
     (((0 OR push_bit 0 (ucast a)) OR push_bit 8 (ucast b)) OR push_bit 16 (ucast c))
       OR push_bit 24 (ucast d)"

lemma mask_8_conv: "(0xFF :: 'a::len word) = mask 8"
  by (simp add: mask_eq_exp_minus_1)

lemma bit_byte_at: "bit (byte_at n w) i \<longleftrightarrow> i < 8 \<and> bit w (n + i)"
  by (auto simp: byte_at_def mask_8_conv bit_simps)

lemma bit_pack_le:
  "bit (pack_le a b c d) i \<longleftrightarrow>
     i < 8 \<and> bit a i \<or> 8 \<le> i \<and> i < 16 \<and> bit b (i - 8) \<or>
     16 \<le> i \<and> i < 24 \<and> bit c (i - 16) \<or> 24 \<le> i \<and> i < 32 \<and> bit d (i - 24)"
  by (auto simp: pack_le_def bit_simps dest: bit_imp_le_length)

lemma byte_at_pack_le [simp]:
  "byte_at 0 (pack_le a b c d) = a"
  "byte_at 8 (pack_le a b c d) = b"
  "byte_at 16 (pack_le a b c d) = c"
  "byte_at 24 (pack_le a b c d) = d"
  by (rule bit_word_eqI; auto simp: bit_byte_at bit_pack_le)+

lemma pack_le_byte_at: "pack_le (byte_at 0 w) (byte_at 8 w) (byte_at 16 w) (byte_at 24 w) = w"
proof (rule bit_word_eqI)
  fix n :: nat
  assume "n < LENGTH(32)"
  then consider "n < 8" | "8 \<le> n" "n < 16" | "16 \<le> n" "n < 24" | "24 \<le> n" "n < 32"
    by fastforce
  then show "bit (pack_le (byte_at 0 w) (byte_at 8 w) (byte_at 16 w) (byte_at 24 w)) n = bit w n"
    by cases (auto simp: bit_byte_at bit_pack_le)
qed

text \<open>Big-endian 16-bit values: the identifiers of the diagnostic services.\<close>

definition be16 :: "u8 \<Rightarrow> u8 \<Rightarrow> u16" where
  "be16 hi lo = push_bit 8 (ucast hi) OR ucast lo"

definition hi8 :: "u16 \<Rightarrow> u8" where
  "hi8 w = ucast (drop_bit 8 w AND 0xFF)"

definition lo8 :: "u16 \<Rightarrow> u8" where
  "lo8 w = ucast (w AND 0xFF)"

lemma bit_be16: "bit (be16 a b) i \<longleftrightarrow> i < 8 \<and> bit b i \<or> 8 \<le> i \<and> i < 16 \<and> bit a (i - 8)"
  by (auto simp: be16_def bit_simps dest: bit_imp_le_length)

lemma hi8_be16 [simp]: "hi8 (be16 a b) = a"
  by (rule bit_word_eqI) (auto simp: hi8_def mask_8_conv bit_simps bit_be16)

lemma lo8_be16 [simp]: "lo8 (be16 a b) = b"
  by (rule bit_word_eqI) (auto simp: lo8_def mask_8_conv bit_simps bit_be16)

lemma be16_hi8_lo8 [simp]: "be16 (hi8 w) (lo8 w) = w"
  by (rule bit_word_eqI) (auto simp: hi8_def lo8_def mask_8_conv bit_simps bit_be16)

lemma be16_eq_iff: "be16 a b = be16 c d \<longleftrightarrow> a = c \<and> b = d"
  by (metis hi8_be16 lo8_be16)

section \<open>Words: counters and bit masks\<close>

lemma unat_inc_below:
  fixes x l :: "'a::len word"
  assumes "x < l"
  shows "unat (x + 1) = Suc (unat x)"
proof -
  from assms have "unat x < unat l" by (simp add: word_less_nat_alt)
  moreover have "unat l < 2 ^ LENGTH('a)" by simp
  ultimately have "Suc (unat x) < 2 ^ LENGTH('a)" by linarith
  then show ?thesis by (simp add: unat_word_ariths)
qed

lemma low_nibble: "unat n < 16 \<Longrightarrow> n AND 0xF = (n :: 'a::len word)"
proof -
  assume "unat n < 16"
  then have "take_bit 4 n = n" by (simp add: word_unat_eq_iff unsigned_take_bit_eq take_bit_nat_eq_self)
  moreover have "(0xF :: 'a word) = mask 4" by (simp add: mask_eq_exp_minus_1)
  ultimately show ?thesis by (simp add: take_bit_eq_mask and.commute)
qed

lemma inc_le_bound: "x < l \<Longrightarrow> x + 1 \<le> (l :: 'a::len word)"
  by (rule inc_le)

lemma unat_dec_pos: "0 < x \<Longrightarrow> unat (x - 1) = unat x - 1" for x :: "'a::len word"
  by (simp add: unat_minus_one word_gt_0)

lemma not_and_twice [simp]: "(x AND NOT b) AND b = (0 :: 'a::len word)"
  by (rule bit_word_eqI) (auto simp: bit_simps)

lemma or_and_same [simp]: "(x OR b) AND b = (b :: 'a::len word)"
  by (rule bit_word_eqI) (auto simp: bit_simps)

lemma or_and_ne_zero: "b \<noteq> 0 \<Longrightarrow> (x OR b) AND b \<noteq> (0 :: 'a::len word)"
  by simp

lemma or_disjoint_and: "b AND c = 0 \<Longrightarrow> (x OR b) AND c = (x AND c :: 'a::len word)"
  by (simp add: word_ao_dist)

lemma andnot_disjoint_and:
  fixes x b c :: "'a::len word"
  assumes "b AND c = 0"
  shows "(x AND NOT b) AND c = x AND c"
proof (rule bit_word_eqI)
  fix n assume "n < LENGTH('a)"
  moreover from assms have "\<not> (bit b n \<and> bit c n)" by (metis bit_and_iff bit_0_eq bot_apply bot_bool_def)
  ultimately show "bit ((x AND NOT b) AND c) n = bit (x AND c) n" by (auto simp: bit_simps)
qed

lemma or_keeps_bits: "x AND m \<noteq> 0 \<Longrightarrow> (x OR b) AND m \<noteq> (0 :: 'a::len word)"
  by (metis or_eq_0_iff word_ao_dist)

section \<open>Options and iteration\<close>

lemma bind_Some_iff: "Option.bind x f = Some y \<longleftrightarrow> (\<exists>a. x = Some a \<and> f a = Some y)"
  by (cases x) auto

lemma bind_ex_Some:
  "\<exists>a. x = Some a \<Longrightarrow> (\<And>a. x = Some a \<Longrightarrow> \<exists>y. f a = Some y) \<Longrightarrow> \<exists>y. Option.bind x f = Some y"
  by auto

lemma funpow_invariant: "P s \<Longrightarrow> (\<And>t. P t \<Longrightarrow> P (f t)) \<Longrightarrow> P ((f ^^ n) s)"
  by (induction n) auto

text \<open>A pass over a list of inputs whose every step may fail to return.\<close>

fun run_opt :: "('i \<Rightarrow> 's \<Rightarrow> 's option) \<Rightarrow> 'i list \<Rightarrow> 's \<Rightarrow> 's option" where
  "run_opt f [] s = Some s"
| "run_opt f (i # is) s = Option.bind (f i s) (run_opt f is)"

lemma run_opt_invariant:
  assumes "run_opt f is s = Some t" and "P s"
    and "\<And>i s t. f i s = Some t \<Longrightarrow> P s \<Longrightarrow> P t"
  shows "P t"
  using assms(1,2)
  by (induction "is" arbitrary: s) (auto simp: bind_Some_iff intro: assms(3))

end
