(* ===== verification/Body_State.thy ===== *)
theory Body_State
  imports Fw_Prelude
begin

unbundle bit_operations_syntax

text \<open>
  State of \<open>src/BODY/BodyControl.c\<close>: its pins, its constants and its file-scope variables, one
  field per variable and under the same name. The variables are grouped as the file groups them
  (lamps and horn, ultrasonic warning, collision button, diagnosis, debugger mirrors); each group
  is a record that extends the one before it, so a field is reached by its own name. A C
  \<open>boolean\<close> that only ever holds \<open>TRUE\<close> or \<open>FALSE\<close> is a \<open>bool\<close>.
\<close>

section \<open>Pin mapping\<close>

abbreviation (input) BODY_HEAD_R :: pin where "BODY_HEAD_R \<equiv> (33, 7)"
abbreviation (input) BODY_HEAD_G :: pin where "BODY_HEAD_G \<equiv> (33, 5)"
abbreviation (input) BODY_HEAD_B :: pin where "BODY_HEAD_B \<equiv> (33, 3)"
abbreviation (input) BODY_BRAKE :: pin where "BODY_BRAKE \<equiv> (13, 1)"
abbreviation (input) BODY_LEFT_TURN :: pin where "BODY_LEFT_TURN \<equiv> (2, 6)"
abbreviation (input) BODY_RIGHT_TURN :: pin where "BODY_RIGHT_TURN \<equiv> (2, 4)"
abbreviation (input) BODY_BUZZER :: pin where "BODY_BUZZER \<equiv> (2, 3)"
abbreviation (input) BODY_ULTRASONIC_ECHO :: pin where "BODY_ULTRASONIC_ECHO \<equiv> (15, 2)"
abbreviation (input) BODY_ULTRASONIC_TRIG :: pin where "BODY_ULTRASONIC_TRIG \<equiv> (15, 3)"
abbreviation (input) BODY_DIAG_BRAKE_FB :: pin where "BODY_DIAG_BRAKE_FB \<equiv> (0, 0)"
abbreviation (input) BODY_DIAG_HEAD_FB :: pin where "BODY_DIAG_HEAD_FB \<equiv> (0, 2)"
abbreviation (input) BODY_DIAG_LEFT_FB :: pin where "BODY_DIAG_LEFT_FB \<equiv> (0, 6)"
abbreviation (input) BODY_DIAG_RIGHT_FB :: pin where "BODY_DIAG_RIGHT_FB \<equiv> (0, 8)"
abbreviation (input) BODY_DIAG_DANGER_LED :: pin where "BODY_DIAG_DANGER_LED \<equiv> (0, 10)"
abbreviation (input) BODY_COLLISION_BUTTON :: pin where "BODY_COLLISION_BUTTON \<equiv> (33, 10)"

section \<open>Constants\<close>

abbreviation (input) BODY_BLINK_HALF_PERIOD_MS :: u32 where "BODY_BLINK_HALF_PERIOD_MS \<equiv> 500"

abbreviation (input) BODY_COLLISION_WARNING_STAGE1_CM :: u16 where "BODY_COLLISION_WARNING_STAGE1_CM \<equiv> 30"
abbreviation (input) BODY_COLLISION_WARNING_STAGE2_CM :: u16 where "BODY_COLLISION_WARNING_STAGE2_CM \<equiv> 20"
abbreviation (input) BODY_COLLISION_WARNING_STAGE3_CM :: u16 where "BODY_COLLISION_WARNING_STAGE3_CM \<equiv> 10"
abbreviation (input) BODY_COLLISION_WARNING_HYSTERESIS_CM :: u16
  where "BODY_COLLISION_WARNING_HYSTERESIS_CM \<equiv> 5"

abbreviation (input) BODY_COLLISION_WARNING_BEEP_ON_MS :: u32 where "BODY_COLLISION_WARNING_BEEP_ON_MS \<equiv> 120"
abbreviation (input) BODY_COLLISION_WARNING_STAGE1_CYCLE_MS :: u32
  where "BODY_COLLISION_WARNING_STAGE1_CYCLE_MS \<equiv> 500"
abbreviation (input) BODY_COLLISION_WARNING_STAGE2_CYCLE_MS :: u32
  where "BODY_COLLISION_WARNING_STAGE2_CYCLE_MS \<equiv> 250"
abbreviation (input) BODY_COLLISION_WARNING_TONE_HALF_MS :: u32
  where "BODY_COLLISION_WARNING_TONE_HALF_MS \<equiv> 1"

abbreviation (input) BODY_ULTRASONIC_MEASURE_PERIOD_MS :: u32 where "BODY_ULTRASONIC_MEASURE_PERIOD_MS \<equiv> 60"
abbreviation (input) BODY_ULTRASONIC_VALID_HOLD_MS :: u32 where "BODY_ULTRASONIC_VALID_HOLD_MS \<equiv> 300"
abbreviation (input) BODY_ULTRASONIC_ECHO_TIMEOUT_US :: u32 where "BODY_ULTRASONIC_ECHO_TIMEOUT_US \<equiv> 3000"
abbreviation (input) BODY_ULTRASONIC_DIAG_ECHO_TIMEOUT_US :: u32
  where "BODY_ULTRASONIC_DIAG_ECHO_TIMEOUT_US \<equiv> 50000"
abbreviation (input) BODY_ULTRASONIC_ECHO_IDLE_TIMEOUT_US :: u32
  where "BODY_ULTRASONIC_ECHO_IDLE_TIMEOUT_US \<equiv> 300"
abbreviation (input) BODY_ULTRASONIC_NO_OBJECT_CM :: u32 where "BODY_ULTRASONIC_NO_OBJECT_CM \<equiv> 400"

abbreviation (input) BODY_DTC_CHECK_PERIOD_MS :: u32 where "BODY_DTC_CHECK_PERIOD_MS \<equiv> 3000"
abbreviation (input) BODY_DTC_CONFIRM_FAIL_COUNT :: u8 where "BODY_DTC_CONFIRM_FAIL_COUNT \<equiv> 3"
abbreviation (input) BODY_DTC_STATUS_CURRENT_BIT :: u8 where "BODY_DTC_STATUS_CURRENT_BIT \<equiv> 0x01"
abbreviation (input) BODY_DTC_STATUS_HISTORY_BIT :: u8 where "BODY_DTC_STATUS_HISTORY_BIT \<equiv> 0x08"
abbreviation (input) BODY_DIAG_DANGER_BLINK_HALF_PERIOD_MS :: u32
  where "BODY_DIAG_DANGER_BLINK_HALF_PERIOD_MS \<equiv> 250"
abbreviation (input) BODY_DIAG_DANGER_BLINK_CYCLES :: u8 where "BODY_DIAG_DANGER_BLINK_CYCLES \<equiv> 3"

abbreviation (input) BODY_DIAG_STEADY_CONFIRM_MS :: u32 where "BODY_DIAG_STEADY_CONFIRM_MS \<equiv> 100"
abbreviation (input) BODY_DIAG_BLINK_CONFIRM_MS :: u32 where "BODY_DIAG_BLINK_CONFIRM_MS \<equiv> 1200"
abbreviation (input) BODY_DIAG_STARTUP_SELF_TEST_MS :: u32 where "BODY_DIAG_STARTUP_SELF_TEST_MS \<equiv> 1000"
abbreviation (input) BODY_COLLISION_BUTTON_DEBOUNCE_MS :: u32 where "BODY_COLLISION_BUTTON_DEBOUNCE_MS \<equiv> 20"

abbreviation (input) BODY_DIAG_BRAKE_LAMP_BIT :: u8 where "BODY_DIAG_BRAKE_LAMP_BIT \<equiv> 0x01"
abbreviation (input) BODY_DIAG_HEADLAMP_BIT :: u8 where "BODY_DIAG_HEADLAMP_BIT \<equiv> 0x02"
abbreviation (input) BODY_DIAG_LEFT_TURN_BIT :: u8 where "BODY_DIAG_LEFT_TURN_BIT \<equiv> 0x04"
abbreviation (input) BODY_DIAG_RIGHT_TURN_BIT :: u8 where "BODY_DIAG_RIGHT_TURN_BIT \<equiv> 0x08"
abbreviation (input) BODY_DIAG_ULTRASONIC_BIT :: u8 where "BODY_DIAG_ULTRASONIC_BIT \<equiv> 0x10"

section \<open>File-scope variables\<close>

record body_lamps = io +
  g_headlampOn :: bool
  g_brakeLampOn :: bool
  g_leftTurnEnabled :: bool
  g_rightTurnEnabled :: bool
  g_collisionWarningLampOn :: bool
  g_hornEnabled :: bool
  g_hornOutputOn :: bool
  g_hornTimerMs :: u32
  g_blinkOutputOn :: bool
  g_blinkTimerMs :: u32

record body_warning = body_lamps +
  g_ultrasonicDistanceCm :: u16
  g_ultrasonicDistanceValid :: bool
  g_ultrasonicMeasureTimerMs :: u32
  g_ultrasonicValidHoldTimerMs :: u32
  g_ultrasonicMeasureCount :: u32
  g_ultrasonicTimeoutCount :: u32
  g_collisionWarningLevel :: u8
  g_collisionWarningLastLevel :: u8
  g_collisionWarningToneOutputOn :: bool
  g_collisionWarningToneTimerMs :: u32
  g_collisionWarningPatternTimerMs :: u32

record body_button = body_warning +
  g_collisionButtonLastRawPressed :: bool
  g_collisionButtonStablePressed :: bool
  g_collisionButtonEventPending :: bool
  g_collisionButtonDebounceTimerMs :: u32
  g_collisionButtonPressedEventCount :: u32

record body_diag = body_button +
  g_diagFaultMask :: u8
  g_diagCommandMask :: u8
  g_diagFeedbackMask :: u8
  g_ultrasonicDtcStatus :: u8
  g_ultrasonicDtcConsecutiveFailCount :: u8
  g_dtcCheckTimerMs :: u32
  g_diagDangerBlinkActive :: bool
  g_diagDangerBlinkOutputOn :: bool
  g_diagDangerBlinkToggleCount :: u8
  g_diagDangerBlinkTimerMs :: u32
  g_diagBrakeLowTimerMs :: u32
  g_diagHeadLowTimerMs :: u32
  g_diagLeftLowTimerMs :: u32
  g_diagRightLowTimerMs :: u32

record body = body_diag +
  g_debugBodyDiagFaultMask :: u8
  g_debugBodyDiagCommandMask :: u8
  g_debugBodyDiagFeedbackMask :: u8
  g_debugBodyDiagStartupFaultMask :: u8
  g_debugBodyCollisionButtonRawPressed :: u8
  g_debugBodyCollisionButtonStablePressed :: u8
  g_debugBodyCollisionButtonEventCount :: u32
  g_debugBodyUltrasonicDistanceCm :: u16
  g_debugBodyUltrasonicDistanceValid :: u8
  g_debugBodyCollisionWarningLevel :: u8
  g_debugBodyUltrasonicMeasureCount :: u32
  g_debugBodyUltrasonicTimeoutCount :: u32
  g_debugBodyUltrasonicDtcStatus :: u8
  g_debugBodyUltrasonicDtcFailCount :: u8

text \<open>The state before \<open>BodyControl_Init\<close>: the static initialisers of the file.\<close>

definition body_boot :: body where
  "body_boot = \<lparr>io_reads = 0, pin_cmd = (\<lambda>_. False), pin_cfg = Map.empty, io_log = [],
     g_headlampOn = False, g_brakeLampOn = False,
     g_leftTurnEnabled = False, g_rightTurnEnabled = False, g_collisionWarningLampOn = False,
     g_hornEnabled = False, g_hornOutputOn = False, g_hornTimerMs = 0,
     g_blinkOutputOn = False, g_blinkTimerMs = 0,
     g_ultrasonicDistanceCm = ucast BODY_ULTRASONIC_NO_OBJECT_CM,
     g_ultrasonicDistanceValid = False,
     g_ultrasonicMeasureTimerMs = 0, g_ultrasonicValidHoldTimerMs = 0,
     g_ultrasonicMeasureCount = 0, g_ultrasonicTimeoutCount = 0,
     g_collisionWarningLevel = 0, g_collisionWarningLastLevel = 0,
     g_collisionWarningToneOutputOn = False, g_collisionWarningToneTimerMs = 0,
     g_collisionWarningPatternTimerMs = 0,
     g_collisionButtonLastRawPressed = False, g_collisionButtonStablePressed = False,
     g_collisionButtonEventPending = False, g_collisionButtonDebounceTimerMs = 0,
     g_collisionButtonPressedEventCount = 0,
     g_diagFaultMask = 0, g_diagCommandMask = 0, g_diagFeedbackMask = 0,
     g_ultrasonicDtcStatus = 0, g_ultrasonicDtcConsecutiveFailCount = 0, g_dtcCheckTimerMs = 0,
     g_diagDangerBlinkActive = False, g_diagDangerBlinkOutputOn = False,
     g_diagDangerBlinkToggleCount = 0, g_diagDangerBlinkTimerMs = 0,
     g_diagBrakeLowTimerMs = 0, g_diagHeadLowTimerMs = 0,
     g_diagLeftLowTimerMs = 0, g_diagRightLowTimerMs = 0,
     g_debugBodyDiagFaultMask = 0, g_debugBodyDiagCommandMask = 0,
     g_debugBodyDiagFeedbackMask = 0, g_debugBodyDiagStartupFaultMask = 0,
     g_debugBodyCollisionButtonRawPressed = 0, g_debugBodyCollisionButtonStablePressed = 0,
     g_debugBodyCollisionButtonEventCount = 0,
     g_debugBodyUltrasonicDistanceCm = ucast BODY_ULTRASONIC_NO_OBJECT_CM,
     g_debugBodyUltrasonicDistanceValid = 0, g_debugBodyCollisionWarningLevel = 0,
     g_debugBodyUltrasonicMeasureCount = 0, g_debugBodyUltrasonicTimeoutCount = 0,
     g_debugBodyUltrasonicDtcStatus = 0, g_debugBodyUltrasonicDtcFailCount = 0\<rparr>"

section \<open>Low-level GPIO and delays\<close>

definition BodyControl_DelayUs :: "u32 \<Rightarrow> 'a io_scheme \<Rightarrow> 'a io_scheme" where
  "BodyControl_DelayUs us s = wait_us us s"

definition BodyControl_DelayMs :: "u32 \<Rightarrow> 'a io_scheme \<Rightarrow> 'a io_scheme" where
  "BodyControl_DelayMs ms s = (BodyControl_DelayUs 1000 ^^ unat ms) s"

definition BodyControl_InitOutputPin :: "pin \<Rightarrow> 'a io_scheme \<Rightarrow> 'a io_scheme" where
  "BodyControl_InitOutputPin p s = set_pin p False (set_mode p OutputPushPull s)"

definition BodyControl_InitInputPinPulldown :: "pin \<Rightarrow> 'a io_scheme \<Rightarrow> 'a io_scheme" where
  "BodyControl_InitInputPinPulldown p s = set_mode p InputPullDown s"

definition BodyControl_WriteUltrasonicTrig :: "bool \<Rightarrow> 'a io_scheme \<Rightarrow> 'a io_scheme" where
  "BodyControl_WriteUltrasonicTrig on s =
     (if on then set_pin BODY_ULTRASONIC_TRIG True s else set_pin BODY_ULTRASONIC_TRIG False s)"

definition BodyControl_ReadUltrasonicEchoHigh ::
  "hw \<Rightarrow> 'a io_scheme \<Rightarrow> bool \<times> 'a io_scheme" where
  "BodyControl_ReadUltrasonicEchoHigh h s = read_pin h BODY_ULTRASONIC_ECHO s"

definition BodyControl_ReadDiagPin :: "hw \<Rightarrow> pin \<Rightarrow> 'a io_scheme \<Rightarrow> bool \<times> 'a io_scheme" where
  "BodyControl_ReadDiagPin h p s = read_pin h p s"

definition BodyControl_ReadCollisionButtonRawPressed ::
  "hw \<Rightarrow> 'a io_scheme \<Rightarrow> bool \<times> 'a io_scheme" where
  "BodyControl_ReadCollisionButtonRawPressed h s = read_pin h BODY_COLLISION_BUTTON s"

definition BodyControl_WriteNormalLedPin :: "pin \<Rightarrow> bool \<Rightarrow> 'a io_scheme \<Rightarrow> 'a io_scheme" where
  "BodyControl_WriteNormalLedPin p on s = (if on then set_pin p True s else set_pin p False s)"

definition BodyControl_WriteRgbPin :: "pin \<Rightarrow> bool \<Rightarrow> 'a io_scheme \<Rightarrow> 'a io_scheme" where
  "BodyControl_WriteRgbPin p on s = (if on then set_pin p True s else set_pin p False s)"

definition BodyControl_WriteBrakePin :: "bool \<Rightarrow> 'a io_scheme \<Rightarrow> 'a io_scheme" where
  "BodyControl_WriteBrakePin on s =
     (if on then set_pin BODY_BRAKE True s else set_pin BODY_BRAKE False s)"

definition BodyControl_WriteBuzzerPin :: "bool \<Rightarrow> 'a io_scheme \<Rightarrow> 'a io_scheme" where
  "BodyControl_WriteBuzzerPin on s =
     (if on then set_pin BODY_BUZZER True s else set_pin BODY_BUZZER False s)"

definition BodyControl_BuzzerOff :: "'a io_scheme \<Rightarrow> 'a io_scheme" where
  "BodyControl_BuzzerOff s = BodyControl_WriteBuzzerPin False s"

text \<open>Every one of these is a write of one pin; only the commanded levels and the log change.\<close>

lemma write_pin_eq:
  "BodyControl_WriteUltrasonicTrig b s = set_pin BODY_ULTRASONIC_TRIG b s"
  "BodyControl_WriteNormalLedPin p b s = set_pin p b s"
  "BodyControl_WriteRgbPin p b s = set_pin p b s"
  "BodyControl_WriteBrakePin b s = set_pin BODY_BRAKE b s"
  "BodyControl_WriteBuzzerPin b s = set_pin BODY_BUZZER b s"
  "BodyControl_BuzzerOff s = set_pin BODY_BUZZER False s"
  by (simp_all add: BodyControl_WriteUltrasonicTrig_def BodyControl_WriteNormalLedPin_def
      BodyControl_WriteRgbPin_def BodyControl_WriteBrakePin_def BodyControl_WriteBuzzerPin_def
      BodyControl_BuzzerOff_def)

lemma DelayMs_log:
  "BodyControl_DelayMs ms s = s\<lparr>io_log := replicate (unat ms) (WaitUs 1000) @ io_log s\<rparr>"
proof -
  have "(BodyControl_DelayUs 1000 ^^ n) s = s\<lparr>io_log := replicate n (WaitUs 1000) @ io_log s\<rparr>" for n
    by (induction n) (simp_all add: BodyControl_DelayUs_def wait_us_def)
  then show ?thesis by (simp add: BodyControl_DelayMs_def)
qed

end
