(* ===== verification/Body_Lamps.thy ===== *)
theory Body_Lamps
  imports Body_State
begin

unbundle bit_operations_syntax

text \<open>
  Lamps and turn signals of \<open>src/BODY/BodyControl.c\<close>: \<open>BodyControl_ApplyOutputs\<close>, the blink
  request, the public setters, and the blink half of \<open>BodyControl_Update1ms\<close>. The invariant
  \<open>lamps_applied\<close> says that the pins show what the variables say; the setters keep it, and the
  turn mode they take is decoded as the header documents it.
\<close>

section \<open>Operations\<close>

definition BodyControl_WriteHeadlamp :: "bool \<Rightarrow> 'a io_scheme \<Rightarrow> 'a io_scheme" where
  "BodyControl_WriteHeadlamp on s =
     BodyControl_WriteRgbPin BODY_HEAD_B on
       (BodyControl_WriteRgbPin BODY_HEAD_G on
         (BodyControl_WriteRgbPin BODY_HEAD_R on s))"

definition BodyControl_ApplyOutputs :: "'a body_lamps_scheme \<Rightarrow> 'a body_lamps_scheme" where
  "BodyControl_ApplyOutputs s =
     (let s = BodyControl_WriteHeadlamp (g_headlampOn s) s;
          s = BodyControl_WriteBrakePin (g_brakeLampOn s) s;
          (leftLedOn, rightLedOn) =
            (if g_collisionWarningLampOn s then (g_blinkOutputOn s, g_blinkOutputOn s)
             else (g_leftTurnEnabled s \<and> g_blinkOutputOn s,
                   g_rightTurnEnabled s \<and> g_blinkOutputOn s));
          leftLedOn = (g_leftTurnEnabled s \<and> g_blinkOutputOn s);
          rightLedOn = (g_rightTurnEnabled s \<and> g_blinkOutputOn s);
          s = BodyControl_WriteNormalLedPin BODY_LEFT_TURN leftLedOn s
      in BodyControl_WriteNormalLedPin BODY_RIGHT_TURN rightLedOn s)"

definition BodyControl_IsBlinkRequested :: "bool \<Rightarrow> bool \<Rightarrow> bool" where
  "BodyControl_IsBlinkRequested leftOn rightOn \<longleftrightarrow> leftOn \<or> rightOn"

definition BodyControl_SetBlinkRequest ::
  "bool \<Rightarrow> bool \<Rightarrow> 'a body_lamps_scheme \<Rightarrow> 'a body_lamps_scheme" where
  "BodyControl_SetBlinkRequest leftOn rightOn s =
     (let oldRequested = BodyControl_IsBlinkRequested (g_leftTurnEnabled s) (g_rightTurnEnabled s);
          requestChanged = (g_leftTurnEnabled s \<noteq> leftOn \<or> g_rightTurnEnabled s \<noteq> rightOn);
          s = s\<lparr>g_leftTurnEnabled := leftOn, g_rightTurnEnabled := rightOn\<rparr>;
          newRequested = BodyControl_IsBlinkRequested (g_leftTurnEnabled s) (g_rightTurnEnabled s);
          s = (if \<not> newRequested then s\<lparr>g_blinkOutputOn := False, g_blinkTimerMs := 0\<rparr>
               else if \<not> oldRequested \<or> requestChanged
               then s\<lparr>g_blinkOutputOn := True, g_blinkTimerMs := 0\<rparr>
               else s)
      in BodyControl_ApplyOutputs s)"

definition BodyControl_SetHeadlamp :: "bool \<Rightarrow> 'a body_lamps_scheme \<Rightarrow> 'a body_lamps_scheme" where
  "BodyControl_SetHeadlamp on s = BodyControl_ApplyOutputs (s\<lparr>g_headlampOn := on\<rparr>)"

definition BodyControl_SetBrakeLamp :: "bool \<Rightarrow> 'a body_lamps_scheme \<Rightarrow> 'a body_lamps_scheme" where
  "BodyControl_SetBrakeLamp on s = BodyControl_ApplyOutputs (s\<lparr>g_brakeLampOn := on\<rparr>)"

definition BodyControl_SetLeftTurn :: "bool \<Rightarrow> 'a body_lamps_scheme \<Rightarrow> 'a body_lamps_scheme" where
  "BodyControl_SetLeftTurn on s = BodyControl_SetBlinkRequest on (g_rightTurnEnabled s) s"

definition BodyControl_SetRightTurn :: "bool \<Rightarrow> 'a body_lamps_scheme \<Rightarrow> 'a body_lamps_scheme" where
  "BodyControl_SetRightTurn on s = BodyControl_SetBlinkRequest (g_leftTurnEnabled s) on s"

abbreviation (input) BODY_CONTROL_TURN_OFF :: u8 where "BODY_CONTROL_TURN_OFF \<equiv> 0"
abbreviation (input) BODY_CONTROL_TURN_LEFT :: u8 where "BODY_CONTROL_TURN_LEFT \<equiv> 1"
abbreviation (input) BODY_CONTROL_TURN_RIGHT :: u8 where "BODY_CONTROL_TURN_RIGHT \<equiv> 2"
abbreviation (input) BODY_CONTROL_TURN_HAZARD :: u8 where "BODY_CONTROL_TURN_HAZARD \<equiv> 3"

definition BodyControl_SetTurnSignal :: "u8 \<Rightarrow> 'a body_lamps_scheme \<Rightarrow> 'a body_lamps_scheme" where
  "BodyControl_SetTurnSignal turnMode s =
     (let (leftOn, rightOn) =
            (if turnMode = BODY_CONTROL_TURN_LEFT then (True, False)
             else if turnMode = BODY_CONTROL_TURN_RIGHT then (False, True)
             else if turnMode = BODY_CONTROL_TURN_HAZARD then (True, True)
             else (False, False))
      in BodyControl_SetBlinkRequest leftOn rightOn s)"

text \<open>The blink part of \<open>BodyControl_Update1ms\<close>, before it updates the diagnosis.\<close>

definition BodyControl_UpdateBlink1ms :: "'a body_lamps_scheme \<Rightarrow> 'a body_lamps_scheme" where
  "BodyControl_UpdateBlink1ms s =
     (if \<not> g_leftTurnEnabled s \<and> \<not> g_rightTurnEnabled s
      then BodyControl_ApplyOutputs (s\<lparr>g_blinkOutputOn := False, g_blinkTimerMs := 0\<rparr>)
      else
        let s = s\<lparr>g_blinkTimerMs := g_blinkTimerMs s + 1\<rparr>
        in if g_blinkTimerMs s \<ge> BODY_BLINK_HALF_PERIOD_MS
           then BodyControl_ApplyOutputs
                  (s\<lparr>g_blinkTimerMs := 0, g_blinkOutputOn := \<not> g_blinkOutputOn s\<rparr>)
           else s)"

section \<open>What the operations write\<close>

lemma set_pin_sel [simp]:
  "pin_cmd (set_pin p b s) q = (if q = p then b else pin_cmd s q)"
  "pin_cfg (set_pin p b s) = pin_cfg s"
  "io_reads (set_pin p b s) = io_reads s"
  "io_log (set_pin p b s) = SetPin p b # io_log s"
  "io.more (set_pin p b s) = io.more s"
  by (simp_all add: set_pin_def)

text \<open>
  \<open>ApplyOutputs\<close> is a function of the lamp variables only: six pin writes, in this order. The
  branch on the warning lamp in the code is dead: both of its results are overwritten.
\<close>

definition lamp_levels :: "'a body_lamps_scheme \<Rightarrow> (pin \<times> bool) list" where
  "lamp_levels s =
     [(BODY_HEAD_R, g_headlampOn s), (BODY_HEAD_G, g_headlampOn s), (BODY_HEAD_B, g_headlampOn s),
      (BODY_BRAKE, g_brakeLampOn s),
      (BODY_LEFT_TURN, g_leftTurnEnabled s \<and> g_blinkOutputOn s),
      (BODY_RIGHT_TURN, g_rightTurnEnabled s \<and> g_blinkOutputOn s)]"

definition lamps_applied :: "'a body_lamps_scheme \<Rightarrow> bool" where
  "lamps_applied s \<longleftrightarrow> (\<forall>(p, b) \<in> set (lamp_levels s). pin_cmd s p = b)"

lemma ApplyOutputs_writes:
  "BodyControl_ApplyOutputs s = fold (\<lambda>(p, b). set_pin p b) (lamp_levels s) s"
  by (simp add: BodyControl_ApplyOutputs_def lamp_levels_def BodyControl_WriteHeadlamp_def
      write_pin_eq Let_def set_pin_def)

lemma ApplyOutputs_pins:
  "pin_cmd (BodyControl_ApplyOutputs s) q =
     (case map_of (lamp_levels s) q of None \<Rightarrow> pin_cmd s q | Some b \<Rightarrow> b)"
  by (simp add: ApplyOutputs_writes lamp_levels_def)

text \<open>The setters in closed form, and the fields they leave alone.\<close>

lemma ApplyOutputs_form:
  "\<exists>m l. BodyControl_ApplyOutputs s = s\<lparr>pin_cmd := m, io_log := l @ io_log s\<rparr> \<and> waited l = 0"
  unfolding ApplyOutputs_writes lamp_levels_def
  apply (rule exI [where x = "pin_cmd (fold (\<lambda>(p, b). set_pin p b) (lamp_levels s) s)"])
  apply (rule exI [where x = "map (\<lambda>(p, b). SetPin p b) (rev (lamp_levels s))"])
  by (simp add: set_pin_def lamp_levels_def)

lemma ApplyOutputs_frame [fw_frame, simp]:
  "g_headlampOn (BodyControl_ApplyOutputs s) = g_headlampOn s"
  "g_brakeLampOn (BodyControl_ApplyOutputs s) = g_brakeLampOn s"
  "g_leftTurnEnabled (BodyControl_ApplyOutputs s) = g_leftTurnEnabled s"
  "g_rightTurnEnabled (BodyControl_ApplyOutputs s) = g_rightTurnEnabled s"
  "g_collisionWarningLampOn (BodyControl_ApplyOutputs s) = g_collisionWarningLampOn s"
  "g_hornEnabled (BodyControl_ApplyOutputs s) = g_hornEnabled s"
  "g_hornOutputOn (BodyControl_ApplyOutputs s) = g_hornOutputOn s"
  "g_hornTimerMs (BodyControl_ApplyOutputs s) = g_hornTimerMs s"
  "g_blinkOutputOn (BodyControl_ApplyOutputs s) = g_blinkOutputOn s"
  "g_blinkTimerMs (BodyControl_ApplyOutputs s) = g_blinkTimerMs s"
  "io_reads (BodyControl_ApplyOutputs s) = io_reads s"
  "pin_cfg (BodyControl_ApplyOutputs s) = pin_cfg s"
  "body_lamps.more (BodyControl_ApplyOutputs s) = body_lamps.more s"
  by (insert ApplyOutputs_form [of s], auto)

lemma lamps_applied_ApplyOutputs [fw_inv, simp]: "lamps_applied (BodyControl_ApplyOutputs s)"
  by (simp add: lamps_applied_def lamp_levels_def ApplyOutputs_pins)

lemma lamps_applied_iff:
  "lamps_applied s \<longleftrightarrow>
     pin_cmd s BODY_HEAD_R = g_headlampOn s \<and> pin_cmd s BODY_HEAD_G = g_headlampOn s \<and>
     pin_cmd s BODY_HEAD_B = g_headlampOn s \<and> pin_cmd s BODY_BRAKE = g_brakeLampOn s \<and>
     pin_cmd s BODY_LEFT_TURN = (g_leftTurnEnabled s \<and> g_blinkOutputOn s) \<and>
     pin_cmd s BODY_RIGHT_TURN = (g_rightTurnEnabled s \<and> g_blinkOutputOn s)"
  by (auto simp: lamps_applied_def lamp_levels_def)

lemma lamps_applied_blinkTimer [simp]: "lamps_applied (s\<lparr>g_blinkTimerMs := t\<rparr>) = lamps_applied s"
  by (simp add: lamps_applied_iff)

lemma lamps_applied_setters [fw_inv]:
  "lamps_applied (BodyControl_SetHeadlamp b s)"
  "lamps_applied (BodyControl_SetBrakeLamp b s)"
  "lamps_applied (BodyControl_SetBlinkRequest l r s)"
  "lamps_applied (BodyControl_SetTurnSignal m s)"
  by (simp_all add: BodyControl_SetHeadlamp_def BodyControl_SetBrakeLamp_def Let_def
      BodyControl_SetBlinkRequest_def BodyControl_SetTurnSignal_def split: prod.split)

lemma lamps_applied_UpdateBlink1ms [fw_inv]:
  "lamps_applied s \<Longrightarrow> lamps_applied (BodyControl_UpdateBlink1ms s)"
  by (auto simp: BodyControl_UpdateBlink1ms_def Let_def lamps_applied_blinkTimer)

section \<open>The blinker as a machine of its own\<close>

text \<open>
  The blink timer stays below half a period, and with a turn signal requested the lamps are lit
  for half a period, dark for the next, and so on, starting lit at the request.
\<close>

definition blink_ok :: "'a body_lamps_scheme \<Rightarrow> bool" where
  "blink_ok s \<longleftrightarrow> g_blinkTimerMs s < BODY_BLINK_HALF_PERIOD_MS \<and>
     (g_blinkOutputOn s \<longrightarrow> g_leftTurnEnabled s \<or> g_rightTurnEnabled s)"

lemma blink_ok_UpdateBlink1ms [fw_inv]: "blink_ok s \<Longrightarrow> blink_ok (BodyControl_UpdateBlink1ms s)"
  by (auto simp: blink_ok_def BodyControl_UpdateBlink1ms_def Let_def)

lemma blink_ok_SetBlinkRequest [fw_inv]: "blink_ok s \<Longrightarrow> blink_ok (BodyControl_SetBlinkRequest l r s)"
  by (auto simp: blink_ok_def BodyControl_SetBlinkRequest_def BodyControl_IsBlinkRequested_def Let_def)

lemma UpdateBlink1ms_turns [simp]:
  "g_leftTurnEnabled (BodyControl_UpdateBlink1ms s) = g_leftTurnEnabled s"
  "g_rightTurnEnabled (BodyControl_UpdateBlink1ms s) = g_rightTurnEnabled s"
  "g_headlampOn (BodyControl_UpdateBlink1ms s) = g_headlampOn s"
  "g_brakeLampOn (BodyControl_UpdateBlink1ms s) = g_brakeLampOn s"
  by (simp_all add: BodyControl_UpdateBlink1ms_def Let_def)

text \<open>One tick of a requested blinker, on the number of milliseconds since the request.\<close>

definition blink_at :: "nat \<Rightarrow> 'a body_lamps_scheme \<Rightarrow> bool" where
  "blink_at n s \<longleftrightarrow> unat (g_blinkTimerMs s) = n mod 500 \<and> g_blinkOutputOn s = even (n div 500)"

lemma blink_at_step:
  assumes "g_leftTurnEnabled s \<or> g_rightTurnEnabled s" and at: "blink_at n s"
  shows "blink_at (Suc n) (BodyControl_UpdateBlink1ms s)"
proof -
  have lt: "g_blinkTimerMs s < 500"
    using at by (simp add: blink_at_def word_less_nat_alt)
  then have inc: "unat (g_blinkTimerMs s + 1) = Suc (n mod 500)"
    using at by (simp add: unat_inc_below [OF lt] blink_at_def)
  then have full: "500 \<le> g_blinkTimerMs s + 1 \<longleftrightarrow> Suc (n mod 500) = 500"
    using mod_less_divisor [of 500 n] by (simp add: word_le_nat_alt) linarith
  show ?thesis
  proof (cases "Suc (n mod 500) = 500")
    case True
    then show ?thesis
      using assms full
      by (auto simp: BodyControl_UpdateBlink1ms_def Let_def blink_at_def mod_Suc div_Suc)
  next
    case False
    then show ?thesis
      using assms inc full
      by (auto simp: BodyControl_UpdateBlink1ms_def Let_def blink_at_def mod_Suc div_Suc)
  qed
qed

lemma blink_at_run:
  assumes "g_leftTurnEnabled s \<or> g_rightTurnEnabled s" and "blink_at 0 s"
  shows "blink_at n ((BodyControl_UpdateBlink1ms ^^ n) s) \<and>
    (g_leftTurnEnabled ((BodyControl_UpdateBlink1ms ^^ n) s) = g_leftTurnEnabled s) \<and>
    (g_rightTurnEnabled ((BodyControl_UpdateBlink1ms ^^ n) s) = g_rightTurnEnabled s)"
  using assms by (induction n) (auto intro: blink_at_step)

lemma SetTurnSignal_requests:
  "g_leftTurnEnabled (BodyControl_SetTurnSignal m s) \<longleftrightarrow> m = 1 \<or> m = 3"
  "g_rightTurnEnabled (BodyControl_SetTurnSignal m s) \<longleftrightarrow> m = 2 \<or> m = 3"
  by (auto simp: BodyControl_SetTurnSignal_def BodyControl_SetBlinkRequest_def Let_def
      split: prod.splits if_splits)

end
