(* ===== verification/Body_Echo.thy ===== *)
theory Body_Echo
  imports Body_State
begin

unbundle bit_operations_syntax

text \<open>
  The blocking distance measurement of \<open>src/BODY/BodyControl.c\<close>. Its two busy-wait loops may
  spin for ever if the system timer stands still, so they are partial functions; they return
  under \<open>hw_ok\<close>, which states what the code relies on: the STM runs, and a microsecond is at
  most 1000 of its ticks.
\<close>

section \<open>Operations\<close>

definition BodyControl_GetTicksFromUs :: "hw \<Rightarrow> u32 \<Rightarrow> u32" where
  "BodyControl_GetTicksFromUs h us =
     (let ticksPerUs = hw_ticks_us h;
          ticksPerUs = (if ticksPerUs = 0 then 1 else ticksPerUs)
      in ticksPerUs * us)"

partial_function (option) echo_state_loop ::
  "hw \<Rightarrow> bool \<Rightarrow> u32 \<Rightarrow> u32 \<Rightarrow> 'a io_scheme \<Rightarrow> (bool \<times> 'a io_scheme) option" where
  "echo_state_loop h targetHigh startTicks timeoutTicks s =
     (case BodyControl_ReadUltrasonicEchoHigh h s of (currentHigh, s) \<Rightarrow>
       if currentHigh = targetHigh then Some (True, s)
       else (case read_stm h s of (now, s) \<Rightarrow>
         if now - startTicks < timeoutTicks then echo_state_loop h targetHigh startTicks timeoutTicks s
         else Some (False, s)))"

definition BodyControl_WaitUltrasonicEchoState ::
  "hw \<Rightarrow> bool \<Rightarrow> u32 \<Rightarrow> 'a io_scheme \<Rightarrow> (bool \<times> 'a io_scheme) option" where
  "BodyControl_WaitUltrasonicEchoState h targetHigh timeoutUs s =
     (let (startTicks, s) = read_stm h s;
          timeoutTicks = BodyControl_GetTicksFromUs h timeoutUs
      in echo_state_loop h targetHigh startTicks timeoutTicks s)"

text \<open>The second loop: \<open>None\<close> inside means the echo stayed high past the timeout.\<close>

partial_function (option) echo_pulse_loop ::
  "hw \<Rightarrow> u32 \<Rightarrow> u32 \<Rightarrow> 'a io_scheme \<Rightarrow> (bool \<times> 'a io_scheme) option" where
  "echo_pulse_loop h pulseStartTicks timeoutTicks s =
     (case BodyControl_ReadUltrasonicEchoHigh h s of (high, s) \<Rightarrow>
       if \<not> high then Some (True, s)
       else (case read_stm h s of (now, s) \<Rightarrow>
         if now - pulseStartTicks \<ge> timeoutTicks then Some (False, s)
         else echo_pulse_loop h pulseStartTicks timeoutTicks s))"

definition ultrasonic_trigger :: "'a io_scheme \<Rightarrow> 'a io_scheme" where
  "ultrasonic_trigger s =
     (let s = BodyControl_WriteUltrasonicTrig False s;
          s = BodyControl_DelayUs 2 s;
          s = BodyControl_WriteUltrasonicTrig True s;
          s = BodyControl_DelayUs 10 s
      in BodyControl_WriteUltrasonicTrig False s)"

definition echo_distance :: "hw \<Rightarrow> u32 \<Rightarrow> u16" where
  "echo_distance h pulseTicks =
     (let ticksPerUs = BodyControl_GetTicksFromUs h 1;
          pulseUs = pulseTicks div ticksPerUs;
          distance = pulseUs div 58;
          distance = (if distance > BODY_ULTRASONIC_NO_OBJECT_CM
                      then BODY_ULTRASONIC_NO_OBJECT_CM else distance)
      in ucast distance)"

text \<open>The result is \<open>Some d\<close> where the code stores \<open>d\<close> and returns \<open>TRUE\<close>.\<close>

definition BodyControl_MeasureUltrasonicDistanceCmWithTimeout ::
  "hw \<Rightarrow> u32 \<Rightarrow> 'a io_scheme \<Rightarrow> (u16 option \<times> 'a io_scheme) option" where
  "BodyControl_MeasureUltrasonicDistanceCmWithTimeout h echoTimeoutUs s = do {
     (idle, s) \<leftarrow>
       BodyControl_WaitUltrasonicEchoState h False BODY_ULTRASONIC_ECHO_IDLE_TIMEOUT_US s;
     if \<not> idle then Some (None, s)
     else do {
       let s = ultrasonic_trigger s;
       (rose, s) \<leftarrow> BodyControl_WaitUltrasonicEchoState h True echoTimeoutUs s;
       if \<not> rose then Some (None, s)
       else do {
         let (pulseStartTicks, s) = read_stm h s;
         let timeoutTicks = BodyControl_GetTicksFromUs h echoTimeoutUs;
         (fell, s) \<leftarrow> echo_pulse_loop h pulseStartTicks timeoutTicks s;
         if \<not> fell then Some (None, s)
         else do {
           let (now, s) = read_stm h s;
           Some (Some (echo_distance h (now - pulseStartTicks)), s)
         }
       }
     }
   }"

definition BodyControl_MeasureUltrasonicDistanceCm ::
  "hw \<Rightarrow> 'a io_scheme \<Rightarrow> (u16 option \<times> 'a io_scheme) option" where
  "BodyControl_MeasureUltrasonicDistanceCm h s =
     BodyControl_MeasureUltrasonicDistanceCmWithTimeout h BODY_ULTRASONIC_ECHO_TIMEOUT_US s"

section \<open>The loops return\<close>

definition stm_clock :: "hw \<Rightarrow> bool" where
  "stm_clock h \<longleftrightarrow>
     (\<exists>T :: nat \<Rightarrow> nat. (\<forall>n. hw_stm h n = of_nat (T n)) \<and>
        (\<forall>n. T n < T (Suc n) \<and> T (Suc n) \<le> T n + 2 ^ 30))"

definition hw_ok :: "hw \<Rightarrow> bool" where
  "hw_ok h \<longleftrightarrow> stm_clock h \<and> hw_ticks_us h \<le> 1000"

lemma read_simps [simp]:
  "BodyControl_ReadUltrasonicEchoHigh h s =
     (hw_pin h (io_reads s) BODY_ULTRASONIC_ECHO, s\<lparr>io_reads := Suc (io_reads s)\<rparr>)"
  "read_stm h s = (hw_stm h (io_reads s), s\<lparr>io_reads := Suc (io_reads s)\<rparr>)"
  by (simp_all add: BodyControl_ReadUltrasonicEchoHigh_def read_pin_def read_stm_def)

text \<open>
  One step of either loop reads the timer once more; as long as the difference has not wrapped
  it grows, so a timeout below \<open>2 ^ 30\<close> is reached.
\<close>

lemma elapsed_word:
  assumes "\<And>n. hw_stm h n = of_nat (T n)" and "T i0 \<le> T i" and "T i < T i0 + 2 ^ 32"
  shows "unat (hw_stm h i - hw_stm h i0) = T i - T i0"
proof -
  have "hw_stm h i - hw_stm h i0 = of_nat (T i - T i0)"
    using assms by (simp add: of_nat_diff)
  moreover have "T i - T i0 < 2 ^ LENGTH(32)" using assms by auto
  ultimately show ?thesis by (simp add: unat_of_nat take_bit_nat_eq_self)
qed

lemma clock_mono:
  fixes T :: "nat \<Rightarrow> nat"
  assumes "\<And>n. T n < T (Suc n)"
  shows "i \<le> j \<Longrightarrow> T i + (j - i) \<le> T j"
proof (induction j)
  case (Suc j)
  then show ?case using assms [of j] by (cases "i = Suc j") auto
qed simp

lemma loop_step:
  fixes timeout :: u32
  assumes T: "\<And>n. hw_stm h n = of_nat (T n)" "\<And>n. T n < T (Suc n)" "\<And>n. T (Suc n) \<le> T n + 2 ^ 30"
    and to: "unat timeout \<le> 2 ^ 30" and i: "i0 \<le> i" "T i \<le> T i0 + unat timeout + 2 ^ 30"
    and lt: "hw_stm h (Suc i) - hw_stm h i0 < timeout"
  shows "T (Suc (Suc i)) \<le> T i0 + unat timeout + 2 ^ 30" and "T i < T (Suc (Suc i))"
proof -
  have le: "T i0 \<le> T i" using clock_mono [of T i0 i] T(2) i(1) by auto
  have b: "T (Suc i) < T i0 + 2 ^ 32" using T(3) [of i] i(2) to by simp
  have "unat (hw_stm h (Suc i) - hw_stm h i0) = T (Suc i) - T i0"
    using elapsed_word [of h T i0 "Suc i"] T(1) b le T(2) [of i] by auto
  with lt have "T (Suc i) - T i0 < unat timeout" by (simp add: word_less_nat_alt)
  then show "T (Suc (Suc i)) \<le> T i0 + unat timeout + 2 ^ 30" using T(3) [of "Suc i"] by simp
  show "T i < T (Suc (Suc i))" using T(2) [of i] T(2) [of "Suc i"] by simp
qed

text \<open>Both loops have the shape "test the echo, then the clock": one induction serves them.\<close>

lemma clock_loop_returns:
  fixes timeout :: u32 and loop :: "'a io_scheme \<Rightarrow> (bool \<times> 'a io_scheme) option"
  assumes T: "\<And>n. hw_stm h n = of_nat (T n)" "\<And>n. T n < T (Suc n)" "\<And>n. T (Suc n) \<le> T n + 2 ^ 30"
    and to: "unat timeout \<le> 2 ^ 30"
    and unfold: "\<And>s. (\<exists>r. loop s = Some r) \<or>
       (hw_stm h (Suc (io_reads s)) - hw_stm h i0 < timeout \<and>
        loop s = loop (s\<lparr>io_reads := Suc (Suc (io_reads s))\<rparr>))"
  shows "i0 \<le> io_reads s \<Longrightarrow> T (io_reads s) \<le> T i0 + unat timeout + 2 ^ 30 \<Longrightarrow>
    \<exists>r. loop s = Some r"
proof (induction "T i0 + unat timeout + 2 ^ 30 - T (io_reads s)" arbitrary: s rule: less_induct)
  case less
  show ?case
  proof (rule disjE [OF unfold [of s]], assumption)
    assume a: "hw_stm h (Suc (io_reads s)) - hw_stm h i0 < timeout \<and>
      loop s = loop (s\<lparr>io_reads := Suc (Suc (io_reads s))\<rparr>)"
    note n = loop_step [OF T to less.prems a [THEN conjunct1]]
    have "\<exists>r. loop (s\<lparr>io_reads := Suc (Suc (io_reads s))\<rparr>) = Some r"
      using less.prems n by (intro less.hyps) auto
    with a show ?thesis by simp
  qed
qed

lemma echo_loops_unfold:
  "(\<exists>r. echo_state_loop h target start timeout s = Some r) \<or>
     (hw_stm h (Suc (io_reads s)) - start < timeout \<and>
      echo_state_loop h target start timeout s =
        echo_state_loop h target start timeout (s\<lparr>io_reads := Suc (Suc (io_reads s))\<rparr>))"
  "(\<exists>r. echo_pulse_loop h start timeout s = Some r) \<or>
     (hw_stm h (Suc (io_reads s)) - start < timeout \<and>
      echo_pulse_loop h start timeout s =
        echo_pulse_loop h start timeout (s\<lparr>io_reads := Suc (Suc (io_reads s))\<rparr>))"
  by (auto simp: echo_state_loop.simps [of h target start timeout s] not_le)
    (auto simp: echo_pulse_loop.simps [of h start timeout s] not_le split: if_splits)

lemma echo_loops_return:
  assumes "stm_clock h" and "unat timeout \<le> 2 ^ 30" and "io_reads s = Suc i0"
  shows "\<exists>r. echo_state_loop h target (hw_stm h i0) timeout s = Some r"
    and "\<exists>r. echo_pulse_loop h (hw_stm h i0) timeout s = Some r"
proof -
  from assms(1) obtain T :: "nat \<Rightarrow> nat" where T: "\<And>n. hw_stm h n = of_nat (T n)"
      "\<And>n. T n < T (Suc n)" "\<And>n. T (Suc n) \<le> T n + 2 ^ 30"
    by (auto simp: stm_clock_def)
  have s: "i0 \<le> io_reads s" "T (io_reads s) \<le> T i0 + unat timeout + 2 ^ 30"
    using assms(3) T(3) [of i0] by simp_all
  show "\<exists>r. echo_state_loop h target (hw_stm h i0) timeout s = Some r"
    by (rule clock_loop_returns [OF T assms(2) echo_loops_unfold(1) s])
  show "\<exists>r. echo_pulse_loop h (hw_stm h i0) timeout s = Some r"
    by (rule clock_loop_returns [OF T assms(2) echo_loops_unfold(2) s])
qed

lemma ticks_bound:
  assumes "hw_ticks_us h \<le> 1000" and "us \<le> 50000"
  shows "unat (BodyControl_GetTicksFromUs h us) \<le> 2 ^ 30"
proof -
  let ?t = "if hw_ticks_us h = 0 then 1 else hw_ticks_us h"
  have "unat ?t * unat us \<le> 1000 * 50000"
    using assms by (intro mult_le_mono) (auto simp: word_le_nat_alt)
  then show ?thesis
    by (simp add: BodyControl_GetTicksFromUs_def Let_def unat_word_ariths)
qed

lemma WaitEcho_returns:
  assumes "hw_ok h" and "us \<le> 50000"
  shows "\<exists>b t. BodyControl_WaitUltrasonicEchoState h target us s = Some (b, t)"
  using echo_loops_return(1) [of h "BodyControl_GetTicksFromUs h us"
      "s\<lparr>io_reads := Suc (io_reads s)\<rparr>" "io_reads s" target] assms ticks_bound [of h us]
  by (auto simp: BodyControl_WaitUltrasonicEchoState_def hw_ok_def)

lemma Measure_returns:
  assumes "hw_ok h" and "us \<le> 50000"
  shows "\<exists>d t. BodyControl_MeasureUltrasonicDistanceCmWithTimeout h us s = Some (d, t)"
proof -
  obtain b1 s1 where 1: "BodyControl_WaitUltrasonicEchoState h False 300 s = Some (b1, s1)"
    using WaitEcho_returns [OF assms(1), of 300 False s] by auto
  obtain b2 s2 where 2:
      "BodyControl_WaitUltrasonicEchoState h True us (ultrasonic_trigger s1) = Some (b2, s2)"
    using WaitEcho_returns [OF assms] by blast
  have "unat (BodyControl_GetTicksFromUs h us) \<le> 2 ^ 30"
    using assms by (intro ticks_bound) (auto simp: hw_ok_def)
  then obtain b3 s3 where 3: "echo_pulse_loop h (hw_stm h (io_reads s2))
      (BodyControl_GetTicksFromUs h us) (s2\<lparr>io_reads := Suc (io_reads s2)\<rparr>) = Some (b3, s3)"
    using echo_loops_return(2) [of h "BodyControl_GetTicksFromUs h us"
        "s2\<lparr>io_reads := Suc (io_reads s2)\<rparr>" "io_reads s2"] assms(1)
    by (auto simp: hw_ok_def)
  show ?thesis
    by (simp add: BodyControl_MeasureUltrasonicDistanceCmWithTimeout_def 1 2 3)
qed

section \<open>What a measurement changes and returns\<close>

text \<open>
  A measurement touches nothing but the trigger pin, the read counter and the log, and what it
  adds to the log is nothing or one trigger pulse: low for 2 us, high for 10 us, low.
\<close>

definition trigger_pulse :: "io_event list" where
  "trigger_pulse =
     [SetPin BODY_ULTRASONIC_TRIG False, WaitUs 10, SetPin BODY_ULTRASONIC_TRIG True,
      WaitUs 2, SetPin BODY_ULTRASONIC_TRIG False]"

definition measured :: "'a io_scheme \<Rightarrow> 'a io_scheme \<Rightarrow> bool" where
  "measured s t \<longleftrightarrow> (\<exists>n. t = s\<lparr>io_reads := n\<rparr> \<or>
     t = s\<lparr>pin_cmd := (pin_cmd s)(BODY_ULTRASONIC_TRIG := False),
           io_log := trigger_pulse @ io_log s, io_reads := n\<rparr>)"

lemma echo_loops_state:
  "echo_state_loop h target start timeout s = Some r \<Longrightarrow> \<exists>n. snd r = s\<lparr>io_reads := n\<rparr>"
  "echo_pulse_loop h start timeout s = Some r' \<Longrightarrow> \<exists>n. snd r' = s\<lparr>io_reads := n\<rparr>"
proof -
  show "\<exists>n. snd r = s\<lparr>io_reads := n\<rparr>" if "echo_state_loop h target start timeout s = Some r"
    by (rule echo_state_loop.raw_induct
        [where P = "\<lambda>h target start timeout s r. \<exists>n. snd r = s\<lparr>io_reads := n\<rparr>", OF _ that])
      (fastforce split: if_splits)
  show "\<exists>n. snd r' = s\<lparr>io_reads := n\<rparr>" if "echo_pulse_loop h start timeout s = Some r'"
    by (rule echo_pulse_loop.raw_induct
        [where P = "\<lambda>h start timeout s r. \<exists>n. snd r = s\<lparr>io_reads := n\<rparr>", OF _ that])
      (fastforce split: if_splits)
qed

lemma WaitEcho_state:
  "BodyControl_WaitUltrasonicEchoState h target us s = Some (b, t) \<Longrightarrow> \<exists>n. t = s\<lparr>io_reads := n\<rparr>"
  by (auto simp: BodyControl_WaitUltrasonicEchoState_def dest!: echo_loops_state(1))

lemma ultrasonic_trigger_eq:
  "ultrasonic_trigger s = s\<lparr>pin_cmd := (pin_cmd s)(BODY_ULTRASONIC_TRIG := False),
     io_log := trigger_pulse @ io_log s\<rparr>"
  by (simp add: ultrasonic_trigger_def write_pin_eq set_pin_def BodyControl_DelayUs_def wait_us_def
      trigger_pulse_def Let_def)

lemma Measure_state:
  assumes "BodyControl_MeasureUltrasonicDistanceCmWithTimeout h us s = Some (d, t)"
  shows "measured s t"
proof -
  note def = BodyControl_MeasureUltrasonicDistanceCmWithTimeout_def bind_Some_iff
  from assms obtain b1 s1 where 1: "BodyControl_WaitUltrasonicEchoState h False 300 s = Some (b1, s1)"
    by (auto simp: def)
  then obtain n1 where s1: "s1 = s\<lparr>io_reads := n1\<rparr>" using WaitEcho_state by blast
  show ?thesis
  proof (cases b1)
    case False
    with assms 1 s1 show ?thesis by (auto simp: def measured_def)
  next
    case True
    with assms 1 obtain b2 s2 where
      2: "BodyControl_WaitUltrasonicEchoState h True us (ultrasonic_trigger s1) = Some (b2, s2)"
      by (auto simp: def)
    then obtain n2 where s2: "s2 = (ultrasonic_trigger s1)\<lparr>io_reads := n2\<rparr>"
      using WaitEcho_state by blast
    have "\<exists>n. t = (ultrasonic_trigger s1)\<lparr>io_reads := n\<rparr>"
      using assms 1 2 \<open>b1\<close> s2
      by (auto simp: def split: if_splits dest!: echo_loops_state(2))
    then show ?thesis by (fastforce simp: measured_def s1 ultrasonic_trigger_eq)
  qed
qed

lemma echo_distance_bound: "echo_distance h n \<le> 400"
proof -
  define d where "d = (if n div BodyControl_GetTicksFromUs h 1 div 58 > 400 then 400
    else n div BodyControl_GetTicksFromUs h 1 div 58)"
  have "d \<le> 400" by (simp add: d_def not_less)
  then have "unat d \<le> 400" by (simp add: word_le_nat_alt)
  then have "unat (ucast d :: u16) \<le> 400" by (simp add: unsigned_ucast_eq take_bit_nat_eq_self)
  then show ?thesis by (simp add: echo_distance_def Let_def d_def word_le_nat_alt)
qed

lemma Measure_bound:
  assumes "BodyControl_MeasureUltrasonicDistanceCmWithTimeout h us s = Some (Some d, t)"
  shows "d \<le> 400"
  using assms
  by (auto simp: BodyControl_MeasureUltrasonicDistanceCmWithTimeout_def bind_Some_iff
      echo_distance_bound split: if_splits)

end
