(* ===== verification/Body_Diag.thy ===== *)
theory Body_Diag
  imports Body_Lamps Body_Echo
begin

unbundle bit_operations_syntax

text \<open>
  Lamp diagnosis and the danger LED of \<open>src/BODY/BodyControl.c\<close>: reading the feedback pins, the
  start-up self-test, the per-lamp monitors that latch a fault, and the LED that shows it, steady
  or blinking. \<open>danger_led_ok\<close> says that the LED shows the latched faults; the monitors latch a
  fault after exactly their confirmation time without feedback, and nothing here clears one.
\<close>

section \<open>Operations\<close>

definition BodyControl_ReadDiagFeedbackMaskRaw :: "hw \<Rightarrow> 'a io_scheme \<Rightarrow> u8 \<times> 'a io_scheme" where
  "BodyControl_ReadDiagFeedbackMaskRaw h s =
     (let mask = 0;
          (high, s) = BodyControl_ReadDiagPin h BODY_DIAG_BRAKE_FB s;
          mask = (if high then mask OR BODY_DIAG_BRAKE_LAMP_BIT else mask);
          (high, s) = BodyControl_ReadDiagPin h BODY_DIAG_HEAD_FB s;
          mask = (if high then mask OR BODY_DIAG_HEADLAMP_BIT else mask);
          (high, s) = BodyControl_ReadDiagPin h BODY_DIAG_LEFT_FB s;
          mask = (if high then mask OR BODY_DIAG_LEFT_TURN_BIT else mask);
          (high, s) = BodyControl_ReadDiagPin h BODY_DIAG_RIGHT_FB s;
          mask = (if high then mask OR BODY_DIAG_RIGHT_TURN_BIT else mask)
      in (mask, s))"

definition BodyControl_WriteDiagDangerLed :: "bool \<Rightarrow> 'a io_scheme \<Rightarrow> 'a io_scheme" where
  "BodyControl_WriteDiagDangerLed on s = BodyControl_WriteNormalLedPin BODY_DIAG_DANGER_LED on s"

definition BodyControl_IsDiagDangerLedSteadyOn :: "'a body_diag_scheme \<Rightarrow> bool" where
  "BodyControl_IsDiagDangerLedSteadyOn s =
     (let nonUltrasonicFaultMask = g_diagFaultMask s AND NOT BODY_DIAG_ULTRASONIC_BIT
      in nonUltrasonicFaultMask \<noteq> 0 \<or> g_ultrasonicDtcStatus s AND BODY_DTC_STATUS_CURRENT_BIT \<noteq> 0)"

definition BodyControl_UpdateDiagDangerLed :: "'a body_diag_scheme \<Rightarrow> 'a body_diag_scheme" where
  "BodyControl_UpdateDiagDangerLed s =
     (if g_diagDangerBlinkActive s then s
      else BodyControl_WriteDiagDangerLed (BodyControl_IsDiagDangerLedSteadyOn s) s)"

definition BodyControl_StartDiagDangerLedBlink :: "'a body_diag_scheme \<Rightarrow> 'a body_diag_scheme" where
  "BodyControl_StartDiagDangerLedBlink s =
     BodyControl_WriteDiagDangerLed True
       (s\<lparr>g_diagDangerBlinkActive := True, g_diagDangerBlinkOutputOn := True,
          g_diagDangerBlinkToggleCount := 0, g_diagDangerBlinkTimerMs := 0\<rparr>)"

definition BodyControl_UpdateDiagDangerLedBlink1ms :: "'a body_diag_scheme \<Rightarrow> 'a body_diag_scheme" where
  "BodyControl_UpdateDiagDangerLedBlink1ms s =
     (if \<not> g_diagDangerBlinkActive s then s
      else if g_diagDangerBlinkTimerMs s < BODY_DIAG_DANGER_BLINK_HALF_PERIOD_MS
      then s\<lparr>g_diagDangerBlinkTimerMs := g_diagDangerBlinkTimerMs s + 1\<rparr>
      else
        let s = s\<lparr>g_diagDangerBlinkTimerMs := 0,
                  g_diagDangerBlinkToggleCount := g_diagDangerBlinkToggleCount s + 1\<rparr>;
            maxToggleCount = BODY_DIAG_DANGER_BLINK_CYCLES * 2
        in if g_diagDangerBlinkToggleCount s \<ge> maxToggleCount
           then BodyControl_UpdateDiagDangerLed
                  (s\<lparr>g_diagDangerBlinkActive := False, g_diagDangerBlinkOutputOn := False,
                     g_diagDangerBlinkToggleCount := 0\<rparr>)
           else
             let s = s\<lparr>g_diagDangerBlinkOutputOn := \<not> g_diagDangerBlinkOutputOn s\<rparr>
             in BodyControl_WriteDiagDangerLed (g_diagDangerBlinkOutputOn s) s)"

text \<open>The four writes with which the self-test and the LED routine light and darken the lamps.\<close>

definition write_all_lamps :: "bool \<Rightarrow> 'a io_scheme \<Rightarrow> 'a io_scheme" where
  "write_all_lamps on s =
     (let s = BodyControl_WriteHeadlamp on s;
          s = BodyControl_WriteBrakePin on s;
          s = BodyControl_WriteNormalLedPin BODY_LEFT_TURN on s
      in BodyControl_WriteNormalLedPin BODY_RIGHT_TURN on s)"

definition startup_fault_mask :: "u8 \<Rightarrow> u8" where
  "startup_fault_mask feedbackMask =
     (let startupFaultMask = 0;
          startupFaultMask = (if feedbackMask AND BODY_DIAG_BRAKE_LAMP_BIT = 0
            then startupFaultMask OR BODY_DIAG_BRAKE_LAMP_BIT else startupFaultMask);
          startupFaultMask = (if feedbackMask AND BODY_DIAG_HEADLAMP_BIT = 0
            then startupFaultMask OR BODY_DIAG_HEADLAMP_BIT else startupFaultMask);
          startupFaultMask = (if feedbackMask AND BODY_DIAG_LEFT_TURN_BIT = 0
            then startupFaultMask OR BODY_DIAG_LEFT_TURN_BIT else startupFaultMask);
          startupFaultMask = (if feedbackMask AND BODY_DIAG_RIGHT_TURN_BIT = 0
            then startupFaultMask OR BODY_DIAG_RIGHT_TURN_BIT else startupFaultMask)
      in startupFaultMask)"

definition BodyControl_RunStartupSelfDiagnosis :: "hw \<Rightarrow> 'a body_scheme \<Rightarrow> 'a body_scheme" where
  "BodyControl_RunStartupSelfDiagnosis h s =
     (let s = write_all_lamps True s;
          s = BodyControl_DelayMs BODY_DIAG_STARTUP_SELF_TEST_MS s;
          (feedbackMask, s) = BodyControl_ReadDiagFeedbackMaskRaw h s;
          startupFaultMask = startup_fault_mask feedbackMask;
          s = s\<lparr>g_diagFaultMask := g_diagFaultMask s OR startupFaultMask,
                g_diagFeedbackMask := feedbackMask,
                g_debugBodyDiagStartupFaultMask := startupFaultMask\<rparr>;
          s = s\<lparr>g_debugBodyDiagFaultMask := g_diagFaultMask s,
                g_debugBodyDiagFeedbackMask := g_diagFeedbackMask s\<rparr>;
          s = write_all_lamps False s
      in BodyControl_UpdateDiagDangerLed s)"

text \<open>\<open>*lowTimerMs\<close> is passed in and returned; the result is the new timer and fault mask.\<close>

definition BodyControl_UpdateDiagOneSignal ::
  "bool \<Rightarrow> bool \<Rightarrow> u32 \<Rightarrow> u8 \<Rightarrow> u32 \<times> u8 \<Rightarrow> u32 \<times> u8" where
  "BodyControl_UpdateDiagOneSignal commandOn feedbackOn confirmMs faultBit tf =
     (let (lowTimerMs, faultMask) = tf
      in if \<not> commandOn then (0, faultMask)
         else if feedbackOn then (0, faultMask)
         else
           let lowTimerMs = (if lowTimerMs < confirmMs then lowTimerMs + 1 else lowTimerMs)
           in (lowTimerMs, if lowTimerMs \<ge> confirmMs then faultMask OR faultBit else faultMask))"

definition diag_command_mask :: "'a body_diag_scheme \<Rightarrow> u8" where
  "diag_command_mask s =
     (let m = 0;
          m = (if g_brakeLampOn s then m OR BODY_DIAG_BRAKE_LAMP_BIT else m);
          m = (if g_headlampOn s then m OR BODY_DIAG_HEADLAMP_BIT else m);
          m = (if g_leftTurnEnabled s then m OR BODY_DIAG_LEFT_TURN_BIT else m);
          m = (if g_rightTurnEnabled s then m OR BODY_DIAG_RIGHT_TURN_BIT else m);
          m = (if g_collisionWarningLampOn s then m OR BODY_DIAG_ULTRASONIC_BIT else m)
      in m)"

text \<open>The four calls of it in \<open>BodyControl_UpdateDiagnosis1ms\<close>, each with its own timer.\<close>

definition diag_brake_signal :: "bool \<Rightarrow> 'a body_diag_scheme \<Rightarrow> 'a body_diag_scheme" where
  "diag_brake_signal fb s =
     (let (t, f) = BodyControl_UpdateDiagOneSignal (g_brakeLampOn s) fb
            BODY_DIAG_STEADY_CONFIRM_MS BODY_DIAG_BRAKE_LAMP_BIT
            (g_diagBrakeLowTimerMs s, g_diagFaultMask s)
      in s\<lparr>g_diagBrakeLowTimerMs := t, g_diagFaultMask := f\<rparr>)"

definition diag_head_signal :: "bool \<Rightarrow> 'a body_diag_scheme \<Rightarrow> 'a body_diag_scheme" where
  "diag_head_signal fb s =
     (let (t, f) = BodyControl_UpdateDiagOneSignal (g_headlampOn s) fb
            BODY_DIAG_STEADY_CONFIRM_MS BODY_DIAG_HEADLAMP_BIT
            (g_diagHeadLowTimerMs s, g_diagFaultMask s)
      in s\<lparr>g_diagHeadLowTimerMs := t, g_diagFaultMask := f\<rparr>)"

definition diag_left_signal :: "bool \<Rightarrow> 'a body_diag_scheme \<Rightarrow> 'a body_diag_scheme" where
  "diag_left_signal fb s =
     (let (t, f) = BodyControl_UpdateDiagOneSignal (g_leftTurnEnabled s) fb
            BODY_DIAG_BLINK_CONFIRM_MS BODY_DIAG_LEFT_TURN_BIT
            (g_diagLeftLowTimerMs s, g_diagFaultMask s)
      in s\<lparr>g_diagLeftLowTimerMs := t, g_diagFaultMask := f\<rparr>)"

definition diag_right_signal :: "bool \<Rightarrow> 'a body_diag_scheme \<Rightarrow> 'a body_diag_scheme" where
  "diag_right_signal fb s =
     (let (t, f) = BodyControl_UpdateDiagOneSignal (g_rightTurnEnabled s) fb
            BODY_DIAG_BLINK_CONFIRM_MS BODY_DIAG_RIGHT_TURN_BIT
            (g_diagRightLowTimerMs s, g_diagFaultMask s)
      in s\<lparr>g_diagRightLowTimerMs := t, g_diagFaultMask := f\<rparr>)"

definition BodyControl_UpdateDiagnosis1ms :: "hw \<Rightarrow> 'a body_scheme \<Rightarrow> 'a body_scheme" where
  "BodyControl_UpdateDiagnosis1ms h s =
     (let s = s\<lparr>g_diagCommandMask := diag_command_mask s\<rparr>;
          (feedbackMask, s) = BodyControl_ReadDiagFeedbackMaskRaw h s;
          s = s\<lparr>g_diagFeedbackMask := feedbackMask\<rparr>;
          brakeFeedbackOn = (g_diagFeedbackMask s AND BODY_DIAG_BRAKE_LAMP_BIT \<noteq> 0);
          headFeedbackOn = (g_diagFeedbackMask s AND BODY_DIAG_HEADLAMP_BIT \<noteq> 0);
          leftFeedbackOn = (g_diagFeedbackMask s AND BODY_DIAG_LEFT_TURN_BIT \<noteq> 0);
          rightFeedbackOn = (g_diagFeedbackMask s AND BODY_DIAG_RIGHT_TURN_BIT \<noteq> 0);
          s = diag_brake_signal brakeFeedbackOn s;
          s = diag_head_signal headFeedbackOn s;
          s = diag_left_signal leftFeedbackOn s;
          s = diag_right_signal rightFeedbackOn s;
          s = s\<lparr>g_debugBodyDiagFaultMask := g_diagFaultMask s,
                g_debugBodyDiagCommandMask := g_diagCommandMask s,
                g_debugBodyDiagFeedbackMask := g_diagFeedbackMask s\<rparr>
      in BodyControl_UpdateDiagDangerLed s)"

definition BodyControl_ClearDiagFaults :: "'a body_scheme \<Rightarrow> 'a body_scheme" where
  "BodyControl_ClearDiagFaults s =
     (let s = s\<lparr>g_diagFaultMask := 0, g_diagBrakeLowTimerMs := 0, g_diagHeadLowTimerMs := 0,
                g_diagLeftLowTimerMs := 0, g_diagRightLowTimerMs := 0\<rparr>;
          s = s\<lparr>g_debugBodyDiagFaultMask := g_diagFaultMask s\<rparr>
      in BodyControl_UpdateDiagDangerLed s)"

section \<open>The danger LED\<close>

definition danger_led_ok :: "'a body_diag_scheme \<Rightarrow> bool" where
  "danger_led_ok s \<longleftrightarrow> pin_cmd s BODY_DIAG_DANGER_LED =
     (if g_diagDangerBlinkActive s then g_diagDangerBlinkOutputOn s
      else BodyControl_IsDiagDangerLedSteadyOn s)"

lemma ReadMask_state [simp]:
  "snd (BodyControl_ReadDiagFeedbackMaskRaw h s) = s\<lparr>io_reads := io_reads s + 4\<rparr>"
  by (simp add: BodyControl_ReadDiagFeedbackMaskRaw_def BodyControl_ReadDiagPin_def read_pin_def
      Let_def)

definition feedback_mask :: "hw \<Rightarrow> nat \<Rightarrow> u8" where
  "feedback_mask h n =
     (if hw_pin h n BODY_DIAG_BRAKE_FB then 1 else 0) OR
     (if hw_pin h (n + 1) BODY_DIAG_HEAD_FB then 2 else 0) OR
     (if hw_pin h (n + 2) BODY_DIAG_LEFT_FB then 4 else 0) OR
     (if hw_pin h (n + 3) BODY_DIAG_RIGHT_FB then 8 else 0)"

lemma ReadMask_eq:
  "BodyControl_ReadDiagFeedbackMaskRaw h s =
     (feedback_mask h (io_reads s), s\<lparr>io_reads := io_reads s + 4\<rparr>)"
  by (simp add: BodyControl_ReadDiagFeedbackMaskRaw_def BodyControl_ReadDiagPin_def read_pin_def
      Let_def feedback_mask_def numeral_eq_Suc)

lemma SteadyOn_cong [simp]:
  "BodyControl_IsDiagDangerLedSteadyOn (set_pin p b s) = BodyControl_IsDiagDangerLedSteadyOn s"
  by (simp add: BodyControl_IsDiagDangerLedSteadyOn_def set_pin_def)

lemma UpdateDiagDangerLed_form:
  "BodyControl_UpdateDiagDangerLed s =
     (if g_diagDangerBlinkActive s then s
      else set_pin BODY_DIAG_DANGER_LED (BodyControl_IsDiagDangerLedSteadyOn s) s)"
  by (simp add: BodyControl_UpdateDiagDangerLed_def BodyControl_WriteDiagDangerLed_def write_pin_eq)

lemma set_pin_diag_sel [simp]:
  "g_diagDangerBlinkActive (set_pin p b s) = g_diagDangerBlinkActive s"
  "g_diagDangerBlinkOutputOn (set_pin p b s) = g_diagDangerBlinkOutputOn s"
  "g_diagFaultMask (set_pin p b s) = g_diagFaultMask s"
  "g_ultrasonicDtcStatus (set_pin p b s) = g_ultrasonicDtcStatus s"
  by (simp_all add: set_pin_def)

text \<open>
  After \<open>UpdateDiagDangerLed\<close> the LED is right if, while it blinks, it already showed the blink.
\<close>

definition blink_led_ok :: "'a body_diag_scheme \<Rightarrow> bool" where
  "blink_led_ok s \<longleftrightarrow>
     (g_diagDangerBlinkActive s \<longrightarrow> pin_cmd s BODY_DIAG_DANGER_LED = g_diagDangerBlinkOutputOn s)"

lemma danger_led_blink: "danger_led_ok s \<Longrightarrow> blink_led_ok s"
  by (simp add: danger_led_ok_def blink_led_ok_def)

lemma danger_led_UpdateDiagDangerLed [fw_inv]:
  "blink_led_ok s \<Longrightarrow> danger_led_ok (BodyControl_UpdateDiagDangerLed s)"
  by (simp add: danger_led_ok_def blink_led_ok_def UpdateDiagDangerLed_form)

lemma danger_led_StartBlink [fw_inv]: "danger_led_ok (BodyControl_StartDiagDangerLedBlink s)"
  by (simp add: danger_led_ok_def BodyControl_StartDiagDangerLedBlink_def
      BodyControl_WriteDiagDangerLed_def write_pin_eq)

lemma danger_led_Blink1ms [fw_inv]:
  assumes "danger_led_ok s"
  shows "danger_led_ok (BodyControl_UpdateDiagDangerLedBlink1ms s)"
proof (cases "g_diagDangerBlinkActive s \<and> \<not> g_diagDangerBlinkTimerMs s < 250")
  case True
  then show ?thesis
    using assms
    by (auto simp: BodyControl_UpdateDiagDangerLedBlink1ms_def Let_def danger_led_ok_def
        UpdateDiagDangerLed_form BodyControl_WriteDiagDangerLed_def write_pin_eq)
next
  case False
  then show ?thesis
    using assms
    by (auto simp: BodyControl_UpdateDiagDangerLedBlink1ms_def danger_led_ok_def
        BodyControl_IsDiagDangerLedSteadyOn_def)
qed

lemmas diag_signal_defs =
  diag_brake_signal_def diag_head_signal_def diag_left_signal_def diag_right_signal_def

text \<open>A signal monitor changes its timer and the fault mask, and nothing else.\<close>

lemma diag_signal_form:
  "\<exists>t. diag_brake_signal b s = s\<lparr>g_diagBrakeLowTimerMs := t,
     g_diagFaultMask := g_diagFaultMask (diag_brake_signal b s)\<rparr>"
  "\<exists>t. diag_head_signal b s = s\<lparr>g_diagHeadLowTimerMs := t,
     g_diagFaultMask := g_diagFaultMask (diag_head_signal b s)\<rparr>"
  "\<exists>t. diag_left_signal b s = s\<lparr>g_diagLeftLowTimerMs := t,
     g_diagFaultMask := g_diagFaultMask (diag_left_signal b s)\<rparr>"
  "\<exists>t. diag_right_signal b s = s\<lparr>g_diagRightLowTimerMs := t,
     g_diagFaultMask := g_diagFaultMask (diag_right_signal b s)\<rparr>"
  by (auto simp: diag_signal_defs Let_def split: prod.splits)

lemma diag_signal_frame [fw_frame, simp]:
  "io_reads (diag_brake_signal b s) = io_reads s"
  "io_reads (diag_head_signal b s) = io_reads s"
  "io_reads (diag_left_signal b s) = io_reads s"
  "io_reads (diag_right_signal b s) = io_reads s"
  "pin_cmd (diag_brake_signal b s) = pin_cmd s"
  "pin_cmd (diag_head_signal b s) = pin_cmd s"
  "pin_cmd (diag_left_signal b s) = pin_cmd s"
  "pin_cmd (diag_right_signal b s) = pin_cmd s"
  "g_diagDangerBlinkActive (diag_brake_signal b s) = g_diagDangerBlinkActive s"
  "g_diagDangerBlinkActive (diag_head_signal b s) = g_diagDangerBlinkActive s"
  "g_diagDangerBlinkActive (diag_left_signal b s) = g_diagDangerBlinkActive s"
  "g_diagDangerBlinkActive (diag_right_signal b s) = g_diagDangerBlinkActive s"
  "g_diagDangerBlinkOutputOn (diag_brake_signal b s) = g_diagDangerBlinkOutputOn s"
  "g_diagDangerBlinkOutputOn (diag_head_signal b s) = g_diagDangerBlinkOutputOn s"
  "g_diagDangerBlinkOutputOn (diag_left_signal b s) = g_diagDangerBlinkOutputOn s"
  "g_diagDangerBlinkOutputOn (diag_right_signal b s) = g_diagDangerBlinkOutputOn s"
  by (simp_all add: diag_signal_defs Let_def split: prod.splits)

lemma danger_led_UpdateDiagnosis1ms [fw_inv]:
  "danger_led_ok s \<Longrightarrow> danger_led_ok (BodyControl_UpdateDiagnosis1ms h s)"
  unfolding BodyControl_UpdateDiagnosis1ms_def ReadMask_eq Let_def case_prod_beta
  by (rule danger_led_UpdateDiagDangerLed) (simp add: blink_led_ok_def danger_led_ok_def)

lemma danger_led_ClearDiagFaults [fw_inv]:
  "danger_led_ok s \<Longrightarrow> danger_led_ok (BodyControl_ClearDiagFaults s)"
  unfolding BodyControl_ClearDiagFaults_def Let_def
  by (rule danger_led_UpdateDiagDangerLed) (simp add: blink_led_ok_def danger_led_ok_def)

section \<open>The self-test\<close>

lemma write_all_lamps_form:
  "\<exists>l. write_all_lamps b s = s\<lparr>pin_cmd := (pin_cmd s)(BODY_HEAD_R := b, BODY_HEAD_G := b,
     BODY_HEAD_B := b, BODY_BRAKE := b, BODY_LEFT_TURN := b, BODY_RIGHT_TURN := b),
     io_log := l @ io_log s\<rparr> \<and> waited l = 0"
  unfolding write_all_lamps_def BodyControl_WriteHeadlamp_def write_pin_eq Let_def set_pin_def
  by (rule exI [of _ "[SetPin BODY_RIGHT_TURN b, SetPin BODY_LEFT_TURN b, SetPin BODY_BRAKE b,
      SetPin BODY_HEAD_B b, SetPin BODY_HEAD_G b, SetPin BODY_HEAD_R b]"]) simp

text \<open>The self-test latches exactly the lamps whose feedback pin is low after the second.\<close>

lemma startup_fault_bits:
  "startup_fault_mask fm AND 1 \<noteq> 0 \<longleftrightarrow> fm AND 1 = 0" "startup_fault_mask fm AND 2 \<noteq> 0 \<longleftrightarrow> fm AND 2 = 0"
  "startup_fault_mask fm AND 4 \<noteq> 0 \<longleftrightarrow> fm AND 4 = 0" "startup_fault_mask fm AND 8 \<noteq> 0 \<longleftrightarrow> fm AND 8 = 0"
  by (simp_all add: startup_fault_mask_def Let_def)

lemma feedback_mask_bits:
  "feedback_mask h n AND 1 \<noteq> 0 \<longleftrightarrow> hw_pin h n BODY_DIAG_BRAKE_FB"
  "feedback_mask h n AND 2 \<noteq> 0 \<longleftrightarrow> hw_pin h (n + 1) BODY_DIAG_HEAD_FB"
  "feedback_mask h n AND 4 \<noteq> 0 \<longleftrightarrow> hw_pin h (n + 2) BODY_DIAG_LEFT_FB"
  "feedback_mask h n AND 8 \<noteq> 0 \<longleftrightarrow> hw_pin h (n + 3) BODY_DIAG_RIGHT_FB"
  by (simp_all add: feedback_mask_def)

lemma StartupDiag_form:
  "\<exists>l. BodyControl_RunStartupSelfDiagnosis h s =
     (let fm = feedback_mask h (io_reads s); f = startup_fault_mask fm
      in BodyControl_UpdateDiagDangerLed (s\<lparr>io_reads := io_reads s + 4,
       g_diagFaultMask := g_diagFaultMask s OR f, g_diagFeedbackMask := fm,
       g_debugBodyDiagStartupFaultMask := f, g_debugBodyDiagFaultMask := g_diagFaultMask s OR f,
       g_debugBodyDiagFeedbackMask := fm, pin_cmd := (pin_cmd s)(BODY_HEAD_R := False,
       BODY_HEAD_G := False, BODY_HEAD_B := False, BODY_BRAKE := False, BODY_LEFT_TURN := False,
       BODY_RIGHT_TURN := False), io_log := l @ io_log s\<rparr>)) \<and> waited l = 1000000"
proof -
  obtain l where l: "write_all_lamps True s = s\<lparr>pin_cmd := (pin_cmd s)(BODY_HEAD_R := True,
     BODY_HEAD_G := True, BODY_HEAD_B := True, BODY_BRAKE := True, BODY_LEFT_TURN := True,
     BODY_RIGHT_TURN := True), io_log := l @ io_log s\<rparr>" "waited l = 0"
    using write_all_lamps_form by blast
  have w: "waited (replicate n (WaitUs 1000)) = 1000 * n" for n by (induction n) simp_all
  define u where "u = (let fm = feedback_mask h (io_reads s); f = startup_fault_mask fm in
     s\<lparr>pin_cmd := (pin_cmd s)(BODY_HEAD_R := True,
     BODY_HEAD_G := True, BODY_HEAD_B := True, BODY_BRAKE := True, BODY_LEFT_TURN := True,
     BODY_RIGHT_TURN := True), io_log := replicate 1000 (WaitUs 1000) @ l @ io_log s,
     io_reads := io_reads s + 4,
       g_diagFaultMask := g_diagFaultMask s OR f, g_diagFeedbackMask := fm,
       g_debugBodyDiagStartupFaultMask := f, g_debugBodyDiagFaultMask := g_diagFaultMask s OR f,
       g_debugBodyDiagFeedbackMask := fm\<rparr>)"
  have run: "BodyControl_RunStartupSelfDiagnosis h s =
      BodyControl_UpdateDiagDangerLed (write_all_lamps False u)"
    by (simp add: BodyControl_RunStartupSelfDiagnosis_def Let_def l ReadMask_eq DelayMs_log u_def)
  obtain l' where l': "write_all_lamps False u = u\<lparr>pin_cmd := (pin_cmd u)(BODY_HEAD_R := False,
     BODY_HEAD_G := False, BODY_HEAD_B := False, BODY_BRAKE := False, BODY_LEFT_TURN := False,
     BODY_RIGHT_TURN := False), io_log := l' @ io_log u\<rparr>" "waited l' = 0"
    using write_all_lamps_form by blast
  show ?thesis
    using l(2) l'(2)
    by (intro exI [of _ "l' @ replicate 1000 (WaitUs 1000) @ l"])
      (simp add: run l'(1) w, simp add: u_def Let_def fun_upd_twist)
qed

section \<open>One lamp monitor\<close>

text \<open>
  The monitor of one lamp over a history of (command, feedback) samples. The specification keeps
  the number of milliseconds the lamp has been commanded without feedback; the fault is latched
  when that number first reaches the confirmation time.
\<close>

fun dark_ms :: "nat \<Rightarrow> (bool \<times> bool) list \<Rightarrow> nat" where
  "dark_ms n [] = n"
| "dark_ms n ((c, f) # xs) = dark_ms (if c \<and> \<not> f then Suc n else 0) xs"

fun dark_reaches :: "nat \<Rightarrow> nat \<Rightarrow> (bool \<times> bool) list \<Rightarrow> bool" where
  "dark_reaches lim n [] = False"
| "dark_reaches lim n ((c, f) # xs) =
     (c \<and> \<not> f \<and> lim \<le> Suc n \<or> dark_reaches lim (if c \<and> \<not> f then Suc n else 0) xs)"

definition monitor_run :: "u32 \<Rightarrow> u8 \<Rightarrow> (bool \<times> bool) list \<Rightarrow> u32 \<times> u8 \<Rightarrow> u32 \<times> u8" where
  "monitor_run confirmMs bit' =
     fold (\<lambda>(c, f). BodyControl_UpdateDiagOneSignal c f confirmMs bit')"

lemma OneSignal_step:
  assumes "unat t = min (unat lim) n" and "0 < lim"
  shows "unat (fst (BodyControl_UpdateDiagOneSignal c f lim b (t, m))) =
      min (unat lim) (if c \<and> \<not> f then Suc n else 0)"
    and "snd (BodyControl_UpdateDiagOneSignal c f lim b (t, m)) =
      (if c \<and> \<not> f \<and> unat lim \<le> Suc n then m OR b else m)"
proof -
  have lt: "t < lim \<longleftrightarrow> n < unat lim" using assms by (auto simp: word_less_nat_alt min_def)
  have "t < lim \<Longrightarrow> unat (t + 1) = Suc (unat t)" by (rule unat_inc_below)
  with assms lt show
    "unat (fst (BodyControl_UpdateDiagOneSignal c f lim b (t, m))) =
      min (unat lim) (if c \<and> \<not> f then Suc n else 0)"
    "snd (BodyControl_UpdateDiagOneSignal c f lim b (t, m)) =
      (if c \<and> \<not> f \<and> unat lim \<le> Suc n then m OR b else m)"
    by (auto simp: BodyControl_UpdateDiagOneSignal_def Let_def word_le_nat_alt)
qed

lemma monitor_run_spec:
  assumes "unat t = min (unat lim) n" and "0 < lim"
  shows "unat (fst (monitor_run lim b xs (t, m))) = min (unat lim) (dark_ms n xs)"
    and "snd (monitor_run lim b xs (t, m)) =
      (if dark_reaches (unat lim) n xs then m OR b else m)"
  using assms
proof (induction xs arbitrary: t m n)
  case Nil
  case 1
  then show ?case by (simp add: monitor_run_def)
next
  case Nil
  case 2
  then show ?case by (simp add: monitor_run_def)
next
  case (Cons x xs)
  case 1
  obtain c f where x: "x = (c, f)" by (cases x)
  obtain t' m' where
    step: "BodyControl_UpdateDiagOneSignal c f lim b (t, m) = (t', m')"
    by (cases "BodyControl_UpdateDiagOneSignal c f lim b (t, m)")
  note st = OneSignal_step [OF 1, of c f b m, unfolded step, simplified]
  show ?case using Cons.IH(1) [OF st(1) 1(2)] by (simp add: monitor_run_def x step)
next
  case (Cons x xs)
  case 2
  obtain c f where x: "x = (c, f)" by (cases x)
  obtain t' m' where
    step: "BodyControl_UpdateDiagOneSignal c f lim b (t, m) = (t', m')"
    by (cases "BodyControl_UpdateDiagOneSignal c f lim b (t, m)")
  note st = OneSignal_step [OF 2, of c f b m, unfolded step, simplified]
  show ?case using Cons.IH(2) [OF st(1) 2(2)] st(2)
    by (auto simp: monitor_run_def x step or.assoc)
qed

lemma OneSignal_latches:
  "m AND d \<noteq> 0 \<Longrightarrow> snd (BodyControl_UpdateDiagOneSignal c f lim b (t, m)) AND d \<noteq> 0"
  by (auto simp: BodyControl_UpdateDiagOneSignal_def Let_def dest: or_keeps_bits)

lemma diag_signal_latches:
  assumes "g_diagFaultMask s AND m \<noteq> 0"
  shows "g_diagFaultMask (diag_brake_signal b s) AND m \<noteq> 0"
    and "g_diagFaultMask (diag_head_signal b s) AND m \<noteq> 0"
    and "g_diagFaultMask (diag_left_signal b s) AND m \<noteq> 0"
    and "g_diagFaultMask (diag_right_signal b s) AND m \<noteq> 0"
  using assms by (simp_all add: diag_signal_defs Let_def case_prod_beta OneSignal_latches)

lemma UpdateDiagnosis_latches:
  "g_diagFaultMask s AND b \<noteq> 0 \<Longrightarrow>
     g_diagFaultMask (BodyControl_UpdateDiagnosis1ms h s) AND b \<noteq> 0"
  unfolding BodyControl_UpdateDiagnosis1ms_def ReadMask_eq Let_def case_prod_beta
  by (simp add: UpdateDiagDangerLed_form diag_signal_latches)

end
