(* ===== verification/Body_Warning.thy ===== *)
theory Body_Warning
  imports Body_Diag
begin

unbundle bit_operations_syntax

text \<open>
  The parking warning of \<open>src/BODY/BodyControl.c\<close>: the level computed from the measured distance
  with hysteresis, the measurement schedule, and the sound, a beep pattern on the buzzer that
  the horn overrides. The level is treated as a function of its own (\<open>warning_level\<close>); the
  sound is compared with a closed form of the buzzer level over time.
\<close>

section \<open>Operations\<close>

text \<open>The switch of \<open>ComputeCollisionWarningLevel\<close>; its first argument is the global it reads.\<close>

definition warning_level :: "u8 \<Rightarrow> u16 \<Rightarrow> bool \<Rightarrow> u8" where
  "warning_level level distanceCm distanceValid =
     (if \<not> distanceValid then 0
      else
        let enterStage1Cm = BODY_COLLISION_WARNING_STAGE1_CM - BODY_COLLISION_WARNING_HYSTERESIS_CM;
            enterStage2Cm = BODY_COLLISION_WARNING_STAGE2_CM - BODY_COLLISION_WARNING_HYSTERESIS_CM;
            enterStage3Cm = BODY_COLLISION_WARNING_STAGE3_CM - BODY_COLLISION_WARNING_HYSTERESIS_CM;
            exitStage0Cm = BODY_COLLISION_WARNING_STAGE1_CM + BODY_COLLISION_WARNING_HYSTERESIS_CM;
            exitStage1Cm = BODY_COLLISION_WARNING_STAGE2_CM + BODY_COLLISION_WARNING_HYSTERESIS_CM;
            exitStage2Cm = BODY_COLLISION_WARNING_STAGE3_CM + BODY_COLLISION_WARNING_HYSTERESIS_CM
        in if level = 0 then
             (if distanceCm \<le> enterStage3Cm then 3
              else if distanceCm \<le> enterStage2Cm then 2
              else if distanceCm \<le> enterStage1Cm then 1
              else 0)
           else if level = 1 then
             (if distanceCm \<le> enterStage3Cm then 3
              else if distanceCm \<le> enterStage2Cm then 2
              else if distanceCm \<ge> exitStage0Cm then 0
              else 1)
           else if level = 2 then
             (if distanceCm \<le> enterStage3Cm then 3
              else if distanceCm \<ge> exitStage0Cm then 0
              else if distanceCm \<ge> exitStage1Cm then 1
              else 2)
           else if level = 3 then
             (if distanceCm \<ge> exitStage0Cm then 0
              else if distanceCm \<ge> exitStage1Cm then 1
              else if distanceCm \<ge> exitStage2Cm then 2
              else 3)
           else 0)"

definition BodyControl_ComputeCollisionWarningLevel ::
  "u16 \<Rightarrow> bool \<Rightarrow> 'a body_warning_scheme \<Rightarrow> u8" where
  "BodyControl_ComputeCollisionWarningLevel distanceCm distanceValid s =
     warning_level (g_collisionWarningLevel s) distanceCm distanceValid"

definition BodyControl_ResetCollisionWarningSound ::
  "'a body_warning_scheme \<Rightarrow> 'a body_warning_scheme" where
  "BodyControl_ResetCollisionWarningSound s =
     s\<lparr>g_collisionWarningLevel := 0, g_collisionWarningLastLevel := 0,
       g_collisionWarningToneOutputOn := False, g_collisionWarningToneTimerMs := 0,
       g_collisionWarningPatternTimerMs := 0\<rparr>"

text \<open>The outcome of one scheduled measurement, after \<open>MeasureUltrasonicDistanceCm\<close> returns.\<close>

definition ultrasonic_outcome :: "u16 option \<Rightarrow> 'a body_scheme \<Rightarrow> 'a body_scheme" where
  "ultrasonic_outcome result s =
     (let s = (case result of
             Some measuredDistanceCm \<Rightarrow>
               s\<lparr>g_ultrasonicDistanceCm := measuredDistanceCm, g_ultrasonicDistanceValid := True,
                 g_ultrasonicValidHoldTimerMs := BODY_ULTRASONIC_VALID_HOLD_MS\<rparr>
           | None \<Rightarrow>
               let s = s\<lparr>g_ultrasonicTimeoutCount := g_ultrasonicTimeoutCount s + 1,
                         g_diagFaultMask := g_diagFaultMask s OR BODY_DIAG_ULTRASONIC_BIT\<rparr>;
                   s = s\<lparr>g_debugBodyDiagFaultMask := g_diagFaultMask s\<rparr>;
                   s = BodyControl_UpdateDiagDangerLed s
               in if g_ultrasonicValidHoldTimerMs s = 0
                  then s\<lparr>g_ultrasonicDistanceCm := ucast BODY_ULTRASONIC_NO_OBJECT_CM,
                         g_ultrasonicDistanceValid := False\<rparr>
                  else s)
      in s\<lparr>g_collisionWarningLevel :=
             BodyControl_ComputeCollisionWarningLevel (g_ultrasonicDistanceCm s)
               (g_ultrasonicDistanceValid s) s\<rparr>)"

definition ultrasonic_reset :: "'a body_warning_scheme \<Rightarrow> 'a body_warning_scheme" where
  "ultrasonic_reset s =
     BodyControl_ResetCollisionWarningSound
       (s\<lparr>g_ultrasonicDistanceCm := ucast BODY_ULTRASONIC_NO_OBJECT_CM,
          g_ultrasonicDistanceValid := False, g_ultrasonicMeasureTimerMs := 0,
          g_ultrasonicValidHoldTimerMs := 0\<rparr>)"

definition BodyControl_UpdateUltrasonic1ms :: "hw \<Rightarrow> 'a body_scheme \<Rightarrow> 'a body_scheme option" where
  "BodyControl_UpdateUltrasonic1ms h s =
     (if \<not> g_collisionWarningLampOn s then Some (ultrasonic_reset s)
      else
        let s = (if g_ultrasonicValidHoldTimerMs s > 0
                 then s\<lparr>g_ultrasonicValidHoldTimerMs := g_ultrasonicValidHoldTimerMs s - 1\<rparr> else s)
        in if g_ultrasonicMeasureTimerMs s < BODY_ULTRASONIC_MEASURE_PERIOD_MS
           then Some (s\<lparr>g_ultrasonicMeasureTimerMs := g_ultrasonicMeasureTimerMs s + 1\<rparr>)
           else do {
             (result, s) \<leftarrow> BodyControl_MeasureUltrasonicDistanceCm h
               (s\<lparr>g_ultrasonicMeasureTimerMs := 0,
                  g_ultrasonicMeasureCount := g_ultrasonicMeasureCount s + 1\<rparr>);
             Some (ultrasonic_outcome result s)
           })"

definition BodyControl_IsCollisionWarningBeepActive ::
  "'a body_warning_scheme \<Rightarrow> bool \<times> 'a body_warning_scheme" where
  "BodyControl_IsCollisionWarningBeepActive s =
     (if g_collisionWarningLevel s = 0 then (False, s)
      else if g_collisionWarningLevel s = 3 then (True, s)
      else
        let cycleMs = (if g_collisionWarningLevel s = 2 then BODY_COLLISION_WARNING_STAGE2_CYCLE_MS
                       else BODY_COLLISION_WARNING_STAGE1_CYCLE_MS);
            s = (if g_collisionWarningPatternTimerMs s \<ge> cycleMs
                 then s\<lparr>g_collisionWarningPatternTimerMs := 0\<rparr> else s)
        in (g_collisionWarningPatternTimerMs s < BODY_COLLISION_WARNING_BEEP_ON_MS, s))"

definition BodyControl_UpdateCollisionWarningSound1ms ::
  "'a body_warning_scheme \<Rightarrow> 'a body_warning_scheme" where
  "BodyControl_UpdateCollisionWarningSound1ms s =
     (if \<not> g_collisionWarningLampOn s \<or> g_collisionWarningLevel s = 0 then
        let s = BodyControl_ResetCollisionWarningSound s
        in if \<not> g_hornEnabled s then BodyControl_BuzzerOff s else s
      else
        let s = (if g_collisionWarningLevel s \<noteq> g_collisionWarningLastLevel s
                 then s\<lparr>g_collisionWarningLastLevel := g_collisionWarningLevel s,
                        g_collisionWarningToneOutputOn := False,
                        g_collisionWarningToneTimerMs := 0,
                        g_collisionWarningPatternTimerMs := 0\<rparr>
                 else s)
        in if g_hornEnabled s then s
           else
             let (beepActive, s) = BodyControl_IsCollisionWarningBeepActive s
             in if \<not> beepActive then
                  let s = s\<lparr>g_collisionWarningToneOutputOn := False,
                            g_collisionWarningToneTimerMs := 0\<rparr>;
                      s = BodyControl_BuzzerOff s
                  in s\<lparr>g_collisionWarningPatternTimerMs := g_collisionWarningPatternTimerMs s + 1\<rparr>
                else
                  let s = s\<lparr>g_collisionWarningToneTimerMs := g_collisionWarningToneTimerMs s + 1\<rparr>;
                      s = (if g_collisionWarningToneTimerMs s \<ge> BODY_COLLISION_WARNING_TONE_HALF_MS
                           then
                             let s = s\<lparr>g_collisionWarningToneTimerMs := 0,
                                       g_collisionWarningToneOutputOn :=
                                         \<not> g_collisionWarningToneOutputOn s\<rparr>
                             in BodyControl_WriteBuzzerPin (g_collisionWarningToneOutputOn s) s
                           else s)
                  in if g_collisionWarningLevel s \<noteq> 3
                     then s\<lparr>g_collisionWarningPatternTimerMs :=
                              g_collisionWarningPatternTimerMs s + 1\<rparr>
                     else s)"

definition BodyControl_UpdateCollisionWarningDebug :: "'a body_scheme \<Rightarrow> 'a body_scheme" where
  "BodyControl_UpdateCollisionWarningDebug s =
     s\<lparr>g_debugBodyUltrasonicDistanceCm := g_ultrasonicDistanceCm s,
       g_debugBodyUltrasonicDistanceValid := (if g_ultrasonicDistanceValid s then 1 else 0),
       g_debugBodyCollisionWarningLevel := g_collisionWarningLevel s,
       g_debugBodyUltrasonicMeasureCount := g_ultrasonicMeasureCount s,
       g_debugBodyUltrasonicTimeoutCount := g_ultrasonicTimeoutCount s\<rparr>"

definition BodyControl_UpdateHorn1ms :: "'a body_lamps_scheme \<Rightarrow> 'a body_lamps_scheme" where
  "BodyControl_UpdateHorn1ms s =
     (if \<not> g_hornEnabled s
      then BodyControl_WriteBuzzerPin False (s\<lparr>g_hornOutputOn := False, g_hornTimerMs := 0\<rparr>)
      else
        let s = s\<lparr>g_hornTimerMs := g_hornTimerMs s + 1\<rparr>
        in if g_hornTimerMs s \<ge> 1
           then
             let s = s\<lparr>g_hornTimerMs := 0, g_hornOutputOn := \<not> g_hornOutputOn s\<rparr>
             in BodyControl_WriteBuzzerPin (g_hornOutputOn s) s
           else s)"

definition BodyControl_SetHorn :: "bool \<Rightarrow> 'a body_lamps_scheme \<Rightarrow> 'a body_lamps_scheme" where
  "BodyControl_SetHorn on s =
     (let s = s\<lparr>g_hornEnabled := on\<rparr>
      in if \<not> on
         then BodyControl_BuzzerOff (s\<lparr>g_hornOutputOn := False, g_hornTimerMs := 0\<rparr>)
         else s)"

definition BodyControl_SetCollisionWarningLamp ::
  "bool \<Rightarrow> 'a body_warning_scheme \<Rightarrow> 'a body_warning_scheme" where
  "BodyControl_SetCollisionWarningLamp on s =
     (let wasOn = g_collisionWarningLampOn s;
          s = s\<lparr>g_collisionWarningLampOn := on\<rparr>
      in if on
         then (if \<not> wasOn
               then s\<lparr>g_ultrasonicMeasureTimerMs := BODY_ULTRASONIC_MEASURE_PERIOD_MS\<rparr> else s)
         else
           let s = ultrasonic_reset s
           in if \<not> g_hornEnabled s then BodyControl_BuzzerOff s else s)"

section \<open>The warning level\<close>

lemma u8_le_3: "l \<le> 3 \<Longrightarrow> l = 0 \<or> l = 1 \<or> l = 2 \<or> l = (3 :: u8)"
proof -
  assume "l \<le> 3"
  then have "unat l \<le> 3" by (simp add: word_le_nat_alt)
  then have "unat l = 0 \<or> unat l = 1 \<or> unat l = 2 \<or> unat l = 3" by linarith
  then show ?thesis by (auto simp: word_unat_eq_iff)
qed

text \<open>The level as a number of distances: the four bands, on \<open>unat\<close> values.\<close>

lemma warning_level_unat:
  "unat (warning_level l d True) =
     (let x = unat d in
      if l = 0 then (if x \<le> 5 then 3 else if x \<le> 15 then 2 else if x \<le> 25 then 1 else 0)
      else if l = 1 then (if x \<le> 5 then 3 else if x \<le> 15 then 2 else if 35 \<le> x then 0 else 1)
      else if l = 2 then (if x \<le> 5 then 3 else if 35 \<le> x then 0 else if 25 \<le> x then 1 else 2)
      else if l = 3 then (if 35 \<le> x then 0 else if 25 \<le> x then 1 else if 15 \<le> x then 2 else 3)
      else 0)"
  by (simp add: warning_level_def word_le_nat_alt Let_def)

lemma warning_level_le: "warning_level l d v \<le> 3"
  by (cases v) (simp_all add: word_le_nat_alt warning_level_unat Let_def warning_level_def [of _ _ False])

lemma warning_level_invalid [simp]: "warning_level l d False = 0"
  by (simp add: warning_level_def)

lemma warning_level_mono:
  assumes "l \<le> 3" "l' \<le> 3" "l \<le> l'" "d' \<le> d"
  shows "warning_level l d True \<le> warning_level l' d' True"
  using u8_le_3 [OF assms(1)] u8_le_3 [OF assms(2)] assms(3,4)
  by (elim disjE) (simp_all add: word_le_nat_alt warning_level_unat Let_def)

lemma warning_level_settled:
  "l \<le> 3 \<Longrightarrow> warning_level (warning_level l d v) d v = warning_level l d v"
  by (drule u8_le_3, cases v) (auto simp: warning_level_def word_le_nat_alt)

lemma warning_level_band:
  assumes "l \<le> 3" and "warning_level l d True \<noteq> l"
    and "warning_level (warning_level l d True) d' True = l"
  shows "unat d + 10 \<le> unat d' \<or> unat d' + 10 \<le> unat d"
  using u8_le_3 [OF assms(1)] assms(2,3)
  by (elim disjE) (auto simp: warning_level_def word_le_nat_alt split: if_splits)

section \<open>The sound\<close>

text \<open>
  The buzzer level the pattern asks for \<open>n\<close> milliseconds after the level was entered: at level 3
  a continuous 500 Hz tone, at levels 1 and 2 that tone for the first 120 ms of each cycle.
\<close>

definition beep_cycle :: "u8 \<Rightarrow> nat" where
  "beep_cycle l = (if l = 2 then 250 else 500)"

definition beep_level :: "u8 \<Rightarrow> nat \<Rightarrow> bool" where
  "beep_level l n =
     (if l = 3 then even n else n mod beep_cycle l < 120 \<and> even (n mod beep_cycle l))"

definition sounding :: "u8 \<Rightarrow> nat \<Rightarrow> 'a body_warning_scheme \<Rightarrow> bool" where
  "sounding l n s \<longleftrightarrow>
     g_collisionWarningLampOn s \<and> \<not> g_hornEnabled s \<and> g_collisionWarningLevel s = l \<and>
     g_collisionWarningLastLevel s = l \<and> g_collisionWarningToneTimerMs s = 0 \<and>
     g_collisionWarningToneOutputOn s = beep_level l n \<and> pin_cmd s BODY_BUZZER = beep_level l n \<and>
     (l \<noteq> 3 \<longrightarrow> unat (g_collisionWarningPatternTimerMs s) = Suc (n mod beep_cycle l))"

lemma set_pin_warning_sel [simp]:
  "g_collisionWarningLevel (set_pin p b s) = g_collisionWarningLevel s"
  "g_collisionWarningLastLevel (set_pin p b s) = g_collisionWarningLastLevel s"
  "g_collisionWarningLampOn (set_pin p b s) = g_collisionWarningLampOn s"
  "g_hornEnabled (set_pin p b s) = g_hornEnabled s"
  "g_collisionWarningToneOutputOn (set_pin p b s) = g_collisionWarningToneOutputOn s"
  "g_collisionWarningToneTimerMs (set_pin p b s) = g_collisionWarningToneTimerMs s"
  "g_collisionWarningPatternTimerMs (set_pin p b s) = g_collisionWarningPatternTimerMs s"
  by (simp_all add: set_pin_def)

lemma sounding_start:
  assumes "g_collisionWarningLampOn s" "\<not> g_hornEnabled s" "g_collisionWarningLevel s = l"
    "l = 1 \<or> l = 2 \<or> l = 3" "g_collisionWarningLastLevel s \<noteq> l"
  shows "sounding l 0 (BodyControl_UpdateCollisionWarningSound1ms s)"
  using assms
  by (auto simp: BodyControl_UpdateCollisionWarningSound1ms_def sounding_def beep_level_def
      BodyControl_IsCollisionWarningBeepActive_def write_pin_eq Let_def)

lemma beep_cycle_pos: "120 < beep_cycle l" "even (beep_cycle l)" "beep_cycle l \<le> 500"
  by (simp_all add: beep_cycle_def)

text \<open>The toggle produces the next level of the pattern.\<close>

lemma beep_level_Suc:
  "l = 3 \<Longrightarrow> beep_level l (Suc n) = (\<not> beep_level l n)"
  "l \<noteq> 3 \<Longrightarrow> beep_level l (Suc n) = (Suc n mod beep_cycle l < 120 \<and> \<not> beep_level l n)"
  using beep_cycle_pos [of l] by (auto simp: beep_level_def mod_Suc)

lemma sounding_step:
  assumes "sounding l n s" "l = 1 \<or> l = 2 \<or> l = 3"
  shows "sounding l (Suc n) (BodyControl_UpdateCollisionWarningSound1ms s)"
proof (cases "l = 3")
  case True
  with assms show ?thesis
    by (auto simp: BodyControl_UpdateCollisionWarningSound1ms_def sounding_def beep_level_Suc
        BodyControl_IsCollisionWarningBeepActive_def write_pin_eq Let_def)
next
  case False
  let ?c = "beep_cycle l"
  define p where "p = g_collisionWarningPatternTimerMs s"
  define q where "q = (if of_nat ?c \<le> p then 0 else p)"
  from assms False have s: "g_collisionWarningLampOn s" "\<not> g_hornEnabled s"
      "g_collisionWarningLevel s = l" "g_collisionWarningLastLevel s = l"
      "g_collisionWarningToneTimerMs s = 0" "g_collisionWarningToneOutputOn s = beep_level l n"
      "g_collisionWarningPatternTimerMs s = p" "l \<noteq> 0"
    and p: "unat p = Suc (n mod ?c)"
    by (auto simp: sounding_def p_def)
  have "0 < ?c" using beep_cycle_pos [of l] by simp
  then have lt: "n mod ?c < ?c" "Suc n mod ?c < ?c" by (rule mod_less_divisor)+
  from lt(1) have full: "?c \<le> Suc (n mod ?c) \<longleftrightarrow> Suc (n mod ?c) = ?c" by linarith
  have c: "unat (of_nat ?c :: u32) = ?c" by (simp add: beep_cycle_def)
  have q: "unat q = Suc n mod ?c"
    using p c by (simp add: q_def word_le_nat_alt mod_Suc full)
  have lt2: "Suc n mod ?c < 1000" using beep_cycle_pos [of l] lt by linarith
  have q1: "unat (q + 1) = Suc (Suc n mod ?c)"
    using q lt2 by (subst unat_inc_below [of q 1000]) (auto simp: word_less_nat_alt)
  have b: "q < 120 \<longleftrightarrow> Suc n mod ?c < 120" using q by (simp add: word_less_nat_alt)
  have beep: "BodyControl_IsCollisionWarningBeepActive s =
      (Suc n mod ?c < 120, s\<lparr>g_collisionWarningPatternTimerMs := q\<rparr>)"
    using s False b
    by (auto simp: BodyControl_IsCollisionWarningBeepActive_def Let_def beep_cycle_def q_def)
  show ?thesis
    using s False q1 beep
    by (simp add: BodyControl_UpdateCollisionWarningSound1ms_def sounding_def beep_level_Suc(2)
        write_pin_eq Let_def)
qed

text \<open>The horn overrides the warning: while it is on the sound leaves the buzzer alone.\<close>

lemma horn_priority:
  "g_hornEnabled s \<Longrightarrow>
     pin_cmd (BodyControl_UpdateCollisionWarningSound1ms s) = pin_cmd s"
  by (simp add: BodyControl_UpdateCollisionWarningSound1ms_def Let_def
      BodyControl_ResetCollisionWarningSound_def)

end
