(* ===== verification/Body_Tone.thy ===== *)
theory Body_Tone
  imports Body_Warning
begin

unbundle bit_operations_syntax

text \<open>
  The blocking sounds of \<open>src/BODY/BodyControl.c\<close>: a tone of given frequency, bit-banged on the
  buzzer pin, and the horn sound made of tones. Their loops count microseconds and milliseconds
  in 32 bits, so they are partial functions; they return for durations whose count does not wrap,
  leave the buzzer silent and wait for at least the time asked, less than one period of overshoot
  per tone.
\<close>

section \<open>Operations\<close>

partial_function (option) play_tone_loop ::
  "u32 \<Rightarrow> u32 \<Rightarrow> u32 \<Rightarrow> 'a io_scheme \<Rightarrow> 'a io_scheme option" where
  "play_tone_loop halfPeriodUs durationUs elapsedUs s =
     (if elapsedUs < durationUs then
        play_tone_loop halfPeriodUs durationUs (elapsedUs + halfPeriodUs * 2)
          (BodyControl_DelayUs halfPeriodUs (BodyControl_WriteBuzzerPin False
            (BodyControl_DelayUs halfPeriodUs (BodyControl_WriteBuzzerPin True s))))
      else Some s)"

definition BodyControl_PlayToneForMs :: "u32 \<Rightarrow> u32 \<Rightarrow> 'a io_scheme \<Rightarrow> 'a io_scheme option" where
  "BodyControl_PlayToneForMs freqHz durationMs s =
     (if freqHz = 0 then Some (BodyControl_DelayMs durationMs (BodyControl_BuzzerOff s))
      else
        let halfPeriodUs = 500000 div freqHz;
            halfPeriodUs = (if halfPeriodUs = 0 then 1 else halfPeriodUs);
            durationUs = durationMs * 1000
        in do {
          s \<leftarrow> play_tone_loop halfPeriodUs durationUs 0 s;
          Some (BodyControl_BuzzerOff s)
        })"

text \<open>The slice of the horn loop that starts at \<open>elapsedMs\<close>.\<close>

definition horn_slice :: "u32 \<Rightarrow> u32 \<Rightarrow> u32" where
  "horn_slice holdTimeMs elapsedMs =
     (let sliceMs = 35 in
      if elapsedMs + sliceMs > holdTimeMs then holdTimeMs - elapsedMs else sliceMs)"

partial_function (option) horn_loop :: "u32 \<Rightarrow> u32 \<Rightarrow> 'a io_scheme \<Rightarrow> 'a io_scheme option" where
  "horn_loop holdTimeMs elapsedMs s =
     (if elapsedMs < holdTimeMs then
        Option.bind (BodyControl_PlayToneForMs 390 (horn_slice holdTimeMs elapsedMs) s) (\<lambda>s.
          let elapsedMs = elapsedMs + horn_slice holdTimeMs elapsedMs
          in if elapsedMs \<ge> holdTimeMs then Some s
             else
               Option.bind (BodyControl_PlayToneForMs 430 (horn_slice holdTimeMs elapsedMs) s)
                 (horn_loop holdTimeMs (elapsedMs + horn_slice holdTimeMs elapsedMs)))
      else Some s)"

definition BodyControl_HornForMs :: "u32 \<Rightarrow> 'a io_scheme \<Rightarrow> 'a io_scheme option" where
  "BodyControl_HornForMs holdTimeMs s = do {
     let elapsedMs = 0;
     (elapsedMs, s) \<leftarrow>
       (if holdTimeMs > 80 then
          Option.bind (BodyControl_PlayToneForMs 520 80 s) (\<lambda>s. Some (elapsedMs + 80, s))
        else Some (elapsedMs, s));
     s \<leftarrow> horn_loop holdTimeMs elapsedMs s;
     Some (BodyControl_BuzzerOff s)
   }"

definition BodyControl_RunBuzzerDiagnosticRoutine :: "'a io_scheme \<Rightarrow> 'a io_scheme option" where
  "BodyControl_RunBuzzerDiagnosticRoutine s = BodyControl_HornForMs 500 s"

section \<open>What a sound does\<close>

text \<open>
  \<open>buzzed w s t\<close>: from \<open>s\<close> to \<open>t\<close> only the buzzer pin was driven and \<open>w\<close> microseconds were
  waited. \<open>silent\<close> says that it ended low.
\<close>

definition buzzed :: "nat \<Rightarrow> 'a io_scheme \<Rightarrow> 'a io_scheme \<Rightarrow> bool" where
  "buzzed w s t \<longleftrightarrow> (\<exists>m l. t = s\<lparr>pin_cmd := m, io_log := l @ io_log s\<rparr> \<and>
     (\<forall>p. p \<noteq> BODY_BUZZER \<longrightarrow> m p = pin_cmd s p) \<and> waited l = w)"

lemma buzzed_refl: "buzzed 0 s s"
proof -
  have "s = s\<lparr>pin_cmd := pin_cmd s, io_log := [] @ io_log s\<rparr>" by simp
  then show ?thesis unfolding buzzed_def by (metis waited.simps(1))
qed

lemma buzzed_trans: "buzzed v s t \<Longrightarrow> buzzed w t u \<Longrightarrow> buzzed (v + w) s u"
proof -
  assume "buzzed v s t" "buzzed w t u"
  then obtain m l m' l' where
    "t = s\<lparr>pin_cmd := m, io_log := l @ io_log s\<rparr>" "u = t\<lparr>pin_cmd := m', io_log := l' @ io_log t\<rparr>"
    "\<forall>p. p \<noteq> BODY_BUZZER \<longrightarrow> m p = pin_cmd s p" "\<forall>p. p \<noteq> BODY_BUZZER \<longrightarrow> m' p = pin_cmd t p"
    "waited l = v" "waited l' = w"
    unfolding buzzed_def by blast
  then show ?thesis
    unfolding buzzed_def by (intro exI [of _ m'] exI [of _ "l' @ l"]) simp
qed

lemma buzzed_set_pin: "buzzed 0 s (set_pin BODY_BUZZER b s)"
  unfolding buzzed_def set_pin_def
  by (rule exI [of _ "(pin_cmd s)(BODY_BUZZER := b)"], rule exI [of _ "[SetPin BODY_BUZZER b]"]) simp

lemma buzzed_off: "buzzed 0 s (BodyControl_BuzzerOff s)" "buzzed 0 s (BodyControl_WriteBuzzerPin b s)"
  by (simp_all add: write_pin_eq buzzed_set_pin)

lemma buzzed_delay: "buzzed (unat n) s (BodyControl_DelayUs n s)"
  unfolding buzzed_def BodyControl_DelayUs_def wait_us_def
  by (rule exI [of _ "pin_cmd s"], rule exI [of _ "[WaitUs n]"]) simp

lemma buzzed_period:
  "buzzed (2 * unat n) s (BodyControl_DelayUs n (BodyControl_WriteBuzzerPin False
     (BodyControl_DelayUs n (BodyControl_WriteBuzzerPin True s))))"
  using buzzed_trans [OF buzzed_off(2) buzzed_trans [OF buzzed_delay
        buzzed_trans [OF buzzed_off(2) buzzed_delay]]]
  by (simp add: mult_2)

lemma play_tone_loop_returns:
  assumes "0 < half" and "unat dur + 2 * unat half < 2 ^ 32"
  shows "\<exists>t w. play_tone_loop half dur el s = Some t \<and> buzzed w s t \<and>
    unat dur \<le> unat el + w \<and> (w = 0 \<or> unat el + w < unat dur + 2 * unat half)"
proof (induction "unat dur - unat el" arbitrary: el s rule: less_induct)
  case less
  show ?case
  proof (cases "el < dur")
    case False
    then have "play_tone_loop half dur el s = Some s" by (simp add: play_tone_loop.simps [of half dur el])
    with False show ?thesis
      using buzzed_refl [of s]
      by (intro exI [of _ s] exI [of _ 0]) (simp add: word_le_nat_alt not_less)
  next
    case True
    let ?s = "BodyControl_DelayUs half (BodyControl_WriteBuzzerPin False
       (BodyControl_DelayUs half (BodyControl_WriteBuzzerPin True s)))"
    have el: "unat el < unat dur" using True by (simp add: word_less_nat_alt)
    have half: "unat (half * 2) = 2 * unat half"
      using assms(2) by (simp add: unat_word_ariths)
    have nxt: "unat (el + half * 2) = unat el + 2 * unat half"
      using assms(2) el half by (simp add: unat_word_ariths(1))
    have pos: "0 < unat half" using assms(1) by (simp add: word_less_nat_alt)
    have "unat dur - unat (el + half * 2) < unat dur - unat el"
      using nxt pos el by linarith
    from less [OF this, of ?s] obtain t w where t: "play_tone_loop half dur (el + half * 2) ?s = Some t"
        "buzzed w ?s t" "unat dur \<le> unat el + 2 * unat half + w"
        "w = 0 \<or> unat el + 2 * unat half + w < unat dur + 2 * unat half"
      unfolding nxt by blast
    have "play_tone_loop half dur el s = Some t" using t(1) True by (simp add: play_tone_loop.simps [of half dur el])
    moreover have "buzzed (2 * unat half + w) s t" by (rule buzzed_trans [OF buzzed_period t(2)])
    ultimately show ?thesis using t(3,4) el by (intro exI [of _ t] exI [of _ "2 * unat half + w"]) auto
  qed
qed

definition half_period :: "u32 \<Rightarrow> nat" where
  "half_period f = (if 500000 div unat f = 0 then 1 else 500000 div unat f)"

lemma PlayTone_returns:
  assumes "0 < f" and "unat ms \<le> 4000000"
  shows "\<exists>t w. BodyControl_PlayToneForMs f ms s = Some t \<and> buzzed w s t \<and>
    \<not> pin_cmd t BODY_BUZZER \<and>
    1000 * unat ms \<le> w \<and> (w = 0 \<or> w < 1000 * unat ms + 2 * half_period f)"
proof -
  let ?h = "if 500000 div f = 0 then 1 else 500000 div f"
  have h: "unat ?h = half_period f"
    by (auto simp: half_period_def unat_div unsigned_eq_0_iff word_unat_eq_iff)
  have "500000 div unat f \<le> 500000" by simp
  then have hb: "0 < half_period f" "half_period f \<le> 500000" by (auto simp: half_period_def)
  have d: "unat (ms * 1000) = 1000 * unat ms" using assms(2) by (simp add: unat_word_ariths)
  have "0 < ?h" using h hb by (simp add: word_less_nat_alt)
  moreover have "unat (ms * 1000) + 2 * unat ?h < 2 ^ 32" using assms(2) d h hb by simp
  ultimately obtain t w where t: "play_tone_loop ?h (ms * 1000) 0 s = Some t" "buzzed w s t"
      "1000 * unat ms \<le> w" "w = 0 \<or> w < 1000 * unat ms + 2 * half_period f"
    using play_tone_loop_returns [of ?h "ms * 1000" 0 s] unfolding d h by auto
  have "buzzed w s (BodyControl_BuzzerOff t)" using buzzed_trans [OF t(2) buzzed_off(1)] by simp
  with t assms(1) show ?thesis
    by (intro exI [of _ "BodyControl_BuzzerOff t"] exI [of _ w])
      (auto simp: BodyControl_PlayToneForMs_def write_pin_eq Let_def)
qed

text \<open>The horn: at least the time asked, and less than one 390 Hz period more per slice of 35 ms.\<close>

lemma horn_slice_unat:
  assumes "unat el < unat hold" and "unat hold \<le> 4000000"
  shows "unat (horn_slice hold el) = min 35 (unat hold - unat el)"
    and "unat (el + horn_slice hold el) = min (unat el + 35) (unat hold)"
proof -
  have a: "unat (el + 35) = unat el + 35" using assms by (simp add: unat_word_ariths)
  have "el \<le> hold" using assms by (simp add: word_le_nat_alt)
  then have d: "unat (hold - el) = unat hold - unat el" by (simp add: unat_sub)
  show sl: "unat (horn_slice hold el) = min 35 (unat hold - unat el)"
    using a d by (auto simp: horn_slice_def Let_def word_less_nat_alt)
  show "unat (el + horn_slice hold el) = min (unat el + 35) (unat hold)"
    using assms sl by (simp add: unat_word_ariths(1))
qed

lemma half_period_horn: "half_period 390 = 1282" "half_period 430 = 1162" "half_period 520 = 961"
  by (simp_all add: half_period_def)

definition horn_bound :: "nat \<Rightarrow> nat" where
  "horn_bound x = 1000 * x + 2564 * ((x + 34) div 35)"

lemma horn_bound_slice:
  assumes "0 < x" "w = 0 \<or> w < 1000 * min 35 x + 2564" "v \<le> horn_bound (x - min 35 x)"
  shows "w + v \<le> horn_bound x"
proof (cases "x \<le> 35")
  case True
  then have "(x + 34) div 35 = 1" using assms(1) by (intro div_nat_eqI) auto
  with True assms show ?thesis by (auto simp: horn_bound_def)
next
  case False
  then have "(x + 34) div 35 = Suc ((x - 35 + 34) div 35)" by (simp add: le_div_geq)
  with False assms show ?thesis by (auto simp: horn_bound_def)
qed

text \<open>A slice that returns, with the bounds of \<open>PlayTone_returns\<close>.\<close>

lemma horn_tone:
  assumes "f = 390 \<or> f = 430" "unat el < unat hold" "unat hold \<le> 4000000"
  shows "\<exists>t w. BodyControl_PlayToneForMs f (horn_slice hold el) s = Some t \<and> buzzed w s t \<and>
    1000 * min 35 (unat hold - unat el) \<le> w \<and>
    (w = 0 \<or> w < 1000 * min 35 (unat hold - unat el) + 2564)"
proof -
  let ?x = "min 35 (unat hold - unat el)"
  have x: "unat (horn_slice hold el) = ?x" using horn_slice_unat(1) [OF assms(2,3)] .
  have f: "0 < f" "2 * half_period f \<le> 2564" using assms(1) by (auto simp: half_period_horn)
  have "unat (horn_slice hold el) \<le> 4000000" unfolding x by simp
  from PlayTone_returns [OF f(1) this, of s, unfolded x] obtain t w where
    "BodyControl_PlayToneForMs f (horn_slice hold el) s = Some t" "buzzed w s t"
    "1000 * ?x \<le> w" "w = 0 \<or> w < 1000 * ?x + 2 * half_period f" by blast
  then show ?thesis using f(2) by (intro exI [of _ t] exI [of _ w]) auto
qed

lemma horn_loop_returns:
  assumes "unat hold \<le> 4000000" and "unat el \<le> unat hold"
  shows "\<exists>t w. horn_loop hold el s = Some t \<and> buzzed w s t \<and>
    1000 * (unat hold - unat el) \<le> w \<and> w \<le> horn_bound (unat hold - unat el)"
  using assms(2)
proof (induction "unat hold - unat el" arbitrary: el s rule: less_induct)
  case less
  show ?case
  proof (cases "unat el < unat hold")
    case False
    then have "horn_loop hold el s = Some s"
      by (simp add: horn_loop.simps [of hold el] word_less_nat_alt)
    with less.prems False show ?thesis using buzzed_refl [of s] by auto
  next
    case True
    let ?x = "unat hold - unat el" and ?e = "el + horn_slice hold el"
    have e: "unat ?e = min (unat el + 35) (unat hold)" using horn_slice_unat(2) [OF True assms(1)] .
    then have x: "unat hold - unat ?e = ?x - min 35 ?x" by linarith
    obtain t w where t: "BodyControl_PlayToneForMs 390 (horn_slice hold el) s = Some t" "buzzed w s t"
        "1000 * min 35 ?x \<le> w" "w = 0 \<or> w < 1000 * min 35 ?x + 2564"
      using horn_tone [OF _ True assms(1), of 390 s] by auto
    show ?thesis
    proof (cases "unat ?e < unat hold")
      case False
      then have "horn_loop hold el s = Some t"
        using True t(1) by (simp add: horn_loop.simps [of hold el] word_less_nat_alt word_le_nat_alt Let_def)
      moreover have "min 35 ?x = ?x" using False e by linarith
      moreover have "w + 0 \<le> horn_bound ?x"
        by (rule horn_bound_slice) (use True t(4) in \<open>auto simp: horn_bound_def\<close>)
      ultimately show ?thesis using t by auto
    next
      case e_lt: True
      let ?y = "unat hold - unat ?e" and ?f = "?e + horn_slice hold ?e"
      have f: "unat ?f = min (unat ?e + 35) (unat hold)" using horn_slice_unat(2) [OF e_lt assms(1)] .
      then have y: "unat hold - unat ?f = ?y - min 35 ?y" "unat hold - unat ?f < ?x" "unat ?f \<le> unat hold"
        using e e_lt True by linarith+
      obtain u v where u: "BodyControl_PlayToneForMs 430 (horn_slice hold ?e) t = Some u" "buzzed v t u"
          "1000 * min 35 ?y \<le> v" "v = 0 \<or> v < 1000 * min 35 ?y + 2564"
        using horn_tone [OF _ e_lt assms(1), of 430 t] by auto
      from less.hyps [OF y(2) y(3), of u] obtain r z where r: "horn_loop hold ?f u = Some r" "buzzed z u r"
          "1000 * (unat hold - unat ?f) \<le> z" "z \<le> horn_bound (unat hold - unat ?f)" by blast
      have "horn_loop hold el s = Some r"
        using True e_lt t(1) u(1) r(1)
        by (subst horn_loop.simps) (simp add: word_less_nat_alt word_le_nat_alt Let_def)
      moreover have "buzzed (w + (v + z)) s r" by (rule buzzed_trans [OF t(2) buzzed_trans [OF u(2) r(2)]])
      moreover from e_lt True have "0 < ?y" "0 < ?x" by linarith+
      then have "v + z \<le> horn_bound ?y" using horn_bound_slice [OF _ u(4)] r(4) y(1) by simp
      then have "w + (v + z) \<le> horn_bound ?x" using horn_bound_slice [OF \<open>0 < ?x\<close> t(4)] x by simp
      moreover have "1000 * ?x \<le> w + (v + z)" using t(3) u(3) r(3) x y(1) by linarith
      ultimately show ?thesis by blast
    qed
  qed
qed

lemma HornForMs_returns:
  assumes "unat hold \<le> 4000000"
  shows "\<exists>t w. BodyControl_HornForMs hold s = Some t \<and> buzzed w s t \<and> \<not> pin_cmd t BODY_BUZZER \<and>
    1000 * unat hold \<le> w \<and> w \<le> 1922 + horn_bound (unat hold)"
proof (cases "80 < unat hold")
  case False
  obtain t w where "horn_loop hold 0 s = Some t" "buzzed w s t" "1000 * unat hold \<le> w"
      "w \<le> horn_bound (unat hold)"
    using horn_loop_returns [OF assms, of 0 s] by auto
  then show ?thesis
    using False buzzed_trans [OF _ buzzed_off(1), of w s t]
    by (intro exI [of _ "BodyControl_BuzzerOff t"] exI [of _ w])
      (simp add: BodyControl_HornForMs_def word_less_nat_alt write_pin_eq)
next
  case True
  obtain u v where u: "BodyControl_PlayToneForMs 520 80 s = Some u" "buzzed v s u" "80000 \<le> v"
      "v = 0 \<or> v < 80000 + 1922"
    using PlayTone_returns [of 520 80 s] by (auto simp: half_period_horn)
  obtain t w where t: "horn_loop hold 80 u = Some t" "buzzed w u t" "1000 * (unat hold - 80) \<le> w"
      "w \<le> horn_bound (unat hold - 80)"
    using horn_loop_returns [OF assms, of 80 u] True by auto
  have "horn_bound (unat hold - 80) + 80000 \<le> horn_bound (unat hold)"
    using True div_le_mono [of "unat hold - 80 + 34" "unat hold + 34" 35] by (simp add: horn_bound_def)
  with True u t show ?thesis
    using buzzed_trans [OF u(2) buzzed_trans [OF t(2) buzzed_off(1)]]
    by (intro exI [of _ "BodyControl_BuzzerOff t"] exI [of _ "v + (w + 0)"])
      (auto simp: BodyControl_HornForMs_def word_less_nat_alt write_pin_eq)
qed

end
