(* ===== verification/Dtc_Monitor.thy ===== *)
theory Dtc_Monitor
  imports Fw_Prelude "HOL-Library.Sublist"
begin

text \<open>
  The contract of a trouble-code monitor, which three places of the repository implement: the
  ultrasonic code of the BODY ECU, the encoder and steering codes of the ACT ECU and the
  communication-loss codes of the MAIN gateway. A test reports failed or passed; the current bit
  shows the last report, the history bit is set when three reports in a row failed, and only a
  clear removes it. The locale states the laws of one report; its lemmas describe any sequence of
  them.
\<close>

section \<open>Specification of the confirmation\<close>

text \<open>\<open>n\<close> failures in a row so far: does the sequence reach the third one in a row?\<close>

fun confirmed :: "nat \<Rightarrow> bool list \<Rightarrow> bool" where
  "confirmed n [] = False"
| "confirmed n (failed # rs) =
     (if failed then 3 \<le> Suc n \<or> confirmed (Suc n) rs else confirmed 0 rs)"

lemma confirmed_cong: "min 3 m = min 3 n \<Longrightarrow> confirmed m rs = confirmed n rs"
proof (induction rs arbitrary: m n)
  case (Cons r rs)
  have "3 \<le> Suc m \<longleftrightarrow> 3 \<le> Suc n" "min 3 (Suc m) = min 3 (Suc n)"
    using Cons.prems by linarith+
  with Cons.IH [of "Suc m" "Suc n"] show ?case by simp
qed simp

lemma confirmed_sublist:
  "confirmed n rs \<longleftrightarrow> prefix (replicate (max 1 (3 - n)) True) rs \<or> sublist [True, True, True] rs"
proof (induction rs arbitrary: n)
  case Nil
  then show ?case by (auto simp: max_def)
next
  case (Cons r rs)
  have r3: "[True, True, True] = replicate 3 True" by (simp add: numeral_3_eq_3)
  have "sublist [True, True, True] (r # rs) \<longleftrightarrow>
      r \<and> prefix [True, True] rs \<or> sublist [True, True, True] rs"
    by (auto simp: sublist_Cons_right)
  moreover have "sublist [True, True, True] rs \<Longrightarrow> True" by simp
  ultimately show ?case
  proof (cases r)
    case False
    have "prefix [True, True, True] rs \<Longrightarrow> sublist [True, True, True] rs"
      by (rule prefix_imp_sublist)
    with False Cons.IH [of 0] show ?thesis
      by (auto simp: max_def sublist_Cons_right numeral_3_eq_3 Suc_diff_le)
  next
    case True
    consider "n = 0" | "n = 1" | "2 \<le> n" by linarith
    then show ?thesis
    proof cases
      case 1
      with True Cons.IH [of 1] show ?thesis
        by (auto simp: sublist_Cons_right numeral_3_eq_3 numeral_2_eq_2)
    next
      case 2
      have "prefix [True, True] rs \<Longrightarrow> prefix [True] rs"
        by (metis append_prefixD append_Cons append_Nil)
      with 2 True Cons.IH [of 2] show ?thesis
        by (auto simp: sublist_Cons_right numeral_3_eq_3 numeral_2_eq_2)
    next
      case 3
      then have "max 1 (3 - n) = 1" by simp
      with 3 True show ?thesis by simp
    qed
  qed
qed

corollary confirmed_from_start: "confirmed 0 rs \<longleftrightarrow> sublist [True, True, True] rs"
  using confirmed_sublist [of 0 rs] by (auto simp: numeral_3_eq_3 intro: prefix_imp_sublist)

section \<open>The interface\<close>

locale dtc_monitor =
  fixes fail :: "'s \<Rightarrow> 's"
    and pass :: "'s \<Rightarrow> 's"
    and current :: "'s \<Rightarrow> bool"
    and history :: "'s \<Rightarrow> bool"
    and fails :: "'s \<Rightarrow> nat"
    and ok :: "'s \<Rightarrow> bool"
  assumes ok_fail: "ok s \<Longrightarrow> ok (fail s)"
    and ok_pass: "ok s \<Longrightarrow> ok (pass s)"
    and current_fail: "ok s \<Longrightarrow> current (fail s)"
    and current_pass: "ok s \<Longrightarrow> \<not> current (pass s)"
    and fails_fail: "ok s \<Longrightarrow> min 3 (fails (fail s)) = min 3 (Suc (fails s))"
    and fails_pass: "ok s \<Longrightarrow> fails (pass s) = 0"
    and history_fail: "ok s \<Longrightarrow> history (fail s) \<longleftrightarrow> history s \<or> 3 \<le> Suc (fails s)"
    and history_pass: "ok s \<Longrightarrow> history (pass s) = history s"
begin

definition report :: "bool \<Rightarrow> 's \<Rightarrow> 's" where
  "report failed s = (if failed then fail s else pass s)"

definition reports :: "bool list \<Rightarrow> 's \<Rightarrow> 's" where
  "reports = fold report"

lemma reports_simps [simp]:
  "reports [] s = s" "reports (r # rs) s = reports rs (report r s)"
  by (simp_all add: reports_def)

lemma ok_report: "ok s \<Longrightarrow> ok (report r s)"
  by (simp add: report_def ok_fail ok_pass)

lemma ok_reports: "ok s \<Longrightarrow> ok (reports rs s)"
  by (induction rs arbitrary: s) (simp_all add: ok_report)

lemma current_report: "ok s \<Longrightarrow> current (report r s) = r"
  by (simp add: report_def current_fail current_pass)

lemma current_reports: "ok s \<Longrightarrow> rs \<noteq> [] \<Longrightarrow> current (reports rs s) = last rs"
proof (induction rs arbitrary: s)
  case (Cons r rs)
  then show ?case by (cases rs) (simp_all add: ok_report current_report)
qed simp

lemma history_reports: "ok s \<Longrightarrow> history (reports rs s) \<longleftrightarrow> history s \<or> confirmed (fails s) rs"
proof (induction rs arbitrary: s)
  case (Cons r rs)
  have "confirmed (fails (fail s)) rs = confirmed (Suc (fails s)) rs"
    using Cons.prems by (intro confirmed_cong fails_fail)
  with Cons show ?case
    by (auto simp: report_def ok_fail ok_pass history_fail history_pass fails_pass)
qed simp

lemma history_fresh:
  "ok s \<Longrightarrow> fails s = 0 \<Longrightarrow> \<not> history s \<Longrightarrow>
     history (reports rs s) \<longleftrightarrow> sublist [True, True, True] rs"
  by (simp add: history_reports confirmed_from_start)

end

text \<open>A monitor whose history can be cleared.\<close>

locale dtc_memory = dtc_monitor fail pass current history fails ok
  for fail :: "'s \<Rightarrow> 's" and pass :: "'s \<Rightarrow> 's" and current :: "'s \<Rightarrow> bool"
    and history :: "'s \<Rightarrow> bool" and fails :: "'s \<Rightarrow> nat" and ok :: "'s \<Rightarrow> bool" +
  fixes clear :: "'s \<Rightarrow> 's"
  assumes ok_clear: "ok s \<Longrightarrow> ok (clear s)"
    and fails_clear: "ok s \<Longrightarrow> fails (clear s) = 0"
    and history_clear: "ok s \<Longrightarrow> \<not> history (clear s)"
begin

lemma history_after_clear:
  "ok s \<Longrightarrow> history (reports rs (clear s)) \<longleftrightarrow> sublist [True, True, True] rs"
  by (simp add: history_fresh ok_clear fails_clear history_clear)

end

end
