(* ===== verification/Dtc_Byte.thy ===== *)
theory Dtc_Byte
  imports Dtc_Monitor
begin

unbundle bit_operations_syntax

text \<open>
  The representation of a trouble code that the BODY and the ACT ECU share: a status byte, bit 0
  for the last report and bit 3 for the history, and a counter of failures in a row that stops at
  three. The laws of \<open>Dtc_Monitor\<close> for this representation are proved once.
\<close>

text \<open>The status byte and the counter after a report, as functions of the two.\<close>

definition dtc_after :: "bool \<Rightarrow> u8 \<Rightarrow> u8 \<Rightarrow> u8 \<times> u8" where
  "dtc_after failed st n =
     (if failed then
        let n = (if n < 3 then n + 1 else n)
        in (if 3 \<le> n then (st OR 1) OR 8 else st OR 1, n)
      else (st AND NOT 1, 0))"

definition dtc_byte_ok :: "u8 \<Rightarrow> u8 \<Rightarrow> bool" where
  "dtc_byte_ok st n \<longleftrightarrow> unat n \<le> 3 \<and> st AND NOT 9 = 0 \<and> (0 < unat n \<longrightarrow> st AND 1 \<noteq> 0) \<and>
     (unat n = 3 \<longrightarrow> st AND 8 \<noteq> 0)"

text \<open>Bits 0 and 3; the simplifier writes \<open>NOT 1\<close>, \<open>NOT 8\<close> and \<open>NOT 9\<close> as negative numerals.\<close>

lemma u8_bits_09:
  "(st OR 1) AND 1 = (1 :: u8)" "(st AND - 2) AND 1 = (0 :: u8)"
  "(st OR 1) AND 8 = (st AND 8 :: u8)" "(st AND - 2) AND 8 = (st AND 8 :: u8)"
  "((st OR 1) OR 8) AND 8 = (8 :: u8)" "((st OR 1) OR 8) AND 1 = (1 :: u8)"
  "(st AND - 9) AND 1 = (st AND 1 :: u8)" "(st AND - 9) AND 8 = (0 :: u8)"
  by (simp_all add: and.assoc word_ao_dist or.assoc)

lemma and_keeps_zero: "x AND m = 0 \<Longrightarrow> (x AND k) AND m = (0 :: 'a::len word)"
proof -
  have "(x AND k) AND m = (x AND m) AND k" by (simp add: ac_simps)
  then show "x AND m = 0 \<Longrightarrow> (x AND k) AND m = 0" by simp
qed

lemma u8_mask_09:
  fixes st :: u8
  assumes "st AND - 10 = 0"
  shows "(st OR 1) AND - 10 = 0" "((st OR 1) OR 8) AND - 10 = 0"
    "(st AND - 2) AND - 10 = 0" "(st AND - 9) AND - 10 = 0"
proof -
  show "(st OR 1) AND - 10 = 0" using assms by (simp add: word_ao_dist)
  then show "((st OR 1) OR 8) AND - 10 = 0" by (simp add: word_ao_dist)
  show "(st AND - 2) AND - 10 = 0" "(st AND - 9) AND - 10 = 0"
    using assms by (rule and_keeps_zero)+
qed

lemma dtc_after_ok:
  assumes "dtc_byte_ok st n"
  shows "case_prod dtc_byte_ok (dtc_after failed st n)"
proof -
  have "n < 3 \<Longrightarrow> unat (n + 1) = Suc (unat n)" by (rule unat_inc_below)
  with assms show ?thesis
    by (auto simp: dtc_byte_ok_def dtc_after_def Let_def u8_bits_09 u8_mask_09
        word_less_nat_alt word_le_nat_alt)
qed

abbreviation dtc_current :: "u8 \<Rightarrow> bool" where "dtc_current st \<equiv> st AND 1 \<noteq> 0"
abbreviation dtc_history :: "u8 \<Rightarrow> bool" where "dtc_history st \<equiv> st AND 8 \<noteq> 0"

text \<open>The laws of the contract, on the status byte and the counter.\<close>

lemma dtc_after_laws:
  "fst (dtc_after True st n) AND 1 \<noteq> 0"
  "fst (dtc_after False st n) AND 1 = 0"
  "min 3 (unat (snd (dtc_after True st n))) = min 3 (Suc (unat n))"
  "snd (dtc_after False st n) = 0"
  "fst (dtc_after True st n) AND 8 \<noteq> 0 \<longleftrightarrow> st AND 8 \<noteq> 0 \<or> 3 \<le> Suc (unat n)"
  "fst (dtc_after False st n) AND 8 = st AND 8"
proof -
  have inc: "n < 3 \<Longrightarrow> unat (n + 1) = Suc (unat n)" by (rule unat_inc_below)
  show "fst (dtc_after True st n) AND 1 \<noteq> 0" "fst (dtc_after False st n) AND 1 = 0"
    "snd (dtc_after False st n) = 0" "fst (dtc_after False st n) AND 8 = st AND 8"
    by (simp_all add: dtc_after_def Let_def u8_bits_09)
  show "min 3 (unat (snd (dtc_after True st n))) = min 3 (Suc (unat n))"
    using inc by (auto simp: dtc_after_def Let_def word_less_nat_alt)
  show "fst (dtc_after True st n) AND 8 \<noteq> 0 \<longleftrightarrow> st AND 8 \<noteq> 0 \<or> 3 \<le> Suc (unat n)"
    using inc by (auto simp: dtc_after_def Let_def u8_bits_09 word_less_nat_alt word_le_nat_alt)
qed

end
