(* ===== verification/Body_Dtc.thy ===== *)
theory Body_Dtc
  imports Body_Tone Dtc_Byte
begin

unbundle bit_operations_syntax

text \<open>
  The ultrasonic trouble code of \<open>src/BODY/BodyControl.c\<close>: the diagnostic measurement, run on
  request and every three seconds, its status byte (bit 0 current, bit 3 history) and the blink of
  the danger LED that announces a newly confirmed code. The status is an instance of the monitor
  contract of theory \<open>Dtc_Monitor\<close>.
\<close>

section \<open>Operations\<close>

text \<open>\<open>distanceMm\<close> is \<open>None\<close> for a null pointer, otherwise the word it points to.\<close>

definition ultrasonic_routine_failed :: "'a body_scheme \<Rightarrow> 'a body_scheme" where
  "ultrasonic_routine_failed s =
     (let s = s\<lparr>g_diagFaultMask := g_diagFaultMask s OR BODY_DIAG_ULTRASONIC_BIT,
                g_ultrasonicDistanceCm := ucast BODY_ULTRASONIC_NO_OBJECT_CM,
                g_ultrasonicDistanceValid := False,
                g_ultrasonicTimeoutCount := g_ultrasonicTimeoutCount s + 1\<rparr>;
          s = s\<lparr>g_debugBodyDiagFaultMask := g_diagFaultMask s,
                g_debugBodyUltrasonicDistanceCm := g_ultrasonicDistanceCm s,
                g_debugBodyUltrasonicDistanceValid := 0,
                g_debugBodyUltrasonicTimeoutCount := g_ultrasonicTimeoutCount s\<rparr>
      in BodyControl_UpdateDiagDangerLed s)"

definition ultrasonic_routine_passed :: "u16 \<Rightarrow> 'a body_scheme \<Rightarrow> 'a body_scheme" where
  "ultrasonic_routine_passed distanceCm s =
     (let s = s\<lparr>g_ultrasonicDistanceCm := distanceCm, g_ultrasonicDistanceValid := True,
                g_ultrasonicMeasureCount := g_ultrasonicMeasureCount s + 1\<rparr>
      in s\<lparr>g_debugBodyUltrasonicDistanceCm := g_ultrasonicDistanceCm s,
           g_debugBodyUltrasonicDistanceValid := 1,
           g_debugBodyUltrasonicMeasureCount := g_ultrasonicMeasureCount s\<rparr>)"

definition BodyControl_RunUltrasonicDiagnosticRoutine ::
  "hw \<Rightarrow> u16 option \<Rightarrow> 'a body_scheme \<Rightarrow> (bool \<times> u16 option \<times> 'a body_scheme) option" where
  "BodyControl_RunUltrasonicDiagnosticRoutine h distanceMm s =
     (if distanceMm = None then Some (False, distanceMm, s)
      else do {
        (result, s) \<leftarrow> BodyControl_MeasureUltrasonicDistanceCmWithTimeout h
          BODY_ULTRASONIC_DIAG_ECHO_TIMEOUT_US s;
        case result of
          None \<Rightarrow> Some (False, Some 0xFFFF, ultrasonic_routine_failed s)
        | Some distanceCm \<Rightarrow>
            let distance = (ucast distanceCm :: u32) * 10;
                distance = (if distance > 0xFFFF then 0xFFFF else distance)
            in Some (True, Some (ucast distance), ultrasonic_routine_passed distanceCm s)
      })"

definition BodyControl_UpdateUltrasonicDtcDebug :: "'a body_scheme \<Rightarrow> 'a body_scheme" where
  "BodyControl_UpdateUltrasonicDtcDebug s =
     s\<lparr>g_debugBodyUltrasonicDtcStatus := g_ultrasonicDtcStatus s,
       g_debugBodyUltrasonicDtcFailCount := g_ultrasonicDtcConsecutiveFailCount s\<rparr>"

definition BodyControl_SyncUltrasonicDtcFaultMask :: "'a body_scheme \<Rightarrow> 'a body_scheme" where
  "BodyControl_SyncUltrasonicDtcFaultMask s =
     (let s = (if g_ultrasonicDtcStatus s AND BODY_DTC_STATUS_CURRENT_BIT \<noteq> 0
               then s\<lparr>g_diagFaultMask := g_diagFaultMask s OR BODY_DIAG_ULTRASONIC_BIT\<rparr>
               else s\<lparr>g_diagFaultMask := g_diagFaultMask s AND NOT BODY_DIAG_ULTRASONIC_BIT\<rparr>);
          s = s\<lparr>g_debugBodyDiagFaultMask := g_diagFaultMask s\<rparr>
      in BodyControl_UpdateDiagDangerLed s)"

definition BodyControl_UpdateUltrasonicDtcStatus :: "bool \<Rightarrow> 'a body_scheme \<Rightarrow> 'a body_scheme" where
  "BodyControl_UpdateUltrasonicDtcStatus failed s =
     (let previousStatus = g_ultrasonicDtcStatus s;
          s = (if failed then
                 let s = s\<lparr>g_ultrasonicDtcStatus :=
                             g_ultrasonicDtcStatus s OR BODY_DTC_STATUS_CURRENT_BIT\<rparr>;
                     s = (if g_ultrasonicDtcConsecutiveFailCount s < BODY_DTC_CONFIRM_FAIL_COUNT
                          then s\<lparr>g_ultrasonicDtcConsecutiveFailCount :=
                                   g_ultrasonicDtcConsecutiveFailCount s + 1\<rparr>
                          else s)
                 in if g_ultrasonicDtcConsecutiveFailCount s \<ge> BODY_DTC_CONFIRM_FAIL_COUNT
                    then s\<lparr>g_ultrasonicDtcStatus :=
                             g_ultrasonicDtcStatus s OR BODY_DTC_STATUS_HISTORY_BIT\<rparr>
                    else s
               else s\<lparr>g_ultrasonicDtcStatus :=
                        g_ultrasonicDtcStatus s AND NOT BODY_DTC_STATUS_CURRENT_BIT,
                      g_ultrasonicDtcConsecutiveFailCount := 0\<rparr>);
          s = (if previousStatus AND BODY_DTC_STATUS_HISTORY_BIT = 0 \<and>
                  g_ultrasonicDtcStatus s AND BODY_DTC_STATUS_HISTORY_BIT \<noteq> 0
               then BodyControl_StartDiagDangerLedBlink s else s);
          s = BodyControl_UpdateUltrasonicDtcDebug s
      in BodyControl_SyncUltrasonicDtcFaultMask s)"

definition BodyControl_UpdateDtcStatus1ms :: "hw \<Rightarrow> 'a body_scheme \<Rightarrow> 'a body_scheme option" where
  "BodyControl_UpdateDtcStatus1ms h s =
     (if g_dtcCheckTimerMs s < BODY_DTC_CHECK_PERIOD_MS
      then Some (s\<lparr>g_dtcCheckTimerMs := g_dtcCheckTimerMs s + 1\<rparr>)
      else do {
        (ultrasonicOk, distanceMm, s) \<leftarrow>
          BodyControl_RunUltrasonicDiagnosticRoutine h (Some 0) (s\<lparr>g_dtcCheckTimerMs := 0\<rparr>);
        Some (BodyControl_UpdateUltrasonicDtcStatus (\<not> ultrasonicOk) s)
      })"

definition BodyControl_ClearDtcHistory :: "'a body_scheme \<Rightarrow> 'a body_scheme" where
  "BodyControl_ClearDtcHistory s =
     (let s = s\<lparr>g_ultrasonicDtcStatus :=
                  g_ultrasonicDtcStatus s AND NOT BODY_DTC_STATUS_HISTORY_BIT,
                g_ultrasonicDtcConsecutiveFailCount := 0,
                g_diagDangerBlinkActive := False, g_diagDangerBlinkOutputOn := False,
                g_diagDangerBlinkToggleCount := 0, g_diagDangerBlinkTimerMs := 0\<rparr>;
          s = BodyControl_UpdateUltrasonicDtcDebug s
      in BodyControl_SyncUltrasonicDtcFaultMask s)"

section \<open>Closed forms\<close>

lemma SyncMask_sel [simp]:
  "g_ultrasonicDtcStatus (BodyControl_SyncUltrasonicDtcFaultMask s) = g_ultrasonicDtcStatus s"
  "g_ultrasonicDtcConsecutiveFailCount (BodyControl_SyncUltrasonicDtcFaultMask s) =
     g_ultrasonicDtcConsecutiveFailCount s"
  by (simp_all add: BodyControl_SyncUltrasonicDtcFaultMask_def UpdateDiagDangerLed_form Let_def
      set_pin_def)

lemma StartBlink_sel [simp]:
  "g_ultrasonicDtcStatus (BodyControl_StartDiagDangerLedBlink s) = g_ultrasonicDtcStatus s"
  "g_ultrasonicDtcConsecutiveFailCount (BodyControl_StartDiagDangerLedBlink s) =
     g_ultrasonicDtcConsecutiveFailCount s"
  by (simp_all add: BodyControl_StartDiagDangerLedBlink_def BodyControl_WriteDiagDangerLed_def
      write_pin_eq set_pin_def)

lemma DtcStatus_after:
  "(g_ultrasonicDtcStatus (BodyControl_UpdateUltrasonicDtcStatus failed s),
    g_ultrasonicDtcConsecutiveFailCount (BodyControl_UpdateUltrasonicDtcStatus failed s)) =
     dtc_after failed (g_ultrasonicDtcStatus s) (g_ultrasonicDtcConsecutiveFailCount s)"
  by (simp add: BodyControl_UpdateUltrasonicDtcStatus_def dtc_after_def Let_def
      BodyControl_UpdateUltrasonicDtcDebug_def)

lemma ClearDtc_after [simp]:
  "g_ultrasonicDtcStatus (BodyControl_ClearDtcHistory s) = g_ultrasonicDtcStatus s AND NOT 8"
  "g_ultrasonicDtcConsecutiveFailCount (BodyControl_ClearDtcHistory s) = 0"
  by (simp_all add: BodyControl_ClearDtcHistory_def Let_def BodyControl_UpdateUltrasonicDtcDebug_def)

section \<open>The monitor contract\<close>

definition body_dtc_ok :: "'a body_diag_scheme \<Rightarrow> bool" where
  "body_dtc_ok s = dtc_byte_ok (g_ultrasonicDtcStatus s) (g_ultrasonicDtcConsecutiveFailCount s)"

lemma body_dtc_after:
  "g_ultrasonicDtcStatus (BodyControl_UpdateUltrasonicDtcStatus failed s) =
     fst (dtc_after failed (g_ultrasonicDtcStatus s) (g_ultrasonicDtcConsecutiveFailCount s))"
  "g_ultrasonicDtcConsecutiveFailCount (BodyControl_UpdateUltrasonicDtcStatus failed s) =
     snd (dtc_after failed (g_ultrasonicDtcStatus s) (g_ultrasonicDtcConsecutiveFailCount s))"
  by (simp_all flip: DtcStatus_after)

lemma body_dtc_ok_report: "body_dtc_ok s \<Longrightarrow> body_dtc_ok (BodyControl_UpdateUltrasonicDtcStatus f s)"
  using dtc_after_ok [of "g_ultrasonicDtcStatus s" "g_ultrasonicDtcConsecutiveFailCount s" f]
  by (simp add: body_dtc_ok_def body_dtc_after case_prod_beta)

lemma body_dtc_ok_clear: "body_dtc_ok s \<Longrightarrow> body_dtc_ok (BodyControl_ClearDtcHistory s)"
  by (simp add: body_dtc_ok_def dtc_byte_ok_def u8_mask_09)

interpretation body_dtc: dtc_memory
  "BodyControl_UpdateUltrasonicDtcStatus True" "BodyControl_UpdateUltrasonicDtcStatus False"
  "\<lambda>s. dtc_current (g_ultrasonicDtcStatus s)" "\<lambda>s. dtc_history (g_ultrasonicDtcStatus s)"
  "\<lambda>s. unat (g_ultrasonicDtcConsecutiveFailCount s)" body_dtc_ok BodyControl_ClearDtcHistory
  by unfold_locales
    (simp_all add: body_dtc_ok_report body_dtc_ok_clear body_dtc_after dtc_after_laws u8_bits_09)

end
