(* ===== verification/Body_Button.thy ===== *)
theory Body_Button
  imports Body_State
begin

unbundle bit_operations_syntax

text \<open>
  The collision button of \<open>src/BODY/BodyControl.c\<close>: the debouncer called every millisecond and
  the event it raises. The specification is a machine that knows only the length of the current
  run of equal samples; the debouncer refines it, so a level is accepted exactly when 22 samples
  in a row show it (one that differs from the last, 20 that let the timer run, one that acts).
\<close>

section \<open>Operations\<close>

definition BodyControl_CollisionButtonSample :: "bool \<Rightarrow> 'a body_scheme \<Rightarrow> 'a body_scheme" where
  "BodyControl_CollisionButtonSample rawPressed s =
     (let s = s\<lparr>g_debugBodyCollisionButtonRawPressed := (if rawPressed then 1 else 0)\<rparr>
      in if rawPressed \<noteq> g_collisionButtonLastRawPressed s
         then s\<lparr>g_collisionButtonLastRawPressed := rawPressed, g_collisionButtonDebounceTimerMs := 0\<rparr>
         else if g_collisionButtonDebounceTimerMs s < BODY_COLLISION_BUTTON_DEBOUNCE_MS
         then s\<lparr>g_collisionButtonDebounceTimerMs := g_collisionButtonDebounceTimerMs s + 1\<rparr>
         else if rawPressed \<noteq> g_collisionButtonStablePressed s
         then
           let s = s\<lparr>g_collisionButtonStablePressed := rawPressed,
                     g_debugBodyCollisionButtonStablePressed := (if rawPressed then 1 else 0)\<rparr>
           in if g_collisionButtonStablePressed s
              then
                let s = s\<lparr>g_collisionButtonEventPending := True,
                          g_collisionButtonPressedEventCount :=
                            g_collisionButtonPressedEventCount s + 1\<rparr>
                in s\<lparr>g_debugBodyCollisionButtonEventCount := g_collisionButtonPressedEventCount s\<rparr>
              else s
         else s)"

definition BodyControl_UpdateCollisionButton1ms :: "hw \<Rightarrow> 'a body_scheme \<Rightarrow> 'a body_scheme" where
  "BodyControl_UpdateCollisionButton1ms h s =
     (let (rawPressed, s) = BodyControl_ReadCollisionButtonRawPressed h s
      in BodyControl_CollisionButtonSample rawPressed s)"

definition BodyControl_ConsumeCollisionButtonPressedEvent ::
  "'a body_scheme \<Rightarrow> bool \<times> 'a body_scheme" where
  "BodyControl_ConsumeCollisionButtonPressedEvent s =
     (if \<not> g_collisionButtonEventPending s then (False, s)
      else (True, s\<lparr>g_collisionButtonEventPending := False\<rparr>))"

definition BodyControl_IsCollisionButtonPressed :: "'a body_scheme \<Rightarrow> bool" where
  "BodyControl_IsCollisionButtonPressed s = g_collisionButtonStablePressed s"

section \<open>Specification: run lengths\<close>

record debounce_spec =
  sp_level :: bool      \<comment> \<open>the last sample\<close>
  sp_run :: nat         \<comment> \<open>how many samples in a row had that value\<close>
  sp_stable :: bool     \<comment> \<open>the accepted level\<close>
  sp_events :: nat      \<comment> \<open>accepted presses\<close>

definition debounce_spec_step :: "bool \<Rightarrow> debounce_spec \<Rightarrow> debounce_spec" where
  "debounce_spec_step raw a =
     (let run = (if raw = sp_level a then Suc (sp_run a) else 1);
          stable = (if 22 \<le> run then raw else sp_stable a)
      in \<lparr>sp_level = raw, sp_run = run, sp_stable = stable,
          sp_events = sp_events a + (if stable \<and> \<not> sp_stable a then 1 else 0)\<rparr>)"

lemma debounce_spec_step_sel [simp]:
  "sp_level (debounce_spec_step raw a) = raw"
  "sp_run (debounce_spec_step raw a) = (if raw = sp_level a then Suc (sp_run a) else 1)"
  by (simp_all add: debounce_spec_step_def Let_def)

text \<open>The timer is the run length less one, capped at 20.\<close>

definition debounce_rel :: "debounce_spec \<Rightarrow> 'a body_scheme \<Rightarrow> bool" where
  "debounce_rel a s \<longleftrightarrow>
     sp_level a = g_collisionButtonLastRawPressed s \<and> 1 \<le> sp_run a \<and>
     unat (g_collisionButtonDebounceTimerMs s) = min 20 (sp_run a - 1) \<and>
     sp_stable a = g_collisionButtonStablePressed s \<and>
     (22 \<le> sp_run a \<longrightarrow> sp_stable a = sp_level a) \<and>
     g_collisionButtonPressedEventCount s = of_nat (sp_events a)"

lemma debounce_simulation:
  assumes "debounce_rel a s"
  shows "debounce_rel (debounce_spec_step raw a) (BodyControl_CollisionButtonSample raw s)"
proof -
  let ?t = "g_collisionButtonDebounceTimerMs s"
  from assms have tm: "unat ?t = min 20 (sp_run a - 1)" and run: "1 \<le> sp_run a"
    by (simp_all add: debounce_rel_def)
  have lt: "?t < 20 \<longleftrightarrow> sp_run a - 1 < 20"
    using tm by (auto simp: word_less_nat_alt min_def)
  have inc: "?t < 20 \<Longrightarrow> unat (?t + 1) = Suc (unat ?t)" by (rule unat_inc_below)
  show ?thesis
  proof (cases "raw = sp_level a")
    case False
    with assms show ?thesis
      by (auto simp: debounce_rel_def debounce_spec_step_def BodyControl_CollisionButtonSample_def
          Let_def)
  next
    case True
    show ?thesis
    proof (cases "?t < 20")
      case True
      with assms tm run lt inc [OF True] \<open>raw = sp_level a\<close> show ?thesis
        by (auto simp: debounce_rel_def debounce_spec_step_def BodyControl_CollisionButtonSample_def
            Let_def)
    next
      case False
      with assms tm run lt \<open>raw = sp_level a\<close> show ?thesis
        by (auto simp: debounce_rel_def debounce_spec_step_def BodyControl_CollisionButtonSample_def
            Let_def)
    qed
  qed
qed

definition button_run :: "bool list \<Rightarrow> 'a body_scheme \<Rightarrow> 'a body_scheme" where
  "button_run = fold BodyControl_CollisionButtonSample"

lemma debounce_run_simulation:
  "debounce_rel a s \<Longrightarrow> debounce_rel (fold debounce_spec_step raws a) (button_run raws s)"
  by (induction raws arbitrary: a s) (simp_all add: button_run_def debounce_simulation)

text \<open>What the specification promises: an accepted level was seen 22 times in a row.\<close>

lemma spec_run_replicate:
  "sp_level a = b \<Longrightarrow> sp_run (fold debounce_spec_step (replicate n b) a) = sp_run a + n \<and>
     sp_level (fold debounce_spec_step (replicate n b) a) = b"
  by (induction n arbitrary: a) auto

lemma spec_last_run:
  assumes "n = sp_run (fold debounce_spec_step raws a)" and "n \<le> length raws"
  shows "drop (length raws - n) raws =
           replicate n (sp_level (fold debounce_spec_step raws a))"
  using assms
proof (induction raws arbitrary: n rule: rev_induct)
  case Nil
  then show ?case by simp
next
  case (snoc x xs)
  let ?b = "fold debounce_spec_step xs a"
  show ?case
  proof (cases "x = sp_level ?b")
    case True
    with snoc.prems have "n = Suc (sp_run ?b)" "sp_run ?b \<le> length xs"
      by simp_all
    with snoc.IH [of "sp_run ?b"] True show ?thesis
      by (simp add: replicate_append_same)
  next
    case False
    with snoc.prems show ?thesis by simp
  qed
qed

lemma spec_event_needs_run:
  assumes "sp_events (debounce_spec_step raw a) \<noteq> sp_events a"
  shows "raw \<and> 22 \<le> sp_run (debounce_spec_step raw a) \<and> \<not> sp_stable a"
  using assms by (auto simp: debounce_spec_step_def Let_def split: if_splits)

lemma button_pending_iff:
  assumes "debounce_rel a s" and "\<not> g_collisionButtonEventPending s"
  shows "g_collisionButtonEventPending (BodyControl_CollisionButtonSample raw s) \<longleftrightarrow>
     sp_events (debounce_spec_step raw a) = Suc (sp_events a)"
  using assms
  by (auto simp: BodyControl_CollisionButtonSample_def Let_def debounce_spec_step_def
      debounce_rel_def word_less_nat_alt split: if_splits)

lemma button_frame [fw_frame, simp]:
  "io_reads (BodyControl_UpdateCollisionButton1ms h s) = Suc (io_reads s)"
  by (simp add: BodyControl_UpdateCollisionButton1ms_def BodyControl_ReadCollisionButtonRawPressed_def
      read_pin_def BodyControl_CollisionButtonSample_def Let_def)

end
