(* ===== verification/Body_Control.thy ===== *)
theory Body_Control
  imports Body_Dtc Body_Button
begin

unbundle bit_operations_syntax

text \<open>
  \<open>src/BODY/BodyControl.c\<close> put together: initialisation, the millisecond step, all-off, the
  blocking routines, and the invariant \<open>body_inv\<close> that every one of them keeps. The millisecond
  step measures distances, so it is partial; it returns under \<open>hw_ok\<close>.
\<close>

section \<open>Operations\<close>

definition body_init_pins :: "'a io_scheme \<Rightarrow> 'a io_scheme" where
  "body_init_pins s =
     (let s = BodyControl_InitOutputPin BODY_HEAD_R s;
          s = BodyControl_InitOutputPin BODY_HEAD_G s;
          s = BodyControl_InitOutputPin BODY_HEAD_B s;
          s = BodyControl_InitOutputPin BODY_BRAKE s;
          s = BodyControl_InitOutputPin BODY_LEFT_TURN s;
          s = BodyControl_InitOutputPin BODY_RIGHT_TURN s;
          s = BodyControl_InitOutputPin BODY_BUZZER s;
          s = BodyControl_InitInputPinPulldown BODY_ULTRASONIC_ECHO s;
          s = BodyControl_InitOutputPin BODY_ULTRASONIC_TRIG s;
          s = BodyControl_WriteUltrasonicTrig False s;
          s = BodyControl_InitInputPinPulldown BODY_COLLISION_BUTTON s;
          s = BodyControl_InitInputPinPulldown BODY_DIAG_BRAKE_FB s;
          s = BodyControl_InitInputPinPulldown BODY_DIAG_HEAD_FB s;
          s = BodyControl_InitInputPinPulldown BODY_DIAG_LEFT_FB s;
          s = BodyControl_InitInputPinPulldown BODY_DIAG_RIGHT_FB s
      in BodyControl_InitOutputPin BODY_DIAG_DANGER_LED s)"

definition body_init_vars :: "hw \<Rightarrow> 'a body_scheme \<Rightarrow> 'a body_scheme" where
  "body_init_vars h s =
     (let s = s\<lparr>g_headlampOn := False, g_brakeLampOn := False,
                g_leftTurnEnabled := False, g_rightTurnEnabled := False,
                g_collisionWarningLampOn := False,
                g_hornEnabled := False, g_hornOutputOn := False, g_hornTimerMs := 0,
                g_ultrasonicDistanceCm := ucast BODY_ULTRASONIC_NO_OBJECT_CM,
                g_ultrasonicDistanceValid := False, g_ultrasonicMeasureTimerMs := 0,
                g_ultrasonicValidHoldTimerMs := 0, g_ultrasonicMeasureCount := 0,
                g_ultrasonicTimeoutCount := 0\<rparr>;
          s = BodyControl_ResetCollisionWarningSound s;
          s = s\<lparr>g_blinkOutputOn := False, g_blinkTimerMs := 0\<rparr>;
          (raw, s) = BodyControl_ReadCollisionButtonRawPressed h s;
          s = s\<lparr>g_collisionButtonLastRawPressed := raw\<rparr>;
          s = s\<lparr>g_collisionButtonStablePressed := g_collisionButtonLastRawPressed s,
                g_collisionButtonEventPending := False, g_collisionButtonDebounceTimerMs := 0,
                g_collisionButtonPressedEventCount := 0,
                g_diagFaultMask := 0, g_diagCommandMask := 0, g_diagFeedbackMask := 0,
                g_ultrasonicDtcStatus := 0, g_ultrasonicDtcConsecutiveFailCount := 0,
                g_dtcCheckTimerMs := 0,
                g_diagDangerBlinkActive := False, g_diagDangerBlinkOutputOn := False,
                g_diagDangerBlinkToggleCount := 0, g_diagDangerBlinkTimerMs := 0,
                g_diagBrakeLowTimerMs := 0, g_diagHeadLowTimerMs := 0,
                g_diagLeftLowTimerMs := 0, g_diagRightLowTimerMs := 0,
                g_debugBodyDiagFaultMask := 0, g_debugBodyDiagCommandMask := 0,
                g_debugBodyDiagFeedbackMask := 0, g_debugBodyDiagStartupFaultMask := 0\<rparr>
      in s\<lparr>g_debugBodyCollisionButtonRawPressed := (if g_collisionButtonLastRawPressed s then 1 else 0),
           g_debugBodyCollisionButtonStablePressed :=
             (if g_collisionButtonStablePressed s then 1 else 0),
           g_debugBodyCollisionButtonEventCount := 0,
           g_debugBodyUltrasonicDistanceCm := ucast BODY_ULTRASONIC_NO_OBJECT_CM,
           g_debugBodyUltrasonicDistanceValid := 0, g_debugBodyCollisionWarningLevel := 0,
           g_debugBodyUltrasonicMeasureCount := 0, g_debugBodyUltrasonicTimeoutCount := 0,
           g_debugBodyUltrasonicDtcStatus := 0, g_debugBodyUltrasonicDtcFailCount := 0\<rparr>)"

definition BodyControl_Init :: "hw \<Rightarrow> 'a body_scheme \<Rightarrow> 'a body_scheme" where
  "BodyControl_Init h s =
     (let s = body_init_pins s;
          s = body_init_vars h s;
          s = BodyControl_RunStartupSelfDiagnosis h s;
          s = BodyControl_BuzzerOff s
      in BodyControl_ApplyOutputs s)"

definition BodyControl_AllOff :: "hw \<Rightarrow> 'a body_scheme \<Rightarrow> 'a body_scheme" where
  "BodyControl_AllOff h s =
     (let s = s\<lparr>g_headlampOn := False, g_brakeLampOn := False,
                g_leftTurnEnabled := False, g_rightTurnEnabled := False,
                g_collisionWarningLampOn := False,
                g_hornEnabled := False, g_hornOutputOn := False, g_hornTimerMs := 0,
                g_ultrasonicDistanceCm := ucast BODY_ULTRASONIC_NO_OBJECT_CM,
                g_ultrasonicDistanceValid := False, g_ultrasonicMeasureTimerMs := 0,
                g_ultrasonicValidHoldTimerMs := 0\<rparr>;
          s = BodyControl_ResetCollisionWarningSound s;
          s = s\<lparr>g_blinkOutputOn := False, g_blinkTimerMs := 0, g_diagCommandMask := 0\<rparr>;
          (feedbackMask, s) = BodyControl_ReadDiagFeedbackMaskRaw h s;
          s = s\<lparr>g_diagFeedbackMask := feedbackMask,
                g_diagBrakeLowTimerMs := 0, g_diagHeadLowTimerMs := 0,
                g_diagLeftLowTimerMs := 0, g_diagRightLowTimerMs := 0\<rparr>;
          s = s\<lparr>g_debugBodyDiagCommandMask := g_diagCommandMask s,
                g_debugBodyDiagFeedbackMask := g_diagFeedbackMask s\<rparr>;
          s = BodyControl_UpdateDiagDangerLed s;
          s = BodyControl_UpdateCollisionWarningDebug s;
          s = BodyControl_BuzzerOff s
      in BodyControl_ApplyOutputs s)"

text \<open>
  Both ends of \<open>BodyControl_Update1ms\<close> update the diagnosis and the debug mirrors;
  \<open>BodyControl_UpdateBlink1ms\<close> is what differs between them.
\<close>

definition BodyControl_Update1ms :: "hw \<Rightarrow> 'a body_scheme \<Rightarrow> 'a body_scheme option" where
  "BodyControl_Update1ms h s = do {
     let s = BodyControl_UpdateCollisionButton1ms h s;
     s \<leftarrow> BodyControl_UpdateUltrasonic1ms h s;
     let s = BodyControl_UpdateHorn1ms s;
     let s = BodyControl_UpdateCollisionWarningSound1ms s;
     s \<leftarrow> BodyControl_UpdateDtcStatus1ms h s;
     let s = BodyControl_UpdateDiagDangerLedBlink1ms s;
     let s = BodyControl_UpdateBlink1ms s;
     let s = BodyControl_UpdateDiagnosis1ms h s;
     Some (BodyControl_UpdateCollisionWarningDebug s)
   }"

definition BodyControl_Delay1ms :: "'a io_scheme \<Rightarrow> 'a io_scheme" where
  "BodyControl_Delay1ms s = BodyControl_DelayUs 1000 s"

text \<open>The loop \<open>for (i = 0; i < n; i++)\<close> of the blocking routines.\<close>

primrec body_ms_loop :: "hw \<Rightarrow> nat \<Rightarrow> 'a body_scheme \<Rightarrow> 'a body_scheme option" where
  "body_ms_loop h 0 s = Some s"
| "body_ms_loop h (Suc n) s =
     Option.bind (BodyControl_Update1ms h s) (\<lambda>s. body_ms_loop h n (BodyControl_Delay1ms s))"

definition BodyControl_UpdateForMs :: "hw \<Rightarrow> u32 \<Rightarrow> 'a body_scheme \<Rightarrow> 'a body_scheme option" where
  "BodyControl_UpdateForMs h holdTimeMs s = body_ms_loop h (unat holdTimeMs) s"

definition BodyControl_SilentForMs :: "hw \<Rightarrow> u32 \<Rightarrow> 'a body_scheme \<Rightarrow> 'a body_scheme option" where
  "BodyControl_SilentForMs h durationMs s =
     body_ms_loop h (unat durationMs) (BodyControl_BuzzerOff s)"

partial_function (option) warning_beep_loop ::
  "hw \<Rightarrow> u32 \<Rightarrow> u32 \<Rightarrow> u32 \<Rightarrow> 'a body_scheme \<Rightarrow> 'a body_scheme option" where
  "warning_beep_loop h silentMs holdTimeMs elapsedMs s =
     (if elapsedMs < holdTimeMs then
        Option.bind (BodyControl_PlayToneForMs 1300 120 s) (\<lambda>s.
          let elapsedMs = elapsedMs + 120
          in if elapsedMs < holdTimeMs then
               Option.bind (BodyControl_SilentForMs h silentMs s)
                 (warning_beep_loop h silentMs holdTimeMs (elapsedMs + silentMs))
             else warning_beep_loop h silentMs holdTimeMs elapsedMs s)
      else Some s)"

definition BodyControl_CollisionWarningForMs ::
  "hw \<Rightarrow> u16 \<Rightarrow> u32 \<Rightarrow> 'a body_scheme \<Rightarrow> 'a body_scheme option" where
  "BodyControl_CollisionWarningForMs h distanceCm holdTimeMs s =
     (let warningFreqHz = 1300; elapsedMs = 0
      in if distanceCm \<ge> BODY_COLLISION_WARNING_STAGE1_CM
         then BodyControl_SilentForMs h holdTimeMs s
         else if distanceCm \<le> BODY_COLLISION_WARNING_STAGE3_CM
         then map_option BodyControl_BuzzerOff (BodyControl_PlayToneForMs warningFreqHz holdTimeMs s)
         else if distanceCm \<le> BODY_COLLISION_WARNING_STAGE2_CM
         then map_option BodyControl_BuzzerOff (warning_beep_loop h 130 holdTimeMs elapsedMs s)
         else map_option BodyControl_BuzzerOff (warning_beep_loop h 380 holdTimeMs elapsedMs s))"

definition BodyControl_RunLedDiagnosticRoutine :: "'a body_lamps_scheme \<Rightarrow> 'a body_lamps_scheme" where
  "BodyControl_RunLedDiagnosticRoutine s =
     (let s = write_all_lamps True s;
          s = BodyControl_DelayMs 1000 s;
          s = write_all_lamps False s
      in BodyControl_ApplyOutputs s)"

definition BodyControl_GetDiagFaultMask :: "'a body_scheme \<Rightarrow> u8" where
  "BodyControl_GetDiagFaultMask s = g_diagFaultMask s"

definition BodyControl_GetUltrasonicDistanceCm :: "'a body_scheme \<Rightarrow> u16" where
  "BodyControl_GetUltrasonicDistanceCm s = g_ultrasonicDistanceCm s"

definition BodyControl_IsUltrasonicDistanceValid :: "'a body_scheme \<Rightarrow> bool" where
  "BodyControl_IsUltrasonicDistanceValid s = g_ultrasonicDistanceValid s"

definition BodyControl_GetCollisionWarningLevel :: "'a body_scheme \<Rightarrow> u8" where
  "BodyControl_GetCollisionWarningLevel s = g_collisionWarningLevel s"

definition BodyControl_GetUltrasonicDtcStatus :: "'a body_scheme \<Rightarrow> u8" where
  "BodyControl_GetUltrasonicDtcStatus s = g_ultrasonicDtcStatus s"

section \<open>The invariant\<close>

definition warning_ok :: "'a body_warning_scheme \<Rightarrow> bool" where
  "warning_ok s \<longleftrightarrow> g_collisionWarningLevel s \<le> 3 \<and> g_collisionWarningLastLevel s \<le> 3 \<and>
     g_ultrasonicDistanceCm s \<le> 400 \<and> g_ultrasonicMeasureTimerMs s \<le> 60 \<and>
     g_ultrasonicValidHoldTimerMs s \<le> 300 \<and>
     (g_ultrasonicDistanceValid s \<or> g_ultrasonicDistanceCm s = 400)"

definition diag_ok :: "'a body_scheme \<Rightarrow> bool" where
  "diag_ok s \<longleftrightarrow> g_debugBodyDiagFaultMask s = g_diagFaultMask s \<and> g_dtcCheckTimerMs s \<le> 3000 \<and>
     g_diagDangerBlinkTimerMs s \<le> 250 \<and> g_diagDangerBlinkToggleCount s < 6"

definition body_inv :: "'a body_scheme \<Rightarrow> bool" where
  "body_inv s \<longleftrightarrow> lamps_applied s \<and> blink_ok s \<and> danger_led_ok s \<and> body_dtc_ok s \<and> warning_ok s \<and>
     diag_ok s \<and> \<not> pin_cmd s BODY_ULTRASONIC_TRIG"

lemmas body_inv_defs =
  body_inv_def lamps_applied_iff blink_ok_def danger_led_ok_def
  BodyControl_IsDiagDangerLedSteadyOn_def body_dtc_ok_def warning_ok_def diag_ok_def

end
