(* ===== verification/Body_Invariant.thy ===== *)
theory Body_Invariant
  imports Body_Control
begin

unbundle bit_operations_syntax

text \<open>
  Every operation of \<open>src/BODY/BodyControl.c\<close> keeps \<open>body_inv\<close>, \<open>BodyControl_Init\<close> establishes
  it, the millisecond step returns, and the commanded outputs change only by a command.
\<close>

section \<open>The steps of a millisecond\<close>

lemma ApplyOutputs_explicit:
  "BodyControl_ApplyOutputs s =
     s\<lparr>pin_cmd := (pin_cmd s)(BODY_HEAD_R := g_headlampOn s, BODY_HEAD_G := g_headlampOn s,
         BODY_HEAD_B := g_headlampOn s, BODY_BRAKE := g_brakeLampOn s,
         BODY_LEFT_TURN := g_leftTurnEnabled s \<and> g_blinkOutputOn s,
         BODY_RIGHT_TURN := g_rightTurnEnabled s \<and> g_blinkOutputOn s),
       io_log := map (\<lambda>(p, b). SetPin p b) (rev (lamp_levels s)) @ io_log s\<rparr>"
  by (simp add: ApplyOutputs_writes lamp_levels_def set_pin_def)

lemma body_inv_button [fw_inv]:
  "body_inv s \<Longrightarrow> body_inv (BodyControl_UpdateCollisionButton1ms h s)"
  by (simp add: body_inv_defs BodyControl_UpdateCollisionButton1ms_def
      BodyControl_ReadCollisionButtonRawPressed_def read_pin_def
      BodyControl_CollisionButtonSample_def Let_def)

lemma body_inv_horn [fw_inv]: "body_inv s \<Longrightarrow> body_inv (BodyControl_UpdateHorn1ms s)"
  by (simp add: body_inv_defs BodyControl_UpdateHorn1ms_def write_pin_eq set_pin_def Let_def)

text \<open>What the sound writes is not in the invariant, but for the level.\<close>

lemma body_inv_sound_fields [simp]:
  "body_inv (s\<lparr>g_collisionWarningToneOutputOn := b\<rparr>) = body_inv s"
  "body_inv (s\<lparr>g_collisionWarningToneTimerMs := t\<rparr>) = body_inv s"
  "body_inv (s\<lparr>g_collisionWarningPatternTimerMs := t\<rparr>) = body_inv s"
  "body_inv (s\<lparr>g_hornOutputOn := b\<rparr>) = body_inv s"
  "body_inv (s\<lparr>g_hornTimerMs := t\<rparr>) = body_inv s"
  "body_inv (set_pin BODY_BUZZER b s) = body_inv s"
  by (simp_all add: body_inv_defs set_pin_def)

lemma body_inv_reset [fw_inv]: "body_inv s \<Longrightarrow> body_inv (BodyControl_ResetCollisionWarningSound s)"
  by (simp add: body_inv_defs BodyControl_ResetCollisionWarningSound_def)

lemma body_inv_last_level:
  "body_inv s \<Longrightarrow> body_inv (s\<lparr>g_collisionWarningLastLevel := g_collisionWarningLevel s\<rparr>)"
  by (simp add: body_inv_defs)

lemma body_inv_sound [fw_inv]:
  assumes inv: "body_inv s"
  shows "body_inv (BodyControl_UpdateCollisionWarningSound1ms s)"
proof (cases "\<not> g_collisionWarningLampOn s \<or> g_collisionWarningLevel s = 0")
  case True
  then show ?thesis
    using body_inv_reset [OF inv]
    by (simp add: BodyControl_UpdateCollisionWarningSound1ms_def Let_def write_pin_eq)
next
  case False
  define s1 where "s1 = (if g_collisionWarningLevel s \<noteq> g_collisionWarningLastLevel s
     then s\<lparr>g_collisionWarningLastLevel := g_collisionWarningLevel s,
            g_collisionWarningToneOutputOn := False, g_collisionWarningToneTimerMs := 0,
            g_collisionWarningPatternTimerMs := 0\<rparr> else s)"
  have s1: "body_inv s1" using body_inv_last_level [OF inv] inv by (simp add: s1_def)
  obtain b s2 where beep: "BodyControl_IsCollisionWarningBeepActive s1 = (b, s2)" by force
  have s2: "body_inv s2"
    using beep s1
    by (auto simp: BodyControl_IsCollisionWarningBeepActive_def Let_def split: if_splits)
  show ?thesis
    using False s1 s2
    unfolding BodyControl_UpdateCollisionWarningSound1ms_def s1_def [symmetric] Let_def [of s1]
    by (simp add: Let_def [of s1] beep s1_def [symmetric]) (simp add: Let_def write_pin_eq)
qed

lemma body_inv_blink_led [fw_inv]:
  assumes "body_inv s"
  shows "body_inv (BodyControl_UpdateDiagDangerLedBlink1ms s)"
proof -
  have "danger_led_ok (BodyControl_UpdateDiagDangerLedBlink1ms s)"
    using assms by (simp add: body_inv_def danger_led_Blink1ms)
  moreover have "g_diagDangerBlinkToggleCount s < 6 \<Longrightarrow> \<not> 6 \<le> g_diagDangerBlinkToggleCount s + 1 \<Longrightarrow>
      g_diagDangerBlinkToggleCount s + 1 < 6" by (simp add: not_le)
  moreover have "g_diagDangerBlinkTimerMs s < 250 \<Longrightarrow> g_diagDangerBlinkTimerMs s + 1 \<le> 250"
    by (rule inc_le_bound)
  ultimately show ?thesis
    using assms unfolding body_inv_def
    by (simp add: lamps_applied_iff blink_ok_def body_dtc_ok_def warning_ok_def diag_ok_def
        BodyControl_UpdateDiagDangerLedBlink1ms_def UpdateDiagDangerLed_form
        BodyControl_WriteDiagDangerLed_def write_pin_eq set_pin_def Let_def)
qed

lemma body_inv_blink [fw_inv]: "body_inv s \<Longrightarrow> body_inv (BodyControl_UpdateBlink1ms s)"
  by (auto simp: body_inv_defs BodyControl_UpdateBlink1ms_def ApplyOutputs_explicit Let_def)

lemma body_inv_debug [fw_inv]: "body_inv s \<Longrightarrow> body_inv (BodyControl_UpdateCollisionWarningDebug s)"
  by (simp add: body_inv_defs BodyControl_UpdateCollisionWarningDebug_def)

text \<open>The invariant without the LED and the fault mask.\<close>

definition body_rest :: "'a body_scheme \<Rightarrow> bool" where
  "body_rest s \<longleftrightarrow> lamps_applied s \<and> blink_ok s \<and> body_dtc_ok s \<and> warning_ok s \<and>
     \<not> pin_cmd s BODY_ULTRASONIC_TRIG \<and> g_dtcCheckTimerMs s \<le> 3000 \<and>
     g_diagDangerBlinkTimerMs s \<le> 250 \<and> g_diagDangerBlinkToggleCount s < 6"

lemma body_inv_iff:
  "body_inv s \<longleftrightarrow> body_rest s \<and> danger_led_ok s \<and> g_debugBodyDiagFaultMask s = g_diagFaultMask s"
  by (auto simp: body_inv_def body_rest_def diag_ok_def)

lemma body_rest_fields [simp]:
  "body_rest (s\<lparr>io_reads := n\<rparr>) = body_rest s"
  "body_rest (s\<lparr>g_diagFaultMask := m\<rparr>) = body_rest s"
  "body_rest (s\<lparr>g_diagCommandMask := m\<rparr>) = body_rest s"
  "body_rest (s\<lparr>g_diagFeedbackMask := m\<rparr>) = body_rest s"
  "body_rest (s\<lparr>g_debugBodyDiagFaultMask := m\<rparr>) = body_rest s"
  "body_rest (s\<lparr>g_debugBodyDiagCommandMask := m\<rparr>) = body_rest s"
  "body_rest (s\<lparr>g_debugBodyDiagFeedbackMask := m\<rparr>) = body_rest s"
  "body_rest (s\<lparr>g_diagBrakeLowTimerMs := t\<rparr>) = body_rest s"
  "body_rest (s\<lparr>g_diagHeadLowTimerMs := t\<rparr>) = body_rest s"
  "body_rest (s\<lparr>g_diagLeftLowTimerMs := t\<rparr>) = body_rest s"
  "body_rest (s\<lparr>g_diagRightLowTimerMs := t\<rparr>) = body_rest s"
  "body_rest (s\<lparr>g_ultrasonicMeasureCount := w\<rparr>) = body_rest s"
  "body_rest (s\<lparr>g_ultrasonicTimeoutCount := w\<rparr>) = body_rest s"
  "body_rest (s\<lparr>g_debugBodyUltrasonicDistanceCm := c\<rparr>) = body_rest s"
  "body_rest (s\<lparr>g_debugBodyUltrasonicDistanceValid := b\<rparr>) = body_rest s"
  "body_rest (s\<lparr>g_debugBodyUltrasonicTimeoutCount := w\<rparr>) = body_rest s"
  "body_rest (s\<lparr>g_debugBodyUltrasonicMeasureCount := w\<rparr>) = body_rest s"
  "body_rest (s\<lparr>g_debugBodyUltrasonicDtcStatus := b\<rparr>) = body_rest s"
  "body_rest (s\<lparr>g_debugBodyUltrasonicDtcFailCount := b\<rparr>) = body_rest s"
  "body_rest (set_pin BODY_DIAG_DANGER_LED b' s) = body_rest s"
  by (simp_all add: body_rest_def lamps_applied_iff blink_ok_def body_dtc_ok_def warning_ok_def
      set_pin_def)

lemma body_rest_led [simp]: "body_rest (BodyControl_UpdateDiagDangerLed s) = body_rest s"
  by (simp add: UpdateDiagDangerLed_form)

lemma body_rest_signals [simp]:
  "body_rest (diag_brake_signal b s) = body_rest s" "body_rest (diag_head_signal b s) = body_rest s"
  "body_rest (diag_left_signal b s) = body_rest s" "body_rest (diag_right_signal b s) = body_rest s"
  by (simp_all add: diag_signal_defs Let_def case_prod_beta)

lemma led_mirror [simp]:
  "g_debugBodyDiagFaultMask (BodyControl_UpdateDiagDangerLed s) = g_debugBodyDiagFaultMask s"
  "g_diagFaultMask (BodyControl_UpdateDiagDangerLed s) = g_diagFaultMask s"
  by (simp_all add: UpdateDiagDangerLed_form set_pin_def)

lemma body_inv_diagnosis [fw_inv]:
  assumes "body_inv s"
  shows "body_inv (BodyControl_UpdateDiagnosis1ms h s)"
proof -
  have "danger_led_ok (BodyControl_UpdateDiagnosis1ms h s)"
    using assms by (simp add: body_inv_def danger_led_UpdateDiagnosis1ms)
  moreover have "body_rest (BodyControl_UpdateDiagnosis1ms h s)"
    using assms by (simp add: body_inv_iff BodyControl_UpdateDiagnosis1ms_def ReadMask_eq Let_def)
  moreover have "g_debugBodyDiagFaultMask (BodyControl_UpdateDiagnosis1ms h s) =
      g_diagFaultMask (BodyControl_UpdateDiagnosis1ms h s)"
    by (simp add: BodyControl_UpdateDiagnosis1ms_def ReadMask_eq Let_def)
  ultimately show ?thesis by (simp add: body_inv_iff)
qed

section \<open>The measurements\<close>

lemma measured_form:
  assumes "measured s t" and "\<not> pin_cmd s BODY_ULTRASONIC_TRIG"
  shows "\<exists>n l. t = s\<lparr>io_reads := n, io_log := l\<rparr>"
proof -
  from assms(2) have "(pin_cmd s)(BODY_ULTRASONIC_TRIG := False) = pin_cmd s"
    by (simp add: fun_upd_idem_iff)
  with assms(1) obtain n where "t = s\<lparr>io_reads := n\<rparr> \<or>
     t = s\<lparr>pin_cmd := pin_cmd s, io_log := trigger_pulse @ io_log s, io_reads := n\<rparr>"
    unfolding measured_def by auto
  then have "t = s\<lparr>io_reads := n, io_log := io_log s\<rparr> \<or>
     t = s\<lparr>io_reads := n, io_log := trigger_pulse @ io_log s\<rparr>" by auto
  then show ?thesis by blast
qed

lemma body_inv_io [simp]:
  "body_inv (s\<lparr>io_reads := n\<rparr>) = body_inv s"
  "body_inv (s\<lparr>io_log := l\<rparr>) = body_inv s"
  by (simp_all add: body_inv_defs)

lemma body_inv_measured: "body_inv s \<Longrightarrow> measured s t \<Longrightarrow> body_inv t"
  using measured_form [of s t] by (auto simp: body_inv_def [of s])

lemma body_inv_ultrasonic_reset [fw_inv]: "body_inv s \<Longrightarrow> body_inv (ultrasonic_reset s)"
  by (simp add: body_inv_defs ultrasonic_reset_def BodyControl_ResetCollisionWarningSound_def)

lemma body_inv_counts [simp]:
  "body_inv (s\<lparr>g_ultrasonicMeasureCount := w\<rparr>) = body_inv s"
  "body_inv (s\<lparr>g_ultrasonicTimeoutCount := w\<rparr>) = body_inv s"
  by (simp_all add: body_inv_defs)

lemma body_inv_timers:
  "body_inv s \<Longrightarrow> t \<le> 60 \<Longrightarrow> body_inv (s\<lparr>g_ultrasonicMeasureTimerMs := t\<rparr>)"
  "body_inv s \<Longrightarrow> t \<le> 300 \<Longrightarrow> body_inv (s\<lparr>g_ultrasonicValidHoldTimerMs := t\<rparr>)"
  "body_inv s \<Longrightarrow> t \<le> 3000 \<Longrightarrow> body_inv (s\<lparr>g_dtcCheckTimerMs := t\<rparr>)"
  "body_inv s \<Longrightarrow> l \<le> 3 \<Longrightarrow> body_inv (s\<lparr>g_collisionWarningLevel := l\<rparr>)"
  by (simp_all add: body_inv_defs)

lemma body_inv_distance:
  "body_inv s \<Longrightarrow> d \<le> 400 \<Longrightarrow> body_inv (s\<lparr>g_ultrasonicDistanceCm := d, g_ultrasonicDistanceValid := True\<rparr>)"
  "body_inv s \<Longrightarrow> body_inv (s\<lparr>g_ultrasonicDistanceCm := 400, g_ultrasonicDistanceValid := False\<rparr>)"
  by (simp_all add: body_inv_defs)

text \<open>A latched fault is shown by the LED at once.\<close>

lemma body_inv_fault:
  assumes "body_inv s"
  shows "body_inv (BodyControl_UpdateDiagDangerLed
    (s\<lparr>g_diagFaultMask := m, g_debugBodyDiagFaultMask := m\<rparr>))"
  using assms danger_led_UpdateDiagDangerLed [of "s\<lparr>g_diagFaultMask := m, g_debugBodyDiagFaultMask := m\<rparr>"]
  by (simp add: body_inv_iff blink_led_ok_def danger_led_ok_def)

lemma body_inv_outcome [fw_inv]:
  assumes "body_inv s" and "\<And>d. r = Some d \<Longrightarrow> d \<le> 400"
  shows "body_inv (ultrasonic_outcome r s)"
proof (cases r)
  case None
  let ?s = "BodyControl_UpdateDiagDangerLed (s\<lparr>g_ultrasonicTimeoutCount := g_ultrasonicTimeoutCount s + 1,
     g_diagFaultMask := g_diagFaultMask s OR 16, g_debugBodyDiagFaultMask := g_diagFaultMask s OR 16\<rparr>)"
  have "body_inv ?s"
    using body_inv_fault [of "s\<lparr>g_ultrasonicTimeoutCount := g_ultrasonicTimeoutCount s + 1\<rparr>"] assms(1)
    by simp
  from this body_inv_distance(2) [OF this] show ?thesis
    by (simp add: ultrasonic_outcome_def None Let_def body_inv_timers(4) warning_level_le
        BodyControl_ComputeCollisionWarningLevel_def)
next
  case (Some d)
  with body_inv_timers(2) [OF body_inv_distance(1) [OF assms(1), of d], of 300] assms(2) show ?thesis
    by (simp add: ultrasonic_outcome_def Let_def body_inv_timers(4) warning_level_le
        BodyControl_ComputeCollisionWarningLevel_def)
qed

lemma UpdateUltrasonic_returns:
  assumes "hw_ok h" and "body_inv s"
  shows "\<exists>t. BodyControl_UpdateUltrasonic1ms h s = Some t \<and> body_inv t"
proof (cases "g_collisionWarningLampOn s")
  case False
  with assms(2) show ?thesis
    by (simp add: BodyControl_UpdateUltrasonic1ms_def body_inv_ultrasonic_reset)
next
  case True
  define s1 where "s1 = (if g_ultrasonicValidHoldTimerMs s > 0
     then s\<lparr>g_ultrasonicValidHoldTimerMs := g_ultrasonicValidHoldTimerMs s - 1\<rparr> else s)"
  have "unat (g_ultrasonicValidHoldTimerMs s) \<le> 300"
    using assms(2) by (simp add: body_inv_def warning_ok_def word_le_nat_alt)
  then have "g_ultrasonicValidHoldTimerMs s > 0 \<Longrightarrow> g_ultrasonicValidHoldTimerMs s - 1 \<le> 300"
    using unat_dec_pos [of "g_ultrasonicValidHoldTimerMs s"] by (simp add: word_le_nat_alt)
  then have s1: "body_inv s1" using assms(2) by (simp add: s1_def body_inv_timers)
  show ?thesis
  proof (cases "g_ultrasonicMeasureTimerMs s1 < 60")
    case lt: True
    then have "g_ultrasonicMeasureTimerMs s1 + 1 \<le> 60" by (rule inc_le_bound)
    with True lt s1 show ?thesis
      unfolding BodyControl_UpdateUltrasonic1ms_def s1_def [symmetric]
      by (simp add: Let_def body_inv_timers)
  next
    case False
    let ?s = "s1\<lparr>g_ultrasonicMeasureTimerMs := 0,
       g_ultrasonicMeasureCount := g_ultrasonicMeasureCount s1 + 1\<rparr>"
    obtain r t where m: "BodyControl_MeasureUltrasonicDistanceCmWithTimeout h 3000 ?s = Some (r, t)"
      using Measure_returns [OF assms(1), of 3000 ?s] by auto
    have "body_inv ?s" using s1 by (simp add: body_inv_timers)
    from body_inv_measured [OF this Measure_state [OF m]] have "body_inv (ultrasonic_outcome r t)"
      using Measure_bound m by (intro body_inv_outcome) auto
    with True False m show ?thesis
      unfolding BodyControl_UpdateUltrasonic1ms_def s1_def [symmetric]
      by (simp add: Let_def BodyControl_MeasureUltrasonicDistanceCm_def)
  qed
qed

section \<open>The trouble code\<close>

lemma body_inv_sync:
  assumes "body_rest s" and "blink_led_ok s"
  shows "body_inv (BodyControl_SyncUltrasonicDtcFaultMask s)"
proof -
  have "danger_led_ok (BodyControl_SyncUltrasonicDtcFaultMask s)"
    unfolding BodyControl_SyncUltrasonicDtcFaultMask_def Let_def
    by (rule danger_led_UpdateDiagDangerLed) (use assms(2) in \<open>simp add: blink_led_ok_def\<close>)
  with assms(1) show ?thesis
    by (simp add: body_inv_iff BodyControl_SyncUltrasonicDtcFaultMask_def Let_def)
qed

lemma blink_led_start: "blink_led_ok (BodyControl_StartDiagDangerLedBlink s)"
  by (simp add: danger_led_blink danger_led_StartBlink)

lemma body_rest_dtc:
  assumes "body_rest s" and "dtc_byte_ok st n"
  shows "body_rest (s\<lparr>g_ultrasonicDtcStatus := st, g_ultrasonicDtcConsecutiveFailCount := n\<rparr>)"
  using assms by (simp add: body_rest_def lamps_applied_iff blink_ok_def body_dtc_ok_def warning_ok_def)

lemma body_rest_start: "body_rest s \<Longrightarrow> body_rest (BodyControl_StartDiagDangerLedBlink s)"
  by (simp add: body_rest_def lamps_applied_iff blink_ok_def body_dtc_ok_def warning_ok_def
      BodyControl_StartDiagDangerLedBlink_def BodyControl_WriteDiagDangerLed_def write_pin_eq set_pin_def)

lemma dtc_update_comm:
  "s\<lparr>g_ultrasonicDtcConsecutiveFailCount := n, g_ultrasonicDtcStatus := st\<rparr> =
     s\<lparr>g_ultrasonicDtcStatus := st, g_ultrasonicDtcConsecutiveFailCount := n\<rparr>"
  by simp

lemma dtc_same_count:
  "s\<lparr>g_ultrasonicDtcStatus := st\<rparr> = s\<lparr>g_ultrasonicDtcStatus := st,
     g_ultrasonicDtcConsecutiveFailCount := g_ultrasonicDtcConsecutiveFailCount s\<rparr>"
  by simp

lemma DtcStatus_form:
  "BodyControl_UpdateUltrasonicDtcStatus failed s =
     (let p = dtc_after failed (g_ultrasonicDtcStatus s) (g_ultrasonicDtcConsecutiveFailCount s);
          t = s\<lparr>g_ultrasonicDtcStatus := fst p, g_ultrasonicDtcConsecutiveFailCount := snd p\<rparr>;
          t = (if g_ultrasonicDtcStatus s AND 8 = 0 \<and> fst p AND 8 \<noteq> 0
               then BodyControl_StartDiagDangerLedBlink t else t)
      in BodyControl_SyncUltrasonicDtcFaultMask (BodyControl_UpdateUltrasonicDtcDebug t))"
proof (cases failed)
  case False
  then show ?thesis by (simp add: BodyControl_UpdateUltrasonicDtcStatus_def dtc_after_def Let_def)
next
  case True
  then show ?thesis
    by (cases "g_ultrasonicDtcConsecutiveFailCount s < 3";
        cases "3 \<le> g_ultrasonicDtcConsecutiveFailCount s + 1")
      (simp_all add: BodyControl_UpdateUltrasonicDtcStatus_def dtc_after_def Let_def
        dtc_update_comm flip: dtc_same_count)
qed

lemma body_inv_dtc_status [fw_inv]:
  assumes "body_inv s"
  shows "body_inv (BodyControl_UpdateUltrasonicDtcStatus failed s)"
proof -
  obtain st n where p: "dtc_after failed (g_ultrasonicDtcStatus s)
      (g_ultrasonicDtcConsecutiveFailCount s) = (st, n)" by force
  let ?t = "s\<lparr>g_ultrasonicDtcStatus := st, g_ultrasonicDtcConsecutiveFailCount := n\<rparr>"
  let ?u = "if g_ultrasonicDtcStatus s AND 8 = 0 \<and> st AND 8 \<noteq> 0
     then BodyControl_StartDiagDangerLedBlink ?t else ?t"
  have "dtc_byte_ok st n"
    using dtc_after_ok [of "g_ultrasonicDtcStatus s" "g_ultrasonicDtcConsecutiveFailCount s" failed]
      assms p by (simp add: body_inv_def body_dtc_ok_def)
  with assms have "body_rest ?t" by (simp add: body_rest_dtc body_inv_iff)
  then have "body_rest ?u" by (simp add: body_rest_start)
  moreover have "blink_led_ok ?u"
    using assms danger_led_blink [of s] blink_led_start [of ?t]
    by (auto simp: body_inv_def blink_led_ok_def)
  ultimately have "body_inv (BodyControl_SyncUltrasonicDtcFaultMask (BodyControl_UpdateUltrasonicDtcDebug ?u))"
    by (intro body_inv_sync)
      (simp_all add: BodyControl_UpdateUltrasonicDtcDebug_def blink_led_ok_def)
  then show ?thesis by (simp only: DtcStatus_form p Let_def fst_conv snd_conv)
qed

lemma body_inv_clear_dtc [fw_inv]:
  assumes "body_inv s"
  shows "body_inv (BodyControl_ClearDtcHistory s)"
proof -
  let ?t = "s\<lparr>g_ultrasonicDtcStatus := g_ultrasonicDtcStatus s AND NOT 8,
     g_ultrasonicDtcConsecutiveFailCount := 0,
     g_diagDangerBlinkActive := False, g_diagDangerBlinkOutputOn := False,
     g_diagDangerBlinkToggleCount := 0, g_diagDangerBlinkTimerMs := 0\<rparr>"
  have "body_rest ?t"
    using assms body_dtc_ok_clear [of s]
    by (simp add: body_inv_def body_rest_def lamps_applied_iff blink_ok_def body_dtc_ok_def warning_ok_def
        diag_ok_def)
  then show ?thesis
    unfolding BodyControl_ClearDtcHistory_def Let_def
    by (intro body_inv_sync)
      (simp_all add: BodyControl_UpdateUltrasonicDtcDebug_def blink_led_ok_def)
qed

lemma RunUltrasonic_returns:
  assumes "hw_ok h" and "body_inv s"
  shows "\<exists>b v t. BodyControl_RunUltrasonicDiagnosticRoutine h (Some w) s = Some (b, Some v, t) \<and> body_inv t"
proof -
  obtain r t where m: "BodyControl_MeasureUltrasonicDistanceCmWithTimeout h 50000 s = Some (r, t)"
    using Measure_returns [OF assms(1), of 50000 s] by auto
  have t: "body_inv t" by (rule body_inv_measured [OF assms(2) Measure_state [OF m]])
  show ?thesis
  proof (cases r)
    case None
    have "danger_led_ok (ultrasonic_routine_failed t)"
      unfolding ultrasonic_routine_failed_def Let_def
      by (rule danger_led_UpdateDiagDangerLed)
        (use t in \<open>simp add: body_inv_def blink_led_ok_def danger_led_ok_def\<close>)
    moreover have "body_rest (ultrasonic_routine_failed t)"
      using t unfolding ultrasonic_routine_failed_def Let_def body_rest_led
      by (simp add: body_inv_def body_rest_def lamps_applied_iff blink_ok_def body_dtc_ok_def
          warning_ok_def diag_ok_def)
    ultimately have "body_inv (ultrasonic_routine_failed t)"
      by (simp add: body_inv_iff ultrasonic_routine_failed_def Let_def)
    with None m show ?thesis by (auto simp: BodyControl_RunUltrasonicDiagnosticRoutine_def)
  next
    case (Some d)
    then have "d \<le> 400" using Measure_bound m by simp
    from body_inv_distance(1) [OF t this] have "body_inv (ultrasonic_routine_passed d t)"
      by (simp add: ultrasonic_routine_passed_def Let_def body_inv_defs)
    with Some m show ?thesis by (auto simp: BodyControl_RunUltrasonicDiagnosticRoutine_def Let_def)
  qed
qed

lemma UpdateDtc_returns:
  assumes "hw_ok h" and "body_inv s"
  shows "\<exists>t. BodyControl_UpdateDtcStatus1ms h s = Some t \<and> body_inv t"
proof (cases "g_dtcCheckTimerMs s < 3000")
  case True
  then have "g_dtcCheckTimerMs s + 1 \<le> 3000" by (rule inc_le_bound)
  with True assms(2) show ?thesis by (simp add: BodyControl_UpdateDtcStatus1ms_def body_inv_timers)
next
  case False
  have "body_inv (s\<lparr>g_dtcCheckTimerMs := 0\<rparr>)" using assms(2) by (simp add: body_inv_timers)
  from RunUltrasonic_returns [OF assms(1) this, of 0] False show ?thesis
    by (auto simp: BodyControl_UpdateDtcStatus1ms_def body_inv_dtc_status)
qed

lemma Update1ms_returns:
  assumes "hw_ok h" and "body_inv s"
  shows "\<exists>t. BodyControl_Update1ms h s = Some t \<and> body_inv t"
proof -
  obtain u where u: "BodyControl_UpdateUltrasonic1ms h (BodyControl_UpdateCollisionButton1ms h s) = Some u"
      "body_inv u"
    using UpdateUltrasonic_returns [OF assms(1) body_inv_button [OF assms(2)]] by blast
  obtain v where v: "BodyControl_UpdateDtcStatus1ms h
       (BodyControl_UpdateCollisionWarningSound1ms (BodyControl_UpdateHorn1ms u)) = Some v" "body_inv v"
    using UpdateDtc_returns [OF assms(1) body_inv_sound [OF body_inv_horn [OF u(2)]]] by blast
  show ?thesis
    using u v by (simp add: BodyControl_Update1ms_def fw_inv)
qed

section \<open>Commands and initialisation\<close>

lemma body_inv_setters [fw_inv]:
  "body_inv s \<Longrightarrow> body_inv (BodyControl_SetHeadlamp b s)"
  "body_inv s \<Longrightarrow> body_inv (BodyControl_SetBrakeLamp b s)"
  "body_inv s \<Longrightarrow> body_inv (BodyControl_SetHorn b s)"
  by (simp_all add: body_inv_defs BodyControl_SetHeadlamp_def BodyControl_SetBrakeLamp_def
      BodyControl_SetHorn_def ApplyOutputs_explicit write_pin_eq set_pin_def Let_def)

lemma body_inv_blink_request [fw_inv]: "body_inv s \<Longrightarrow> body_inv (BodyControl_SetBlinkRequest l r s)"
  by (auto simp: body_inv_defs BodyControl_SetBlinkRequest_def BodyControl_IsBlinkRequested_def
      ApplyOutputs_explicit Let_def)

lemma body_inv_turn [fw_inv]: "body_inv s \<Longrightarrow> body_inv (BodyControl_SetTurnSignal m s)"
  by (simp add: BodyControl_SetTurnSignal_def body_inv_blink_request split: prod.split)

lemma body_inv_warning_lamp [fw_inv]:
  assumes "body_inv s"
  shows "body_inv (BodyControl_SetCollisionWarningLamp b s)"
proof -
  have lamp: "body_inv (s\<lparr>g_collisionWarningLampOn := c\<rparr>)" for c
    using assms by (simp add: body_inv_defs)
  from body_inv_ultrasonic_reset [OF lamp] show ?thesis
    by (simp add: BodyControl_SetCollisionWarningLamp_def Let_def body_inv_timers write_pin_eq lamp)
qed

text \<open>\<open>ApplyOutputs\<close> after anything that leaves the rest of the invariant in place.\<close>

lemma body_inv_apply:
  assumes "blink_ok s" "body_dtc_ok s" "warning_ok s" "diag_ok s" "danger_led_ok s"
    "\<not> pin_cmd s BODY_ULTRASONIC_TRIG"
  shows "body_inv (BodyControl_ApplyOutputs s)"
  using assms
  by (simp add: body_inv_defs ApplyOutputs_explicit)

lemma danger_led_after [simp]:
  "p \<noteq> BODY_DIAG_DANGER_LED \<Longrightarrow> danger_led_ok (set_pin p b s) = danger_led_ok s"
  "danger_led_ok (BodyControl_UpdateCollisionWarningDebug s') = danger_led_ok s'"
  by (auto simp: danger_led_ok_def BodyControl_UpdateCollisionWarningDebug_def
      BodyControl_IsDiagDangerLedSteadyOn_def)

lemma body_inv_AllOff [fw_inv]:
  assumes "body_inv s"
  shows "body_inv (BodyControl_AllOff h s)"
  unfolding BodyControl_AllOff_def ReadMask_eq Let_def case_prod_conv write_pin_eq
proof (rule body_inv_apply, goal_cases)
  case 5
  show ?case
    using assms
    by (simp, intro danger_led_UpdateDiagDangerLed)
      (simp add: body_inv_def danger_led_ok_def blink_led_ok_def BodyControl_ResetCollisionWarningSound_def)
qed (use assms in \<open>simp add: body_inv_defs BodyControl_UpdateCollisionWarningDebug_def
        UpdateDiagDangerLed_form BodyControl_ResetCollisionWarningSound_def set_pin_def\<close>)+

text \<open>Initialisation establishes the invariant from any state.\<close>

lemma body_inv_Init: "body_inv (BodyControl_Init h s)"
proof -
  define a where "a = body_init_vars h (body_init_pins s)"
  have a: "blink_ok a" "body_dtc_ok a" "warning_ok a" "diag_ok a" "\<not> pin_cmd a BODY_ULTRASONIC_TRIG"
    "\<not> g_diagDangerBlinkActive a"
    by (simp_all add: a_def body_init_vars_def body_init_pins_def BodyControl_InitOutputPin_def
        BodyControl_InitInputPinPulldown_def BodyControl_ReadCollisionButtonRawPressed_def read_pin_def
        BodyControl_ResetCollisionWarningSound_def Let_def set_mode_def write_pin_eq set_pin_def
        blink_ok_def body_dtc_ok_def dtc_byte_ok_def warning_ok_def diag_ok_def)
  obtain l where run: "BodyControl_RunStartupSelfDiagnosis h a =
     (let fm = feedback_mask h (io_reads a); f = startup_fault_mask fm
      in BodyControl_UpdateDiagDangerLed (a\<lparr>io_reads := io_reads a + 4,
       g_diagFaultMask := g_diagFaultMask a OR f, g_diagFeedbackMask := fm,
       g_debugBodyDiagStartupFaultMask := f, g_debugBodyDiagFaultMask := g_diagFaultMask a OR f,
       g_debugBodyDiagFeedbackMask := fm, pin_cmd := (pin_cmd a)(BODY_HEAD_R := False,
       BODY_HEAD_G := False, BODY_HEAD_B := False, BODY_BRAKE := False, BODY_LEFT_TURN := False,
       BODY_RIGHT_TURN := False), io_log := l @ io_log a\<rparr>))"
    using StartupDiag_form by metis
  have led: "danger_led_ok (BodyControl_RunStartupSelfDiagnosis h a)"
    unfolding run Let_def by (rule danger_led_UpdateDiagDangerLed) (simp add: blink_led_ok_def a)
  show ?thesis
    unfolding BodyControl_Init_def a_def [symmetric] Let_def write_pin_eq
  proof (rule body_inv_apply)
    show "danger_led_ok (set_pin BODY_BUZZER False (BodyControl_RunStartupSelfDiagnosis h a))"
      using led by simp
  qed (use a in \<open>simp add: run Let_def UpdateDiagDangerLed_form set_pin_def blink_ok_def
        body_dtc_ok_def warning_ok_def diag_ok_def\<close>)+
qed

section \<open>Loops of milliseconds\<close>

lemma body_inv_delay [fw_inv]: "body_inv s \<Longrightarrow> body_inv (BodyControl_DelayUs n s)"
  by (simp add: BodyControl_DelayUs_def wait_us_def)

lemma body_ms_loop_returns:
  assumes "hw_ok h" and "body_inv s"
  shows "\<exists>t. body_ms_loop h n s = Some t \<and> body_inv t"
  using assms(2)
proof (induction n arbitrary: s)
  case (Suc n)
  obtain u where u: "BodyControl_Update1ms h s = Some u" "body_inv u"
    using Update1ms_returns [OF assms(1) Suc.prems] by blast
  then have "body_inv (BodyControl_Delay1ms u)" by (simp add: BodyControl_Delay1ms_def body_inv_delay)
  from Suc.IH [OF this] u(1) show ?case by simp
qed simp

lemma SilentForMs_returns:
  "hw_ok h \<Longrightarrow> body_inv s \<Longrightarrow> \<exists>t. BodyControl_SilentForMs h n s = Some t \<and> body_inv t"
  unfolding BodyControl_SilentForMs_def write_pin_eq by (rule body_ms_loop_returns) simp_all

lemma body_inv_buzzed:
  assumes "buzzed w s t" and "body_inv s"
  shows "body_inv t"
proof -
  from assms(1) obtain m l where t: "t = s\<lparr>pin_cmd := m, io_log := l\<rparr>"
      and m: "\<And>p. p \<noteq> BODY_BUZZER \<Longrightarrow> m p = pin_cmd s p"
    unfolding buzzed_def by blast
  from assms(2) show ?thesis by (simp add: t body_inv_defs m)
qed

lemma warning_beep_loop_returns:
  assumes "hw_ok h" and "unat hold \<le> 4000000" and "unat silent \<le> 1000"
    and "body_inv s" and "unat el \<le> 4002000"
  shows "\<exists>t. warning_beep_loop h silent hold el s = Some t \<and> body_inv t"
  using assms(4,5)
proof (induction "unat hold - unat el" arbitrary: el s rule: less_induct)
  case less
  show ?case
  proof (cases "el < hold")
    case False
    with less.prems show ?thesis by (simp add: warning_beep_loop.simps [of h silent hold el])
  next
    case True
    then have lt: "unat el < unat hold" by (simp add: word_less_nat_alt)
    have e1: "unat (el + 120) = unat el + 120" using lt assms(2) by (simp add: unat_word_ariths(1))
    have e2: "unat (el + 120 + silent) = unat el + 120 + unat silent"
      using lt assms(2,3) e1 by (simp add: unat_word_ariths(1))
    obtain u w where u: "BodyControl_PlayToneForMs 1300 120 s = Some u" "buzzed w s u"
      using PlayTone_returns [of 1300 120 s] by auto
    then have iu: "body_inv u" using body_inv_buzzed less.prems(1) by blast
    show ?thesis
    proof (cases "el + 120 < hold")
      case el2: True
      obtain v where v: "BodyControl_SilentForMs h silent u = Some v" "body_inv v"
        using SilentForMs_returns [OF assms(1) iu] by blast
      have d: "unat hold - unat (el + 120 + silent) < unat hold - unat el"
        using e2 lt by linarith
      have b: "unat (el + 120 + silent) \<le> 4002000"
        using e2 lt assms(2,3) by linarith
      from less.hyps [OF d v(2) b] True el2 u(1) v(1) show ?thesis
        by (simp add: warning_beep_loop.simps [of h silent hold el s])
    next
      case False
      then have "warning_beep_loop h silent hold (el + 120) u = Some u"
        by (simp add: warning_beep_loop.simps [of h silent hold "el + 120"])
      with True False u(1) iu show ?thesis
        by (simp add: warning_beep_loop.simps [of h silent hold el s])
    qed
  qed
qed

lemma CollisionWarningForMs_returns:
  assumes "hw_ok h" and "unat hold \<le> 4000000" and "body_inv s"
  shows "\<exists>t. BodyControl_CollisionWarningForMs h d hold s = Some t \<and> body_inv t"
proof -
  obtain u w where u: "BodyControl_PlayToneForMs 1300 hold s = Some u" "buzzed w s u"
    using PlayTone_returns [of 1300 hold s] assms(2) by auto
  then have "body_inv u" using body_inv_buzzed assms(3) by blast
  with u SilentForMs_returns [OF assms(1,3), of hold]
    warning_beep_loop_returns [OF assms(1,2) _ assms(3), of 130 0]
    warning_beep_loop_returns [OF assms(1,2) _ assms(3), of 380 0]
  show ?thesis
    by (auto simp: BodyControl_CollisionWarningForMs_def Let_def write_pin_eq)
qed

lemma body_inv_led_routine [fw_inv]:
  assumes "body_inv s"
  shows "body_inv (BodyControl_RunLedDiagnosticRoutine s)"
proof -
  obtain l where "write_all_lamps True s = s\<lparr>pin_cmd := (pin_cmd s)(BODY_HEAD_R := True,
     BODY_HEAD_G := True, BODY_HEAD_B := True, BODY_BRAKE := True, BODY_LEFT_TURN := True,
     BODY_RIGHT_TURN := True), io_log := l @ io_log s\<rparr>"
    using write_all_lamps_form by blast
  moreover obtain l' where "write_all_lamps False (BodyControl_DelayMs 1000 (write_all_lamps True s)) =
     (BodyControl_DelayMs 1000 (write_all_lamps True s))\<lparr>pin_cmd := (pin_cmd
       (BodyControl_DelayMs 1000 (write_all_lamps True s)))(BODY_HEAD_R := False,
     BODY_HEAD_G := False, BODY_HEAD_B := False, BODY_BRAKE := False, BODY_LEFT_TURN := False,
     BODY_RIGHT_TURN := False), io_log := l'\<rparr>"
    using write_all_lamps_form by blast
  ultimately show ?thesis
    unfolding BodyControl_RunLedDiagnosticRoutine_def Let_def
    using assms by (intro body_inv_apply) (simp_all add: DelayMs_log body_inv_defs)
qed

end
