(* ===== verification/Body_Frame.thy ===== *)
theory Body_Frame
  imports Body_Invariant
begin

unbundle bit_operations_syntax

text \<open>
  What the millisecond step of \<open>src/BODY/BodyControl.c\<close> leaves alone: the six commanded outputs,
  and everything outside \<open>BodyControl.c\<close> (the record extension that the CAN driver adds).
\<close>

definition body_commands :: "'a body_lamps_scheme \<Rightarrow> bool \<times> bool \<times> bool \<times> bool \<times> bool \<times> bool" where
  "body_commands s =
     (g_headlampOn s, g_brakeLampOn s, g_leftTurnEnabled s, g_rightTurnEnabled s,
      g_collisionWarningLampOn s, g_hornEnabled s)"

definition body_frame :: "'a body_scheme \<Rightarrow> 'a body_scheme \<Rightarrow> bool" where
  "body_frame s t \<longleftrightarrow> body_commands t = body_commands s \<and> body.more t = body.more s"

lemma body_frame_refl [intro, simp]: "body_frame s s"
  by (simp add: body_frame_def)

lemma body_frame_trans [trans]: "body_frame s t \<Longrightarrow> body_frame t u \<Longrightarrow> body_frame s u"
  by (simp add: body_frame_def)

lemma body_frame_absorb: "body_frame t u \<Longrightarrow> body_frame s u = body_frame s t"
  by (auto simp: body_frame_def)

lemma body_frame_set_pin [fw_frame]: "body_frame s (set_pin p b s)"
  by (simp add: body_frame_def body_commands_def set_pin_def)

lemma body_frame_led [fw_frame]: "body_frame s (BodyControl_UpdateDiagDangerLed s)"
  by (simp add: UpdateDiagDangerLed_form body_frame_set_pin)

lemma body_frame_button [fw_frame]: "body_frame s (BodyControl_UpdateCollisionButton1ms h s)"
  by (simp add: body_frame_def body_commands_def BodyControl_UpdateCollisionButton1ms_def
      BodyControl_ReadCollisionButtonRawPressed_def read_pin_def
      BodyControl_CollisionButtonSample_def Let_def)

lemma body_frame_horn [fw_frame]: "body_frame s (BodyControl_UpdateHorn1ms s)"
  by (simp add: body_frame_def body_commands_def BodyControl_UpdateHorn1ms_def write_pin_eq set_pin_def
      Let_def)

lemma body_frame_beep:
  "BodyControl_IsCollisionWarningBeepActive s = (b, t) \<Longrightarrow> body_frame s t"
  by (auto simp: BodyControl_IsCollisionWarningBeepActive_def Let_def body_frame_def body_commands_def
      split: if_splits)

text \<open>The sound as a chain of three: level change, beep decision, tone.\<close>

lemma body_frame_sound [fw_frame]: "body_frame s (BodyControl_UpdateCollisionWarningSound1ms s)"
proof (cases "\<not> g_collisionWarningLampOn s \<or> g_collisionWarningLevel s = 0")
  case True
  then show ?thesis
    by (simp add: BodyControl_UpdateCollisionWarningSound1ms_def Let_def write_pin_eq set_pin_def
        BodyControl_ResetCollisionWarningSound_def body_frame_def body_commands_def)
next
  case False
  define s1 where "s1 = (if g_collisionWarningLevel s \<noteq> g_collisionWarningLastLevel s
     then s\<lparr>g_collisionWarningLastLevel := g_collisionWarningLevel s,
            g_collisionWarningToneOutputOn := False, g_collisionWarningToneTimerMs := 0,
            g_collisionWarningPatternTimerMs := 0\<rparr> else s)"
  have s1: "body_frame s s1" by (simp add: s1_def body_frame_def body_commands_def)
  obtain b s2 where beep: "BodyControl_IsCollisionWarningBeepActive s1 = (b, s2)" by force
  have s2: "body_frame s s2" using body_frame_trans [OF s1 body_frame_beep [OF beep]] .
  have run: "BodyControl_UpdateCollisionWarningSound1ms s =
      (if g_hornEnabled s1 then s1
       else if \<not> b
       then (BodyControl_BuzzerOff (s2\<lparr>g_collisionWarningToneOutputOn := False,
               g_collisionWarningToneTimerMs := 0\<rparr>))\<lparr>g_collisionWarningPatternTimerMs :=
             g_collisionWarningPatternTimerMs s2 + 1\<rparr>
       else
         let s = s2\<lparr>g_collisionWarningToneTimerMs := g_collisionWarningToneTimerMs s2 + 1\<rparr>;
             s = (if g_collisionWarningToneTimerMs s \<ge> 1
                  then BodyControl_WriteBuzzerPin (\<not> g_collisionWarningToneOutputOn s)
                    (s\<lparr>g_collisionWarningToneTimerMs := 0,
                       g_collisionWarningToneOutputOn := \<not> g_collisionWarningToneOutputOn s\<rparr>)
                  else s)
         in if g_collisionWarningLevel s \<noteq> 3
            then s\<lparr>g_collisionWarningPatternTimerMs := g_collisionWarningPatternTimerMs s + 1\<rparr> else s)"
    using False
    unfolding BodyControl_UpdateCollisionWarningSound1ms_def s1_def [symmetric] Let_def [of s1]
    by (simp add: Let_def [of s1] beep s1_def [symmetric]) (simp add: Let_def write_pin_eq)
  show ?thesis
    using s1 s2 unfolding run
    by (simp add: body_frame_def body_commands_def write_pin_eq set_pin_def Let_def)
qed

lemma body_frame_blink_led [fw_frame]: "body_frame s (BodyControl_UpdateDiagDangerLedBlink1ms s)"
  by (simp add: body_frame_def body_commands_def BodyControl_UpdateDiagDangerLedBlink1ms_def
      UpdateDiagDangerLed_form BodyControl_WriteDiagDangerLed_def write_pin_eq set_pin_def Let_def)

lemma body_frame_apply [fw_frame]: "body_frame s (BodyControl_ApplyOutputs s)"
  by (simp add: body_frame_def body_commands_def ApplyOutputs_explicit)

lemma body_frame_blink [fw_frame]: "body_frame s (BodyControl_UpdateBlink1ms s)"
  by (simp add: body_frame_def body_commands_def BodyControl_UpdateBlink1ms_def ApplyOutputs_explicit
      Let_def)

lemma body_frame_debug [fw_frame]: "body_frame s (BodyControl_UpdateCollisionWarningDebug s)"
  by (simp add: body_frame_def body_commands_def BodyControl_UpdateCollisionWarningDebug_def)

lemma body_frame_signals:
  "body_frame s (diag_brake_signal b s)" "body_frame s (diag_head_signal b s)"
  "body_frame s (diag_left_signal b s)" "body_frame s (diag_right_signal b s)"
  by (simp_all add: body_frame_def body_commands_def diag_signal_defs Let_def case_prod_beta)

lemma body_frame_diagnosis [fw_frame]: "body_frame s (BodyControl_UpdateDiagnosis1ms h s)"
proof -
  have "body_frame s (t\<lparr>g_debugBodyDiagFaultMask := x, g_debugBodyDiagCommandMask := y,
      g_debugBodyDiagFeedbackMask := z\<rparr>) = body_frame s t" for s t :: "'a body_scheme" and x y z
    by (simp add: body_frame_def body_commands_def)
  then show ?thesis
    unfolding BodyControl_UpdateDiagnosis1ms_def ReadMask_eq Let_def case_prod_conv
    by (simp add: body_frame_absorb [OF body_frame_led] body_frame_absorb [OF body_frame_signals(1)]
        body_frame_absorb [OF body_frame_signals(2)] body_frame_absorb [OF body_frame_signals(3)]
        body_frame_absorb [OF body_frame_signals(4)])
      (simp add: body_frame_def body_commands_def)
qed

lemma body_frame_measured:
  assumes "measured s t" and "\<not> pin_cmd s BODY_ULTRASONIC_TRIG"
  shows "body_frame s t"
  using measured_form [OF assms] by (auto simp: body_frame_def body_commands_def)

lemma body_frame_outcome [fw_frame]: "body_frame s (ultrasonic_outcome r s)"
  by (cases r) (simp_all add: ultrasonic_outcome_def Let_def UpdateDiagDangerLed_form set_pin_def
      body_frame_def body_commands_def)

lemma body_frame_ultrasonic:
  assumes "BodyControl_UpdateUltrasonic1ms h s = Some t" and "\<not> pin_cmd s BODY_ULTRASONIC_TRIG"
  shows "body_frame s t"
proof (cases "g_collisionWarningLampOn s")
  case False
  with assms(1) show ?thesis
    by (auto simp: BodyControl_UpdateUltrasonic1ms_def ultrasonic_reset_def body_frame_def
        body_commands_def BodyControl_ResetCollisionWarningSound_def)
next
  case True
  define s1 where "s1 = (if g_ultrasonicValidHoldTimerMs s > 0
     then s\<lparr>g_ultrasonicValidHoldTimerMs := g_ultrasonicValidHoldTimerMs s - 1\<rparr> else s)"
  let ?s = "s1\<lparr>g_ultrasonicMeasureTimerMs := 0,
     g_ultrasonicMeasureCount := g_ultrasonicMeasureCount s1 + 1\<rparr>"
  have s1: "body_frame s s1" "body_frame s ?s" "pin_cmd s1 = pin_cmd s"
    by (simp_all add: s1_def body_frame_def body_commands_def)
  show ?thesis
  proof (cases "g_ultrasonicMeasureTimerMs s1 < 60")
    case lt: True
    with True assms(1) s1(1) show ?thesis
      unfolding BodyControl_UpdateUltrasonic1ms_def s1_def [symmetric]
      by (auto simp: Let_def body_frame_def body_commands_def)
  next
    case False
    then obtain r u where m: "BodyControl_MeasureUltrasonicDistanceCm h ?s = Some (r, u)"
        and t: "t = ultrasonic_outcome r u"
      using True assms(1) unfolding BodyControl_UpdateUltrasonic1ms_def s1_def [symmetric]
      by (auto simp: Let_def bind_Some_iff)
    have "measured ?s u"
      using m Measure_state by (auto simp: BodyControl_MeasureUltrasonicDistanceCm_def)
    then have "body_frame ?s u" using assms(2) s1(3) by (intro body_frame_measured) simp_all
    with s1(2) t show ?thesis by (meson body_frame_trans body_frame_outcome)
  qed
qed

lemma body_frame_sync: "body_frame s (BodyControl_SyncUltrasonicDtcFaultMask s)"
  by (simp add: BodyControl_SyncUltrasonicDtcFaultMask_def Let_def UpdateDiagDangerLed_form set_pin_def
      body_frame_def body_commands_def)

lemma body_frame_dtc_status [fw_frame]: "body_frame s (BodyControl_UpdateUltrasonicDtcStatus f s)"
proof -
  have parts: "body_frame t (BodyControl_UpdateUltrasonicDtcDebug t)"
    "body_frame t (BodyControl_StartDiagDangerLedBlink t)"
    "body_frame t (t\<lparr>g_ultrasonicDtcStatus := x, g_ultrasonicDtcConsecutiveFailCount := y\<rparr>)"
    for t :: "'a body_scheme" and x y
    by (simp_all add: body_frame_def body_commands_def BodyControl_UpdateUltrasonicDtcDebug_def
        BodyControl_StartDiagDangerLedBlink_def BodyControl_WriteDiagDangerLed_def write_pin_eq
        set_pin_def)
  show ?thesis
    unfolding DtcStatus_form Let_def
    by (simp add: body_frame_absorb [OF body_frame_sync] body_frame_absorb [OF parts(1)]
        body_frame_absorb [OF parts(2)] body_frame_absorb [OF parts(3)])
qed

lemma body_frame_routine:
  assumes "BodyControl_RunUltrasonicDiagnosticRoutine h w s = Some (b, v, t)"
    and "\<not> pin_cmd s BODY_ULTRASONIC_TRIG"
  shows "body_frame s t"
proof (cases w)
  case None
  with assms(1) show ?thesis by (simp add: BodyControl_RunUltrasonicDiagnosticRoutine_def)
next
  case (Some x)
  with assms(1) obtain r u where
    m: "BodyControl_MeasureUltrasonicDistanceCmWithTimeout h 50000 s = Some (r, u)"
    and t: "t = (case r of None \<Rightarrow> ultrasonic_routine_failed u | Some d \<Rightarrow> ultrasonic_routine_passed d u)"
    by (auto simp: BodyControl_RunUltrasonicDiagnosticRoutine_def bind_Some_iff Let_def
        split: option.splits)
  have "body_frame s u" by (rule body_frame_measured [OF Measure_state [OF m] assms(2)])
  moreover have "body_frame u t"
    unfolding t by (cases r) (simp_all add: ultrasonic_routine_failed_def ultrasonic_routine_passed_def
        Let_def UpdateDiagDangerLed_form set_pin_def body_frame_def body_commands_def)
  ultimately show ?thesis by (rule body_frame_trans)
qed

lemma body_frame_dtc:
  assumes "BodyControl_UpdateDtcStatus1ms h s = Some t" and "\<not> pin_cmd s BODY_ULTRASONIC_TRIG"
  shows "body_frame s t"
proof (cases "g_dtcCheckTimerMs s < 3000")
  case True
  with assms(1) show ?thesis
    by (auto simp: BodyControl_UpdateDtcStatus1ms_def body_frame_def body_commands_def)
next
  case False
  let ?s = "s\<lparr>g_dtcCheckTimerMs := 0\<rparr>"
  from assms(1) False obtain b v u where
    r: "BodyControl_RunUltrasonicDiagnosticRoutine h (Some 0) ?s = Some (b, v, u)"
    and t: "t = BodyControl_UpdateUltrasonicDtcStatus (\<not> b) u"
    by (auto simp: BodyControl_UpdateDtcStatus1ms_def bind_Some_iff)
  have "body_frame s ?s" by (simp add: body_frame_def body_commands_def)
  also have "body_frame ?s u" by (rule body_frame_routine [OF r]) (simp add: assms(2))
  also have "body_frame u t" unfolding t by (rule body_frame_dtc_status)
  finally show ?thesis .
qed

lemma body_frame_Update1ms:
  assumes "hw_ok h" "body_inv s" "BodyControl_Update1ms h s = Some t"
  shows "body_frame s t"
proof -
  let ?b = "BodyControl_UpdateCollisionButton1ms h s"
  obtain u where u: "BodyControl_UpdateUltrasonic1ms h ?b = Some u" "body_inv u"
    using UpdateUltrasonic_returns [OF assms(1) body_inv_button [OF assms(2)]] by blast
  let ?c = "BodyControl_UpdateCollisionWarningSound1ms (BodyControl_UpdateHorn1ms u)"
  obtain v where v: "BodyControl_UpdateDtcStatus1ms h ?c = Some v"
    using UpdateDtc_returns [OF assms(1) body_inv_sound [OF body_inv_horn [OF u(2)]]] by blast
  have "body_frame s ?b" by (rule body_frame_button)
  also have "body_frame ?b u"
    by (rule body_frame_ultrasonic [OF u(1)]) (use body_inv_button [OF assms(2)] in \<open>simp add: body_inv_def\<close>)
  also have "body_frame u (BodyControl_UpdateHorn1ms u)" by (rule body_frame_horn)
  also have "body_frame \<dots> ?c" by (rule body_frame_sound)
  also have "body_frame ?c v"
    by (rule body_frame_dtc [OF v])
      (use body_inv_sound [OF body_inv_horn [OF u(2)]] in \<open>simp add: body_inv_def\<close>)
  also have "body_frame v (BodyControl_UpdateDiagDangerLedBlink1ms v)" by (rule body_frame_blink_led)
  also have "body_frame \<dots> (BodyControl_UpdateBlink1ms \<dots>)" by (rule body_frame_blink)
  also have "body_frame \<dots> (BodyControl_UpdateDiagnosis1ms h \<dots>)" by (rule body_frame_diagnosis)
  also have "body_frame \<dots> (BodyControl_UpdateCollisionWarningDebug \<dots>)" by (rule body_frame_debug)
  also have "\<dots> = t" using assms(3) u(1) v by (simp add: BodyControl_Update1ms_def)
  finally show ?thesis .
qed

end
