(* ===== verification/Body_Can.thy ===== *)
theory Body_Can
  imports Body_Frame
begin

unbundle bit_operations_syntax

text \<open>
  The CAN driver of the BODY ECU, \<open>src/BODY/BodyCan.c\<close>: its state, the transmission of a frame,
  the receive interrupt, the safe state and the application of a command. A frame the hardware
  delivers is the argument of the interrupt handler; a frame handed to \<open>IfxCan_Can_sendMessage\<close>
  is recorded in \<open>can_sent\<close> when that call does not report \<open>NotSentBusy\<close>. Data-length codes are
  written as the number of bytes they stand for.
\<close>

section \<open>State\<close>

record can_frame =
  cf_id :: u32
  cf_dlc :: nat
  cf_data :: "u32 list"

record body_can = body +
  can_calls :: nat
  can_sent :: "(nat \<times> can_frame) list"
  g_rxHeadlampRaw :: u8
  g_rxTurnSignalRaw :: u8
  g_rxBrakeLampRaw :: u8
  g_rxHornRaw :: u8
  g_rxCollisionWarningRaw :: u8
  g_rxControlModeRaw :: u8
  g_rxUpdated :: bool
  g_rxCount :: u32
  g_invalidCount :: u32
  g_crcErrorCount :: u32
  g_aliveErrorCount :: u32
  g_currentHeadlampRaw :: u8
  g_currentTurnSignalRaw :: u8
  g_currentBrakeLampRaw :: u8
  g_currentHornRaw :: u8
  g_currentCollisionWarningRaw :: u8
  g_currentControlModeRaw :: u8
  g_currentRxAliveCounter :: u8
  g_cmdTimeoutMs :: u32
  g_txBufferIndex :: u8
  g_txHeartbeatAliveCounter :: u8
  g_heartbeatTxTimerMs :: u32
  g_bodyCanTimeMs :: u32
  g_collisionEventPending :: bool
  g_pendingCollisionOccurrenceTimeMs :: u32
  g_udsRequestUpdated :: bool
  g_udsRequestByte :: "u8 list"
  g_udsSession :: u8
  g_udsRxCount :: u32
  g_udsTxCount :: u32
  g_udsTxBusyCount :: u32
  g_udsLastSid :: u8
  g_udsLastNrc :: u8

text \<open>The variables the debugger watches; only \<open>g_debugBodyCanEventTxOkCount\<close> is read back.\<close>

record body_ecu = body_can +
  g_debugBodyCanRxCount :: u32
  g_debugBodyCanInvalidCount :: u32
  g_debugBodyCanCrcErrorCount :: u32
  g_debugBodyCanAliveErrorCount :: u32
  g_debugBodyCanStatusTxCallCount :: u32
  g_debugBodyCanStatusTxOkCount :: u32
  g_debugBodyCanStatusTxBusyCount :: u32
  g_debugBodyCanEventTxCallCount :: u32
  g_debugBodyCanEventTxOkCount :: u32
  g_debugBodyCanEventTxBusyCount :: u32
  g_debugBodyCanEventPending :: u32
  g_debugBodyCanLastCollisionTimeMs :: u32
  g_debugBodyCanUdsRxCount :: u32
  g_debugBodyCanUdsTxCount :: u32
  g_debugBodyCanUdsTxBusyCount :: u32
  g_debugBodyCanUdsSession :: u8
  g_debugBodyCanUdsLastSid :: u8
  g_debugBodyCanUdsLastNrc :: u8
  g_debugBodyCanRxAliveCounter :: u8
  g_debugBodyCanTxAliveCounter :: u8
  g_debugBodyCanLastRxCrc :: u8
  g_debugBodyCanLastTxCrc :: u8
  g_debugBodyCanLastTxStatus :: "can_status option"
  g_debugBodyMainLoopCount :: u32
  g_debugBodyCollisionEventRequestCount :: u32

section \<open>Constants\<close>

abbreviation (input) BODY_CAN_TX_BUFFER_COUNT :: u8 where "BODY_CAN_TX_BUFFER_COUNT \<equiv> 2"
abbreviation (input) BODY_CAN_CMD_TIMEOUT_MS :: u32 where "BODY_CAN_CMD_TIMEOUT_MS \<equiv> 200"
abbreviation (input) BODY_CAN_HEARTBEAT_TX_PERIOD_MS :: u32 where "BODY_CAN_HEARTBEAT_TX_PERIOD_MS \<equiv> 200"
abbreviation (input) BODY_CAN_CMD_ID :: u32 where "BODY_CAN_CMD_ID \<equiv> 0x110"
abbreviation (input) BODY_CAN_COLLISION_EVENT_ID :: u32 where "BODY_CAN_COLLISION_EVENT_ID \<equiv> 0x210"
abbreviation (input) BODY_CAN_HEARTBEAT_ID :: u32 where "BODY_CAN_HEARTBEAT_ID \<equiv> 0x310"
abbreviation (input) BODY_CAN_UDS_REQ_ID :: u32 where "BODY_CAN_UDS_REQ_ID \<equiv> 0x710"
abbreviation (input) BODY_CAN_UDS_RESP_ID :: u32 where "BODY_CAN_UDS_RESP_ID \<equiv> 0x718"
abbreviation (input) BODY_CAN_OFF :: u8 where "BODY_CAN_OFF \<equiv> 0"
abbreviation (input) BODY_CAN_ON :: u8 where "BODY_CAN_ON \<equiv> 1"
abbreviation (input) BODY_CAN_TURN_OFF :: u8 where "BODY_CAN_TURN_OFF \<equiv> 0"
abbreviation (input) BODY_CAN_CONTROL_STANDBY :: u8 where "BODY_CAN_CONTROL_STANDBY \<equiv> 0"
abbreviation (input) BODY_CAN_CONTROL_REMOTE_DRIVE :: u8 where "BODY_CAN_CONTROL_REMOTE_DRIVE \<equiv> 1"
abbreviation (input) BODY_CAN_CONTROL_DIAGNOSTIC :: u8 where "BODY_CAN_CONTROL_DIAGNOSTIC \<equiv> 2"
abbreviation (input) BODY_CAN_STB :: pin where "BODY_CAN_STB \<equiv> (20, 6)"

section \<open>Operations\<close>

definition BodyCan_EnableTransceiver :: "'a io_scheme \<Rightarrow> 'a io_scheme" where
  "BodyCan_EnableTransceiver s = set_pin BODY_CAN_STB False (set_mode BODY_CAN_STB OutputPushPull s)"

definition BodyCan_IsValidBool :: "u8 \<Rightarrow> bool" where
  "BodyCan_IsValidBool value \<longleftrightarrow> value = BODY_CAN_OFF \<or> value = BODY_CAN_ON"

definition BodyCan_IsValidTurnSignal :: "u8 \<Rightarrow> bool" where
  "BodyCan_IsValidTurnSignal value \<longleftrightarrow> value = 0 \<or> value = 1 \<or> value = 2 \<or> value = 3"

definition BodyCan_IsValidControlMode :: "u8 \<Rightarrow> bool" where
  "BodyCan_IsValidControlMode value \<longleftrightarrow>
     value = BODY_CAN_CONTROL_STANDBY \<or> value = BODY_CAN_CONTROL_REMOTE_DRIVE \<or>
     value = BODY_CAN_CONTROL_DIAGNOSTIC"

definition BodyCan_IsCommandDlc :: "nat \<Rightarrow> bool" where
  "BodyCan_IsCommandDlc dataLengthCode \<longleftrightarrow> dataLengthCode = 6"

definition BodyCan_EnterSafeState :: "hw \<Rightarrow> 'a body_can_scheme \<Rightarrow> 'a body_can_scheme" where
  "BodyCan_EnterSafeState h s =
     BodyControl_AllOff h
       (s\<lparr>g_currentHeadlampRaw := BODY_CAN_OFF, g_currentTurnSignalRaw := BODY_CAN_TURN_OFF,
          g_currentBrakeLampRaw := BODY_CAN_OFF, g_currentHornRaw := BODY_CAN_OFF,
          g_currentCollisionWarningRaw := BODY_CAN_OFF,
          g_currentControlModeRaw := BODY_CAN_CONTROL_STANDBY\<rparr>)"

definition BodyCan_ApplyBodyCommand ::
  "hw \<Rightarrow> u8 \<Rightarrow> u8 \<Rightarrow> u8 \<Rightarrow> u8 \<Rightarrow> u8 \<Rightarrow> u8 \<Rightarrow> 'a body_can_scheme \<Rightarrow> 'a body_can_scheme" where
  "BodyCan_ApplyBodyCommand h headlampRaw turnSignalRaw brakeLampRaw hornRaw collisionWarningRaw
     controlModeRaw s =
     (let s = s\<lparr>g_currentControlModeRaw := controlModeRaw\<rparr>
      in if controlModeRaw \<noteq> BODY_CAN_CONTROL_REMOTE_DRIVE
         then (BodyCan_EnterSafeState h s)\<lparr>g_currentControlModeRaw := controlModeRaw\<rparr>
         else
           let s = s\<lparr>g_currentHeadlampRaw := headlampRaw, g_currentTurnSignalRaw := turnSignalRaw,
                     g_currentBrakeLampRaw := brakeLampRaw, g_currentHornRaw := hornRaw,
                     g_currentCollisionWarningRaw := collisionWarningRaw\<rparr>;
               s = BodyControl_SetHeadlamp (headlampRaw = BODY_CAN_ON) s;
               s = BodyControl_SetTurnSignal turnSignalRaw s;
               s = BodyControl_SetBrakeLamp (brakeLampRaw = BODY_CAN_ON) s;
               s = BodyControl_SetHorn (hornRaw = BODY_CAN_ON) s
           in BodyControl_SetCollisionWarningLamp (collisionWarningRaw = BODY_CAN_ON) s)"

text \<open>Arrays of eight bytes are lists of length 8; the two data words are a list of length 2.\<close>

definition BodyCan_PackTxBytes :: "u8 list \<Rightarrow> u32 list" where
  "BodyCan_PackTxBytes txByte =
     [pack_le (txByte ! 0) (txByte ! 1) (txByte ! 2) (txByte ! 3),
      pack_le (txByte ! 4) (txByte ! 5) (txByte ! 6) (txByte ! 7)]"

definition BodyCan_UnpackRxBytes :: "u32 list \<Rightarrow> u8 list" where
  "BodyCan_UnpackRxBytes rxData =
     [byte_at 0 (rxData ! 0), byte_at 8 (rxData ! 0), byte_at 16 (rxData ! 0), byte_at 24 (rxData ! 0),
      byte_at 0 (rxData ! 1), byte_at 8 (rxData ! 1), byte_at 16 (rxData ! 1), byte_at 24 (rxData ! 1)]"

definition BodyCan_SendRawFrame ::
  "hw \<Rightarrow> u32 \<Rightarrow> nat \<Rightarrow> u8 list \<Rightarrow> 'a body_ecu_scheme \<Rightarrow> can_status \<times> 'a body_ecu_scheme" where
  "BodyCan_SendRawFrame h messageId dataLengthCode txByte s =
     (let txData = BodyCan_PackTxBytes txByte;
          frame = \<lparr>cf_id = messageId, cf_dlc = dataLengthCode, cf_data = txData\<rparr>;
          bufferNumber = unat (g_txBufferIndex s);
          status = hw_can h (can_calls s);
          s = s\<lparr>can_calls := can_calls s + 1\<rparr>;
          s = s\<lparr>g_debugBodyCanLastTxStatus := Some status\<rparr>
      in if status \<noteq> NotSentBusy
         then
           let s = s\<lparr>can_sent := (bufferNumber, frame) # can_sent s\<rparr>;
               s = s\<lparr>g_txBufferIndex := g_txBufferIndex s + 1\<rparr>
           in (status, if g_txBufferIndex s \<ge> BODY_CAN_TX_BUFFER_COUNT
                       then s\<lparr>g_txBufferIndex := 0\<rparr> else s)
         else (status, s))"

text \<open>The six command bytes of a frame, once they pass the validators.\<close>

definition body_command_valid :: "u8 list \<Rightarrow> bool" where
  "body_command_valid rxByte \<longleftrightarrow>
     BodyCan_IsValidBool (rxByte ! 0) \<and> BodyCan_IsValidTurnSignal (rxByte ! 1) \<and>
     BodyCan_IsValidBool (rxByte ! 2) \<and> BodyCan_IsValidBool (rxByte ! 3) \<and>
     BodyCan_IsValidBool (rxByte ! 4) \<and> BodyCan_IsValidControlMode (rxByte ! 5)"

definition BodyCan_RxIsrHandler :: "can_frame \<Rightarrow> 'a body_ecu_scheme \<Rightarrow> 'a body_ecu_scheme" where
  "BodyCan_RxIsrHandler f s =
     (let rxByte = BodyCan_UnpackRxBytes (cf_data f)
      in if cf_id f = BODY_CAN_UDS_REQ_ID then
           (if cf_dlc f \<noteq> 8 then s\<lparr>g_invalidCount := g_invalidCount s + 1\<rparr>
            else
              let s = s\<lparr>g_udsRequestByte := rxByte, g_udsRequestUpdated := True,
                        g_udsRxCount := g_udsRxCount s + 1\<rparr>
              in s\<lparr>g_debugBodyCanUdsRxCount := g_udsRxCount s\<rparr>)
         else if cf_id f \<noteq> BODY_CAN_CMD_ID then s\<lparr>g_invalidCount := g_invalidCount s + 1\<rparr>
         else if \<not> BodyCan_IsCommandDlc (cf_dlc f) then s\<lparr>g_invalidCount := g_invalidCount s + 1\<rparr>
         else if \<not> body_command_valid rxByte then s\<lparr>g_invalidCount := g_invalidCount s + 1\<rparr>
         else
           let s = s\<lparr>g_cmdTimeoutMs := 0,
                     g_rxHeadlampRaw := rxByte ! 0, g_rxTurnSignalRaw := rxByte ! 1,
                     g_rxBrakeLampRaw := rxByte ! 2, g_rxHornRaw := rxByte ! 3,
                     g_rxCollisionWarningRaw := rxByte ! 4, g_rxControlModeRaw := rxByte ! 5,
                     g_debugBodyCanLastRxCrc := 0, g_debugBodyCanRxAliveCounter := 0\<rparr>
           in s\<lparr>g_rxUpdated := True, g_rxCount := g_rxCount s + 1\<rparr>)"

definition BodyCan_SendHeartbeat :: "hw \<Rightarrow> 'a body_ecu_scheme \<Rightarrow> 'a body_ecu_scheme" where
  "BodyCan_SendHeartbeat h s =
     (let s = s\<lparr>g_debugBodyCanStatusTxCallCount := g_debugBodyCanStatusTxCallCount s + 1\<rparr>;
          txByte = [g_txHeartbeatAliveCounter s, 0, 0, 0, 0, 0, 0, 0];
          (status, s) = BodyCan_SendRawFrame h BODY_CAN_HEARTBEAT_ID 1 txByte s
      in if status = NotSentBusy
         then s\<lparr>g_debugBodyCanStatusTxBusyCount := g_debugBodyCanStatusTxBusyCount s + 1\<rparr>
         else
           let s = s\<lparr>g_debugBodyCanTxAliveCounter := g_txHeartbeatAliveCounter s,
                     g_debugBodyCanLastTxCrc := 0\<rparr>
           in s\<lparr>g_txHeartbeatAliveCounter := g_txHeartbeatAliveCounter s + 1,
                g_debugBodyCanStatusTxOkCount := g_debugBodyCanStatusTxOkCount s + 1\<rparr>)"

definition BodyCan_SendHeartbeatIfNeeded :: "hw \<Rightarrow> 'a body_ecu_scheme \<Rightarrow> 'a body_ecu_scheme" where
  "BodyCan_SendHeartbeatIfNeeded h s =
     (let s = s\<lparr>g_heartbeatTxTimerMs := g_heartbeatTxTimerMs s + 1\<rparr>
      in if g_heartbeatTxTimerMs s < BODY_CAN_HEARTBEAT_TX_PERIOD_MS then s
         else BodyCan_SendHeartbeat h (s\<lparr>g_heartbeatTxTimerMs := 0\<rparr>))"

definition collision_event_bytes :: "u32 \<Rightarrow> u8 list" where
  "collision_event_bytes t = [1, byte_at 24 t, byte_at 16 t, byte_at 8 t, byte_at 0 t, 0, 0, 0]"

definition BodyCan_SendCollisionEvent :: "hw \<Rightarrow> u32 \<Rightarrow> 'a body_ecu_scheme \<Rightarrow> 'a body_ecu_scheme" where
  "BodyCan_SendCollisionEvent h occurrenceTimeMs s =
     (let s = s\<lparr>g_debugBodyCanEventTxCallCount := g_debugBodyCanEventTxCallCount s + 1\<rparr>;
          txByte = collision_event_bytes occurrenceTimeMs;
          (status, s) = BodyCan_SendRawFrame h BODY_CAN_COLLISION_EVENT_ID 5 txByte s
      in if status = NotSentBusy
         then s\<lparr>g_debugBodyCanEventTxBusyCount := g_debugBodyCanEventTxBusyCount s + 1\<rparr>
         else s\<lparr>g_debugBodyCanLastCollisionTimeMs := occurrenceTimeMs,
                g_debugBodyCanEventTxOkCount := g_debugBodyCanEventTxOkCount s + 1\<rparr>)"

definition BodyCan_SendPendingCollisionEventIfNeeded ::
  "hw \<Rightarrow> 'a body_ecu_scheme \<Rightarrow> 'a body_ecu_scheme" where
  "BodyCan_SendPendingCollisionEventIfNeeded h s =
     (if \<not> g_collisionEventPending s then s
      else
        let okCountBefore = g_debugBodyCanEventTxOkCount s;
            s = BodyCan_SendCollisionEvent h (g_pendingCollisionOccurrenceTimeMs s) s
        in if g_debugBodyCanEventTxOkCount s \<noteq> okCountBefore
           then s\<lparr>g_collisionEventPending := False, g_debugBodyCanEventPending := 0\<rparr>
           else s)"

definition BodyCan_ReportCollisionOccurred :: "'a body_ecu_scheme \<Rightarrow> 'a body_ecu_scheme" where
  "BodyCan_ReportCollisionOccurred s =
     (let s = (if \<not> g_collisionEventPending s
               then s\<lparr>g_pendingCollisionOccurrenceTimeMs := g_bodyCanTimeMs s\<rparr> else s)
      in s\<lparr>g_collisionEventPending := True, g_debugBodyCanEventPending := 1\<rparr>)"

end
