(* ===== verification/Body_Uds.thy ===== *)
theory Body_Uds
  imports Body_Can
begin

unbundle bit_operations_syntax

text \<open>
  The diagnostic server of the BODY ECU, the UDS half of \<open>src/BODY/BodyCan.c\<close>: single-frame
  requests from 0x710, answered by single frames on 0x718. A payload is a list of seven bytes.
  Handlers that measure a distance or sound the horn are partial and return under \<open>hw_ok\<close>.
\<close>

section \<open>Constants\<close>

abbreviation (input) BODY_UDS_SF_MAX_PAYLOAD_BYTES :: u8 where "BODY_UDS_SF_MAX_PAYLOAD_BYTES \<equiv> 7"
abbreviation (input) BODY_UDS_NRC_SERVICE_NOT_SUPPORTED :: u8
  where "BODY_UDS_NRC_SERVICE_NOT_SUPPORTED \<equiv> 0x11"
abbreviation (input) BODY_UDS_NRC_SUBFUNCTION_UNSUPPORTED :: u8
  where "BODY_UDS_NRC_SUBFUNCTION_UNSUPPORTED \<equiv> 0x12"
abbreviation (input) BODY_UDS_NRC_INCORRECT_LENGTH :: u8 where "BODY_UDS_NRC_INCORRECT_LENGTH \<equiv> 0x13"
abbreviation (input) BODY_UDS_NRC_REQUEST_OUT_OF_RANGE :: u8
  where "BODY_UDS_NRC_REQUEST_OUT_OF_RANGE \<equiv> 0x31"
abbreviation (input) BODY_UDS_DTC_STATUS_AVAILABILITY_MASK :: u8
  where "BODY_UDS_DTC_STATUS_AVAILABILITY_MASK \<equiv> 0x01"
abbreviation (input) BODY_UDS_READ_DTC_ALL_SUBFUNCTION :: u8
  where "BODY_UDS_READ_DTC_ALL_SUBFUNCTION \<equiv> 0x0A"
abbreviation (input) BODY_UDS_ROUTINE_START :: u8 where "BODY_UDS_ROUTINE_START \<equiv> 1"
abbreviation (input) BODY_UDS_ROUTINE_RESULT_OK :: u8 where "BODY_UDS_ROUTINE_RESULT_OK \<equiv> 0"
abbreviation (input) BODY_UDS_ROUTINE_RESULT_TIMEOUT :: u8 where "BODY_UDS_ROUTINE_RESULT_TIMEOUT \<equiv> 1"
abbreviation (input) BODY_UDS_SID_SESSION_CONTROL :: u8 where "BODY_UDS_SID_SESSION_CONTROL \<equiv> 0x10"
abbreviation (input) BODY_UDS_SID_READ_DID :: u8 where "BODY_UDS_SID_READ_DID \<equiv> 0x22"
abbreviation (input) BODY_UDS_SID_READ_DTC :: u8 where "BODY_UDS_SID_READ_DTC \<equiv> 0x19"
abbreviation (input) BODY_UDS_SID_CLEAR_DTC :: u8 where "BODY_UDS_SID_CLEAR_DTC \<equiv> 0x14"
abbreviation (input) BODY_UDS_SID_ROUTINE_CONTROL :: u8 where "BODY_UDS_SID_ROUTINE_CONTROL \<equiv> 0x31"
abbreviation (input) BODY_UDS_POSITIVE_RESPONSE_OFFSET :: u8
  where "BODY_UDS_POSITIVE_RESPONSE_OFFSET \<equiv> 0x40"
abbreviation (input) BODY_UDS_SESSION_DEFAULT :: u8 where "BODY_UDS_SESSION_DEFAULT \<equiv> 1"
abbreviation (input) BODY_UDS_SESSION_EXTENDED :: u8 where "BODY_UDS_SESSION_EXTENDED \<equiv> 3"
abbreviation (input) BODY_UDS_DID_ECU_ID :: u16 where "BODY_UDS_DID_ECU_ID \<equiv> 0xF190"
abbreviation (input) BODY_UDS_DID_ULTRASONIC_DISTANCE :: u16
  where "BODY_UDS_DID_ULTRASONIC_DISTANCE \<equiv> 0x0201"
abbreviation (input) BODY_UDS_DID_TURN_SIGNAL_STATUS :: u16
  where "BODY_UDS_DID_TURN_SIGNAL_STATUS \<equiv> 0x0202"
abbreviation (input) BODY_UDS_DID_COLLISION_SWITCH :: u16 where "BODY_UDS_DID_COLLISION_SWITCH \<equiv> 0x0203"
abbreviation (input) BODY_UDS_DID_COLLISION_WARNING :: u16
  where "BODY_UDS_DID_COLLISION_WARNING \<equiv> 0x0204"
abbreviation (input) BODY_UDS_RID_BUZZER_TEST :: u16 where "BODY_UDS_RID_BUZZER_TEST \<equiv> 0x0200"
abbreviation (input) BODY_UDS_RID_LED_ALL_TEST :: u16 where "BODY_UDS_RID_LED_ALL_TEST \<equiv> 0x0201"
abbreviation (input) BODY_UDS_RID_ULTRASONIC_TEST :: u16 where "BODY_UDS_RID_ULTRASONIC_TEST \<equiv> 0x0202"

section \<open>Responses\<close>

text \<open>The frame bytes of a payload: length nibble, payload, zero padding to eight.\<close>

definition uds_sf_bytes :: "u8 list \<Rightarrow> u8 \<Rightarrow> u8 list" where
  "uds_sf_bytes payload payloadLength =
     (payloadLength AND 0x0F) #
       take (unat payloadLength) payload @ replicate (7 - unat payloadLength) 0"

definition BodyCan_SendUdsPayload ::
  "hw \<Rightarrow> u8 list \<Rightarrow> u8 \<Rightarrow> 'a body_ecu_scheme \<Rightarrow> 'a body_ecu_scheme" where
  "BodyCan_SendUdsPayload h payload payloadLength s =
     (if payloadLength = 0 \<or> payloadLength > BODY_UDS_SF_MAX_PAYLOAD_BYTES
      then s\<lparr>g_invalidCount := g_invalidCount s + 1\<rparr>
      else
        let txByte = uds_sf_bytes payload payloadLength;
            (status, s) = BodyCan_SendRawFrame h BODY_CAN_UDS_RESP_ID 8 txByte s
        in if status = NotSentBusy
           then
             let s = s\<lparr>g_udsTxBusyCount := g_udsTxBusyCount s + 1\<rparr>
             in s\<lparr>g_debugBodyCanUdsTxBusyCount := g_udsTxBusyCount s\<rparr>
           else
             let s = s\<lparr>g_udsTxCount := g_udsTxCount s + 1\<rparr>
             in s\<lparr>g_debugBodyCanUdsTxCount := g_udsTxCount s\<rparr>)"

definition BodyCan_SendUdsNegativeResponse ::
  "hw \<Rightarrow> u8 \<Rightarrow> u8 \<Rightarrow> 'a body_ecu_scheme \<Rightarrow> 'a body_ecu_scheme" where
  "BodyCan_SendUdsNegativeResponse h requestSid nrc s =
     BodyCan_SendUdsPayload h [0x7F, requestSid, nrc, 0, 0, 0, 0] 3
       (s\<lparr>g_udsLastNrc := nrc, g_debugBodyCanUdsLastNrc := nrc\<rparr>)"

definition BodyCan_SendUdsPositiveResponse ::
  "hw \<Rightarrow> u8 list \<Rightarrow> u8 \<Rightarrow> 'a body_ecu_scheme \<Rightarrow> 'a body_ecu_scheme" where
  "BodyCan_SendUdsPositiveResponse h payload payloadLength s =
     BodyCan_SendUdsPayload h payload payloadLength
       (s\<lparr>g_udsLastNrc := 0, g_debugBodyCanUdsLastNrc := 0\<rparr>)"

section \<open>Services\<close>

definition BodyCan_HandleUdsSessionControl ::
  "hw \<Rightarrow> u8 list \<Rightarrow> u8 \<Rightarrow> 'a body_ecu_scheme \<Rightarrow> 'a body_ecu_scheme" where
  "BodyCan_HandleUdsSessionControl h payload payloadLength s =
     (if payloadLength \<noteq> 2
      then BodyCan_SendUdsNegativeResponse h BODY_UDS_SID_SESSION_CONTROL BODY_UDS_NRC_INCORRECT_LENGTH s
      else
        let requestedSession = payload ! 1 AND 0x7F
        in if requestedSession \<noteq> BODY_UDS_SESSION_DEFAULT \<and> requestedSession \<noteq> BODY_UDS_SESSION_EXTENDED
           then BodyCan_SendUdsNegativeResponse h BODY_UDS_SID_SESSION_CONTROL
                  BODY_UDS_NRC_SUBFUNCTION_UNSUPPORTED s
           else
             let s = s\<lparr>g_udsSession := requestedSession\<rparr>;
                 s = s\<lparr>g_debugBodyCanUdsSession := g_udsSession s\<rparr>;
                 response = [BODY_UDS_SID_SESSION_CONTROL + BODY_UDS_POSITIVE_RESPONSE_OFFSET,
                   requestedSession, 0x0B, 0xB8, 0x03, 0xE8, 0]
             in BodyCan_SendUdsPositiveResponse h response 6 s)"

definition BodyCan_HandleUdsReadDid ::
  "hw \<Rightarrow> u8 list \<Rightarrow> u8 \<Rightarrow> 'a body_ecu_scheme \<Rightarrow> 'a body_ecu_scheme option" where
  "BodyCan_HandleUdsReadDid h payload payloadLength s =
     (if payloadLength \<noteq> 3
      then Some (BodyCan_SendUdsNegativeResponse h BODY_UDS_SID_READ_DID BODY_UDS_NRC_INCORRECT_LENGTH s)
      else
        let did = be16 (payload ! 1) (payload ! 2);
            response = [BODY_UDS_SID_READ_DID + BODY_UDS_POSITIVE_RESPONSE_OFFSET,
              payload ! 1, payload ! 2, 0, 0, 0, 0]
        in if did = BODY_UDS_DID_ECU_ID
           then Some (BodyCan_SendUdsPositiveResponse h
                  (response[3 := 0x42, 4 := 0x44, 5 := 0x59, 6 := 0x31]) 7 s)
           else if did = BODY_UDS_DID_ULTRASONIC_DISTANCE
           then do {
             (ok, distanceMm, s) \<leftarrow> BodyControl_RunUltrasonicDiagnosticRoutine h (Some 0) s;
             Some (BodyCan_SendUdsPositiveResponse h
               (response[3 := hi8 (the distanceMm), 4 := lo8 (the distanceMm)]) 5 s)
           }
           else if did = BODY_UDS_DID_TURN_SIGNAL_STATUS
           then Some (BodyCan_SendUdsPositiveResponse h (response[3 := g_currentTurnSignalRaw s]) 4 s)
           else if did = BODY_UDS_DID_COLLISION_SWITCH
           then Some (BodyCan_SendUdsPositiveResponse h
                  (response[3 := (if BodyControl_IsCollisionButtonPressed s then 1 else 0)]) 4 s)
           else if did = BODY_UDS_DID_COLLISION_WARNING
           then Some (BodyCan_SendUdsPositiveResponse h
                  (response[3 := (if g_currentCollisionWarningRaw s = BODY_CAN_ON then 1 else 0)]) 4 s)
           else Some (BodyCan_SendUdsNegativeResponse h BODY_UDS_SID_READ_DID
                  BODY_UDS_NRC_REQUEST_OUT_OF_RANGE s))"

definition BodyCan_HandleUdsReadDtc ::
  "hw \<Rightarrow> u8 list \<Rightarrow> u8 \<Rightarrow> 'a body_ecu_scheme \<Rightarrow> 'a body_ecu_scheme" where
  "BodyCan_HandleUdsReadDtc h payload payloadLength s =
     (if payloadLength \<noteq> 2
      then BodyCan_SendUdsNegativeResponse h BODY_UDS_SID_READ_DTC BODY_UDS_NRC_INCORRECT_LENGTH s
      else if payload ! 1 \<noteq> BODY_UDS_READ_DTC_ALL_SUBFUNCTION
      then BodyCan_SendUdsNegativeResponse h BODY_UDS_SID_READ_DTC
             BODY_UDS_NRC_SUBFUNCTION_UNSUPPORTED s
      else
        let dtcStatus = BodyControl_GetUltrasonicDtcStatus s;
            response = [BODY_UDS_SID_READ_DTC + BODY_UDS_POSITIVE_RESPONSE_OFFSET,
              BODY_UDS_READ_DTC_ALL_SUBFUNCTION, BODY_UDS_DTC_STATUS_AVAILABILITY_MASK,
              0xC2, 0x01, 0x00, dtcStatus]
        in BodyCan_SendUdsPositiveResponse h response 7 s)"

definition BodyCan_HandleUdsClearDtc ::
  "hw \<Rightarrow> u8 list \<Rightarrow> u8 \<Rightarrow> 'a body_ecu_scheme \<Rightarrow> 'a body_ecu_scheme" where
  "BodyCan_HandleUdsClearDtc h payload payloadLength s =
     (if payloadLength \<noteq> 4
      then BodyCan_SendUdsNegativeResponse h BODY_UDS_SID_CLEAR_DTC BODY_UDS_NRC_INCORRECT_LENGTH s
      else if payload ! 1 \<noteq> 0xFF \<or> payload ! 2 \<noteq> 0xFF \<or> payload ! 3 \<noteq> 0xFF
      then BodyCan_SendUdsNegativeResponse h BODY_UDS_SID_CLEAR_DTC
             BODY_UDS_NRC_REQUEST_OUT_OF_RANGE s
      else
        let s = BodyControl_ClearDtcHistory s;
            response = [BODY_UDS_SID_CLEAR_DTC + BODY_UDS_POSITIVE_RESPONSE_OFFSET, 0, 0, 0, 0, 0, 0]
        in BodyCan_SendUdsPositiveResponse h response 1 s)"

definition BodyCan_HandleUdsRoutineControl ::
  "hw \<Rightarrow> u8 list \<Rightarrow> u8 \<Rightarrow> 'a body_ecu_scheme \<Rightarrow> 'a body_ecu_scheme option" where
  "BodyCan_HandleUdsRoutineControl h payload payloadLength s =
     (if payloadLength \<noteq> 4
      then Some (BodyCan_SendUdsNegativeResponse h BODY_UDS_SID_ROUTINE_CONTROL
             BODY_UDS_NRC_INCORRECT_LENGTH s)
      else if payload ! 1 AND 0x7F \<noteq> BODY_UDS_ROUTINE_START
      then Some (BodyCan_SendUdsNegativeResponse h BODY_UDS_SID_ROUTINE_CONTROL
             BODY_UDS_NRC_SUBFUNCTION_UNSUPPORTED s)
      else
        let routineId = be16 (payload ! 2) (payload ! 3);
            response = [BODY_UDS_SID_ROUTINE_CONTROL + BODY_UDS_POSITIVE_RESPONSE_OFFSET,
              BODY_UDS_ROUTINE_START, payload ! 2, payload ! 3, 0, 0, 0]
        in if routineId = BODY_UDS_RID_BUZZER_TEST
           then do {
             s \<leftarrow> BodyControl_RunBuzzerDiagnosticRoutine s;
             Some (BodyCan_SendUdsPositiveResponse h (response[4 := BODY_UDS_ROUTINE_RESULT_OK]) 5 s)
           }
           else if routineId = BODY_UDS_RID_LED_ALL_TEST
           then Some (BodyCan_SendUdsPositiveResponse h (response[4 := BODY_UDS_ROUTINE_RESULT_OK]) 5
                  (BodyControl_RunLedDiagnosticRoutine s))
           else if routineId = BODY_UDS_RID_ULTRASONIC_TEST
           then do {
             (ultrasonicOk, distanceMm, s) \<leftarrow>
               BodyControl_RunUltrasonicDiagnosticRoutine h (Some 0) s;
             Some (BodyCan_SendUdsPositiveResponse h
               (response[4 := (if ultrasonicOk then BODY_UDS_ROUTINE_RESULT_OK
                               else BODY_UDS_ROUTINE_RESULT_TIMEOUT)]) 5 s)
           }
           else Some (BodyCan_SendUdsNegativeResponse h BODY_UDS_SID_ROUTINE_CONTROL
                  BODY_UDS_NRC_REQUEST_OUT_OF_RANGE s))"

text \<open>The switch on the service identifier.\<close>

definition uds_dispatch ::
  "hw \<Rightarrow> u8 \<Rightarrow> u8 list \<Rightarrow> u8 \<Rightarrow> 'a body_ecu_scheme \<Rightarrow> 'a body_ecu_scheme option" where
  "uds_dispatch h sid payload payloadLength s =
     (if sid = BODY_UDS_SID_SESSION_CONTROL
      then Some (BodyCan_HandleUdsSessionControl h payload payloadLength s)
      else if sid = BODY_UDS_SID_READ_DID
      then BodyCan_HandleUdsReadDid h payload payloadLength s
      else if sid = BODY_UDS_SID_READ_DTC
      then Some (BodyCan_HandleUdsReadDtc h payload payloadLength s)
      else if sid = BODY_UDS_SID_CLEAR_DTC
      then Some (BodyCan_HandleUdsClearDtc h payload payloadLength s)
      else if sid = BODY_UDS_SID_ROUTINE_CONTROL
      then BodyCan_HandleUdsRoutineControl h payload payloadLength s
      else Some (BodyCan_SendUdsNegativeResponse h sid BODY_UDS_NRC_SERVICE_NOT_SUPPORTED s))"

definition BodyCan_HandleUdsRequest ::
  "hw \<Rightarrow> u8 list \<Rightarrow> 'a body_ecu_scheme \<Rightarrow> 'a body_ecu_scheme option" where
  "BodyCan_HandleUdsRequest h rxByte s =
     (if rxByte ! 0 AND 0xF0 \<noteq> 0 then Some (s\<lparr>g_invalidCount := g_invalidCount s + 1\<rparr>)
      else
        let payloadLength = rxByte ! 0 AND 0x0F
        in if payloadLength = 0 \<or> payloadLength > BODY_UDS_SF_MAX_PAYLOAD_BYTES
           then Some (s\<lparr>g_invalidCount := g_invalidCount s + 1\<rparr>)
           else
             let payload = take 7 (drop 1 rxByte);
                 sid = payload ! 0
             in uds_dispatch h sid payload payloadLength
                  (s\<lparr>g_udsLastSid := sid, g_debugBodyCanUdsLastSid := sid\<rparr>))"

definition BodyCan_ProcessUdsRequestIfNeeded ::
  "hw \<Rightarrow> 'a body_ecu_scheme \<Rightarrow> 'a body_ecu_scheme option" where
  "BodyCan_ProcessUdsRequestIfNeeded h s =
     (if \<not> g_udsRequestUpdated s then Some s
      else
        let rxByte = g_udsRequestByte s
        in BodyCan_HandleUdsRequest h rxByte (s\<lparr>g_udsRequestUpdated := False\<rparr>))"

end
