(* ===== verification/Command_Watchdog.thy ===== *)
theory Command_Watchdog
  imports Fw_Prelude
begin

text \<open>
  The contract of a command time-out, which the BODY and the ACT controller implement: a tick ages
  the last command by one, up to a limit, and enters the safe state when the limit is reached;
  every other step that is not an accepted command leaves the age alone and does not leave the
  safe state of an expired command. Then a silence of \<open>limit\<close> ticks, however the other steps are
  interleaved, ends in the safe state and stays there.
\<close>

text \<open>\<open>silence tick idle n s t\<close>: from \<open>s\<close> to \<open>t\<close> there were \<open>n\<close> ticks and no accepted command.\<close>

inductive silence :: "('s \<Rightarrow> 's \<Rightarrow> bool) \<Rightarrow> ('s \<Rightarrow> 's \<Rightarrow> bool) \<Rightarrow> nat \<Rightarrow> 's \<Rightarrow> 's \<Rightarrow> bool"
  for tick idle where
  start: "silence tick idle 0 s s"
| tick: "silence tick idle n s t \<Longrightarrow> tick t u \<Longrightarrow> silence tick idle (Suc n) s u"
| idle: "silence tick idle n s t \<Longrightarrow> idle t u \<Longrightarrow> silence tick idle n s u"

lemma silence_trans:
  "silence tick idle m t u \<Longrightarrow> silence tick idle n s t \<Longrightarrow> silence tick idle (n + m) s u"
proof (induction rule: silence.induct)
  case (tick m t u v)
  then show ?case by (metis add_Suc_right silence.tick)
qed (auto intro: silence.intros)

locale command_watchdog =
  fixes tick :: "'s \<Rightarrow> 's \<Rightarrow> bool"
    and idle :: "'s \<Rightarrow> 's \<Rightarrow> bool"
    and age :: "'s \<Rightarrow> nat"
    and limit :: nat
    and safe :: "'s \<Rightarrow> bool"
    and ok :: "'s \<Rightarrow> bool"
  assumes ok_tick: "ok s \<Longrightarrow> tick s t \<Longrightarrow> ok t"
    and ok_idle: "ok s \<Longrightarrow> idle s t \<Longrightarrow> ok t"
    and age_tick: "ok s \<Longrightarrow> tick s t \<Longrightarrow> age t = min limit (Suc (age s))"
    and age_idle: "ok s \<Longrightarrow> idle s t \<Longrightarrow> age t = age s"
    and age_limit: "ok s \<Longrightarrow> age s \<le> limit"
    and safe_expired: "ok s \<Longrightarrow> age s = limit \<Longrightarrow> safe s"
begin

lemma silence_ok: "silence tick idle n s t \<Longrightarrow> ok s \<Longrightarrow> ok t"
  by (induction rule: silence.induct) (auto intro: ok_tick ok_idle)

lemma silence_age: "silence tick idle n s t \<Longrightarrow> ok s \<Longrightarrow> age t = min limit (age s + n)"
proof (induction rule: silence.induct)
  case (start s)
  then show ?case using age_limit by fastforce
next
  case (tick n s t u)
  then show ?case using age_tick [of t u] silence_ok by auto
next
  case (idle n s t u)
  then show ?case using age_idle [of t u] silence_ok by auto
qed

lemma silence_safe: "silence tick idle n s t \<Longrightarrow> ok s \<Longrightarrow> limit \<le> age s + n \<Longrightarrow> safe t"
  using silence_age silence_ok safe_expired by auto

text \<open>The time-out does not fire early: the age counts the ticks exactly.\<close>

lemma silence_not_expired: "silence tick idle n s t \<Longrightarrow> ok s \<Longrightarrow> age s + n < limit \<Longrightarrow> age t = age s + n"
  using silence_age by auto

end

end
