(* ===== verification/Body_Ecu.thy ===== *)
theory Body_Ecu
  imports Body_Uds Command_Watchdog
begin

unbundle bit_operations_syntax

text \<open>
  The BODY ECU as a whole: \<open>BodyCan_Init\<close> and \<open>BodyCan_Update1ms\<close> of \<open>src/BODY/BodyCan.c\<close> and the
  main loop of \<open>src/BODY/Cpu0_Main.c\<close>. The receive interrupt may come between any two steps of
  the loop, and between the reading of a received command and the clearing of its flag; the
  relation \<open>body_step\<close> interleaves the two. Its invariant \<open>ecu_inv\<close> gives the command time-out.
\<close>

section \<open>Operations\<close>

definition body_can_vars :: "'a body_ecu_scheme \<Rightarrow> 'a body_ecu_scheme" where
  "body_can_vars s =
     s\<lparr>g_rxHeadlampRaw := BODY_CAN_OFF, g_rxTurnSignalRaw := BODY_CAN_TURN_OFF,
       g_rxBrakeLampRaw := BODY_CAN_OFF, g_rxHornRaw := BODY_CAN_OFF,
       g_rxCollisionWarningRaw := BODY_CAN_OFF, g_rxControlModeRaw := BODY_CAN_CONTROL_STANDBY,
       g_rxUpdated := False,
       g_rxCount := 0, g_invalidCount := 0, g_crcErrorCount := 0, g_aliveErrorCount := 0,
       g_currentHeadlampRaw := BODY_CAN_OFF, g_currentTurnSignalRaw := BODY_CAN_TURN_OFF,
       g_currentBrakeLampRaw := BODY_CAN_OFF, g_currentHornRaw := BODY_CAN_OFF,
       g_currentCollisionWarningRaw := BODY_CAN_OFF,
       g_currentControlModeRaw := BODY_CAN_CONTROL_STANDBY, g_currentRxAliveCounter := 0,
       g_cmdTimeoutMs := BODY_CAN_CMD_TIMEOUT_MS,
       g_txBufferIndex := 0, g_txHeartbeatAliveCounter := 0, g_heartbeatTxTimerMs := 0,
       g_bodyCanTimeMs := 0,
       g_collisionEventPending := False, g_pendingCollisionOccurrenceTimeMs := 0,
       g_udsRequestUpdated := False, g_udsRequestByte := replicate 8 0,
       g_udsSession := BODY_UDS_SESSION_DEFAULT, g_udsRxCount := 0, g_udsTxCount := 0,
       g_udsTxBusyCount := 0, g_udsLastSid := 0, g_udsLastNrc := 0\<rparr>"

definition body_can_debug :: "'a body_ecu_scheme \<Rightarrow> 'a body_ecu_scheme" where
  "body_can_debug s =
     s\<lparr>g_debugBodyCanRxCount := 0, g_debugBodyCanInvalidCount := 0, g_debugBodyCanCrcErrorCount := 0,
       g_debugBodyCanAliveErrorCount := 0, g_debugBodyCanStatusTxCallCount := 0,
       g_debugBodyCanStatusTxOkCount := 0, g_debugBodyCanStatusTxBusyCount := 0,
       g_debugBodyCanEventTxCallCount := 0, g_debugBodyCanEventTxOkCount := 0,
       g_debugBodyCanEventTxBusyCount := 0, g_debugBodyCanEventPending := 0,
       g_debugBodyCanLastCollisionTimeMs := 0, g_debugBodyCanUdsRxCount := 0,
       g_debugBodyCanUdsTxCount := 0, g_debugBodyCanUdsTxBusyCount := 0,
       g_debugBodyCanUdsSession := BODY_UDS_SESSION_DEFAULT, g_debugBodyCanUdsLastSid := 0,
       g_debugBodyCanUdsLastNrc := 0, g_debugBodyCanRxAliveCounter := 0,
       g_debugBodyCanTxAliveCounter := 0, g_debugBodyCanLastRxCrc := 0,
       g_debugBodyCanLastTxCrc := 0, g_debugBodyCanLastTxStatus := None\<rparr>"

text \<open>\<open>BodyCan_Init\<close>, less the configuration of the CAN node, which \<open>Can_Setup\<close> models.\<close>

definition BodyCan_Init :: "hw \<Rightarrow> 'a body_ecu_scheme \<Rightarrow> 'a body_ecu_scheme" where
  "BodyCan_Init h s =
     BodyCan_EnterSafeState h (body_can_debug (body_can_vars (BodyCan_EnableTransceiver s)))"

text \<open>The first part of \<open>BodyCan_Update1ms\<close>: time, age of the last command, safe state.\<close>

definition can_timeout_1ms :: "hw \<Rightarrow> 'a body_ecu_scheme \<Rightarrow> 'a body_ecu_scheme" where
  "can_timeout_1ms h s =
     (let s = s\<lparr>g_bodyCanTimeMs := g_bodyCanTimeMs s + 1\<rparr>;
          s = (if g_cmdTimeoutMs s < BODY_CAN_CMD_TIMEOUT_MS
               then s\<lparr>g_cmdTimeoutMs := g_cmdTimeoutMs s + 1\<rparr> else s)
      in if g_cmdTimeoutMs s \<ge> BODY_CAN_CMD_TIMEOUT_MS then BodyCan_EnterSafeState h s else s)"

text \<open>The received command as the loop copies it, and its application.\<close>

record body_command =
  bc_headlamp :: u8
  bc_turn :: u8
  bc_brake :: u8
  bc_horn :: u8
  bc_warning :: u8
  bc_mode :: u8

definition can_copy_command :: "'a body_ecu_scheme \<Rightarrow> body_command" where
  "can_copy_command s =
     \<lparr>bc_headlamp = g_rxHeadlampRaw s, bc_turn = g_rxTurnSignalRaw s, bc_brake = g_rxBrakeLampRaw s,
      bc_horn = g_rxHornRaw s, bc_warning = g_rxCollisionWarningRaw s,
      bc_mode = g_rxControlModeRaw s\<rparr>"

definition can_clear_flag :: "'a body_ecu_scheme \<Rightarrow> 'a body_ecu_scheme" where
  "can_clear_flag s = s\<lparr>g_rxUpdated := False, g_currentRxAliveCounter := 0\<rparr>"

definition can_apply :: "hw \<Rightarrow> body_command \<Rightarrow> 'a body_ecu_scheme \<Rightarrow> 'a body_ecu_scheme" where
  "can_apply h c s =
     BodyCan_ApplyBodyCommand h (bc_headlamp c) (bc_turn c) (bc_brake c) (bc_horn c) (bc_warning c)
       (bc_mode c) s"

definition can_mirror :: "'a body_ecu_scheme \<Rightarrow> 'a body_ecu_scheme" where
  "can_mirror s =
     s\<lparr>g_debugBodyCanRxCount := g_rxCount s, g_debugBodyCanInvalidCount := g_invalidCount s,
       g_debugBodyCanCrcErrorCount := g_crcErrorCount s,
       g_debugBodyCanAliveErrorCount := g_aliveErrorCount s,
       g_debugBodyCanUdsRxCount := g_udsRxCount s, g_debugBodyCanUdsTxCount := g_udsTxCount s,
       g_debugBodyCanUdsTxBusyCount := g_udsTxBusyCount s, g_debugBodyCanUdsSession := g_udsSession s,
       g_debugBodyCanUdsLastSid := g_udsLastSid s, g_debugBodyCanUdsLastNrc := g_udsLastNrc s\<rparr>"

definition BodyCan_Update1ms :: "hw \<Rightarrow> 'a body_ecu_scheme \<Rightarrow> 'a body_ecu_scheme option" where
  "BodyCan_Update1ms h s = do {
     let s = can_timeout_1ms h s;
     let s = (if g_rxUpdated s
              then let c = can_copy_command s in can_apply h c (can_clear_flag s)
              else s);
     s \<leftarrow> BodyCan_ProcessUdsRequestIfNeeded h s;
     let s = BodyCan_SendPendingCollisionEventIfNeeded h s;
     let s = BodyCan_SendHeartbeatIfNeeded h s;
     Some (can_mirror s)
   }"

definition main_collision_button :: "'a body_ecu_scheme \<Rightarrow> 'a body_ecu_scheme" where
  "main_collision_button s =
     (let (pressed, s) = BodyControl_ConsumeCollisionButtonPressedEvent s
      in if pressed
         then
           let s = BodyCan_ReportCollisionOccurred s
           in s\<lparr>g_debugBodyCollisionEventRequestCount := g_debugBodyCollisionEventRequestCount s + 1\<rparr>
         else s)"

definition main_loop_end :: "'a body_ecu_scheme \<Rightarrow> 'a body_ecu_scheme" where
  "main_loop_end s =
     BodyControl_DelayUs 1000 (s\<lparr>g_debugBodyMainLoopCount := g_debugBodyMainLoopCount s + 1\<rparr>)"

text \<open>One pass of the loop of \<open>core0_main\<close> with no interrupt.\<close>

definition body_main_pass :: "hw \<Rightarrow> 'a body_ecu_scheme \<Rightarrow> 'a body_ecu_scheme option" where
  "body_main_pass h s = do {
     s \<leftarrow> BodyCan_Update1ms h s;
     s \<leftarrow> BodyControl_Update1ms h s;
     Some (main_loop_end (main_collision_button s))
   }"

definition body_main_init :: "hw \<Rightarrow> 'a body_ecu_scheme \<Rightarrow> 'a body_ecu_scheme" where
  "body_main_init h s = BodyCan_Init h (BodyControl_Init h s)"

section \<open>The loop and the interrupt, interleaved\<close>

datatype body_pc =
    PcTick | PcCommand | PcCopied body_command | PcCleared body_command | PcUds | PcEvent
  | PcHeartbeat | PcMirror | PcControl | PcButton | PcEnd

inductive body_step :: "hw \<Rightarrow> body_pc \<times> body_ecu \<Rightarrow> body_pc \<times> body_ecu \<Rightarrow> bool" for h where
  isr: "body_step h (pc, s) (pc, BodyCan_RxIsrHandler f s)"
| tick: "body_step h (PcTick, s) (PcCommand, can_timeout_1ms h s)"
| none: "\<not> g_rxUpdated s \<Longrightarrow> body_step h (PcCommand, s) (PcUds, s)"
| copy: "g_rxUpdated s \<Longrightarrow> body_step h (PcCommand, s) (PcCopied (can_copy_command s), s)"
| clear: "body_step h (PcCopied c, s) (PcCleared c, can_clear_flag s)"
| outputs: "body_step h (PcCleared c, s) (PcUds, can_apply h c s)"
| uds: "BodyCan_ProcessUdsRequestIfNeeded h s = Some t \<Longrightarrow> body_step h (PcUds, s) (PcEvent, t)"
| event: "body_step h (PcEvent, s) (PcHeartbeat, BodyCan_SendPendingCollisionEventIfNeeded h s)"
| beat: "body_step h (PcHeartbeat, s) (PcMirror, BodyCan_SendHeartbeatIfNeeded h s)"
| mirror: "body_step h (PcMirror, s) (PcControl, can_mirror s)"
| control: "BodyControl_Update1ms h s = Some t \<Longrightarrow> body_step h (PcControl, s) (PcButton, t)"
| button: "body_step h (PcButton, s) (PcEnd, main_collision_button s)"
| again: "body_step h (PcEnd, s) (PcTick, main_loop_end s)"

inductive body_reachable :: "hw \<Rightarrow> body_pc \<times> body_ecu \<Rightarrow> bool" for h where
  init: "body_reachable h (PcTick, body_main_init h s)"
| step: "body_reachable h x \<Longrightarrow> body_step h x y \<Longrightarrow> body_reachable h y"

end
