(* ===== verification/Body_Safety.thy ===== *)
theory Body_Safety
  imports Body_Ecu
begin

unbundle bit_operations_syntax

text \<open>
  The invariant of the BODY ECU under every interleaving of its main loop and its receive
  interrupt, the totality of each step of the loop, and the instance of the command time-out.
\<close>

section \<open>Steps that are not commands\<close>

definition can_core :: "'a body_ecu_scheme \<Rightarrow> u32 \<times> bool \<times> body_command \<times> u8" where
  "can_core s = (g_cmdTimeoutMs s, g_rxUpdated s, can_copy_command s, g_currentControlModeRaw s)"

definition can_ok :: "'a body_ecu_scheme \<Rightarrow> bool" where
  "can_ok s \<longleftrightarrow> g_txBufferIndex s < 2 \<and> length (g_udsRequestByte s) = 8 \<and> g_heartbeatTxTimerMs s < 200"

text \<open>A quiet step keeps the commands, the age, the received command and both invariants.\<close>

definition quiet :: "'a body_ecu_scheme \<Rightarrow> 'a body_ecu_scheme \<Rightarrow> bool" where
  "quiet s t \<longleftrightarrow> body_commands t = body_commands s \<and> can_core t = can_core s \<and>
     (body_inv s \<longrightarrow> body_inv t) \<and> (can_ok s \<longrightarrow> can_ok t)"

lemma quiet_refl [simp, intro]: "quiet s s"
  by (simp add: quiet_def)

lemma quiet_trans [trans]: "quiet s t \<Longrightarrow> quiet t u \<Longrightarrow> quiet s u"
  by (auto simp: quiet_def)

text \<open>A step of the driver that touches none of the fields of \<open>BodyControl.c\<close>.\<close>

lemma body_inv_truncate: "body_inv (body.truncate s) = body_inv s"
  by (simp add: body_inv_defs body.truncate_def)

lemma body_commands_truncate: "body_commands (body.truncate s) = body_commands s"
  by (simp add: body_commands_def body.truncate_def)

lemma quiet_can:
  assumes "body.truncate t = body.truncate s" "can_core t = can_core s" "can_ok s \<Longrightarrow> can_ok t"
  shows "quiet s t"
  using assms by (metis body_commands_truncate body_inv_truncate quiet_def)

text \<open>A step of \<open>BodyControl.c\<close>, which touches none of the driver's.\<close>

lemma more_fields:
  assumes "body.more t = body.more s"
  shows "can_core t = can_core s" "can_ok t = can_ok s"
  using assms by (cases s; cases t; simp add: can_core_def can_copy_command_def can_ok_def)+

lemma quiet_body:
  assumes "body_frame s t" "body_inv s \<Longrightarrow> body_inv t"
  shows "quiet s t"
  using assms more_fields [of t s] by (auto simp: quiet_def body_frame_def)

section \<open>Transmission\<close>

lemma SendRawFrame_form:
  "\<exists>n sent i dbg. BodyCan_SendRawFrame h mid dlc bs s =
     (hw_can h (can_calls s), s\<lparr>can_calls := n, g_debugBodyCanLastTxStatus := dbg,
        can_sent := sent, g_txBufferIndex := i\<rparr>) \<and> (g_txBufferIndex s < 2 \<longrightarrow> i < 2)"
proof (cases "hw_can h (can_calls s) = NotSentBusy")
  case True
  then show ?thesis
    by (intro exI [of _ "can_calls s + 1"] exI [of _ "can_sent s"] exI [of _ "g_txBufferIndex s"]
        exI [of _ "Some NotSentBusy"]) (simp add: BodyCan_SendRawFrame_def Let_def)
next
  case False
  let ?i = "if 2 \<le> g_txBufferIndex s + 1 then 0 else g_txBufferIndex s + 1"
  have "?i < 2" by (simp add: not_le)
  with False show ?thesis
    by (intro exI [of _ "can_calls s + 1"]
        exI [of _ "(unat (g_txBufferIndex s),
          \<lparr>cf_id = mid, cf_dlc = dlc, cf_data = BodyCan_PackTxBytes bs\<rparr>) # can_sent s"]
        exI [of _ ?i] exI [of _ "Some (hw_can h (can_calls s))"])
      (simp add: BodyCan_SendRawFrame_def Let_def)
qed

lemma quiet_SendRawFrame: "quiet s (snd (BodyCan_SendRawFrame h mid dlc bs s))"
proof -
  obtain n sent i dbg where "BodyCan_SendRawFrame h mid dlc bs s =
     (hw_can h (can_calls s), s\<lparr>can_calls := n, g_debugBodyCanLastTxStatus := dbg,
        can_sent := sent, g_txBufferIndex := i\<rparr>)" "g_txBufferIndex s < 2 \<longrightarrow> i < 2"
    using SendRawFrame_form by metis
  then show ?thesis
    by (intro quiet_can) (simp_all add: can_core_def can_copy_command_def can_ok_def body.truncate_def)
qed

lemma quiet_debug:
  "quiet s (s\<lparr>g_invalidCount := w\<rparr>)"
  "quiet s (s\<lparr>g_udsTxBusyCount := w, g_debugBodyCanUdsTxBusyCount := w'\<rparr>)"
  "quiet s (s\<lparr>g_udsTxCount := w, g_debugBodyCanUdsTxCount := w'\<rparr>)"
  "quiet s (s\<lparr>g_udsLastNrc := c, g_debugBodyCanUdsLastNrc := c'\<rparr>)"
  "quiet s (s\<lparr>g_udsLastSid := c, g_debugBodyCanUdsLastSid := c'\<rparr>)"
  "quiet s (s\<lparr>g_udsSession := c, g_debugBodyCanUdsSession := c'\<rparr>)"
  "quiet s (s\<lparr>g_udsRequestUpdated := b\<rparr>)"
  "quiet s (s\<lparr>g_debugBodyCanStatusTxBusyCount := w\<rparr>)"
  "quiet s (s\<lparr>g_debugBodyCanStatusTxCallCount := w\<rparr>)"
  "quiet s (s\<lparr>g_debugBodyCanEventTxCallCount := w\<rparr>)"
  "quiet s (s\<lparr>g_debugBodyCanEventTxBusyCount := w\<rparr>)"
  "quiet s (s\<lparr>g_debugBodyCanLastCollisionTimeMs := w, g_debugBodyCanEventTxOkCount := w'\<rparr>)"
  "quiet s (s\<lparr>g_collisionEventPending := b, g_debugBodyCanEventPending := w\<rparr>)"
  "quiet s (s\<lparr>g_pendingCollisionOccurrenceTimeMs := w\<rparr>)"
  "quiet s (s\<lparr>g_debugBodyCanTxAliveCounter := c, g_debugBodyCanLastTxCrc := c',
     g_txHeartbeatAliveCounter := c'', g_debugBodyCanStatusTxOkCount := w\<rparr>)"
  "quiet s (s\<lparr>g_debugBodyCollisionEventRequestCount := w\<rparr>)"
  "quiet s (s\<lparr>g_debugBodyMainLoopCount := w\<rparr>)"
  by (rule quiet_can; simp add: can_core_def can_copy_command_def can_ok_def body.truncate_def)+

lemma quiet_SendUdsPayload: "quiet s (BodyCan_SendUdsPayload h p n s)"
proof (cases "n = 0 \<or> n > 7")
  case True
  then show ?thesis by (auto simp: BodyCan_SendUdsPayload_def quiet_debug)
next
  case False
  obtain st t where st: "BodyCan_SendRawFrame h 0x718 8 (uds_sf_bytes p n) s = (st, t)" by force
  have "quiet s t" using quiet_SendRawFrame [of s h "0x718" 8 "uds_sf_bytes p n"] st by simp
  with False st show ?thesis
    by (auto simp: BodyCan_SendUdsPayload_def Let_def intro: quiet_trans quiet_debug)
qed

lemma quiet_response:
  "quiet s (BodyCan_SendUdsNegativeResponse h sid nrc s)"
  "quiet s (BodyCan_SendUdsPositiveResponse h p n s)"
  unfolding BodyCan_SendUdsNegativeResponse_def BodyCan_SendUdsPositiveResponse_def
  by (rule quiet_trans [OF quiet_debug(4) quiet_SendUdsPayload])+

section \<open>Diagnostic requests\<close>

lemma quiet_routine:
  assumes "hw_ok h" "body_inv s"
  shows "\<exists>b v t. BodyControl_RunUltrasonicDiagnosticRoutine h (Some w) s = Some (b, Some v, t) \<and> quiet s t"
proof -
  obtain b v t where r: "BodyControl_RunUltrasonicDiagnosticRoutine h (Some w) s = Some (b, Some v, t)"
      "body_inv t" using RunUltrasonic_returns [OF assms] by blast
  have "body_frame s t"
    by (rule body_frame_routine [OF r(1)]) (use assms(2) in \<open>simp add: body_inv_def\<close>)
  with r show ?thesis by (blast intro: quiet_body)
qed

lemma quiet_buzzer: "\<exists>t. BodyControl_RunBuzzerDiagnosticRoutine s = Some t \<and> quiet s t"
proof -
  obtain t w where t: "BodyControl_HornForMs 500 s = Some t" "buzzed w s t"
    using HornForMs_returns [of 500 s] by auto
  from t(2) have "body_frame s t" by (auto simp: buzzed_def body_frame_def body_commands_def)
  then show ?thesis
    using t body_inv_buzzed by (auto simp: BodyControl_RunBuzzerDiagnosticRoutine_def intro: quiet_body)
qed

lemma body_frame_led_routine: "body_frame s (BodyControl_RunLedDiagnosticRoutine s)"
proof -
  have w: "body_frame s (write_all_lamps b s)" for b and s :: "'a body_scheme"
    using write_all_lamps_form [of b s] by (auto simp: body_frame_def body_commands_def)
  have d: "body_frame s (BodyControl_DelayMs n s)" for n and s :: "'a body_scheme"
    by (simp add: DelayMs_log body_frame_def body_commands_def)
  show ?thesis
    unfolding BodyControl_RunLedDiagnosticRoutine_def Let_def
    by (rule body_frame_trans [OF body_frame_trans [OF body_frame_trans [OF w d] w] body_frame_apply])
qed

lemma quiet_led_routine: "quiet s (BodyControl_RunLedDiagnosticRoutine s)"
  by (rule quiet_body [OF body_frame_led_routine body_inv_led_routine])

lemma quiet_clear_dtc: "quiet s (BodyControl_ClearDtcHistory s)"
proof (rule quiet_body [OF _ body_inv_clear_dtc])
  show "body_frame s (BodyControl_ClearDtcHistory s)"
    unfolding BodyControl_ClearDtcHistory_def Let_def body_frame_absorb [OF body_frame_sync]
    by (simp add: body_frame_def body_commands_def BodyControl_UpdateUltrasonicDtcDebug_def)
qed

lemma quiet_session: "quiet s (BodyCan_HandleUdsSessionControl h p n s)"
  by (simp add: BodyCan_HandleUdsSessionControl_def Let_def quiet_response
      quiet_trans [OF quiet_debug(6) quiet_response(2)])

lemma quiet_read_did:
  assumes "hw_ok h" "body_inv s"
  shows "\<exists>t. BodyCan_HandleUdsReadDid h p n s = Some t \<and> quiet s t"
proof -
  obtain b v u where "BodyControl_RunUltrasonicDiagnosticRoutine h (Some 0) s = Some (b, Some v, u)"
      "quiet s u" using quiet_routine [OF assms] by blast
  then show ?thesis
    using quiet_trans [OF _ quiet_response(2), of s u]
    by (simp add: BodyCan_HandleUdsReadDid_def Let_def quiet_response)
qed

lemma quiet_read_dtc: "quiet s (BodyCan_HandleUdsReadDtc h p n s)"
  by (simp add: BodyCan_HandleUdsReadDtc_def Let_def quiet_response)

lemma quiet_clear: "quiet s (BodyCan_HandleUdsClearDtc h p n s)"
  by (simp add: BodyCan_HandleUdsClearDtc_def Let_def quiet_response
      quiet_trans [OF quiet_clear_dtc quiet_response(2)])

lemma quiet_routine_control:
  assumes "hw_ok h" "body_inv s"
  shows "\<exists>t. BodyCan_HandleUdsRoutineControl h p n s = Some t \<and> quiet s t"
proof -
  obtain b v u where "BodyControl_RunUltrasonicDiagnosticRoutine h (Some 0) s = Some (b, Some v, u)"
      "quiet s u" using quiet_routine [OF assms] by blast
  moreover obtain w where "BodyControl_RunBuzzerDiagnosticRoutine s = Some w" "quiet s w"
    using quiet_buzzer by blast
  ultimately show ?thesis
    using quiet_trans [OF _ quiet_response(2), of s u] quiet_trans [OF _ quiet_response(2), of s w]
    by (simp add: BodyCan_HandleUdsRoutineControl_def Let_def quiet_response
        quiet_trans [OF quiet_led_routine quiet_response(2)])
qed

lemma quiet_dispatch:
  assumes "hw_ok h" "body_inv s"
  shows "\<exists>t. uds_dispatch h sid p n s = Some t \<and> quiet s t"
  using quiet_read_did [OF assms, of p n] quiet_routine_control [OF assms, of p n]
  by (simp add: uds_dispatch_def quiet_session quiet_read_dtc quiet_clear quiet_response)

lemma quiet_request:
  assumes "hw_ok h" "body_inv s"
  shows "\<exists>t. BodyCan_HandleUdsRequest h bs s = Some t \<and> quiet s t"
proof (cases "bs ! 0 AND 0xF0 \<noteq> 0 \<or> bs ! 0 AND 0x0F = 0 \<or> bs ! 0 AND 0x0F > 7")
  case True
  then show ?thesis by (auto simp: BodyCan_HandleUdsRequest_def Let_def quiet_debug)
next
  case False
  let ?sid = "take 7 (drop 1 bs) ! 0"
  let ?s = "s\<lparr>g_udsLastSid := ?sid, g_debugBodyCanUdsLastSid := ?sid\<rparr>"
  have q: "quiet s ?s" by (rule quiet_debug)
  with assms(2) have "body_inv ?s" by (simp add: quiet_def)
  from quiet_dispatch [OF assms(1) this] obtain t where
    "uds_dispatch h ?sid (take 7 (drop 1 bs)) (bs ! 0 AND 0x0F) ?s = Some t" "quiet ?s t" by blast
  with False q show ?thesis
    by (auto simp: BodyCan_HandleUdsRequest_def Let_def intro: quiet_trans)
qed

lemma quiet_uds:
  assumes "hw_ok h" "body_inv s"
  shows "\<exists>t. BodyCan_ProcessUdsRequestIfNeeded h s = Some t \<and> quiet s t"
proof (cases "g_udsRequestUpdated s")
  case False
  then show ?thesis by (simp add: BodyCan_ProcessUdsRequestIfNeeded_def)
next
  case True
  let ?s = "s\<lparr>g_udsRequestUpdated := False\<rparr>"
  have q: "quiet s ?s" by (rule quiet_debug)
  with assms(2) have "body_inv ?s" by (simp add: quiet_def)
  from quiet_request [OF assms(1) this] True q show ?thesis
    by (auto simp: BodyCan_ProcessUdsRequestIfNeeded_def Let_def intro: quiet_trans)
qed

section \<open>The other steps of the loop\<close>

lemma quiet_event: "quiet s (BodyCan_SendPendingCollisionEventIfNeeded h s)"
proof -
  have ev: "quiet s (BodyCan_SendCollisionEvent h w s)" for w
  proof -
    let ?s = "s\<lparr>g_debugBodyCanEventTxCallCount := g_debugBodyCanEventTxCallCount s + 1\<rparr>"
    obtain st t where st: "BodyCan_SendRawFrame h 0x210 5 (collision_event_bytes w) ?s = (st, t)" by force
    have "quiet ?s t" using quiet_SendRawFrame [of ?s h "0x210" 5 "collision_event_bytes w"] st by simp
    then have "quiet s t" by (rule quiet_trans [OF quiet_debug(10)])
    with st show ?thesis
      by (auto simp: BodyCan_SendCollisionEvent_def Let_def intro: quiet_trans quiet_debug)
  qed
  then show ?thesis
    by (simp add: BodyCan_SendPendingCollisionEventIfNeeded_def Let_def quiet_trans [OF ev quiet_debug(13)])
qed

lemma quiet_heartbeat: "quiet s (BodyCan_SendHeartbeatIfNeeded h s)"
proof -
  have tm: "quiet s (s\<lparr>g_heartbeatTxTimerMs := w\<rparr>)" if "w < 200" for w
    using that by (intro quiet_can) (simp_all add: can_core_def can_copy_command_def can_ok_def body.truncate_def)
  have beat: "quiet s (BodyCan_SendHeartbeat h s)" for s :: "'a body_ecu_scheme"
  proof -
    let ?s = "s\<lparr>g_debugBodyCanStatusTxCallCount := g_debugBodyCanStatusTxCallCount s + 1\<rparr>"
    let ?b = "[g_txHeartbeatAliveCounter s, 0, 0, 0, 0, 0, 0, 0]"
    obtain st t where st: "BodyCan_SendRawFrame h 0x310 1 ?b ?s = (st, t)" by force
    have "quiet ?s t" using quiet_SendRawFrame [of ?s h "0x310" 1 ?b] st by simp
    then have "quiet s t" by (rule quiet_trans [OF quiet_debug(9)])
    with st show ?thesis
      by (auto simp: BodyCan_SendHeartbeat_def Let_def intro: quiet_trans quiet_debug)
  qed
  show ?thesis
    by (simp add: BodyCan_SendHeartbeatIfNeeded_def Let_def tm quiet_trans [OF tm beat])
qed

lemma quiet_mirror: "quiet s (can_mirror s)"
  by (rule quiet_can)
    (simp_all add: can_mirror_def can_core_def can_copy_command_def can_ok_def body.truncate_def)

lemma quiet_control:
  assumes "hw_ok h" "body_inv s"
  shows "\<exists>t. BodyControl_Update1ms h s = Some t \<and> quiet s t"
proof -
  obtain t where "BodyControl_Update1ms h s = Some t" "body_inv t" using Update1ms_returns [OF assms] by blast
  with body_frame_Update1ms [OF assms this(1)] show ?thesis by (auto intro: quiet_body)
qed

lemma quiet_button: "quiet s (main_collision_button s)"
proof -
  have con: "quiet s (snd (BodyControl_ConsumeCollisionButtonPressedEvent s))"
    by (rule quiet_body) (auto simp: BodyControl_ConsumeCollisionButtonPressedEvent_def body_frame_def
        body_commands_def body_inv_defs)
  have rep: "quiet s (BodyCan_ReportCollisionOccurred s)" for s :: "'a body_ecu_scheme"
    by (auto simp: BodyCan_ReportCollisionOccurred_def Let_def intro: quiet_trans quiet_debug)
  show ?thesis
    using con
    by (auto simp: main_collision_button_def Let_def split: prod.splits
        intro: quiet_trans quiet_trans [OF rep quiet_debug(16)])
qed

lemma quiet_end: "quiet s (main_loop_end s)"
proof -
  have d: "quiet s (BodyControl_DelayUs 1000 s)" for s :: "'a body_ecu_scheme"
    by (rule quiet_body [OF _ body_inv_delay])
      (simp add: BodyControl_DelayUs_def wait_us_def body_frame_def body_commands_def)
  show ?thesis unfolding main_loop_end_def by (rule quiet_trans [OF quiet_debug(17) d])
qed

end
