(* ===== verification/Body_Watchdog.thy ===== *)
theory Body_Watchdog
  imports Body_Safety
begin

unbundle bit_operations_syntax

text \<open>
  Commands and their time-out on the BODY ECU: what an accepted command does to the outputs, the
  invariant \<open>ecu_inv\<close> of the interleaved main loop, and the instance of the contract of theory
  \<open>Command_Watchdog\<close>, with a tick of the loop as its tick.
\<close>

section \<open>Applying a command\<close>

lemma more_setters [simp]:
  "body.more (BodyControl_SetHeadlamp b s) = body.more s"
  "body.more (BodyControl_SetBrakeLamp b s) = body.more s"
  "body.more (BodyControl_SetTurnSignal m s) = body.more s"
  "body.more (BodyControl_SetHorn b s) = body.more s"
  "body.more (BodyControl_SetCollisionWarningLamp b s) = body.more s"
  by (simp_all add: BodyControl_SetHeadlamp_def BodyControl_SetBrakeLamp_def BodyControl_SetHorn_def
      BodyControl_SetTurnSignal_def BodyControl_SetBlinkRequest_def ApplyOutputs_explicit Let_def
      BodyControl_SetCollisionWarningLamp_def ultrasonic_reset_def write_pin_eq set_pin_def
      BodyControl_ResetCollisionWarningSound_def split: prod.split)

lemma commands_setters:
  "body_commands (BodyControl_SetHeadlamp b s) =
     (b, g_brakeLampOn s, g_leftTurnEnabled s, g_rightTurnEnabled s, g_collisionWarningLampOn s, g_hornEnabled s)"
  "body_commands (BodyControl_SetBrakeLamp b s) =
     (g_headlampOn s, b, g_leftTurnEnabled s, g_rightTurnEnabled s, g_collisionWarningLampOn s, g_hornEnabled s)"
  "body_commands (BodyControl_SetTurnSignal m s) =
     (g_headlampOn s, g_brakeLampOn s, m = 1 \<or> m = 3, m = 2 \<or> m = 3, g_collisionWarningLampOn s, g_hornEnabled s)"
  "body_commands (BodyControl_SetHorn b s) =
     (g_headlampOn s, g_brakeLampOn s, g_leftTurnEnabled s, g_rightTurnEnabled s,
      g_collisionWarningLampOn s, b)"
  "body_commands (BodyControl_SetCollisionWarningLamp b s) =
     (g_headlampOn s, g_brakeLampOn s, g_leftTurnEnabled s, g_rightTurnEnabled s, b, g_hornEnabled s)"
proof -
  show "body_commands (BodyControl_SetHeadlamp b s) =
     (b, g_brakeLampOn s, g_leftTurnEnabled s, g_rightTurnEnabled s, g_collisionWarningLampOn s, g_hornEnabled s)"
    "body_commands (BodyControl_SetBrakeLamp b s) =
     (g_headlampOn s, b, g_leftTurnEnabled s, g_rightTurnEnabled s, g_collisionWarningLampOn s, g_hornEnabled s)"
    "body_commands (BodyControl_SetHorn b s) =
     (g_headlampOn s, g_brakeLampOn s, g_leftTurnEnabled s, g_rightTurnEnabled s,
      g_collisionWarningLampOn s, b)"
    "body_commands (BodyControl_SetCollisionWarningLamp b s) =
     (g_headlampOn s, g_brakeLampOn s, g_leftTurnEnabled s, g_rightTurnEnabled s, b, g_hornEnabled s)"
    by (simp_all add: body_commands_def BodyControl_SetHeadlamp_def BodyControl_SetBrakeLamp_def
        BodyControl_SetHorn_def BodyControl_SetCollisionWarningLamp_def ultrasonic_reset_def Let_def
        write_pin_eq set_pin_def BodyControl_ResetCollisionWarningSound_def)
  show "body_commands (BodyControl_SetTurnSignal m s) =
     (g_headlampOn s, g_brakeLampOn s, m = 1 \<or> m = 3, m = 2 \<or> m = 3, g_collisionWarningLampOn s, g_hornEnabled s)"
    by (auto simp: body_commands_def BodyControl_SetTurnSignal_def BodyControl_SetBlinkRequest_def Let_def
        split: prod.splits if_splits)
qed

lemma body_commands_fields:
  "body_commands s = (a, b, c, d, e, f) \<longleftrightarrow> g_headlampOn s = a \<and> g_brakeLampOn s = b \<and>
     g_leftTurnEnabled s = c \<and> g_rightTurnEnabled s = d \<and> g_collisionWarningLampOn s = e \<and>
     g_hornEnabled s = f"
  by (simp add: body_commands_def)

lemmas setter_fields = commands_setters [unfolded body_commands_fields]

abbreviation commands_off :: "bool \<times> bool \<times> bool \<times> bool \<times> bool \<times> bool" where
  "commands_off \<equiv> (False, False, False, False, False, False)"

lemma AllOff_frame:
  "body_commands (BodyControl_AllOff h s) = commands_off" "body.more (BodyControl_AllOff h s) = body.more s"
  by (simp_all add: BodyControl_AllOff_def ReadMask_eq Let_def ApplyOutputs_explicit write_pin_eq
      set_pin_def BodyControl_UpdateCollisionWarningDebug_def UpdateDiagDangerLed_form body_commands_def
      BodyControl_ResetCollisionWarningSound_def)

lemma body_inv_can_fields:
  "body.truncate t = body.truncate s \<Longrightarrow> body_inv t = body_inv s"
  by (metis body_inv_truncate)

lemma safe_state:
  "body_commands (BodyCan_EnterSafeState h s) = commands_off"
  "can_core (BodyCan_EnterSafeState h s) =
     (g_cmdTimeoutMs s, g_rxUpdated s, can_copy_command s, 0)"
  "can_ok (BodyCan_EnterSafeState h s) = can_ok s"
  "body_inv s \<Longrightarrow> body_inv (BodyCan_EnterSafeState h s)"
proof -
  let ?s = "s\<lparr>g_currentHeadlampRaw := 0, g_currentTurnSignalRaw := 0, g_currentBrakeLampRaw := 0,
    g_currentHornRaw := 0, g_currentCollisionWarningRaw := 0, g_currentControlModeRaw := 0\<rparr>"
  have inv: "body_inv ?s = body_inv s" by (rule body_inv_can_fields) (simp add: body.truncate_def)
  show "body_commands (BodyCan_EnterSafeState h s) = commands_off"
    by (simp add: BodyCan_EnterSafeState_def AllOff_frame)
  note more = more_fields [OF AllOff_frame(2), of h ?s]
  show "can_core (BodyCan_EnterSafeState h s) = (g_cmdTimeoutMs s, g_rxUpdated s, can_copy_command s, 0)"
    "can_ok (BodyCan_EnterSafeState h s) = can_ok s"
    using more by (simp_all add: BodyCan_EnterSafeState_def can_core_def can_copy_command_def can_ok_def)
  show "body_inv s \<Longrightarrow> body_inv (BodyCan_EnterSafeState h s)"
    using inv by (simp add: BodyCan_EnterSafeState_def body_inv_AllOff)
qed

text \<open>What the six bytes of an accepted command ask of the outputs.\<close>

definition commanded :: "body_command \<Rightarrow> bool \<times> bool \<times> bool \<times> bool \<times> bool \<times> bool" where
  "commanded c =
     (if bc_mode c = BODY_CAN_CONTROL_REMOTE_DRIVE
      then (bc_headlamp c = 1, bc_brake c = 1, bc_turn c = 1 \<or> bc_turn c = 3,
            bc_turn c = 2 \<or> bc_turn c = 3, bc_warning c = 1, bc_horn c = 1)
      else commands_off)"

lemma can_apply_effect:
  "body_commands (can_apply h c s) = commanded c"
  "can_core (can_apply h c s) = (g_cmdTimeoutMs s, g_rxUpdated s, can_copy_command s, bc_mode c)"
  "can_ok (can_apply h c s) = can_ok s"
  "body_inv s \<Longrightarrow> body_inv (can_apply h c s)"
proof -
  let ?m = "s\<lparr>g_currentControlModeRaw := bc_mode c\<rparr>"
  have im: "body_inv ?m = body_inv s" by (rule body_inv_can_fields) (simp add: body.truncate_def)
  have "body_commands (can_apply h c s) = commanded c \<and>
    can_core (can_apply h c s) = (g_cmdTimeoutMs s, g_rxUpdated s, can_copy_command s, bc_mode c) \<and>
    can_ok (can_apply h c s) = can_ok s \<and> (body_inv s \<longrightarrow> body_inv (can_apply h c s))"
  proof (cases "bc_mode c = 1")
    case False
    let ?t = "BodyCan_EnterSafeState h ?m"
    have run: "can_apply h c s = ?t\<lparr>g_currentControlModeRaw := bc_mode c\<rparr>"
      using False by (simp add: can_apply_def BodyCan_ApplyBodyCommand_def Let_def)
    have "body_inv (?t\<lparr>g_currentControlModeRaw := bc_mode c\<rparr>) = body_inv ?t"
      by (rule body_inv_can_fields) (simp add: body.truncate_def)
    with False im safe_state [where h = h and s = ?m] show ?thesis
      unfolding run
      by (simp add: commanded_def body_commands_def can_core_def can_copy_command_def can_ok_def)
  next
    case True
    let ?u = "?m\<lparr>g_currentHeadlampRaw := bc_headlamp c, g_currentTurnSignalRaw := bc_turn c,
      g_currentBrakeLampRaw := bc_brake c, g_currentHornRaw := bc_horn c,
      g_currentCollisionWarningRaw := bc_warning c\<rparr>"
    let ?t = "BodyControl_SetCollisionWarningLamp (bc_warning c = 1)
      (BodyControl_SetHorn (bc_horn c = 1) (BodyControl_SetBrakeLamp (bc_brake c = 1)
        (BodyControl_SetTurnSignal (bc_turn c) (BodyControl_SetHeadlamp (bc_headlamp c = 1) ?u))))"
    have run: "can_apply h c s = ?t"
      using True by (simp add: can_apply_def BodyCan_ApplyBodyCommand_def Let_def)
    have iu: "body_inv ?u = body_inv s" by (rule body_inv_can_fields) (simp add: body.truncate_def)
    have "body_inv s \<Longrightarrow> body_inv ?t"
      by (intro body_inv_warning_lamp body_inv_setters body_inv_turn) (simp add: iu)
    moreover have "can_core ?t = can_core ?u" "can_ok ?t = can_ok ?u"
      by (rule more_fields; simp)+
    moreover have "body_commands ?t = commanded c"
      using True by (simp add: body_commands_def setter_fields commanded_def)
    ultimately show ?thesis
      unfolding run using True by (simp add: can_core_def can_copy_command_def can_ok_def)
  qed
  then show "body_commands (can_apply h c s) = commanded c"
    "can_core (can_apply h c s) = (g_cmdTimeoutMs s, g_rxUpdated s, can_copy_command s, bc_mode c)"
    "can_ok (can_apply h c s) = can_ok s"
    "body_inv s \<Longrightarrow> body_inv (can_apply h c s)" by blast+
qed

section \<open>The receive interrupt\<close>

definition accepts_command :: "can_frame \<Rightarrow> bool" where
  "accepts_command f \<longleftrightarrow> cf_id f = BODY_CAN_CMD_ID \<and> cf_dlc f = 6 \<and>
     body_command_valid (BodyCan_UnpackRxBytes (cf_data f))"

definition frame_command :: "can_frame \<Rightarrow> body_command" where
  "frame_command f =
     (let b = BodyCan_UnpackRxBytes (cf_data f)
      in \<lparr>bc_headlamp = b ! 0, bc_turn = b ! 1, bc_brake = b ! 2, bc_horn = b ! 3,
          bc_warning = b ! 4, bc_mode = b ! 5\<rparr>)"

lemma isr_truncate: "body.truncate (BodyCan_RxIsrHandler f s) = body.truncate s"
  by (simp add: BodyCan_RxIsrHandler_def Let_def body.truncate_def)

lemma isr_accepted:
  "accepts_command f \<Longrightarrow> can_core (BodyCan_RxIsrHandler f s) =
     (0, True, frame_command f, g_currentControlModeRaw s)"
  by (simp add: accepts_command_def BodyCan_RxIsrHandler_def Let_def can_core_def can_copy_command_def
      frame_command_def BodyCan_IsCommandDlc_def)

lemma isr_ok: "can_ok s \<Longrightarrow> can_ok (BodyCan_RxIsrHandler f s)"
  by (simp add: BodyCan_RxIsrHandler_def Let_def can_ok_def BodyCan_UnpackRxBytes_def)

lemma isr_rejected: "\<not> accepts_command f \<Longrightarrow> quiet s (BodyCan_RxIsrHandler f s)"
proof (rule quiet_can [OF isr_truncate])
  show "can_core (BodyCan_RxIsrHandler f s) = can_core s" if "\<not> accepts_command f"
    using that by (auto simp: accepts_command_def BodyCan_RxIsrHandler_def Let_def can_core_def
        can_copy_command_def BodyCan_IsCommandDlc_def)
qed (rule isr_ok)

section \<open>The invariant of the interleaved loop\<close>

definition command_valid :: "body_command \<Rightarrow> bool" where
  "command_valid c \<longleftrightarrow> BodyCan_IsValidBool (bc_headlamp c) \<and> BodyCan_IsValidTurnSignal (bc_turn c) \<and>
     BodyCan_IsValidBool (bc_brake c) \<and> BodyCan_IsValidBool (bc_horn c) \<and>
     BodyCan_IsValidBool (bc_warning c) \<and> BodyCan_IsValidControlMode (bc_mode c)"

fun pc_command :: "body_pc \<Rightarrow> body_command option" where
  "pc_command (PcCopied c) = Some c"
| "pc_command (PcCleared c) = Some c"
| "pc_command _ = None"

fun flag_age :: "body_pc \<Rightarrow> nat" where
  "flag_age PcCommand = 1"
| "flag_age (PcCopied c) = 1"
| "flag_age _ = 0"

text \<open>
  A received command waits at most until the next look at it, so it is never older than one
  tick when it is applied; an expired command means that every output is off.
\<close>

definition ecu_inv :: "body_pc \<times> body_ecu \<Rightarrow> bool" where
  "ecu_inv x \<longleftrightarrow> (case x of (pc, s) \<Rightarrow>
     body_inv s \<and> can_ok s \<and> g_cmdTimeoutMs s \<le> 200 \<and>
     (g_rxUpdated s \<longrightarrow> unat (g_cmdTimeoutMs s) \<le> flag_age pc \<and> command_valid (can_copy_command s)) \<and>
     (\<forall>c. pc_command pc = Some c \<longrightarrow> g_cmdTimeoutMs s \<le> 1 \<and> command_valid c) \<and>
     (g_cmdTimeoutMs s = 200 \<longrightarrow> body_commands s = commands_off \<and> g_currentControlModeRaw s = 0))"

lemma ecu_inv_core:
  assumes "ecu_inv (pc, s)" "quiet s t" "pc_command pc' = None" "flag_age pc \<le> flag_age pc'"
  shows "ecu_inv (pc', t)"
  using assms by (auto simp: ecu_inv_def quiet_def can_core_def)

lemma ecu_inv_tick:
  assumes "ecu_inv (PcTick, s)"
  shows "ecu_inv (PcCommand, can_timeout_1ms h s)"
proof -
  let ?a = "if g_cmdTimeoutMs s < 200 then g_cmdTimeoutMs s + 1 else g_cmdTimeoutMs s"
  let ?s = "s\<lparr>g_bodyCanTimeMs := g_bodyCanTimeMs s + 1, g_cmdTimeoutMs := ?a\<rparr>"
  have run: "can_timeout_1ms h s = (if 200 \<le> ?a then BodyCan_EnterSafeState h ?s else ?s)"
    by (simp add: can_timeout_1ms_def Let_def)
  have inv: "body_inv ?s" "can_ok ?s" "body_commands ?s = body_commands s"
    using assms body_inv_can_fields [of ?s s]
    by (simp_all add: ecu_inv_def body.truncate_def can_ok_def body_commands_def)
  have inc: "g_cmdTimeoutMs s < 200 \<Longrightarrow> unat (g_cmdTimeoutMs s + 1) = Suc (unat (g_cmdTimeoutMs s))"
    by (rule unat_inc_below)
  have a: "?a \<le> 200" using assms by (auto simp: ecu_inv_def intro: inc_le_bound)
  show ?thesis
  proof (cases "200 \<le> ?a")
    case True
    have "\<not> g_rxUpdated s"
      using assms True inc by (auto simp: ecu_inv_def word_le_nat_alt word_less_nat_alt split: if_splits)
    with True a inv safe_state [where h = h and s = ?s] show ?thesis
      unfolding run by (simp add: ecu_inv_def can_core_def)
  next
    case False
    with a inv inc assms show ?thesis
      unfolding run
      by (auto simp: ecu_inv_def can_copy_command_def word_le_nat_alt word_less_nat_alt split: if_splits)
  qed
qed

lemma isr_inv:
  assumes "ecu_inv (pc, s)"
  shows "ecu_inv (pc, BodyCan_RxIsrHandler f s)"
proof (cases "accepts_command f")
  case False
  from isr_rejected [OF this, of s] assms show ?thesis
    by (auto simp: ecu_inv_def quiet_def can_core_def)
next
  case True
  have "command_valid (frame_command f)"
    using True by (simp add: accepts_command_def body_command_valid_def command_valid_def
        frame_command_def Let_def)
  with isr_accepted [OF True, of s] isr_ok [of s f] isr_truncate [of f s] assms
    body_inv_can_fields [of "BodyCan_RxIsrHandler f s" s]
  show ?thesis by (auto simp: ecu_inv_def can_core_def)
qed

lemma ecu_inv_step:
  assumes "body_step h x y" "hw_ok h" "ecu_inv x"
  shows "ecu_inv y"
  using assms
proof (induction rule: body_step.induct)
  case (isr pc s f)
  then show ?case by (simp add: isr_inv)
next
  case (tick s)
  then show ?case by (simp add: ecu_inv_tick)
next
  case (none s)
  then show ?case by (auto simp: ecu_inv_def)
next
  case (copy s)
  then show ?case by (auto simp: ecu_inv_def word_le_nat_alt)
next
  case (clear c s)
  have "body_inv (can_clear_flag s) = body_inv s"
    by (rule body_inv_can_fields) (simp add: can_clear_flag_def body.truncate_def)
  with clear show ?case
    by (auto simp: ecu_inv_def can_clear_flag_def can_ok_def body_commands_def)
next
  case (outputs c s)
  have "unat (g_cmdTimeoutMs s) \<noteq> 200" using outputs by (auto simp: ecu_inv_def word_le_nat_alt)
  then have "g_cmdTimeoutMs s \<noteq> 200" by auto
  with outputs can_apply_effect [where h = h and c = c and s = s] show ?case by (auto simp: ecu_inv_def can_core_def)
next
  case (uds s t)
  from uds.prems obtain u where "BodyCan_ProcessUdsRequestIfNeeded h s = Some u" "quiet s u"
    using quiet_uds [of h s] by (auto simp: ecu_inv_def)
  with uds show ?case by (auto intro: ecu_inv_core)
next
  case (control s t)
  from control.prems obtain u where "BodyControl_Update1ms h s = Some u" "quiet s u"
    using quiet_control [of h s] by (auto simp: ecu_inv_def)
  with control show ?case by (auto intro: ecu_inv_core)
qed (auto intro: ecu_inv_core quiet_event quiet_heartbeat quiet_mirror quiet_button quiet_end)

lemma ecu_inv_init: "ecu_inv (PcTick, body_main_init h s)"
proof -
  let ?b = "BodyControl_Init h s"
  let ?s = "body_can_debug (body_can_vars (BodyCan_EnableTransceiver ?b))"
  have "body_inv (BodyCan_EnableTransceiver ?b)"
    using body_inv_Init [of h s]
    by (simp add: BodyCan_EnableTransceiver_def body_inv_defs set_pin_def set_mode_def)
  moreover have "body_inv ?s = body_inv (BodyCan_EnableTransceiver ?b)"
    by (rule body_inv_can_fields) (simp add: body_can_debug_def body_can_vars_def body.truncate_def)
  ultimately have "body_inv ?s" by simp
  with safe_state [where h = h and s = ?s] show ?thesis
    by (simp add: body_main_init_def BodyCan_Init_def ecu_inv_def can_core_def)
      (simp add: body_can_debug_def body_can_vars_def can_ok_def)
qed

lemma ecu_inv_reachable: "body_reachable h x \<Longrightarrow> hw_ok h \<Longrightarrow> ecu_inv x"
  by (induction rule: body_reachable.induct) (auto intro: ecu_inv_init ecu_inv_step)

text \<open>The loop never blocks: at every point but a reception there is a step of the program.\<close>

lemma body_step_enabled:
  assumes "hw_ok h" "ecu_inv (pc, s)"
  shows "\<exists>pc' t. pc' \<noteq> pc \<and> body_step h (pc, s) (pc', t)"
proof (cases pc)
  case PcCommand
  then show ?thesis by (cases "g_rxUpdated s") (blast intro: body_step.none body_step.copy)+
next
  case PcUds
  from assms obtain t where "BodyCan_ProcessUdsRequestIfNeeded h s = Some t"
    using quiet_uds [of h s] by (auto simp: ecu_inv_def)
  with PcUds show ?thesis by (blast intro: body_step.uds)
next
  case PcControl
  from assms obtain t where "BodyControl_Update1ms h s = Some t"
    using quiet_control [of h s] by (auto simp: ecu_inv_def)
  with PcControl show ?thesis by (blast intro: body_step.control)
qed (blast intro: body_step.tick body_step.clear body_step.outputs body_step.event body_step.beat
    body_step.mirror body_step.button body_step.again)+

section \<open>The time-out contract\<close>

definition body_tick :: "hw \<Rightarrow> body_pc \<times> body_ecu \<Rightarrow> body_pc \<times> body_ecu \<Rightarrow> bool" where
  "body_tick h x y \<longleftrightarrow> fst x = PcTick \<and> y = (PcCommand, can_timeout_1ms h (snd x))"

text \<open>Any other step of the program, or the reception of a frame that is not a valid command.\<close>

definition body_idle :: "hw \<Rightarrow> body_pc \<times> body_ecu \<Rightarrow> body_pc \<times> body_ecu \<Rightarrow> bool" where
  "body_idle h x y \<longleftrightarrow>
     (fst x \<noteq> PcTick \<and> fst y \<noteq> fst x \<and> body_step h x y) \<or>
     (\<exists>f. \<not> accepts_command f \<and> y = (fst x, BodyCan_RxIsrHandler f (snd x)))"

definition body_safe :: "body_pc \<times> body_ecu \<Rightarrow> bool" where
  "body_safe x \<longleftrightarrow> body_commands (snd x) = commands_off \<and> g_currentControlModeRaw (snd x) = 0"

definition body_age :: "body_pc \<times> body_ecu \<Rightarrow> nat" where
  "body_age x = unat (g_cmdTimeoutMs (snd x))"

inductive_cases body_uds_case: "body_step h (PcUds, s) (PcEvent, t)"
inductive_cases body_control_case: "body_step h (PcControl, s) (PcButton, t)"
inductive_simps body_copy_simp: "body_step h (PcCommand, s) (PcCopied c, t)"

lemma body_idle_age:
  assumes "hw_ok h" "ecu_inv x" "body_idle h x y"
  shows "ecu_inv y \<and> body_age y = body_age x"
proof (cases x, cases y)
  fix pc s pc' t
  assume xy: "x = (pc, s)" "y = (pc', t)"
  consider (prog) "pc \<noteq> PcTick" "pc' \<noteq> pc" "body_step h (pc, s) (pc', t)"
    | (rx) f where "\<not> accepts_command f" "pc' = pc" "t = BodyCan_RxIsrHandler f s"
    using assms(3) by (auto simp: body_idle_def xy)
  then show ?thesis
  proof cases
    case prog
    have "g_cmdTimeoutMs t = g_cmdTimeoutMs s"
      using prog(3)
    proof (cases rule: body_step.cases)
      case (clear c)
      then show ?thesis by (simp add: can_clear_flag_def)
    next
      case (outputs c)
      then show ?thesis using can_apply_effect(2) [where h = h and c = c and s = s] by (simp add: can_core_def)
    next
      case uds
      moreover obtain u where "BodyCan_ProcessUdsRequestIfNeeded h s = Some u" "quiet s u"
        using quiet_uds [OF assms(1), of s] assms(2) by (auto simp: ecu_inv_def xy)
      ultimately show ?thesis by (simp add: quiet_def can_core_def)
    next
      case control
      moreover obtain u where "BodyControl_Update1ms h s = Some u" "quiet s u"
        using quiet_control [OF assms(1), of s] assms(2) by (auto simp: ecu_inv_def xy)
      ultimately show ?thesis by (simp add: quiet_def can_core_def)
    next
      case event
      then show ?thesis using quiet_event [of s h] by (simp add: quiet_def can_core_def)
    next
      case beat
      then show ?thesis using quiet_heartbeat [of s h] by (simp add: quiet_def can_core_def)
    next
      case mirror
      then show ?thesis using quiet_mirror [of s] by (simp add: quiet_def can_core_def)
    next
      case button
      then show ?thesis using quiet_button [of s] by (simp add: quiet_def can_core_def)
    next
      case again
      then show ?thesis using quiet_end [of s] by (simp add: quiet_def can_core_def)
    qed (use prog(1,2) in simp_all)
    moreover have "ecu_inv y" using ecu_inv_step prog(3) assms(1,2) xy by blast
    ultimately show ?thesis by (simp add: body_age_def xy)
  next
    case rx
    then show ?thesis
      using isr_rejected [OF rx(1), of s] isr_inv [of pc s f] assms(2)
      by (simp add: xy body_age_def quiet_def can_core_def)
  qed
qed

lemma body_tick_age:
  assumes "ecu_inv x" "body_tick h x y"
  shows "ecu_inv y \<and> body_age y = min 200 (Suc (body_age x))"
proof -
  obtain s where xy: "x = (PcTick, s)" "y = (PcCommand, can_timeout_1ms h s)"
    using assms(2) by (cases x) (auto simp: body_tick_def)
  have inc: "g_cmdTimeoutMs s < 200 \<Longrightarrow> unat (g_cmdTimeoutMs s + 1) = Suc (unat (g_cmdTimeoutMs s))"
    by (rule unat_inc_below)
  have le: "unat (g_cmdTimeoutMs s) \<le> 200"
    using assms(1) by (simp add: ecu_inv_def xy word_le_nat_alt)
  have safe_age: "g_cmdTimeoutMs (BodyCan_EnterSafeState h u) = g_cmdTimeoutMs u" for u :: body_ecu
    using safe_state(2) [of h u] by (simp add: can_core_def)
  have "g_cmdTimeoutMs (can_timeout_1ms h s) =
      (if g_cmdTimeoutMs s < 200 then g_cmdTimeoutMs s + 1 else g_cmdTimeoutMs s)"
    by (simp add: can_timeout_1ms_def Let_def safe_age)
  then have "unat (g_cmdTimeoutMs (can_timeout_1ms h s)) = min 200 (Suc (unat (g_cmdTimeoutMs s)))"
    using inc le by (cases "g_cmdTimeoutMs s < 200") (auto simp: word_less_nat_alt)
  then show ?thesis
    using ecu_inv_tick [of s h] assms(1) by (simp add: xy body_age_def)
qed

interpretation body_watchdog: command_watchdog
  "body_tick h" "body_idle h" body_age 200 body_safe "\<lambda>x. hw_ok h \<and> ecu_inv x" for h
proof unfold_locales
  fix s t
  show "hw_ok h \<and> ecu_inv s \<Longrightarrow> body_tick h s t \<Longrightarrow> hw_ok h \<and> ecu_inv t"
    "hw_ok h \<and> ecu_inv s \<Longrightarrow> body_tick h s t \<Longrightarrow> body_age t = min 200 (Suc (body_age s))"
    using body_tick_age by blast+
  show "hw_ok h \<and> ecu_inv s \<Longrightarrow> body_idle h s t \<Longrightarrow> hw_ok h \<and> ecu_inv t"
    "hw_ok h \<and> ecu_inv s \<Longrightarrow> body_idle h s t \<Longrightarrow> body_age t = body_age s"
    using body_idle_age by blast+
  show "hw_ok h \<and> ecu_inv s \<Longrightarrow> body_age s \<le> 200"
    by (auto simp: ecu_inv_def body_age_def word_le_nat_alt)
  show "hw_ok h \<and> ecu_inv s \<Longrightarrow> body_age s = 200 \<Longrightarrow> body_safe s"
    by (auto simp: ecu_inv_def body_age_def body_safe_def word_unat_eq_iff)
qed

text \<open>One pass of the loop without reception is a silence of one tick.\<close>

lemma body_pass_silence:
  assumes "hw_ok h" "ecu_inv (PcTick, s)"
  shows "\<exists>t. silence (body_tick h) (body_idle h) 1 (PcTick, s) (PcTick, t)"
proof -
  let ?sil = "silence (body_tick h) (body_idle h) 1 (PcTick, s)"
  have adv: "?sil (pc', t) \<and> ecu_inv (pc', t)"
    if "?sil (pc, u) \<and> ecu_inv (pc, u)" "body_step h (pc, u) (pc', t)" "pc \<noteq> PcTick" "pc' \<noteq> pc"
    for pc u pc' t
  proof
    have "body_idle h (pc, u) (pc', t)" using that(2-4) by (simp add: body_idle_def)
    with that(1) show "?sil (pc', t)" by (blast intro: silence.idle)
    show "ecu_inv (pc', t)" using ecu_inv_step [OF that(2) assms(1)] that(1) by blast
  qed
  have "?sil (PcCommand, can_timeout_1ms h s) \<and> ecu_inv (PcCommand, can_timeout_1ms h s)"
    using silence.tick [OF silence.start, of "body_tick h" "(PcTick, s)" _ "body_idle h"]
      ecu_inv_tick [OF assms(2)] by (auto simp: body_tick_def)
  then obtain a where "?sil (PcUds, a) \<and> ecu_inv (PcUds, a)"
  proof (cases "g_rxUpdated (can_timeout_1ms h s)")
    case False
    then show thesis using adv [OF _ body_step.none] that
      \<open>?sil (PcCommand, can_timeout_1ms h s) \<and> ecu_inv (PcCommand, can_timeout_1ms h s)\<close> by blast
  next
    case True
    with adv [OF _ body_step.copy] \<open>?sil (PcCommand, can_timeout_1ms h s) \<and> ecu_inv (PcCommand, can_timeout_1ms h s)\<close>
    show thesis using adv [OF _ body_step.clear] adv [OF _ body_step.outputs] that by blast
  qed
  moreover from this obtain b where "BodyCan_ProcessUdsRequestIfNeeded h a = Some b"
    using quiet_uds [OF assms(1), of a] by (auto simp: ecu_inv_def)
  ultimately obtain c where "?sil (PcControl, c) \<and> ecu_inv (PcControl, c)"
    using adv [OF _ body_step.uds] adv [OF _ body_step.event] adv [OF _ body_step.beat]
      adv [OF _ body_step.mirror] by blast
  moreover from this obtain d where "BodyControl_Update1ms h c = Some d"
    using quiet_control [OF assms(1), of c] by (auto simp: ecu_inv_def)
  ultimately show ?thesis
    using adv [OF _ body_step.control] adv [OF _ body_step.button] adv [OF _ body_step.again] by blast
qed

lemma body_silence_exists:
  assumes "hw_ok h" "ecu_inv (PcTick, s)"
  shows "\<exists>t. silence (body_tick h) (body_idle h) n (PcTick, s) (PcTick, t)"
proof (induction n)
  case 0
  then show ?case by (blast intro: silence.start)
next
  case (Suc n)
  then obtain t where t: "silence (body_tick h) (body_idle h) n (PcTick, s) (PcTick, t)" by blast
  then have "ecu_inv (PcTick, t)" using body_watchdog.silence_ok [of h] assms by blast
  from body_pass_silence [OF assms(1) this] obtain u where
    "silence (body_tick h) (body_idle h) 1 (PcTick, t) (PcTick, u)" by blast
  from silence_trans [OF this t] show ?case by auto
qed

end
