(* ===== verification/Body_Answer.thy ===== *)
theory Body_Answer
  imports Body_Watchdog
begin

unbundle bit_operations_syntax

text \<open>
  What the BODY ECU puts on the bus: the answer to a diagnostic request, the collision event and
  the heartbeat. A frame that could be sent is at the head of \<open>can_sent\<close>; the eight bytes handed
  to the driver are those a receiver unpacks.
\<close>

section \<open>Bytes and words of a frame\<close>

lemma Unpack_Pack: "length bs = 8 \<Longrightarrow> BodyCan_UnpackRxBytes (BodyCan_PackTxBytes bs) = bs"
proof -
  assume "length bs = 8"
  then obtain a b c d e f g h where "bs = [a, b, c, d, e, f, g, h]"
    by (auto simp: eval_nat_numeral length_Suc_conv)
  then show ?thesis by (simp add: BodyCan_UnpackRxBytes_def BodyCan_PackTxBytes_def)
qed

text \<open>\<open>transmits h s t mid dlc bs\<close>: between \<open>s\<close> and \<open>t\<close> one frame was handed to the driver.\<close>

definition transmits ::
  "hw \<Rightarrow> 'a body_ecu_scheme \<Rightarrow> 'a body_ecu_scheme \<Rightarrow> u32 \<Rightarrow> nat \<Rightarrow> u8 list \<Rightarrow> bool" where
  "transmits h s t mid dlc bs \<longleftrightarrow> can_calls t = Suc (can_calls s) \<and>
     can_sent t = (if hw_can h (can_calls s) = NotSentBusy then can_sent s
       else (unat (g_txBufferIndex s), \<lparr>cf_id = mid, cf_dlc = dlc, cf_data = BodyCan_PackTxBytes bs\<rparr>)
              # can_sent s)"

lemma SendRawFrame_transmits:
  "transmits h s (snd (BodyCan_SendRawFrame h mid dlc bs s)) mid dlc bs"
  by (simp add: transmits_def BodyCan_SendRawFrame_def Let_def)

lemma SendRawFrame_status: "fst (BodyCan_SendRawFrame h mid dlc bs s) = hw_can h (can_calls s)"
  by (simp add: BodyCan_SendRawFrame_def Let_def)

lemma transmits_cong:
  assumes "can_calls s' = can_calls s" "can_sent s' = can_sent s" "g_txBufferIndex s' = g_txBufferIndex s"
    "can_calls t' = can_calls t" "can_sent t' = can_sent t"
  shows "transmits h s t mid dlc bs = transmits h s' t' mid dlc bs"
  using assms by (simp add: transmits_def)

section \<open>Diagnostic answers\<close>

text \<open>A single frame that answers service \<open>sid\<close>, positively or with one of the four codes.\<close>

definition uds_answer :: "u8 \<Rightarrow> u8 list \<Rightarrow> bool" where
  "uds_answer sid bs \<longleftrightarrow> length bs = 8 \<and> 1 \<le> unat (bs ! 0) \<and> unat (bs ! 0) \<le> 7 \<and>
     (bs ! 1 = sid + 0x40 \<or>
      bs ! 0 = 3 \<and> bs ! 1 = 0x7F \<and> bs ! 2 = sid \<and> bs ! 3 \<in> {0x11, 0x12, 0x13, 0x31})"

definition answered :: "hw \<Rightarrow> u8 \<Rightarrow> 'a body_ecu_scheme \<Rightarrow> 'a body_ecu_scheme \<Rightarrow> bool" where
  "answered h sid s t \<longleftrightarrow> (\<exists>bs. uds_answer sid bs \<and> transmits h s t BODY_CAN_UDS_RESP_ID 8 bs)"

lemma SendUdsPayload_transmits:
  assumes "1 \<le> unat n" "unat n \<le> 7"
  shows "transmits h s (BodyCan_SendUdsPayload h p n s) 0x718 8 (uds_sf_bytes p n)"
proof -
  obtain st t where st: "BodyCan_SendRawFrame h 0x718 8 (uds_sf_bytes p n) s = (st, t)" by force
  have "transmits h s t 0x718 8 (uds_sf_bytes p n)"
    using SendRawFrame_transmits [of h s "0x718" 8 "uds_sf_bytes p n"] st by simp
  moreover have "n \<noteq> 0" "\<not> 7 < n" using assms by (auto simp: word_less_nat_alt)
  ultimately show ?thesis
    using st by (simp add: BodyCan_SendUdsPayload_def Let_def transmits_def)
qed

lemma uds_sf_bytes_answer:
  assumes "length p = 7" "1 \<le> unat n" "unat n \<le> 7"
    and "p ! 0 = sid + 0x40 \<or> n = 3 \<and> p ! 0 = 0x7F \<and> p ! 1 = sid \<and> p ! 2 \<in> {0x11, 0x12, 0x13, 0x31}"
  shows "uds_answer sid (uds_sf_bytes p n)"
proof -
  have "(uds_sf_bytes p n) ! 0 = n" using assms(3) by (simp add: uds_sf_bytes_def low_nibble)
  moreover have "(uds_sf_bytes p n) ! 1 = p ! 0"
    using assms by (simp add: uds_sf_bytes_def nth_append)
  moreover have "(uds_sf_bytes p n) ! 2 = p ! 1" "(uds_sf_bytes p n) ! 3 = p ! 2" if "n = 3"
  proof -
    obtain a b c r where "p = a # b # c # r"
      using assms(1) by (auto simp: eval_nat_numeral length_Suc_conv)
    then show "(uds_sf_bytes p n) ! 2 = p ! 1" "(uds_sf_bytes p n) ! 3 = p ! 2"
      using that by (simp_all add: uds_sf_bytes_def)
  qed
  moreover have "length (uds_sf_bytes p n) = 8" using assms by (simp add: uds_sf_bytes_def)
  ultimately show ?thesis using assms by (auto simp: uds_answer_def)
qed

lemma answered_negative:
  assumes "nrc \<in> {0x11, 0x12, 0x13, 0x31}"
  shows "answered h sid s (BodyCan_SendUdsNegativeResponse h sid nrc s)"
proof -
  let ?s = "s\<lparr>g_udsLastNrc := nrc, g_debugBodyCanUdsLastNrc := nrc\<rparr>"
  have "transmits h ?s (BodyCan_SendUdsPayload h [0x7F, sid, nrc, 0, 0, 0, 0] 3 ?s) 0x718 8
      (uds_sf_bytes [0x7F, sid, nrc, 0, 0, 0, 0] 3)"
    by (rule SendUdsPayload_transmits) simp_all
  then have "transmits h s (BodyCan_SendUdsNegativeResponse h sid nrc s) 0x718 8
      (uds_sf_bytes [0x7F, sid, nrc, 0, 0, 0, 0] 3)"
    by (simp add: BodyCan_SendUdsNegativeResponse_def transmits_def)
  moreover have "uds_answer sid (uds_sf_bytes [0x7F, sid, nrc, 0, 0, 0, 0] 3)"
    using assms by (intro uds_sf_bytes_answer) simp_all
  ultimately show ?thesis unfolding answered_def by blast
qed

lemma answered_positive:
  assumes "length p = 7" "1 \<le> unat n" "unat n \<le> 7" "p ! 0 = sid + 0x40"
  shows "answered h sid s (BodyCan_SendUdsPositiveResponse h p n s)"
proof -
  let ?s = "s\<lparr>g_udsLastNrc := 0, g_debugBodyCanUdsLastNrc := 0\<rparr>"
  have "transmits h ?s (BodyCan_SendUdsPayload h p n ?s) 0x718 8 (uds_sf_bytes p n)"
    using assms by (intro SendUdsPayload_transmits)
  then have "transmits h s (BodyCan_SendUdsPositiveResponse h p n s) 0x718 8 (uds_sf_bytes p n)"
    by (simp add: BodyCan_SendUdsPositiveResponse_def transmits_def)
  moreover have "uds_answer sid (uds_sf_bytes p n)"
    using assms by (intro uds_sf_bytes_answer) simp_all
  ultimately show ?thesis unfolding answered_def by blast
qed

text \<open>Work on the body before the answer does not matter to it.\<close>

lemma more_sent:
  assumes "body.more t = body.more s"
  shows "can_calls t = can_calls s" "can_sent t = can_sent s" "g_txBufferIndex t = g_txBufferIndex s"
  using assms by (cases s; cases t; simp)+

lemma answered_same:
  assumes "can_calls u = can_calls s" "can_sent u = can_sent s" "g_txBufferIndex u = g_txBufferIndex s"
    and "answered h sid u t"
  shows "answered h sid s t"
proof -
  from assms(4) obtain bs where "uds_answer sid bs" "transmits h u t 0x718 8 bs"
    unfolding answered_def by blast
  then show ?thesis unfolding answered_def transmits_def assms(1-3) by blast
qed

lemma answered_after:
  "body.more u = body.more s \<Longrightarrow> answered h sid u t \<Longrightarrow> answered h sid s t"
  by (blast intro: answered_same more_sent)

lemma answered_session: "answered h 0x10 s (BodyCan_HandleUdsSessionControl h p n s)"
proof -
  have "answered h 0x10 s (BodyCan_SendUdsPositiveResponse h [0x50, c, 0x0B, 0xB8, 3, 0xE8, 0] 6
      (s\<lparr>g_udsSession := c, g_debugBodyCanUdsSession := c\<rparr>))" for c
    by (rule answered_same [of "s\<lparr>g_udsSession := c, g_debugBodyCanUdsSession := c\<rparr>"])
      (simp_all add: answered_positive)
  then show ?thesis
    by (simp add: BodyCan_HandleUdsSessionControl_def Let_def answered_negative)
qed

lemma answered_read_did:
  assumes "hw_ok h" "body_inv s"
  shows "\<exists>t. BodyCan_HandleUdsReadDid h p n s = Some t \<and> answered h 0x22 s t"
proof -
  obtain b v u where r: "BodyControl_RunUltrasonicDiagnosticRoutine h (Some 0) s = Some (b, Some v, u)"
    using RunUltrasonic_returns [OF assms] by blast
  have "body_frame s u"
    by (rule body_frame_routine [OF r]) (use assms(2) in \<open>simp add: body_inv_def\<close>)
  then have "body.more u = body.more s" by (simp add: body_frame_def)
  then have "answered h 0x22 s (BodyCan_SendUdsPositiveResponse h
      [0x62, p ! 1, p ! 2, hi8 v, lo8 v, 0, 0] 5 u)"
    by (rule answered_after) (rule answered_positive; simp)
  with r show ?thesis
    by (simp add: BodyCan_HandleUdsReadDid_def Let_def answered_negative answered_positive)
qed

lemma answered_read_dtc: "answered h 0x19 s (BodyCan_HandleUdsReadDtc h p n s)"
  by (simp add: BodyCan_HandleUdsReadDtc_def Let_def answered_negative answered_positive)

lemma answered_clear: "answered h 0x14 s (BodyCan_HandleUdsClearDtc h p n s)"
proof -
  have "body_frame s (BodyControl_ClearDtcHistory s)"
    unfolding BodyControl_ClearDtcHistory_def Let_def body_frame_absorb [OF body_frame_sync]
    by (simp add: body_frame_def body_commands_def BodyControl_UpdateUltrasonicDtcDebug_def)
  then have "body.more (BodyControl_ClearDtcHistory s) = body.more s" by (simp add: body_frame_def)
  then have "answered h 0x14 s (BodyCan_SendUdsPositiveResponse h [0x54, 0, 0, 0, 0, 0, 0] 1
      (BodyControl_ClearDtcHistory s))"
    by (rule answered_after) (rule answered_positive; simp)
  then show ?thesis by (simp add: BodyCan_HandleUdsClearDtc_def Let_def answered_negative)
qed

lemma answered_routine:
  assumes "hw_ok h" "body_inv s"
  shows "\<exists>t. BodyCan_HandleUdsRoutineControl h p n s = Some t \<and> answered h 0x31 s t"
proof -
  obtain b v u where r: "BodyControl_RunUltrasonicDiagnosticRoutine h (Some 0) s = Some (b, Some v, u)"
    using RunUltrasonic_returns [OF assms] by blast
  have "body_frame s u"
    by (rule body_frame_routine [OF r]) (use assms(2) in \<open>simp add: body_inv_def\<close>)
  then have u: "body.more u = body.more s" by (simp add: body_frame_def)
  obtain x where x: "BodyControl_RunBuzzerDiagnosticRoutine s = Some x" "body.more x = body.more s"
    using HornForMs_returns [of 500 s]
    by (auto simp: BodyControl_RunBuzzerDiagnosticRoutine_def buzzed_def)
  have l: "body.more (BodyControl_RunLedDiagnosticRoutine s) = body.more s"
    using body_frame_led_routine [of s] by (simp add: body_frame_def)
  have "answered h 0x31 s (BodyCan_SendUdsPositiveResponse h [0x71, 1, p ! 2, p ! 3, c, 0, 0] 5 y)"
    if "body.more y = body.more s" for c y
    by (rule answered_after [OF that]) (rule answered_positive; simp)
  from this [OF u] this [OF x(2)] this [OF l] r x(1) show ?thesis
    by (simp add: BodyCan_HandleUdsRoutineControl_def Let_def answered_negative)
qed

lemma answered_dispatch:
  assumes "hw_ok h" "body_inv s"
  shows "\<exists>t. uds_dispatch h sid p n s = Some t \<and> answered h sid s t"
  using answered_read_did [OF assms, of p n] answered_routine [OF assms, of p n]
  by (auto simp: uds_dispatch_def answered_session answered_read_dtc answered_clear answered_negative)

section \<open>The request of a frame\<close>

text \<open>A pending request is consumed, and answered when its first byte is the length of a single frame.\<close>

lemma body_request_answered:
  assumes "hw_ok h" and "body_inv s" and "g_udsRequestUpdated s"
  shows "let b0 = g_udsRequestByte s ! 0; sid = drop 1 (g_udsRequestByte s) ! 0 in
    (if b0 AND 0xF0 = 0 \<and> b0 AND 0x0F \<noteq> 0 \<and> b0 AND 0x0F \<le> 7
     then \<exists>t. BodyCan_ProcessUdsRequestIfNeeded h s = Some t \<and> answered h sid s t
     else BodyCan_ProcessUdsRequestIfNeeded h s =
       Some (s\<lparr>g_udsRequestUpdated := False, g_invalidCount := g_invalidCount s + 1\<rparr>))"
proof -
  define b0 where "b0 = g_udsRequestByte s ! 0"
  define sid where "sid = drop 1 (g_udsRequestByte s) ! 0"
  show ?thesis
  proof (cases "b0 AND 0xF0 = 0 \<and> b0 AND 0x0F \<noteq> 0 \<and> b0 AND 0x0F \<le> 7")
    case False
    then show ?thesis
      using assms(3) unfolding Let_def b0_def [symmetric] sid_def [symmetric]
      by (auto simp: BodyCan_ProcessUdsRequestIfNeeded_def BodyCan_HandleUdsRequest_def Let_def
          not_le simp flip: b0_def)
  next
    case True
    define u where "u = s\<lparr>g_udsRequestUpdated := False, g_udsLastSid := sid, g_debugBodyCanUdsLastSid := sid\<rparr>"
    have "body_inv u" using assms(2) body_inv_can_fields [of u s]
      by (simp add: u_def body.truncate_def)
    from answered_dispatch [OF assms(1) this] obtain t where
      t: "uds_dispatch h sid (take 7 (drop 1 (g_udsRequestByte s))) (b0 AND 0x0F) u = Some t"
        "answered h sid u t" by blast
    have "answered h sid s t" by (rule answered_same [OF _ _ _ t(2)]) (simp_all add: u_def)
    moreover have "BodyCan_ProcessUdsRequestIfNeeded h s = Some t"
      using True assms(3) t(1) linorder_not_less [of 7 "b0 AND 15"]
      by (simp add: BodyCan_ProcessUdsRequestIfNeeded_def BodyCan_HandleUdsRequest_def Let_def
          u_def sid_def flip: b0_def)
    ultimately show ?thesis using True by (simp add: Let_def sid_def flip: b0_def)
  qed
qed

section \<open>Collision events\<close>

lemma collision_event_decodes:
  "pack_le (collision_event_bytes w ! 4) (collision_event_bytes w ! 3) (collision_event_bytes w ! 2)
     (collision_event_bytes w ! 1) = w"
  by (simp add: collision_event_bytes_def pack_le_byte_at)

lemma SendCollisionEvent_transmits:
  "transmits h s (BodyCan_SendCollisionEvent h w s) 0x210 5 (collision_event_bytes w)"
proof -
  let ?s = "s\<lparr>g_debugBodyCanEventTxCallCount := g_debugBodyCanEventTxCallCount s + 1\<rparr>"
  obtain st t where st: "BodyCan_SendRawFrame h 0x210 5 (collision_event_bytes w) ?s = (st, t)" by force
  then have "transmits h ?s t 0x210 5 (collision_event_bytes w)"
    using SendRawFrame_transmits [of h ?s "0x210" 5 "collision_event_bytes w"] by simp
  with st show ?thesis by (simp add: BodyCan_SendCollisionEvent_def Let_def transmits_def)
qed

text \<open>The event stays pending exactly as long as the driver is busy.\<close>

lemma SendPending_pending:
  assumes "g_collisionEventPending s"
  shows "g_collisionEventPending (BodyCan_SendPendingCollisionEventIfNeeded h s) \<longleftrightarrow>
      hw_can h (can_calls s) = NotSentBusy"
    and "transmits h s (BodyCan_SendPendingCollisionEventIfNeeded h s) 0x210 5
      (collision_event_bytes (g_pendingCollisionOccurrenceTimeMs s))"
    and "g_pendingCollisionOccurrenceTimeMs (BodyCan_SendPendingCollisionEventIfNeeded h s) =
      g_pendingCollisionOccurrenceTimeMs s"
proof -
  show "g_collisionEventPending (BodyCan_SendPendingCollisionEventIfNeeded h s) \<longleftrightarrow>
      hw_can h (can_calls s) = NotSentBusy"
    "g_pendingCollisionOccurrenceTimeMs (BodyCan_SendPendingCollisionEventIfNeeded h s) =
      g_pendingCollisionOccurrenceTimeMs s"
    using assms by (simp_all add: BodyCan_SendPendingCollisionEventIfNeeded_def Let_def
        BodyCan_SendCollisionEvent_def BodyCan_SendRawFrame_def)
  show "transmits h s (BodyCan_SendPendingCollisionEventIfNeeded h s) 0x210 5
      (collision_event_bytes (g_pendingCollisionOccurrenceTimeMs s))"
    using assms SendCollisionEvent_transmits [of h s "g_pendingCollisionOccurrenceTimeMs s"]
    by (simp add: BodyCan_SendPendingCollisionEventIfNeeded_def Let_def transmits_def)
qed

section \<open>Heartbeat\<close>

lemma SendHeartbeat_effect:
  "transmits h s (BodyCan_SendHeartbeat h s) 0x310 1 [g_txHeartbeatAliveCounter s, 0, 0, 0, 0, 0, 0, 0]"
  "g_txHeartbeatAliveCounter (BodyCan_SendHeartbeat h s) =
     (if hw_can h (can_calls s) = NotSentBusy then g_txHeartbeatAliveCounter s
      else g_txHeartbeatAliveCounter s + 1)"
  by (simp_all add: BodyCan_SendHeartbeat_def BodyCan_SendRawFrame_def Let_def transmits_def)

section \<open>A command received at the loop\<close>

lemma body_command_applied:
  assumes "hw_ok h" and "body_inv s" and "accepts_command f"
  shows "\<exists>t. BodyCan_Update1ms h (BodyCan_RxIsrHandler f s) = Some t \<and>
    body_commands t = commanded (frame_command f) \<and> body_inv t"
proof -
  define r where "r = BodyCan_RxIsrHandler f s"
  define u where "u = can_clear_flag (can_timeout_1ms h r)"
  define v where "v = can_apply h (frame_command f) u"
  have core: "g_cmdTimeoutMs r = 0" "g_rxUpdated r" "can_copy_command r = frame_command f"
    using isr_accepted [OF assms(3), of s] by (simp_all add: can_core_def r_def)
  then have tick: "can_timeout_1ms h r =
      r\<lparr>g_bodyCanTimeMs := g_bodyCanTimeMs r + 1, g_cmdTimeoutMs := 1\<rparr>"
    by (simp add: can_timeout_1ms_def Let_def word_le_nat_alt)
  have copy: "can_copy_command (can_timeout_1ms h r) = frame_command f" "g_rxUpdated (can_timeout_1ms h r)"
    using core by (simp_all add: can_copy_command_def tick)
  have "body.truncate u = body.truncate r" by (simp add: u_def tick can_clear_flag_def body.truncate_def)
  moreover have "body.truncate r = body.truncate s" unfolding r_def by (rule isr_truncate)
  ultimately have "body_inv u = body_inv s" by (intro body_inv_can_fields) simp
  with assms(2) have "body_inv u" by simp
  then have v: "body_inv v" "body_commands v = commanded (frame_command f)"
    by (simp_all add: v_def can_apply_effect)
  obtain w where w: "BodyCan_ProcessUdsRequestIfNeeded h v = Some w" "quiet v w"
    using quiet_uds [OF assms(1) v(1)] by blast
  define t where "t = can_mirror (BodyCan_SendHeartbeatIfNeeded h (BodyCan_SendPendingCollisionEventIfNeeded h w))"
  have "quiet v t" unfolding t_def
    by (rule quiet_trans [OF w(2) quiet_trans [OF quiet_event quiet_trans [OF quiet_heartbeat quiet_mirror]]])
  moreover have "BodyCan_Update1ms h r = Some t"
    by (simp add: BodyCan_Update1ms_def copy Let_def t_def w(1) flip: u_def v_def)
  ultimately show ?thesis using v by (auto simp: r_def quiet_def)
qed

end
