(* ===== verification/Body_Props.thy ===== *)
theory Body_Props
  imports Body_Answer
begin

unbundle bit_operations_syntax

text \<open>
  The properties of the BODY ECU, each with an instance on a concrete environment, \<open>bench_hw\<close>:
  a timer that counts reads, low input pins and a bus that is never busy.
\<close>

definition bench_hw :: hw where
  "bench_hw = \<lparr>hw_pin = (\<lambda>n p. False), hw_stm = of_nat, hw_ticks_us = 100,
     hw_can = (\<lambda>n. SentStatus 0)\<rparr>"

lemma bench_hw_ok: "hw_ok bench_hw"
proof -
  have "\<exists>T :: nat \<Rightarrow> nat. (\<forall>n. hw_stm bench_hw n = of_nat (T n)) \<and>
      (\<forall>n. T n < T (Suc n) \<and> T (Suc n) \<le> T n + 2 ^ 30)"
    by (rule exI [of _ "\<lambda>n. n"]) (simp add: bench_hw_def)
  then show ?thesis by (simp add: hw_ok_def stm_clock_def bench_hw_def)
qed

text \<open>Any start state will do: the initialisation overwrites it.\<close>

definition bench_ecu :: body_ecu where
  "bench_ecu = body_main_init bench_hw undefined"

lemma bench_inv: "ecu_inv (PcTick, bench_ecu)"
  by (simp add: bench_ecu_def ecu_inv_init)

definition bench_frame :: can_frame where
  "bench_frame = \<lparr>cf_id = 0x110, cf_dlc = 6, cf_data = [0x01010301, 0x00000101]\<rparr>"

lemma bench_frame_accepted: "accepts_command bench_frame"
  by (simp add: accepts_command_def bench_frame_def body_command_valid_def BodyCan_UnpackRxBytes_def
      byte_at_def BodyCan_IsValidBool_def BodyCan_IsValidTurnSignal_def BodyCan_IsValidControlMode_def)

lemma rx_count_more: "body.more t = body.more s \<Longrightarrow> g_rxCount t = g_rxCount s"
  by (cases s; cases t; simp)

section \<open>Commands and time-out\<close>



text \<open>
  C10. In every reachable state of the BODY ECU the lamp pins show the commands and the blinker,
  the danger LED shows the latched faults or the blink, the warning level is at most 3 and the
  distance at most 400 cm, the debugger's copy of the fault mask is right, the trigger pin is low,
  and an expired command means that everything is off.
\<close>

theorem body_reachable_invariant:
  assumes "hw_ok h" and "body_reachable h (pc, s)"
  shows "lamps_applied s \<and> danger_led_ok s \<and> g_collisionWarningLevel s \<le> 3 \<and>
    g_ultrasonicDistanceCm s \<le> 400 \<and> g_debugBodyDiagFaultMask s = g_diagFaultMask s \<and>
    \<not> pin_cmd s BODY_ULTRASONIC_TRIG \<and>
    (g_cmdTimeoutMs s < 200 \<or> body_commands s = commands_off)"
  using ecu_inv_reachable [OF assms(2,1)]
  by (auto simp: ecu_inv_def body_inv_def warning_ok_def diag_ok_def)

theorem body_reachable_invariant_witness: "g_collisionWarningLevel bench_ecu \<le> 3"
  using body_reachable_invariant [OF bench_hw_ok, of PcTick bench_ecu] body_reachable.init
  by (simp add: bench_ecu_def)

text \<open>
  C22. The main loop of the BODY ECU never gets stuck: in every reachable state there is a step of
  the program itself, although the loop waits for the ultrasonic echo and sounds the horn.
\<close>

theorem body_loop_progress:
  assumes "hw_ok h" and "body_reachable h (pc, s)"
  shows "\<exists>pc' t. pc' \<noteq> pc \<and> body_step h (pc, s) (pc', t)"
  using body_step_enabled [OF assms(1) ecu_inv_reachable [OF assms(2,1)]] .

theorem body_loop_progress_witness: "\<exists>pc' t. pc' \<noteq> PcTick \<and> body_step bench_hw (PcTick, bench_ecu) (pc', t)"
  using body_loop_progress [OF bench_hw_ok, of PcTick bench_ecu] body_reachable.init
  by (simp add: bench_ecu_def)

text \<open>
  C13. A valid command frame decides the outputs at the next millisecond update: in remote-drive
  mode the six outputs are those its bytes ask for (turn signal 1 left, 2 right, 3 both), in the
  two other modes all are off; and the update returns.
\<close>

theorem body_command_effect:
  assumes "hw_ok h" and "body_inv s" and "accepts_command f"
  shows "\<exists>t. BodyCan_Update1ms h (BodyCan_RxIsrHandler f s) = Some t \<and>
    body_commands t = commanded (frame_command f) \<and> body_inv t"
  by (rule body_command_applied [OF assms])

theorem body_command_effect_witness:
  "\<exists>t. BodyCan_Update1ms bench_hw (BodyCan_RxIsrHandler bench_frame bench_ecu) = Some t \<and>
     body_commands t = (True, True, True, True, True, True)"
proof -
  have "body_inv bench_ecu" using bench_inv by (simp add: ecu_inv_def)
  moreover have "commanded (frame_command bench_frame) = (True, True, True, True, True, True)"
    by (simp add: commanded_def frame_command_def bench_frame_def BodyCan_UnpackRxBytes_def byte_at_def)
  ultimately show ?thesis
    using body_command_effect [OF bench_hw_ok _ bench_frame_accepted, of bench_ecu] by auto
qed

text \<open>
  A frame that is not a valid command (wrong identifier or length, or any byte out of its
  range) changes no pin, no output command, no stored command and not the age of the last one.
\<close>

theorem body_bad_frame_ignored:
  assumes "\<not> accepts_command f"
  shows "body.truncate (BodyCan_RxIsrHandler f s) = body.truncate s \<and>
    can_core (BodyCan_RxIsrHandler f s) = can_core s \<and>
    can_sent (BodyCan_RxIsrHandler f s) = can_sent s"
  using isr_rejected [OF assms, of s] isr_truncate [of f s]
  by (simp add: quiet_def BodyCan_RxIsrHandler_def Let_def)

theorem body_bad_frame_ignored_witness:
  "can_core (BodyCan_RxIsrHandler \<lparr>cf_id = 0x110, cf_dlc = 5, cf_data = [0, 0]\<rparr> bench_ecu) = can_core bench_ecu"
  using body_bad_frame_ignored [of "\<lparr>cf_id = 0x110, cf_dlc = 5, cf_data = [0, 0]\<rparr>" bench_ecu]
  by (simp add: accepts_command_def)

text \<open>
  C32. The flag of a received command is cleared after its bytes are copied: a valid command that
  arrives in between is counted, but lost. Its bytes are never applied: the outputs are those of
  the command copied before, and the flag is down.
\<close>

theorem body_command_lost:
  assumes "accepts_command f" and "command_valid c"
  shows "\<exists>t. (body_step h)\<^sup>*\<^sup>* (PcCopied c, s) (PcUds, t) \<and> g_rxCount t = g_rxCount s + 1 \<and>
    \<not> g_rxUpdated t \<and> body_commands t = commanded c"
proof -
  let ?r = "BodyCan_RxIsrHandler f s" let ?t = "can_apply h c (can_clear_flag ?r)"
  have "(body_step h)\<^sup>*\<^sup>* (PcCopied c, s) (PcUds, ?t)"
    by (meson body_step.isr body_step.clear body_step.outputs rtranclp.rtrancl_into_rtrancl rtranclp.rtrancl_refl)
  moreover have "g_rxCount ?r = g_rxCount s + 1"
    using assms(1) by (simp add: accepts_command_def BodyCan_RxIsrHandler_def Let_def BodyCan_IsCommandDlc_def)
  moreover have "\<not> g_rxUpdated ?t"
    using can_apply_effect(2) [where h = h and c = c and s = "can_clear_flag ?r"]
    by (simp add: can_core_def can_clear_flag_def)
  moreover have "g_rxCount ?t = g_rxCount ?r"
    by (simp add: can_apply_def BodyCan_ApplyBodyCommand_def Let_def can_clear_flag_def BodyCan_EnterSafeState_def
        rx_count_more [OF more_setters(1)] rx_count_more [OF more_setters(2)] rx_count_more [OF more_setters(3)]
        rx_count_more [OF more_setters(4)] rx_count_more [OF more_setters(5)] rx_count_more [OF AllOff_frame(2)])
  ultimately show ?thesis using can_apply_effect(1) by metis
qed

theorem body_command_lost_witness:
  "\<exists>t. (body_step bench_hw)\<^sup>*\<^sup>*
       (PcCopied \<lparr>bc_headlamp = 0, bc_turn = 0, bc_brake = 0, bc_horn = 0, bc_warning = 0, bc_mode = 1\<rparr>, bench_ecu)
       (PcUds, t) \<and> g_rxCount t = g_rxCount bench_ecu + 1 \<and> \<not> g_rxUpdated t \<and> body_commands t = commands_off"
  using body_command_lost [OF bench_frame_accepted, of
      "\<lparr>bc_headlamp = 0, bc_turn = 0, bc_brake = 0, bc_horn = 0, bc_warning = 0, bc_mode = 1\<rparr>" bench_hw bench_ecu]
  by (simp add: command_valid_def body_command_valid_def BodyCan_IsValidBool_def commanded_def
      BodyCan_IsValidTurnSignal_def BodyCan_IsValidControlMode_def)

end
