(* ===== verification/Body_Function.thy ===== *)
theory Body_Function
  imports Body_Props
begin

unbundle bit_operations_syntax

text \<open>
  More properties of the BODY ECU, on what its parts compute over time: the blinker, the collision
  button, the warning level and its sound, the lamp monitors and the trouble code, the waiting
  routines, and the frames it sends.
\<close>

section \<open>Runs of samples\<close>

lemma suffix_replicate_snoc:
  "suffix (replicate (Suc k) v) (xs @ [x]) \<longleftrightarrow> x = v \<and> suffix (replicate k v) xs"
proof -
  have "replicate (Suc k) v = replicate k v @ [v]" by (simp add: replicate_append_same)
  then show ?thesis by (auto simp: suffix_def)
qed

lemma spec_run_suffix:
  assumes "sp_run a = 0" and "1 \<le> k"
  shows "k \<le> sp_run (fold debounce_spec_step xs a) \<and> sp_level (fold debounce_spec_step xs a) = v
    \<longleftrightarrow> suffix (replicate k v) xs"
  using assms(2)
proof (induction xs arbitrary: k rule: rev_induct)
  case Nil
  then show ?case using assms(1) by auto
next
  case (snoc x xs)
  then obtain j where k: "k = Suc j" by (cases k) auto
  show ?case
  proof (cases "j = 0")
    case True
    then show ?thesis unfolding k suffix_replicate_snoc by auto
  next
    case False
    then have "1 \<le> j" by simp
    from snoc.IH [OF this] False show ?thesis unfolding k suffix_replicate_snoc by auto
  qed
qed

lemma dark_reaches_sublist:
  assumes "n < lim"
  shows "dark_reaches lim n xs \<longleftrightarrow>
    sublist (replicate lim True) (replicate n True @ map (\<lambda>(c, f). c \<and> \<not> f) xs)"
  using assms
proof (induction xs arbitrary: n)
  case Nil
  then show ?case by (auto dest: sublist_length_le)
next
  case (Cons x xs)
  obtain c f where x: "x = (c, f)" by (cases x)
  let ?ys = "map (\<lambda>(c, f). c \<and> \<not> f) xs"
  show ?case
  proof (cases "c \<and> \<not> f")
    case True
    have shift: "replicate n True @ True # ?ys = replicate (Suc n) True @ ?ys"
      by (simp add: replicate_app_Cons_same)
    show ?thesis
    proof (cases "lim \<le> Suc n")
      case True
      then have "Suc n = lim" using Cons.prems by simp
      then have "sublist (replicate lim True) (replicate (Suc n) True @ ?ys)" by simp
      with \<open>c \<and> \<not> f\<close> True show ?thesis by (simp add: x shift del: replicate.simps)
    next
      case False
      with \<open>c \<and> \<not> f\<close> Cons.IH [of "Suc n"] show ?thesis by (simp add: x shift del: replicate.simps)
    qed
  next
    case False
    have "\<not> (\<exists>ys zs. replicate lim True = ys @ zs \<and> suffix ys (replicate n True) \<and> prefix zs (False # ?ys))"
    proof
      assume "\<exists>ys zs. replicate lim True = ys @ zs \<and> suffix ys (replicate n True) \<and> prefix zs (False # ?ys)"
      then obtain ys zs where yz: "replicate lim True = ys @ zs" "suffix ys (replicate n True)"
          "prefix zs (False # ?ys)" by blast
      have "set zs \<subseteq> {True}" using arg_cong [where f = set, OF yz(1)] by auto
      then have "zs = []" using yz(3) by (cases zs) auto
      with yz(1) have "length ys = lim" by (metis append_Nil2 length_replicate)
      with suffix_length_le [OF yz(2)] Cons.prems show False by simp
    qed
    moreover have "sublist (replicate lim True) (replicate n True) \<Longrightarrow> False"
      using Cons.prems by (auto dest: sublist_length_le)
    moreover have "sublist (replicate lim True) (False # ?ys) \<longleftrightarrow> sublist (replicate lim True) ?ys"
      using Cons.prems by (cases lim) (auto simp: sublist_Cons_right)
    ultimately show ?thesis
      using False Cons.IH [of 0] Cons.prems by (auto simp: x sublist_append)
  qed
qed

section \<open>Lamps\<close>

text \<open>
  A turn signal requested when none was requested lights its lamps for the first 500 ms, then
  they are dark for 500 ms, and so on for as long as the request stays: after any number \<open>n\<close> of
  milliseconds the pins of the requested sides are high iff \<open>n div 500\<close> is even, and the other
  side's pin is low.
\<close>

theorem body_blinker:
  assumes "\<not> g_leftTurnEnabled s" and "\<not> g_rightTurnEnabled s" and "m = 1 \<or> m = 2 \<or> m = 3"
  shows "let t = (BodyControl_UpdateBlink1ms ^^ n) (BodyControl_SetTurnSignal m s)
    in pin_cmd t BODY_LEFT_TURN = (m \<noteq> 2 \<and> even (n div 500)) \<and>
       pin_cmd t BODY_RIGHT_TURN = (m \<noteq> 1 \<and> even (n div 500))"
proof -
  define u where "u = BodyControl_SetTurnSignal m s"
  define t where "t = (BodyControl_UpdateBlink1ms ^^ n) u"
  have req: "g_leftTurnEnabled u = (m \<noteq> 2)" "g_rightTurnEnabled u = (m \<noteq> 1)"
    using assms(3) by (auto simp: SetTurnSignal_requests u_def)
  have "blink_at 0 u"
    using assms by (auto simp: blink_at_def BodyControl_SetTurnSignal_def BodyControl_SetBlinkRequest_def
        BodyControl_IsBlinkRequested_def Let_def u_def)
  then have run: "blink_at n t" "g_leftTurnEnabled t = (m \<noteq> 2)" "g_rightTurnEnabled t = (m \<noteq> 1)"
    using blink_at_run [of u n] req assms(3) unfolding t_def by auto
  have "lamps_applied t"
    unfolding t_def u_def by (induction n) (simp_all add: lamps_applied_setters lamps_applied_UpdateBlink1ms)
  with run have "pin_cmd t BODY_LEFT_TURN = (m \<noteq> 2 \<and> even (n div 500))"
      "pin_cmd t BODY_RIGHT_TURN = (m \<noteq> 1 \<and> even (n div 500))"
    by (simp_all add: lamps_applied_iff blink_at_def)
  then show ?thesis by (simp add: Let_def t_def u_def)
qed

theorem body_blinker_witness:
  "pin_cmd ((BodyControl_UpdateBlink1ms ^^ 700) (BodyControl_SetTurnSignal 1
     (bench_ecu\<lparr>g_leftTurnEnabled := False, g_rightTurnEnabled := False\<rparr>))) BODY_LEFT_TURN = False"
  using body_blinker [of "bench_ecu\<lparr>g_leftTurnEnabled := False, g_rightTurnEnabled := False\<rparr>" 1 700]
  by (simp add: Let_def)

text \<open>
  A lamp monitor latches its fault bit exactly when the lamp was commanded without feedback for
  the whole confirmation time without a break, and changes no other bit.
\<close>

theorem body_lamp_monitor:
  assumes "0 < lim"
  shows "snd (fold (\<lambda>(c, f). BodyControl_UpdateDiagOneSignal c f lim b) xs (0, m)) =
    (if sublist (replicate (unat lim) True) (map (\<lambda>(c, f). c \<and> \<not> f) xs) then m OR b else m)"
proof -
  have "0 < unat lim" using assms by (simp add: word_less_nat_alt)
  then show ?thesis
    using monitor_run_spec(2) [of 0 lim 0 b xs m] assms dark_reaches_sublist [of 0 "unat lim" xs]
    by (simp add: monitor_run_def)
qed

theorem body_lamp_monitor_witness:
  "snd (fold (\<lambda>(c, f). BodyControl_UpdateDiagOneSignal c f 2 4) [(True, False), (True, False)] (0, 1)) = 5"
proof -
  have "replicate 2 True = [True, True]" by (simp add: numeral_2_eq_2)
  then show ?thesis using body_lamp_monitor [of 2 4 "[(True, False), (True, False)]" 1] by simp
qed

text \<open>
  The self-test at start-up waits one second with all lamps lit, leaves them off, and latches
  exactly the lamps whose feedback pin then reads low; the danger LED is on iff there is one.
\<close>

theorem body_startup_test:
  assumes "g_diagFaultMask s = 0" and "g_ultrasonicDtcStatus s = 0" and "\<not> g_diagDangerBlinkActive s"
  shows "let t = BodyControl_RunStartupSelfDiagnosis h s; n = io_reads s in
    (g_diagFaultMask t AND 1 \<noteq> 0 \<longleftrightarrow> \<not> hw_pin h n BODY_DIAG_BRAKE_FB) \<and>
    (g_diagFaultMask t AND 2 \<noteq> 0 \<longleftrightarrow> \<not> hw_pin h (n + 1) BODY_DIAG_HEAD_FB) \<and>
    (g_diagFaultMask t AND 4 \<noteq> 0 \<longleftrightarrow> \<not> hw_pin h (n + 2) BODY_DIAG_LEFT_FB) \<and>
    (g_diagFaultMask t AND 8 \<noteq> 0 \<longleftrightarrow> \<not> hw_pin h (n + 3) BODY_DIAG_RIGHT_FB) \<and>
    pin_cmd t BODY_DIAG_DANGER_LED = (g_diagFaultMask t AND NOT 16 \<noteq> 0) \<and>
    \<not> pin_cmd t BODY_BRAKE \<and> \<not> pin_cmd t BODY_HEAD_R \<and> \<not> pin_cmd t BODY_LEFT_TURN \<and>
    \<not> pin_cmd t BODY_RIGHT_TURN \<and> waited (take (length (io_log t) - length (io_log s)) (io_log t)) = 1000000"
proof -
  define m where "m = startup_fault_mask (feedback_mask h (io_reads s))"
  have bits: "m AND 1 \<noteq> 0 \<longleftrightarrow> \<not> hw_pin h (io_reads s) BODY_DIAG_BRAKE_FB"
    "m AND 2 \<noteq> 0 \<longleftrightarrow> \<not> hw_pin h (io_reads s + 1) BODY_DIAG_HEAD_FB"
    "m AND 4 \<noteq> 0 \<longleftrightarrow> \<not> hw_pin h (io_reads s + 2) BODY_DIAG_LEFT_FB"
    "m AND 8 \<noteq> 0 \<longleftrightarrow> \<not> hw_pin h (io_reads s + 3) BODY_DIAG_RIGHT_FB"
    using startup_fault_bits [of "feedback_mask h (io_reads s)"] feedback_mask_bits [of h "io_reads s"]
    unfolding m_def by blast+
  obtain l where "BodyControl_RunStartupSelfDiagnosis h s =
     (let fm = feedback_mask h (io_reads s); f = startup_fault_mask fm
      in BodyControl_UpdateDiagDangerLed (s\<lparr>io_reads := io_reads s + 4,
       g_diagFaultMask := g_diagFaultMask s OR f, g_diagFeedbackMask := fm,
       g_debugBodyDiagStartupFaultMask := f, g_debugBodyDiagFaultMask := g_diagFaultMask s OR f,
       g_debugBodyDiagFeedbackMask := fm, pin_cmd := (pin_cmd s)(BODY_HEAD_R := False,
       BODY_HEAD_G := False, BODY_HEAD_B := False, BODY_BRAKE := False, BODY_LEFT_TURN := False,
       BODY_RIGHT_TURN := False), io_log := l @ io_log s\<rparr>)) \<and> waited l = 1000000"
    using StartupDiag_form by blast
  then show ?thesis
    using assms bits
    by (simp add: Let_def UpdateDiagDangerLed_form set_pin_def BodyControl_IsDiagDangerLedSteadyOn_def
        flip: m_def)
qed

theorem body_startup_test_witness:
  "g_diagFaultMask (BodyControl_RunStartupSelfDiagnosis bench_hw
     (bench_ecu\<lparr>g_diagFaultMask := 0, g_ultrasonicDtcStatus := 0, g_diagDangerBlinkActive := False\<rparr>)) AND 1 \<noteq> 0"
  using body_startup_test [of "bench_ecu\<lparr>g_diagFaultMask := 0, g_ultrasonicDtcStatus := 0,
      g_diagDangerBlinkActive := False\<rparr>" bench_hw]
  by (simp add: Let_def bench_hw_def)

section \<open>The collision button\<close>

text \<open>
  From the first sample \<open>b\<close> on: a sample registers a press exactly when the accepted level was
  released and the last 22 samples, it included, read pressed; and the accepted level changes
  exactly when 22 samples in a row disagree with it. Shorter bounces are never seen.
\<close>

theorem body_button_debounce:
  assumes "g_collisionButtonLastRawPressed s = b" and "g_collisionButtonStablePressed s = b"
    and "g_collisionButtonDebounceTimerMs s = 0" and "g_collisionButtonPressedEventCount s = 0"
  shows "let u = fold BodyControl_CollisionButtonSample raws s;
      t = BodyControl_CollisionButtonSample raw u; samples = b # raws @ [raw]
    in (g_collisionButtonPressedEventCount t \<noteq> g_collisionButtonPressedEventCount u \<longleftrightarrow>
          \<not> g_collisionButtonStablePressed u \<and> suffix (replicate 22 True) samples) \<and>
       (g_collisionButtonStablePressed t = g_collisionButtonStablePressed u \<longleftrightarrow>
          \<not> suffix (replicate 22 (\<not> g_collisionButtonStablePressed u)) samples)"
proof -
  define a where "a = \<lparr>sp_level = b, sp_run = 0, sp_stable = b, sp_events = 0\<rparr>"
  define c where "c = fold debounce_spec_step (b # raws) a"
  let ?u = "button_run raws s" let ?t = "BodyControl_CollisionButtonSample raw ?u"
  have "debounce_rel (debounce_spec_step b a) s"
    using assms by (simp add: debounce_rel_def debounce_spec_step_def a_def)
  then have u: "debounce_rel c ?u"
    using debounce_run_simulation [of "debounce_spec_step b a" s raws] by (simp add: c_def)
  then have t: "debounce_rel (debounce_spec_step raw c) ?t" by (rule debounce_simulation)
  have run: "22 \<le> sp_run (debounce_spec_step raw c) \<and> raw = v \<longleftrightarrow>
      suffix (replicate 22 v) (b # raws @ [raw])" for v
    using spec_run_suffix [of a 22 "b # raws @ [raw]" v] by (simp add: a_def c_def)
  have "sp_stable (debounce_spec_step raw c) =
      (if 22 \<le> sp_run (debounce_spec_step raw c) then raw else sp_stable c)"
    "sp_events (debounce_spec_step raw c) = sp_events c +
      (if sp_stable (debounce_spec_step raw c) \<and> \<not> sp_stable c then 1 else 0)"
    by (simp_all add: debounce_spec_step_def Let_def)
  then have "(g_collisionButtonPressedEventCount ?t \<noteq> g_collisionButtonPressedEventCount ?u \<longleftrightarrow>
          \<not> g_collisionButtonStablePressed ?u \<and> suffix (replicate 22 True) (b # raws @ [raw])) \<and>
       (g_collisionButtonStablePressed ?t = g_collisionButtonStablePressed ?u \<longleftrightarrow>
          \<not> suffix (replicate 22 (\<not> g_collisionButtonStablePressed ?u)) (b # raws @ [raw]))"
    using u t unfolding debounce_rel_def run [symmetric] by auto
  then show ?thesis by (simp add: button_run_def Let_def)
qed

theorem body_button_debounce_witness:
  "\<exists>s :: body_ecu. g_collisionButtonStablePressed (BodyControl_CollisionButtonSample True
     (fold BodyControl_CollisionButtonSample (replicate 21 True) s)) \<and> \<not> g_collisionButtonStablePressed s"
proof -
  let ?s = "bench_ecu\<lparr>g_collisionButtonLastRawPressed := False, g_collisionButtonStablePressed := False,
    g_collisionButtonDebounceTimerMs := 0, g_collisionButtonPressedEventCount := 0\<rparr>"
  have "replicate 21 True @ [True] = replicate 22 True"
    using replicate_append_same [of 21 True] by (simp flip: replicate_Suc)
  then have "suffix (replicate 22 True) (False # replicate 21 True @ [True])"
    by (simp add: suffix_Cons)
  moreover have "\<not> suffix (replicate 22 False) (False # replicate 21 True @ [True])"
    by (auto simp: suffix_def eval_nat_numeral)
  ultimately show ?thesis
    using body_button_debounce [of ?s False "replicate 21 True" True]
    by (intro exI [of _ ?s]) (auto simp: Let_def)
qed

section \<open>Distance, warning and sound\<close>

text \<open>
  A distance measurement returns, whatever the echo pin does: it reads at most 400 cm or fails,
  and it leaves everything else as it was but for one trigger pulse of 10 us.
\<close>

theorem body_measurement:
  assumes "hw_ok h" and "us \<le> 50000"
  shows "\<exists>r t. BodyControl_MeasureUltrasonicDistanceCmWithTimeout h us s = Some (r, t) \<and>
    (\<forall>d. r = Some d \<longrightarrow> d \<le> 400) \<and> measured s t"
proof -
  obtain r t where m: "BodyControl_MeasureUltrasonicDistanceCmWithTimeout h us s = Some (r, t)"
    using Measure_returns [OF assms] by blast
  then show ?thesis using Measure_state [OF m] Measure_bound by blast
qed

theorem body_measurement_witness:
  "\<exists>r t. BodyControl_MeasureUltrasonicDistanceCmWithTimeout bench_hw 30000 bench_ecu = Some (r, t) \<and>
     measured bench_ecu t"
  using body_measurement [OF bench_hw_ok, of 30000 bench_ecu] by (auto simp: word_le_nat_alt)

text \<open>
  The warning level settles after one step, and to go to another level and back the distance
  must change by 10 cm or more, so noise below that makes no chatter; a shorter distance or a higher
  level before never gives a lower level; an invalid distance clears it.
\<close>

theorem body_warning_hysteresis:
  assumes "l \<le> 3"
  shows "warning_level l d v \<le> 3 \<and> warning_level l d False = 0 \<and>
    warning_level (warning_level l d v) d v = warning_level l d v \<and>
    (warning_level l d True \<noteq> l \<and> warning_level (warning_level l d True) d' True = l \<longrightarrow>
       unat d + 10 \<le> unat d' \<or> unat d' + 10 \<le> unat d) \<and>
    (l \<le> l' \<and> l' \<le> 3 \<and> d' \<le> d \<longrightarrow> warning_level l d True \<le> warning_level l' d' True)"
proof -
  have "warning_level l d True \<noteq> l \<and> warning_level (warning_level l d True) d' True = l \<Longrightarrow>
       unat d + 10 \<le> unat d' \<or> unat d' + 10 \<le> unat d"
    using warning_level_band [OF assms, of d d'] by auto
  then show ?thesis
    using assms by (auto simp: warning_level_le warning_level_settled intro: warning_level_mono)
qed

theorem body_warning_hysteresis_witness:
  "warning_level 2 20 True \<le> warning_level 3 12 True"
  using body_warning_hysteresis [of 2 20 True 12 3] by (simp add: word_le_nat_alt)

text \<open>
  With the warning on and the horn off, a new level 1, 2 or 3 starts its sound at once: \<open>n\<close>
  milliseconds later the buzzer pin has the level of the pattern, a 500 Hz tone that is continuous
  at level 3 and lasts the first 120 ms of every 500 ms at level 1 and of every 250 ms at level 2.
\<close>

theorem body_warning_sound:
  assumes "g_collisionWarningLampOn s" and "\<not> g_hornEnabled s" and "g_collisionWarningLevel s = l"
    and "l = 1 \<or> l = 2 \<or> l = 3" and "g_collisionWarningLastLevel s \<noteq> l"
  shows "pin_cmd ((BodyControl_UpdateCollisionWarningSound1ms ^^ Suc n) s) BODY_BUZZER =
    (if l = 3 then even n
     else let c = (if l = 2 then 250 else 500) in n mod c < 120 \<and> even (n mod c))"
proof -
  have "sounding l n ((BodyControl_UpdateCollisionWarningSound1ms ^^ Suc n) s)"
    by (induction n) (simp_all add: sounding_start [OF assms] sounding_step [OF _ assms(4)])
  then show ?thesis by (simp add: sounding_def beep_level_def beep_cycle_def Let_def)
qed

theorem body_warning_sound_witness:
  "\<exists>s :: body_ecu. \<not> pin_cmd ((BodyControl_UpdateCollisionWarningSound1ms ^^ Suc 130) s) BODY_BUZZER"
  using body_warning_sound [of "bench_ecu\<lparr>g_collisionWarningLampOn := True, g_hornEnabled := False,
      g_collisionWarningLevel := 1, g_collisionWarningLastLevel := 0\<rparr>" 1 130]
  by (auto simp: Let_def simp del: funpow.simps)

text \<open>
  The buzzer routine returns after it sounded for at least half a second and at most 40.4 ms
  more, drives no other pin, and leaves the buzzer low.
\<close>

theorem body_buzzer_routine:
  "\<exists>t w. BodyControl_RunBuzzerDiagnosticRoutine s = Some t \<and> buzzed w s t \<and>
     \<not> pin_cmd t BODY_BUZZER \<and> 500000 \<le> w \<and> w \<le> 540382"
  using HornForMs_returns [of 500 s] by (auto simp: BodyControl_RunBuzzerDiagnosticRoutine_def horn_bound_def)

section \<open>The trouble code\<close>

lemma body_dtc_report: "body_dtc.report = BodyControl_UpdateUltrasonicDtcStatus"
  by (intro ext) (simp add: body_dtc.report_def)

lemma body_dtc_reports: "body_dtc.reports = fold BodyControl_UpdateUltrasonicDtcStatus"
  by (simp add: body_dtc.reports_def body_dtc_report)

text \<open>
  C38. After the history is cleared, any sequence of test reports leaves the history bit set iff
  three reports in a row failed somewhere in it, and the current bit set iff the last one failed;
  the fault mask shows the current bit.
\<close>

theorem body_dtc_confirmation:
  assumes "body_dtc_ok s" and "rs \<noteq> []"
  shows "let t = fold BodyControl_UpdateUltrasonicDtcStatus rs (BodyControl_ClearDtcHistory s) in
    (g_ultrasonicDtcStatus t AND 8 \<noteq> 0 \<longleftrightarrow> sublist [True, True, True] rs) \<and>
    (g_ultrasonicDtcStatus t AND 1 \<noteq> 0 \<longleftrightarrow> last rs)"
  using body_dtc.history_after_clear [OF assms(1), of rs]
    body_dtc.current_reports [OF body_dtc.ok_clear [OF assms(1)] assms(2)]
  by (simp add: Let_def body_dtc_reports)

theorem body_dtc_confirmation_witness:
  "g_ultrasonicDtcStatus (fold BodyControl_UpdateUltrasonicDtcStatus [True, True, False, True, True]
     (BodyControl_ClearDtcHistory (bench_ecu\<lparr>g_ultrasonicDtcStatus := 9, g_ultrasonicDtcConsecutiveFailCount := 3\<rparr>)))
     AND 8 = 0"
  using body_dtc_confirmation [of "bench_ecu\<lparr>g_ultrasonicDtcStatus := 9,
      g_ultrasonicDtcConsecutiveFailCount := 3\<rparr>" "[True, True, False, True, True]"]
  by (simp add: Let_def body_dtc_ok_def dtc_byte_ok_def sublist_Cons_right)

section \<open>Frames\<close>



text \<open>
  A collision is reported once it can be: while the driver is busy the event stays pending with
  the time of its first report, whatever is reported meanwhile, and the first time the driver is
  free one frame with that time is sent and the event is no longer pending.
\<close>

theorem body_collision_event_retained:
  assumes "\<not> g_collisionEventPending u"
    and "\<forall>i<k. hw_can h (can_calls u + i) = NotSentBusy" and "hw_can h (can_calls u + k) \<noteq> NotSentBusy"
  shows "let s = BodyCan_ReportCollisionOccurred u;
      w = (BodyCan_SendPendingCollisionEventIfNeeded h ^^ k) s;
      t = BodyCan_SendPendingCollisionEventIfNeeded h (BodyCan_ReportCollisionOccurred w)
    in g_collisionEventPending w \<and> can_sent w = can_sent u \<and> \<not> g_collisionEventPending t \<and>
       can_sent t = (unat (g_txBufferIndex u), \<lparr>cf_id = 0x210, cf_dlc = 5,
         cf_data = BodyCan_PackTxBytes (collision_event_bytes (g_bodyCanTimeMs u))\<rparr>) # can_sent u"
proof -
  let ?s = "BodyCan_ReportCollisionOccurred u"
  let ?w = "\<lambda>k. (BodyCan_SendPendingCollisionEventIfNeeded h ^^ k) ?s"
  have busy: "g_collisionEventPending (?w j) \<and> can_calls (?w j) = can_calls u + j \<and>
      can_sent (?w j) = can_sent u \<and> g_txBufferIndex (?w j) = g_txBufferIndex u \<and>
      g_pendingCollisionOccurrenceTimeMs (?w j) = g_bodyCanTimeMs u" if "j \<le> k" for j
    using that
  proof (induction j)
    case 0
    then show ?case using assms(1) by (simp add: BodyCan_ReportCollisionOccurred_def Let_def)
  next
    case (Suc j)
    define x where "x = ?w j"
    have x: "g_collisionEventPending x" "can_calls x = can_calls u + j" "can_sent x = can_sent u"
        "g_txBufferIndex x = g_txBufferIndex u" "g_pendingCollisionOccurrenceTimeMs x = g_bodyCanTimeMs u"
      using Suc by (simp_all add: x_def)
    have "hw_can h (can_calls x) = NotSentBusy" using assms(2) Suc.prems x(2) by simp
    with x SendPending_pending [OF x(1), of h] have
      "g_collisionEventPending (BodyCan_SendPendingCollisionEventIfNeeded h x) \<and>
       can_calls (BodyCan_SendPendingCollisionEventIfNeeded h x) = can_calls u + Suc j \<and>
       can_sent (BodyCan_SendPendingCollisionEventIfNeeded h x) = can_sent u \<and>
       g_txBufferIndex (BodyCan_SendPendingCollisionEventIfNeeded h x) = g_txBufferIndex u \<and>
       g_pendingCollisionOccurrenceTimeMs (BodyCan_SendPendingCollisionEventIfNeeded h x) = g_bodyCanTimeMs u"
      by (simp add: transmits_def BodyCan_SendPendingCollisionEventIfNeeded_def Let_def
          BodyCan_SendCollisionEvent_def BodyCan_SendRawFrame_def)
    then show ?case by (simp add: x_def)
  qed
  define x where "x = ?w k"
  have x: "g_collisionEventPending x" "can_calls x = can_calls u + k" "can_sent x = can_sent u"
      "g_txBufferIndex x = g_txBufferIndex u" "g_pendingCollisionOccurrenceTimeMs x = g_bodyCanTimeMs u"
    using busy [of k] by (simp_all add: x_def)
  define y where "y = BodyCan_ReportCollisionOccurred x"
  have y: "g_collisionEventPending y" "can_calls y = can_calls u + k" "can_sent y = can_sent u"
      "g_txBufferIndex y = g_txBufferIndex u" "g_pendingCollisionOccurrenceTimeMs y = g_bodyCanTimeMs u"
    using x by (simp_all add: y_def BodyCan_ReportCollisionOccurred_def Let_def)
  show ?thesis
    using assms(3) x y SendPending_pending(1,2) [OF y(1), of h]
    by (simp add: Let_def transmits_def flip: x_def y_def)
qed

theorem body_collision_event_retained_witness:
  "\<not> g_collisionEventPending (BodyCan_SendPendingCollisionEventIfNeeded (bench_hw\<lparr>hw_can :=
      (\<lambda>n. if n < can_calls bench_ecu + 2 then NotSentBusy else SentStatus 0)\<rparr>)
     (BodyCan_ReportCollisionOccurred ((BodyCan_SendPendingCollisionEventIfNeeded (bench_hw\<lparr>hw_can :=
      (\<lambda>n. if n < can_calls bench_ecu + 2 then NotSentBusy else SentStatus 0)\<rparr>) ^^ 2)
       (BodyCan_ReportCollisionOccurred (bench_ecu\<lparr>g_collisionEventPending := False\<rparr>)))))"
  using body_collision_event_retained [of "bench_ecu\<lparr>g_collisionEventPending := False\<rparr>" 2
      "bench_hw\<lparr>hw_can := (\<lambda>n. if n < can_calls bench_ecu + 2 then NotSentBusy else SentStatus 0)\<rparr>"]
  by (simp add: Let_def)

text \<open>
  The heartbeat goes out every 200 ms: after \<open>n\<close> updates from a fresh timer, with a free driver,
  \<open>n div 200\<close> frames were handed to it and the alive counter advanced as often.
\<close>

theorem body_heartbeat_period:
  assumes "g_heartbeatTxTimerMs s = 0" and "\<forall>i. hw_can h i \<noteq> NotSentBusy"
  shows "let t = (BodyCan_SendHeartbeatIfNeeded h ^^ n) s in
    can_calls t = can_calls s + n div 200 \<and> length (can_sent t) = length (can_sent s) + n div 200 \<and>
    g_txHeartbeatAliveCounter t = g_txHeartbeatAliveCounter s + of_nat (n div 200)"
proof -
  have "unat (g_heartbeatTxTimerMs ((BodyCan_SendHeartbeatIfNeeded h ^^ n) s)) = n mod 200 \<and>
    can_calls ((BodyCan_SendHeartbeatIfNeeded h ^^ n) s) = can_calls s + n div 200 \<and>
    length (can_sent ((BodyCan_SendHeartbeatIfNeeded h ^^ n) s)) = length (can_sent s) + n div 200 \<and>
    g_txHeartbeatAliveCounter ((BodyCan_SendHeartbeatIfNeeded h ^^ n) s) =
      g_txHeartbeatAliveCounter s + of_nat (n div 200)"
  proof (induction n)
    case (Suc n)
    define u where "u = (BodyCan_SendHeartbeatIfNeeded h ^^ n) s"
    have tm: "unat (g_heartbeatTxTimerMs u) = n mod 200" using Suc by (simp add: u_def)
    then have "g_heartbeatTxTimerMs u < 200" by (simp add: word_less_nat_alt)
    then have inc: "unat (g_heartbeatTxTimerMs u + 1) = Suc (n mod 200)"
      using tm unat_inc_below by metis
    let ?u = "u\<lparr>g_heartbeatTxTimerMs := 0\<rparr>"
    show ?case
    proof (cases "Suc (n mod 200) = 200")
      case True
      have "BodyCan_SendHeartbeatIfNeeded h u = BodyCan_SendHeartbeat h ?u"
        using inc True by (simp add: BodyCan_SendHeartbeatIfNeeded_def Let_def word_less_nat_alt)
      moreover have "g_heartbeatTxTimerMs (BodyCan_SendHeartbeat h ?u) = 0"
        by (simp add: BodyCan_SendHeartbeat_def BodyCan_SendRawFrame_def Let_def)
      ultimately show ?thesis
        using SendHeartbeat_effect [of h ?u] assms(2) Suc True
        by (simp add: transmits_def mod_Suc div_Suc flip: u_def)
    next
      case False
      then have "BodyCan_SendHeartbeatIfNeeded h u = u\<lparr>g_heartbeatTxTimerMs := g_heartbeatTxTimerMs u + 1\<rparr>"
        using inc mod_less_divisor [of 200 n]
        by (simp add: BodyCan_SendHeartbeatIfNeeded_def Let_def word_less_nat_alt)
      then show ?thesis using Suc False inc by (simp add: mod_Suc div_Suc flip: u_def)
    qed
  qed (simp add: assms(1))
  then show ?thesis by (simp add: Let_def)
qed

theorem body_heartbeat_period_witness:
  "can_calls ((BodyCan_SendHeartbeatIfNeeded bench_hw ^^ 1000) (bench_ecu\<lparr>g_heartbeatTxTimerMs := 0\<rparr>)) =
     can_calls bench_ecu + 5"
  using body_heartbeat_period [of "bench_ecu\<lparr>g_heartbeatTxTimerMs := 0\<rparr>" bench_hw 1000]
  by (simp add: Let_def bench_hw_def)

text \<open>
  C24. A pass of the main loop returns, and it is a run of the small steps: what the uninterrupted
  pass computes, the interleaved machine reaches from the top of the loop back to the top, with its
  invariant.
\<close>

theorem body_pass_refines:
  assumes "hw_ok h" and "ecu_inv (PcTick, s)"
  shows "\<exists>t. body_main_pass h s = Some t \<and> (body_step h)\<^sup>+\<^sup>+ (PcTick, s) (PcTick, t) \<and> ecu_inv (PcTick, t)"
proof -
  let ?r = "\<lambda>y. (body_step h)\<^sup>+\<^sup>+ (PcTick, s) y \<and> ecu_inv y"
  have adv: "?r y" if "body_step h x y" "?r x" for x y
    using that ecu_inv_step [OF that(1) assms(1)] by (blast intro: tranclp.trancl_into_trancl)
  define a where "a = can_timeout_1ms h s"
  define b where "b = (if g_rxUpdated a then can_apply h (can_copy_command a) (can_clear_flag a) else a)"
  have a: "?r (PcCommand, a)"
    unfolding a_def using body_step.tick ecu_inv_step [OF body_step.tick assms] by blast
  have b: "?r (PcUds, b)"
  proof (cases "g_rxUpdated a")
    case True
    show ?thesis
      using adv [OF body_step.outputs adv [OF body_step.clear adv [OF body_step.copy [OF True] a]]] True
      by (simp add: b_def)
  next
    case False
    then show ?thesis using adv [OF body_step.none a] by (simp add: b_def)
  qed
  obtain c where c: "BodyCan_ProcessUdsRequestIfNeeded h b = Some c"
    using quiet_uds [OF assms(1)] b by (auto simp: ecu_inv_def)
  define m where "m = can_mirror (BodyCan_SendHeartbeatIfNeeded h (BodyCan_SendPendingCollisionEventIfNeeded h c))"
  have m: "?r (PcControl, m)" unfolding m_def
    by (rule adv [OF body_step.mirror adv [OF body_step.beat adv [OF body_step.event adv [OF body_step.uds [OF c] b]]]])
  obtain d where d: "BodyControl_Update1ms h m = Some d"
    using quiet_control [OF assms(1)] m by (auto simp: ecu_inv_def)
  have "?r (PcTick, main_loop_end (main_collision_button d))"
    by (rule adv [OF body_step.again adv [OF body_step.button adv [OF body_step.control [OF d] m]]])
  moreover have "body_main_pass h s = Some (main_loop_end (main_collision_button d))"
    using c d
    by (cases "g_rxUpdated a") (simp_all add: body_main_pass_def BodyCan_Update1ms_def Let_def b_def m_def flip: a_def)
  ultimately show ?thesis by blast
qed

theorem body_pass_refines_witness:
  "\<exists>t. body_main_pass bench_hw bench_ecu = Some t \<and> ecu_inv (PcTick, t)"
  using body_pass_refines [OF bench_hw_ok bench_inv] by blast

end
