(* ===== verification/Body_Api.thy ===== *)
theory Body_Api
  imports Body_Ecu
begin

text \<open>
  The rest of the public interface of the BODY ECU: the on and off calls of
  \<open>src/BODY/BodyControl.c\<close> and the readers of \<open>src/BODY/BodyCan.c\<close>.
\<close>

section \<open>On and off\<close>

definition BodyControl_HeadlampOn :: "'a body_lamps_scheme \<Rightarrow> 'a body_lamps_scheme" where
  "BodyControl_HeadlampOn s = BodyControl_SetHeadlamp True s"

definition BodyControl_HeadlampOff :: "'a body_lamps_scheme \<Rightarrow> 'a body_lamps_scheme" where
  "BodyControl_HeadlampOff s = BodyControl_SetHeadlamp False s"

definition BodyControl_BrakeLampOn :: "'a body_lamps_scheme \<Rightarrow> 'a body_lamps_scheme" where
  "BodyControl_BrakeLampOn s = BodyControl_SetBrakeLamp True s"

definition BodyControl_BrakeLampOff :: "'a body_lamps_scheme \<Rightarrow> 'a body_lamps_scheme" where
  "BodyControl_BrakeLampOff s = BodyControl_SetBrakeLamp False s"

definition BodyControl_LeftTurnOn :: "'a body_lamps_scheme \<Rightarrow> 'a body_lamps_scheme" where
  "BodyControl_LeftTurnOn s = BodyControl_SetLeftTurn True s"

definition BodyControl_LeftTurnOff :: "'a body_lamps_scheme \<Rightarrow> 'a body_lamps_scheme" where
  "BodyControl_LeftTurnOff s = BodyControl_SetLeftTurn False s"

definition BodyControl_RightTurnOn :: "'a body_lamps_scheme \<Rightarrow> 'a body_lamps_scheme" where
  "BodyControl_RightTurnOn s = BodyControl_SetRightTurn True s"

definition BodyControl_RightTurnOff :: "'a body_lamps_scheme \<Rightarrow> 'a body_lamps_scheme" where
  "BodyControl_RightTurnOff s = BodyControl_SetRightTurn False s"

lemma lamp_calls_applied [fw_inv]:
  "lamps_applied (BodyControl_HeadlampOn s)" "lamps_applied (BodyControl_HeadlampOff s)"
  "lamps_applied (BodyControl_BrakeLampOn s)" "lamps_applied (BodyControl_BrakeLampOff s)"
  "lamps_applied (BodyControl_LeftTurnOn s)" "lamps_applied (BodyControl_LeftTurnOff s)"
  "lamps_applied (BodyControl_RightTurnOn s)" "lamps_applied (BodyControl_RightTurnOff s)"
  by (simp_all add: BodyControl_HeadlampOn_def BodyControl_HeadlampOff_def BodyControl_BrakeLampOn_def
      BodyControl_BrakeLampOff_def BodyControl_LeftTurnOn_def BodyControl_LeftTurnOff_def
      BodyControl_RightTurnOn_def BodyControl_RightTurnOff_def BodyControl_SetLeftTurn_def
      BodyControl_SetRightTurn_def lamps_applied_setters)

section \<open>Readers\<close>

definition BodyControl_GetDiagCommandMask :: "'a body_scheme \<Rightarrow> u8" where
  "BodyControl_GetDiagCommandMask s = g_diagCommandMask s"

definition BodyControl_GetDiagFeedbackMask :: "'a body_scheme \<Rightarrow> u8" where
  "BodyControl_GetDiagFeedbackMask s = g_diagFeedbackMask s"

definition BodyCan_GetRxCount :: "'a body_ecu_scheme \<Rightarrow> u32" where
  "BodyCan_GetRxCount s = g_rxCount s"

definition BodyCan_GetInvalidCount :: "'a body_ecu_scheme \<Rightarrow> u32" where
  "BodyCan_GetInvalidCount s = g_invalidCount s"

definition BodyCan_GetCrcErrorCount :: "'a body_ecu_scheme \<Rightarrow> u32" where
  "BodyCan_GetCrcErrorCount s = g_crcErrorCount s"

definition BodyCan_GetAliveErrorCount :: "'a body_ecu_scheme \<Rightarrow> u32" where
  "BodyCan_GetAliveErrorCount s = g_aliveErrorCount s"

definition BodyCan_GetHeadlamp :: "'a body_ecu_scheme \<Rightarrow> u8" where
  "BodyCan_GetHeadlamp s = g_currentHeadlampRaw s"

definition BodyCan_GetTurnSignal :: "'a body_ecu_scheme \<Rightarrow> u8" where
  "BodyCan_GetTurnSignal s = g_currentTurnSignalRaw s"

definition BodyCan_GetBrakeLamp :: "'a body_ecu_scheme \<Rightarrow> u8" where
  "BodyCan_GetBrakeLamp s = g_currentBrakeLampRaw s"

definition BodyCan_GetHorn :: "'a body_ecu_scheme \<Rightarrow> u8" where
  "BodyCan_GetHorn s = g_currentHornRaw s"

definition BodyCan_GetCollisionWarningLamp :: "'a body_ecu_scheme \<Rightarrow> u8" where
  "BodyCan_GetCollisionWarningLamp s = g_currentCollisionWarningRaw s"

definition BodyCan_GetControlMode :: "'a body_ecu_scheme \<Rightarrow> u8" where
  "BodyCan_GetControlMode s = g_currentControlModeRaw s"

definition BodyCan_GetRxAliveCounter :: "'a body_ecu_scheme \<Rightarrow> u8" where
  "BodyCan_GetRxAliveCounter s = g_currentRxAliveCounter s"

definition BodyCan_GetTxAliveCounter :: "'a body_ecu_scheme \<Rightarrow> u8" where
  "BodyCan_GetTxAliveCounter s = g_txHeartbeatAliveCounter s"

definition BodyCan_GetTimeMs :: "'a body_ecu_scheme \<Rightarrow> u32" where
  "BodyCan_GetTimeMs s = g_bodyCanTimeMs s"

definition BodyCan_GetUdsRxCount :: "'a body_ecu_scheme \<Rightarrow> u32" where
  "BodyCan_GetUdsRxCount s = g_udsRxCount s"

definition BodyCan_GetUdsTxCount :: "'a body_ecu_scheme \<Rightarrow> u32" where
  "BodyCan_GetUdsTxCount s = g_udsTxCount s"

definition BodyCan_GetUdsSession :: "'a body_ecu_scheme \<Rightarrow> u8" where
  "BodyCan_GetUdsSession s = g_udsSession s"

end
