(* ===== verification/Act_Encoder.thy ===== *)
theory Act_Encoder
  imports Fw_Prelude
begin

text \<open>
  The wheel encoder of the ACT ECU, \<open>src/ACT/Encoder.c\<close>: one phase, sampled by polling. Rising and
  falling edges are counted apart in a window of 100 ms, and the larger count is the number of
  pulses. \<open>g_encoderCount\<close>, a \<open>sint32\<close>, is its 32-bit pattern. The lemmas describe the counts of a
  window as functions of the samples it saw.
\<close>

abbreviation (input) ENC_A :: pin where "ENC_A \<equiv> (2, 4)"
abbreviation (input) ENCODER_SPEED_WINDOW_MS :: u32 where "ENCODER_SPEED_WINDOW_MS \<equiv> 100"

record act_encoder = io +
  g_encoderCount :: u32
  g_windowPulseCount :: u32
  g_windowRisingEdgeCount :: u32
  g_windowFallingEdgeCount :: u32
  g_pulsePerSecond :: u32
  g_elapsedMs :: u32
  g_lastA :: u8
  g_debugEncoderPollCount :: u32
  g_debugEncoderRawA :: u32
  g_debugEncoderLastA :: u32
  g_debugEncoderRisingEdgeCount :: u32
  g_debugEncoderFallingEdgeCount :: u32
  g_debugEncoderTransitionCount :: u32
  g_debugEncoderWindowPulseCount :: u32
  g_debugEncoderWindowRisingEdgeCount :: u32
  g_debugEncoderWindowFallingEdgeCount :: u32
  g_debugEncoderElapsedMs :: u32
  g_debugEncoderPulsePerSecondInternal :: u32

section \<open>Operations\<close>

definition Encoder_ReadA :: "hw \<Rightarrow> 'a io_scheme \<Rightarrow> u8 \<times> 'a io_scheme" where
  "Encoder_ReadA h s =
     (let (level, s) = read_pin h ENC_A s in (if level then 1 else 0, s))"

definition Encoder_Init :: "hw \<Rightarrow> 'a act_encoder_scheme \<Rightarrow> 'a act_encoder_scheme" where
  "Encoder_Init h s =
     (let s = set_mode ENC_A InputPullUp s;
          s = s\<lparr>g_encoderCount := 0, g_windowPulseCount := 0, g_windowRisingEdgeCount := 0,
                g_windowFallingEdgeCount := 0, g_pulsePerSecond := 0, g_elapsedMs := 0\<rparr>;
          (nowA, s) = Encoder_ReadA h s;
          s = s\<lparr>g_lastA := nowA\<rparr>
      in s\<lparr>g_debugEncoderPollCount := 0, g_debugEncoderRawA := ucast (g_lastA s),
           g_debugEncoderLastA := ucast (g_lastA s), g_debugEncoderRisingEdgeCount := 0,
           g_debugEncoderFallingEdgeCount := 0, g_debugEncoderTransitionCount := 0,
           g_debugEncoderWindowPulseCount := 0, g_debugEncoderWindowRisingEdgeCount := 0,
           g_debugEncoderWindowFallingEdgeCount := 0, g_debugEncoderElapsedMs := 0,
           g_debugEncoderPulsePerSecondInternal := 0\<rparr>)"

text \<open>\<open>Encoder_Poll\<close> after the sample \<open>nowA\<close> is read.\<close>

definition encoder_sample :: "u8 \<Rightarrow> 'a act_encoder_scheme \<Rightarrow> 'a act_encoder_scheme" where
  "encoder_sample nowA s =
     (let s = s\<lparr>g_debugEncoderPollCount := g_debugEncoderPollCount s + 1,
                g_debugEncoderRawA := ucast nowA, g_debugEncoderLastA := ucast (g_lastA s)\<rparr>;
          s = (if nowA \<noteq> g_lastA s
               then s\<lparr>g_encoderCount := g_encoderCount s + 1,
                      g_debugEncoderTransitionCount := g_debugEncoderTransitionCount s + 1\<rparr>
               else s);
          s = (if g_lastA s = 0 \<and> nowA = 1
               then s\<lparr>g_windowRisingEdgeCount := g_windowRisingEdgeCount s + 1,
                      g_debugEncoderRisingEdgeCount := g_debugEncoderRisingEdgeCount s + 1\<rparr>
               else if g_lastA s = 1 \<and> nowA = 0
               then s\<lparr>g_windowFallingEdgeCount := g_windowFallingEdgeCount s + 1,
                      g_debugEncoderFallingEdgeCount := g_debugEncoderFallingEdgeCount s + 1\<rparr>
               else s);
          s = s\<lparr>g_windowPulseCount :=
                  (if g_windowRisingEdgeCount s \<ge> g_windowFallingEdgeCount s
                   then g_windowRisingEdgeCount s else g_windowFallingEdgeCount s)\<rparr>;
          s = s\<lparr>g_lastA := nowA\<rparr>
      in s\<lparr>g_debugEncoderLastA := ucast (g_lastA s),
           g_debugEncoderWindowPulseCount := g_windowPulseCount s,
           g_debugEncoderWindowRisingEdgeCount := g_windowRisingEdgeCount s,
           g_debugEncoderWindowFallingEdgeCount := g_windowFallingEdgeCount s\<rparr>)"

definition Encoder_Poll :: "hw \<Rightarrow> 'a act_encoder_scheme \<Rightarrow> 'a act_encoder_scheme" where
  "Encoder_Poll h s = (let (nowA, s) = Encoder_ReadA h s in encoder_sample nowA s)"

text \<open>\<open>Encoder_Update1ms\<close> after its poll.\<close>

definition encoder_tick :: "'a act_encoder_scheme \<Rightarrow> 'a act_encoder_scheme" where
  "encoder_tick s =
     (let s = s\<lparr>g_elapsedMs := g_elapsedMs s + 1\<rparr>;
          s = s\<lparr>g_debugEncoderElapsedMs := g_elapsedMs s\<rparr>
      in if g_elapsedMs s \<ge> ENCODER_SPEED_WINDOW_MS
         then
           let s = s\<lparr>g_pulsePerSecond := (g_windowPulseCount s * 1000) div g_elapsedMs s\<rparr>
           in s\<lparr>g_debugEncoderPulsePerSecondInternal := g_pulsePerSecond s,
                g_windowPulseCount := 0, g_windowRisingEdgeCount := 0,
                g_windowFallingEdgeCount := 0, g_elapsedMs := 0,
                g_debugEncoderWindowPulseCount := 0, g_debugEncoderWindowRisingEdgeCount := 0,
                g_debugEncoderWindowFallingEdgeCount := 0, g_debugEncoderElapsedMs := 0\<rparr>
         else s)"

definition Encoder_Update1ms :: "hw \<Rightarrow> 'a act_encoder_scheme \<Rightarrow> 'a act_encoder_scheme" where
  "Encoder_Update1ms h s = encoder_tick (Encoder_Poll h s)"

definition Encoder_GetCount :: "'a act_encoder_scheme \<Rightarrow> u32" where
  "Encoder_GetCount s = g_encoderCount s"

definition Encoder_ResetCount :: "'a act_encoder_scheme \<Rightarrow> 'a act_encoder_scheme" where
  "Encoder_ResetCount s =
     s\<lparr>g_encoderCount := 0, g_windowPulseCount := 0, g_windowRisingEdgeCount := 0,
       g_windowFallingEdgeCount := 0, g_pulsePerSecond := 0, g_elapsedMs := 0,
       g_debugEncoderRisingEdgeCount := 0, g_debugEncoderFallingEdgeCount := 0,
       g_debugEncoderTransitionCount := 0, g_debugEncoderWindowPulseCount := 0,
       g_debugEncoderWindowRisingEdgeCount := 0, g_debugEncoderWindowFallingEdgeCount := 0,
       g_debugEncoderElapsedMs := 0, g_debugEncoderPulsePerSecondInternal := 0\<rparr>"

definition Encoder_GetPulsePerSecond :: "'a act_encoder_scheme \<Rightarrow> u32" where
  "Encoder_GetPulsePerSecond s = g_pulsePerSecond s"

definition Encoder_GetRpm :: "u32 \<Rightarrow> 'a act_encoder_scheme \<Rightarrow> u32" where
  "Encoder_GetRpm pulsesPerRev s =
     (if pulsesPerRev = 0 then 0 else (g_pulsePerSecond s * 60) div pulsesPerRev)"

section \<open>What the operations leave alone\<close>

text \<open>The encoder drives no pin and waits for nothing.\<close>

lemma Encoder_frame [fw_frame, simp]:
  "pin_cmd (encoder_sample a s) = pin_cmd s" "io_log (encoder_sample a s) = io_log s"
  "pin_cmd (Encoder_Poll h s) = pin_cmd s" "io_log (Encoder_Poll h s) = io_log s"
  "pin_cmd (encoder_tick s) = pin_cmd s" "io_log (encoder_tick s) = io_log s"
  "pin_cmd (Encoder_Update1ms h s) = pin_cmd s" "io_log (Encoder_Update1ms h s) = io_log s"
  "pin_cmd (Encoder_ResetCount s) = pin_cmd s" "io_log (Encoder_ResetCount s) = io_log s"
  by (simp_all add: encoder_sample_def Encoder_Poll_def Encoder_ReadA_def read_pin_def encoder_tick_def
      Encoder_Update1ms_def Encoder_ResetCount_def Let_def)

lemma Encoder_more [fw_frame, simp]:
  "act_encoder.more (encoder_sample a s) = act_encoder.more s"
  "act_encoder.more (Encoder_Poll h s) = act_encoder.more s"
  "act_encoder.more (encoder_tick s) = act_encoder.more s"
  "act_encoder.more (Encoder_Update1ms h s) = act_encoder.more s"
  "act_encoder.more (Encoder_ResetCount s) = act_encoder.more s"
  by (simp_all add: encoder_sample_def Encoder_Poll_def Encoder_ReadA_def read_pin_def encoder_tick_def
      Encoder_Update1ms_def Encoder_ResetCount_def Let_def)

section \<open>The counts of a window\<close>

fun rising :: "bool \<Rightarrow> bool list \<Rightarrow> nat" where
  "rising p [] = 0"
| "rising p (q # qs) = (if \<not> p \<and> q then 1 else 0) + rising q qs"

fun falling :: "bool \<Rightarrow> bool list \<Rightarrow> nat" where
  "falling p [] = 0"
| "falling p (q # qs) = (if p \<and> \<not> q then 1 else 0) + falling q qs"

text \<open>The two counts of a window never differ by more than one.\<close>

lemma rising_falling:
  "int (rising p qs) - int (falling p qs) = of_bool (last (p # qs)) - of_bool p"
proof (induction qs arbitrary: p)
  case (Cons q qs)
  from Cons [of q] show ?case by (cases p; cases q) simp_all
qed simp

lemma edges_le: "rising p qs + falling p qs \<le> length qs"
proof (induction qs arbitrary: p)
  case (Cons q qs)
  from Cons [of q] show ?case by (cases p; cases q) simp_all
qed simp

definition level_byte :: "bool \<Rightarrow> u8" where
  "level_byte b = (if b then 1 else 0)"

definition encoder_at :: "bool \<Rightarrow> nat \<Rightarrow> nat \<Rightarrow> 'a act_encoder_scheme \<Rightarrow> bool" where
  "encoder_at p r f s \<longleftrightarrow> g_lastA s = level_byte p \<and> g_windowRisingEdgeCount s = of_nat r \<and>
     g_windowFallingEdgeCount s = of_nat f \<and> g_windowPulseCount s = of_nat (max r f)"

lemma encoder_sample_at:
  assumes "encoder_at p r f s" "r < 2 ^ 31" "f < 2 ^ 31"
  shows "encoder_at q (r + (if \<not> p \<and> q then 1 else 0)) (f + (if p \<and> \<not> q then 1 else 0))
    (encoder_sample (level_byte q) s)"
proof -
  have n: "unat (of_nat n :: u32) = n" if "n \<le> 2 ^ 31" for n
    using that by (simp add: unat_of_nat take_bit_nat_eq_self)
  have le: "of_nat a \<le> (of_nat b :: u32) \<longleftrightarrow> a \<le> b" if "a \<le> 2 ^ 31" "b \<le> 2 ^ 31" for a b
    using that n by (simp add: word_le_nat_alt)
  have le: "of_nat f \<le> (of_nat r :: u32) \<longleftrightarrow> f \<le> r" "1 + of_nat f \<le> (of_nat r :: u32) \<longleftrightarrow> Suc f \<le> r"
    "of_nat f \<le> (1 + of_nat r :: u32) \<longleftrightarrow> f \<le> Suc r"
    using le [of f r] le [of "Suc f" r] le [of f "Suc r"] assms(2,3) by simp_all
  show ?thesis
    using assms(1) le
    by (cases p; cases q)
      (simp_all add: encoder_at_def encoder_sample_def Let_def level_byte_def max_def add.commute)
qed

lemma encoder_samples_at:
  assumes "encoder_at p r f s" "r + length qs \<le> 2 ^ 31" "f + length qs \<le> 2 ^ 31"
  shows "encoder_at (last (p # qs)) (r + rising p qs) (f + falling p qs)
    (fold (\<lambda>q. encoder_sample (level_byte q)) qs s)"
  using assms
proof (induction qs arbitrary: p r f s)
  case (Cons q qs)
  have "encoder_at q (r + (if \<not> p \<and> q then 1 else 0)) (f + (if p \<and> \<not> q then 1 else 0))
    (encoder_sample (level_byte q) s)"
    using Cons.prems by (intro encoder_sample_at) auto
  from Cons.IH [OF this] Cons.prems show ?case by (auto simp: add.assoc)
qed simp

end
