(* ===== verification/Pin_Timing.thy ===== *)
theory Pin_Timing
  imports Fw_Prelude
begin

text \<open>
  How long a pin was high. The log of a run, read in the order of time, is a sequence of pin
  commands and waits; \<open>spent n k s t\<close> says that between \<open>s\<close> and \<open>t\<close> the program waited \<open>n\<close>
  microseconds, of which the pin \<open>p\<close> was high for \<open>k p\<close>.
\<close>

fun high_us :: "pin \<Rightarrow> bool \<Rightarrow> io_event list \<Rightarrow> nat" where
  "high_us p b [] = 0"
| "high_us p b (SetPin q c # es) = high_us p (if q = p then c else b) es"
| "high_us p b (WaitUs n # es) = (if b then unat n else 0) + high_us p b es"

fun event_pins :: "io_event \<Rightarrow> (pin \<Rightarrow> bool) \<Rightarrow> (pin \<Rightarrow> bool)" where
  "event_pins (SetPin q c) = (\<lambda>m. m(q := c))"
| "event_pins (WaitUs n) = (\<lambda>m. m)"

definition pins_after :: "io_event list \<Rightarrow> (pin \<Rightarrow> bool) \<Rightarrow> (pin \<Rightarrow> bool)" where
  "pins_after = fold event_pins"

lemma pins_after_simps [simp]:
  "pins_after [] m = m" "pins_after (SetPin q c # es) m = pins_after es (m(q := c))"
  "pins_after (WaitUs n # es) m = pins_after es m"
  "pins_after (es @ fs) m = pins_after fs (pins_after es m)"
  by (simp_all add: pins_after_def)

lemma high_us_append: "high_us p (m p) (es @ fs) = high_us p (m p) es + high_us p (pins_after es m p) fs"
proof (induction es arbitrary: m)
  case (Cons e es)
  then show ?case
  proof (cases e)
    case (SetPin q c)
    define m' where "m' = m(q := c)"
    have "m' p = (if q = p then c else m p)" by (simp add: m'_def)
    with Cons [of m'] SetPin show ?thesis by (simp flip: m'_def)
  next
    case (WaitUs n)
    with Cons [of m] show ?thesis by simp
  qed
qed simp

definition spent :: "nat \<Rightarrow> (pin \<Rightarrow> nat) \<Rightarrow> 'a io_scheme \<Rightarrow> 'b io_scheme \<Rightarrow> bool" where
  "spent n k s t \<longleftrightarrow> (\<exists>es. io_log t = rev es @ io_log s \<and> pin_cmd t = pins_after es (pin_cmd s) \<and>
     waited es = n \<and> (\<forall>p. high_us p (pin_cmd s p) es = k p))"

lemma spent_none: "io_log t = io_log s \<Longrightarrow> pin_cmd t = pin_cmd s \<Longrightarrow> spent 0 (\<lambda>p. 0) s t"
  unfolding spent_def by (rule exI [of _ "[]"]) simp

lemma spent_refl: "spent 0 (\<lambda>p. 0) s s"
  by (rule spent_none) simp_all

lemma spent_trans:
  assumes "spent n k s t" and "spent m j t u"
  shows "spent (n + m) (\<lambda>p. k p + j p) s u"
proof -
  from assms(1) obtain es where es: "io_log t = rev es @ io_log s" "pin_cmd t = pins_after es (pin_cmd s)"
    "waited es = n" "\<forall>p. high_us p (pin_cmd s p) es = k p" unfolding spent_def by blast
  from assms(2) obtain fs where fs: "io_log u = rev fs @ io_log t" "pin_cmd u = pins_after fs (pin_cmd t)"
    "waited fs = m" "\<forall>p. high_us p (pin_cmd t p) fs = j p" unfolding spent_def by blast
  show ?thesis
    unfolding spent_def using es fs high_us_append [of _ "pin_cmd s" es fs]
    by (intro exI [of _ "es @ fs"]) simp
qed

lemma spent_zero_trans: "spent 0 (\<lambda>p. 0) s t \<Longrightarrow> spent n k t u \<Longrightarrow> spent n k s u"
  using spent_trans by fastforce

lemma spent_set_pin: "spent 0 (\<lambda>p. 0) s (set_pin q b s)"
  unfolding spent_def set_pin_def by (rule exI [of _ "[SetPin q b]"]) simp

lemma spent_wait: "spent (unat n) (\<lambda>p. if pin_cmd s p then unat n else 0) s (wait_us n s)"
  unfolding spent_def wait_us_def by (rule exI [of _ "[WaitUs n]"]) simp

lemma spent_cong: "spent n k s t \<Longrightarrow> n = n' \<Longrightarrow> (\<And>p. k p = k' p) \<Longrightarrow> spent n' k' s t"
  by (simp add: spent_def)

text \<open>A step that only changes what is not of the pins leaves the accounts as they are.\<close>

lemma spent_after:
  "spent n k s t \<Longrightarrow> io_log u = io_log t \<Longrightarrow> pin_cmd u = pin_cmd t \<Longrightarrow> spent n k s u"
  by (simp add: spent_def)

lemma spent_before:
  "spent n k s t \<Longrightarrow> io_log u = io_log s \<Longrightarrow> pin_cmd u = pin_cmd s \<Longrightarrow> spent n k u t"
  by (simp add: spent_def)

lemma set_pin_io [simp]:
  "pin_cmd (set_pin p b s) = (pin_cmd s)(p := b)" "pin_cmd (wait_us n s) = pin_cmd s"
  by (simp_all add: set_pin_def wait_us_def)

end
