(* ===== verification/Act_Motor.thy ===== *)
theory Act_Motor
  imports Act_Encoder Pin_Timing
begin

text \<open>
  The motor driver of the ACT ECU, \<open>src/ACT/Motor.c\<close>: two channels with a software PWM whose
  waits poll the encoder every 50 us. Channel B drives the left wheel. The lemmas give the time each
  PWM pin is high in a cycle.
\<close>

abbreviation (input) MOTOR_A_PWM :: pin where "MOTOR_A_PWM \<equiv> (2, 1)"
abbreviation (input) MOTOR_A_BRAKE :: pin where "MOTOR_A_BRAKE \<equiv> (2, 7)"
abbreviation (input) MOTOR_A_DIR :: pin where "MOTOR_A_DIR \<equiv> (10, 1)"
abbreviation (input) MOTOR_B_PWM :: pin where "MOTOR_B_PWM \<equiv> (10, 3)"
abbreviation (input) MOTOR_B_BRAKE :: pin where "MOTOR_B_BRAKE \<equiv> (2, 6)"
abbreviation (input) MOTOR_B_DIR :: pin where "MOTOR_B_DIR \<equiv> (10, 2)"
abbreviation (input) MOTOR_PWM_PERIOD_US :: u32 where "MOTOR_PWM_PERIOD_US \<equiv> 1000"
abbreviation (input) MOTOR_ENCODER_POLL_STEP_US :: u32 where "MOTOR_ENCODER_POLL_STEP_US \<equiv> 50"
abbreviation (input) MOTOR_DEFAULT_DUTY_PERCENT :: u32 where "MOTOR_DEFAULT_DUTY_PERCENT \<equiv> 90"

datatype MotorState = MOTOR_STATE_STOP | MOTOR_STATE_FORWARD | MOTOR_STATE_REVERSE

record act_motor = act_encoder +
  g_motorState :: MotorState
  g_dutyPercent :: u32
  g_leftDutyPercent :: u32
  g_rightDutyPercent :: u32

section \<open>Waiting\<close>

function Motor_delayUs :: "hw \<Rightarrow> u32 \<Rightarrow> 'a act_encoder_scheme \<Rightarrow> 'a act_encoder_scheme" where
  "Motor_delayUs h us s =
     (if us \<ge> MOTOR_ENCODER_POLL_STEP_US
      then Motor_delayUs h (us - MOTOR_ENCODER_POLL_STEP_US)
             (Encoder_Poll h (wait_us MOTOR_ENCODER_POLL_STEP_US s))
      else if us > 0 then Encoder_Poll h (wait_us us s)
      else s)"
  by pat_completeness auto
termination
  by (relation "measure (\<lambda>(h, us, s). unat us)") (auto simp: word_le_nat_alt unat_sub)

declare Motor_delayUs.simps [simp del]

section \<open>Pins\<close>

definition Motor_SetPwmLowBoth :: "'a io_scheme \<Rightarrow> 'a io_scheme" where
  "Motor_SetPwmLowBoth s = set_pin MOTOR_B_PWM False (set_pin MOTOR_A_PWM False s)"

definition MotorA_SetPwmHigh :: "'a io_scheme \<Rightarrow> 'a io_scheme" where
  "MotorA_SetPwmHigh s = set_pin MOTOR_A_PWM True s"

definition MotorA_SetPwmLow :: "'a io_scheme \<Rightarrow> 'a io_scheme" where
  "MotorA_SetPwmLow s = set_pin MOTOR_A_PWM False s"

definition MotorB_SetPwmHigh :: "'a io_scheme \<Rightarrow> 'a io_scheme" where
  "MotorB_SetPwmHigh s = set_pin MOTOR_B_PWM True s"

definition MotorB_SetPwmLow :: "'a io_scheme \<Rightarrow> 'a io_scheme" where
  "MotorB_SetPwmLow s = set_pin MOTOR_B_PWM False s"

definition Motor_SetBrakeOnBoth :: "'a io_scheme \<Rightarrow> 'a io_scheme" where
  "Motor_SetBrakeOnBoth s = set_pin MOTOR_B_BRAKE True (set_pin MOTOR_A_BRAKE True s)"

definition Motor_SetBrakeOffBoth :: "'a io_scheme \<Rightarrow> 'a io_scheme" where
  "Motor_SetBrakeOffBoth s = set_pin MOTOR_B_BRAKE False (set_pin MOTOR_A_BRAKE False s)"

definition MotorA_SetDirectionForward :: "'a io_scheme \<Rightarrow> 'a io_scheme" where
  "MotorA_SetDirectionForward s = set_pin MOTOR_A_DIR True s"

definition MotorA_SetDirectionReverse :: "'a io_scheme \<Rightarrow> 'a io_scheme" where
  "MotorA_SetDirectionReverse s = set_pin MOTOR_A_DIR False s"

definition MotorB_SetDirectionForward :: "'a io_scheme \<Rightarrow> 'a io_scheme" where
  "MotorB_SetDirectionForward s = set_pin MOTOR_B_DIR False s"

definition MotorB_SetDirectionReverse :: "'a io_scheme \<Rightarrow> 'a io_scheme" where
  "MotorB_SetDirectionReverse s = set_pin MOTOR_B_DIR True s"

definition Motor_SetDirectionForwardBoth :: "'a io_scheme \<Rightarrow> 'a io_scheme" where
  "Motor_SetDirectionForwardBoth s = MotorB_SetDirectionForward (MotorA_SetDirectionForward s)"

definition Motor_SetDirectionReverseBoth :: "'a io_scheme \<Rightarrow> 'a io_scheme" where
  "Motor_SetDirectionReverseBoth s = MotorB_SetDirectionReverse (MotorA_SetDirectionReverse s)"

lemmas motor_pin_defs =
  Motor_SetPwmLowBoth_def MotorA_SetPwmHigh_def MotorA_SetPwmLow_def MotorB_SetPwmHigh_def
  MotorB_SetPwmLow_def Motor_SetBrakeOnBoth_def Motor_SetBrakeOffBoth_def
  MotorA_SetDirectionForward_def MotorA_SetDirectionReverse_def MotorB_SetDirectionForward_def
  MotorB_SetDirectionReverse_def Motor_SetDirectionForwardBoth_def Motor_SetDirectionReverseBoth_def

section \<open>One PWM cycle\<close>

definition Motor_LimitDutyPercent :: "u32 \<Rightarrow> u32" where
  "Motor_LimitDutyPercent dutyPercent = (if dutyPercent > 100 then 100 else dutyPercent)"

definition Motor_SendPwmOneCycleChannels ::
  "hw \<Rightarrow> u32 \<Rightarrow> u32 \<Rightarrow> 'a act_encoder_scheme \<Rightarrow> 'a act_encoder_scheme" where
  "Motor_SendPwmOneCycleChannels h dutyA dutyB s =
     (let dutyA = Motor_LimitDutyPercent dutyA;
          dutyB = Motor_LimitDutyPercent dutyB;
          highTimeAUs = (MOTOR_PWM_PERIOD_US * dutyA) div 100;
          highTimeBUs = (MOTOR_PWM_PERIOD_US * dutyB) div 100;
          s = Motor_SetPwmLowBoth s;
          s = (if highTimeAUs > 0 then MotorA_SetPwmHigh s else s);
          s = (if highTimeBUs > 0 then MotorB_SetPwmHigh s else s)
      in if highTimeAUs = highTimeBUs then
           let s = (if highTimeAUs > 0 then Motor_delayUs h highTimeAUs s else s);
               s = Motor_SetPwmLowBoth s
           in if highTimeAUs < MOTOR_PWM_PERIOD_US
              then Motor_delayUs h (MOTOR_PWM_PERIOD_US - highTimeAUs) s else s
         else if highTimeAUs < highTimeBUs then
           let s = (if highTimeAUs > 0 then Motor_delayUs h highTimeAUs s else s);
               s = MotorA_SetPwmLow s;
               s = Motor_delayUs h (highTimeBUs - highTimeAUs) s;
               s = MotorB_SetPwmLow s
           in if highTimeBUs < MOTOR_PWM_PERIOD_US
              then Motor_delayUs h (MOTOR_PWM_PERIOD_US - highTimeBUs) s else s
         else
           let s = (if highTimeBUs > 0 then Motor_delayUs h highTimeBUs s else s);
               s = MotorB_SetPwmLow s;
               s = Motor_delayUs h (highTimeAUs - highTimeBUs) s;
               s = MotorA_SetPwmLow s
           in if highTimeAUs < MOTOR_PWM_PERIOD_US
              then Motor_delayUs h (MOTOR_PWM_PERIOD_US - highTimeAUs) s else s)"

text \<open>\<open>MOTOR_LEFT_IS_CHANNEL_A\<close> is 0: the left wheel is on channel B.\<close>

definition Motor_SendPwmOneCycleWheels ::
  "hw \<Rightarrow> u32 \<Rightarrow> u32 \<Rightarrow> 'a act_encoder_scheme \<Rightarrow> 'a act_encoder_scheme" where
  "Motor_SendPwmOneCycleWheels h leftDutyPercent rightDutyPercent s =
     Motor_SendPwmOneCycleChannels h rightDutyPercent leftDutyPercent s"

section \<open>Public operations\<close>

definition MotorControl_SetState :: "MotorState \<Rightarrow> 'a act_motor_scheme \<Rightarrow> 'a act_motor_scheme" where
  "MotorControl_SetState state s =
     (if state = MOTOR_STATE_STOP \<or> state = MOTOR_STATE_FORWARD \<or> state = MOTOR_STATE_REVERSE
      then s\<lparr>g_motorState := state\<rparr> else s)"

definition MotorControl_GetState :: "'a act_motor_scheme \<Rightarrow> MotorState" where
  "MotorControl_GetState s = g_motorState s"

definition MotorControl_Forward :: "'a act_motor_scheme \<Rightarrow> 'a act_motor_scheme" where
  "MotorControl_Forward s = MotorControl_SetState MOTOR_STATE_FORWARD s"

definition MotorControl_Reverse :: "'a act_motor_scheme \<Rightarrow> 'a act_motor_scheme" where
  "MotorControl_Reverse s = MotorControl_SetState MOTOR_STATE_REVERSE s"

definition MotorControl_Stop :: "'a act_motor_scheme \<Rightarrow> 'a act_motor_scheme" where
  "MotorControl_Stop s =
     Motor_SetBrakeOnBoth (Motor_SetPwmLowBoth (MotorControl_SetState MOTOR_STATE_STOP s))"

definition MotorControl_Brake :: "'a act_motor_scheme \<Rightarrow> 'a act_motor_scheme" where
  "MotorControl_Brake s =
     Motor_SetBrakeOnBoth (Motor_SetPwmLowBoth (MotorControl_SetState MOTOR_STATE_STOP s))"

definition MotorControl_Coast :: "'a act_motor_scheme \<Rightarrow> 'a act_motor_scheme" where
  "MotorControl_Coast s =
     Motor_SetBrakeOffBoth (Motor_SetPwmLowBoth (MotorControl_SetState MOTOR_STATE_STOP s))"

definition MotorControl_Init :: "'a act_motor_scheme \<Rightarrow> 'a act_motor_scheme" where
  "MotorControl_Init s =
     (let s = set_mode MOTOR_A_PWM OutputPushPull s;
          s = set_mode MOTOR_A_BRAKE OutputPushPull s;
          s = set_mode MOTOR_A_DIR OutputPushPull s;
          s = set_mode MOTOR_B_PWM OutputPushPull s;
          s = set_mode MOTOR_B_BRAKE OutputPushPull s;
          s = set_mode MOTOR_B_DIR OutputPushPull s;
          s = s\<lparr>g_motorState := MOTOR_STATE_STOP, g_dutyPercent := MOTOR_DEFAULT_DUTY_PERCENT,
                g_leftDutyPercent := MOTOR_DEFAULT_DUTY_PERCENT,
                g_rightDutyPercent := MOTOR_DEFAULT_DUTY_PERCENT\<rparr>
      in MotorControl_Stop s)"

definition MotorControl_SetDutyPercent :: "u32 \<Rightarrow> 'a act_motor_scheme \<Rightarrow> 'a act_motor_scheme" where
  "MotorControl_SetDutyPercent dutyPercent s =
     (let dutyPercent = Motor_LimitDutyPercent dutyPercent
      in s\<lparr>g_dutyPercent := dutyPercent, g_leftDutyPercent := dutyPercent,
           g_rightDutyPercent := dutyPercent\<rparr>)"

definition MotorControl_GetDutyPercent :: "'a act_motor_scheme \<Rightarrow> u32" where
  "MotorControl_GetDutyPercent s = g_dutyPercent s"

definition MotorControl_SetWheelDutyPercent ::
  "u32 \<Rightarrow> u32 \<Rightarrow> 'a act_motor_scheme \<Rightarrow> 'a act_motor_scheme" where
  "MotorControl_SetWheelDutyPercent leftDutyPercent rightDutyPercent s =
     (let leftDutyPercent = Motor_LimitDutyPercent leftDutyPercent;
          rightDutyPercent = Motor_LimitDutyPercent rightDutyPercent;
          s = s\<lparr>g_leftDutyPercent := leftDutyPercent, g_rightDutyPercent := rightDutyPercent\<rparr>
      in if leftDutyPercent = rightDutyPercent then s\<lparr>g_dutyPercent := leftDutyPercent\<rparr> else s)"

definition MotorControl_GetLeftDutyPercent :: "'a act_motor_scheme \<Rightarrow> u32" where
  "MotorControl_GetLeftDutyPercent s = g_leftDutyPercent s"

definition MotorControl_GetRightDutyPercent :: "'a act_motor_scheme \<Rightarrow> u32" where
  "MotorControl_GetRightDutyPercent s = g_rightDutyPercent s"

definition MotorControl_Update :: "hw \<Rightarrow> 'a act_motor_scheme \<Rightarrow> 'a act_motor_scheme" where
  "MotorControl_Update h s =
     (case g_motorState s of
        MOTOR_STATE_FORWARD \<Rightarrow>
          let s = Motor_SetBrakeOffBoth s;
              s = Motor_SetDirectionForwardBoth s
          in Motor_SendPwmOneCycleWheels h (g_leftDutyPercent s) (g_rightDutyPercent s) s
      | MOTOR_STATE_REVERSE \<Rightarrow>
          let s = Motor_SetBrakeOffBoth s;
              s = Motor_SetDirectionReverseBoth s
          in Motor_SendPwmOneCycleWheels h (g_leftDutyPercent s) (g_rightDutyPercent s) s
      | MOTOR_STATE_STOP \<Rightarrow>
          Motor_delayUs h MOTOR_PWM_PERIOD_US (Motor_SetBrakeOnBoth (Motor_SetPwmLowBoth s)))"

definition MotorControl_UpdateForMs :: "hw \<Rightarrow> u32 \<Rightarrow> 'a act_motor_scheme \<Rightarrow> 'a act_motor_scheme" where
  "MotorControl_UpdateForMs h holdTimeMs s = (MotorControl_Update h ^^ unat holdTimeMs) s"


section \<open>What a wait does\<close>

lemma Motor_delayUs_zero: "Motor_delayUs h 0 s = s"
  by (subst Motor_delayUs.simps) simp

lemma Motor_delayUs_effect:
  "spent (unat us) (\<lambda>p. if pin_cmd s p then unat us else 0) s (Motor_delayUs h us s) \<and>
   pin_cmd (Motor_delayUs h us s) = pin_cmd s \<and>
   act_encoder.more (Motor_delayUs h us s) = act_encoder.more s"
proof (induction h us s rule: Motor_delayUs.induct)
  case (1 h us s)
  let ?w = "\<lambda>n. Encoder_Poll h (wait_us n s)"
  have w: "spent (unat n) (\<lambda>p. if pin_cmd s p then unat n else 0) s (?w n)" "pin_cmd (?w n) = pin_cmd s"
    "act_encoder.more (?w n) = act_encoder.more s" for n
    using spent_after [OF spent_wait [of n s], of "?w n"] by (simp_all add: wait_us_def)
  show ?case
  proof (cases "50 \<le> us")
    case True
    then have n: "unat us = 50 + unat (us - 50)" by (simp add: unat_sub word_le_nat_alt)
    from True have run: "Motor_delayUs h us s = Motor_delayUs h (us - 50) (?w 50)"
      by (subst Motor_delayUs.simps) simp
    from 1 True w(2,3) have IH:
      "spent (unat (us - 50)) (\<lambda>p. if pin_cmd s p then unat (us - 50) else 0) (?w 50) (Motor_delayUs h us s)"
      "pin_cmd (Motor_delayUs h us s) = pin_cmd s"
      "act_encoder.more (Motor_delayUs h us s) = act_encoder.more s"
      by (simp_all add: run)
    show ?thesis
      using IH spent_cong [OF spent_trans [OF w(1) [of 50] IH(1)], of "unat us"] n by simp
  next
    case False
    then have run: "Motor_delayUs h us s = (if us > 0 then ?w us else s)"
      by (subst Motor_delayUs.simps) simp
    show ?thesis
    proof (cases "us = 0")
      case True
      have "spent 0 (\<lambda>p. if pin_cmd s p then unat (0 :: u32) else 0) s s"
        by (rule spent_cong [OF spent_refl]) simp_all
      then show ?thesis unfolding True Motor_delayUs_zero by simp
    next
      case False
      then show ?thesis using w [of us] by (simp add: run word_gt_0)
    qed
  qed
qed

lemmas Motor_delayUs_frame [fw_frame, simp] = Motor_delayUs_effect [THEN conjunct2, THEN conjunct1]
  Motor_delayUs_effect [THEN conjunct2, THEN conjunct2]

section \<open>What a PWM cycle does\<close>

text \<open>The time in microseconds a PWM pin with duty \<open>d\<close> is high in a cycle.\<close>

definition duty_us :: "u32 \<Rightarrow> nat" where
  "duty_us d = 10 * min 100 (unat d)"

lemma high_time: "unat ((1000 * Motor_LimitDutyPercent d) div 100) = duty_us d"
proof -
  define e where "e = Motor_LimitDutyPercent d"
  have e: "unat e = min 100 (unat d)"
    by (auto simp: e_def Motor_LimitDutyPercent_def word_less_nat_alt min_def)
  have "unat (1000 * e) = 1000 * unat e" by (subst unat_mult_lem [THEN iffD1]) (simp_all add: e min_def)
  then show ?thesis by (simp add: duty_us_def unat_div e flip: e_def)
qed

text \<open>The branches of the cycle are one: wait the shorter time, lower that pin, wait the rest.\<close>

definition pwm_tail :: "hw \<Rightarrow> pin \<Rightarrow> pin \<Rightarrow> u32 \<Rightarrow> u32 \<Rightarrow> 'a act_encoder_scheme \<Rightarrow> 'a act_encoder_scheme" where
  "pwm_tail h p q lo hi s =
     Motor_delayUs h (1000 - hi) (set_pin q False (Motor_delayUs h (hi - lo)
       (set_pin p False (Motor_delayUs h lo s))))"

lemma set_pin_more [fw_frame, simp]:
  "act_encoder.more (set_pin p b s) = act_encoder.more s" "act_encoder.more (wait_us n s) = act_encoder.more s"
  by (simp_all add: set_pin_def wait_us_def)

lemma pwm_tail_effect:
  assumes "p \<noteq> q" "lo \<le> hi" "hi \<le> 1000" "pin_cmd s p = (0 < lo)" "pin_cmd s q = (0 < hi)"
  shows "spent 1000 (\<lambda>r. if r = p then unat lo else if r = q then unat hi else if pin_cmd s r then 1000 else 0)
      s (pwm_tail h p q lo hi s)"
    and "pin_cmd (pwm_tail h p q lo hi s) = (pin_cmd s)(p := False, q := False)"
    and "act_encoder.more (pwm_tail h p q lo hi s) = act_encoder.more s"
proof -
  let ?a = "Motor_delayUs h lo s" let ?b = "set_pin p False ?a"
  let ?c = "Motor_delayUs h (hi - lo) ?b" let ?d = "set_pin q False ?c"
  have n: "unat (hi - lo) = unat hi - unat lo" "unat (1000 - hi) = 1000 - unat hi"
    "unat lo \<le> unat hi" "unat hi \<le> 1000"
    using assms(2,3) by (simp_all add: unat_sub word_le_nat_alt)
  have z: "lo = 0 \<Longrightarrow> unat lo = 0" "hi = 0 \<Longrightarrow> unat hi = 0" by simp_all
  note s1 = Motor_delayUs_effect [of lo s h, THEN conjunct1]
  note s2 = spent_trans [OF s1 spent_set_pin [of ?a p False]]
  note s3 = spent_trans [OF s2 Motor_delayUs_effect [of "hi - lo" ?b h, THEN conjunct1]]
  note s4 = spent_trans [OF s3 spent_set_pin [of ?c q False]]
  note s5 = spent_trans [OF s4 Motor_delayUs_effect [of "1000 - hi" ?d h, THEN conjunct1]]
  show "spent 1000 (\<lambda>r. if r = p then unat lo else if r = q then unat hi else if pin_cmd s r then 1000 else 0)
      s (pwm_tail h p q lo hi s)"
    unfolding pwm_tail_def
    by (rule spent_cong [OF s5])
      (use assms n z in \<open>auto simp: word_gt_0\<close>)
  show "pin_cmd (pwm_tail h p q lo hi s) = (pin_cmd s)(p := False, q := False)"
    by (simp add: pwm_tail_def)
  show "act_encoder.more (pwm_tail h p q lo hi s) = act_encoder.more s" by (simp add: pwm_tail_def)
qed

lemma cycle_tail:
  assumes "dA = Motor_LimitDutyPercent dutyA" "dB = Motor_LimitDutyPercent dutyB"
    and "a = (1000 * dA) div 100" "b = (1000 * dB) div 100"
    and "u = (let s = Motor_SetPwmLowBoth s; s = (if a > 0 then MotorA_SetPwmHigh s else s)
      in if b > 0 then MotorB_SetPwmHigh s else s)"
  shows "Motor_SendPwmOneCycleChannels h dutyA dutyB s =
    (if a = b then Motor_delayUs h (1000 - a) (Motor_SetPwmLowBoth (Motor_delayUs h a u))
     else if a < b then pwm_tail h MOTOR_A_PWM MOTOR_B_PWM a b u
     else pwm_tail h MOTOR_B_PWM MOTOR_A_PWM b a u)"
proof -
  have le: "unat a \<le> 1000" "unat b \<le> 1000"
    using high_time [of dutyA] high_time [of dutyB] by (simp_all add: assms(1-4) duty_us_def)
  then have "a \<le> 1000" "b \<le> 1000" by (simp_all add: word_le_nat_alt)
  then have lt: "a < 1000 \<or> a = 1000" "b < 1000 \<or> b = 1000" by (auto simp: le_less)
  have z: "(if x > 0 then Motor_delayUs h x v else v) = Motor_delayUs h x v" for x and v :: "'a act_encoder_scheme"
    by (simp add: word_gt_0 Motor_delayUs_zero)
  have full: "(if x < 1000 then Motor_delayUs h (1000 - x) v else v) = Motor_delayUs h (1000 - x) v"
    if "x < 1000 \<or> x = 1000" for x and v :: "'a act_encoder_scheme"
    using that by (auto simp: Motor_delayUs_zero)
  show ?thesis
    unfolding Motor_SendPwmOneCycleChannels_def Let_def assms(1,2) [symmetric] assms(3,4) [symmetric]
    unfolding assms(5) Let_def z full [OF lt(1)] full [OF lt(2)] pwm_tail_def MotorA_SetPwmLow_def
      MotorB_SetPwmLow_def by simp
qed

lemma Motor_cycle_effect:
  defines "k \<equiv> \<lambda>s dutyA dutyB p. if p = MOTOR_A_PWM then duty_us dutyA else if p = MOTOR_B_PWM then duty_us dutyB
    else if pin_cmd s p then 1000 else 0"
  shows "spent 1000 (k s dutyA dutyB) s (Motor_SendPwmOneCycleChannels h dutyA dutyB s)"
    and "pin_cmd (Motor_SendPwmOneCycleChannels h dutyA dutyB s) =
      (pin_cmd s)(MOTOR_A_PWM := False, MOTOR_B_PWM := False)"
    and "act_encoder.more (Motor_SendPwmOneCycleChannels h dutyA dutyB s) = act_encoder.more s"
proof -
  define a where "a = (1000 * Motor_LimitDutyPercent dutyA) div 100"
  define b where "b = (1000 * Motor_LimitDutyPercent dutyB) div 100"
  define v where "v = (if a > 0 then MotorA_SetPwmHigh (Motor_SetPwmLowBoth s) else Motor_SetPwmLowBoth s)"
  define u where "u = (if b > 0 then MotorB_SetPwmHigh v else v)"
  have u0: "spent 0 (\<lambda>p. 0) s u" "pin_cmd u = (pin_cmd s)(MOTOR_A_PWM := 0 < a, MOTOR_B_PWM := 0 < b)"
    "act_encoder.more u = act_encoder.more s"
  proof -
    have t: "spent 0 (\<lambda>p. 0) x y \<Longrightarrow> spent 0 (\<lambda>p. 0) y z \<Longrightarrow> spent 0 (\<lambda>p. 0) x z" for x y z :: "'a act_encoder_scheme"
      using spent_trans by fastforce
    have "spent 0 (\<lambda>p. 0) s (Motor_SetPwmLowBoth s)"
      unfolding Motor_SetPwmLowBoth_def by (rule t [OF spent_set_pin spent_set_pin])
    then have "spent 0 (\<lambda>p. 0) s v" by (simp add: v_def MotorA_SetPwmHigh_def t [OF _ spent_set_pin])
    then show "spent 0 (\<lambda>p. 0) s u" by (simp add: u_def MotorB_SetPwmHigh_def t [OF _ spent_set_pin])
    show "pin_cmd u = (pin_cmd s)(MOTOR_A_PWM := 0 < a, MOTOR_B_PWM := 0 < b)"
      "act_encoder.more u = act_encoder.more s"
      by (auto simp: u_def v_def motor_pin_defs intro: fun_upd_twist)
  qed
  have un: "unat a = duty_us dutyA" "unat b = duty_us dutyB"
    by (simp_all add: a_def b_def high_time)
  then have le: "a \<le> 1000" "b \<le> 1000" by (simp_all add: word_le_nat_alt duty_us_def)
  have run: "Motor_SendPwmOneCycleChannels h dutyA dutyB s =
    (if a = b then Motor_delayUs h (1000 - a) (Motor_SetPwmLowBoth (Motor_delayUs h a u))
     else if a < b then pwm_tail h MOTOR_A_PWM MOTOR_B_PWM a b u
     else pwm_tail h MOTOR_B_PWM MOTOR_A_PWM b a u)"
    by (rule cycle_tail [OF refl refl a_def b_def]) (simp add: u_def v_def Let_def)
  have "spent 1000 (k s dutyA dutyB) u (Motor_SendPwmOneCycleChannels h dutyA dutyB s) \<and>
    pin_cmd (Motor_SendPwmOneCycleChannels h dutyA dutyB s) = (pin_cmd s)(MOTOR_A_PWM := False, MOTOR_B_PWM := False) \<and>
    act_encoder.more (Motor_SendPwmOneCycleChannels h dutyA dutyB s) = act_encoder.more s"
  proof (cases a b rule: linorder_cases)
    case less
    have c: "MOTOR_A_PWM \<noteq> MOTOR_B_PWM" "a \<le> b" "pin_cmd u MOTOR_A_PWM = (0 < a)" "pin_cmd u MOTOR_B_PWM = (0 < b)"
      using less by (simp_all add: u0(2))
    note e = pwm_tail_effect [OF c(1,2) le(2) c(3,4), of h]
    have r: "Motor_SendPwmOneCycleChannels h dutyA dutyB s = pwm_tail h MOTOR_A_PWM MOTOR_B_PWM a b u"
      unfolding run using less by auto
    have "spent 1000 (k s dutyA dutyB) u (Motor_SendPwmOneCycleChannels h dutyA dutyB s)"
      unfolding r by (rule spent_cong [OF e(1)]) (use un in \<open>auto simp: k_def u0(2)\<close>)
    then show ?thesis unfolding r e(2,3) u0(2,3) by (auto intro: fun_upd_twist)
  next
    case greater
    have c: "MOTOR_B_PWM \<noteq> MOTOR_A_PWM" "b \<le> a" "pin_cmd u MOTOR_B_PWM = (0 < b)" "pin_cmd u MOTOR_A_PWM = (0 < a)"
      using greater by (simp_all add: u0(2))
    note e = pwm_tail_effect [OF c(1,2) le(1) c(3,4), of h]
    have r: "Motor_SendPwmOneCycleChannels h dutyA dutyB s = pwm_tail h MOTOR_B_PWM MOTOR_A_PWM b a u"
      unfolding run using greater by auto
    have "spent 1000 (k s dutyA dutyB) u (Motor_SendPwmOneCycleChannels h dutyA dutyB s)"
      unfolding r by (rule spent_cong [OF e(1)]) (use un in \<open>auto simp: k_def u0(2)\<close>)
    then show ?thesis unfolding r e(2,3) u0(2,3) by (auto intro: fun_upd_twist)
  next
    case equal
    let ?a = "Motor_delayUs h a u" let ?b = "Motor_SetPwmLowBoth ?a"
    have b: "spent 0 (\<lambda>p. 0) ?a ?b"
      unfolding Motor_SetPwmLowBoth_def using spent_trans [OF spent_set_pin spent_set_pin] by fastforce
    note s = spent_trans [OF spent_trans [OF Motor_delayUs_effect [of a u h, THEN conjunct1] b]
        Motor_delayUs_effect [of "1000 - a" ?b h, THEN conjunct1]]
    have n: "unat (1000 - a) = 1000 - unat a" "unat a \<le> 1000" using le(1) by (simp_all add: unat_sub word_le_nat_alt)
    have z: "a = 0 \<Longrightarrow> unat a = 0" by simp
    have r: "Motor_SendPwmOneCycleChannels h dutyA dutyB s = Motor_delayUs h (1000 - a) ?b"
      using equal by (simp add: run)
    have "spent 1000 (k s dutyA dutyB) u (Motor_SendPwmOneCycleChannels h dutyA dutyB s)"
      unfolding r by (rule spent_cong [OF s])
        (use equal un n z in \<open>auto simp: k_def u0(2) word_gt_0 motor_pin_defs\<close>)
    then show ?thesis unfolding r by (auto simp: motor_pin_defs u0(2,3))
  qed
  with spent_zero_trans [OF u0(1)]
  show "spent 1000 (k s dutyA dutyB) s (Motor_SendPwmOneCycleChannels h dutyA dutyB s)"
    "pin_cmd (Motor_SendPwmOneCycleChannels h dutyA dutyB s) = (pin_cmd s)(MOTOR_A_PWM := False, MOTOR_B_PWM := False)"
    "act_encoder.more (Motor_SendPwmOneCycleChannels h dutyA dutyB s) = act_encoder.more s"
    by blast+
qed

section \<open>What an update does\<close>

definition motor_high_us :: "'a act_motor_scheme \<Rightarrow> pin \<Rightarrow> nat" where
  "motor_high_us s p =
     (if g_motorState s = MOTOR_STATE_STOP then 0
      else if p = MOTOR_A_PWM then duty_us (g_rightDutyPercent s) else duty_us (g_leftDutyPercent s))"

definition motor_pins :: "MotorState \<Rightarrow> (pin \<Rightarrow> bool) \<Rightarrow> bool" where
  "motor_pins st m \<longleftrightarrow> \<not> m MOTOR_A_PWM \<and> \<not> m MOTOR_B_PWM \<and>
     m MOTOR_A_BRAKE = (st = MOTOR_STATE_STOP) \<and> m MOTOR_B_BRAKE = (st = MOTOR_STATE_STOP) \<and>
     (st = MOTOR_STATE_FORWARD \<longrightarrow> m MOTOR_A_DIR \<and> \<not> m MOTOR_B_DIR) \<and>
     (st = MOTOR_STATE_REVERSE \<longrightarrow> \<not> m MOTOR_A_DIR \<and> m MOTOR_B_DIR)"

lemma spent_zero_pins:
  "spent 0 (\<lambda>p. 0) s (Motor_SetPwmLowBoth s)" "spent 0 (\<lambda>p. 0) s (Motor_SetBrakeOnBoth s)"
  "spent 0 (\<lambda>p. 0) s (Motor_SetBrakeOffBoth s)" "spent 0 (\<lambda>p. 0) s (Motor_SetDirectionForwardBoth s)"
  "spent 0 (\<lambda>p. 0) s (Motor_SetDirectionReverseBoth s)"
  by (simp_all add: motor_pin_defs spent_zero_trans [OF spent_set_pin spent_set_pin])

text \<open>
  \<open>motor_cycle s t\<close>: from \<open>s\<close> to \<open>t\<close> one PWM period passed, each PWM pin was high for the time its
  duty asks for, no other pin than the motor's six changed, and the state of the program above the
  encoder is the same.
\<close>

definition motor_cycle :: "'a act_motor_scheme \<Rightarrow> 'a act_motor_scheme \<Rightarrow> bool" where
  "motor_cycle s t \<longleftrightarrow>
     (\<exists>k. spent 1000 k s t \<and> k MOTOR_A_PWM = motor_high_us s MOTOR_A_PWM \<and> k MOTOR_B_PWM = motor_high_us s MOTOR_B_PWM \<and>
        (\<forall>p. p \<notin> {MOTOR_A_PWM, MOTOR_A_BRAKE, MOTOR_A_DIR, MOTOR_B_PWM, MOTOR_B_BRAKE, MOTOR_B_DIR} \<longrightarrow>
           k p = (if pin_cmd s p then 1000 else 0))) \<and>
     motor_pins (g_motorState s) (pin_cmd t) \<and>
     (\<forall>p. p \<notin> {MOTOR_A_PWM, MOTOR_A_BRAKE, MOTOR_A_DIR, MOTOR_B_PWM, MOTOR_B_BRAKE, MOTOR_B_DIR} \<longrightarrow>
        pin_cmd t p = pin_cmd s p) \<and>
     act_encoder.more t = act_encoder.more s"

lemma motor_fields_more:
  assumes "act_encoder.more t = act_encoder.more s"
  shows "g_motorState t = g_motorState s" "g_dutyPercent t = g_dutyPercent s"
    "g_leftDutyPercent t = g_leftDutyPercent s" "g_rightDutyPercent t = g_rightDutyPercent s"
    "act_motor.more t = act_motor.more s"
  using assms by (cases s; cases t; simp)+

lemma MotorControl_Update_cycle: "motor_cycle s (MotorControl_Update h s)"
proof -
  have go: "motor_cycle s (Motor_SendPwmOneCycleWheels h (g_leftDutyPercent u) (g_rightDutyPercent u) u)"
    if u: "spent 0 (\<lambda>p. 0) s u" "act_encoder.more u = act_encoder.more s"
      "\<And>p. p \<notin> {MOTOR_A_BRAKE, MOTOR_A_DIR, MOTOR_B_BRAKE, MOTOR_B_DIR} \<Longrightarrow> pin_cmd u p = pin_cmd s p"
      "motor_pins (g_motorState s) ((pin_cmd u)(MOTOR_A_PWM := False, MOTOR_B_PWM := False))"
      "g_motorState s \<noteq> MOTOR_STATE_STOP" for u
  proof -
    let ?t = "Motor_SendPwmOneCycleChannels h (g_rightDutyPercent u) (g_leftDutyPercent u) u"
    note e = Motor_cycle_effect [where s = u and h = h and dutyA = "g_rightDutyPercent u" and dutyB = "g_leftDutyPercent u"]
    have "spent 1000 (\<lambda>p. if p = MOTOR_A_PWM then duty_us (g_rightDutyPercent u)
        else if p = MOTOR_B_PWM then duty_us (g_leftDutyPercent u) else if pin_cmd u p then 1000 else 0) s ?t"
      by (rule spent_zero_trans [OF u(1) e(1)])
    then show ?thesis
      unfolding motor_cycle_def Motor_SendPwmOneCycleWheels_def e(2,3) u(2)
      using u(3-5) motor_fields_more [OF u(2)]
      by (intro conjI exI [of _ "\<lambda>p. if p = MOTOR_A_PWM then duty_us (g_rightDutyPercent u)
        else if p = MOTOR_B_PWM then duty_us (g_leftDutyPercent u) else if pin_cmd u p then 1000 else 0"])
        (auto simp: motor_high_us_def)
  qed
  show ?thesis
  proof (cases "g_motorState s")
    case MOTOR_STATE_STOP
    let ?u = "Motor_SetBrakeOnBoth (Motor_SetPwmLowBoth s)"
    have "spent 1000 (\<lambda>p. if pin_cmd ?u p then 1000 else 0) s (Motor_delayUs h 1000 ?u)"
      by (rule spent_cong [OF spent_zero_trans [OF spent_zero_pins(1) spent_zero_trans [OF spent_zero_pins(2)
            Motor_delayUs_effect [of 1000 ?u h, THEN conjunct1]]]]) simp_all
    then show ?thesis
      using MOTOR_STATE_STOP unfolding motor_cycle_def MotorControl_Update_def
      by (intro conjI exI [of _ "\<lambda>p. if pin_cmd ?u p then 1000 else 0"])
        (auto simp: motor_high_us_def motor_pins_def motor_pin_defs)
  next
    case MOTOR_STATE_FORWARD
    let ?u = "Motor_SetDirectionForwardBoth (Motor_SetBrakeOffBoth s)"
    have "motor_cycle s (Motor_SendPwmOneCycleWheels h (g_leftDutyPercent ?u) (g_rightDutyPercent ?u) ?u)"
      using MOTOR_STATE_FORWARD
      by (intro go spent_zero_trans [OF spent_zero_pins(3) spent_zero_pins(4)])
        (auto simp: motor_pin_defs motor_pins_def)
    then show ?thesis using MOTOR_STATE_FORWARD by (simp add: MotorControl_Update_def Let_def)
  next
    case MOTOR_STATE_REVERSE
    let ?u = "Motor_SetDirectionReverseBoth (Motor_SetBrakeOffBoth s)"
    have "motor_cycle s (Motor_SendPwmOneCycleWheels h (g_leftDutyPercent ?u) (g_rightDutyPercent ?u) ?u)"
      using MOTOR_STATE_REVERSE
      by (intro go spent_zero_trans [OF spent_zero_pins(3) spent_zero_pins(5)])
        (auto simp: motor_pin_defs motor_pins_def)
    then show ?thesis using MOTOR_STATE_REVERSE by (simp add: MotorControl_Update_def Let_def)
  qed
qed

end
