(* ===== verification/Act_Servo.thy ===== *)
theory Act_Servo
  imports Act_Motor
begin

text \<open>
  The steering servo of the ACT ECU, \<open>src/ACT/Servo.c\<close>: a pulse of 900 to 1500 us every 20 ms,
  during whose low part the motor PWM keeps running. The lemmas give the length of the pulse and of
  the period, and what a steering command does to the target.
\<close>

abbreviation (input) SERVO_PIN :: pin where "SERVO_PIN \<equiv> (2, 3)"
abbreviation (input) SERVO_PERIOD_US :: u32 where "SERVO_PERIOD_US \<equiv> 20000"
abbreviation (input) SERVO_ENCODER_POLL_STEP_US :: u32 where "SERVO_ENCODER_POLL_STEP_US \<equiv> 50"
abbreviation (input) SERVO_MIN_US :: u32 where "SERVO_MIN_US \<equiv> 900"
abbreviation (input) SERVO_MAX_US :: u32 where "SERVO_MAX_US \<equiv> 1500"
abbreviation (input) STEERING_LEFT_US :: u32 where "STEERING_LEFT_US \<equiv> 900"
abbreviation (input) STEERING_MIDDLE_US :: u32 where "STEERING_MIDDLE_US \<equiv> 1200"
abbreviation (input) STEERING_RIGHT_US :: u32 where "STEERING_RIGHT_US \<equiv> 1500"

datatype SteeringState = STEERING_LEFT | STEERING_MIDDLE | STEERING_RIGHT

datatype SteeringKey = STEERING_KEY_NULL | STEERING_KEY_LEFT | STEERING_KEY_RIGHT

record act_servo = act_motor +
  g_steeringState :: SteeringState
  g_steeringKey :: SteeringKey
  g_currentPulseUs :: u32

section \<open>Waiting\<close>

function Servo_delayUs :: "hw \<Rightarrow> u32 \<Rightarrow> 'a act_encoder_scheme \<Rightarrow> 'a act_encoder_scheme" where
  "Servo_delayUs h us s =
     (if us \<ge> SERVO_ENCODER_POLL_STEP_US
      then Servo_delayUs h (us - SERVO_ENCODER_POLL_STEP_US)
             (Encoder_Poll h (wait_us SERVO_ENCODER_POLL_STEP_US s))
      else if us > 0 then Encoder_Poll h (wait_us us s)
      else s)"
  by pat_completeness auto
termination
  by (relation "measure (\<lambda>(h, us, s). unat us)") (auto simp: word_le_nat_alt unat_sub)

declare Servo_delayUs.simps [simp del]

function delayLowUsWithMotorUpdate :: "hw \<Rightarrow> u32 \<Rightarrow> 'a act_motor_scheme \<Rightarrow> 'a act_motor_scheme" where
  "delayLowUsWithMotorUpdate h us s =
     (if us \<ge> 1000
      then delayLowUsWithMotorUpdate h (us - 1000) (Encoder_Update1ms h (MotorControl_Update h s))
      else if us > 0 then Servo_delayUs h us s
      else s)"
  by pat_completeness auto
termination
  by (relation "measure (\<lambda>(h, us, s). unat us)") (auto simp: word_le_nat_alt unat_sub)

declare delayLowUsWithMotorUpdate.simps [simp del]

section \<open>Pulse and state\<close>

definition Servo_LimitPulseUs :: "u32 \<Rightarrow> u32" where
  "Servo_LimitPulseUs pulseUs =
     (let pulseUs = (if pulseUs < SERVO_MIN_US then SERVO_MIN_US else pulseUs)
      in if pulseUs > SERVO_MAX_US then SERVO_MAX_US else pulseUs)"

definition Servo_AbsDiffUs :: "u32 \<Rightarrow> u32 \<Rightarrow> u32" where
  "Servo_AbsDiffUs a b = (if a > b then a - b else b - a)"

definition Steering_StateToPulseUs :: "SteeringState \<Rightarrow> u32" where
  "Steering_StateToPulseUs state =
     Servo_LimitPulseUs (case state of
        STEERING_LEFT \<Rightarrow> STEERING_LEFT_US
      | STEERING_RIGHT \<Rightarrow> STEERING_RIGHT_US
      | STEERING_MIDDLE \<Rightarrow> STEERING_MIDDLE_US)"

definition Steering_UpdateStateFromPulse :: "'a act_servo_scheme \<Rightarrow> 'a act_servo_scheme" where
  "Steering_UpdateStateFromPulse s =
     (let leftDiff = Servo_AbsDiffUs (g_currentPulseUs s) STEERING_LEFT_US;
          middleDiff = Servo_AbsDiffUs (g_currentPulseUs s) STEERING_MIDDLE_US;
          rightDiff = Servo_AbsDiffUs (g_currentPulseUs s) STEERING_RIGHT_US
      in if leftDiff \<le> middleDiff \<and> leftDiff \<le> rightDiff
         then s\<lparr>g_steeringState := STEERING_LEFT\<rparr>
         else if rightDiff \<le> middleDiff \<and> rightDiff \<le> leftDiff
         then s\<lparr>g_steeringState := STEERING_RIGHT\<rparr>
         else s\<lparr>g_steeringState := STEERING_MIDDLE\<rparr>)"

definition Steering_SetTargetPulseImmediate :: "u32 \<Rightarrow> 'a act_servo_scheme \<Rightarrow> 'a act_servo_scheme" where
  "Steering_SetTargetPulseImmediate targetPulseUs s =
     Steering_UpdateStateFromPulse (s\<lparr>g_currentPulseUs := Servo_LimitPulseUs targetPulseUs\<rparr>)"

definition Steering_UpdatePulseByKey :: "'a act_servo_scheme \<Rightarrow> 'a act_servo_scheme" where
  "Steering_UpdatePulseByKey s =
     (case g_steeringKey s of
        STEERING_KEY_LEFT \<Rightarrow> Steering_SetTargetPulseImmediate STEERING_LEFT_US s
      | STEERING_KEY_RIGHT \<Rightarrow> Steering_SetTargetPulseImmediate STEERING_RIGHT_US s
      | STEERING_KEY_NULL \<Rightarrow> Steering_SetTargetPulseImmediate STEERING_MIDDLE_US s)"

definition Steering_Init :: "'a act_servo_scheme \<Rightarrow> 'a act_servo_scheme" where
  "Steering_Init s =
     (let s = set_mode SERVO_PIN OutputPushPull s;
          s = set_pin SERVO_PIN False s
      in s\<lparr>g_steeringState := STEERING_MIDDLE, g_steeringKey := STEERING_KEY_NULL,
           g_currentPulseUs := Servo_LimitPulseUs STEERING_MIDDLE_US\<rparr>)"

definition Steering_SetState :: "SteeringState \<Rightarrow> 'a act_servo_scheme \<Rightarrow> 'a act_servo_scheme" where
  "Steering_SetState state s =
     (if state = STEERING_LEFT \<or> state = STEERING_MIDDLE \<or> state = STEERING_RIGHT
      then s\<lparr>g_steeringKey := STEERING_KEY_NULL, g_steeringState := state,
             g_currentPulseUs := Steering_StateToPulseUs state\<rparr>
      else s)"

definition Steering_GetState :: "'a act_servo_scheme \<Rightarrow> SteeringState" where
  "Steering_GetState s = g_steeringState s"

definition Steering_SetKey :: "SteeringKey \<Rightarrow> 'a act_servo_scheme \<Rightarrow> 'a act_servo_scheme" where
  "Steering_SetKey key s =
     (if key = STEERING_KEY_NULL \<or> key = STEERING_KEY_LEFT \<or> key = STEERING_KEY_RIGHT
      then
        let s = s\<lparr>g_steeringKey := key\<rparr>
        in (case key of
              STEERING_KEY_LEFT \<Rightarrow> Steering_SetTargetPulseImmediate STEERING_LEFT_US s
            | STEERING_KEY_RIGHT \<Rightarrow> Steering_SetTargetPulseImmediate STEERING_RIGHT_US s
            | STEERING_KEY_NULL \<Rightarrow> Steering_SetTargetPulseImmediate STEERING_MIDDLE_US s)
      else s)"

definition Steering_GetKey :: "'a act_servo_scheme \<Rightarrow> SteeringKey" where
  "Steering_GetKey s = g_steeringKey s"

definition Steering_Center :: "'a act_servo_scheme \<Rightarrow> 'a act_servo_scheme" where
  "Steering_Center s = Steering_SetState STEERING_MIDDLE s"

definition Steering_SetPulseUs :: "u32 \<Rightarrow> 'a act_servo_scheme \<Rightarrow> 'a act_servo_scheme" where
  "Steering_SetPulseUs pulseUs s =
     Steering_UpdateStateFromPulse
       (s\<lparr>g_steeringKey := STEERING_KEY_NULL, g_currentPulseUs := Servo_LimitPulseUs pulseUs\<rparr>)"

definition Steering_GetPulseUs :: "'a act_servo_scheme \<Rightarrow> u32" where
  "Steering_GetPulseUs s = g_currentPulseUs s"

definition Servo_SendOnePulse :: "hw \<Rightarrow> u32 \<Rightarrow> 'a act_servo_scheme \<Rightarrow> 'a act_servo_scheme" where
  "Servo_SendOnePulse h highTimeUs s =
     (let highTimeUs = Servo_LimitPulseUs highTimeUs;
          lowTimeUs = SERVO_PERIOD_US - highTimeUs;
          s = set_pin SERVO_PIN True s;
          s = Servo_delayUs h highTimeUs s;
          s = set_pin SERVO_PIN False s
      in delayLowUsWithMotorUpdate h lowTimeUs s)"

definition Steering_Update :: "hw \<Rightarrow> 'a act_servo_scheme \<Rightarrow> 'a act_servo_scheme" where
  "Steering_Update h s =
     (let s = Steering_UpdatePulseByKey s
      in Servo_SendOnePulse h (g_currentPulseUs s) s)"

definition Steering_UpdateForMs :: "hw \<Rightarrow> u32 \<Rightarrow> 'a act_servo_scheme \<Rightarrow> 'a act_servo_scheme" where
  "Steering_UpdateForMs h holdTimeMs s =
     (let count = holdTimeMs div 20;
          count = (if count = 0 then 1 else count)
      in (Steering_Update h ^^ unat count) s)"

definition Servo_HoldPosition :: "hw \<Rightarrow> u32 \<Rightarrow> u32 \<Rightarrow> 'a act_servo_scheme \<Rightarrow> 'a act_servo_scheme" where
  "Servo_HoldPosition h highTimeUs holdTimeMs s =
     (let count = holdTimeMs div 20;
          count = (if count = 0 then 1 else count)
      in (Servo_SendOnePulse h highTimeUs ^^ unat count) s)"

section \<open>The target of a command\<close>

definition key_pulse :: "SteeringKey \<Rightarrow> u32" where
  "key_pulse k = (case k of STEERING_KEY_LEFT \<Rightarrow> 900 | STEERING_KEY_RIGHT \<Rightarrow> 1500 | STEERING_KEY_NULL \<Rightarrow> 1200)"

definition key_state :: "SteeringKey \<Rightarrow> SteeringState" where
  "key_state k = (case k of STEERING_KEY_LEFT \<Rightarrow> STEERING_LEFT | STEERING_KEY_RIGHT \<Rightarrow> STEERING_RIGHT
     | STEERING_KEY_NULL \<Rightarrow> STEERING_MIDDLE)"

lemma SetTarget_eval:
  "Steering_SetTargetPulseImmediate 900 s = s\<lparr>g_currentPulseUs := 900, g_steeringState := STEERING_LEFT\<rparr>"
  "Steering_SetTargetPulseImmediate 1200 s = s\<lparr>g_currentPulseUs := 1200, g_steeringState := STEERING_MIDDLE\<rparr>"
  "Steering_SetTargetPulseImmediate 1500 s = s\<lparr>g_currentPulseUs := 1500, g_steeringState := STEERING_RIGHT\<rparr>"
  by (simp_all add: Steering_SetTargetPulseImmediate_def Servo_LimitPulseUs_def Let_def
      Steering_UpdateStateFromPulse_def Servo_AbsDiffUs_def word_less_nat_alt word_le_nat_alt)

lemma SetKey_form:
  "Steering_SetKey k s = s\<lparr>g_steeringKey := k, g_currentPulseUs := key_pulse k, g_steeringState := key_state k\<rparr>"
  by (cases k) (simp_all add: Steering_SetKey_def SetTarget_eval key_pulse_def key_state_def Let_def)

lemma UpdatePulseByKey_form:
  "Steering_UpdatePulseByKey s = s\<lparr>g_currentPulseUs := key_pulse (g_steeringKey s),
     g_steeringState := key_state (g_steeringKey s)\<rparr>"
  by (cases "g_steeringKey s") (simp_all add: Steering_UpdatePulseByKey_def SetTarget_eval key_pulse_def key_state_def)

lemma Center_form:
  "Steering_Center s = s\<lparr>g_steeringKey := STEERING_KEY_NULL, g_steeringState := STEERING_MIDDLE, g_currentPulseUs := 1200\<rparr>"
  by (simp add: Steering_Center_def Steering_SetState_def Steering_StateToPulseUs_def Servo_LimitPulseUs_def Let_def)

lemma LimitPulse_range: "900 \<le> Servo_LimitPulseUs p" "Servo_LimitPulseUs p \<le> 1500"
  by (auto simp: Servo_LimitPulseUs_def Let_def)

lemma LimitPulse_same: "900 \<le> p \<Longrightarrow> p \<le> 1500 \<Longrightarrow> Servo_LimitPulseUs p = p"
  by (auto simp: Servo_LimitPulseUs_def Let_def)

lemma key_pulse_limit [simp]: "Servo_LimitPulseUs (key_pulse k) = key_pulse k"
  by (cases k) (simp_all add: key_pulse_def Servo_LimitPulseUs_def)

section \<open>The servo period\<close>

lemma Servo_delayUs_eq: "Servo_delayUs h us s = Motor_delayUs h us s"
proof (induction h us s rule: Motor_delayUs.induct)
  case (1 h us s)
  then show ?case by (subst Servo_delayUs.simps, subst Motor_delayUs.simps) simp
qed

text \<open>
  \<open>drive_span n s t\<close>: for \<open>n\<close> microseconds the motor kept running on the same command, and every pin
  that is not the motor's kept its level.
\<close>

definition motor_pin_set :: "pin set" where
  "motor_pin_set = {MOTOR_A_PWM, MOTOR_A_BRAKE, MOTOR_A_DIR, MOTOR_B_PWM, MOTOR_B_BRAKE, MOTOR_B_DIR}"

definition drive_span :: "nat \<Rightarrow> 'a act_motor_scheme \<Rightarrow> 'a act_motor_scheme \<Rightarrow> bool" where
  "drive_span n s t \<longleftrightarrow>
     (\<exists>k. spent n k s t \<and> (\<forall>p. p \<notin> motor_pin_set \<longrightarrow> k p = (if pin_cmd s p then n else 0))) \<and>
     (\<forall>p. p \<notin> motor_pin_set \<longrightarrow> pin_cmd t p = pin_cmd s p) \<and>
     (motor_pins (g_motorState s) (pin_cmd s) \<longrightarrow> motor_pins (g_motorState s) (pin_cmd t)) \<and>
     act_encoder.more t = act_encoder.more s"

lemma drive_span_trans:
  assumes "drive_span n s t" "drive_span m t u"
  shows "drive_span (n + m) s u"
proof -
  obtain k where k: "spent n k s t" "\<forall>p. p \<notin> motor_pin_set \<longrightarrow> k p = (if pin_cmd s p then n else 0)"
    using assms(1) unfolding drive_span_def by blast
  obtain j where j: "spent m j t u" "\<forall>p. p \<notin> motor_pin_set \<longrightarrow> j p = (if pin_cmd t p then m else 0)"
    using assms(2) unfolding drive_span_def by blast
  have "\<forall>p. p \<notin> motor_pin_set \<longrightarrow> pin_cmd t p = pin_cmd s p" "act_encoder.more t = act_encoder.more s"
    "motor_pins (g_motorState s) (pin_cmd s) \<longrightarrow> motor_pins (g_motorState s) (pin_cmd t)"
    "\<forall>p. p \<notin> motor_pin_set \<longrightarrow> pin_cmd u p = pin_cmd t p" "act_encoder.more u = act_encoder.more t"
    "motor_pins (g_motorState t) (pin_cmd t) \<longrightarrow> motor_pins (g_motorState t) (pin_cmd u)"
    using assms unfolding drive_span_def by blast+
  then show ?thesis
    unfolding drive_span_def using spent_trans [OF k(1) j(1)] k(2) j(2) motor_fields_more(1) [of t s]
    by (intro conjI exI [of _ "\<lambda>p. k p + j p"]) auto
qed

lemma drive_span_motor: "drive_span 1000 s (MotorControl_Update h s)"
  using MotorControl_Update_cycle [of s h] unfolding motor_cycle_def drive_span_def motor_pin_set_def by blast

lemma drive_span_encoder:
  assumes "drive_span n s t" shows "drive_span n s (Encoder_Update1ms h t)"
proof -
  obtain k where k: "spent n k s t" "\<forall>p. p \<notin> motor_pin_set \<longrightarrow> k p = (if pin_cmd s p then n else 0)"
    using assms unfolding drive_span_def by blast
  have "spent n k s (Encoder_Update1ms h t)" by (rule spent_after [OF k(1)]) simp_all
  with k(2) assms show ?thesis unfolding drive_span_def by auto
qed

lemma drive_span_delay: "drive_span (unat us) s (Motor_delayUs h us s)"
  unfolding drive_span_def using Motor_delayUs_effect [of us s h]
  by (intro conjI exI [of _ "\<lambda>p. if pin_cmd s p then unat us else 0"]) simp_all

lemma delayLow_span: "drive_span (unat us) s (delayLowUsWithMotorUpdate h us s)"
proof (induction h us s rule: delayLowUsWithMotorUpdate.induct)
  case (1 h us s)
  show ?case
  proof (cases "1000 \<le> us")
    case True
    then have n: "unat us = 1000 + unat (us - 1000)" by (simp add: unat_sub word_le_nat_alt)
    from True have "delayLowUsWithMotorUpdate h us s =
        delayLowUsWithMotorUpdate h (us - 1000) (Encoder_Update1ms h (MotorControl_Update h s))"
      by (subst delayLowUsWithMotorUpdate.simps) simp
    with 1 [OF True] show ?thesis
      using drive_span_trans [OF drive_span_encoder [OF drive_span_motor]] n by simp
  next
    case False
    then have "delayLowUsWithMotorUpdate h us s = Motor_delayUs h us s"
      by (subst delayLowUsWithMotorUpdate.simps) (simp add: Servo_delayUs_eq word_gt_0 Motor_delayUs_zero)
    then show ?thesis using drive_span_delay by simp
  qed
qed

text \<open>
  \<open>servo_period w s t\<close>: a period of 20 ms passed, the servo pin was high for \<open>w\<close> of it and low at
  the end, and the motor ran on.
\<close>

definition servo_period :: "nat \<Rightarrow> 'a act_motor_scheme \<Rightarrow> 'a act_motor_scheme \<Rightarrow> bool" where
  "servo_period w s t \<longleftrightarrow>
     (\<exists>k. spent 20000 k s t \<and> k SERVO_PIN = w \<and>
        (\<forall>p. p \<notin> insert SERVO_PIN motor_pin_set \<longrightarrow> k p = (if pin_cmd s p then 20000 else 0))) \<and>
     \<not> pin_cmd t SERVO_PIN \<and>
     (\<forall>p. p \<notin> insert SERVO_PIN motor_pin_set \<longrightarrow> pin_cmd t p = pin_cmd s p) \<and>
     (motor_pins (g_motorState s) (pin_cmd s) \<longrightarrow> motor_pins (g_motorState s) (pin_cmd t)) \<and>
     act_encoder.more t = act_encoder.more s"

lemma motor_pins_servo [simp]: "motor_pins st (m(SERVO_PIN := b)) = motor_pins st m"
  by (simp add: motor_pins_def)

lemma servo_not_motor: "SERVO_PIN \<notin> motor_pin_set"
  by (simp add: motor_pin_set_def)

lemma set_pin_motor_more:
  "g_motorState (set_pin p b s) = g_motorState s"
  by (simp add: set_pin_def)

lemma SendOnePulse_period: "servo_period (unat (Servo_LimitPulseUs w)) s (Servo_SendOnePulse h w s)"
proof -
  define hi where "hi = Servo_LimitPulseUs w"
  have hi: "unat hi \<le> 1500" "unat (20000 - hi) = 20000 - unat hi"
    using LimitPulse_range(2) [of w] by (simp_all add: hi_def word_le_nat_alt unat_sub)
  define a where "a = set_pin SERVO_PIN True s"
  define b where "b = Motor_delayUs h hi a"
  define c where "c = set_pin SERVO_PIN False b"
  define t where "t = delayLowUsWithMotorUpdate h (20000 - hi) c"
  have run: "Servo_SendOnePulse h w s = t"
    by (simp add: Servo_SendOnePulse_def Let_def Servo_delayUs_eq a_def b_def c_def t_def hi_def)
  have pb: "pin_cmd b = (pin_cmd s)(SERVO_PIN := True)" "act_encoder.more b = act_encoder.more s"
    by (simp_all add: b_def a_def)
  have pc: "pin_cmd c = (pin_cmd s)(SERVO_PIN := False)" "act_encoder.more c = act_encoder.more s"
    by (simp_all add: c_def pb)
  have d: "drive_span (unat (20000 - hi)) c t" unfolding t_def by (rule delayLow_span)
  then obtain k where k: "spent (unat (20000 - hi)) k c t"
    "\<forall>p. p \<notin> motor_pin_set \<longrightarrow> k p = (if pin_cmd c p then unat (20000 - hi) else 0)"
    unfolding drive_span_def by blast
  have t: "\<forall>p. p \<notin> motor_pin_set \<longrightarrow> pin_cmd t p = pin_cmd c p" "act_encoder.more t = act_encoder.more c"
    "motor_pins (g_motorState c) (pin_cmd c) \<longrightarrow> motor_pins (g_motorState c) (pin_cmd t)"
    using d unfolding drive_span_def by blast+
  have "spent 0 (\<lambda>p. 0) s a" "spent 0 (\<lambda>p. 0) b c" unfolding a_def c_def by (rule spent_set_pin)+
  then have "spent (unat hi + (0 + unat (20000 - hi)))
      (\<lambda>p. (if pin_cmd a p then unat hi else 0) + (0 + k p)) s t"
    using k(1) Motor_delayUs_effect [of hi a h, folded b_def, THEN conjunct1]
    by (intro spent_zero_trans [OF \<open>spent 0 (\<lambda>p. 0) s a\<close>] spent_trans)
  then have "spent 20000 (\<lambda>p. (if pin_cmd a p then unat hi else 0) + k p) s t"
    by (rule spent_cong) (use hi in simp_all)
  moreover have "g_motorState c = g_motorState s" by (rule motor_fields_more [OF pc(2)])
  ultimately show ?thesis
    unfolding run servo_period_def hi_def [symmetric] using t k(2) pc servo_not_motor hi
    by (intro conjI exI [of _ "\<lambda>p. (if pin_cmd a p then unat hi else 0) + k p"]) (auto simp: a_def)
qed

lemma Steering_Update_period:
  "servo_period (unat (key_pulse (g_steeringKey s))) (Steering_UpdatePulseByKey s) (Steering_Update h s)"
  using SendOnePulse_period [of "key_pulse (g_steeringKey s)" "Steering_UpdatePulseByKey s" h]
  by (simp add: Steering_Update_def Let_def UpdatePulseByKey_form)

end
