(* ===== verification/Act_Pot.thy ===== *)
theory Act_Pot
  imports Act_Servo
begin

text \<open>
  The steering potentiometer of the ACT ECU, \<open>src/ACT/PotAdc.c\<close>: eight valid conversions are
  averaged and the average becomes an angle. The converter is the environment: the \<open>n\<close>-th read of
  the program sees \<open>adc n\<close>, nothing while no conversion is finished. The \<open>sint16\<close> angle is its
  16-bit pattern, read with \<open>sint\<close>; the \<open>sint32\<close> arithmetic stays far from its bounds and is on
  integers. The configuration of the converter in \<open>PotAdc_Init\<close> is left out.
\<close>

type_synonym adc = "nat \<Rightarrow> u16 option"

abbreviation (input) POT_ADC_MAX_RAW :: u32 where "POT_ADC_MAX_RAW \<equiv> 4095"
abbreviation (input) POT_ADC_VREF_MV :: u32 where "POT_ADC_VREF_MV \<equiv> 3300"
abbreviation (input) POT_RAW_LEFT_MAX :: u32 where "POT_RAW_LEFT_MAX \<equiv> 580"
abbreviation (input) POT_RAW_RIGHT_MAX :: u32 where "POT_RAW_RIGHT_MAX \<equiv> 925"
abbreviation (input) POT_PHYS_LEFT_DEG :: int where "POT_PHYS_LEFT_DEG \<equiv> -35"
abbreviation (input) POT_PHYS_RIGHT_DEG :: int where "POT_PHYS_RIGHT_DEG \<equiv> 35"
abbreviation (input) POT_PHYS_TOTAL_DEG :: int where "POT_PHYS_TOTAL_DEG \<equiv> 70"
abbreviation (input) POT_CAN_CENTER_DEG :: u8 where "POT_CAN_CENTER_DEG \<equiv> 90"
abbreviation (input) POT_AVG_SAMPLE_COUNT :: u32 where "POT_AVG_SAMPLE_COUNT \<equiv> 8"

record act_pot = act_servo +
  g_potRaw :: u32
  g_potMv :: u32
  g_potPercent :: u32
  g_potAngleDeg :: u8
  g_potSignedAngleDeg :: u16
  g_accumRaw :: u32
  g_accumCount :: u32
  g_debugPotRaw :: u32
  g_debugPotMv :: u32
  g_debugPotPercent :: u32
  g_debugPotMinRaw :: u32
  g_debugPotMaxRaw :: u32
  g_debugPotAngleDeg :: u8
  g_debugPotSignedAngleDeg :: u16
  g_debugPotUpdateCallCount :: u32
  g_debugPotValidSampleCount :: u32
  g_debugPotNoResultCount :: u32

section \<open>Operations\<close>

definition PotAdc_RawToMv :: "u32 \<Rightarrow> u32" where
  "PotAdc_RawToMv raw =
     (let raw = (if raw > POT_ADC_MAX_RAW then POT_ADC_MAX_RAW else raw)
      in (raw * POT_ADC_VREF_MV) div POT_ADC_MAX_RAW)"

definition PotAdc_RawToPercent :: "u32 \<Rightarrow> u32" where
  "PotAdc_RawToPercent raw =
     (let raw = (if raw > POT_ADC_MAX_RAW then POT_ADC_MAX_RAW else raw)
      in (raw * 100) div POT_ADC_MAX_RAW)"

text \<open>Both operands of the division are positive, where C division and \<open>div\<close> agree.\<close>

definition PotAdc_RawToSignedAngleDeg :: "u32 \<Rightarrow> u16" where
  "PotAdc_RawToSignedAngleDeg raw =
     (if raw \<le> POT_RAW_LEFT_MAX then word_of_int POT_PHYS_LEFT_DEG
      else if raw \<ge> POT_RAW_RIGHT_MAX then word_of_int POT_PHYS_RIGHT_DEG
      else
        let numerator = int (unat (raw - POT_RAW_LEFT_MAX)) * POT_PHYS_TOTAL_DEG;
            denominator = int (unat (POT_RAW_RIGHT_MAX - POT_RAW_LEFT_MAX));
            angle = (numerator + denominator div 2) div denominator + POT_PHYS_LEFT_DEG;
            angle = (if angle < POT_PHYS_LEFT_DEG then POT_PHYS_LEFT_DEG else angle);
            angle = (if angle > POT_PHYS_RIGHT_DEG then POT_PHYS_RIGHT_DEG else angle)
        in word_of_int angle)"

definition PotAdc_SignedAngleToCanAngleDeg :: "u16 \<Rightarrow> u8" where
  "PotAdc_SignedAngleToCanAngleDeg signedAngleDeg =
     (let canAngle = int (unat POT_CAN_CENTER_DEG) + sint signedAngleDeg;
          canAngle = (if canAngle < 0 then 0 else canAngle);
          canAngle = (if canAngle > 255 then 255 else canAngle)
      in word_of_int canAngle)"

definition PotAdc_TryReadRaw :: "adc \<Rightarrow> 'a io_scheme \<Rightarrow> u32 option \<times> 'a io_scheme" where
  "PotAdc_TryReadRaw adc s =
     (map_option ucast (adc (io_reads s)), s\<lparr>io_reads := Suc (io_reads s)\<rparr>)"

definition PotAdc_ApplyRaw :: "u32 \<Rightarrow> 'a act_pot_scheme \<Rightarrow> 'a act_pot_scheme" where
  "PotAdc_ApplyRaw raw s =
     (let s = s\<lparr>g_potRaw := raw, g_potMv := PotAdc_RawToMv raw,
                g_potPercent := PotAdc_RawToPercent raw\<rparr>;
          signedAngleDeg = PotAdc_RawToSignedAngleDeg raw;
          canAngleDeg = PotAdc_SignedAngleToCanAngleDeg signedAngleDeg;
          s = s\<lparr>g_potSignedAngleDeg := signedAngleDeg, g_potAngleDeg := canAngleDeg\<rparr>;
          s = (if raw < g_debugPotMinRaw s then s\<lparr>g_debugPotMinRaw := raw\<rparr> else s);
          s = (if raw > g_debugPotMaxRaw s then s\<lparr>g_debugPotMaxRaw := raw\<rparr> else s)
      in s\<lparr>g_debugPotRaw := g_potRaw s, g_debugPotMv := g_potMv s,
           g_debugPotPercent := g_potPercent s,
           g_debugPotSignedAngleDeg := g_potSignedAngleDeg s,
           g_debugPotAngleDeg := g_potAngleDeg s\<rparr>)"

text \<open>\<open>PotAdc_Init\<close> after the converter is configured; it waits 10 us for the first conversion.\<close>

definition PotAdc_Init :: "'a act_pot_scheme \<Rightarrow> 'a act_pot_scheme" where
  "PotAdc_Init s =
     (wait_us 10 s)\<lparr>g_potRaw := 0, g_potMv := 0, g_potPercent := 0, g_potSignedAngleDeg := 0,
       g_potAngleDeg := POT_CAN_CENTER_DEG, g_accumRaw := 0, g_accumCount := 0,
       g_debugPotRaw := 0, g_debugPotMv := 0, g_debugPotPercent := 0,
       g_debugPotMinRaw := POT_ADC_MAX_RAW, g_debugPotMaxRaw := 0,
       g_debugPotSignedAngleDeg := 0, g_debugPotAngleDeg := POT_CAN_CENTER_DEG,
       g_debugPotUpdateCallCount := 0, g_debugPotValidSampleCount := 0,
       g_debugPotNoResultCount := 0\<rparr>"

text \<open>\<open>PotAdc_Update1ms\<close> after a valid conversion \<open>raw\<close>.\<close>

definition pot_accumulate :: "u32 \<Rightarrow> 'a act_pot_scheme \<Rightarrow> 'a act_pot_scheme" where
  "pot_accumulate raw s =
     (let s = s\<lparr>g_debugPotValidSampleCount := g_debugPotValidSampleCount s + 1,
                g_accumRaw := g_accumRaw s + raw, g_accumCount := g_accumCount s + 1\<rparr>
      in if g_accumCount s < POT_AVG_SAMPLE_COUNT then s
         else
           let avgRaw = g_accumRaw s div g_accumCount s;
               s = s\<lparr>g_accumRaw := 0, g_accumCount := 0\<rparr>
           in PotAdc_ApplyRaw avgRaw s)"

definition PotAdc_Update1ms :: "adc \<Rightarrow> 'a act_pot_scheme \<Rightarrow> 'a act_pot_scheme" where
  "PotAdc_Update1ms adc s =
     (let s = s\<lparr>g_debugPotUpdateCallCount := g_debugPotUpdateCallCount s + 1\<rparr>;
          (result, s) = PotAdc_TryReadRaw adc s
      in case result of
           None \<Rightarrow> s\<lparr>g_debugPotNoResultCount := g_debugPotNoResultCount s + 1\<rparr>
         | Some raw \<Rightarrow> pot_accumulate raw s)"

definition PotAdc_GetRaw :: "'a act_pot_scheme \<Rightarrow> u32" where
  "PotAdc_GetRaw s = g_potRaw s"

definition PotAdc_GetMv :: "'a act_pot_scheme \<Rightarrow> u32" where
  "PotAdc_GetMv s = g_potMv s"

definition PotAdc_GetPercent :: "'a act_pot_scheme \<Rightarrow> u32" where
  "PotAdc_GetPercent s = g_potPercent s"

definition PotAdc_GetAngleDeg :: "'a act_pot_scheme \<Rightarrow> u8" where
  "PotAdc_GetAngleDeg s = g_potAngleDeg s"

definition PotAdc_GetSignedAngleDeg :: "'a act_pot_scheme \<Rightarrow> u16" where
  "PotAdc_GetSignedAngleDeg s = g_potSignedAngleDeg s"

section \<open>The angle\<close>

text \<open>The angle as a function on numbers: the calibrated line, rounded and clamped.\<close>

definition pot_angle :: "nat \<Rightarrow> int" where
  "pot_angle r = (if r \<le> 580 then -35 else if 925 \<le> r then 35
     else ((int r - 580) * 70 + 172) div 345 - 35)"

lemma pot_angle_range: "-35 \<le> pot_angle r" "pot_angle r \<le> 35"
proof -
  have "((int r - 580) * 70 + 172) div 345 \<ge> 0" if "580 < r"
    using that by (intro pos_imp_zdiv_nonneg_iff [THEN iffD2]) auto
  moreover have "((int r - 580) * 70 + 172) div 345 \<le> 70" if "r < 925"
    using that zdiv_mono1 [of "(int r - 580) * 70 + 172" "70 * 345 + 344" 345] by simp
  ultimately show "-35 \<le> pot_angle r" "pot_angle r \<le> 35" by (auto simp: pot_angle_def)
qed

lemma pot_angle_mono: "r \<le> r' \<Longrightarrow> pot_angle r \<le> pot_angle r'"
  using pot_angle_range [of r] pot_angle_range [of r']
  by (auto simp: pot_angle_def intro!: zdiv_mono1)

text \<open>Within the calibrated range the angle is the line through (580, -35) and (925, 35), to half a degree.\<close>

lemma pot_angle_exact:
  assumes "580 \<le> r" "r \<le> 925"
  shows "\<bar>345 * (pot_angle r + 35) - 70 * (int r - 580)\<bar> \<le> 172"
proof (cases "r = 580 \<or> r = 925")
  case True
  then show ?thesis by (auto simp: pot_angle_def)
next
  case False
  let ?n = "(int r - 580) * 70 + 172"
  have "345 * (?n div 345) = ?n - ?n mod 345" by (simp add: minus_mod_eq_mult_div)
  moreover have "0 \<le> ?n mod 345" "?n mod 345 < 345" by simp_all
  ultimately show ?thesis using False assms by (simp add: pot_angle_def)
qed

lemma sint_small: "-35 \<le> i \<Longrightarrow> i \<le> 35 \<Longrightarrow> sint (word_of_int i :: u16) = i"
  by (simp add: signed_of_int signed_take_bit_int_eq_self)

lemma RawToSigned_eq: "PotAdc_RawToSignedAngleDeg raw = word_of_int (pot_angle (unat raw))"
proof (cases "raw \<le> 580 \<or> 925 \<le> raw")
  case True
  then show ?thesis
    by (auto simp: PotAdc_RawToSignedAngleDeg_def pot_angle_def word_le_nat_alt)
next
  case False
  then have r: "580 < unat raw" "unat raw < 925" by (simp_all add: word_le_nat_alt not_le)
  then have n: "int (unat (raw - 580)) = int (unat raw) - 580"
    by (simp add: unat_sub word_le_nat_alt del: of_nat_unat)
  have a: "pot_angle (unat raw) = ((int (unat raw) - 580) * 70 + 172) div 345 - 35"
    using r by (simp add: pot_angle_def)
  have "((int (unat raw) - 580) * 70 + 172) div 345 - 35 \<ge> -35"
    "((int (unat raw) - 580) * 70 + 172) div 345 - 35 \<le> 35"
    using pot_angle_range [of "unat raw"] unfolding a by simp_all
  moreover have "int (unat (925 - 580 :: u32)) = 345" by simp
  ultimately show ?thesis
    using False unfolding PotAdc_RawToSignedAngleDeg_def n a Let_def by (simp only: if_False) simp
qed

lemma CanAngle_eq:
  assumes "-35 \<le> i" "i \<le> 35"
  shows "uint (PotAdc_SignedAngleToCanAngleDeg (word_of_int i)) = 90 + i"
proof -
  have "PotAdc_SignedAngleToCanAngleDeg (word_of_int i) = word_of_int (90 + i)"
    using assms by (simp only: PotAdc_SignedAngleToCanAngleDeg_def Let_def sint_small) simp
  moreover have "uint (word_of_int (90 + i) :: u8) = 90 + i"
    using assms unfolding uint_word_of_int take_bit_int_def by simp
  ultimately show ?thesis by (simp only:)
qed

section \<open>The invariant\<close>

definition pot_ok :: "'a act_pot_scheme \<Rightarrow> bool" where
  "pot_ok s \<longleftrightarrow> -35 \<le> sint (g_potSignedAngleDeg s) \<and> sint (g_potSignedAngleDeg s) \<le> 35 \<and>
     uint (g_potAngleDeg s) = 90 + sint (g_potSignedAngleDeg s) \<and>
     unat (g_accumCount s) < 8 \<and> unat (g_accumRaw s) \<le> 65535 * unat (g_accumCount s)"

lemma ApplyRaw_ok:
  assumes "g_accumCount s = 0" "g_accumRaw s = 0"
  shows "pot_ok (PotAdc_ApplyRaw raw s)"
proof -
  note r = pot_angle_range [of "unat raw"]
  show ?thesis
    using r assms CanAngle_eq [OF r]
    by (simp add: pot_ok_def PotAdc_ApplyRaw_def Let_def RawToSigned_eq sint_small)
qed

lemma pot_ok_accumulate:
  assumes "pot_ok s" and "unat raw \<le> 65535"
  shows "pot_ok (pot_accumulate raw s)"
proof (cases "g_accumCount s + 1 < 8")
  case True
  from assms(1) have c: "unat (g_accumCount s) < 8" "unat (g_accumRaw s) \<le> 65535 * unat (g_accumCount s)"
    by (simp_all add: pot_ok_def)
  from c have "unat (g_accumCount s + 1) = Suc (unat (g_accumCount s))"
    by (intro unat_inc_below [of _ 8]) (simp add: word_less_nat_alt)
  moreover have "unat (g_accumRaw s + raw) = unat (g_accumRaw s) + unat raw"
    using c assms(2) by (intro unat_add_lem [THEN iffD1]) simp
  ultimately show ?thesis
    using True assms c by (simp add: pot_accumulate_def Let_def pot_ok_def word_less_nat_alt)
next
  case False
  then show ?thesis by (simp add: pot_accumulate_def Let_def ApplyRaw_ok)
qed

lemma adc_bound: "unat (ucast (r :: u16) :: u32) \<le> 65535"
  using unsigned_less [of r, where ?'a = nat] by (simp add: unsigned_ucast_eq take_bit_nat_eq_self)

lemma pot_ok_Update: "pot_ok s \<Longrightarrow> pot_ok (PotAdc_Update1ms adc s)"
proof -
  assume "pot_ok s"
  then have t: "pot_ok (s\<lparr>g_debugPotUpdateCallCount := n, io_reads := m\<rparr>)"
    "pot_ok (s\<lparr>g_debugPotUpdateCallCount := n, io_reads := m, g_debugPotNoResultCount := k\<rparr>)" for n m k
    by (simp_all add: pot_ok_def)
  show ?thesis
    by (cases "adc (io_reads s)")
      (simp_all add: PotAdc_Update1ms_def PotAdc_TryReadRaw_def Let_def t pot_ok_accumulate adc_bound)
qed

lemma Pot_frame [fw_frame, simp]:
  "pin_cmd (PotAdc_Update1ms adc s) = pin_cmd s" "io_log (PotAdc_Update1ms adc s) = io_log s"
  "g_motorState (PotAdc_Update1ms adc s) = g_motorState s"
  "act_pot.more (PotAdc_Update1ms adc s) = act_pot.more s"
  by (simp_all add: PotAdc_Update1ms_def PotAdc_TryReadRaw_def pot_accumulate_def PotAdc_ApplyRaw_def
      Let_def split: option.split)

end
