(* ===== verification/Act_Can.thy ===== *)
theory Act_Can
  imports Act_Pot
begin

unbundle bit_operations_syntax

text \<open>
  The command side of the ACT driver, \<open>src/ACT/ActCan.c\<close>: its state, the validators, what a command
  does to motor and steering, the safe state and \<open>ActCan_Update100us\<close>. The receive interrupt calls the
  diagnostic server and is in \<open>Act_Main\<close>. Data-length codes are written as numbers of bytes. Values
  of the C enumerations \<open>ActGearState\<close>, \<open>ActControlMode\<close> and \<open>ActSafetyOverride\<close>, which are casts of
  received bytes, are those bytes.
\<close>

section \<open>State\<close>

datatype frame_mode = FrameMode_standard | FrameMode_fdLong | FrameMode_fdLongAndFast

record act_frame =
  af_id :: u32
  af_mode :: frame_mode
  af_dlc :: nat
  af_data :: "u32 list"

record act_can = act_pot +
  can_calls :: nat
  can_sent :: "(nat \<times> act_frame) list"
  g_rxAccelRaw :: u8
  g_rxSteeringRaw :: u8
  g_rxBrakeRaw :: u8
  g_rxGearRaw :: u8
  g_rxControlModeRaw :: u8
  g_rxSafetyOverrideRaw :: u8
  g_rxUpdated :: bool
  g_rxCount :: u32
  g_invalidCount :: u32
  g_timeoutCount :: u32
  g_currentAccelRaw :: u8
  g_currentBrakeRaw :: u8
  g_currentGearState :: u8
  g_currentControlMode :: u8
  g_currentSafetyOverride :: u8
  g_cmdTimeoutTick100us :: u32
  g_safeStateEnteredByTimeout :: bool

section \<open>Constants\<close>

abbreviation (input) ACT_CAN_CMD_ID :: u32 where "ACT_CAN_CMD_ID \<equiv> 0x100"
abbreviation (input) ACT_CAN_ACCEL_OFF :: u8 where "ACT_CAN_ACCEL_OFF \<equiv> 0"
abbreviation (input) ACT_CAN_STEERING_NULL :: u8 where "ACT_CAN_STEERING_NULL \<equiv> 0"
abbreviation (input) ACT_CAN_STEERING_LEFT :: u8 where "ACT_CAN_STEERING_LEFT \<equiv> 1"
abbreviation (input) ACT_CAN_STEERING_RIGHT :: u8 where "ACT_CAN_STEERING_RIGHT \<equiv> 2"
abbreviation (input) ACT_CAN_BRAKE_OFF :: u8 where "ACT_CAN_BRAKE_OFF \<equiv> 0"
abbreviation (input) ACT_CAN_BRAKE_ON :: u8 where "ACT_CAN_BRAKE_ON \<equiv> 1"
abbreviation (input) ACT_CAN_GEAR_P :: u8 where "ACT_CAN_GEAR_P \<equiv> 0"
abbreviation (input) ACT_CAN_GEAR_R :: u8 where "ACT_CAN_GEAR_R \<equiv> 1"
abbreviation (input) ACT_CAN_GEAR_N :: u8 where "ACT_CAN_GEAR_N \<equiv> 2"
abbreviation (input) ACT_CAN_GEAR_D :: u8 where "ACT_CAN_GEAR_D \<equiv> 3"
abbreviation (input) ACT_CAN_CONTROL_STANDBY :: u8 where "ACT_CAN_CONTROL_STANDBY \<equiv> 0"
abbreviation (input) ACT_CAN_CONTROL_REMOTE_DRIVE :: u8 where "ACT_CAN_CONTROL_REMOTE_DRIVE \<equiv> 1"
abbreviation (input) ACT_CAN_CONTROL_DIAGNOSTIC :: u8 where "ACT_CAN_CONTROL_DIAGNOSTIC \<equiv> 2"
abbreviation (input) ACT_CAN_SAFETY_NORMAL :: u8 where "ACT_CAN_SAFETY_NORMAL \<equiv> 0"
abbreviation (input) ACT_CAN_SAFETY_FORCE_STOP :: u8 where "ACT_CAN_SAFETY_FORCE_STOP \<equiv> 1"
abbreviation (input) ACT_CAN_CMD_TIMEOUT_100US_TICKS :: u32
  where "ACT_CAN_CMD_TIMEOUT_100US_TICKS \<equiv> 2000"
abbreviation (input) ACT_CAN_STB :: pin where "ACT_CAN_STB \<equiv> (20, 6)"
abbreviation (input) ACT_DRIVE_BASE_DUTY_PERCENT :: u32 where "ACT_DRIVE_BASE_DUTY_PERCENT \<equiv> 90"
abbreviation (input) ACT_TURN_INNER_DUTY_PERCENT :: u32 where "ACT_TURN_INNER_DUTY_PERCENT \<equiv> 30"
abbreviation (input) ACT_TURN_OUTER_DUTY_PERCENT :: u32 where "ACT_TURN_OUTER_DUTY_PERCENT \<equiv> 100"

section \<open>Validators\<close>

definition ActCan_EnableTransceiver :: "'a io_scheme \<Rightarrow> 'a io_scheme" where
  "ActCan_EnableTransceiver s = set_pin ACT_CAN_STB False (set_mode ACT_CAN_STB OutputPushPull s)"

definition ActCan_IsValidBool :: "u8 \<Rightarrow> bool" where
  "ActCan_IsValidBool value \<longleftrightarrow> value = 0 \<or> value = 1"

definition ActCan_IsValidSteering :: "u8 \<Rightarrow> bool" where
  "ActCan_IsValidSteering value \<longleftrightarrow>
     value = ACT_CAN_STEERING_NULL \<or> value = ACT_CAN_STEERING_LEFT \<or> value = ACT_CAN_STEERING_RIGHT"

definition ActCan_IsValidGear :: "u8 \<Rightarrow> bool" where
  "ActCan_IsValidGear value \<longleftrightarrow>
     value = ACT_CAN_GEAR_P \<or> value = ACT_CAN_GEAR_R \<or> value = ACT_CAN_GEAR_N \<or> value = ACT_CAN_GEAR_D"

definition ActCan_IsValidControlMode :: "u8 \<Rightarrow> bool" where
  "ActCan_IsValidControlMode value \<longleftrightarrow>
     value = ACT_CAN_CONTROL_STANDBY \<or> value = ACT_CAN_CONTROL_REMOTE_DRIVE \<or>
     value = ACT_CAN_CONTROL_DIAGNOSTIC"

definition ActCan_IsValidSafetyOverride :: "u8 \<Rightarrow> bool" where
  "ActCan_IsValidSafetyOverride value \<longleftrightarrow>
     value = ACT_CAN_SAFETY_NORMAL \<or> value = ACT_CAN_SAFETY_FORCE_STOP"

definition ActCan_IsCanFdFrameMode :: "frame_mode \<Rightarrow> bool" where
  "ActCan_IsCanFdFrameMode frameMode \<longleftrightarrow>
     frameMode = FrameMode_fdLong \<or> frameMode = FrameMode_fdLongAndFast"

section \<open>Applying a command\<close>

definition ActCan_ApplySteering :: "u8 \<Rightarrow> 'a act_can_scheme \<Rightarrow> 'a act_can_scheme" where
  "ActCan_ApplySteering steeringRaw s =
     (if steeringRaw = ACT_CAN_STEERING_LEFT then
        MotorControl_SetWheelDutyPercent ACT_TURN_INNER_DUTY_PERCENT ACT_TURN_OUTER_DUTY_PERCENT
          (Steering_SetKey STEERING_KEY_LEFT s)
      else if steeringRaw = ACT_CAN_STEERING_RIGHT then
        MotorControl_SetWheelDutyPercent ACT_TURN_OUTER_DUTY_PERCENT ACT_TURN_INNER_DUTY_PERCENT
          (Steering_SetKey STEERING_KEY_RIGHT s)
      else MotorControl_SetDutyPercent ACT_DRIVE_BASE_DUTY_PERCENT (Steering_SetKey STEERING_KEY_NULL s))"

definition ActCan_ApplyDrive :: "u8 \<Rightarrow> u8 \<Rightarrow> u8 \<Rightarrow> 'a act_can_scheme \<Rightarrow> 'a act_can_scheme" where
  "ActCan_ApplyDrive accelRaw brakeRaw gearRaw s =
     (let s = s\<lparr>g_currentAccelRaw := accelRaw, g_currentBrakeRaw := brakeRaw,
                g_currentGearState := gearRaw\<rparr>
      in if brakeRaw = ACT_CAN_BRAKE_ON then MotorControl_Brake s
         else if accelRaw = ACT_CAN_ACCEL_OFF then MotorControl_Coast s
         else if gearRaw = ACT_CAN_GEAR_D then MotorControl_Forward s
         else if gearRaw = ACT_CAN_GEAR_R then MotorControl_Reverse s
         else MotorControl_Coast s)"

definition ActCan_EnterSafeState :: "'a act_can_scheme \<Rightarrow> 'a act_can_scheme" where
  "ActCan_EnterSafeState s =
     (let s = s\<lparr>g_currentAccelRaw := ACT_CAN_ACCEL_OFF, g_currentBrakeRaw := ACT_CAN_BRAKE_ON,
                g_currentGearState := ACT_CAN_GEAR_P, g_currentControlMode := ACT_CAN_CONTROL_STANDBY,
                g_currentSafetyOverride := ACT_CAN_SAFETY_FORCE_STOP\<rparr>;
          s = MotorControl_Brake s;
          s = MotorControl_SetDutyPercent ACT_DRIVE_BASE_DUTY_PERCENT s
      in Steering_Center s)"

definition ActCan_EnterModeInhibitState :: "u8 \<Rightarrow> 'a act_can_scheme \<Rightarrow> 'a act_can_scheme" where
  "ActCan_EnterModeInhibitState controlModeRaw s =
     (let s = s\<lparr>g_currentAccelRaw := ACT_CAN_ACCEL_OFF, g_currentBrakeRaw := ACT_CAN_BRAKE_OFF,
                g_currentGearState := ACT_CAN_GEAR_P, g_currentControlMode := controlModeRaw,
                g_currentSafetyOverride := ACT_CAN_SAFETY_NORMAL\<rparr>;
          s = MotorControl_Brake s;
          s = MotorControl_SetDutyPercent ACT_DRIVE_BASE_DUTY_PERCENT s
      in Steering_Center s)"

text \<open>The six bytes of a received command, as the loop copies them.\<close>

record act_command =
  ac_accel :: u8
  ac_steering :: u8
  ac_brake :: u8
  ac_gear :: u8
  ac_mode :: u8
  ac_safety :: u8

definition act_copy_command :: "'a act_can_scheme \<Rightarrow> act_command" where
  "act_copy_command s =
     \<lparr>ac_accel = g_rxAccelRaw s, ac_steering = g_rxSteeringRaw s, ac_brake = g_rxBrakeRaw s,
      ac_gear = g_rxGearRaw s, ac_mode = g_rxControlModeRaw s, ac_safety = g_rxSafetyOverrideRaw s\<rparr>"

text \<open>
  \<open>ActCan_Update100us\<close> in its parts: the age of the last command, the safe state of an expired one,
  the copy of a received command (above), the fall of its flag, and its application.
\<close>

definition act_age :: "'a act_can_scheme \<Rightarrow> 'a act_can_scheme" where
  "act_age s =
     (if g_cmdTimeoutTick100us s < ACT_CAN_CMD_TIMEOUT_100US_TICKS
      then s\<lparr>g_cmdTimeoutTick100us := g_cmdTimeoutTick100us s + 1\<rparr> else s)"

definition act_expired :: "'a act_can_scheme \<Rightarrow> bool" where
  "act_expired s \<longleftrightarrow> g_cmdTimeoutTick100us s \<ge> ACT_CAN_CMD_TIMEOUT_100US_TICKS"

definition act_expire :: "'a act_can_scheme \<Rightarrow> 'a act_can_scheme" where
  "act_expire s =
     (let s = (if \<not> g_safeStateEnteredByTimeout s
               then s\<lparr>g_timeoutCount := g_timeoutCount s + 1, g_safeStateEnteredByTimeout := True\<rparr>
               else s)
      in ActCan_EnterSafeState s)"

definition act_clear_flag :: "'a act_can_scheme \<Rightarrow> 'a act_can_scheme" where
  "act_clear_flag s = s\<lparr>g_rxUpdated := False\<rparr>"

definition act_apply :: "act_command \<Rightarrow> 'a act_can_scheme \<Rightarrow> 'a act_can_scheme" where
  "act_apply c s =
     (let s = s\<lparr>g_currentControlMode := ac_mode c, g_currentSafetyOverride := ac_safety c\<rparr>
      in if ac_safety c = ACT_CAN_SAFETY_FORCE_STOP then ActCan_EnterSafeState s
         else if ac_mode c \<noteq> ACT_CAN_CONTROL_REMOTE_DRIVE then ActCan_EnterModeInhibitState (ac_mode c) s
         else
           let s = ActCan_ApplySteering (ac_steering c) s
           in ActCan_ApplyDrive (ac_accel c) (ac_brake c) (ac_gear c) s)"

definition ActCan_Update100us :: "'a act_can_scheme \<Rightarrow> 'a act_can_scheme" where
  "ActCan_Update100us s =
     (let s = act_age s
      in if act_expired s then act_expire s
         else if g_rxUpdated s
         then let c = act_copy_command s in act_apply c (act_clear_flag s)
         else s)"

text \<open>\<open>ActCan_Init\<close>, less the configuration of the CAN node, which \<open>Can_Setup\<close> models.\<close>

definition act_can_vars :: "'a act_can_scheme \<Rightarrow> 'a act_can_scheme" where
  "act_can_vars s =
     s\<lparr>g_rxAccelRaw := ACT_CAN_ACCEL_OFF, g_rxSteeringRaw := ACT_CAN_STEERING_NULL,
       g_rxBrakeRaw := ACT_CAN_BRAKE_OFF, g_rxGearRaw := ACT_CAN_GEAR_P,
       g_rxControlModeRaw := ACT_CAN_CONTROL_STANDBY, g_rxSafetyOverrideRaw := ACT_CAN_SAFETY_NORMAL,
       g_rxUpdated := False, g_rxCount := 0, g_invalidCount := 0, g_timeoutCount := 0,
       g_currentAccelRaw := ACT_CAN_ACCEL_OFF, g_currentBrakeRaw := ACT_CAN_BRAKE_OFF,
       g_currentGearState := ACT_CAN_GEAR_P, g_currentControlMode := ACT_CAN_CONTROL_STANDBY,
       g_currentSafetyOverride := ACT_CAN_SAFETY_NORMAL,
       g_cmdTimeoutTick100us := ACT_CAN_CMD_TIMEOUT_100US_TICKS,
       g_safeStateEnteredByTimeout := False\<rparr>"

definition ActCan_Init :: "'a act_can_scheme \<Rightarrow> 'a act_can_scheme" where
  "ActCan_Init s =
     (let s = act_can_vars (ActCan_EnableTransceiver s);
          s = MotorControl_SetDutyPercent ACT_DRIVE_BASE_DUTY_PERCENT s;
          s = MotorControl_Coast s
      in Steering_Center s)"

definition ActCan_GetRxCount :: "'a act_can_scheme \<Rightarrow> u32" where
  "ActCan_GetRxCount s = g_rxCount s"

definition ActCan_GetInvalidCount :: "'a act_can_scheme \<Rightarrow> u32" where
  "ActCan_GetInvalidCount s = g_invalidCount s"

definition ActCan_GetTimeoutCount :: "'a act_can_scheme \<Rightarrow> u32" where
  "ActCan_GetTimeoutCount s = g_timeoutCount s"

definition ActCan_GetCrcErrorCount :: "'a act_can_scheme \<Rightarrow> u32" where
  "ActCan_GetCrcErrorCount s = 0"

definition ActCan_GetAliveErrorCount :: "'a act_can_scheme \<Rightarrow> u32" where
  "ActCan_GetAliveErrorCount s = 0"

definition ActCan_GetGearState :: "'a act_can_scheme \<Rightarrow> u8" where
  "ActCan_GetGearState s = g_currentGearState s"

definition ActCan_GetControlMode :: "'a act_can_scheme \<Rightarrow> u8" where
  "ActCan_GetControlMode s = g_currentControlMode s"

definition ActCan_GetSafetyOverride :: "'a act_can_scheme \<Rightarrow> u8" where
  "ActCan_GetSafetyOverride s = g_currentSafetyOverride s"

definition ActCan_GetAliveCounter :: "'a act_can_scheme \<Rightarrow> u8" where
  "ActCan_GetAliveCounter s = 0"

section \<open>What a command does\<close>

text \<open>The bytes a command may have, and what motor and steering are then set to.\<close>

definition act_command_valid :: "act_command \<Rightarrow> bool" where
  "act_command_valid c \<longleftrightarrow>
     ActCan_IsValidBool (ac_accel c) \<and> ActCan_IsValidSteering (ac_steering c) \<and>
     ActCan_IsValidBool (ac_brake c) \<and> ActCan_IsValidGear (ac_gear c) \<and>
     ActCan_IsValidControlMode (ac_mode c) \<and> ActCan_IsValidSafetyOverride (ac_safety c)"

text \<open>Motor state, left and right duty, steering: what drives the vehicle.\<close>

definition act_drive :: "'a act_servo_scheme \<Rightarrow> MotorState \<times> u32 \<times> u32 \<times> SteeringKey" where
  "act_drive s = (g_motorState s, g_leftDutyPercent s, g_rightDutyPercent s, g_steeringKey s)"

definition commanded_motor :: "act_command \<Rightarrow> MotorState" where
  "commanded_motor c =
     (if ac_brake c = 0 \<and> ac_accel c = 1 \<and> ac_gear c = 3 then MOTOR_STATE_FORWARD
      else if ac_brake c = 0 \<and> ac_accel c = 1 \<and> ac_gear c = 1 then MOTOR_STATE_REVERSE
      else MOTOR_STATE_STOP)"

definition commanded_drive :: "act_command \<Rightarrow> MotorState \<times> u32 \<times> u32 \<times> SteeringKey" where
  "commanded_drive c =
     (if ac_safety c = 1 \<or> ac_mode c \<noteq> 1 then (MOTOR_STATE_STOP, 90, 90, STEERING_KEY_NULL)
      else if ac_steering c = 1 then (commanded_motor c, 30, 100, STEERING_KEY_LEFT)
      else if ac_steering c = 2 then (commanded_motor c, 100, 30, STEERING_KEY_RIGHT)
      else (commanded_motor c, 90, 90, STEERING_KEY_NULL))"

definition act_core :: "'a act_can_scheme \<Rightarrow> u32 \<times> bool \<times> act_command \<times> u8 \<times> u8 \<times> u8" where
  "act_core s = (g_cmdTimeoutTick100us s, g_rxUpdated s, act_copy_command s,
     g_currentGearState s, g_currentControlMode s, g_currentSafetyOverride s)"

lemmas act_apply_defs = act_apply_def ActCan_EnterSafeState_def ActCan_EnterModeInhibitState_def
  ActCan_ApplySteering_def ActCan_ApplyDrive_def MotorControl_Brake_def MotorControl_Coast_def
  MotorControl_Forward_def MotorControl_Reverse_def MotorControl_SetState_def MotorControl_SetDutyPercent_def
  MotorControl_SetWheelDutyPercent_def Motor_LimitDutyPercent_def Center_form SetKey_form motor_pin_defs
  set_pin_def

text \<open>
  A state whose motor and steering variables are sound: duties in range, the pulse and the state of
  the steering follow the key, the PWM pins and the servo pin are low, as they are between two
  cycles, and the potentiometer is sound.
\<close>

definition drive_ok :: "'a act_pot_scheme \<Rightarrow> bool" where
  "drive_ok s \<longleftrightarrow> g_dutyPercent s \<le> 100 \<and> g_leftDutyPercent s \<le> 100 \<and> g_rightDutyPercent s \<le> 100 \<and>
     g_currentPulseUs s = key_pulse (g_steeringKey s) \<and> g_steeringState s = key_state (g_steeringKey s) \<and>
     \<not> pin_cmd s MOTOR_A_PWM \<and> \<not> pin_cmd s MOTOR_B_PWM \<and> \<not> pin_cmd s SERVO_PIN \<and> pot_ok s"

text \<open>Braked: stopped, with both brakes on.\<close>

definition braked :: "'a act_motor_scheme \<Rightarrow> bool" where
  "braked s \<longleftrightarrow> g_motorState s = MOTOR_STATE_STOP \<and> pin_cmd s MOTOR_A_BRAKE \<and> pin_cmd s MOTOR_B_BRAKE"

section \<open>The operations keep sound states sound\<close>

lemma command_bytes:
  assumes "act_command_valid c"
  shows "ac_accel c = 0 \<or> ac_accel c = 1" "ac_steering c = 0 \<or> ac_steering c = 1 \<or> ac_steering c = 2"
    "ac_brake c = 0 \<or> ac_brake c = 1" "ac_gear c = 0 \<or> ac_gear c = 1 \<or> ac_gear c = 2 \<or> ac_gear c = 3"
    "ac_mode c = 0 \<or> ac_mode c = 1 \<or> ac_mode c = 2" "ac_safety c = 0 \<or> ac_safety c = 1"
  using assms
  by (simp_all add: act_command_valid_def ActCan_IsValidBool_def ActCan_IsValidSteering_def
      ActCan_IsValidGear_def ActCan_IsValidControlMode_def ActCan_IsValidSafetyOverride_def)

lemma act_apply_drive:
  assumes "act_command_valid c"
  shows "act_drive (act_apply c s) = commanded_drive c"
  using command_bytes(1,3) [OF assms]
  by (auto simp: act_drive_def commanded_drive_def commanded_motor_def act_apply_defs Let_def
      word_less_nat_alt)

lemma act_apply_ok: "drive_ok s \<Longrightarrow> drive_ok (act_apply c s)"
  by (simp add: drive_ok_def act_apply_defs Let_def pot_ok_def key_pulse_def key_state_def word_less_nat_alt word_le_nat_alt)

lemma EnterSafe_effect:
  "braked (ActCan_EnterSafeState s)" "act_drive (ActCan_EnterSafeState s) = (MOTOR_STATE_STOP, 90, 90, STEERING_KEY_NULL)"
  "act_core (ActCan_EnterSafeState s) =
     (g_cmdTimeoutTick100us s, g_rxUpdated s, act_copy_command s, 0, 0, 1)"
  by (simp_all add: braked_def act_drive_def act_core_def act_copy_command_def act_apply_defs Let_def
     word_less_nat_alt)

lemma act_apply_braked:
  "ac_safety c = 1 \<or> ac_mode c \<noteq> 1 \<or> ac_brake c = 1 \<Longrightarrow> braked (act_apply c s)"
  by (auto simp: braked_def act_apply_defs Let_def)

lemma EnterSafe_ok: "drive_ok s \<Longrightarrow> drive_ok (ActCan_EnterSafeState s)"
  by (simp add: drive_ok_def act_apply_defs Let_def pot_ok_def key_pulse_def key_state_def word_less_nat_alt word_le_nat_alt)

lemma act_apply_core:
  "g_cmdTimeoutTick100us (act_apply c s) = g_cmdTimeoutTick100us s"
  "g_rxUpdated (act_apply c s) = g_rxUpdated s"
  "act_copy_command (act_apply c s) = act_copy_command s"
  "act_command_valid c \<Longrightarrow> g_currentGearState (act_apply c s) \<le> 3"
  "act_command_valid c \<Longrightarrow> g_currentControlMode (act_apply c s) \<le> 2"
  "can_sent (act_apply c s) = can_sent s"
  "act_can.more (act_apply c s) = act_can.more s"
  using command_bytes(4,5) [of c]
  by (auto simp: act_apply_defs act_copy_command_def Let_def)

lemma act_expire_effect:
  "braked (act_expire s)" "act_drive (act_expire s) = (MOTOR_STATE_STOP, 90, 90, STEERING_KEY_NULL)"
  "act_core (act_expire s) = (g_cmdTimeoutTick100us s, g_rxUpdated s, act_copy_command s, 0, 0, 1)"
  "drive_ok s \<Longrightarrow> drive_ok (act_expire s)" "act_can.more (act_expire s) = act_can.more s"
  "can_sent (act_expire s) = can_sent s"
proof -
  define n where "n = (if g_safeStateEnteredByTimeout s then g_timeoutCount s else g_timeoutCount s + 1)"
  have f: "act_expire s = ActCan_EnterSafeState (s\<lparr>g_timeoutCount := n, g_safeStateEnteredByTimeout := True\<rparr>)"
    by (cases s) (simp add: act_expire_def n_def)
  show "braked (act_expire s)" "act_drive (act_expire s) = (MOTOR_STATE_STOP, 90, 90, STEERING_KEY_NULL)"
    unfolding f by (rule EnterSafe_effect)+
  show "act_core (act_expire s) = (g_cmdTimeoutTick100us s, g_rxUpdated s, act_copy_command s, 0, 0, 1)"
    unfolding f EnterSafe_effect(3) by (simp add: act_copy_command_def)
  show "drive_ok s \<Longrightarrow> drive_ok (act_expire s)"
    unfolding f by (rule EnterSafe_ok) (simp add: drive_ok_def pot_ok_def)
  show "act_can.more (act_expire s) = act_can.more s" "can_sent (act_expire s) = can_sent s"
    unfolding f by (simp_all add: act_apply_defs Let_def)
qed

end
