(* ===== verification/Act_Status.thy ===== *)
theory Act_Status
  imports Act_Can
begin

unbundle bit_operations_syntax

text \<open>
  The status message of the ACT ECU, \<open>src/ACT/CanComm.c\<close>: the frame 0x200 with speed, gear, steering
  state and angle, and the two transmit buffers it takes turns in. A frame handed to
  \<open>IfxCan_Can_sendMessage\<close> is recorded in \<open>can_sent\<close> with its buffer, unless that call reports
  \<open>NotSentBusy\<close>.
\<close>

abbreviation (input) ACT_STATUS_CAN_ID :: u32 where "ACT_STATUS_CAN_ID \<equiv> 0x200"
abbreviation (input) ACT_STATUS_GEAR_P :: u8 where "ACT_STATUS_GEAR_P \<equiv> 0"
abbreviation (input) ACT_STATUS_GEAR_R :: u8 where "ACT_STATUS_GEAR_R \<equiv> 1"
abbreviation (input) ACT_STATUS_GEAR_N :: u8 where "ACT_STATUS_GEAR_N \<equiv> 2"
abbreviation (input) ACT_STATUS_GEAR_D :: u8 where "ACT_STATUS_GEAR_D \<equiv> 3"
abbreviation (input) ACT_STATUS_STEERING_LEFT :: u8 where "ACT_STATUS_STEERING_LEFT \<equiv> 0"
abbreviation (input) ACT_STATUS_STEERING_CENTER :: u8 where "ACT_STATUS_STEERING_CENTER \<equiv> 1"
abbreviation (input) ACT_STATUS_STEERING_RIGHT :: u8 where "ACT_STATUS_STEERING_RIGHT \<equiv> 2"
abbreviation (input) CAN_TX_BUFFER_COUNT :: u8 where "CAN_TX_BUFFER_COUNT \<equiv> 2"
abbreviation (input) CAN_STB :: pin where "CAN_STB \<equiv> (20, 6)"

record act_status = act_can +
  g_debugCanTxCallCount :: u32
  g_debugCanTxOkCount :: u32
  g_debugCanTxBusyCount :: u32
  g_debugCanLastStatus :: "can_status option"
  g_debugActStatusLastSteeringAngleDeg :: u8
  g_txBufferIndex :: u8

definition CanComm_EnableTransceiver :: "'a io_scheme \<Rightarrow> 'a io_scheme" where
  "CanComm_EnableTransceiver s = set_pin CAN_STB False (set_mode CAN_STB OutputPushPull s)"

definition CanComm_LimitGearState :: "u8 \<Rightarrow> u8" where
  "CanComm_LimitGearState gearState =
     (if gearState = ACT_STATUS_GEAR_P \<or> gearState = ACT_STATUS_GEAR_R \<or>
         gearState = ACT_STATUS_GEAR_N \<or> gearState = ACT_STATUS_GEAR_D
      then gearState else ACT_STATUS_GEAR_P)"

definition CanComm_LimitSteeringState :: "u8 \<Rightarrow> u8" where
  "CanComm_LimitSteeringState steeringState =
     (if steeringState = ACT_STATUS_STEERING_LEFT \<or> steeringState = ACT_STATUS_STEERING_CENTER \<or>
         steeringState = ACT_STATUS_STEERING_RIGHT
      then steeringState else ACT_STATUS_STEERING_CENTER)"

definition CanComm_LimitSteeringAngleDeg :: "u8 \<Rightarrow> u8" where
  "CanComm_LimitSteeringAngleDeg steeringAngleDeg = steeringAngleDeg"

text \<open>
  \<open>CanComm_Init\<close>, less the configuration of the CAN module. The main program initialises the node
  with \<open>ActCan_Init\<close> instead, so the counters below start from their static initial values, the same.
\<close>

definition CanComm_Init :: "'a act_status_scheme \<Rightarrow> 'a act_status_scheme" where
  "CanComm_Init s =
     (CanComm_EnableTransceiver s)\<lparr>g_debugCanTxCallCount := 0, g_debugCanTxOkCount := 0,
       g_debugCanTxBusyCount := 0, g_debugCanLastStatus := None,
       g_debugActStatusLastSteeringAngleDeg := 0, g_txBufferIndex := 0\<rparr>"

text \<open>The bytes of the message, and the words they are packed into.\<close>

definition status_bytes :: "u32 \<Rightarrow> u8 \<Rightarrow> u8 \<Rightarrow> u8 \<Rightarrow> u8 list" where
  "status_bytes speedKmhX100 gearState steeringState steeringAngleDeg =
     (let speedKmhX100 = (if speedKmhX100 > 65535 then 65535 else speedKmhX100);
          speed16 = ucast speedKmhX100 :: u16
      in [lo8 speed16, hi8 speed16, CanComm_LimitGearState gearState,
          CanComm_LimitSteeringState steeringState, CanComm_LimitSteeringAngleDeg steeringAngleDeg])"

definition status_frame :: "u8 list \<Rightarrow> act_frame" where
  "status_frame txByte =
     \<lparr>af_id = ACT_STATUS_CAN_ID, af_mode = FrameMode_fdLongAndFast, af_dlc = 5,
      af_data = [pack_le (txByte ! 0) (txByte ! 1) (txByte ! 2) (txByte ! 3),
        0 OR push_bit 0 (ucast (txByte ! 4))]\<rparr>"

definition CanComm_SendActStatus ::
  "hw \<Rightarrow> u32 \<Rightarrow> u8 \<Rightarrow> u8 \<Rightarrow> u8 \<Rightarrow> 'a act_status_scheme \<Rightarrow> 'a act_status_scheme" where
  "CanComm_SendActStatus h speedKmhX100 gearState steeringState steeringAngleDeg s =
     (let s = s\<lparr>g_debugCanTxCallCount := g_debugCanTxCallCount s + 1\<rparr>;
          txByte = status_bytes speedKmhX100 gearState steeringState steeringAngleDeg;
          bufferNumber = unat (g_txBufferIndex s);
          status = hw_can h (can_calls s);
          s = s\<lparr>can_calls := can_calls s + 1\<rparr>;
          s = s\<lparr>g_debugCanLastStatus := Some status\<rparr>
      in if status = NotSentBusy
         then s\<lparr>g_debugCanTxBusyCount := g_debugCanTxBusyCount s + 1\<rparr>
         else
           let s = s\<lparr>can_sent := (bufferNumber, status_frame txByte) # can_sent s\<rparr>;
               s = s\<lparr>g_debugActStatusLastSteeringAngleDeg := CanComm_LimitSteeringAngleDeg steeringAngleDeg,
                     g_debugCanTxOkCount := g_debugCanTxOkCount s + 1,
                     g_txBufferIndex := g_txBufferIndex s + 1\<rparr>
           in if g_txBufferIndex s \<ge> CAN_TX_BUFFER_COUNT then s\<lparr>g_txBufferIndex := 0\<rparr> else s)"

section \<open>What the receiver reads\<close>

text \<open>The reading the comment in \<open>CanComm.h\<close> prescribes: a little-endian speed and three bytes.\<close>

definition read_status :: "act_frame \<Rightarrow> u16 \<times> u8 \<times> u8 \<times> u8" where
  "read_status f =
     (be16 (byte_at 8 (af_data f ! 0)) (byte_at 0 (af_data f ! 0)), byte_at 16 (af_data f ! 0),
      byte_at 24 (af_data f ! 0), byte_at 0 (af_data f ! 1))"

lemma byte_at_single: "byte_at 0 (ucast (b :: u8) :: u32) = b"
  by (rule bit_word_eqI) (auto simp: bit_byte_at bit_simps)

lemma read_status_frame:
  "read_status (status_frame (status_bytes v g st a)) =
     ((if v > 65535 then 65535 else ucast v), CanComm_LimitGearState g, CanComm_LimitSteeringState st, a)"
  by (simp add: read_status_def status_frame_def status_bytes_def Let_def CanComm_LimitSteeringAngleDeg_def
      byte_at_single)

section \<open>What a transmission leaves alone\<close>

lemma SendActStatus_sent:
  "can_sent (CanComm_SendActStatus h v g st a s) =
     (if hw_can h (can_calls s) = NotSentBusy then can_sent s
      else (unat (g_txBufferIndex s), status_frame (status_bytes v g st a)) # can_sent s)"
  by (simp add: CanComm_SendActStatus_def Let_def)

lemma SendActStatus_buffer:
  "g_txBufferIndex s < 2 \<Longrightarrow> g_txBufferIndex (CanComm_SendActStatus h v g st a s) < 2"
  by (simp add: CanComm_SendActStatus_def Let_def not_le)

lemma SendActStatus_frame [fw_frame]:
  "act_pot.truncate (CanComm_SendActStatus h v g st a s) = act_pot.truncate s"
  "act_core (CanComm_SendActStatus h v g st a s) = act_core s"
  "act_status.more (CanComm_SendActStatus h v g st a s) = act_status.more s"
  by (simp_all add: CanComm_SendActStatus_def Let_def act_core_def act_copy_command_def act_pot.truncate_def)

end
