(* ===== verification/Act_Speed.thy ===== *)
theory Act_Speed
  imports Complex_Main "HOL-Library.Log_Nat" Fw_Prelude
begin

text \<open>
  Speed arithmetic of the ACT ECU: \<open>App_ConvertPulsePerSecondToKmhX100\<close> of \<open>src/ACT/Cpu0_Main.c\<close> and
  \<open>UdsDiag_GetSpeedKmhX100\<close> of \<open>src/ACT/UdsDiag.c\<close>. A C \<open>float\<close> is the rational it stands for, and
  every operation is the exact one followed by \<open>f32\<close>, the rounding to 24 significant bits, ties to
  even. All values are non-negative and far from the ends of the exponent range, so subnormal
  numbers and infinities do not arise. The lemmas bound the accumulated error.
\<close>

section \<open>Rounding to single precision\<close>

definition rat_exponent :: "rat \<Rightarrow> int" where
  "rat_exponent x = (let (a, b) = quotient_of x; e = bitlen a - bitlen b
     in if x < 2 powi e then e - 1 else e)"

definition round_even :: "rat \<Rightarrow> int" where
  "round_even y = (let n = \<lfloor>y\<rfloor>; d = y - of_int n
     in if d < 1 / 2 \<or> d = 1 / 2 \<and> even n then n else n + 1)"

definition f32 :: "rat \<Rightarrow> rat" where
  "f32 x = (if x \<le> 0 then 0
     else let q = 2 powi (rat_exponent x - 23) in of_int (round_even (x / q)) * q)"

section \<open>The conversions\<close>

definition PI_F :: rat where "PI_F = f32 (31415926 / 10000000)"
definition WHEEL_DIAMETER_M :: rat where "WHEEL_DIAMETER_M = f32 (65 / 1000)"
definition ENCODER_PULSES_PER_REV_F :: rat where "ENCODER_PULSES_PER_REV_F = 990"

text \<open>The common part, km/h as a float.\<close>

definition speed_kmh :: "u32 \<Rightarrow> rat" where
  "speed_kmh pulsePerSecond =
     (let wheelCircumferenceM = f32 (PI_F * WHEEL_DIAMETER_M);
          speedMps = f32 (f32 (f32 (of_nat (unat pulsePerSecond)) / ENCODER_PULSES_PER_REV_F) *
            wheelCircumferenceM)
      in f32 (speedMps * f32 (36 / 10)))"

text \<open>The clamp to 65535 and the rounding by truncation of \<open>x + 0.5\<close>.\<close>

definition speed_to_int :: "rat \<Rightarrow> int" where
  "speed_to_int speedKmhX100 =
     (let speedKmhX100 = (if speedKmhX100 < 0 then 0 else speedKmhX100);
          speedKmhX100 = (if speedKmhX100 > 65535 then 65535 else speedKmhX100)
      in \<lfloor>f32 (speedKmhX100 + 1 / 2)\<rfloor>)"

definition App_ConvertPulsePerSecondToKmhX100 :: "u32 \<Rightarrow> u32" where
  "App_ConvertPulsePerSecondToKmhX100 pulsePerSecond =
     word_of_int (speed_to_int (f32 (speed_kmh pulsePerSecond * 100)))"

definition uds_speed :: "u32 \<Rightarrow> u16" where
  "uds_speed pulsePerSecond =
     word_of_int (speed_to_int (f32 (f32 (speed_kmh pulsePerSecond * 100) * 100)))"

section \<open>The error of the rounding\<close>

lemma bitlen_powi:
  assumes "0 < k"
  shows "(2 :: rat) powi (bitlen k - 1) \<le> of_int k" and "of_int k < (2 :: rat) powi bitlen k"
proof -
  have p: "0 \<le> bitlen k - 1" "0 \<le> bitlen k"
    using bitlen_eq_zero_iff [of k] bitlen_nonneg [of k] assms by simp_all
  have e: "(2 :: rat) powi n = of_int (2 ^ nat n)" if "0 \<le> n" for n
    using that by (simp add: power_int_def)
  show "(2 :: rat) powi (bitlen k - 1) \<le> of_int k" "of_int k < (2 :: rat) powi bitlen k"
    unfolding e [OF p(1)] e [OF p(2)] of_int_le_iff of_int_less_iff using bitlen_bounds [OF assms] by simp_all
qed

lemma rat_exponent_bounds:
  assumes "0 < x"
  shows "2 powi rat_exponent x \<le> x" and "x < 2 * 2 powi rat_exponent x"
proof -
  obtain a b where q: "quotient_of x = (a, b)" by force
  then have b: "0 < b" and x: "x = of_int a / of_int b"
    using quotient_of_denom_pos quotient_of_div by auto
  with assms have a: "0 < a" by (simp add: zero_less_divide_iff)
  define e where "e = bitlen a - bitlen b"
  note A = bitlen_powi [OF a] and B = bitlen_powi [OF b]
  have "x \<le> of_int a / 2 powi (bitlen b - 1)"
    unfolding x using A B a b by (intro divide_left_mono mult_pos_pos) auto
  also have "\<dots> < 2 powi bitlen a / 2 powi (bitlen b - 1)"
    using A by (intro divide_strict_right_mono) auto
  also have "\<dots> = 2 * 2 powi e" by (simp add: e_def power_int_diff)
  finally have up: "x < 2 * 2 powi e" .
  have "2 powi (e - 1) = 2 powi (bitlen a - 1) / (2 powi bitlen b :: rat)"
    by (simp add: e_def power_int_diff)
  also have "\<dots> \<le> of_int a / 2 powi bitlen b" using A by (intro divide_right_mono) auto
  also have "\<dots> \<le> x" unfolding x using A B a b by (intro divide_left_mono) auto
  finally have lo: "2 powi (e - 1) \<le> x" .
  have r: "rat_exponent x = (if x < 2 powi e then e - 1 else e)"
    by (simp add: rat_exponent_def q e_def Let_def)
  have "2 * 2 powi (e - 1) = (2 powi e :: rat)" by (simp add: power_int_diff)
  then show "2 powi rat_exponent x \<le> x" "x < 2 * 2 powi rat_exponent x"
    using lo up by (auto simp: r)
qed

lemma round_even_error: "\<bar>of_int (round_even y) - y\<bar> \<le> 1 / 2"
proof -
  have "of_int \<lfloor>y\<rfloor> \<le> y" "y < of_int \<lfloor>y\<rfloor> + 1" by linarith+
  then show ?thesis by (auto simp: round_even_def Let_def)
qed

lemma f32_error:
  assumes "0 \<le> x"
  shows "\<bar>f32 x - x\<bar> \<le> x / 2 ^ 24"
proof (cases "x = 0")
  case False
  with assms have x: "0 < x" by simp
  define q where "q = (2 :: rat) powi (rat_exponent x - 23)"
  have q: "0 < q" "2 powi rat_exponent x = 2 ^ 23 * q" by (simp_all add: q_def power_int_diff)
  have "f32 x - x = (of_int (round_even (x / q)) - x / q) * q"
    using x q(1) by (simp add: f32_def Let_def left_diff_distrib flip: q_def)
  then have "\<bar>f32 x - x\<bar> = \<bar>of_int (round_even (x / q)) - x / q\<bar> * q"
    using q(1) by (simp add: abs_mult)
  also have "\<dots> \<le> 1 / 2 * q" using round_even_error q(1) by (intro mult_right_mono) auto
  also have "\<dots> \<le> x / 2 ^ 24" using rat_exponent_bounds(1) [OF x] by (simp add: q(2))
  finally show ?thesis .
qed (simp add: f32_def)

text \<open>\<open>near k x y\<close>: \<open>y\<close> is \<open>x\<close> after at most \<open>k\<close> roundings.\<close>

definition near :: "nat \<Rightarrow> rat \<Rightarrow> rat \<Rightarrow> bool" where
  "near k x y \<longleftrightarrow> 0 \<le> x \<and> x * (1 - 1 / 2 ^ 24) ^ k \<le> y \<and> y \<le> x * (1 + 1 / 2 ^ 24) ^ k"

lemma near_refl: "0 \<le> x \<Longrightarrow> near 0 x x"
  by (simp add: near_def)

lemma near_pos: "near k x y \<Longrightarrow> 0 \<le> y"
  using order_trans [of 0 "x * (1 - 1 / 2 ^ 24) ^ k" y] by (auto simp: near_def)

lemma near_f32:
  assumes "near k x y"
  shows "near (Suc k) x (f32 y)"
proof -
  let ?d = "1 - 1 / 2 ^ 24 :: rat" and ?u = "1 + 1 / 2 ^ 24 :: rat"
  have "y * ?d \<le> f32 y" "f32 y \<le> y * ?u"
    using abs_le_D1 [OF f32_error [OF near_pos [OF assms]]] abs_le_D2 [OF f32_error [OF near_pos [OF assms]]]
    by (simp_all add: algebra_simps)
  moreover have "x * ?d ^ k * ?d \<le> y * ?d" "y * ?u \<le> x * ?u ^ k * ?u"
    using assms by (auto simp: near_def intro!: mult_right_mono)
  ultimately show ?thesis using assms by (simp add: near_def mult.commute mult.left_commute)
qed

lemma near_mult:
  assumes "near j a b" "near k c d"
  shows "near (j + k) (a * c) (b * d)"
proof -
  let ?d = "1 - 1 / 2 ^ 24 :: rat" and ?u = "1 + 1 / 2 ^ 24 :: rat"
  have "(a * ?d ^ j) * (c * ?d ^ k) \<le> b * d" "b * d \<le> (a * ?u ^ j) * (c * ?u ^ k)"
    using assms near_pos [OF assms(1)] near_pos [OF assms(2)]
    by (auto simp: near_def intro!: mult_mono mult_nonneg_nonneg)
  then show ?thesis using assms by (simp add: near_def power_add algebra_simps)
qed

lemma near_scale: "near k x y \<Longrightarrow> 0 \<le> c \<Longrightarrow> near k (x * c) (y * c)"
  using near_mult [of k x y 0 c c] near_refl by simp

text \<open>The exact value: pulses per second, 990 pulses per revolution, a wheel of 6.5 cm.\<close>

definition exact_kmh_x100 :: "nat \<Rightarrow> rat" where
  "exact_kmh_x100 n = of_nat n / 990 * (31415926 / 10000000 * (65 / 1000)) * (36 / 10) * 100"

lemma near_speed_kmh: "near 8 (exact_kmh_x100 (unat p) / 100) (speed_kmh p)"
proof -
  have c: "near 3 (31415926 / 10000000 * (65 / 1000)) (f32 (PI_F * WHEEL_DIAMETER_M))"
    using near_f32 [OF near_mult [OF near_f32 [OF near_refl] near_f32 [OF near_refl]],
        of "31415926 / 10000000" "65 / 1000"]
    by (simp add: PI_F_def WHEEL_DIAMETER_M_def numeral_3_eq_3)
  have n: "near 2 (of_nat (unat p) / 990) (f32 (f32 (of_nat (unat p)) / ENCODER_PULSES_PER_REV_F))"
    using near_f32 [OF near_scale [OF near_f32 [OF near_refl [of "of_nat (unat p)"]], of "1 / 990"]]
    by (simp add: ENCODER_PULSES_PER_REV_F_def numeral_2_eq_2 del: of_nat_unat)
  have k: "near 1 (36 / 10) (f32 (36 / 10))" using near_f32 [OF near_refl] by simp
  show ?thesis
    using near_f32 [OF near_mult [OF near_f32 [OF near_mult [OF n c]] k]]
    by (simp add: speed_kmh_def Let_def exact_kmh_x100_def eval_nat_numeral)
qed

text \<open>After at most ten roundings the error is below a millionth of the value.\<close>

lemma near_abs:
  assumes "near k x y" "k \<le> 10"
  shows "\<bar>y - x\<bar> \<le> x / 1000000"
proof -
  let ?d = "1 - 1 / 2 ^ 24 :: rat" and ?u = "1 + 1 / 2 ^ 24 :: rat"
  have x: "0 \<le> x" using assms(1) by (simp add: near_def)
  have "?d ^ 10 \<le> ?d ^ k" "?u ^ k \<le> ?u ^ 10"
    using assms(2) by (auto intro: power_decreasing power_increasing)
  moreover have "1 - 1 / 1000000 \<le> ?d ^ 10" "?u ^ 10 \<le> 1 + 1 / 1000000" by (simp_all add: power_divide eval_nat_numeral)
  ultimately have "x * (1 - 1 / 1000000) \<le> x * ?d ^ k" "x * ?u ^ k \<le> x * (1 + 1 / 1000000)"
    using x by (intro mult_left_mono; linarith)+
  then have "x * (1 - 1 / 1000000) \<le> y" "y \<le> x * (1 + 1 / 1000000)"
    using assms(1) unfolding near_def by (blast intro: order_trans)+
  then have "y - x \<le> x / 1000000" "x - y \<le> x / 1000000" by (simp_all add: algebra_simps)
  then show ?thesis by (simp only: abs_le_iff) simp
qed

lemma speed_to_int_near:
  assumes "near k x y" "k \<le> 10" "x \<le> 65000"
  shows "\<bar>of_int (speed_to_int y) - x\<bar> \<le> 1" "0 \<le> speed_to_int y" "speed_to_int y \<le> 65535"
proof -
  have x: "0 \<le> x" and y: "0 \<le> y" using assms(1) near_pos by (auto simp: near_def)
  have e: "\<bar>y - x\<bar> \<le> x / 1000000" by (rule near_abs [OF assms(1,2)])
  then have "y \<le> 65535" using assms(3) by linarith
  with y have s: "speed_to_int y = \<lfloor>f32 (y + 1 / 2)\<rfloor>" by (simp add: speed_to_int_def Let_def)
  have "\<bar>f32 (y + 1 / 2) - (y + 1 / 2)\<bar> \<le> (y + 1 / 2) / 16777216"
    using f32_error [of "y + 1 / 2"] y by simp
  from abs_le_D1 [OF this] abs_le_D2 [OF this]
  have "f32 (y + 1 / 2) \<le> y + 51 / 100" "y + 49 / 100 \<le> f32 (y + 1 / 2)"
    using \<open>y \<le> 65535\<close> y by simp_all
  moreover have "y - x \<le> 65 / 1000" "x - y \<le> 65 / 1000"
    using abs_le_D1 [OF e] abs_le_D2 [OF e] assms(3) by simp_all
  ultimately show "\<bar>of_int (speed_to_int y) - x\<bar> \<le> 1" "0 \<le> speed_to_int y" "speed_to_int y \<le> 65535"
    unfolding s using assms(3) y by linarith+
qed


section \<open>The two speeds\<close>

lemma App_speed_near:
  assumes "exact_kmh_x100 (unat p) \<le> 65000"
  shows "\<bar>of_nat (unat (App_ConvertPulsePerSecondToKmhX100 p)) - exact_kmh_x100 (unat p)\<bar> \<le> 1"
    "unat (App_ConvertPulsePerSecondToKmhX100 p) \<le> 65535"
proof -
  have n: "near 9 (exact_kmh_x100 (unat p)) (f32 (speed_kmh p * 100))"
    using near_f32 [OF near_scale [OF near_speed_kmh [of p], of 100]] by simp
  note s = speed_to_int_near [OF n _ assms]
  have "int (unat (App_ConvertPulsePerSecondToKmhX100 p)) = speed_to_int (f32 (speed_kmh p * 100))"
    using s(2,3) by (simp add: App_ConvertPulsePerSecondToKmhX100_def uint_word_of_int take_bit_int_def)
  then have "(of_nat (unat (App_ConvertPulsePerSecondToKmhX100 p)) :: rat) =
      of_int (speed_to_int (f32 (speed_kmh p * 100)))"
      "unat (App_ConvertPulsePerSecondToKmhX100 p) \<le> 65535"
    using s(3) by (metis of_int_of_nat_eq, linarith)
  then show "\<bar>of_nat (unat (App_ConvertPulsePerSecondToKmhX100 p)) - exact_kmh_x100 (unat p)\<bar> \<le> 1"
    "unat (App_ConvertPulsePerSecondToKmhX100 p) \<le> 65535"
    using s(1) by simp_all
qed

lemma uds_speed_near:
  assumes "100 * exact_kmh_x100 (unat p) \<le> 65000"
  shows "\<bar>of_nat (unat (uds_speed p)) - 100 * exact_kmh_x100 (unat p)\<bar> \<le> 1"
proof -
  have n: "near 10 (100 * exact_kmh_x100 (unat p)) (f32 (f32 (speed_kmh p * 100) * 100))"
    using near_f32 [OF near_scale [OF near_f32 [OF near_scale [OF near_speed_kmh [of p], of 100]], of 100]]
    by (simp add: mult.commute)
  note s = speed_to_int_near [OF n _ assms]
  have "int (unat (uds_speed p)) = speed_to_int (f32 (f32 (speed_kmh p * 100) * 100))"
    using s(2,3) by (simp add: uds_speed_def uint_word_of_int take_bit_int_def)
  then have "(of_nat (unat (uds_speed p)) :: rat) = of_int (speed_to_int (f32 (f32 (speed_kmh p * 100) * 100)))"
    by (metis of_int_of_nat_eq)
  then show ?thesis using s(1) by simp
qed

end
