(* ===== verification/Act_Uds.thy ===== *)
theory Act_Uds
  imports Act_Status Act_Speed Dtc_Monitor
begin

unbundle bit_operations_syntax

text \<open>
  The diagnostic server of the ACT ECU, \<open>src/ACT/UdsDiag.c\<close>: requests from 0x700, answers of up to
  eleven bytes in CAN-FD frames 0x708, two trouble codes tested every three seconds, and two
  routines that drive the motor and the servo and answer when they end. A payload is a list; the
  request bytes \<open>uds\<close> the handlers read are always among the \<open>len\<close> that were copied.
\<close>

section \<open>Constants\<close>

abbreviation (input) UDS_DIAG_REQ_CAN_ID :: u32 where "UDS_DIAG_REQ_CAN_ID \<equiv> 0x700"
abbreviation (input) UDS_DIAG_RES_CAN_ID :: u32 where "UDS_DIAG_RES_CAN_ID \<equiv> 0x708"
abbreviation (input) SID_DIAGNOSTIC_SESSION_CONTROL :: u8 where "SID_DIAGNOSTIC_SESSION_CONTROL \<equiv> 0x10"
abbreviation (input) SID_READ_DATA_BY_IDENTIFIER :: u8 where "SID_READ_DATA_BY_IDENTIFIER \<equiv> 0x22"
abbreviation (input) SID_READ_DTC_INFORMATION :: u8 where "SID_READ_DTC_INFORMATION \<equiv> 0x19"
abbreviation (input) SID_CLEAR_DIAGNOSTIC_INFORMATION :: u8 where "SID_CLEAR_DIAGNOSTIC_INFORMATION \<equiv> 0x14"
abbreviation (input) SID_ROUTINE_CONTROL :: u8 where "SID_ROUTINE_CONTROL \<equiv> 0x31"
abbreviation (input) POS_RESP_OFFSET :: u8 where "POS_RESP_OFFSET \<equiv> 0x40"
abbreviation (input) SID_NEGATIVE_RESPONSE :: u8 where "SID_NEGATIVE_RESPONSE \<equiv> 0x7F"
abbreviation (input) NRC_SERVICE_NOT_SUPPORTED :: u8 where "NRC_SERVICE_NOT_SUPPORTED \<equiv> 0x11"
abbreviation (input) NRC_SUBFUNCTION_NOT_SUPPORTED :: u8 where "NRC_SUBFUNCTION_NOT_SUPPORTED \<equiv> 0x12"
abbreviation (input) NRC_INCORRECT_MESSAGE_LENGTH :: u8 where "NRC_INCORRECT_MESSAGE_LENGTH \<equiv> 0x13"
abbreviation (input) NRC_BUSY_REPEAT_REQUEST :: u8 where "NRC_BUSY_REPEAT_REQUEST \<equiv> 0x21"
abbreviation (input) NRC_REQUEST_OUT_OF_RANGE :: u8 where "NRC_REQUEST_OUT_OF_RANGE \<equiv> 0x31"
abbreviation (input) NRC_CONDITIONS_NOT_CORRECT :: u8 where "NRC_CONDITIONS_NOT_CORRECT \<equiv> 0x22"
abbreviation (input) SESSION_DEFAULT :: u8 where "SESSION_DEFAULT \<equiv> 1"
abbreviation (input) SESSION_EXTENDED :: u8 where "SESSION_EXTENDED \<equiv> 3"
abbreviation (input) DID_ECU_ID :: u16 where "DID_ECU_ID \<equiv> 0xF190"
abbreviation (input) DID_VEHICLE_SPEED :: u16 where "DID_VEHICLE_SPEED \<equiv> 0x0100"
abbreviation (input) DID_STEERING_ANGLE :: u16 where "DID_STEERING_ANGLE \<equiv> 0x0101"
abbreviation (input) DTC_ENCODER_NO_SIGNAL :: u32 where "DTC_ENCODER_NO_SIGNAL \<equiv> 0xC10000"
abbreviation (input) DTC_STEERING_MISMATCH :: u32 where "DTC_STEERING_MISMATCH \<equiv> 0xC10100"
abbreviation (input) DTC_REPORT_SUBFUNCTION :: u8 where "DTC_REPORT_SUBFUNCTION \<equiv> 0x0A"
abbreviation (input) DTC_STATUS_INIT :: u8 where "DTC_STATUS_INIT \<equiv> 0"
abbreviation (input) DTC_STATUS_CURRENT_BIT :: u8 where "DTC_STATUS_CURRENT_BIT \<equiv> 0x01"
abbreviation (input) DTC_STATUS_HISTORY_BIT :: u8 where "DTC_STATUS_HISTORY_BIT \<equiv> 0x08"
abbreviation (input) DTC_STATUS_AVAILABILITY_MASK :: u8 where "DTC_STATUS_AVAILABILITY_MASK \<equiv> 0x01 OR 0x08"
abbreviation (input) DTC_MONITOR_PERIOD_MS :: u32 where "DTC_MONITOR_PERIOD_MS \<equiv> 3000"
abbreviation (input) DTC_CONFIRM_FAIL_COUNT :: u8 where "DTC_CONFIRM_FAIL_COUNT \<equiv> 3"
abbreviation (input) DTC_ENCODER_NO_SIGNAL_MS :: u32 where "DTC_ENCODER_NO_SIGNAL_MS \<equiv> 2000"
abbreviation (input) DTC_STEERING_MISMATCH_MS :: u32 where "DTC_STEERING_MISMATCH_MS \<equiv> 1000"
abbreviation (input) ROUTINE_MOTOR_TEST :: u16 where "ROUTINE_MOTOR_TEST \<equiv> 0x0100"
abbreviation (input) ROUTINE_SERVO_TEST :: u16 where "ROUTINE_SERVO_TEST \<equiv> 0x0101"
abbreviation (input) ROUTINE_RESULT_OK :: u8 where "ROUTINE_RESULT_OK \<equiv> 0"
abbreviation (input) UDS_TX_BUFFER_0 :: u8 where "UDS_TX_BUFFER_0 \<equiv> 2"
abbreviation (input) UDS_TX_BUFFER_1 :: u8 where "UDS_TX_BUFFER_1 \<equiv> 3"
abbreviation (input) UDS_SINGLE_FRAME_MAX_PAYLOAD :: u8 where "UDS_SINGLE_FRAME_MAX_PAYLOAD \<equiv> 11"

section \<open>State\<close>

datatype UdsRoutineState = UDS_ROUTINE_NONE | UDS_ROUTINE_MOTOR_TEST | UDS_ROUTINE_SERVO_TEST

definition routine_code :: "UdsRoutineState \<Rightarrow> u32" where
  "routine_code r = (case r of UDS_ROUTINE_NONE \<Rightarrow> 0 | UDS_ROUTINE_MOTOR_TEST \<Rightarrow> 1 | UDS_ROUTINE_SERVO_TEST \<Rightarrow> 2)"

record act_uds = act_status +
  g_diagSession :: u8
  g_dtcC100Status :: u8
  g_dtcC101Status :: u8
  g_dtcEncoderNoSignalTimerMs :: u32
  g_dtcSteeringMismatchTimerMs :: u32
  g_dtcMonitorPeriodTimerMs :: u32
  g_dtcC100ConsecutiveFailCount :: u8
  g_dtcC101ConsecutiveFailCount :: u8
  g_routineState :: UdsRoutineState
  g_routineTimerMs :: u32
  g_routineStep :: u32
  g_routineResult :: u8
  g_savedMotorDuty :: u32
  g_reqPending :: bool
  g_reqData :: "u8 list"
  g_udsTxBufferIndex :: u8
  g_debugUdsRxCount :: u32
  g_debugUdsTxCount :: u32
  g_debugUdsTxBusyCount :: u32
  g_debugUdsLastSid :: u32
  g_debugUdsLastNrc :: u32
  g_debugUdsDtcC100 :: u32
  g_debugUdsDtcC101 :: u32
  g_debugUdsRoutineState :: u32
  g_debugUdsRoutineResult :: u32

section \<open>Measurements\<close>

text \<open>A \<open>sint16\<close> is its 16-bit pattern; the difference fits a \<open>sint32\<close>.\<close>

definition UdsDiag_AbsDiffSint16 :: "u16 \<Rightarrow> u16 \<Rightarrow> u32" where
  "UdsDiag_AbsDiffSint16 a b =
     (let diff = sint a - sint b;
          diff = (if diff < 0 then - diff else diff)
      in word_of_int diff)"

definition UdsDiag_GetSpeedKmhX100 :: "'a act_uds_scheme \<Rightarrow> u16" where
  "UdsDiag_GetSpeedKmhX100 s = uds_speed (Encoder_GetPulsePerSecond s)"

definition UdsDiag_GetSteeringAngleDeg :: "'a act_uds_scheme \<Rightarrow> u16" where
  "UdsDiag_GetSteeringAngleDeg s =
     (let angle = PotAdc_GetSignedAngleDeg s;
          angle = (if sint angle < -45 then word_of_int (-45) else angle)
      in if sint angle > 45 then 45 else angle)"

definition UdsDiag_GetCommandTargetAngleDeg :: "'a act_uds_scheme \<Rightarrow> u16" where
  "UdsDiag_GetCommandTargetAngleDeg s =
     (case Steering_GetKey s of
        STEERING_KEY_LEFT \<Rightarrow> word_of_int (-35)
      | STEERING_KEY_RIGHT \<Rightarrow> 35
      | STEERING_KEY_NULL \<Rightarrow> 0)"

section \<open>Responses\<close>

text \<open>The twelve bytes of a single frame: length nibble, payload, zero padding.\<close>

definition sf_bytes :: "u8 list \<Rightarrow> u8 \<Rightarrow> u8 list" where
  "sf_bytes udsPayload udsLen =
     (udsLen AND 0x0F) # take (unat udsLen) udsPayload @ replicate (11 - unat udsLen) 0"

definition sf_frame :: "u8 list \<Rightarrow> u8 \<Rightarrow> act_frame" where
  "sf_frame udsPayload udsLen =
     (let txByte = sf_bytes udsPayload udsLen
      in \<lparr>af_id = UDS_DIAG_RES_CAN_ID, af_mode = FrameMode_fdLongAndFast,
          af_dlc = (if udsLen \<le> 7 then 8 else 12),
          af_data = [pack_le (txByte ! 0) (txByte ! 1) (txByte ! 2) (txByte ! 3),
            pack_le (txByte ! 4) (txByte ! 5) (txByte ! 6) (txByte ! 7),
            pack_le (txByte ! 8) (txByte ! 9) (txByte ! 10) (txByte ! 11)]\<rparr>)"

definition UdsDiag_SendSingleFrame :: "hw \<Rightarrow> u8 list \<Rightarrow> u8 \<Rightarrow> 'a act_uds_scheme \<Rightarrow> 'a act_uds_scheme" where
  "UdsDiag_SendSingleFrame h udsPayload udsLen s =
     (if udsLen = 0 \<or> udsLen > UDS_SINGLE_FRAME_MAX_PAYLOAD then s
      else
        let frame = sf_frame udsPayload udsLen;
            bufferNumber = unat (g_udsTxBufferIndex s);
            status = hw_can h (can_calls s);
            s = s\<lparr>can_calls := can_calls s + 1\<rparr>
        in if status = NotSentBusy
           then s\<lparr>g_debugUdsTxBusyCount := g_debugUdsTxBusyCount s + 1\<rparr>
           else
             let s = s\<lparr>can_sent := (bufferNumber, frame) # can_sent s,
                       g_debugUdsTxCount := g_debugUdsTxCount s + 1\<rparr>
             in if g_udsTxBufferIndex s = UDS_TX_BUFFER_0
                then s\<lparr>g_udsTxBufferIndex := UDS_TX_BUFFER_1\<rparr>
                else s\<lparr>g_udsTxBufferIndex := UDS_TX_BUFFER_0\<rparr>)"

definition UdsDiag_SendNegativeResponse :: "hw \<Rightarrow> u8 \<Rightarrow> u8 \<Rightarrow> 'a act_uds_scheme \<Rightarrow> 'a act_uds_scheme" where
  "UdsDiag_SendNegativeResponse h sid nrc s =
     (let payload = [SID_NEGATIVE_RESPONSE, sid, nrc];
          s = s\<lparr>g_debugUdsLastNrc := ucast nrc\<rparr>
      in UdsDiag_SendSingleFrame h payload 3 s)"

section \<open>Services\<close>

definition UdsDiag_HandleSessionControl ::
  "hw \<Rightarrow> u8 list \<Rightarrow> u8 \<Rightarrow> 'a act_uds_scheme \<Rightarrow> 'a act_uds_scheme" where
  "UdsDiag_HandleSessionControl h uds len s =
     (if len \<noteq> 2
      then UdsDiag_SendNegativeResponse h SID_DIAGNOSTIC_SESSION_CONTROL NRC_INCORRECT_MESSAGE_LENGTH s
      else
        let sub = uds ! 1 AND 0x7F
        in if sub \<noteq> SESSION_DEFAULT \<and> sub \<noteq> SESSION_EXTENDED
           then UdsDiag_SendNegativeResponse h SID_DIAGNOSTIC_SESSION_CONTROL NRC_SUBFUNCTION_NOT_SUPPORTED s
           else
             let s = s\<lparr>g_diagSession := sub\<rparr>;
                 payload = [SID_DIAGNOSTIC_SESSION_CONTROL + POS_RESP_OFFSET, sub, 0x27, 0x10, 0x03, 0xE8]
             in UdsDiag_SendSingleFrame h payload 6 s)"

definition UdsDiag_HandleReadDID :: "hw \<Rightarrow> u8 list \<Rightarrow> u8 \<Rightarrow> 'a act_uds_scheme \<Rightarrow> 'a act_uds_scheme" where
  "UdsDiag_HandleReadDID h uds len s =
     (if len \<noteq> 3
      then UdsDiag_SendNegativeResponse h SID_READ_DATA_BY_IDENTIFIER NRC_INCORRECT_MESSAGE_LENGTH s
      else
        let did = be16 (uds ! 1) (uds ! 2)
        in if did = DID_ECU_ID then
             UdsDiag_SendSingleFrame h
               [SID_READ_DATA_BY_IDENTIFIER + POS_RESP_OFFSET, 0xF1, 0x90, 0x41, 0x43, 0x54, 0x31] 7 s
           else if did = DID_VEHICLE_SPEED then
             let speed = UdsDiag_GetSpeedKmhX100 s
             in UdsDiag_SendSingleFrame h
                  [SID_READ_DATA_BY_IDENTIFIER + POS_RESP_OFFSET, 0x01, 0x00, hi8 speed, lo8 speed] 5 s
           else if did = DID_STEERING_ANGLE then
             let angleRaw = UdsDiag_GetSteeringAngleDeg s
             in UdsDiag_SendSingleFrame h
                  [SID_READ_DATA_BY_IDENTIFIER + POS_RESP_OFFSET, 0x01, 0x01, hi8 angleRaw, lo8 angleRaw] 5 s
           else UdsDiag_SendNegativeResponse h SID_READ_DATA_BY_IDENTIFIER NRC_REQUEST_OUT_OF_RANGE s)"

text \<open>\<open>UdsDiag_AppendDtc\<close> writes at the index it returns advanced by four: it extends the list.\<close>

definition UdsDiag_AppendDtc :: "u8 list \<Rightarrow> u32 \<Rightarrow> u8 \<Rightarrow> u8 list" where
  "UdsDiag_AppendDtc payload dtc status =
     payload @ [byte_at 16 dtc, byte_at 8 dtc, byte_at 0 dtc, status]"

definition UdsDiag_HandleReadDTC :: "hw \<Rightarrow> u8 list \<Rightarrow> u8 \<Rightarrow> 'a act_uds_scheme \<Rightarrow> 'a act_uds_scheme" where
  "UdsDiag_HandleReadDTC h uds len s =
     (if len \<noteq> 2
      then UdsDiag_SendNegativeResponse h SID_READ_DTC_INFORMATION NRC_INCORRECT_MESSAGE_LENGTH s
      else if uds ! 1 \<noteq> DTC_REPORT_SUBFUNCTION
      then UdsDiag_SendNegativeResponse h SID_READ_DTC_INFORMATION NRC_SUBFUNCTION_NOT_SUPPORTED s
      else
        let payload = [SID_READ_DTC_INFORMATION + POS_RESP_OFFSET, DTC_REPORT_SUBFUNCTION,
              DTC_STATUS_AVAILABILITY_MASK];
            payload = UdsDiag_AppendDtc payload DTC_ENCODER_NO_SIGNAL (g_dtcC100Status s);
            payload = UdsDiag_AppendDtc payload DTC_STEERING_MISMATCH (g_dtcC101Status s)
        in UdsDiag_SendSingleFrame h payload (of_nat (length payload)) s)"

definition act_clear_dtc :: "'a act_uds_scheme \<Rightarrow> 'a act_uds_scheme" where
  "act_clear_dtc s =
     (let s = s\<lparr>g_dtcC100Status := g_dtcC100Status s AND NOT DTC_STATUS_HISTORY_BIT,
                g_dtcC101Status := g_dtcC101Status s AND NOT DTC_STATUS_HISTORY_BIT,
                g_dtcC100ConsecutiveFailCount := 0, g_dtcC101ConsecutiveFailCount := 0\<rparr>
      in s\<lparr>g_debugUdsDtcC100 := ucast (g_dtcC100Status s), g_debugUdsDtcC101 := ucast (g_dtcC101Status s)\<rparr>)"

definition UdsDiag_HandleClearDTC :: "hw \<Rightarrow> u8 list \<Rightarrow> u8 \<Rightarrow> 'a act_uds_scheme \<Rightarrow> 'a act_uds_scheme" where
  "UdsDiag_HandleClearDTC h uds len s =
     (if len \<noteq> 4
      then UdsDiag_SendNegativeResponse h SID_CLEAR_DIAGNOSTIC_INFORMATION NRC_INCORRECT_MESSAGE_LENGTH s
      else if uds ! 1 \<noteq> 0xFF \<or> uds ! 2 \<noteq> 0xFF \<or> uds ! 3 \<noteq> 0xFF
      then UdsDiag_SendNegativeResponse h SID_CLEAR_DIAGNOSTIC_INFORMATION NRC_REQUEST_OUT_OF_RANGE s
      else UdsDiag_SendSingleFrame h [SID_CLEAR_DIAGNOSTIC_INFORMATION + POS_RESP_OFFSET] 1 (act_clear_dtc s))"

definition UdsDiag_StartMotorRoutine :: "'a act_uds_scheme \<Rightarrow> 'a act_uds_scheme" where
  "UdsDiag_StartMotorRoutine s =
     (let s = s\<lparr>g_routineState := UDS_ROUTINE_MOTOR_TEST, g_routineTimerMs := 0, g_routineStep := 0,
                g_routineResult := ROUTINE_RESULT_OK\<rparr>;
          s = s\<lparr>g_savedMotorDuty := MotorControl_GetDutyPercent s\<rparr>;
          s = Encoder_ResetCount s
      in MotorControl_SetDutyPercent 30 s)"

definition UdsDiag_StartServoRoutine :: "'a act_uds_scheme \<Rightarrow> 'a act_uds_scheme" where
  "UdsDiag_StartServoRoutine s =
     (let s = s\<lparr>g_routineState := UDS_ROUTINE_SERVO_TEST, g_routineTimerMs := 0, g_routineStep := 0,
                g_routineResult := ROUTINE_RESULT_OK\<rparr>
      in Steering_SetKey STEERING_KEY_LEFT s)"

definition UdsDiag_HandleRoutineControl ::
  "hw \<Rightarrow> u8 list \<Rightarrow> u8 \<Rightarrow> 'a act_uds_scheme \<Rightarrow> 'a act_uds_scheme" where
  "UdsDiag_HandleRoutineControl h uds len s =
     (if len \<noteq> 4 then UdsDiag_SendNegativeResponse h SID_ROUTINE_CONTROL NRC_INCORRECT_MESSAGE_LENGTH s
      else if uds ! 1 \<noteq> 0x01
      then UdsDiag_SendNegativeResponse h SID_ROUTINE_CONTROL NRC_SUBFUNCTION_NOT_SUPPORTED s
      else if g_diagSession s \<noteq> SESSION_EXTENDED
      then UdsDiag_SendNegativeResponse h SID_ROUTINE_CONTROL NRC_CONDITIONS_NOT_CORRECT s
      else if g_routineState s \<noteq> UDS_ROUTINE_NONE
      then UdsDiag_SendNegativeResponse h SID_ROUTINE_CONTROL NRC_BUSY_REPEAT_REQUEST s
      else
        let rid = be16 (uds ! 2) (uds ! 3)
        in if rid = ROUTINE_MOTOR_TEST then UdsDiag_StartMotorRoutine s
           else if rid = ROUTINE_SERVO_TEST then UdsDiag_StartServoRoutine s
           else UdsDiag_SendNegativeResponse h SID_ROUTINE_CONTROL NRC_REQUEST_OUT_OF_RANGE s)"

definition UdsDiag_SendRoutineResult :: "hw \<Rightarrow> u16 \<Rightarrow> u8 \<Rightarrow> 'a act_uds_scheme \<Rightarrow> 'a act_uds_scheme" where
  "UdsDiag_SendRoutineResult h rid result s =
     UdsDiag_SendSingleFrame h [SID_ROUTINE_CONTROL + POS_RESP_OFFSET, 0x01, hi8 rid, lo8 rid, result] 5 s"

text \<open>The switch on the service identifier.\<close>

definition act_uds_dispatch :: "hw \<Rightarrow> u8 \<Rightarrow> u8 list \<Rightarrow> u8 \<Rightarrow> 'a act_uds_scheme \<Rightarrow> 'a act_uds_scheme" where
  "act_uds_dispatch h sid uds len s =
     (if sid = SID_DIAGNOSTIC_SESSION_CONTROL then UdsDiag_HandleSessionControl h uds len s
      else if sid = SID_READ_DATA_BY_IDENTIFIER then UdsDiag_HandleReadDID h uds len s
      else if sid = SID_READ_DTC_INFORMATION then UdsDiag_HandleReadDTC h uds len s
      else if sid = SID_CLEAR_DIAGNOSTIC_INFORMATION then UdsDiag_HandleClearDTC h uds len s
      else if sid = SID_ROUTINE_CONTROL then UdsDiag_HandleRoutineControl h uds len s
      else UdsDiag_SendNegativeResponse h sid NRC_SERVICE_NOT_SUPPORTED s)"

definition UdsDiag_ProcessRequest :: "hw \<Rightarrow> u8 list \<Rightarrow> 'a act_uds_scheme \<Rightarrow> 'a act_uds_scheme" where
  "UdsDiag_ProcessRequest h data s =
     (if data ! 0 AND 0xF0 \<noteq> 0 then s
      else
        let len = data ! 0 AND 0x0F
        in if len = 0 \<or> len > 7 then s
           else
             let uds = take (unat len) (drop 1 data);
                 sid = uds ! 0
             in act_uds_dispatch h sid uds len (s\<lparr>g_debugUdsLastSid := ucast sid\<rparr>))"

section \<open>Trouble codes\<close>

text \<open>The pointers to status and count become a pair in and out.\<close>

definition UdsDiag_UpdateOneDtcStatus :: "u8 \<times> u8 \<Rightarrow> bool \<Rightarrow> u8 \<times> u8" where
  "UdsDiag_UpdateOneDtcStatus = (\<lambda>(status, consecutiveFailCount) faultActive.
     if faultActive then
       let status = status OR DTC_STATUS_CURRENT_BIT;
           consecutiveFailCount = (if consecutiveFailCount < DTC_CONFIRM_FAIL_COUNT
             then consecutiveFailCount + 1 else consecutiveFailCount);
           status = (if consecutiveFailCount \<ge> DTC_CONFIRM_FAIL_COUNT
             then status OR DTC_STATUS_HISTORY_BIT else status)
       in (status, consecutiveFailCount)
     else (status AND NOT DTC_STATUS_CURRENT_BIT, 0))"

text \<open>The two time-outs, and the test that is reported every three seconds.\<close>

definition dtc_timers :: "'a act_uds_scheme \<Rightarrow> 'a act_uds_scheme" where
  "dtc_timers s =
     (let motorState = MotorControl_GetState s;
          pulsePerSecond = Encoder_GetPulsePerSecond s;
          s = (if (motorState = MOTOR_STATE_FORWARD \<or> motorState = MOTOR_STATE_REVERSE) \<and> pulsePerSecond = 0
               then
                 if g_dtcEncoderNoSignalTimerMs s < DTC_ENCODER_NO_SIGNAL_MS
                 then s\<lparr>g_dtcEncoderNoSignalTimerMs := g_dtcEncoderNoSignalTimerMs s + 1\<rparr> else s
               else s\<lparr>g_dtcEncoderNoSignalTimerMs := 0\<rparr>);
          targetAngle = UdsDiag_GetCommandTargetAngleDeg s;
          actualAngle = UdsDiag_GetSteeringAngleDeg s;
          diff = UdsDiag_AbsDiffSint16 targetAngle actualAngle
      in if diff > 10
         then
           if g_dtcSteeringMismatchTimerMs s < DTC_STEERING_MISMATCH_MS
           then s\<lparr>g_dtcSteeringMismatchTimerMs := g_dtcSteeringMismatchTimerMs s + 1\<rparr> else s
         else s\<lparr>g_dtcSteeringMismatchTimerMs := 0\<rparr>)"

definition dtc_report :: "'a act_uds_scheme \<Rightarrow> 'a act_uds_scheme" where
  "dtc_report s =
     (let encoderFaultActive = (g_dtcEncoderNoSignalTimerMs s \<ge> DTC_ENCODER_NO_SIGNAL_MS);
          steeringFaultActive = (g_dtcSteeringMismatchTimerMs s \<ge> DTC_STEERING_MISMATCH_MS);
          (st, n) = UdsDiag_UpdateOneDtcStatus (g_dtcC100Status s, g_dtcC100ConsecutiveFailCount s)
            encoderFaultActive;
          s = s\<lparr>g_dtcC100Status := st, g_dtcC100ConsecutiveFailCount := n\<rparr>;
          (st, n) = UdsDiag_UpdateOneDtcStatus (g_dtcC101Status s, g_dtcC101ConsecutiveFailCount s)
            steeringFaultActive
      in s\<lparr>g_dtcC101Status := st, g_dtcC101ConsecutiveFailCount := n\<rparr>)"

definition UdsDiag_UpdateDtcMonitor1ms :: "'a act_uds_scheme \<Rightarrow> 'a act_uds_scheme" where
  "UdsDiag_UpdateDtcMonitor1ms s =
     (let s = dtc_timers s;
          s = s\<lparr>g_dtcMonitorPeriodTimerMs := g_dtcMonitorPeriodTimerMs s + 1\<rparr>;
          s = (if g_dtcMonitorPeriodTimerMs s \<ge> DTC_MONITOR_PERIOD_MS
               then dtc_report (s\<lparr>g_dtcMonitorPeriodTimerMs := 0\<rparr>) else s)
      in s\<lparr>g_debugUdsDtcC100 := ucast (g_dtcC100Status s), g_debugUdsDtcC101 := ucast (g_dtcC101Status s)\<rparr>)"

section \<open>Routines\<close>

definition UdsDiag_UpdateMotorRoutine1ms :: "hw \<Rightarrow> 'a act_uds_scheme \<Rightarrow> 'a act_uds_scheme" where
  "UdsDiag_UpdateMotorRoutine1ms h s =
     (let s = s\<lparr>g_routineTimerMs := g_routineTimerMs s + 1\<rparr>;
          s = MotorControl_SetDutyPercent 30 s;
          s = MotorControl_Forward s
      in if g_routineTimerMs s \<ge> 1000
         then
           let s = MotorControl_Stop s;
               s = MotorControl_SetDutyPercent (g_savedMotorDuty s) s;
               s = s\<lparr>g_routineResult := ROUTINE_RESULT_OK\<rparr>;
               s = UdsDiag_SendRoutineResult h ROUTINE_MOTOR_TEST ROUTINE_RESULT_OK s
           in s\<lparr>g_routineState := UDS_ROUTINE_NONE, g_routineTimerMs := 0, g_routineStep := 0\<rparr>
         else s)"

definition UdsDiag_UpdateServoRoutine1ms :: "hw \<Rightarrow> 'a act_uds_scheme \<Rightarrow> 'a act_uds_scheme" where
  "UdsDiag_UpdateServoRoutine1ms h s =
     (let s = s\<lparr>g_routineTimerMs := g_routineTimerMs s + 1\<rparr>;
          s = (if g_routineStep s = 0 then Steering_SetKey STEERING_KEY_LEFT s
               else if g_routineStep s = 1 then Steering_SetKey STEERING_KEY_NULL s
               else if g_routineStep s = 2 then Steering_SetKey STEERING_KEY_RIGHT s
               else Steering_SetKey STEERING_KEY_RIGHT s)
      in if g_routineTimerMs s < 800 then s
         else
           let s = s\<lparr>g_routineTimerMs := 0, g_routineStep := g_routineStep s + 1\<rparr>
           in if g_routineStep s \<ge> 3
              then
                let s = Steering_SetKey STEERING_KEY_NULL s;
                    s = s\<lparr>g_routineResult := ROUTINE_RESULT_OK\<rparr>;
                    s = UdsDiag_SendRoutineResult h ROUTINE_SERVO_TEST ROUTINE_RESULT_OK s
                in s\<lparr>g_routineState := UDS_ROUTINE_NONE, g_routineTimerMs := 0, g_routineStep := 0\<rparr>
              else s)"

definition UdsDiag_UpdateRoutine1ms :: "hw \<Rightarrow> 'a act_uds_scheme \<Rightarrow> 'a act_uds_scheme" where
  "UdsDiag_UpdateRoutine1ms h s =
     (let s = (case g_routineState s of
                 UDS_ROUTINE_MOTOR_TEST \<Rightarrow> UdsDiag_UpdateMotorRoutine1ms h s
               | UDS_ROUTINE_SERVO_TEST \<Rightarrow> UdsDiag_UpdateServoRoutine1ms h s
               | UDS_ROUTINE_NONE \<Rightarrow> s)
      in s\<lparr>g_debugUdsRoutineState := routine_code (g_routineState s),
           g_debugUdsRoutineResult := ucast (g_routineResult s)\<rparr>)"

section \<open>Public operations\<close>

definition UdsDiag_Init :: "'a act_uds_scheme \<Rightarrow> 'a act_uds_scheme" where
  "UdsDiag_Init s =
     s\<lparr>g_diagSession := SESSION_DEFAULT, g_dtcC100Status := DTC_STATUS_INIT,
       g_dtcC101Status := DTC_STATUS_INIT, g_dtcEncoderNoSignalTimerMs := 0,
       g_dtcSteeringMismatchTimerMs := 0, g_dtcMonitorPeriodTimerMs := 0,
       g_dtcC100ConsecutiveFailCount := 0, g_dtcC101ConsecutiveFailCount := 0,
       g_routineState := UDS_ROUTINE_NONE, g_routineTimerMs := 0, g_routineStep := 0,
       g_routineResult := ROUTINE_RESULT_OK, g_reqPending := False, g_reqData := replicate 8 0,
       g_udsTxBufferIndex := UDS_TX_BUFFER_0,
       g_debugUdsRxCount := 0, g_debugUdsTxCount := 0, g_debugUdsTxBusyCount := 0,
       g_debugUdsLastSid := 0, g_debugUdsLastNrc := 0, g_debugUdsDtcC100 := 0, g_debugUdsDtcC101 := 0,
       g_debugUdsRoutineState := 0, g_debugUdsRoutineResult := 0\<rparr>"

definition UdsDiag_OnCanRequest :: "u8 list \<Rightarrow> 'a act_uds_scheme \<Rightarrow> 'a act_uds_scheme" where
  "UdsDiag_OnCanRequest data s =
     s\<lparr>g_reqData := data, g_reqPending := True, g_debugUdsRxCount := g_debugUdsRxCount s + 1\<rparr>"

definition UdsDiag_Update1ms :: "hw \<Rightarrow> 'a act_uds_scheme \<Rightarrow> 'a act_uds_scheme" where
  "UdsDiag_Update1ms h s =
     (let s = (if g_reqPending s
               then
                 let localReq = g_reqData s;
                     s = s\<lparr>g_reqPending := False\<rparr>
                 in UdsDiag_ProcessRequest h localReq s
               else s);
          s = UdsDiag_UpdateRoutine1ms h s
      in UdsDiag_UpdateDtcMonitor1ms s)"

end
