(* ===== verification/Act_Ecu.thy ===== *)
theory Act_Ecu
  imports Act_Uds
begin

unbundle bit_operations_syntax

text \<open>
  The ACT ECU as a whole: the receive interrupt of \<open>src/ACT/ActCan.c\<close> and the main program of
  \<open>src/ACT/Cpu0_Main.c\<close>. The interrupt may come between any two steps of the loop, and between the
  reading of a received command and the fall of its flag, where a second command is lost; the
  relation \<open>act_step\<close> interleaves the two.
\<close>

section \<open>State\<close>

abbreviation (input) ENCODER_PULSES_PER_REV :: u32 where "ENCODER_PULSES_PER_REV \<equiv> 990"
abbreviation (input) CAN_STATUS_TX_PERIOD_MS :: u32 where "CAN_STATUS_TX_PERIOD_MS \<equiv> 50"
abbreviation (input) STEERING_UPDATE_PERIOD_MS :: u32 where "STEERING_UPDATE_PERIOD_MS \<equiv> 20"
abbreviation (input) STEERING_CENTER_LOW_DEG :: u8 where "STEERING_CENTER_LOW_DEG \<equiv> 80"
abbreviation (input) STEERING_CENTER_HIGH_DEG :: u8 where "STEERING_CENTER_HIGH_DEG \<equiv> 100"

record act_ecu = act_uds +
  g_debugEncoderCount :: u32
  g_debugPulsePerSecond :: u32
  g_debugRpm :: u32
  g_debugStatusTxCount :: u32
  g_debugRxCount :: u32
  g_debugInvalidRxCount :: u32
  g_debugCanSteeringState :: u8
  g_debugCanSteeringAngleDeg :: u8
  g_canStatusTxTimerMs :: u32
  g_steeringUpdateTimerMs :: u32

section \<open>The receive interrupt\<close>

definition act_rx_bytes :: "u32 list \<Rightarrow> u8 list" where
  "act_rx_bytes rxData =
     [byte_at 0 (rxData ! 0), byte_at 8 (rxData ! 0), byte_at 16 (rxData ! 0), byte_at 24 (rxData ! 0),
      byte_at 0 (rxData ! 1), byte_at 8 (rxData ! 1), byte_at 16 (rxData ! 1), byte_at 24 (rxData ! 1)]"

text \<open>The command of a frame, and the test of its bytes that the handler makes.\<close>

definition act_frame_command :: "act_frame \<Rightarrow> act_command" where
  "act_frame_command f =
     (let rxByte = act_rx_bytes (af_data f)
      in \<lparr>ac_accel = rxByte ! 0, ac_steering = rxByte ! 1, ac_brake = rxByte ! 2, ac_gear = rxByte ! 3,
          ac_mode = rxByte ! 4, ac_safety = rxByte ! 5\<rparr>)"

definition ActCan_RxIsrHandler :: "act_frame \<Rightarrow> 'a act_uds_scheme \<Rightarrow> 'a act_uds_scheme" where
  "ActCan_RxIsrHandler f s =
     (let rxByte = act_rx_bytes (af_data f)
      in if af_id f = UDS_DIAG_REQ_CAN_ID then
           (if ActCan_IsCanFdFrameMode (af_mode f) \<and> af_dlc f = 8
            then UdsDiag_OnCanRequest rxByte s
            else s\<lparr>g_invalidCount := g_invalidCount s + 1\<rparr>)
         else if af_id f \<noteq> ACT_CAN_CMD_ID \<or> \<not> ActCan_IsCanFdFrameMode (af_mode f) \<or> af_dlc f \<noteq> 6
         then s\<lparr>g_invalidCount := g_invalidCount s + 1\<rparr>
         else if \<not> ActCan_IsValidBool (rxByte ! 0) \<or> \<not> ActCan_IsValidSteering (rxByte ! 1) \<or>
                 \<not> ActCan_IsValidBool (rxByte ! 2) \<or> \<not> ActCan_IsValidGear (rxByte ! 3) \<or>
                 \<not> ActCan_IsValidControlMode (rxByte ! 4) \<or> \<not> ActCan_IsValidSafetyOverride (rxByte ! 5)
         then s\<lparr>g_invalidCount := g_invalidCount s + 1\<rparr>
         else
           let s = s\<lparr>g_cmdTimeoutTick100us := 0, g_safeStateEnteredByTimeout := False,
                     g_rxAccelRaw := rxByte ! 0, g_rxSteeringRaw := rxByte ! 1,
                     g_rxBrakeRaw := rxByte ! 2, g_rxGearRaw := rxByte ! 3,
                     g_rxControlModeRaw := rxByte ! 4, g_rxSafetyOverrideRaw := rxByte ! 5\<rparr>
           in s\<lparr>g_rxUpdated := True, g_rxCount := g_rxCount s + 1\<rparr>)"

definition accepts_act_command :: "act_frame \<Rightarrow> bool" where
  "accepts_act_command f \<longleftrightarrow> af_id f = ACT_CAN_CMD_ID \<and> ActCan_IsCanFdFrameMode (af_mode f) \<and>
     af_dlc f = 6 \<and> act_command_valid (act_frame_command f)"

section \<open>The main program\<close>

definition App_UpdateCanRxFor1ms :: "'a act_can_scheme \<Rightarrow> 'a act_can_scheme" where
  "App_UpdateCanRxFor1ms s = (ActCan_Update100us ^^ 10) s"

definition App_GetCurrentGearStateForCan :: "'a act_can_scheme \<Rightarrow> u8" where
  "App_GetCurrentGearStateForCan s = ActCan_GetGearState s"

definition App_GetCurrentSteeringStateForCan :: "u8 \<Rightarrow> u8" where
  "App_GetCurrentSteeringStateForCan steeringAngleDeg =
     (if steeringAngleDeg < STEERING_CENTER_LOW_DEG then ACT_STATUS_STEERING_LEFT
      else if steeringAngleDeg > STEERING_CENTER_HIGH_DEG then ACT_STATUS_STEERING_RIGHT
      else ACT_STATUS_STEERING_CENTER)"

definition App_SendStatusIfNeeded :: "hw \<Rightarrow> 'a act_ecu_scheme \<Rightarrow> 'a act_ecu_scheme" where
  "App_SendStatusIfNeeded h s =
     (let s = s\<lparr>g_canStatusTxTimerMs := g_canStatusTxTimerMs s + 1\<rparr>
      in if g_canStatusTxTimerMs s < CAN_STATUS_TX_PERIOD_MS then s
         else
           let s = s\<lparr>g_canStatusTxTimerMs := 0\<rparr>;
               speedKmhX100 = App_ConvertPulsePerSecondToKmhX100 (Encoder_GetPulsePerSecond s);
               gearState = App_GetCurrentGearStateForCan s;
               steeringAngleDeg = PotAdc_GetAngleDeg s;
               steeringState = App_GetCurrentSteeringStateForCan steeringAngleDeg;
               s = CanComm_SendActStatus h speedKmhX100 gearState steeringState steeringAngleDeg s
           in s\<lparr>g_debugCanSteeringState := steeringState, g_debugCanSteeringAngleDeg := steeringAngleDeg,
                g_debugStatusTxCount := g_debugStatusTxCount s + 1\<rparr>)"

definition App_UpdateDebugValues :: "'a act_ecu_scheme \<Rightarrow> 'a act_ecu_scheme" where
  "App_UpdateDebugValues s =
     s\<lparr>g_debugEncoderCount := Encoder_GetCount s, g_debugPulsePerSecond := Encoder_GetPulsePerSecond s,
       g_debugRpm := Encoder_GetRpm ENCODER_PULSES_PER_REV s,
       g_debugRxCount := ActCan_GetRxCount s, g_debugInvalidRxCount := ActCan_GetInvalidCount s\<rparr>"

definition App_Update1ms :: "hw \<Rightarrow> adc \<Rightarrow> 'a act_ecu_scheme \<Rightarrow> 'a act_ecu_scheme" where
  "App_Update1ms h adc s =
     (let s = App_UpdateCanRxFor1ms s;
          s = UdsDiag_Update1ms h s;
          s = MotorControl_Update h s;
          s = Encoder_Update1ms h s;
          s = PotAdc_Update1ms adc s;
          s = App_SendStatusIfNeeded h s
      in App_UpdateDebugValues s)"

text \<open>The second half of a pass of the loop of \<open>core0_main\<close>, and a pass with no interrupt.\<close>

definition main_steering :: "hw \<Rightarrow> 'a act_ecu_scheme \<Rightarrow> 'a act_ecu_scheme" where
  "main_steering h s =
     (let s = s\<lparr>g_steeringUpdateTimerMs := g_steeringUpdateTimerMs s + 1\<rparr>
      in if g_steeringUpdateTimerMs s \<ge> STEERING_UPDATE_PERIOD_MS
         then Steering_Update h (s\<lparr>g_steeringUpdateTimerMs := 0\<rparr>) else s)"

definition act_main_pass :: "hw \<Rightarrow> adc \<Rightarrow> 'a act_ecu_scheme \<Rightarrow> 'a act_ecu_scheme" where
  "act_main_pass h adc s = main_steering h (App_Update1ms h adc s)"

text \<open>The initial values of the variables that no initialisation function sets.\<close>

definition act_statics :: "'a act_ecu_scheme \<Rightarrow> 'a act_ecu_scheme" where
  "act_statics s =
     s\<lparr>g_debugCanTxCallCount := 0, g_debugCanTxOkCount := 0, g_debugCanTxBusyCount := 0,
       g_debugCanLastStatus := None, g_debugActStatusLastSteeringAngleDeg := 0, g_txBufferIndex := 0,
       g_savedMotorDuty := 90, g_debugEncoderCount := 0, g_debugPulsePerSecond := 0, g_debugRpm := 0,
       g_debugStatusTxCount := 0, g_debugRxCount := 0, g_debugInvalidRxCount := 0,
       g_debugCanSteeringState := ACT_STATUS_STEERING_CENTER, g_debugCanSteeringAngleDeg := 90,
       g_canStatusTxTimerMs := 0, g_steeringUpdateTimerMs := 0\<rparr>"

definition act_main_init :: "hw \<Rightarrow> 'a act_ecu_scheme \<Rightarrow> 'a act_ecu_scheme" where
  "act_main_init h s =
     (let s = act_statics s;
          s = MotorControl_Init s;
          s = Steering_Init s;
          s = Encoder_Init h s;
          s = PotAdc_Init s;
          s = ActCan_Init s;
          s = UdsDiag_Init s;
          s = MotorControl_SetDutyPercent 90 s;
          s = MotorControl_Coast s;
          s = Steering_Center s;
          s = Steering_UpdateForMs h 500 s
      in Encoder_ResetCount s)"

section \<open>The loop and the interrupt, interleaved\<close>

text \<open>
  The program counter of the loop: \<open>PcTick i\<close> is the start of the \<open>i\<close>-th of the ten calls of
  \<open>ActCan_Update100us\<close>, \<open>PcFlag i\<close> the test of the receive flag in it, and so on.
\<close>

datatype act_pc =
    PcTick nat | PcFlag nat | PcCopied nat act_command | PcCleared nat act_command
  | PcUds | PcRequest "u8 list" | PcRoutine | PcDtc | PcMotor | PcEncoder | PcPot | PcStatus | PcDebug
  | PcSteer

definition next_tick :: "nat \<Rightarrow> act_pc" where
  "next_tick i = (if i < 9 then PcTick (Suc i) else PcUds)"

inductive act_step :: "hw \<Rightarrow> adc \<Rightarrow> act_pc \<times> act_ecu \<Rightarrow> act_pc \<times> act_ecu \<Rightarrow> bool" for h adc where
  isr: "act_step h adc (pc, s) (pc, ActCan_RxIsrHandler f s)"
| expire: "act_expired (act_age s) \<Longrightarrow> act_step h adc (PcTick i, s) (next_tick i, act_expire (act_age s))"
| alive: "\<not> act_expired (act_age s) \<Longrightarrow> act_step h adc (PcTick i, s) (PcFlag i, act_age s)"
| none: "\<not> g_rxUpdated s \<Longrightarrow> act_step h adc (PcFlag i, s) (next_tick i, s)"
| copy: "g_rxUpdated s \<Longrightarrow> act_step h adc (PcFlag i, s) (PcCopied i (act_copy_command s), s)"
| clear: "act_step h adc (PcCopied i c, s) (PcCleared i c, act_clear_flag s)"
| drive: "act_step h adc (PcCleared i c, s) (next_tick i, act_apply c s)"
| idle: "\<not> g_reqPending s \<Longrightarrow> act_step h adc (PcUds, s) (PcRoutine, s)"
| request: "g_reqPending s \<Longrightarrow> act_step h adc (PcUds, s) (PcRequest (g_reqData s), s)"
| serve: "act_step h adc (PcRequest d, s) (PcRoutine, UdsDiag_ProcessRequest h d (s\<lparr>g_reqPending := False\<rparr>))"
| routine: "act_step h adc (PcRoutine, s) (PcDtc, UdsDiag_UpdateRoutine1ms h s)"
| dtc: "act_step h adc (PcDtc, s) (PcMotor, UdsDiag_UpdateDtcMonitor1ms s)"
| motor: "act_step h adc (PcMotor, s) (PcEncoder, MotorControl_Update h s)"
| encoder: "act_step h adc (PcEncoder, s) (PcPot, Encoder_Update1ms h s)"
| pot: "act_step h adc (PcPot, s) (PcStatus, PotAdc_Update1ms adc s)"
| status: "act_step h adc (PcStatus, s) (PcDebug, App_SendStatusIfNeeded h s)"
| debug: "act_step h adc (PcDebug, s) (PcSteer, App_UpdateDebugValues s)"
| steer: "act_step h adc (PcSteer, s) (PcTick 0, main_steering h s)"

inductive act_reachable :: "hw \<Rightarrow> adc \<Rightarrow> act_pc \<times> act_ecu \<Rightarrow> bool" for h adc where
  init: "act_reachable h adc (PcTick 0, act_main_init h s)"
| step: "act_reachable h adc x \<Longrightarrow> act_step h adc x y \<Longrightarrow> act_reachable h adc y"

inductive_simps act_step_tick: "act_step h adc (PcTick i, s) x"
inductive_simps act_step_flag: "act_step h adc (PcFlag i, s) x"

end
