(* ===== verification/Act_Safety.thy ===== *)
theory Act_Safety
  imports Act_Ecu
begin

unbundle bit_operations_syntax

text \<open>
  The invariant of the ACT ECU under every interleaving of its main loop and its receive interrupt:
  every operation keeps the soundness of drive, command and diagnosis, and keeps the safe state of
  an expired command.
\<close>

section \<open>Soundness and the safe state\<close>

definition routine_ok :: "UdsRoutineState \<Rightarrow> u32 \<Rightarrow> u32 \<Rightarrow> bool" where
  "routine_ok r timer st = (case r of
     UDS_ROUTINE_NONE \<Rightarrow> timer = 0 \<and> st = 0
   | UDS_ROUTINE_MOTOR_TEST \<Rightarrow> timer < 1000 \<and> st = 0
   | UDS_ROUTINE_SERVO_TEST \<Rightarrow> timer < 800 \<and> st < 3)"

definition uds_ok :: "'a act_uds_scheme \<Rightarrow> bool" where
  "uds_ok s \<longleftrightarrow> routine_ok (g_routineState s) (g_routineTimerMs s) (g_routineStep s) \<and>
     (g_udsTxBufferIndex s = 2 \<or> g_udsTxBufferIndex s = 3) \<and> g_txBufferIndex s < 2 \<and>
     (g_diagSession s = 1 \<or> g_diagSession s = 3) \<and> length (g_reqData s) = 8 \<and>
     g_dtcC100ConsecutiveFailCount s \<le> 3 \<and> g_dtcC101ConsecutiveFailCount s \<le> 3 \<and>
     g_dtcEncoderNoSignalTimerMs s \<le> 2000 \<and> g_dtcSteeringMismatchTimerMs s \<le> 1000 \<and>
     g_dtcMonitorPeriodTimerMs s < 3000"

text \<open>
  The safe state, and its two exceptions: the routine of the motor test drives the motor, that of
  the servo test the steering, whatever the commands are.
\<close>

definition act_safe :: "'a act_uds_scheme \<Rightarrow> bool" where
  "act_safe s \<longleftrightarrow> g_currentGearState s = 0 \<and> g_currentControlMode s = 0 \<and>
     (g_routineState s \<noteq> UDS_ROUTINE_MOTOR_TEST \<longrightarrow> braked s) \<and>
     (g_routineState s \<noteq> UDS_ROUTINE_SERVO_TEST \<longrightarrow> g_steeringKey s = STEERING_KEY_NULL)"

definition keeps :: "'a act_uds_scheme \<Rightarrow> 'a act_uds_scheme \<Rightarrow> bool" where
  "keeps s t \<longleftrightarrow> act_core t = act_core s \<and> (drive_ok s \<longrightarrow> drive_ok t) \<and> (act_safe s \<longrightarrow> act_safe t) \<and>
     (uds_ok s \<longrightarrow> uds_ok t)"

lemma keeps_refl [simp, intro]: "keeps s s"
  by (simp add: keeps_def)

lemma keeps_trans [trans]: "keeps s t \<Longrightarrow> keeps t u \<Longrightarrow> keeps s u"
  by (simp add: keeps_def)

lemma truncate_fields:
  assumes "act_pot.truncate t = act_pot.truncate s"
  shows "drive_ok t = drive_ok s" "braked t = braked s" "g_steeringKey t = g_steeringKey s"
    "act_drive t = act_drive s" "pin_cmd t = pin_cmd s"
  using assms by (cases s; cases t; simp add: act_pot.truncate_def drive_ok_def pot_ok_def braked_def act_drive_def)+

lemma keepsI:
  assumes "act_pot.truncate t = act_pot.truncate s" "act_core t = act_core s"
    "g_routineState t = g_routineState s" "uds_ok s \<Longrightarrow> uds_ok t"
  shows "keeps s t"
proof -
  have "g_currentGearState t = g_currentGearState s" "g_currentControlMode t = g_currentControlMode s"
    using assms(2) by (simp_all add: act_core_def)
  with assms truncate_fields [OF assms(1)] show ?thesis by (auto simp: keeps_def act_safe_def)
qed

section \<open>Diagnostic answers\<close>

lemma SendSingleFrame_frame:
  "act_pot.truncate (UdsDiag_SendSingleFrame h p n s) = act_pot.truncate s"
  "act_core (UdsDiag_SendSingleFrame h p n s) = act_core s"
  "g_routineState (UdsDiag_SendSingleFrame h p n s) = g_routineState s"
  "g_routineTimerMs (UdsDiag_SendSingleFrame h p n s) = g_routineTimerMs s"
  "act_uds.more (UdsDiag_SendSingleFrame h p n s) = act_uds.more s"
  "uds_ok s \<Longrightarrow> uds_ok (UdsDiag_SendSingleFrame h p n s)"
  by (auto simp: UdsDiag_SendSingleFrame_def Let_def act_pot.truncate_def act_core_def act_copy_command_def uds_ok_def)

lemma keeps_SendSingleFrame: "keeps s (UdsDiag_SendSingleFrame h p n s)"
  by (rule keepsI) (simp_all add: SendSingleFrame_frame)

lemma keeps_debug:
  "keeps s (s\<lparr>g_debugUdsLastNrc := w\<rparr>)" "keeps s (s\<lparr>g_debugUdsLastSid := w\<rparr>)"
  "keeps s (s\<lparr>g_reqPending := b\<rparr>)" "keeps s (s\<lparr>g_invalidCount := w\<rparr>)"
  "keeps s (s\<lparr>g_debugUdsDtcC100 := w, g_debugUdsDtcC101 := w'\<rparr>)"
  "keeps s (s\<lparr>g_debugUdsRoutineState := w, g_debugUdsRoutineResult := w'\<rparr>)"
  by (rule keepsI; simp add: act_pot.truncate_def act_core_def act_copy_command_def uds_ok_def)+

lemma keeps_negative: "keeps s (UdsDiag_SendNegativeResponse h sid nrc s)"
  unfolding UdsDiag_SendNegativeResponse_def Let_def by (rule keeps_trans [OF keeps_debug(1) keeps_SendSingleFrame])

lemma keeps_session: "keeps s (UdsDiag_HandleSessionControl h uds n s)"
proof -
  have "keeps s (s\<lparr>g_diagSession := b\<rparr>)" if "b = 1 \<or> b = 3" for b
    using that by (intro keepsI) (auto simp: act_pot.truncate_def act_core_def act_copy_command_def uds_ok_def)
  then show ?thesis
    by (simp add: UdsDiag_HandleSessionControl_def Let_def keeps_negative keeps_trans [OF _ keeps_SendSingleFrame])
qed

lemma keeps_clear_dtc: "keeps s (act_clear_dtc s)"
  by (rule keepsI) (simp_all add: act_clear_dtc_def Let_def act_pot.truncate_def act_core_def
      act_copy_command_def uds_ok_def)

lemma keeps_start_motor: "g_routineState s = UDS_ROUTINE_NONE \<Longrightarrow> keeps s (UdsDiag_StartMotorRoutine s)"
  by (simp add: keeps_def UdsDiag_StartMotorRoutine_def Let_def Encoder_ResetCount_def MotorControl_SetDutyPercent_def
      Motor_LimitDutyPercent_def act_core_def act_copy_command_def drive_ok_def pot_ok_def act_safe_def braked_def
      uds_ok_def routine_ok_def word_le_nat_alt word_less_nat_alt)

lemma keeps_start_servo: "g_routineState s = UDS_ROUTINE_NONE \<Longrightarrow> keeps s (UdsDiag_StartServoRoutine s)"
  by (simp add: keeps_def UdsDiag_StartServoRoutine_def Let_def SetKey_form
      act_core_def act_copy_command_def drive_ok_def pot_ok_def act_safe_def braked_def
      uds_ok_def routine_ok_def)

lemma keeps_dispatch: "keeps s (act_uds_dispatch h sid uds n s)"
  by (simp add: act_uds_dispatch_def keeps_negative keeps_session UdsDiag_HandleReadDID_def
      UdsDiag_HandleReadDTC_def UdsDiag_HandleClearDTC_def UdsDiag_HandleRoutineControl_def Let_def
      keeps_SendSingleFrame keeps_trans [OF keeps_clear_dtc keeps_SendSingleFrame]
      keeps_start_motor keeps_start_servo)

lemma keeps_request: "keeps s (UdsDiag_ProcessRequest h d s)"
  by (simp add: UdsDiag_ProcessRequest_def Let_def keeps_trans [OF keeps_debug(2) keeps_dispatch])

section \<open>Routines and trouble codes\<close>

text \<open>The end of a routine: the answer, and the routine's variables back to rest.\<close>

definition routine_end :: "hw \<Rightarrow> u16 \<Rightarrow> 'a act_uds_scheme \<Rightarrow> 'a act_uds_scheme" where
  "routine_end h rid s =
     (UdsDiag_SendRoutineResult h rid 0 s)\<lparr>g_routineState := UDS_ROUTINE_NONE, g_routineTimerMs := 0,
       g_routineStep := 0\<rparr>"

lemma routine_end_frame:
  "act_core (routine_end h rid s) = act_core s" "drive_ok (routine_end h rid s) = drive_ok s"
  "braked (routine_end h rid s) = braked s" "g_steeringKey (routine_end h rid s) = g_steeringKey s"
  "g_routineState (routine_end h rid s) = UDS_ROUTINE_NONE" "act_drive (routine_end h rid s) = act_drive s"
  "act_uds.more (routine_end h rid s) = act_uds.more s"
proof -
  let ?u = "UdsDiag_SendRoutineResult h rid 0 s"
  have t: "act_pot.truncate (routine_end h rid s) = act_pot.truncate s"
    using SendSingleFrame_frame(1) by (simp add: routine_end_def UdsDiag_SendRoutineResult_def act_pot.truncate_def)
  show "drive_ok (routine_end h rid s) = drive_ok s" "braked (routine_end h rid s) = braked s"
    "g_steeringKey (routine_end h rid s) = g_steeringKey s" "act_drive (routine_end h rid s) = act_drive s"
    using truncate_fields [OF t] by simp_all
  have "act_core (routine_end h rid s) = act_core ?u"
    by (simp add: routine_end_def act_core_def act_copy_command_def)
  then show "act_core (routine_end h rid s) = act_core s"
    by (simp add: UdsDiag_SendRoutineResult_def SendSingleFrame_frame)
  show "g_routineState (routine_end h rid s) = UDS_ROUTINE_NONE" by (simp add: routine_end_def)
  show "act_uds.more (routine_end h rid s) = act_uds.more s"
    by (simp add: routine_end_def UdsDiag_SendRoutineResult_def SendSingleFrame_frame)
qed

lemma routine_end_ok:
  assumes "uds_ok (s\<lparr>g_routineState := UDS_ROUTINE_NONE, g_routineTimerMs := 0, g_routineStep := 0\<rparr>)"
  shows "uds_ok (routine_end h rid s)"
proof -
  let ?u = "s\<lparr>g_routineState := UDS_ROUTINE_NONE, g_routineTimerMs := 0, g_routineStep := 0\<rparr>"
  have "routine_end h rid s = UdsDiag_SendRoutineResult h rid 0 ?u"
    by (cases s) (simp add: routine_end_def UdsDiag_SendRoutineResult_def UdsDiag_SendSingleFrame_def Let_def)
  with assms show ?thesis by (simp add: UdsDiag_SendRoutineResult_def SendSingleFrame_frame)
qed

lemmas routine_field_defs = act_core_def act_copy_command_def drive_ok_def pot_ok_def act_safe_def braked_def
  MotorControl_SetDutyPercent_def Motor_LimitDutyPercent_def MotorControl_Forward_def MotorControl_SetState_def
  MotorControl_Stop_def motor_pin_defs set_pin_def SetKey_form

lemma MotorRoutine_form:
  "UdsDiag_UpdateMotorRoutine1ms h s =
     (let u = MotorControl_Forward (MotorControl_SetDutyPercent 30 (s\<lparr>g_routineTimerMs := g_routineTimerMs s + 1\<rparr>))
      in if g_routineTimerMs s + 1 < 1000 then u
         else routine_end h 0x0100 ((MotorControl_SetDutyPercent (g_savedMotorDuty s) (MotorControl_Stop u))\<lparr>g_routineResult := 0\<rparr>))"
proof -
  have "g_routineTimerMs (MotorControl_Forward (MotorControl_SetDutyPercent 30 u)) = g_routineTimerMs u"
    "g_savedMotorDuty (MotorControl_Stop (MotorControl_Forward (MotorControl_SetDutyPercent 30 u))) = g_savedMotorDuty u"
    for u :: "'a act_uds_scheme"
    by (simp_all add: routine_field_defs Let_def)
  then show ?thesis
    by (simp add: UdsDiag_UpdateMotorRoutine1ms_def Let_def routine_end_def not_less [symmetric])
qed

lemma keeps_motor_routine:
  assumes "g_routineState s = UDS_ROUTINE_MOTOR_TEST"
  shows "keeps s (UdsDiag_UpdateMotorRoutine1ms h s)"
proof -
  define u where "u = MotorControl_Forward (MotorControl_SetDutyPercent 30 (s\<lparr>g_routineTimerMs := g_routineTimerMs s + 1\<rparr>))"
  define v where "v = (MotorControl_SetDutyPercent (g_savedMotorDuty s) (MotorControl_Stop u))\<lparr>g_routineResult := 0\<rparr>"
  have run: "UdsDiag_UpdateMotorRoutine1ms h s = (if g_routineTimerMs s + 1 < 1000 then u else routine_end h 0x0100 v)"
    by (simp add: MotorRoutine_form Let_def u_def v_def)
  have lim: "Motor_LimitDutyPercent w \<le> 100" for w by (simp add: Motor_LimitDutyPercent_def not_less)
  have u: "act_core u = act_core s" "drive_ok s \<Longrightarrow> drive_ok u" "act_safe s \<Longrightarrow> act_safe u"
    "g_routineTimerMs s + 1 < 1000 \<Longrightarrow> uds_ok s \<Longrightarrow> uds_ok u"
    using assms by (simp_all add: u_def routine_field_defs Let_def uds_ok_def routine_ok_def)
  have "drive_ok s \<Longrightarrow> drive_ok v"
    using lim by (simp add: v_def u_def drive_ok_def pot_ok_def MotorControl_SetDutyPercent_def MotorControl_Forward_def
        MotorControl_SetState_def MotorControl_Stop_def motor_pin_defs set_pin_def Let_def)
  moreover have "act_core v = act_core s" "braked v" "g_steeringKey v = g_steeringKey s"
    "g_currentGearState v = g_currentGearState s" "g_currentControlMode v = g_currentControlMode s"
    by (simp_all add: v_def u_def routine_field_defs Let_def)
  moreover have "uds_ok s \<Longrightarrow> uds_ok (routine_end h 0x0100 v)"
    by (rule routine_end_ok) (simp add: v_def u_def routine_field_defs Let_def uds_ok_def routine_ok_def)
  moreover have "g_currentGearState (routine_end h 0x0100 v) = g_currentGearState v"
    "g_currentControlMode (routine_end h 0x0100 v) = g_currentControlMode v"
    using routine_end_frame(1) [of h "0x0100" v] by (simp_all add: act_core_def)
  ultimately show ?thesis
    using assms u unfolding run keeps_def by (auto simp: routine_end_frame act_safe_def)
qed

definition servo_step_key :: "u32 \<Rightarrow> SteeringKey" where
  "servo_step_key n = (if n = 0 then STEERING_KEY_LEFT else if n = 1 then STEERING_KEY_NULL else STEERING_KEY_RIGHT)"

lemma ServoRoutine_form:
  "UdsDiag_UpdateServoRoutine1ms h s =
     (let u = Steering_SetKey (servo_step_key (g_routineStep s)) (s\<lparr>g_routineTimerMs := g_routineTimerMs s + 1\<rparr>);
          v = u\<lparr>g_routineTimerMs := 0, g_routineStep := g_routineStep s + 1\<rparr>
      in if g_routineTimerMs s + 1 < 800 then u
         else if g_routineStep s + 1 < 3 then v
         else routine_end h 0x0101 ((Steering_SetKey STEERING_KEY_NULL v)\<lparr>g_routineResult := 0\<rparr>))"
proof -
  have k: "(if n = 0 then Steering_SetKey STEERING_KEY_LEFT x else if n = 1 then Steering_SetKey STEERING_KEY_NULL x
      else if n = 2 then Steering_SetKey STEERING_KEY_RIGHT x else Steering_SetKey STEERING_KEY_RIGHT x) =
      Steering_SetKey (servo_step_key n) x" for n :: u32 and x :: "'a act_uds_scheme"
    by (simp add: servo_step_key_def)
  have f: "g_routineTimerMs (Steering_SetKey key x) = g_routineTimerMs x"
    "g_routineStep (Steering_SetKey key x) = g_routineStep x" for key and x :: "'a act_uds_scheme"
    by (simp_all add: SetKey_form)
  show ?thesis
    unfolding UdsDiag_UpdateServoRoutine1ms_def Let_def k routine_end_def
    by (simp add: f not_le [symmetric] cong: if_cong)
qed

lemma keeps_servo_routine:
  assumes "g_routineState s = UDS_ROUTINE_SERVO_TEST"
  shows "keeps s (UdsDiag_UpdateServoRoutine1ms h s)"
proof -
  define u where "u = Steering_SetKey (servo_step_key (g_routineStep s)) (s\<lparr>g_routineTimerMs := g_routineTimerMs s + 1\<rparr>)"
  define v where "v = u\<lparr>g_routineTimerMs := 0, g_routineStep := g_routineStep s + 1\<rparr>"
  define w where "w = (Steering_SetKey STEERING_KEY_NULL v)\<lparr>g_routineResult := 0\<rparr>"
  have run: "UdsDiag_UpdateServoRoutine1ms h s = (if g_routineTimerMs s + 1 < 800 then u
      else if g_routineStep s + 1 < 3 then v else routine_end h 0x0101 w)"
    by (simp add: ServoRoutine_form Let_def u_def v_def w_def)
  have u: "act_core u = act_core s" "drive_ok s \<Longrightarrow> drive_ok u" "act_safe s \<Longrightarrow> act_safe u"
    "g_routineTimerMs s + 1 < 800 \<Longrightarrow> uds_ok s \<Longrightarrow> uds_ok u"
    using assms by (simp_all add: u_def routine_field_defs Let_def uds_ok_def routine_ok_def)
  have v: "act_core v = act_core s" "drive_ok s \<Longrightarrow> drive_ok v" "act_safe s \<Longrightarrow> act_safe v"
    "g_routineStep s + 1 < 3 \<Longrightarrow> uds_ok s \<Longrightarrow> uds_ok v"
    using assms by (simp_all add: v_def u_def routine_field_defs Let_def uds_ok_def routine_ok_def)
  have "drive_ok s \<Longrightarrow> drive_ok w" "act_core w = act_core s" "braked w = braked s"
    "g_steeringKey w = STEERING_KEY_NULL" "g_currentGearState w = g_currentGearState s"
    "g_currentControlMode w = g_currentControlMode s"
    by (simp_all add: w_def v_def u_def routine_field_defs Let_def)
  moreover have "uds_ok s \<Longrightarrow> uds_ok (routine_end h 0x0101 w)"
    by (rule routine_end_ok) (simp add: w_def v_def u_def routine_field_defs Let_def uds_ok_def routine_ok_def)
  moreover have "g_currentGearState (routine_end h 0x0101 w) = g_currentGearState w"
    "g_currentControlMode (routine_end h 0x0101 w) = g_currentControlMode w"
    using routine_end_frame(1) [of h "0x0101" w] by (simp_all add: act_core_def)
  ultimately show ?thesis
    using assms u v unfolding run keeps_def by (auto simp: routine_end_frame act_safe_def)
qed

lemma keeps_routine: "keeps s (UdsDiag_UpdateRoutine1ms h s)"
  unfolding UdsDiag_UpdateRoutine1ms_def Let_def
  by (rule keeps_trans [OF _ keeps_debug(6)])
    (cases "g_routineState s", simp_all add: keeps_motor_routine keeps_servo_routine)

lemma keeps_dtc: "keeps s (UdsDiag_UpdateDtcMonitor1ms s)"
proof -
  have t: "keeps s (dtc_timers s)"
    by (rule keepsI)
      (simp_all add: dtc_timers_def Let_def act_pot.truncate_def act_core_def act_copy_command_def uds_ok_def inc_le_bound)
  have r: "keeps s (dtc_report s)" for s :: "'a act_uds_scheme"
    by (rule keepsI)
      (auto simp: dtc_report_def Let_def act_pot.truncate_def act_core_def act_copy_command_def uds_ok_def
        UdsDiag_UpdateOneDtcStatus_def inc_le_bound)
  have p: "keeps s (s\<lparr>g_dtcMonitorPeriodTimerMs := w\<rparr>)" if "w < 3000" for w and s :: "'a act_uds_scheme"
    using that by (intro keepsI) (simp_all add: act_pot.truncate_def act_core_def act_copy_command_def uds_ok_def)
  show ?thesis
    unfolding UdsDiag_UpdateDtcMonitor1ms_def Let_def
    by (rule keeps_trans [OF keeps_trans [OF t] keeps_debug(5)])
      (use p [of 0] in \<open>auto simp: p not_le intro: keeps_trans [OF _ r]\<close>)
qed

end
