(* ===== verification/Act_Loop.thy ===== *)
theory Act_Loop
  imports Act_Safety Command_Watchdog
begin

unbundle bit_operations_syntax

text \<open>
  The invariant \<open>act_inv\<close> of the ACT ECU, preserved by every step of the loop and the interrupt, and
  the instance of the command time-out: 2000 ticks of 100 us.
\<close>

section \<open>The pins after a servo pulse\<close>

lemma delayLow_pins:
  assumes "1000 \<le> us"
  shows "motor_pins (g_motorState s) (pin_cmd (delayLowUsWithMotorUpdate h us s))"
proof -
  define u where "u = Encoder_Update1ms h (MotorControl_Update h s)"
  have m: "motor_pins (g_motorState s) (pin_cmd u)" "act_encoder.more u = act_encoder.more s"
    using MotorControl_Update_cycle [of s h] by (simp_all add: motor_cycle_def u_def)
  have "delayLowUsWithMotorUpdate h us s = delayLowUsWithMotorUpdate h (us - 1000) u"
    using assms by (subst delayLowUsWithMotorUpdate.simps) (simp add: u_def)
  with m motor_fields_more(1) [OF m(2)] delayLow_span [of "us - 1000" u h] show ?thesis
    by (simp add: drive_span_def)
qed

lemma SendOnePulse_pins: "motor_pins (g_motorState s) (pin_cmd (Servo_SendOnePulse h w s))"
proof -
  define hi where "hi = Servo_LimitPulseUs w"
  define c where "c = set_pin SERVO_PIN False (Servo_delayUs h hi (set_pin SERVO_PIN True s))"
  have "unat hi \<le> 1500" using LimitPulse_range(2) [of w] by (simp add: hi_def word_le_nat_alt)
  then have "1000 \<le> 20000 - hi" by (simp add: word_le_nat_alt unat_sub)
  moreover have "act_encoder.more c = act_encoder.more s" by (simp add: c_def Servo_delayUs_eq)
  then have "g_motorState c = g_motorState s" by (rule motor_fields_more)
  moreover have "Servo_SendOnePulse h w s = delayLowUsWithMotorUpdate h (20000 - hi) c"
    by (simp add: Servo_SendOnePulse_def Let_def hi_def c_def)
  ultimately show ?thesis using delayLow_pins by metis
qed

section \<open>Steps of the hardware drivers\<close>

lemma encoder_more_fields:
  assumes "act_encoder.more t = act_encoder.more s"
  shows "act_core t = act_core s" "act_drive t = act_drive s" "uds_ok t = uds_ok s"
    "g_routineState t = g_routineState s" "act_uds.more t = act_uds.more s"
    "g_currentPulseUs t = g_currentPulseUs s" "g_steeringState t = g_steeringState s"
    "pot_ok t = pot_ok s" "g_dutyPercent t = g_dutyPercent s" "can_sent t = can_sent s"
  using assms by (cases s; cases t; simp add: act_core_def act_copy_command_def act_drive_def uds_ok_def pot_ok_def)+

lemma core_fields:
  assumes "act_core t = act_core s"
  shows "g_currentGearState t = g_currentGearState s" "g_currentControlMode t = g_currentControlMode s"
    "g_cmdTimeoutTick100us t = g_cmdTimeoutTick100us s" "g_rxUpdated t = g_rxUpdated s"
    "act_copy_command t = act_copy_command s" "g_currentSafetyOverride t = g_currentSafetyOverride s"
  using assms by (simp_all add: act_core_def)

lemma drive_fields:
  assumes "act_drive t = act_drive s"
  shows "g_motorState t = g_motorState s" "g_leftDutyPercent t = g_leftDutyPercent s"
    "g_rightDutyPercent t = g_rightDutyPercent s" "g_steeringKey t = g_steeringKey s"
  using assms by (simp_all add: act_drive_def)

lemma keeps_pins:
  assumes "act_encoder.more t = act_encoder.more s"
    and "drive_ok s \<Longrightarrow> \<not> pin_cmd t MOTOR_A_PWM \<and> \<not> pin_cmd t MOTOR_B_PWM \<and> \<not> pin_cmd t SERVO_PIN"
    and "braked s \<Longrightarrow> pin_cmd t MOTOR_A_BRAKE \<and> pin_cmd t MOTOR_B_BRAKE"
  shows "keeps s t"
  using assms(2,3) unfolding keeps_def act_safe_def drive_ok_def braked_def
  by (simp add: encoder_more_fields [OF assms(1)] core_fields [OF encoder_more_fields(1) [OF assms(1)]]
      drive_fields [OF encoder_more_fields(2) [OF assms(1)]])

lemma keeps_motor: "keeps s (MotorControl_Update h s)"
  using MotorControl_Update_cycle [of s h]
  by (intro keeps_pins) (auto simp: motor_cycle_def motor_pins_def drive_ok_def braked_def)

lemma keeps_encoder: "keeps s (Encoder_Update1ms h s)"
  by (rule keeps_pins) (simp_all add: drive_ok_def braked_def)

lemma pot_fields:
  "act_core (PotAdc_Update1ms adc s) = act_core s" "act_drive (PotAdc_Update1ms adc s) = act_drive s"
  "uds_ok (PotAdc_Update1ms adc s) = uds_ok s" "g_routineState (PotAdc_Update1ms adc s) = g_routineState s"
  "act_uds.more (PotAdc_Update1ms adc s) = act_uds.more s"
  "g_currentPulseUs (PotAdc_Update1ms adc s) = g_currentPulseUs s"
  "g_steeringState (PotAdc_Update1ms adc s) = g_steeringState s"
  "g_dutyPercent (PotAdc_Update1ms adc s) = g_dutyPercent s"
  by (simp_all add: PotAdc_Update1ms_def PotAdc_TryReadRaw_def pot_accumulate_def PotAdc_ApplyRaw_def
      act_core_def act_copy_command_def act_drive_def uds_ok_def Let_def split: option.split)

lemma keeps_pot: "keeps s (PotAdc_Update1ms adc s)"
  unfolding keeps_def act_safe_def drive_ok_def braked_def
  by (simp add: pot_fields core_fields [OF pot_fields(1)] drive_fields [OF pot_fields(2)] pot_ok_Update)

lemma keeps_steering:
  assumes "drive_ok s"
  shows "keeps s (Steering_Update h s)" "act_encoder.more (Steering_Update h s) = act_encoder.more s"
    "motor_pins (g_motorState s) (pin_cmd (Steering_Update h s))"
proof -
  have "Steering_UpdatePulseByKey s = s"
    using assms by (cases s) (simp add: UpdatePulseByKey_form drive_ok_def)
  then have r: "Steering_Update h s = Servo_SendOnePulse h (g_currentPulseUs s) s"
    by (simp add: Steering_Update_def)
  show m: "act_encoder.more (Steering_Update h s) = act_encoder.more s"
    using SendOnePulse_period [of "g_currentPulseUs s" s h] by (simp only: r servo_period_def)
  show p: "motor_pins (g_motorState s) (pin_cmd (Steering_Update h s))" unfolding r by (rule SendOnePulse_pins)
  have "\<not> pin_cmd (Steering_Update h s) SERVO_PIN"
    using SendOnePulse_period [of "g_currentPulseUs s" s h] by (simp only: r servo_period_def simp_thms)
  with p show "keeps s (Steering_Update h s)"
    by (intro keeps_pins [OF m]) (auto simp: motor_pins_def braked_def)
qed

section \<open>Commands\<close>

definition cmd_ok :: "'a act_can_scheme \<Rightarrow> bool" where
  "cmd_ok s \<longleftrightarrow> g_cmdTimeoutTick100us s \<le> 2000 \<and> act_command_valid (act_copy_command s) \<and>
     g_currentGearState s \<le> 3 \<and> g_currentControlMode s \<le> 2"

lemma can_more_fields:
  assumes "act_can.more t = act_can.more s"
  shows "uds_ok t = uds_ok s" "g_routineState t = g_routineState s" "act_uds.more t = act_uds.more s"
  using assms by (cases s; cases t; simp add: uds_ok_def)+

lemma expire_safe: "act_safe (act_expire s)"
proof -
  have "g_currentGearState (act_expire s) = 0 \<and> g_currentControlMode (act_expire s) = 0"
    using act_expire_effect(3) [of s] by (simp add: act_core_def)
  then show ?thesis
    using act_expire_effect(1,2) [of s] by (simp add: act_safe_def act_drive_def)
qed

section \<open>The invariant\<close>

definition act_pc_ok :: "act_pc \<Rightarrow> 'a act_can_scheme \<Rightarrow> bool" where
  "act_pc_ok pc s = (case pc of
     PcTick i \<Rightarrow> i < 10
   | PcFlag i \<Rightarrow> i < 10 \<and> g_cmdTimeoutTick100us s < 2000
   | PcCopied i c \<Rightarrow> i < 10 \<and> g_cmdTimeoutTick100us s < 2000 \<and> act_command_valid c
   | PcCleared i c \<Rightarrow> i < 10 \<and> g_cmdTimeoutTick100us s < 2000 \<and> act_command_valid c
   | _ \<Rightarrow> True)"

definition act_inv :: "act_pc \<times> act_ecu \<Rightarrow> bool" where
  "act_inv = (\<lambda>(pc, s). drive_ok s \<and> uds_ok s \<and> cmd_ok s \<and> act_pc_ok pc s \<and>
     (g_cmdTimeoutTick100us s = 2000 \<longrightarrow> act_safe s) \<and>
     g_canStatusTxTimerMs s < 50 \<and> g_steeringUpdateTimerMs s < 20)"

lemma act_inv_keeps:
  assumes "act_inv (pc, s)" "keeps s t" "act_pc_ok pc' t"
    "g_canStatusTxTimerMs t < 50" "g_steeringUpdateTimerMs t < 20"
  shows "act_inv (pc', t)"
  using assms core_fields [of t s] by (auto simp: act_inv_def keeps_def cmd_ok_def)

lemma ecu_more_fields:
  assumes "act_uds.more t = act_uds.more s"
  shows "g_canStatusTxTimerMs t = g_canStatusTxTimerMs s" "g_steeringUpdateTimerMs t = g_steeringUpdateTimerMs s"
  using assms by (cases s; cases t; simp)+

lemma act_inv_step_keeps:
  assumes "act_inv (pc, s)" "keeps s t" "act_uds.more t = act_uds.more s" "act_pc_ok pc' t"
  shows "act_inv (pc', t)"
  using act_inv_keeps [OF assms(1,2,4)] assms(1) ecu_more_fields [OF assms(3)] by (simp add: act_inv_def)

lemma response_more [simp]:
  "act_uds.more (UdsDiag_SendSingleFrame h p n s) = act_uds.more s"
  "act_uds.more (UdsDiag_SendNegativeResponse h sid nrc s) = act_uds.more s"
  by (simp_all add: UdsDiag_SendNegativeResponse_def SendSingleFrame_frame Let_def)

lemma ProcessRequest_more: "act_uds.more (UdsDiag_ProcessRequest h d s) = act_uds.more s"
proof -
  have start: "act_uds.more (UdsDiag_StartMotorRoutine s) = act_uds.more s"
    "act_uds.more (UdsDiag_StartServoRoutine s) = act_uds.more s"
    "act_uds.more (act_clear_dtc s) = act_uds.more s" for s :: "'a act_uds_scheme"
    by (simp_all add: UdsDiag_StartMotorRoutine_def UdsDiag_StartServoRoutine_def Encoder_ResetCount_def
        MotorControl_SetDutyPercent_def SetKey_form act_clear_dtc_def Let_def)
  have hs: "act_uds.more (UdsDiag_HandleSessionControl h u n s) = act_uds.more s"
    "act_uds.more (UdsDiag_HandleReadDID h u n s) = act_uds.more s"
    "act_uds.more (UdsDiag_HandleReadDTC h u n s) = act_uds.more s"
    "act_uds.more (UdsDiag_HandleClearDTC h u n s) = act_uds.more s"
    "act_uds.more (UdsDiag_HandleRoutineControl h u n s) = act_uds.more s" for u n and s :: "'a act_uds_scheme"
    unfolding UdsDiag_HandleSessionControl_def UdsDiag_HandleReadDID_def UdsDiag_HandleReadDTC_def
      UdsDiag_HandleClearDTC_def UdsDiag_HandleRoutineControl_def Let_def
    by (simp_all add: start)
  have dispatch: "act_uds.more (act_uds_dispatch h sid u n s) = act_uds.more s" for sid u n and s :: "'a act_uds_scheme"
    unfolding act_uds_dispatch_def by (simp add: hs)
  show ?thesis unfolding UdsDiag_ProcessRequest_def Let_def by (simp add: dispatch)
qed

lemma UpdateRoutine_more: "act_uds.more (UdsDiag_UpdateRoutine1ms h s) = act_uds.more s"
proof -
  have "act_uds.more (UdsDiag_UpdateMotorRoutine1ms h s) = act_uds.more s"
    by (simp add: MotorRoutine_form Let_def routine_end_frame routine_field_defs)
  moreover have "act_uds.more (UdsDiag_UpdateServoRoutine1ms h s) = act_uds.more s"
    by (simp add: ServoRoutine_form Let_def routine_end_frame SetKey_form)
  ultimately show ?thesis by (simp add: UdsDiag_UpdateRoutine1ms_def Let_def split: UdsRoutineState.split)
qed

lemma UpdateDtc_more: "act_uds.more (UdsDiag_UpdateDtcMonitor1ms s) = act_uds.more s"
  by (simp add: UdsDiag_UpdateDtcMonitor1ms_def dtc_timers_def dtc_report_def Let_def case_prod_beta)

section \<open>The receive interrupt\<close>

lemma length_rx_bytes [simp]: "length (act_rx_bytes d) = 8"
  by (simp add: act_rx_bytes_def)

text \<open>A frame is an accepted command, or it leaves everything but requests and counters alone.\<close>

lemma act_isr_accepted:
  assumes "accepts_act_command f"
  shows "ActCan_RxIsrHandler f s = s\<lparr>g_cmdTimeoutTick100us := 0, g_safeStateEnteredByTimeout := False,
      g_rxAccelRaw := ac_accel (act_frame_command f), g_rxSteeringRaw := ac_steering (act_frame_command f),
      g_rxBrakeRaw := ac_brake (act_frame_command f), g_rxGearRaw := ac_gear (act_frame_command f),
      g_rxControlModeRaw := ac_mode (act_frame_command f), g_rxSafetyOverrideRaw := ac_safety (act_frame_command f),
      g_rxUpdated := True, g_rxCount := g_rxCount s + 1\<rparr>"
  using assms
  by (simp add: accepts_act_command_def ActCan_RxIsrHandler_def Let_def act_command_valid_def act_frame_command_def)

lemma act_isr_rejected:
  assumes "\<not> accepts_act_command f"
  shows "keeps s (ActCan_RxIsrHandler f s)" "act_pot.truncate (ActCan_RxIsrHandler f s) = act_pot.truncate s"
    "act_core (ActCan_RxIsrHandler f s) = act_core s" "can_sent (ActCan_RxIsrHandler f s) = can_sent s"
proof -
  have q: "keeps s (UdsDiag_OnCanRequest (act_rx_bytes d) s)" for d
    by (rule keepsI) (simp_all add: UdsDiag_OnCanRequest_def act_pot.truncate_def act_core_def act_copy_command_def uds_ok_def)
  have "ActCan_RxIsrHandler f s = s\<lparr>g_invalidCount := g_invalidCount s + 1\<rparr> \<or>
      ActCan_RxIsrHandler f s = UdsDiag_OnCanRequest (act_rx_bytes (af_data f)) s"
    using assms
    by (auto simp: accepts_act_command_def ActCan_RxIsrHandler_def Let_def act_command_valid_def act_frame_command_def)
  then show "keeps s (ActCan_RxIsrHandler f s)" "act_pot.truncate (ActCan_RxIsrHandler f s) = act_pot.truncate s"
    "act_core (ActCan_RxIsrHandler f s) = act_core s" "can_sent (ActCan_RxIsrHandler f s) = can_sent s"
    using q keeps_debug(4) by (auto simp: UdsDiag_OnCanRequest_def act_pot.truncate_def act_core_def act_copy_command_def)
qed

lemma act_isr_more: "act_uds.more (ActCan_RxIsrHandler f s) = act_uds.more s"
  by (simp add: ActCan_RxIsrHandler_def UdsDiag_OnCanRequest_def Let_def)

text \<open>An accepted command: the age is 0, so nothing is asked of the safe state.\<close>

lemma accepted_effect:
  assumes "accepts_act_command f"
  shows "g_cmdTimeoutTick100us (ActCan_RxIsrHandler f s) = 0" "g_rxUpdated (ActCan_RxIsrHandler f s)"
    "act_copy_command (ActCan_RxIsrHandler f s) = act_frame_command f"
    "act_pot.truncate (ActCan_RxIsrHandler f s) = act_pot.truncate s"
    "uds_ok (ActCan_RxIsrHandler f s) = uds_ok s"
    "g_currentGearState (ActCan_RxIsrHandler f s) = g_currentGearState s"
    "g_currentControlMode (ActCan_RxIsrHandler f s) = g_currentControlMode s"
    "g_routineState (ActCan_RxIsrHandler f s) = g_routineState s"
  by (simp_all add: act_isr_accepted [OF assms] act_copy_command_def act_pot.truncate_def uds_ok_def)

lemma act_inv_isr:
  assumes "act_inv (pc, s)"
  shows "act_inv (pc, ActCan_RxIsrHandler f s)"
proof (cases "accepts_act_command f")
  case True
  have "drive_ok (ActCan_RxIsrHandler f s)"
    using assms truncate_fields(1) [OF accepted_effect(4) [OF True, of s]] by (simp add: act_inv_def)
  moreover have "act_pc_ok pc (ActCan_RxIsrHandler f s)"
    using assms by (cases pc) (simp_all add: act_inv_def act_pc_ok_def accepted_effect(1) [OF True])
  moreover have "act_command_valid (act_frame_command f)" using True by (simp add: accepts_act_command_def)
  ultimately show ?thesis
    using assms ecu_more_fields [OF act_isr_more [of f s]]
    by (simp add: act_inv_def cmd_ok_def accepted_effect [OF True])
next
  case False
  have "act_pc_ok pc (ActCan_RxIsrHandler f s)"
    using assms core_fields(3) [OF act_isr_rejected(3) [OF False, of s]]
    by (cases pc) (simp_all add: act_inv_def act_pc_ok_def)
  then show ?thesis by (rule act_inv_step_keeps [OF assms act_isr_rejected(1) [OF False] act_isr_more])
qed

end
