(* ===== verification/Act_Watchdog.thy ===== *)
theory Act_Watchdog
  imports Act_Loop
begin

unbundle bit_operations_syntax

text \<open>
  Every reachable state of the ACT ECU is sound, the loop never gets stuck, and the command time-out
  of \<open>Command_Watchdog\<close> holds with 2000 ticks of \<open>ActCan_Update100us\<close>.
\<close>

section \<open>Initialisation\<close>

text \<open>The state before the steering is held for half a second.\<close>

definition act_before_hold :: "hw \<Rightarrow> 'a act_ecu_scheme \<Rightarrow> 'a act_ecu_scheme" where
  "act_before_hold h s =
     Steering_Center (MotorControl_Coast (MotorControl_SetDutyPercent 90 (UdsDiag_Init (ActCan_Init (PotAdc_Init
       (Encoder_Init h (Steering_Init (MotorControl_Init (act_statics s)))))))))"

lemma act_main_init_hold:
  "act_main_init h s = Encoder_ResetCount (Steering_UpdateForMs h 500 (act_before_hold h s))"
  by (simp add: act_main_init_def Let_def act_before_hold_def)

lemma Encoder_Init_frame:
  "pin_cmd (Encoder_Init h s) = pin_cmd s" "act_encoder.more (Encoder_Init h s) = act_encoder.more s"
  by (simp_all add: Encoder_Init_def Encoder_ReadA_def read_pin_def set_mode_def Let_def)

lemma before_hold:
  fixes h :: hw and s :: "'a act_ecu_scheme"
  defines "x \<equiv> act_before_hold h s"
  shows "drive_ok x" "uds_ok x" "cmd_ok x" "g_motorState x = MOTOR_STATE_STOP" "g_steeringKey x = STEERING_KEY_NULL"
    "g_routineState x = UDS_ROUTINE_NONE" "g_currentGearState x = 0" "g_currentControlMode x = 0"
    "g_canStatusTxTimerMs x = 0" "g_steeringUpdateTimerMs x = 0"
proof -
  define e where "e = Encoder_Init h (Steering_Init (MotorControl_Init (act_statics s)))"
  have e: "\<not> pin_cmd e SERVO_PIN" "g_txBufferIndex e = 0" "g_canStatusTxTimerMs e = 0" "g_steeringUpdateTimerMs e = 0"
  proof -
    let ?u = "Steering_Init (MotorControl_Init (act_statics s))"
    have u: "\<not> pin_cmd ?u SERVO_PIN" "g_txBufferIndex ?u = 0" "g_canStatusTxTimerMs ?u = 0" "g_steeringUpdateTimerMs ?u = 0"
      by (simp_all add: Steering_Init_def MotorControl_Init_def MotorControl_Stop_def MotorControl_SetState_def
          motor_pin_defs set_pin_def set_mode_def act_statics_def Let_def)
    have m: "act_encoder.more e = act_encoder.more ?u" by (simp add: e_def Encoder_Init_frame)
    have "g_txBufferIndex t = g_txBufferIndex v" "g_canStatusTxTimerMs t = g_canStatusTxTimerMs v"
      "g_steeringUpdateTimerMs t = g_steeringUpdateTimerMs v"
      if "act_encoder.more t = act_encoder.more v" for t v :: "'a act_ecu_scheme"
      using that by (cases t; cases v; simp)+
    from this [OF m] u show "g_txBufferIndex e = 0" "g_canStatusTxTimerMs e = 0" "g_steeringUpdateTimerMs e = 0"
      by simp_all
    show "\<not> pin_cmd e SERVO_PIN" using u(1) by (simp add: e_def Encoder_Init_frame)
  qed
  have x: "x = Steering_Center (MotorControl_Coast (MotorControl_SetDutyPercent 90 (UdsDiag_Init (ActCan_Init (PotAdc_Init e)))))"
    by (simp add: x_def act_before_hold_def e_def)
  show "drive_ok x"
    using e(1) by (simp add: x drive_ok_def Center_form MotorControl_Coast_def MotorControl_SetState_def motor_pin_defs
        set_pin_def MotorControl_SetDutyPercent_def Motor_LimitDutyPercent_def UdsDiag_Init_def ActCan_Init_def
        act_can_vars_def ActCan_EnableTransceiver_def set_mode_def PotAdc_Init_def wait_us_def pot_ok_def
        key_pulse_def key_state_def Let_def word_le_nat_alt word_less_nat_alt)
  show "uds_ok x"
    using e(2) by (simp add: x uds_ok_def routine_ok_def Center_form MotorControl_Coast_def MotorControl_SetState_def
        motor_pin_defs set_pin_def MotorControl_SetDutyPercent_def UdsDiag_Init_def ActCan_Init_def
        act_can_vars_def ActCan_EnableTransceiver_def set_mode_def PotAdc_Init_def wait_us_def Let_def)
  show "cmd_ok x" "g_motorState x = MOTOR_STATE_STOP" "g_steeringKey x = STEERING_KEY_NULL"
    "g_routineState x = UDS_ROUTINE_NONE" "g_currentGearState x = 0" "g_currentControlMode x = 0"
    "g_canStatusTxTimerMs x = 0" "g_steeringUpdateTimerMs x = 0"
    using e by (simp_all add: x cmd_ok_def Center_form MotorControl_Coast_def MotorControl_SetState_def
        motor_pin_defs set_pin_def MotorControl_SetDutyPercent_def UdsDiag_Init_def ActCan_Init_def
        act_can_vars_def ActCan_EnableTransceiver_def set_mode_def PotAdc_Init_def wait_us_def Let_def
        act_copy_command_def act_command_valid_def ActCan_IsValidBool_def ActCan_IsValidSteering_def
        ActCan_IsValidGear_def ActCan_IsValidControlMode_def ActCan_IsValidSafetyOverride_def)
qed

lemma hold_invariant:
  assumes "drive_ok s"
  shows "drive_ok ((Steering_Update h ^^ n) s) \<and> keeps s ((Steering_Update h ^^ n) s) \<and>
    act_encoder.more ((Steering_Update h ^^ n) s) = act_encoder.more s"
proof (induction n)
  case (Suc n)
  let ?t = "(Steering_Update h ^^ n) s"
  have "keeps ?t (Steering_Update h ?t)" "act_encoder.more (Steering_Update h ?t) = act_encoder.more ?t"
    using keeps_steering [of ?t h] Suc by simp_all
  with Suc show ?case by (auto simp: keeps_def)
qed (simp add: assms)

lemma act_inv_init: "act_inv (PcTick 0, act_main_init h s)"
proof -
  define x where "x = act_before_hold h s"
  note x = before_hold [of h s, folded x_def]
  define y where "y = (Steering_Update h ^^ 24) x"
  define z where "z = Steering_Update h y"
  have t: "act_main_init h s = Encoder_ResetCount z"
    using fun_cong [OF funpow.simps(2) [of 24 "Steering_Update h"], of x]
    by (simp add: act_main_init_hold Steering_UpdateForMs_def Let_def z_def y_def flip: x_def)
  have y: "drive_ok y" "keeps x y" "act_encoder.more y = act_encoder.more x"
    using hold_invariant [OF x(1), of 24 h] by (simp_all add: y_def)
  have z: "keeps y z" "act_encoder.more z = act_encoder.more y" "motor_pins (g_motorState y) (pin_cmd z)"
    using keeps_steering [OF y(1), of h] by (simp_all add: z_def)
  have m: "act_encoder.more z = act_encoder.more x" using z y by simp
  note f = encoder_more_fields [OF m]
  have mot: "g_motorState y = MOTOR_STATE_STOP" "g_motorState z = MOTOR_STATE_STOP"
    using x(4) drive_fields(1) [OF f(2)] drive_fields(1) [OF encoder_more_fields(2) [OF y(3)]] by simp_all
  have "braked z" using z(3) mot by (simp add: braked_def motor_pins_def)
  then have safe: "act_safe z"
    using x drive_fields(4) [OF f(2)] core_fields [OF f(1)] by (simp add: act_safe_def)
  have "keeps x z" by (rule keeps_trans [OF y(2) z(1)])
  then have ok: "drive_ok z" "uds_ok z" "cmd_ok z"
    using x core_fields [OF f(1)] by (auto simp: keeps_def cmd_ok_def)
  have k: "keeps z (Encoder_ResetCount z)" by (rule keeps_pins) (simp_all add: drive_ok_def braked_def)
  have i: "act_inv (PcTick 0, z)"
    using ok safe ecu_more_fields [OF f(5)] x(9,10) by (simp add: act_inv_def act_pc_ok_def)
  have "act_uds.more (Encoder_ResetCount z) = act_uds.more z" by (simp add: Encoder_ResetCount_def)
  then show ?thesis unfolding t by (rule act_inv_step_keeps [OF i k]) (simp add: act_pc_ok_def)
qed

section \<open>Every step preserves the invariant\<close>

lemma act_age_fields:
  "act_pot.truncate (act_age s) = act_pot.truncate s" "act_can.more (act_age s) = act_can.more s"
  "act_copy_command (act_age s) = act_copy_command s" "g_currentGearState (act_age s) = g_currentGearState s"
  "g_currentControlMode (act_age s) = g_currentControlMode s" "g_rxUpdated (act_age s) = g_rxUpdated s"
  by (simp_all add: act_age_def act_pot.truncate_def act_copy_command_def)

lemma act_age_count:
  assumes "g_cmdTimeoutTick100us s \<le> 2000"
  shows "unat (g_cmdTimeoutTick100us (act_age s)) = min 2000 (Suc (unat (g_cmdTimeoutTick100us s)))"
proof (cases "g_cmdTimeoutTick100us s < 2000")
  case True
  then show ?thesis using unat_inc_below [OF True] by (auto simp: act_age_def word_less_nat_alt)
next
  case False
  with assms have "g_cmdTimeoutTick100us s = 2000" by simp
  then show ?thesis by (simp add: act_age_def)
qed

lemma act_age_expired:
  assumes "g_cmdTimeoutTick100us s \<le> 2000"
  shows "act_expired (act_age s) \<longleftrightarrow> g_cmdTimeoutTick100us (act_age s) = 2000"
    "g_cmdTimeoutTick100us (act_age s) \<le> 2000"
proof -
  have "unat (g_cmdTimeoutTick100us (act_age s)) \<le> 2000" using act_age_count [OF assms] by simp
  then show "g_cmdTimeoutTick100us (act_age s) \<le> 2000" by (simp add: word_le_nat_alt)
  then show "act_expired (act_age s) \<longleftrightarrow> g_cmdTimeoutTick100us (act_age s) = 2000"
    by (auto simp: act_expired_def)
qed

lemma next_tick_ok: "i < 10 \<Longrightarrow> act_pc_ok (next_tick i) s"
  by (simp add: next_tick_def act_pc_ok_def)

lemma act_inv_expire:
  assumes "act_inv (PcTick i, s)" "act_expired (act_age s)"
  shows "act_inv (next_tick i, act_expire (act_age s))"
proof -
  let ?t = "act_expire (act_age s)"
  have age: "g_cmdTimeoutTick100us s \<le> 2000" using assms by (simp add: act_inv_def cmd_ok_def)
  have "drive_ok (act_age s)" using assms truncate_fields(1) [OF act_age_fields(1) [of s]] by (simp add: act_inv_def)
  then have "drive_ok ?t" by (rule act_expire_effect(4))
  moreover have m: "act_can.more ?t = act_can.more s" using act_expire_effect(5) act_age_fields(2) by metis
  moreover have "cmd_ok ?t"
    using act_expire_effect(3) [of "act_age s"] act_age_expired(2) [OF age] assms
    by (simp add: act_core_def cmd_ok_def act_age_fields act_inv_def)
  ultimately show ?thesis
    using assms expire_safe next_tick_ok can_more_fields [OF m] ecu_more_fields [OF can_more_fields(3) [OF m]]
    by (auto simp: act_inv_def act_pc_ok_def)
qed

lemma act_inv_alive:
  assumes "act_inv (PcTick i, s)" "\<not> act_expired (act_age s)"
  shows "act_inv (PcFlag i, act_age s)"
proof -
  have age: "g_cmdTimeoutTick100us s \<le> 2000" using assms by (simp add: act_inv_def cmd_ok_def)
  have "g_cmdTimeoutTick100us (act_age s) < 2000"
    using act_age_expired [OF age] assms(2) by (simp add: less_le)
  moreover from this have "g_cmdTimeoutTick100us (act_age s) \<le> 2000" "g_cmdTimeoutTick100us (act_age s) \<noteq> 2000"
    by auto
  ultimately show ?thesis
    using assms truncate_fields(1) [OF act_age_fields(1), of s] can_more_fields [OF act_age_fields(2), of s]
      ecu_more_fields [OF can_more_fields(3) [OF act_age_fields(2)], of s]
    by (simp add: act_inv_def act_pc_ok_def cmd_ok_def act_age_fields)
qed

lemma act_inv_drive:
  assumes "act_inv (PcCleared i c, s)"
  shows "act_inv (next_tick i, act_apply c s)"
proof -
  have c: "act_command_valid c" "i < 10" "g_cmdTimeoutTick100us s < 2000"
    using assms by (simp_all add: act_inv_def act_pc_ok_def)
  note core = act_apply_core [where c = c and s = s]
  have "g_cmdTimeoutTick100us (act_apply c s) < 2000" using c(3) core(1) by simp
  then have "g_cmdTimeoutTick100us (act_apply c s) \<noteq> 2000" "g_cmdTimeoutTick100us (act_apply c s) \<le> 2000"
    by (simp_all add: less_le)
  then show ?thesis
    using assms core c act_apply_ok [of s c] next_tick_ok can_more_fields [OF core(7)]
      ecu_more_fields [OF can_more_fields(3) [OF core(7)]]
    by (simp add: act_inv_def cmd_ok_def)
qed

lemma keeps_status: "keeps s (App_SendStatusIfNeeded h s)"
proof -
  define u where "u = s\<lparr>g_canStatusTxTimerMs := g_canStatusTxTimerMs s + 1\<rparr>"
  have k: "keeps s (s\<lparr>g_canStatusTxTimerMs := w\<rparr>)" for w
    by (rule keepsI) (simp_all add: act_pot.truncate_def act_core_def act_copy_command_def uds_ok_def)
  have d: "keeps s (s\<lparr>g_debugCanSteeringState := a, g_debugCanSteeringAngleDeg := b, g_debugStatusTxCount := c\<rparr>)"
    for a b c and s :: "'a act_ecu_scheme"
    by (rule keepsI) (simp_all add: act_pot.truncate_def act_core_def act_copy_command_def uds_ok_def)
  have send: "keeps s (CanComm_SendActStatus h v g st a s)" for v g st a and s :: "'a act_ecu_scheme"
  proof (rule keepsI)
    have m: "act_status.more (CanComm_SendActStatus h v g st a s) = act_status.more s" by (rule SendActStatus_frame)
    show "g_routineState (CanComm_SendActStatus h v g st a s) = g_routineState s"
      "uds_ok s \<Longrightarrow> uds_ok (CanComm_SendActStatus h v g st a s)"
      using SendActStatus_buffer [of s h v g st a] m
      by (cases "CanComm_SendActStatus h v g st a s"; cases s; simp add: uds_ok_def)+
  qed (rule SendActStatus_frame)+
  show ?thesis
    unfolding App_SendStatusIfNeeded_def Let_def
    using k keeps_trans [OF k keeps_trans [OF send d]] by simp
qed

lemma status_timer:
  assumes "g_canStatusTxTimerMs s < 50"
  shows "g_canStatusTxTimerMs (App_SendStatusIfNeeded h s) < 50"
    "g_steeringUpdateTimerMs (App_SendStatusIfNeeded h s) = g_steeringUpdateTimerMs s"
proof -
  have m: "act_uds.more (CanComm_SendActStatus h v g st a u) = act_uds.more u" for v g st a and u :: "'a act_ecu_scheme"
    using SendActStatus_frame(3) [of h v g st a u] by (cases "CanComm_SendActStatus h v g st a u"; cases u; simp)
  show "g_canStatusTxTimerMs (App_SendStatusIfNeeded h s) < 50"
    "g_steeringUpdateTimerMs (App_SendStatusIfNeeded h s) = g_steeringUpdateTimerMs s"
    by (simp_all add: App_SendStatusIfNeeded_def Let_def ecu_more_fields [OF m])
qed

lemma keeps_steer: "drive_ok s \<Longrightarrow> keeps s (main_steering h s)"
proof -
  assume "drive_ok s"
  have k: "keeps s (s\<lparr>g_steeringUpdateTimerMs := w\<rparr>)" for w
    by (rule keepsI) (simp_all add: act_pot.truncate_def act_core_def act_copy_command_def uds_ok_def)
  moreover have "drive_ok (s\<lparr>g_steeringUpdateTimerMs := 0\<rparr>)" using k [of 0] \<open>drive_ok s\<close> by (simp add: keeps_def)
  ultimately show ?thesis
    unfolding main_steering_def Let_def using keeps_trans [OF k keeps_steering(1)] by simp
qed

lemma steer_timer:
  assumes "drive_ok s"
  shows "g_steeringUpdateTimerMs (main_steering h s) < 20"
    "g_canStatusTxTimerMs (main_steering h s) = g_canStatusTxTimerMs s"
proof -
  let ?u = "s\<lparr>g_steeringUpdateTimerMs := 0\<rparr>"
  have "drive_ok ?u" using assms by (simp add: drive_ok_def pot_ok_def)
  then have "act_encoder.more (Steering_Update h ?u) = act_encoder.more ?u" by (rule keeps_steering)
  then have "act_uds.more (Steering_Update h ?u) = act_uds.more ?u" by (rule encoder_more_fields)
  from ecu_more_fields [OF this]
  show "g_steeringUpdateTimerMs (main_steering h s) < 20"
    "g_canStatusTxTimerMs (main_steering h s) = g_canStatusTxTimerMs s"
    by (simp_all add: main_steering_def Let_def not_le)
qed

lemma act_inv_step:
  assumes "act_step h adc x y" "act_inv x"
  shows "act_inv y"
  using assms
proof (induction rule: act_step.induct)
  case (isr pc s f)
  then show ?case by (rule act_inv_isr)
next
  case (expire s i)
  then show ?case by (intro act_inv_expire)
next
  case (alive s i)
  then show ?case by (intro act_inv_alive)
next
  case (none s i)
  then show ?case by (simp add: act_inv_def act_pc_ok_def next_tick_def)
next
  case (copy s i)
  then show ?case by (simp add: act_inv_def act_pc_ok_def cmd_ok_def)
next
  case (clear i c s)
  have "drive_ok (act_clear_flag s) = drive_ok s" "uds_ok (act_clear_flag s) = uds_ok s"
    "cmd_ok (act_clear_flag s) = cmd_ok s" "act_safe (act_clear_flag s) = act_safe s"
    by (simp_all add: act_clear_flag_def drive_ok_def pot_ok_def uds_ok_def cmd_ok_def act_safe_def braked_def
        act_copy_command_def)
  with clear show ?case
    by (simp add: act_inv_def act_pc_ok_def) (simp add: act_clear_flag_def)
next
  case (drive i c s)
  then show ?case by (rule act_inv_drive)
next
  case (idle s)
  then show ?case by (simp add: act_inv_def act_pc_ok_def)
next
  case (request s)
  then show ?case by (simp add: act_inv_def act_pc_ok_def)
next
  case (serve d s)
  then show ?case
    by (rule act_inv_step_keeps [OF _ keeps_trans [OF keeps_debug(3) keeps_request]])
      (simp_all add: ProcessRequest_more act_pc_ok_def)
next
  case (routine s)
  then show ?case
    by (rule act_inv_step_keeps [OF _ keeps_routine]) (simp_all add: UpdateRoutine_more act_pc_ok_def)
next
  case (dtc s)
  then show ?case
    by (rule act_inv_step_keeps [OF _ keeps_dtc]) (simp_all add: UpdateDtc_more act_pc_ok_def)
next
  case (motor s)
  have "act_encoder.more (MotorControl_Update h s) = act_encoder.more s"
    using MotorControl_Update_cycle [of s h] by (simp add: motor_cycle_def)
  from encoder_more_fields(5) [OF this] motor show ?case
    by (intro act_inv_step_keeps [OF _ keeps_motor, of PcMotor]) (simp_all add: act_pc_ok_def)
next
  case (encoder s)
  have "act_encoder.more (Encoder_Update1ms h s) = act_encoder.more s" by simp
  from encoder_more_fields(5) [OF this] encoder show ?case
    by (intro act_inv_step_keeps [OF _ keeps_encoder, of PcEncoder]) (simp_all add: act_pc_ok_def)
next
  case (pot s)
  then show ?case
    by (intro act_inv_step_keeps [OF _ keeps_pot, of PcPot]) (simp_all add: pot_fields act_pc_ok_def)
next
  case (status s)
  then show ?case
    using status_timer [of s h]
    by (intro act_inv_keeps [OF _ keeps_status, of PcStatus]) (simp_all add: act_inv_def act_pc_ok_def)
next
  case (debug s)
  have k: "keeps s (App_UpdateDebugValues s)"
    by (rule keepsI) (simp_all add: App_UpdateDebugValues_def act_pot.truncate_def act_core_def act_copy_command_def uds_ok_def)
  show ?case
    by (rule act_inv_keeps [OF debug k]) (use debug in \<open>simp_all add: act_inv_def act_pc_ok_def App_UpdateDebugValues_def\<close>)
next
  case (steer s)
  then have "drive_ok s" by (simp add: act_inv_def)
  with steer steer_timer [OF this, of h] show ?case
    by (intro act_inv_keeps [OF _ keeps_steer, of PcSteer]) (simp_all add: act_inv_def act_pc_ok_def)
qed

lemma act_inv_reachable: "act_reachable h adc x \<Longrightarrow> act_inv x"
  by (induction rule: act_reachable.induct) (auto intro: act_inv_init act_inv_step)

text \<open>The loop never blocks.\<close>

lemma act_step_enabled: "\<exists>pc' t. pc' \<noteq> pc \<and> act_step h adc (pc, s) (pc', t)"
proof (cases pc)
  case (PcTick i)
  have n: "next_tick i \<noteq> PcTick i" by (simp add: next_tick_def)
  show ?thesis
    using n act_step.expire [of s h adc i] act_step.alive [of s h adc i] unfolding PcTick
    by (cases "act_expired (act_age s)") blast+
next
  case (PcFlag i)
  have n: "next_tick i \<noteq> PcFlag i" by (simp add: next_tick_def)
  show ?thesis
    using n act_step.none [of s h adc i] act_step.copy [of s h adc i] unfolding PcFlag
    by (cases "g_rxUpdated s") blast+
next
  case (PcCopied i c)
  then show ?thesis using act_step.clear by blast
next
  case (PcCleared i c)
  have "next_tick i \<noteq> PcCleared i c" by (simp add: next_tick_def)
  with PcCleared show ?thesis using act_step.drive by blast
next
  case PcUds
  then show ?thesis
    using act_step.idle [of s h adc] act_step.request [of s h adc] by (cases "g_reqPending s") blast+
qed (blast intro: act_step.serve act_step.routine act_step.dtc act_step.motor act_step.encoder act_step.pot
    act_step.status act_step.debug act_step.steer)+

section \<open>The time-out contract\<close>

text \<open>A tick is a call of \<open>ActCan_Update100us\<close>, ten in a pass of the loop.\<close>

definition act_tick :: "hw \<Rightarrow> adc \<Rightarrow> act_pc \<times> act_ecu \<Rightarrow> act_pc \<times> act_ecu \<Rightarrow> bool" where
  "act_tick h adc x y \<longleftrightarrow> (\<exists>i. fst x = PcTick i) \<and> fst y \<noteq> fst x \<and> act_step h adc x y"

text \<open>Any other step of the program, or the reception of a frame that is not a valid command.\<close>

definition act_idle :: "hw \<Rightarrow> adc \<Rightarrow> act_pc \<times> act_ecu \<Rightarrow> act_pc \<times> act_ecu \<Rightarrow> bool" where
  "act_idle h adc x y \<longleftrightarrow>
     ((\<forall>i. fst x \<noteq> PcTick i) \<and> fst y \<noteq> fst x \<and> act_step h adc x y) \<or>
     (\<exists>f. \<not> accepts_act_command f \<and> y = (fst x, ActCan_RxIsrHandler f (snd x)))"

definition act_command_age :: "act_pc \<times> act_ecu \<Rightarrow> nat" where
  "act_command_age x = unat (g_cmdTimeoutTick100us (snd x))"

lemma act_tick_age:
  assumes "act_inv x" "act_tick h adc x y"
  shows "act_command_age y = min 2000 (Suc (act_command_age x))"
proof -
  obtain i s where x: "x = (PcTick i, s)" using assms(2) by (cases x) (auto simp: act_tick_def)
  have age: "g_cmdTimeoutTick100us s \<le> 2000" using assms(1) by (simp add: x act_inv_def cmd_ok_def)
  from assms(2) have "g_cmdTimeoutTick100us (snd y) = g_cmdTimeoutTick100us (act_age s)"
    using act_expire_effect(3) [of "act_age s"] by (auto simp: x act_tick_def act_step_tick act_core_def)
  with act_age_count [OF age] show ?thesis by (simp add: act_command_age_def x)
qed

lemma keeps_age: "keeps s t \<Longrightarrow> g_cmdTimeoutTick100us t = g_cmdTimeoutTick100us s"
  by (simp add: keeps_def act_core_def)

lemma act_idle_age:
  assumes "act_inv x" "act_idle h adc x y"
  shows "act_command_age y = act_command_age x"
proof (cases x, cases y)
  fix pc s pc' t
  assume xy: "x = (pc, s)" "y = (pc', t)"
  consider (prog) "\<forall>i. pc \<noteq> PcTick i" "pc' \<noteq> pc" "act_step h adc (pc, s) (pc', t)"
    | (rx) f where "\<not> accepts_act_command f" "t = ActCan_RxIsrHandler f s"
    using assms(2) by (auto simp: act_idle_def xy)
  then have "g_cmdTimeoutTick100us t = g_cmdTimeoutTick100us s"
  proof cases
    case rx
    then show ?thesis using keeps_age [OF act_isr_rejected(1)] by blast
  next
    case prog
    have d: "drive_ok s" using assms(1) by (simp add: xy act_inv_def)
    from prog(3) show ?thesis
    proof (cases rule: act_step.cases)
      case (clear i c)
      then show ?thesis by (simp add: act_clear_flag_def)
    next
      case (drive i c)
      then show ?thesis by (simp add: act_apply_core)
    next
      case (serve d)
      then show ?thesis using keeps_age [OF keeps_trans [OF keeps_debug(3) keeps_request]] by simp
    next
      case debug
      then show ?thesis by (simp add: App_UpdateDebugValues_def)
    next
      case steer
      then show ?thesis using keeps_age [OF keeps_steer [OF d]] by simp
    qed (use prog(1,2) keeps_age [OF keeps_routine] keeps_age [OF keeps_dtc] keeps_age [OF keeps_motor]
        keeps_age [OF keeps_encoder] keeps_age [OF keeps_pot] keeps_age [OF keeps_status] in simp_all)
  qed
  then show ?thesis by (simp add: act_command_age_def xy)
qed

interpretation act_watchdog: command_watchdog
  "act_tick h adc" "act_idle h adc" act_command_age 2000 "\<lambda>x. act_safe (snd x)" act_inv for h adc
proof unfold_locales
  fix s t
  show "act_inv s \<Longrightarrow> act_tick h adc s t \<Longrightarrow> act_inv t"
    unfolding act_tick_def using act_inv_step by blast
  show "act_inv s \<Longrightarrow> act_idle h adc s t \<Longrightarrow> act_inv t"
    using act_inv_step [of h adc s t] act_inv_isr [of "fst s" "snd s"] by (auto simp: act_idle_def)
  show "act_inv s \<Longrightarrow> act_tick h adc s t \<Longrightarrow> act_command_age t = min 2000 (Suc (act_command_age s))"
    by (rule act_tick_age)
  show "act_inv s \<Longrightarrow> act_idle h adc s t \<Longrightarrow> act_command_age t = act_command_age s" by (rule act_idle_age)
  show "act_inv s \<Longrightarrow> act_command_age s \<le> 2000"
    by (cases s) (simp add: act_inv_def act_command_age_def cmd_ok_def word_le_nat_alt)
  show "act_inv s \<Longrightarrow> act_command_age s = 2000 \<Longrightarrow> act_safe (snd s)"
    by (cases s) (auto simp: act_inv_def act_command_age_def word_unat_eq_iff)
qed

section \<open>A command received at the loop\<close>

lemma act_command_applied:
  fixes s :: "'a act_uds_scheme"
  assumes "accepts_act_command f"
  defines "t \<equiv> ActCan_Update100us (ActCan_RxIsrHandler f s)" and "c \<equiv> act_frame_command f"
  shows "act_drive t = commanded_drive c" "ac_safety c = 1 \<or> ac_mode c \<noteq> 1 \<or> ac_brake c = 1 \<Longrightarrow> braked t"
    "\<not> g_rxUpdated t"
proof -
  define r where "r = ActCan_RxIsrHandler f s"
  have r: "g_cmdTimeoutTick100us r = 0" "g_rxUpdated r" "act_copy_command r = act_frame_command f"
    using accepted_effect(1-3) [OF assms(1), of s] by (simp_all add: r_def)
  then have "\<not> act_expired (act_age r)" by (simp add: act_expired_def act_age_def word_le_nat_alt)
  then have run: "ActCan_Update100us r = act_apply (act_frame_command f) (act_clear_flag (act_age r))"
    using r by (simp add: ActCan_Update100us_def Let_def act_age_fields)
  have valid: "act_command_valid (act_frame_command f)" using assms(1) by (simp add: accepts_act_command_def)
  show "act_drive t = commanded_drive c" "\<not> g_rxUpdated t"
    unfolding t_def c_def r_def [symmetric] run by (simp_all add: act_apply_drive [OF valid] act_apply_core act_clear_flag_def)
  show "braked t" if "ac_safety c = 1 \<or> ac_mode c \<noteq> 1 \<or> ac_brake c = 1"
    using that act_apply_braked unfolding t_def c_def r_def [symmetric] run by blast
qed

end
