(* ===== verification/Act_Function.thy ===== *)
theory Act_Function
  imports Act_Watchdog
begin

unbundle bit_operations_syntax

text \<open>
  What the operations of the ACT ECU compute: the run of a pass of the loop, the time a pass takes,
  the age of a command after some passes, and the answers of the diagnostic server.
\<close>

section \<open>A pass as a run of steps\<close>

text \<open>
  A pass without reception is a run of the small steps with ten ticks in it. \<open>quiet_run n x y\<close> is
  such a run with \<open>n\<close> ticks, in the vocabulary of the time-out contract.
\<close>

abbreviation quiet_run :: "hw \<Rightarrow> adc \<Rightarrow> nat \<Rightarrow> act_pc \<times> act_ecu \<Rightarrow> act_pc \<times> act_ecu \<Rightarrow> bool" where
  "quiet_run h adc \<equiv> silence (act_tick h adc) (act_idle h adc)"

lemma quiet_steps: "quiet_run h adc n x y \<Longrightarrow> (act_step h adc)\<^sup>*\<^sup>* x y"
proof (induction rule: silence.induct)
  case (tick n s t u)
  then show ?case by (auto simp: act_tick_def intro: rtranclp.rtrancl_into_rtrancl)
next
  case (idle n s t u)
  moreover have "act_step h adc t u"
    using idle.hyps(2) act_step.isr [of h adc "fst t" "snd t"] by (auto simp: act_idle_def)
  ultimately show ?case by (blast intro: rtranclp.rtrancl_into_rtrancl)
qed simp

lemma quiet_tick:
  "act_step h adc (PcTick i, s) (pc', t) \<Longrightarrow> pc' \<noteq> PcTick i \<Longrightarrow> quiet_run h adc 1 (PcTick i, s) (pc', t)"
  using silence.tick [OF silence.start, of "act_tick h adc" "(PcTick i, s)" "(pc', t)" "act_idle h adc"]
  by (simp add: act_tick_def)

lemma quiet_idle:
  assumes "quiet_run h adc n x (pc, s)" "act_step h adc (pc, s) (pc', t)" "pc' \<noteq> pc" "\<And>i. pc \<noteq> PcTick i"
  shows "quiet_run h adc n x (pc', t)"
proof -
  have "act_idle h adc (pc, s) (pc', t)" using assms(2-4) by (simp add: act_idle_def)
  with assms(1) show ?thesis by (rule silence.idle)
qed

lemma next_tick_other: "next_tick i \<noteq> PcTick i" "next_tick i \<noteq> PcFlag j" "next_tick i \<noteq> PcCleared j c"
  by (simp_all add: next_tick_def)

lemma update_quiet: "quiet_run h adc 1 (PcTick i, s) (next_tick i, ActCan_Update100us s)"
proof (cases "act_expired (act_age s)")
  case True
  have "quiet_run h adc 1 (PcTick i, s) (next_tick i, act_expire (act_age s))"
    by (rule quiet_tick [OF act_step.expire [OF True] next_tick_other(1)])
  with True show ?thesis by (simp add: ActCan_Update100us_def Let_def)
next
  case False
  have a: "quiet_run h adc 1 (PcTick i, s) (PcFlag i, act_age s)"
    by (rule quiet_tick [OF act_step.alive [OF False]]) simp
  show ?thesis
  proof (cases "g_rxUpdated (act_age s)")
    case True
    have "quiet_run h adc 1 (PcTick i, s) (PcCopied i (act_copy_command (act_age s)), act_age s)"
      by (rule quiet_idle [OF a act_step.copy [OF True]]) simp_all
    from quiet_idle [OF this act_step.clear] quiet_idle [OF _ act_step.drive next_tick_other(3)]
    have "quiet_run h adc 1 (PcTick i, s)
        (next_tick i, act_apply (act_copy_command (act_age s)) (act_clear_flag (act_age s)))" by blast
    with True False show ?thesis by (simp add: ActCan_Update100us_def Let_def)
  next
    case noflag: False
    have "quiet_run h adc 1 (PcTick i, s) (next_tick i, act_age s)"
      by (rule quiet_idle [OF a act_step.none [OF noflag] next_tick_other(2)]) simp
    with False noflag show ?thesis by (simp add: ActCan_Update100us_def Let_def)
  qed
qed

lemma updates_quiet:
  "n \<le> 9 \<Longrightarrow> quiet_run h adc n (PcTick 0, s) (PcTick n, (ActCan_Update100us ^^ n) s)"
proof (induction n)
  case (Suc n)
  have "quiet_run h adc 1 (PcTick n, (ActCan_Update100us ^^ n) s) (PcTick (Suc n), (ActCan_Update100us ^^ Suc n) s)"
    using update_quiet [of h adc n "(ActCan_Update100us ^^ n) s"] Suc.prems by (simp add: next_tick_def)
  from silence_trans [OF this, of n "(PcTick 0, s)"] Suc show ?case by simp
qed (simp add: silence.start)

lemma commands_quiet: "quiet_run h adc 10 (PcTick 0, s) (PcUds, App_UpdateCanRxFor1ms s)"
proof -
  let ?t = "(ActCan_Update100us ^^ 9) s"
  have "(ActCan_Update100us ^^ 10) s = ActCan_Update100us ?t"
    using fun_cong [OF funpow.simps(2) [of 9 ActCan_Update100us], of s] by simp
  then have "quiet_run h adc 1 (PcTick 9, ?t) (PcUds, App_UpdateCanRxFor1ms s)"
    using update_quiet [of h adc 9 ?t] by (simp add: next_tick_def App_UpdateCanRxFor1ms_def)
  from silence_trans [OF this updates_quiet] show ?thesis by simp
qed

lemma uds_quiet:
  assumes "quiet_run h adc n x (PcUds, s)"
  shows "quiet_run h adc n x (PcMotor, UdsDiag_Update1ms h s)"
proof -
  define u where "u = (if g_reqPending s
    then UdsDiag_ProcessRequest h (g_reqData s) (s\<lparr>g_reqPending := False\<rparr>) else s)"
  have "quiet_run h adc n x (PcRoutine, u)"
  proof (cases "g_reqPending s")
    case True
    have "quiet_run h adc n x (PcRequest (g_reqData s), s)"
      by (rule quiet_idle [OF assms act_step.request [OF True]]) simp_all
    from quiet_idle [OF this act_step.serve] True show ?thesis by (simp add: u_def)
  next
    case False
    from quiet_idle [OF assms act_step.idle [OF False]] False show ?thesis by (simp add: u_def)
  qed
  from quiet_idle [OF this act_step.routine] quiet_idle [OF _ act_step.dtc]
  have "quiet_run h adc n x (PcMotor, UdsDiag_UpdateDtcMonitor1ms (UdsDiag_UpdateRoutine1ms h u))" by blast
  then show ?thesis by (cases "g_reqPending s") (simp_all add: UdsDiag_Update1ms_def Let_def u_def)
qed

lemma pass_quiet: "quiet_run h adc 10 (PcTick 0, s) (PcTick 0, act_main_pass h adc s)"
proof -
  let ?r = "quiet_run h adc 10 (PcTick 0, s)"
  define m where "m = MotorControl_Update h (UdsDiag_Update1ms h (App_UpdateCanRxFor1ms s))"
  define p where "p = PotAdc_Update1ms adc (Encoder_Update1ms h m)"
  have "?r (PcMotor, UdsDiag_Update1ms h (App_UpdateCanRxFor1ms s))" by (rule uds_quiet [OF commands_quiet])
  from quiet_idle [OF this act_step.motor] have "?r (PcEncoder, m)" by (simp add: m_def)
  from quiet_idle [OF this act_step.encoder] quiet_idle [OF _ act_step.pot]
  have "?r (PcStatus, p)" by (simp add: p_def)
  from quiet_idle [OF this act_step.status] quiet_idle [OF _ act_step.debug]
  have "?r (PcSteer, App_UpdateDebugValues (App_SendStatusIfNeeded h p))" by blast
  from quiet_idle [OF this act_step.steer]
  show ?thesis by (simp add: act_main_pass_def App_Update1ms_def Let_def p_def m_def)
qed

lemma passes_quiet: "quiet_run h adc (10 * n) (PcTick 0, s) (PcTick 0, (act_main_pass h adc ^^ n) s)"
proof (induction n)
  case (Suc n)
  from silence_trans [OF pass_quiet this] show ?case by (simp add: add.commute)
qed (simp add: silence.start)

section \<open>The time a pass takes\<close>

text \<open>\<open>takes n s t\<close>: between \<open>s\<close> and \<open>t\<close> the program waited \<open>n\<close> microseconds.\<close>

definition takes :: "nat \<Rightarrow> 'a io_scheme \<Rightarrow> 'b io_scheme \<Rightarrow> bool" where
  "takes n s t \<longleftrightarrow> waited (io_log t) = n + waited (io_log s)"

lemma takes_trans: "takes n s t \<Longrightarrow> takes m t u \<Longrightarrow> takes (n + m) s u"
  by (simp add: takes_def)

lemma takes_spent: "spent n k s t \<Longrightarrow> takes n s t"
proof -
  have "waited (rev es) = waited es" for es by (induction es rule: waited.induct) simp_all
  then show "spent n k s t \<Longrightarrow> takes n s t" by (auto simp: spent_def takes_def)
qed

lemma takes_log: "io_log t = io_log s \<Longrightarrow> takes 0 s t"
  by (simp add: takes_def)

lemma truncate_log: "act_pot.truncate t = act_pot.truncate s \<Longrightarrow> io_log t = io_log s"
  by (cases s; cases t; simp add: act_pot.truncate_def)

lemma takes_update: "takes 0 s (ActCan_Update100us s)"
proof -
  have e: "takes 0 s (act_expire s)" for s :: "'a act_can_scheme"
    by (simp add: takes_def act_expire_def act_apply_defs Let_def)
  have a: "takes 0 s (act_apply c s)" for c and s :: "'a act_can_scheme"
    by (simp add: takes_def act_apply_defs Let_def)
  have g: "takes 0 s (act_age s)" by (simp add: takes_def act_age_def)
  have f: "takes 0 s (act_clear_flag s)" for s :: "'a act_can_scheme" by (simp add: takes_def act_clear_flag_def)
  show ?thesis
    using takes_trans [OF g e] takes_trans [OF g takes_trans [OF f a]] g
    by (simp add: ActCan_Update100us_def Let_def)
qed

lemma takes_updates: "takes 0 s (App_UpdateCanRxFor1ms s)"
proof -
  have "takes 0 s ((ActCan_Update100us ^^ n) s)" for n
  proof (induction n)
    case (Suc n)
    then show ?case using takes_trans [OF Suc takes_update] by simp
  qed (simp add: takes_def)
  then show ?thesis by (simp add: App_UpdateCanRxFor1ms_def)
qed

lemma log_response:
  "io_log (UdsDiag_SendSingleFrame h p n s) = io_log s"
  "io_log (UdsDiag_SendNegativeResponse h sid nrc s) = io_log s"
  by (simp_all add: UdsDiag_SendNegativeResponse_def Let_def truncate_log [OF SendSingleFrame_frame(1)])

lemma takes_request: "takes 0 s (UdsDiag_ProcessRequest h d s)"
proof -
  have hs: "io_log (UdsDiag_HandleSessionControl h u n s) = io_log s"
    "io_log (UdsDiag_HandleReadDID h u n s) = io_log s" "io_log (UdsDiag_HandleReadDTC h u n s) = io_log s"
    "io_log (UdsDiag_HandleClearDTC h u n s) = io_log s"
    "io_log (UdsDiag_HandleRoutineControl h u n s) = io_log s" for u n and s :: "'a act_uds_scheme"
    unfolding UdsDiag_HandleSessionControl_def UdsDiag_HandleReadDID_def UdsDiag_HandleReadDTC_def
      UdsDiag_HandleClearDTC_def UdsDiag_HandleRoutineControl_def Let_def
    by (simp_all add: log_response act_clear_dtc_def Let_def UdsDiag_StartMotorRoutine_def
        UdsDiag_StartServoRoutine_def MotorControl_SetDutyPercent_def SetKey_form)
  have "io_log (act_uds_dispatch h sid u n s) = io_log s" for sid u n and s :: "'a act_uds_scheme"
    unfolding act_uds_dispatch_def by (simp add: hs log_response)
  then show ?thesis unfolding UdsDiag_ProcessRequest_def Let_def by (simp add: takes_def)
qed

lemma takes_routine: "takes 0 s (UdsDiag_UpdateRoutine1ms h s)"
proof -
  have re: "io_log (routine_end h rid s) = io_log s" for rid and s :: "'a act_uds_scheme"
    by (simp add: routine_end_def UdsDiag_SendRoutineResult_def log_response)
  have "takes 0 s (UdsDiag_UpdateMotorRoutine1ms h s)"
    by (simp add: takes_def MotorRoutine_form Let_def re routine_field_defs)
  moreover have "takes 0 s (UdsDiag_UpdateServoRoutine1ms h s)"
    by (simp add: takes_def ServoRoutine_form Let_def re SetKey_form)
  ultimately show ?thesis
    by (cases "g_routineState s") (simp_all add: UdsDiag_UpdateRoutine1ms_def Let_def takes_def)
qed

lemma takes_uds: "takes 0 s (UdsDiag_Update1ms h s)"
proof -
  define u where "u = (if g_reqPending s
    then UdsDiag_ProcessRequest h (g_reqData s) (s\<lparr>g_reqPending := False\<rparr>) else s)"
  have "takes 0 s u"
    using takes_request [of "s\<lparr>g_reqPending := False\<rparr>" h] by (simp add: u_def takes_def)
  moreover have "takes 0 t (UdsDiag_UpdateDtcMonitor1ms t)" for t :: "'a act_uds_scheme"
    by (simp add: takes_def UdsDiag_UpdateDtcMonitor1ms_def dtc_timers_def dtc_report_def Let_def case_prod_beta)
  ultimately have "takes 0 s (UdsDiag_UpdateDtcMonitor1ms (UdsDiag_UpdateRoutine1ms h u))"
    using takes_routine [of u h] by (simp add: takes_def)
  then show ?thesis by (cases "g_reqPending s") (simp_all add: UdsDiag_Update1ms_def Let_def u_def)
qed

lemma takes_millisecond: "takes 1000 s (App_Update1ms h adc s)"
proof -
  have m: "takes 1000 t (MotorControl_Update h t)" for t :: "'a act_ecu_scheme"
    using MotorControl_Update_cycle [of t h] takes_spent by (auto simp: motor_cycle_def)
  have e: "takes 0 t (Encoder_Update1ms h t)" for t :: "'a act_ecu_scheme" by (rule takes_log) simp
  have p: "takes 0 t (PotAdc_Update1ms adc t)" for t :: "'a act_ecu_scheme" by (rule takes_log) simp
  have st: "takes 0 t (App_SendStatusIfNeeded h t)" for t :: "'a act_ecu_scheme"
    by (rule takes_log) (simp add: App_SendStatusIfNeeded_def Let_def truncate_log [OF SendActStatus_frame(1)])
  have d: "takes 0 t (App_UpdateDebugValues t)" for t :: "'a act_ecu_scheme"
    by (simp add: takes_def App_UpdateDebugValues_def)
  show ?thesis
    using takes_trans [OF takes_updates takes_trans [OF takes_uds takes_trans [OF m takes_trans [OF e
          takes_trans [OF p takes_trans [OF st d]]]]], of s]
    by (simp add: App_Update1ms_def Let_def)
qed

lemma millisecond_timer:
  "g_steeringUpdateTimerMs (App_Update1ms h adc s) = g_steeringUpdateTimerMs s"
proof -
  have u: "act_can.more (ActCan_Update100us t) = act_can.more t" for t :: "'a act_ecu_scheme"
    by (simp add: ActCan_Update100us_def Let_def act_expire_effect act_apply_core act_age_fields act_clear_flag_def)
  have "act_can.more ((ActCan_Update100us ^^ n) t) = act_can.more t" for n and t :: "'a act_ecu_scheme"
    by (induction n) (simp_all add: u)
  then have c: "g_steeringUpdateTimerMs (App_UpdateCanRxFor1ms t) = g_steeringUpdateTimerMs t" for t :: "'a act_ecu_scheme"
    unfolding App_UpdateCanRxFor1ms_def using ecu_more_fields(2) can_more_fields(3) by blast
  have "act_uds.more (UdsDiag_Update1ms h t) = act_uds.more t" for t :: "'a act_ecu_scheme"
    by (simp add: UdsDiag_Update1ms_def Let_def UpdateDtc_more UpdateRoutine_more ProcessRequest_more)
  then have d: "g_steeringUpdateTimerMs (UdsDiag_Update1ms h t) = g_steeringUpdateTimerMs t" for t :: "'a act_ecu_scheme"
    by (rule ecu_more_fields)
  have "act_encoder.more (Encoder_Update1ms h (MotorControl_Update h t)) = act_encoder.more t" for t :: "'a act_ecu_scheme"
    using MotorControl_Update_cycle [of t h] by (simp add: motor_cycle_def)
  from ecu_more_fields(2) [OF encoder_more_fields(5) [OF this]]
  have e: "g_steeringUpdateTimerMs (Encoder_Update1ms h (MotorControl_Update h t)) = g_steeringUpdateTimerMs t"
    for t :: "'a act_ecu_scheme" .
  have p: "g_steeringUpdateTimerMs (PotAdc_Update1ms adc t) = g_steeringUpdateTimerMs t" for t :: "'a act_ecu_scheme"
    by (rule ecu_more_fields) (rule pot_fields)
  have m: "act_uds.more (CanComm_SendActStatus h v g st a u) = act_uds.more u" for v g st a and u :: "'a act_ecu_scheme"
    using SendActStatus_frame(3) [of h v g st a u] by (cases "CanComm_SendActStatus h v g st a u"; cases u; simp)
  have st: "g_steeringUpdateTimerMs (App_SendStatusIfNeeded h t) = g_steeringUpdateTimerMs t" for t :: "'a act_ecu_scheme"
    by (simp add: App_SendStatusIfNeeded_def Let_def ecu_more_fields [OF m])
  show ?thesis by (simp add: App_Update1ms_def Let_def c d e p st App_UpdateDebugValues_def)
qed

lemma pass_effect:
  "g_steeringUpdateTimerMs (act_main_pass h adc s) =
     (if g_steeringUpdateTimerMs s + 1 \<ge> 20 then 0 else g_steeringUpdateTimerMs s + 1)"
  "takes (if g_steeringUpdateTimerMs s + 1 \<ge> 20 then 21000 else 1000) s (act_main_pass h adc s)"
proof -
  define t where "t = App_Update1ms h adc s"
  define u where "u = Steering_UpdatePulseByKey (t\<lparr>g_steeringUpdateTimerMs := 0\<rparr>)"
  have tm: "g_steeringUpdateTimerMs t = g_steeringUpdateTimerMs s" by (simp add: t_def millisecond_timer)
  have p: "servo_period (unat (key_pulse (g_steeringKey t))) u (Steering_Update h (t\<lparr>g_steeringUpdateTimerMs := 0\<rparr>))"
    using Steering_Update_period [of "t\<lparr>g_steeringUpdateTimerMs := 0\<rparr>" h] by (simp add: u_def)
  then have m: "act_encoder.more (Steering_Update h (t\<lparr>g_steeringUpdateTimerMs := 0\<rparr>)) = act_encoder.more u"
    by (simp add: servo_period_def)
  have "g_steeringUpdateTimerMs u = 0" "io_log u = io_log t"
    by (simp_all add: u_def UpdatePulseByKey_form)
  with ecu_more_fields(2) [OF encoder_more_fields(5) [OF m]]
  have z: "g_steeringUpdateTimerMs (Steering_Update h (t\<lparr>g_steeringUpdateTimerMs := 0\<rparr>)) = 0" by simp
  from p obtain k where "spent 20000 k u (Steering_Update h (t\<lparr>g_steeringUpdateTimerMs := 0\<rparr>))"
    by (auto simp: servo_period_def)
  from takes_spent [OF this] have w: "takes 20000 t (Steering_Update h (t\<lparr>g_steeringUpdateTimerMs := 0\<rparr>))"
    using \<open>io_log u = io_log t\<close> by (simp add: takes_def)
  have ms: "takes 1000 s t" unfolding t_def by (rule takes_millisecond)
  have run: "act_main_pass h adc s = (if g_steeringUpdateTimerMs s + 1 \<ge> 20
      then Steering_Update h (t\<lparr>g_steeringUpdateTimerMs := 0\<rparr>)
      else t\<lparr>g_steeringUpdateTimerMs := g_steeringUpdateTimerMs s + 1\<rparr>)"
    by (simp add: act_main_pass_def main_steering_def Let_def tm flip: t_def)
  show "g_steeringUpdateTimerMs (act_main_pass h adc s) =
     (if g_steeringUpdateTimerMs s + 1 \<ge> 20 then 0 else g_steeringUpdateTimerMs s + 1)"
    unfolding run using z by simp
  show "takes (if g_steeringUpdateTimerMs s + 1 \<ge> 20 then 21000 else 1000) s (act_main_pass h adc s)"
    unfolding run using takes_trans [OF ms w] ms by (simp add: takes_def)
qed

lemma passes_below:
  assumes "g_steeringUpdateTimerMs s = 0" "n \<le> 19"
  shows "unat (g_steeringUpdateTimerMs ((act_main_pass h adc ^^ n) s)) = n \<and>
    takes (1000 * n) s ((act_main_pass h adc ^^ n) s)"
  using assms(2)
proof (induction n)
  case (Suc n)
  let ?t = "(act_main_pass h adc ^^ n) s"
  have n: "unat (g_steeringUpdateTimerMs ?t) = n" "takes (1000 * n) s ?t" using Suc by simp_all
  then have i: "unat (g_steeringUpdateTimerMs ?t + 1) = Suc n"
    using unat_inc_below [of "g_steeringUpdateTimerMs ?t" 20] Suc.prems by (simp add: word_less_nat_alt)
  then have "\<not> 20 \<le> g_steeringUpdateTimerMs ?t + 1" using Suc.prems by (simp add: word_le_nat_alt)
  with pass_effect [where h = h and adc = adc and s = ?t] i takes_trans [OF n(2), of 1000 "act_main_pass h adc ?t"]
  show ?case by (simp add: add.commute)
qed (simp add: assms(1) takes_def)

lemma twenty_passes:
  assumes "g_steeringUpdateTimerMs s = 0"
  shows "g_steeringUpdateTimerMs ((act_main_pass h adc ^^ 20) s) = 0 \<and>
    takes 40000 s ((act_main_pass h adc ^^ 20) s)"
proof -
  let ?t = "(act_main_pass h adc ^^ 19) s"
  have n: "unat (g_steeringUpdateTimerMs ?t) = 19" "takes 19000 s ?t"
    using passes_below [OF assms, of 19 h adc] by simp_all
  then have "unat (g_steeringUpdateTimerMs ?t + 1) = 20"
    using unat_inc_below [of "g_steeringUpdateTimerMs ?t" 20] by (simp add: word_less_nat_alt)
  then have "20 \<le> g_steeringUpdateTimerMs ?t + 1" by (simp add: word_le_nat_alt)
  with pass_effect [where h = h and adc = adc and s = ?t] takes_trans [OF n(2), of 21000 "act_main_pass h adc ?t"]
    fun_cong [OF funpow.simps(2) [of 19 "act_main_pass h adc"], of s]
  show ?thesis by simp
qed

lemma passes_time:
  assumes "g_steeringUpdateTimerMs s = 0"
  shows "g_steeringUpdateTimerMs ((act_main_pass h adc ^^ (20 * k)) s) = 0 \<and>
    takes (40000 * k) s ((act_main_pass h adc ^^ (20 * k)) s)"
proof (induction k)
  case (Suc k)
  let ?t = "(act_main_pass h adc ^^ (20 * k)) s"
  have "(act_main_pass h adc ^^ (20 * Suc k)) s = (act_main_pass h adc ^^ 20) ?t"
    by (simp add: funpow_add del: funpow.simps)
  with Suc twenty_passes [of ?t h adc] takes_trans [of "40000 * k" s ?t 40000 "(act_main_pass h adc ^^ 20) ?t"]
  show ?case by (simp add: add.commute)
qed (simp add: assms takes_def)

section \<open>The age of a command after some passes\<close>

lemma update_age:
  assumes "g_cmdTimeoutTick100us s \<le> 2000"
  shows "unat (g_cmdTimeoutTick100us (ActCan_Update100us s)) = min 2000 (Suc (unat (g_cmdTimeoutTick100us s)))"
    "g_cmdTimeoutTick100us (ActCan_Update100us s) \<le> 2000"
proof -
  have "g_cmdTimeoutTick100us (ActCan_Update100us s) = g_cmdTimeoutTick100us (act_age s)"
    using act_expire_effect(3) [of "act_age s"]
    by (simp add: ActCan_Update100us_def Let_def act_apply_core act_clear_flag_def act_core_def)
  with act_age_count [OF assms] act_age_expired(2) [OF assms]
  show "unat (g_cmdTimeoutTick100us (ActCan_Update100us s)) = min 2000 (Suc (unat (g_cmdTimeoutTick100us s)))"
    "g_cmdTimeoutTick100us (ActCan_Update100us s) \<le> 2000" by simp_all
qed

lemma updates_age:
  assumes "g_cmdTimeoutTick100us s \<le> 2000"
  shows "unat (g_cmdTimeoutTick100us ((ActCan_Update100us ^^ n) s)) = min 2000 (unat (g_cmdTimeoutTick100us s) + n) \<and>
    g_cmdTimeoutTick100us ((ActCan_Update100us ^^ n) s) \<le> 2000"
proof (induction n)
  case 0
  with assms show ?case by (simp add: word_le_nat_alt min_def)
next
  case (Suc n)
  with update_age [of "(ActCan_Update100us ^^ n) s"] show ?case by simp
qed

lemma keeps_uds: "keeps s (UdsDiag_Update1ms h s)"
proof -
  define u where "u = (if g_reqPending s
    then UdsDiag_ProcessRequest h (g_reqData s) (s\<lparr>g_reqPending := False\<rparr>) else s)"
  have "keeps s u" by (simp add: u_def keeps_trans [OF keeps_debug(3) keeps_request])
  from keeps_trans [OF this keeps_trans [OF keeps_routine keeps_dtc]]
  show ?thesis by (cases "g_reqPending s") (simp_all add: UdsDiag_Update1ms_def Let_def u_def)
qed

lemma pass_age:
  assumes "act_inv (PcTick 0, s)"
  shows "act_inv (PcTick 0, act_main_pass h adc s)"
    "unat (g_cmdTimeoutTick100us (act_main_pass h adc s)) = min 2000 (unat (g_cmdTimeoutTick100us s) + 10)"
proof -
  show "act_inv (PcTick 0, act_main_pass h adc s)" by (rule act_watchdog.silence_ok [OF pass_quiet assms])
  have age: "g_cmdTimeoutTick100us s \<le> 2000" using assms by (simp add: act_inv_def cmd_ok_def)
  define c where "c = App_UpdateCanRxFor1ms s"
  have c: "drive_ok c" using act_watchdog.silence_ok [OF commands_quiet assms] by (simp add: c_def act_inv_def)
  have d: "keeps t (App_UpdateDebugValues t)" for t :: act_ecu
    by (rule keepsI) (simp_all add: App_UpdateDebugValues_def act_pot.truncate_def act_core_def act_copy_command_def uds_ok_def)
  have k: "keeps c (App_Update1ms h adc s)"
    unfolding App_Update1ms_def Let_def c_def [symmetric]
    by (rule keeps_trans [OF keeps_uds keeps_trans [OF keeps_motor keeps_trans [OF keeps_encoder
          keeps_trans [OF keeps_pot keeps_trans [OF keeps_status d]]]]])
  then have "drive_ok (App_Update1ms h adc s)" using c by (simp add: keeps_def)
  from keeps_trans [OF k keeps_steer [OF this, of h]]
  have "keeps c (act_main_pass h adc s)" by (simp add: act_main_pass_def)
  from keeps_age [OF this]
  show "unat (g_cmdTimeoutTick100us (act_main_pass h adc s)) = min 2000 (unat (g_cmdTimeoutTick100us s) + 10)"
    using updates_age [OF age, of 10] by (simp add: c_def App_UpdateCanRxFor1ms_def)
qed

lemma passes_age:
  assumes "act_inv (PcTick 0, s)"
  shows "act_inv (PcTick 0, (act_main_pass h adc ^^ n) s) \<and>
    unat (g_cmdTimeoutTick100us ((act_main_pass h adc ^^ n) s)) = min 2000 (unat (g_cmdTimeoutTick100us s) + 10 * n)"
proof (induction n)
  case 0
  with assms show ?case by (simp add: act_inv_def cmd_ok_def word_le_nat_alt min_def)
next
  case (Suc n)
  with pass_age [of "(act_main_pass h adc ^^ n) s" h adc] show ?case by simp
qed

section \<open>Answers of the diagnostic server\<close>

text \<open>\<open>act_transmits h s t f\<close>: between \<open>s\<close> and \<open>t\<close> the frame \<open>f\<close> was handed to the driver.\<close>

definition act_transmits :: "hw \<Rightarrow> 'a act_uds_scheme \<Rightarrow> 'a act_uds_scheme \<Rightarrow> act_frame \<Rightarrow> bool" where
  "act_transmits h s t f \<longleftrightarrow> can_calls t = Suc (can_calls s) \<and>
     can_sent t = (if hw_can h (can_calls s) = NotSentBusy then can_sent s
       else (unat (g_udsTxBufferIndex s), f) # can_sent s)"

definition act_unsent :: "'a act_uds_scheme \<Rightarrow> 'a act_uds_scheme \<Rightarrow> bool" where
  "act_unsent s t \<longleftrightarrow> can_calls t = can_calls s \<and> can_sent t = can_sent s \<and>
     g_udsTxBufferIndex t = g_udsTxBufferIndex s"

lemma transmits_after: "act_unsent s t \<Longrightarrow> act_transmits h t u f \<Longrightarrow> act_transmits h s u f"
  by (simp add: act_unsent_def act_transmits_def)

text \<open>
  A single frame that answers service \<open>sid\<close>: its length byte covers the payload, the bytes after
  it are zero, and the payload is a positive answer or one of the six negative ones.
\<close>

definition act_answer :: "u8 \<Rightarrow> u8 list \<Rightarrow> bool" where
  "act_answer sid p \<longleftrightarrow> 1 \<le> length p \<and> length p \<le> 11 \<and>
     (p ! 0 = sid + 0x40 \<or> (\<exists>nrc \<in> {0x11, 0x12, 0x13, 0x21, 0x22, 0x31}. p = [0x7F, sid, nrc]))"

definition act_answered :: "hw \<Rightarrow> u8 \<Rightarrow> 'a act_uds_scheme \<Rightarrow> 'a act_uds_scheme \<Rightarrow> bool" where
  "act_answered h sid s t \<longleftrightarrow>
     (\<exists>p. act_answer sid p \<and> act_transmits h s t (sf_frame p (of_nat (length p))))"

lemma SendSingleFrame_transmits:
  assumes "1 \<le> length p" "length p \<le> 11" "n = of_nat (length p)"
  shows "act_transmits h s (UdsDiag_SendSingleFrame h p n s) (sf_frame p n)"
proof -
  have "unat n = length p" using assms by (simp add: unat_of_nat take_bit_nat_eq_self)
  then have "n \<noteq> 0" "\<not> 11 < n" using assms(1,2) by (auto simp: word_less_nat_alt)
  then show ?thesis by (simp add: UdsDiag_SendSingleFrame_def act_transmits_def Let_def)
qed

lemma act_answered_single:
  assumes "act_answer sid p" "n = of_nat (length p)" "act_unsent s t"
  shows "act_answered h sid s (UdsDiag_SendSingleFrame h p n t)"
  unfolding act_answered_def
  using SendSingleFrame_transmits [of p n h t] assms transmits_after [OF assms(3)]
  by (intro exI [of _ p]) (simp add: act_answer_def)

lemma act_answered_negative:
  assumes "nrc \<in> {0x11, 0x12, 0x13, 0x21, 0x22, 0x31}"
  shows "act_answered h sid s (UdsDiag_SendNegativeResponse h sid nrc s)"
  unfolding UdsDiag_SendNegativeResponse_def Let_def
  using assms by (intro act_answered_single) (auto simp: act_answer_def act_unsent_def)

text \<open>A routine that was started has sent nothing yet.\<close>

definition act_started :: "'a act_uds_scheme \<Rightarrow> 'a act_uds_scheme \<Rightarrow> bool" where
  "act_started s t \<longleftrightarrow> g_routineState s = UDS_ROUTINE_NONE \<and> g_routineState t \<noteq> UDS_ROUTINE_NONE \<and>
     g_diagSession s = 3 \<and> act_unsent s t"

lemma act_answered_services:
  "act_answered h 0x10 s (UdsDiag_HandleSessionControl h u n s)"
  "act_answered h 0x22 s (UdsDiag_HandleReadDID h u n s)"
  "act_answered h 0x19 s (UdsDiag_HandleReadDTC h u n s)"
  "act_answered h 0x14 s (UdsDiag_HandleClearDTC h u n s)"
proof -
  note a = act_answered_single [where h = h and s = s]
  have r: "act_unsent s s" by (simp add: act_unsent_def)
  show "act_answered h 0x10 s (UdsDiag_HandleSessionControl h u n s)"
    unfolding UdsDiag_HandleSessionControl_def Let_def
    by (auto intro!: act_answered_negative a simp: act_answer_def act_unsent_def)
  show "act_answered h 0x22 s (UdsDiag_HandleReadDID h u n s)"
    unfolding UdsDiag_HandleReadDID_def Let_def
    by (auto intro!: act_answered_negative a simp: act_answer_def act_unsent_def)
  show "act_answered h 0x19 s (UdsDiag_HandleReadDTC h u n s)"
    unfolding UdsDiag_HandleReadDTC_def Let_def
    by (auto intro!: act_answered_negative a simp: act_answer_def act_unsent_def UdsDiag_AppendDtc_def)
  show "act_answered h 0x14 s (UdsDiag_HandleClearDTC h u n s)"
    unfolding UdsDiag_HandleClearDTC_def Let_def
    by (auto intro!: act_answered_negative a simp: act_answer_def act_unsent_def act_clear_dtc_def Let_def)
qed

lemma act_answered_routine:
  "act_answered h 0x31 s (UdsDiag_HandleRoutineControl h u n s) \<or> act_started s (UdsDiag_HandleRoutineControl h u n s)"
proof -
  have "act_unsent s (UdsDiag_StartMotorRoutine s)" "g_routineState (UdsDiag_StartMotorRoutine s) = UDS_ROUTINE_MOTOR_TEST"
    "act_unsent s (UdsDiag_StartServoRoutine s)" "g_routineState (UdsDiag_StartServoRoutine s) = UDS_ROUTINE_SERVO_TEST"
    by (simp_all add: UdsDiag_StartMotorRoutine_def UdsDiag_StartServoRoutine_def Encoder_ResetCount_def
        MotorControl_SetDutyPercent_def SetKey_form act_unsent_def Let_def)
  then show ?thesis
    unfolding UdsDiag_HandleRoutineControl_def Let_def act_started_def
    by (simp add: act_answered_negative)
qed

lemma act_answered_dispatch:
  "act_answered h sid s (act_uds_dispatch h sid u n s) \<or> sid = 0x31 \<and> act_started s (act_uds_dispatch h sid u n s)"
  using act_answered_routine [of h s u n]
  by (auto simp: act_uds_dispatch_def act_answered_services act_answered_negative)

text \<open>A request is answered when its first byte is the length of a single frame, and else dropped.\<close>

lemma act_request_answered:
  assumes "length d = 8"
  shows "if d ! 0 AND 0xF0 = 0 \<and> d ! 0 AND 0x0F \<noteq> 0 \<and> d ! 0 AND 0x0F \<le> 7
     then act_answered h (d ! 1) s (UdsDiag_ProcessRequest h d s) \<or>
       d ! 1 = 0x31 \<and> act_started s (UdsDiag_ProcessRequest h d s)
     else UdsDiag_ProcessRequest h d s = s"
proof -
  define n where "n = d ! 0 AND 0x0F"
  define u where "u = take (unat n) (drop 1 d)"
  show ?thesis
  proof (cases "d ! 0 AND 0xF0 = 0 \<and> n \<noteq> 0 \<and> n \<le> 7")
    case False
    then have "UdsDiag_ProcessRequest h d s = s"
      by (auto simp: UdsDiag_ProcessRequest_def Let_def n_def not_le)
    with False show ?thesis by (auto simp: Let_def n_def)
  next
    case True
    then have "0 < unat n" by (simp add: unat_gt_0)
    then have u0: "u ! 0 = d ! 1" using assms by (simp add: u_def)
    let ?s = "s\<lparr>g_debugUdsLastSid := ucast (d ! 1)\<rparr>"
    have run: "UdsDiag_ProcessRequest h d s = act_uds_dispatch h (d ! 1) u n ?s"
      using True unfolding UdsDiag_ProcessRequest_def n_def [symmetric] Let_def u_def [symmetric] u0
      by (auto simp: not_le)
    have "act_unsent s ?s" by (simp add: act_unsent_def)
    then have "act_answered h (d ! 1) s t" if "act_answered h (d ! 1) ?s t" for t
      using that transmits_after unfolding act_answered_def by blast
    moreover have "act_started s t" if "act_started ?s t" for t
      using that by (simp add: act_started_def act_unsent_def)
    ultimately have "act_answered h (d ! 1) s (UdsDiag_ProcessRequest h d s) \<or>
        d ! 1 = 0x31 \<and> act_started s (UdsDiag_ProcessRequest h d s)"
      using act_answered_dispatch [of h "d ! 1" ?s u n] unfolding run by blast
    with True show ?thesis unfolding n_def [symmetric] by simp
  qed
qed

section \<open>Reading a single frame\<close>

definition act_frame_bytes :: "act_frame \<Rightarrow> u8 list" where
  "act_frame_bytes f = concat (map (\<lambda>w. [byte_at 0 w, byte_at 8 w, byte_at 16 w, byte_at 24 w]) (af_data f))"

text \<open>The payload as a receiver reads it: as many bytes as the length nibble says.\<close>

definition sf_payload :: "act_frame \<Rightarrow> u8 list" where
  "sf_payload f = (let bs = act_frame_bytes f in take (unat (bs ! 0 AND 0x0F)) (drop 1 bs))"

lemma length_12:
  assumes "length bs = 12"
  obtains a b c d e f g h i j k l where "bs = [a, b, c, d, e, f, g, h, i, j, k, l]"
  using assms by (auto simp: eval_nat_numeral length_Suc_conv)

lemma sf_frame_bytes:
  assumes "length p \<le> 11"
  shows "act_frame_bytes (sf_frame p (of_nat (length p))) = of_nat (length p) # p @ replicate (11 - length p) 0"
proof -
  define n :: u8 where "n = of_nat (length p)"
  have n: "unat n = length p" using assms by (simp add: n_def unat_of_nat take_bit_nat_eq_self)
  then have "sf_bytes p n = n # p @ replicate (11 - length p) 0"
    using assms by (simp add: sf_bytes_def low_nibble)
  moreover have "length (sf_bytes p n) = 12" using assms n by (simp add: sf_bytes_def)
  then have "act_frame_bytes (sf_frame p n) = sf_bytes p n"
    by (rule length_12) (simp add: act_frame_bytes_def sf_frame_def Let_def)
  ultimately show ?thesis by (simp add: n_def)
qed

lemma sf_payload_frame:
  assumes "1 \<le> length p" "length p \<le> 11"
  shows "sf_payload (sf_frame p (of_nat (length p))) = p"
proof -
  have "unat (of_nat (length p) :: u8) = length p" using assms by (simp add: unat_of_nat take_bit_nat_eq_self)
  moreover from this have "of_nat (length p) AND 0x0F = (of_nat (length p) :: u8)" using assms by (intro low_nibble) simp
  ultimately show ?thesis by (simp add: sf_payload_def sf_frame_bytes [OF assms(2)] Let_def)
qed

end
