(* ===== verification/Act_Routine.thy ===== *)
theory Act_Routine
  imports Act_Function Dtc_Byte
begin

unbundle bit_operations_syntax

text \<open>
  The routines of the ACT diagnostic server, followed from their start to their answer, and its
  trouble codes as an instance of the monitor contract.
\<close>

section \<open>The routines\<close>

lemma Update_motor:
  "g_routineState s = UDS_ROUTINE_MOTOR_TEST \<Longrightarrow> UdsDiag_UpdateRoutine1ms h s =
     (let t = UdsDiag_UpdateMotorRoutine1ms h s
      in t\<lparr>g_debugUdsRoutineState := routine_code (g_routineState t), g_debugUdsRoutineResult := ucast (g_routineResult t)\<rparr>)"
  "g_routineState s = UDS_ROUTINE_SERVO_TEST \<Longrightarrow> UdsDiag_UpdateRoutine1ms h s =
     (let t = UdsDiag_UpdateServoRoutine1ms h s
      in t\<lparr>g_debugUdsRoutineState := routine_code (g_routineState t), g_debugUdsRoutineResult := ucast (g_routineResult t)\<rparr>)"
  by (simp_all add: UdsDiag_UpdateRoutine1ms_def)

text \<open>\<open>motor_test n s t\<close>: from \<open>s\<close> the motor test has run for \<open>n\<close> updates, to \<open>t\<close>.\<close>

definition motor_test :: "nat \<Rightarrow> 'a act_uds_scheme \<Rightarrow> 'a act_uds_scheme \<Rightarrow> bool" where
  "motor_test n s t \<longleftrightarrow> g_routineState t = UDS_ROUTINE_MOTOR_TEST \<and> unat (g_routineTimerMs t) = n \<and>
     (0 < n \<longrightarrow> g_motorState t = MOTOR_STATE_FORWARD \<and> g_leftDutyPercent t = 30 \<and> g_rightDutyPercent t = 30) \<and>
     g_savedMotorDuty t = g_savedMotorDuty s \<and> g_steeringKey t = g_steeringKey s \<and> act_unsent s t"

lemma motor_test_step:
  assumes "motor_test n s t" "n < 999"
  shows "motor_test (Suc n) s (UdsDiag_UpdateRoutine1ms h t)"
proof -
  have n: "unat (g_routineTimerMs t) = n" "g_routineState t = UDS_ROUTINE_MOTOR_TEST"
    using assms(1) by (simp_all add: motor_test_def)
  have i: "unat (g_routineTimerMs t + 1) = Suc n"
    using unat_inc_below [of "g_routineTimerMs t" 1000] n assms(2) by (simp add: word_less_nat_alt)
  then have "g_routineTimerMs t + 1 < 1000" using assms(2) by (simp add: word_less_nat_alt)
  with i n assms(1) show ?thesis
    by (simp add: Update_motor MotorRoutine_form Let_def motor_test_def act_unsent_def MotorControl_Forward_def
        MotorControl_SetState_def MotorControl_SetDutyPercent_def Motor_LimitDutyPercent_def word_less_nat_alt)
qed

lemma motor_test_run: "motor_test 0 s s \<Longrightarrow> n \<le> 999 \<Longrightarrow> motor_test n s ((UdsDiag_UpdateRoutine1ms h ^^ n) s)"
proof (induction n)
  case (Suc n)
  then show ?case using motor_test_step [of n s _ h] by simp
qed simp

lemma routine_end_transmits:
  "act_transmits h s (routine_end h rid s) (sf_frame [0x71, 1, hi8 rid, lo8 rid, 0] 5)"
proof -
  have "act_transmits h s (UdsDiag_SendRoutineResult h rid 0 s) (sf_frame [0x71, 1, hi8 rid, lo8 rid, 0] 5)"
    using SendSingleFrame_transmits [of "[0x71, 1, hi8 rid, lo8 rid, 0]" 5 h s]
    by (simp add: UdsDiag_SendRoutineResult_def)
  then show ?thesis by (simp add: act_transmits_def routine_end_def)
qed

lemma motor_test_end:
  fixes h :: hw and s t :: "'a act_uds_scheme"
  assumes "motor_test 999 s t"
  defines "u \<equiv> UdsDiag_UpdateRoutine1ms h t"
  shows "g_routineState u = UDS_ROUTINE_NONE" "braked u"
    "g_leftDutyPercent u = Motor_LimitDutyPercent (g_savedMotorDuty s)"
    "g_rightDutyPercent u = Motor_LimitDutyPercent (g_savedMotorDuty s)"
    "act_transmits h s u (sf_frame [0x71, 1, 1, 0, 0] 5)"
proof -
  define v where "v = MotorControl_Forward (MotorControl_SetDutyPercent 30 (t\<lparr>g_routineTimerMs := g_routineTimerMs t + 1\<rparr>))"
  define w where "w = (MotorControl_SetDutyPercent (g_savedMotorDuty t) (MotorControl_Stop v))\<lparr>g_routineResult := 0\<rparr>"
  have n: "unat (g_routineTimerMs t) = 999" "g_routineState t = UDS_ROUTINE_MOTOR_TEST"
    "g_savedMotorDuty t = g_savedMotorDuty s" "act_unsent s t"
    using assms(1) by (simp_all add: motor_test_def)
  have "unat (g_routineTimerMs t + 1) = 1000"
    using unat_inc_below [of "g_routineTimerMs t" 1000] n by (simp add: word_less_nat_alt)
  then have "\<not> g_routineTimerMs t + 1 < 1000" by (simp add: word_less_nat_alt)
  then have r: "UdsDiag_UpdateMotorRoutine1ms h t = routine_end h 0x0100 w"
    by (simp add: MotorRoutine_form Let_def v_def w_def)
  have u: "act_pot.truncate u = act_pot.truncate (routine_end h 0x0100 w)" "g_routineState u = UDS_ROUTINE_NONE"
    "can_calls u = can_calls (routine_end h 0x0100 w)" "can_sent u = can_sent (routine_end h 0x0100 w)"
    using n(2) by (simp_all add: u_def Update_motor r Let_def routine_end_frame act_pot.truncate_def)
  show "g_routineState u = UDS_ROUTINE_NONE" by (rule u)
  have "braked w" by (simp add: w_def routine_field_defs Let_def)
  then show "braked u" using truncate_fields(2) [OF u(1)] by (simp add: routine_end_frame)
  have "act_drive u = act_drive w" using truncate_fields(4) [OF u(1)] by (simp add: routine_end_frame)
  from drive_fields [OF this] n(3)
  show "g_leftDutyPercent u = Motor_LimitDutyPercent (g_savedMotorDuty s)"
    "g_rightDutyPercent u = Motor_LimitDutyPercent (g_savedMotorDuty s)"
    by (simp_all add: w_def MotorControl_SetDutyPercent_def Let_def)
  have "act_unsent t w"
    by (simp add: w_def v_def act_unsent_def MotorControl_SetDutyPercent_def MotorControl_Stop_def
        MotorControl_SetState_def MotorControl_Forward_def motor_pin_defs set_pin_def Let_def)
  then have "act_unsent s w" using n(4) by (simp add: act_unsent_def)
  from transmits_after [OF this routine_end_transmits [of h w "0x0100"]]
  show "act_transmits h s u (sf_frame [0x71, 1, 1, 0, 0] 5)"
    using u(3,4) by (simp add: act_transmits_def hi8_def lo8_def)
qed

text \<open>\<open>servo_test n s t\<close>: from \<open>s\<close> the servo test has run for \<open>n\<close> updates, to \<open>t\<close>.\<close>

definition servo_test :: "nat \<Rightarrow> 'a act_uds_scheme \<Rightarrow> 'a act_uds_scheme \<Rightarrow> bool" where
  "servo_test n s t \<longleftrightarrow> g_routineState t = UDS_ROUTINE_SERVO_TEST \<and>
     unat (g_routineStep t) = n div 800 \<and> unat (g_routineTimerMs t) = n mod 800 \<and>
     (0 < n \<longrightarrow> g_steeringKey t = servo_step_key (of_nat ((n - 1) div 800))) \<and>
     g_motorState t = g_motorState s \<and> act_unsent s t"

lemma servo_form_fields:
  "g_routineState (Steering_SetKey k (t\<lparr>g_routineTimerMs := w\<rparr>)) = g_routineState t" "g_routineStep (Steering_SetKey k (t\<lparr>g_routineTimerMs := w\<rparr>)) = g_routineStep t"
  "g_routineTimerMs (Steering_SetKey k (t\<lparr>g_routineTimerMs := w\<rparr>)) = w" "g_steeringKey (Steering_SetKey k (t\<lparr>g_routineTimerMs := w\<rparr>)) = k" "g_motorState (Steering_SetKey k (t\<lparr>g_routineTimerMs := w\<rparr>)) = g_motorState t"
  "act_unsent s (Steering_SetKey k (t\<lparr>g_routineTimerMs := w\<rparr>)) = act_unsent s t"
  by (simp_all add: SetKey_form act_unsent_def)

lemma servo_test_step:
  assumes "servo_test n s t" "n < 2399"
  shows "servo_test (Suc n) s (UdsDiag_UpdateRoutine1ms h t)"
proof -
  have t: "unat (g_routineTimerMs t) = n mod 800" "unat (g_routineStep t) = n div 800"
    "g_routineState t = UDS_ROUTINE_SERVO_TEST" "act_unsent s t" "g_motorState t = g_motorState s"
    using assms(1) by (simp_all add: servo_test_def)
  have st: "g_routineStep t = of_nat (n div 800)" using t(2) by (metis of_nat_unat ucast_id)
  have i: "unat (g_routineTimerMs t + 1) = Suc (n mod 800)"
    using unat_inc_below [of "g_routineTimerMs t" 800] t(1) by (simp add: word_less_nat_alt)
  have j: "unat (g_routineStep t + 1) = Suc (n div 800)"
    using unat_inc_below [of "g_routineStep t" 3] t(2) assms(2) by (simp add: word_less_nat_alt)
  show ?thesis
  proof (cases "n mod 800 = 799")
    case False
    then have "g_routineTimerMs t + 1 < 800" using i mod_less_divisor [of 800 n] by (simp add: word_less_nat_alt)
    moreover have "Suc n mod 800 = Suc (n mod 800)" "Suc n div 800 = n div 800"
      using False by (simp_all add: mod_Suc div_Suc)
    ultimately show ?thesis
      using i t st by (simp add: Update_motor ServoRoutine_form Let_def servo_test_def servo_form_fields)
        (simp add: act_unsent_def SetKey_form)
  next
    case True
    then have m: "Suc n mod 800 = 0" "Suc n div 800 = Suc (n div 800)" by (simp_all add: mod_Suc div_Suc)
    have "n div 800 < 2"
      using assms(2) True div_mult_mod_eq [of n 800] by linarith
    then have c: "\<not> g_routineTimerMs t + 1 < 800" "g_routineStep t + 1 < 3"
      using i j True by (simp_all add: word_less_nat_alt)
    show ?thesis
      using i j t st m c by (simp add: Update_motor ServoRoutine_form Let_def servo_test_def servo_form_fields)
        (simp add: act_unsent_def SetKey_form)
  qed
qed

lemma servo_test_run: "servo_test 0 s s \<Longrightarrow> n \<le> 2399 \<Longrightarrow> servo_test n s ((UdsDiag_UpdateRoutine1ms h ^^ n) s)"
proof (induction n)
  case (Suc n)
  then show ?case using servo_test_step [of n s _ h] by simp
qed simp

lemma servo_test_end:
  fixes h :: hw and s t :: "'a act_uds_scheme"
  assumes "servo_test 2399 s t"
  defines "u \<equiv> UdsDiag_UpdateRoutine1ms h t"
  shows "g_routineState u = UDS_ROUTINE_NONE" "g_steeringKey u = STEERING_KEY_NULL"
    "act_transmits h s u (sf_frame [0x71, 1, 1, 1, 0] 5)"
proof -
  define v where "v = (Steering_SetKey (servo_step_key (g_routineStep t)) (t\<lparr>g_routineTimerMs := g_routineTimerMs t + 1\<rparr>))
    \<lparr>g_routineTimerMs := 0, g_routineStep := g_routineStep t + 1\<rparr>"
  define w where "w = (Steering_SetKey STEERING_KEY_NULL v)\<lparr>g_routineResult := 0\<rparr>"
  have n: "unat (g_routineTimerMs t) = 799" "unat (g_routineStep t) = 2" "act_unsent s t"
    "g_routineState t = UDS_ROUTINE_SERVO_TEST"
    using assms(1) by (simp_all add: servo_test_def)
  have "unat (g_routineTimerMs t + 1) = 800" "unat (g_routineStep t + 1) = 3"
    using unat_inc_below [of "g_routineTimerMs t" 800] unat_inc_below [of "g_routineStep t" 3] n
    by (simp_all add: word_less_nat_alt)
  then have "\<not> g_routineTimerMs t + 1 < 800" "\<not> g_routineStep t + 1 < 3" by (simp_all add: word_less_nat_alt)
  then have r: "UdsDiag_UpdateServoRoutine1ms h t = routine_end h 0x0101 w"
    by (simp add: ServoRoutine_form Let_def v_def w_def)
  have u: "g_routineState u = UDS_ROUTINE_NONE" "g_steeringKey u = g_steeringKey w"
    "can_calls u = can_calls (routine_end h 0x0101 w)" "can_sent u = can_sent (routine_end h 0x0101 w)"
    using n(4) by (simp_all add: u_def Update_motor r Let_def routine_end_frame)
  show "g_routineState u = UDS_ROUTINE_NONE" by (rule u)
  show "g_steeringKey u = STEERING_KEY_NULL" using u(2) by (simp add: w_def SetKey_form)
  have "act_unsent t w" by (simp add: w_def v_def act_unsent_def SetKey_form)
  then have "act_unsent s w" using n(3) by (simp add: act_unsent_def)
  from transmits_after [OF this routine_end_transmits [of h w "0x0101"]]
  show "act_transmits h s u (sf_frame [0x71, 1, 1, 1, 0] 5)"
    using u(3,4) by (simp add: act_transmits_def hi8_def lo8_def)
qed

section \<open>Trouble codes\<close>

lemma UpdateOneDtc_after:
  "UdsDiag_UpdateOneDtcStatus p failed = dtc_after failed (fst p) (snd p)"
  by (cases p) (simp add: UdsDiag_UpdateOneDtcStatus_def dtc_after_def Let_def)

text \<open>What \<open>UdsDiag_HandleClearDTC\<close> does to the status and the counter of one code.\<close>

definition dtc_cleared :: "u8 \<times> u8 \<Rightarrow> u8 \<times> u8" where
  "dtc_cleared p = (fst p AND NOT 8, 0)"

lemma act_clear_dtc_cleared:
  "(g_dtcC100Status (act_clear_dtc s), g_dtcC100ConsecutiveFailCount (act_clear_dtc s)) =
     dtc_cleared (g_dtcC100Status s, g_dtcC100ConsecutiveFailCount s)"
  "(g_dtcC101Status (act_clear_dtc s), g_dtcC101ConsecutiveFailCount (act_clear_dtc s)) =
     dtc_cleared (g_dtcC101Status s, g_dtcC101ConsecutiveFailCount s)"
  by (simp_all add: act_clear_dtc_def dtc_cleared_def Let_def)

lemma UpdateOneDtc_ok:
  "case_prod dtc_byte_ok p \<Longrightarrow> case_prod dtc_byte_ok (UdsDiag_UpdateOneDtcStatus p f)"
  using dtc_after_ok [of "fst p" "snd p" f] by (simp add: UpdateOneDtc_after case_prod_beta)

interpretation act_dtc: dtc_memory
  "\<lambda>p. UdsDiag_UpdateOneDtcStatus p True" "\<lambda>p. UdsDiag_UpdateOneDtcStatus p False"
  "\<lambda>p. dtc_current (fst p)" "\<lambda>p. dtc_history (fst p)" "\<lambda>p. unat (snd p)" "case_prod dtc_byte_ok" dtc_cleared
proof unfold_locales
  fix p :: "u8 \<times> u8"
  show "case_prod dtc_byte_ok p \<Longrightarrow> case_prod dtc_byte_ok (UdsDiag_UpdateOneDtcStatus p True)"
    by (rule UpdateOneDtc_ok)
  show "case_prod dtc_byte_ok p \<Longrightarrow> case_prod dtc_byte_ok (UdsDiag_UpdateOneDtcStatus p False)"
    by (rule UpdateOneDtc_ok)
  show "case_prod dtc_byte_ok p \<Longrightarrow> case_prod dtc_byte_ok (dtc_cleared p)"
    by (cases p) (simp add: dtc_cleared_def dtc_byte_ok_def u8_mask_09)
qed (simp_all add: UpdateOneDtc_after dtc_after_laws dtc_cleared_def u8_bits_09)

lemma act_dtc_reports: "fold (\<lambda>r p. UdsDiag_UpdateOneDtcStatus p r) rs p = act_dtc.reports rs p"
proof (induction rs arbitrary: p)
  case (Cons r rs)
  then show ?case by (cases r) (simp_all add: act_dtc.report_def)
qed simp

end
