(* ===== verification/Act_Props.thy ===== *)
theory Act_Props
  imports Act_Routine
begin

unbundle bit_operations_syntax

text \<open>
  The properties of the ACT ECU as a machine, its motor, servo and sensors, each with an instance on a concrete environment, \<open>bench_act_hw\<close>
  and \<open>bench_adc\<close>: low input pins, a bus that is never busy and a centred potentiometer.
\<close>

definition bench_act_hw :: hw where
  "bench_act_hw = \<lparr>hw_pin = (\<lambda>n p. False), hw_stm = of_nat, hw_ticks_us = 100,
     hw_can = (\<lambda>n. SentStatus 0)\<rparr>"

definition bench_adc :: adc where
  "bench_adc = (\<lambda>n. Some 752)"

definition bench_act :: act_ecu where
  "bench_act = act_main_init bench_act_hw undefined"

lemma bench_act_inv: "act_inv (PcTick 0, bench_act)"
  by (simp add: bench_act_def act_inv_init)

text \<open>Remote drive, accelerator on, gear D, steering left; and the same with the force stop.\<close>

definition bench_drive :: act_frame where
  "bench_drive = \<lparr>af_id = 0x100, af_mode = FrameMode_fdLongAndFast, af_dlc = 6, af_data = [0x03000101, 0x00000001]\<rparr>"

lemma bench_drive_command:
  "act_frame_command bench_drive = \<lparr>ac_accel = 1, ac_steering = 1, ac_brake = 0, ac_gear = 3, ac_mode = 1, ac_safety = 0\<rparr>"
  by (simp add: act_frame_command_def act_rx_bytes_def bench_drive_def byte_at_def Let_def)

lemma bench_drive_accepted: "accepts_act_command bench_drive"
  by (simp add: accepts_act_command_def bench_drive_command)
    (simp add: bench_drive_def ActCan_IsCanFdFrameMode_def act_command_valid_def ActCan_IsValidBool_def
      ActCan_IsValidSteering_def ActCan_IsValidGear_def ActCan_IsValidControlMode_def ActCan_IsValidSafetyOverride_def)

section \<open>Commands and time-out\<close>

text \<open>
  C4. Whatever the ACT ECU is doing and however reception and main loop interleave: once 2000 calls
  of \<open>ActCan_Update100us\<close> have passed since the last valid command, the gear is P and the mode is
  standby; the motor is stopped with both brakes on, unless the diagnostic motor test is running,
  and the steering is centred, unless the servo test is running. The PWM pins are low between the
  steps in any case.
\<close>

theorem act_timeout_safe:
  assumes "act_reachable h adc x" and "silence (act_tick h adc) (act_idle h adc) n x (pc, s)"
    and "2000 \<le> act_command_age x + n"
  shows "g_currentGearState s = 0 \<and> g_currentControlMode s = 0 \<and>
    (g_routineState s \<noteq> UDS_ROUTINE_MOTOR_TEST \<longrightarrow>
       g_motorState s = MOTOR_STATE_STOP \<and> pin_cmd s MOTOR_A_BRAKE \<and> pin_cmd s MOTOR_B_BRAKE) \<and>
    (g_routineState s \<noteq> UDS_ROUTINE_SERVO_TEST \<longrightarrow>
       g_steeringKey s = STEERING_KEY_NULL \<and> g_currentPulseUs s = 1200) \<and>
    \<not> pin_cmd s MOTOR_A_PWM \<and> \<not> pin_cmd s MOTOR_B_PWM"
proof -
  have x: "act_inv x" using act_inv_reachable [OF assms(1)] .
  have "act_safe s" using act_watchdog.silence_safe [OF assms(2) x assms(3)] by simp
  moreover have "drive_ok s" using act_watchdog.silence_ok [OF assms(2) x] by (simp add: act_inv_def)
  ultimately show ?thesis by (simp add: act_safe_def braked_def drive_ok_def key_pulse_def)
qed

theorem act_timeout_safe_witness:
  "let s = (act_main_pass bench_act_hw bench_adc ^^ 200) (ActCan_RxIsrHandler bench_drive bench_act) in
   g_currentControlMode s = 0 \<and> (g_routineState s \<noteq> UDS_ROUTINE_MOTOR_TEST \<longrightarrow> g_motorState s = MOTOR_STATE_STOP)"
proof -
  let ?x = "(PcTick 0, ActCan_RxIsrHandler bench_drive bench_act)"
  have r: "act_reachable bench_act_hw bench_adc ?x"
    unfolding bench_act_def by (rule act_reachable.step [OF act_reachable.init]) (rule act_step.isr)
  have "silence (act_tick bench_act_hw bench_adc) (act_idle bench_act_hw bench_adc) 2000 ?x
      (PcTick 0, (act_main_pass bench_act_hw bench_adc ^^ 200) (ActCan_RxIsrHandler bench_drive bench_act))"
    using passes_quiet [of bench_act_hw bench_adc 200 "ActCan_RxIsrHandler bench_drive bench_act"] by simp
  from act_timeout_safe [OF r this] show ?thesis by (auto simp: Let_def)
qed

text \<open>
  C9. In every reachable state of the ACT ECU the duties are at most 100 percent, the servo pulse
  and the steering state are those of the steering key, between 900 and 1500 us, the PWM pins and
  the servo pin are low between the steps, the measured angle is within 35 degrees and its CAN form
  is 90 degrees more, the gear and the mode are valid, and every counter of the diagnosis is within
  its bound.
\<close>

theorem act_reachable_invariant:
  assumes "act_reachable h adc (pc, s)"
  shows "g_leftDutyPercent s \<le> 100 \<and> g_rightDutyPercent s \<le> 100 \<and>
    g_currentPulseUs s = key_pulse (g_steeringKey s) \<and> 900 \<le> g_currentPulseUs s \<and> g_currentPulseUs s \<le> 1500 \<and>
    \<not> pin_cmd s MOTOR_A_PWM \<and> \<not> pin_cmd s MOTOR_B_PWM \<and> \<not> pin_cmd s SERVO_PIN \<and>
    \<bar>sint (g_potSignedAngleDeg s)\<bar> \<le> 35 \<and> uint (g_potAngleDeg s) = 90 + sint (g_potSignedAngleDeg s) \<and>
    g_currentGearState s \<le> 3 \<and> g_currentControlMode s \<le> 2 \<and> g_dtcMonitorPeriodTimerMs s < 3000 \<and>
    g_routineTimerMs s < 1000 \<and> g_routineStep s < 3 \<and> (g_diagSession s = 1 \<or> g_diagSession s = 3)"
proof -
  have i: "drive_ok s" "uds_ok s" "cmd_ok s" using act_inv_reachable [OF assms] by (simp_all add: act_inv_def)
  have "900 \<le> key_pulse k" "key_pulse k \<le> 1500" for k by (cases k; simp add: key_pulse_def)+
  moreover have "g_routineTimerMs s < 1000 \<and> g_routineStep s < 3"
    using i(2) by (cases "g_routineState s") (auto simp: uds_ok_def routine_ok_def word_less_nat_alt)
  ultimately show ?thesis using i by (auto simp: drive_ok_def pot_ok_def uds_ok_def cmd_ok_def)
qed

theorem act_reachable_invariant_witness: "g_currentPulseUs bench_act \<le> 1500"
  using act_reachable_invariant [OF act_reachable.init [of bench_act_hw bench_adc undefined, folded bench_act_def]]
  by blast

text \<open>
  C12. A valid command decides the drive at the next \<open>ActCan_Update100us\<close>: motor state, wheel duties
  and steering are those of the table \<open>commanded_drive\<close>, and the motor is braked when the command is
  a force stop, not in remote-drive mode, or has the brake on.
\<close>

theorem act_command_effect:
  assumes "accepts_act_command f"
  shows "let t = ActCan_Update100us (ActCan_RxIsrHandler f s); c = act_frame_command f in
    act_drive t = commanded_drive c \<and>
    (ac_safety c = 1 \<or> ac_mode c \<noteq> 1 \<or> ac_brake c = 1 \<longrightarrow> braked t) \<and> \<not> g_rxUpdated t"
  using act_command_applied [OF assms, of s] by (simp add: Let_def)

theorem act_command_effect_witness:
  "act_drive (ActCan_Update100us (ActCan_RxIsrHandler bench_drive bench_act)) = (MOTOR_STATE_FORWARD, 30, 100, STEERING_KEY_LEFT)"
  using act_command_effect [OF bench_drive_accepted, of bench_act]
  by (simp add: Let_def bench_drive_command commanded_drive_def commanded_motor_def)

text \<open>
  A frame that is neither a valid command nor anything else the ECU knows changes no pin, no
  motor or steering variable, no stored command and not the age of the last one.
\<close>

theorem act_bad_frame_ignored:
  assumes "\<not> accepts_act_command f"
  shows "act_pot.truncate (ActCan_RxIsrHandler f s) = act_pot.truncate s \<and>
    act_core (ActCan_RxIsrHandler f s) = act_core s \<and> can_sent (ActCan_RxIsrHandler f s) = can_sent s"
  using act_isr_rejected [OF assms, of s] by blast

theorem act_bad_frame_ignored_witness:
  "act_core (ActCan_RxIsrHandler (bench_drive\<lparr>af_mode := FrameMode_standard\<rparr>) bench_act) = act_core bench_act"
  using act_bad_frame_ignored [of "bench_drive\<lparr>af_mode := FrameMode_standard\<rparr>" bench_act]
  by (simp add: accepts_act_command_def ActCan_IsCanFdFrameMode_def)

text \<open>
  C23. A pass of the ACT main loop as written is a run of the small steps from the top of the loop
  back to the top, with ten ticks of the time-out in it; it keeps the invariant, and no point of the
  loop blocks.
\<close>

theorem act_pass_refines:
  assumes "act_inv (PcTick 0, s)"
  shows "(act_step h adc)\<^sup>*\<^sup>* (PcTick 0, s) (PcTick 0, act_main_pass h adc s) \<and>
    silence (act_tick h adc) (act_idle h adc) 10 (PcTick 0, s) (PcTick 0, act_main_pass h adc s) \<and>
    act_inv (PcTick 0, act_main_pass h adc s) \<and> (\<exists>pc' t. pc' \<noteq> pc \<and> act_step h adc (pc, s) (pc', t))"
  using quiet_steps [OF pass_quiet [of h adc s]] pass_quiet [of h adc s] pass_age(1) [OF assms, of h adc]
    act_step_enabled [of pc h adc s] by blast

theorem act_pass_refines_witness: "act_inv (PcTick 0, act_main_pass bench_act_hw bench_adc bench_act)"
  using act_pass_refines [OF bench_act_inv, of bench_act_hw bench_adc] by blast

text \<open>
  How long the time-out takes: from a valid command at the top of the loop with the steering
  timer at zero, and no further frame, 199 passes do not expire the command, 200 passes do, and 200
  passes of the loop wait 400 ms, because every twentieth pass also waits for a servo pulse of 20 ms
  that no tick counts. The comment in the code says 200 ms.
\<close>

theorem act_timeout_latency:
  assumes "act_inv (PcTick 0, s)" and "accepts_act_command f" and "g_steeringUpdateTimerMs s = 0"
  shows "let run = \<lambda>n. (act_main_pass h adc ^^ n) (ActCan_RxIsrHandler f s) in
    g_cmdTimeoutTick100us (run 199) = 1990 \<and> g_cmdTimeoutTick100us (run 200) = 2000 \<and>
    waited (io_log (run 200)) = waited (io_log s) + 400000"
proof -
  define r where "r = ActCan_RxIsrHandler f s"
  define run where "run n = (act_main_pass h adc ^^ n) r" for n
  have inv: "act_inv (PcTick 0, r)" unfolding r_def by (rule act_inv_isr [OF assms(1)])
  have age: "g_cmdTimeoutTick100us r = 0" using accepted_effect(1) [OF assms(2)] by (simp add: r_def)
  have "unat (g_cmdTimeoutTick100us (run n)) = min 2000 (10 * n)" for n
    using passes_age [OF inv, of n h adc] age by (simp add: run_def)
  from this [of 199] this [of 200]
  have "unat (g_cmdTimeoutTick100us (run 199)) = unat (1990 :: u32)" "unat (g_cmdTimeoutTick100us (run 200)) = unat (2000 :: u32)"
    by simp_all
  then have "g_cmdTimeoutTick100us (run 199) = 1990" "g_cmdTimeoutTick100us (run 200) = 2000"
    unfolding word_unat_eq_iff by simp_all
  moreover have "g_steeringUpdateTimerMs r = 0"
    using ecu_more_fields(2) [OF act_isr_more [of f s]] assms(3) by (simp add: r_def)
  from passes_time [OF this, where h = h and adc = adc and k = 10] have "takes 400000 r (run 200)" by (simp add: run_def)
  moreover have "io_log r = io_log s"
    using truncate_log [OF accepted_effect(4) [OF assms(2), of s]] by (simp add: r_def)
  ultimately show ?thesis unfolding Let_def run_def r_def [symmetric] by (simp add: takes_def)
qed

theorem act_timeout_latency_witness:
  "waited (io_log ((act_main_pass bench_act_hw bench_adc ^^ 200) (ActCan_RxIsrHandler bench_drive (bench_act\<lparr>g_steeringUpdateTimerMs := 0\<rparr>)))) =
     waited (io_log bench_act) + 400000"
proof -
  have "act_inv (PcTick 0, bench_act\<lparr>g_steeringUpdateTimerMs := 0\<rparr>)"
  proof (rule act_inv_keeps [OF bench_act_inv])
    show "keeps bench_act (bench_act\<lparr>g_steeringUpdateTimerMs := 0\<rparr>)"
      by (rule keepsI) (simp_all add: act_pot.truncate_def act_core_def act_copy_command_def uds_ok_def)
  qed (use bench_act_inv in \<open>simp_all add: act_inv_def act_pc_ok_def\<close>)
  from act_timeout_latency [OF this bench_drive_accepted, of bench_act_hw bench_adc] show ?thesis by (simp add: Let_def)
qed

section \<open>Motor, servo and sensors\<close>

text \<open>
  C21. One call of \<open>MotorControl_Update\<close> takes 1000 us whatever the encoder shows. In it the PWM pin of
  the right wheel (channel A) is high for 10 us per percent of the right duty and that of the left
  wheel (channel B) likewise, both not at all when the motor is stopped; at its end both are low,
  the brakes are on exactly when the motor is stopped, and the direction pins are those of the state.
\<close>

theorem act_motor_cycle:
  "\<exists>k. spent 1000 k s (MotorControl_Update h s) \<and>
     (g_motorState s = MOTOR_STATE_STOP \<longrightarrow> k MOTOR_A_PWM = 0 \<and> k MOTOR_B_PWM = 0) \<and>
     (g_motorState s \<noteq> MOTOR_STATE_STOP \<longrightarrow>
        k MOTOR_A_PWM = 10 * min 100 (unat (g_rightDutyPercent s)) \<and>
        k MOTOR_B_PWM = 10 * min 100 (unat (g_leftDutyPercent s))) \<and>
     motor_pins (g_motorState s) (pin_cmd (MotorControl_Update h s)) \<and>
     act_encoder.more (MotorControl_Update h s) = act_encoder.more s"
proof -
  obtain k where "spent 1000 k s (MotorControl_Update h s)" "k MOTOR_A_PWM = motor_high_us s MOTOR_A_PWM"
    "k MOTOR_B_PWM = motor_high_us s MOTOR_B_PWM"
    using MotorControl_Update_cycle [of s h] unfolding motor_cycle_def by blast
  then show ?thesis
    using MotorControl_Update_cycle [of s h] unfolding motor_cycle_def
    by (intro exI [of _ k]) (simp add: motor_high_us_def duty_us_def)
qed

theorem act_motor_cycle_witness:
  "\<exists>k. spent 1000 k (bench_act\<lparr>g_motorState := MOTOR_STATE_FORWARD, g_rightDutyPercent := 30\<rparr>)
     (MotorControl_Update bench_act_hw (bench_act\<lparr>g_motorState := MOTOR_STATE_FORWARD, g_rightDutyPercent := 30\<rparr>)) \<and>
     k MOTOR_A_PWM = 300"
  using act_motor_cycle [of "bench_act\<lparr>g_motorState := MOTOR_STATE_FORWARD, g_rightDutyPercent := 30\<rparr>" bench_act_hw]
  by auto

text \<open>
  One call of \<open>Steering_Update\<close> takes 20 ms, in which the servo pin is high for exactly the pulse
  of the steering key (900 us left, 1200 us centre, 1500 us right) and low at the end; the motor
  keeps its command, and its pins are again those of its state.
\<close>

theorem act_servo_period:
  fixes s :: act_ecu
  assumes "drive_ok s"
  shows "\<exists>k. spent 20000 k s (Steering_Update h s) \<and>
     k SERVO_PIN = (case g_steeringKey s of STEERING_KEY_LEFT \<Rightarrow> 900 | STEERING_KEY_NULL \<Rightarrow> 1200
       | STEERING_KEY_RIGHT \<Rightarrow> 1500) \<and>
     \<not> pin_cmd (Steering_Update h s) SERVO_PIN \<and>
     motor_pins (g_motorState s) (pin_cmd (Steering_Update h s)) \<and>
     act_encoder.more (Steering_Update h s) = act_encoder.more s"
proof -
  have "Steering_UpdatePulseByKey s = s"
    using assms by (cases s) (simp add: UpdatePulseByKey_form drive_ok_def)
  with Steering_Update_period [of s h]
  obtain k where k: "spent 20000 k s (Steering_Update h s)" "k SERVO_PIN = unat (key_pulse (g_steeringKey s))"
    "\<not> pin_cmd (Steering_Update h s) SERVO_PIN"
    unfolding servo_period_def by auto
  then show ?thesis
    using keeps_steering(2,3) [OF assms, of h]
    by (intro exI [of _ k]) (cases "g_steeringKey s"; simp add: key_pulse_def)
qed

theorem act_servo_period_witness: "\<exists>k. spent 20000 k bench_act (Steering_Update bench_act_hw bench_act)"
  using act_servo_period [of bench_act bench_act_hw] bench_act_inv by (auto simp: act_inv_def)



text \<open>
  The steering angle from the averaged conversion: it is within 35 degrees of the centre,
  grows with the conversion, is within half a degree of the line through the calibrated ends (580 at
  -35 degrees, 925 at +35), and the CAN form of it is exactly 90 degrees more.
\<close>

theorem act_pot_angle:
  shows "\<bar>sint (PotAdc_RawToSignedAngleDeg r)\<bar> \<le> 35 \<and>
    (r \<le> r' \<longrightarrow> sint (PotAdc_RawToSignedAngleDeg r) \<le> sint (PotAdc_RawToSignedAngleDeg r')) \<and>
    (580 \<le> r \<and> r \<le> 925 \<longrightarrow> \<bar>345 * (sint (PotAdc_RawToSignedAngleDeg r) + 35) - 70 * (uint r - 580)\<bar> \<le> 172) \<and>
    uint (PotAdc_SignedAngleToCanAngleDeg (PotAdc_RawToSignedAngleDeg r)) = 90 + sint (PotAdc_RawToSignedAngleDeg r)"
proof -
  have s: "sint (PotAdc_RawToSignedAngleDeg x) = pot_angle (unat x)" for x
    using pot_angle_range by (simp add: RawToSigned_eq sint_small)
  have "uint (PotAdc_SignedAngleToCanAngleDeg (PotAdc_RawToSignedAngleDeg r)) = 90 + pot_angle (unat r)"
    unfolding RawToSigned_eq by (rule CanAngle_eq [OF pot_angle_range])
  then show ?thesis
    using pot_angle_range [of "unat r"] pot_angle_mono [of "unat r" "unat r'"] pot_angle_exact [of "unat r"]
    by (auto simp: s word_le_nat_alt abs_le_iff)
qed

theorem act_pot_angle_witness: "sint (PotAdc_RawToSignedAngleDeg 580) \<le> sint (PotAdc_RawToSignedAngleDeg 600)"
  using act_pot_angle [of 580 600] by simp

text \<open>
  The speed the status message carries is within 0.01 km/h of the exact value for the wheel, in
  spite of the nine single-precision roundings, up to 650 km/h.
\<close>

theorem act_speed_accuracy:
  assumes "exact_kmh_x100 (unat p) \<le> 65000"
  shows "\<bar>of_nat (unat (App_ConvertPulsePerSecondToKmhX100 p)) - exact_kmh_x100 (unat p)\<bar> \<le> 1"
  using App_speed_near(1) [OF assms] .

theorem act_speed_accuracy_witness:
  "\<bar>of_nat (unat (App_ConvertPulsePerSecondToKmhX100 990)) - exact_kmh_x100 990\<bar> \<le> 1"
  using act_speed_accuracy [of 990] by (simp add: exact_kmh_x100_def)

text \<open>
  The speed that diagnostic service 0x22 reports under identifier 0x0100 is 100 times the one
  it is meant to report: the factor 100 is applied twice.
\<close>

theorem act_uds_speed_hundredfold:
  assumes "100 * exact_kmh_x100 (unat (g_pulsePerSecond s)) \<le> 65000"
  shows "\<bar>of_nat (unat (UdsDiag_GetSpeedKmhX100 s)) - 100 * exact_kmh_x100 (unat (g_pulsePerSecond s))\<bar> \<le> 1"
  using uds_speed_near [OF assms] by (simp add: UdsDiag_GetSpeedKmhX100_def Encoder_GetPulsePerSecond_def)

theorem act_uds_speed_hundredfold_witness:
  "\<bar>of_nat (unat (UdsDiag_GetSpeedKmhX100 (bench_act\<lparr>g_pulsePerSecond := 990\<rparr>))) - 100 * exact_kmh_x100 990\<bar> \<le> 1 \<and>
   exact_kmh_x100 990 < 74"
  using act_uds_speed_hundredfold [of "bench_act\<lparr>g_pulsePerSecond := 990\<rparr>"]
  by (simp add: exact_kmh_x100_def)

end
