(* ===== verification/Act_Service.thy ===== *)
theory Act_Service
  imports Act_Props
begin

unbundle bit_operations_syntax

text \<open>
  The properties of what the ACT ECU says: the status message, the answers of the diagnostic server,
  its routines and its trouble codes.
\<close>

text \<open>
  The status message is sent at every fiftieth call and only then; if the driver is not busy,
  the frame at the head of what was sent reads back, as \<open>CanComm.h\<close> prescribes, as the speed, the gear,
  the angle of the potentiometer, and left below 80 degrees, right above 100 and centre between.
\<close>

theorem act_status_roundtrip:
  assumes "g_canStatusTxTimerMs s < 50" and "hw_can h (can_calls s) \<noteq> NotSentBusy"
    and "g_currentGearState s \<le> 3"
  shows "let t = App_SendStatusIfNeeded h s; v = App_ConvertPulsePerSecondToKmhX100 (g_pulsePerSecond s);
      a = g_potAngleDeg s in
    (if g_canStatusTxTimerMs s < 49 then can_sent t = can_sent s
     else \<exists>f. can_sent t = (unat (g_txBufferIndex s), f) # can_sent s \<and> af_id f = 0x200 \<and> af_dlc f = 5 \<and>
       read_status f = ((if v > 65535 then 65535 else ucast v), g_currentGearState s,
         (if a < 80 then 0 else if a > 100 then 2 else 1), a))"
proof -
  have i: "unat (g_canStatusTxTimerMs s + 1) = Suc (unat (g_canStatusTxTimerMs s))"
    by (rule unat_inc_below [OF assms(1)])
  have due: "g_canStatusTxTimerMs s + 1 < 50 \<longleftrightarrow> g_canStatusTxTimerMs s < 49"
    by (simp add: word_less_nat_alt i)
  have g: "CanComm_LimitGearState (g_currentGearState s) = g_currentGearState s"
  proof -
    have "unat (g_currentGearState s) \<in> {0, 1, 2, 3}" using assms(3) by (auto simp: word_le_nat_alt)
    then show ?thesis by (auto simp: CanComm_LimitGearState_def word_unat_eq_iff)
  qed
  show ?thesis
  proof (cases "g_canStatusTxTimerMs s < 49")
    case True
    then show ?thesis by (simp add: App_SendStatusIfNeeded_def Let_def due)
  next
    case False
    let ?f = "status_frame (status_bytes (App_ConvertPulsePerSecondToKmhX100 (g_pulsePerSecond s))
      (g_currentGearState s) (App_GetCurrentSteeringStateForCan (g_potAngleDeg s)) (g_potAngleDeg s))"
    have "can_sent (App_SendStatusIfNeeded h s) = (unat (g_txBufferIndex s), ?f) # can_sent s"
      using False assms(2)
      by (simp add: App_SendStatusIfNeeded_def Let_def due SendActStatus_sent Encoder_GetPulsePerSecond_def
          PotAdc_GetAngleDeg_def App_GetCurrentGearStateForCan_def ActCan_GetGearState_def)
    moreover have "CanComm_LimitSteeringState (App_GetCurrentSteeringStateForCan a) =
        (if a < 80 then 0 else if a > 100 then 2 else 1)" for a
      by (simp add: App_GetCurrentSteeringStateForCan_def CanComm_LimitSteeringState_def)
    ultimately show ?thesis
      using False by (simp add: Let_def read_status_frame g) (simp add: status_frame_def)
  qed
qed

theorem act_status_roundtrip_witness:
  "\<exists>f. can_sent (App_SendStatusIfNeeded bench_act_hw (bench_act\<lparr>g_canStatusTxTimerMs := 49, g_potAngleDeg := 60\<rparr>)) =
     (unat (g_txBufferIndex bench_act), f) # can_sent bench_act \<and> snd (snd (read_status f)) = (0, 60)"
proof -
  have "cmd_ok bench_act" using bench_act_inv by (simp add: act_inv_def)
  then show ?thesis
    using act_status_roundtrip [of "bench_act\<lparr>g_canStatusTxTimerMs := 49, g_potAngleDeg := 60\<rparr>" bench_act_hw]
    by (auto simp: Let_def cmd_ok_def bench_act_hw_def)
qed

text \<open>
  C28. A diagnostic request whose first byte is the length of a single frame of one to seven bytes is
  answered at once with exactly one frame to its service, or it starts a routine; any other request
  is dropped. A routine starts only in the extended session with no other one running.
\<close>

theorem act_uds_one_answer:
  assumes "length (g_reqData s) = 8"
  shows "let d = g_reqData s; t = UdsDiag_ProcessRequest h d s in
    (if d ! 0 AND 0xF0 = 0 \<and> d ! 0 AND 0x0F \<noteq> 0 \<and> d ! 0 AND 0x0F \<le> 7
     then act_answered h (d ! 1) s t \<or> d ! 1 = 0x31 \<and> act_started s t else t = s)"
  using act_request_answered [OF assms, of h s] unfolding Let_def .

theorem act_uds_one_answer_witness:
  "act_answered bench_act_hw 0x22 (bench_act\<lparr>g_reqData := [3, 0x22, 0xF1, 0x90, 0, 0, 0, 0]\<rparr>)
     (UdsDiag_ProcessRequest bench_act_hw [3, 0x22, 0xF1, 0x90, 0, 0, 0, 0]
       (bench_act\<lparr>g_reqData := [3, 0x22, 0xF1, 0x90, 0, 0, 0, 0]\<rparr>))"
  using act_uds_one_answer [of "bench_act\<lparr>g_reqData := [3, 0x22, 0xF1, 0x90, 0, 0, 0, 0]\<rparr>" bench_act_hw]
  by (simp add: Let_def)

text \<open>
  An answer of one to eleven bytes survives the CAN-FD single frame: reading as many bytes as the
  length nibble says gives it back.
\<close>

theorem act_single_frame_roundtrip:
  assumes "1 \<le> length p" and "length p \<le> 11"
  shows "sf_payload (sf_frame p (of_nat (length p))) = p \<and>
    af_dlc (sf_frame p (of_nat (length p))) = (if length p \<le> 7 then 8 else 12)"
proof -
  have "(of_nat (length p) :: u8) \<le> 7 \<longleftrightarrow> length p \<le> 7"
    using assms(2) by (simp add: word_le_nat_alt unat_of_nat take_bit_nat_eq_self)
  then show ?thesis using sf_payload_frame [OF assms] by (simp add: sf_frame_def Let_def)
qed

theorem act_single_frame_roundtrip_witness:
  "sf_payload (sf_frame [0x59, 0x0A, 9, 0xC1, 0, 0, 9, 0xC1, 1, 0, 0] 11) = [0x59, 0x0A, 9, 0xC1, 0, 0, 9, 0xC1, 1, 0, 0]"
  using act_single_frame_roundtrip [of "[0x59, 0x0A, 9, 0xC1, 0, 0, 9, 0xC1, 1, 0, 0]"] by simp

text \<open>
  C33. The motor test ends: from its start, after each of the next 999 updates the motor is forward
  at 30 percent with nothing sent, and the thousandth update brakes it, restores the duty that was
  saved, leaves the routine and sends exactly one answer, 71 01 01 00 00.
\<close>

theorem act_motor_test_ends:
  assumes "g_routineState s = UDS_ROUTINE_NONE"
  shows "let run = \<lambda>n. (UdsDiag_UpdateRoutine1ms h ^^ n) (UdsDiag_StartMotorRoutine s) in
     (0 < n \<and> n \<le> 999 \<longrightarrow> g_motorState (run n) = MOTOR_STATE_FORWARD \<and>
       g_leftDutyPercent (run n) = 30 \<and> act_unsent s (run n)) \<and>
     g_routineState (run 1000) = UDS_ROUTINE_NONE \<and> braked (run 1000) \<and>
     g_leftDutyPercent (run 1000) = Motor_LimitDutyPercent (g_dutyPercent s) \<and>
     act_transmits h s (run 1000) (sf_frame [0x71, 1, 1, 0, 0] 5)"
proof -
  define r where "r = UdsDiag_StartMotorRoutine s"
  have r: "motor_test 0 r r" "g_savedMotorDuty r = g_dutyPercent s" "act_unsent s r"
    by (simp_all add: r_def motor_test_def UdsDiag_StartMotorRoutine_def Let_def Encoder_ResetCount_def
        MotorControl_SetDutyPercent_def MotorControl_GetDutyPercent_def act_unsent_def)
  define run where "run n = (UdsDiag_UpdateRoutine1ms h ^^ n) r" for n
  have mid: "motor_test n r (run n)" if "n \<le> 999" for n
    using motor_test_run [OF r(1) that, of h] by (simp add: run_def)
  have un: "act_unsent s t" if "act_unsent r t" for t using that r(3) by (simp add: act_unsent_def)
  have last: "run 1000 = UdsDiag_UpdateRoutine1ms h (run 999)"
    using fun_cong [OF funpow.simps(2) [of 999 "UdsDiag_UpdateRoutine1ms h"], of r] by (simp add: run_def)
  have "motor_test 999 r (run 999)" by (rule mid) simp
  note e = motor_test_end [OF this, of h, folded last]
  have "0 < n \<and> n \<le> 999 \<longrightarrow> g_motorState (run n) = MOTOR_STATE_FORWARD \<and>
       g_leftDutyPercent (run n) = 30 \<and> act_unsent s (run n)"
    using mid [of n] un by (auto simp: motor_test_def)
  moreover note e(1-3) transmits_after [OF r(3) e(5)] r(2)
  ultimately show ?thesis unfolding Let_def r_def [symmetric] run_def [symmetric] by simp
qed

theorem act_motor_test_ends_witness:
  "braked ((UdsDiag_UpdateRoutine1ms bench_act_hw ^^ 1000)
     (UdsDiag_StartMotorRoutine (bench_act\<lparr>g_routineState := UDS_ROUTINE_NONE\<rparr>)))"
  using act_motor_test_ends [of "bench_act\<lparr>g_routineState := UDS_ROUTINE_NONE\<rparr>" bench_act_hw 1]
  by (simp add: Let_def)

text \<open>
  The servo test shows left, centre and right for 800 updates each, in this order, with nothing
  sent and the motor untouched, and its 2400th update centres the steering, leaves the routine and
  sends exactly one answer, 71 01 01 01 00.
\<close>

theorem act_servo_test_ends:
  assumes "g_routineState s = UDS_ROUTINE_NONE"
  shows "let run = \<lambda>n. (UdsDiag_UpdateRoutine1ms h ^^ n) (UdsDiag_StartServoRoutine s) in
     (0 < n \<and> n \<le> 2399 \<longrightarrow> g_steeringKey (run n) = (if n \<le> 800 then STEERING_KEY_LEFT
        else if n \<le> 1600 then STEERING_KEY_NULL else STEERING_KEY_RIGHT) \<and>
        g_motorState (run n) = g_motorState s \<and> act_unsent s (run n)) \<and>
     g_routineState (run 2400) = UDS_ROUTINE_NONE \<and> g_steeringKey (run 2400) = STEERING_KEY_NULL \<and>
     act_transmits h s (run 2400) (sf_frame [0x71, 1, 1, 1, 0] 5)"
proof -
  define r where "r = UdsDiag_StartServoRoutine s"
  have r: "servo_test 0 r r" "g_motorState r = g_motorState s" "act_unsent s r"
    by (simp_all add: r_def servo_test_def UdsDiag_StartServoRoutine_def Let_def SetKey_form act_unsent_def)
  define run where "run n = (UdsDiag_UpdateRoutine1ms h ^^ n) r" for n
  have mid: "servo_test n r (run n)" if "n \<le> 2399" for n
    using servo_test_run [OF r(1) that, of h] by (simp add: run_def)
  have un: "act_unsent s t" if "act_unsent r t" for t using that r(3) by (simp add: act_unsent_def)
  have last: "run 2400 = UdsDiag_UpdateRoutine1ms h (run 2399)"
    using fun_cong [OF funpow.simps(2) [of 2399 "UdsDiag_UpdateRoutine1ms h"], of r] by (simp add: run_def)
  have key: "servo_step_key (of_nat ((n - 1) div 800)) = (if n \<le> 800 then STEERING_KEY_LEFT
      else if n \<le> 1600 then STEERING_KEY_NULL else STEERING_KEY_RIGHT)" if "0 < n" "n \<le> 2399" for n
  proof -
    consider "n \<le> 800" | "800 < n" "n \<le> 1600" | "1600 < n" by linarith
    then show ?thesis
    proof cases
      case 1
      then have "(n - 1) div 800 = 0" using that by simp
      with 1 show ?thesis by (simp add: servo_step_key_def)
    next
      case 2
      then have "(n - 1) div 800 = 1" by (intro div_nat_eqI) simp_all
      with 2 show ?thesis by (simp add: servo_step_key_def)
    next
      case 3
      then have "(n - 1) div 800 = 2" using that by (intro div_nat_eqI) simp_all
      with 3 show ?thesis by (simp add: servo_step_key_def)
    qed
  qed
  have "servo_test 2399 r (run 2399)" by (rule mid) simp
  note e = servo_test_end [OF this, of h, folded last]
  have "0 < n \<and> n \<le> 2399 \<longrightarrow> g_steeringKey (run n) = (if n \<le> 800 then STEERING_KEY_LEFT
        else if n \<le> 1600 then STEERING_KEY_NULL else STEERING_KEY_RIGHT) \<and>
        g_motorState (run n) = g_motorState s \<and> act_unsent s (run n)"
    using mid [of n] un r(2) key [of n] by (auto simp: servo_test_def)
  moreover note e(1,2) transmits_after [OF r(3) e(3)]
  ultimately show ?thesis unfolding Let_def r_def [symmetric] run_def [symmetric] by simp
qed

theorem act_servo_test_ends_witness:
  "g_steeringKey ((UdsDiag_UpdateRoutine1ms bench_act_hw ^^ 1000)
     (UdsDiag_StartServoRoutine (bench_act\<lparr>g_routineState := UDS_ROUTINE_NONE\<rparr>))) = STEERING_KEY_NULL"
  using act_servo_test_ends [of "bench_act\<lparr>g_routineState := UDS_ROUTINE_NONE\<rparr>" bench_act_hw 1000]
  by (simp add: Let_def)

text \<open>
  The trouble codes of the ACT ECU: after a clear, the history bit is set exactly when some three
  reports in a row failed, whatever came before and after, and the current bit is the last report.
\<close>

theorem act_dtc_confirmation:
  assumes "dtc_byte_ok (g_dtcC100Status s) (g_dtcC100ConsecutiveFailCount s)" and "rs \<noteq> []"
  shows "let t = act_clear_dtc s;
      p = fold (\<lambda>r p. UdsDiag_UpdateOneDtcStatus p r) rs (g_dtcC100Status t, g_dtcC100ConsecutiveFailCount t) in
    (fst p AND 8 \<noteq> 0 \<longleftrightarrow> sublist [True, True, True] rs) \<and> (fst p AND 1 \<noteq> 0 \<longleftrightarrow> last rs)"
proof -
  let ?p = "(g_dtcC100Status s, g_dtcC100ConsecutiveFailCount s)"
  have ok: "case_prod dtc_byte_ok ?p" using assms(1) by simp
  show ?thesis
    using act_dtc.history_after_clear [OF ok, of rs] act_dtc.current_reports [OF act_dtc.ok_clear [OF ok] assms(2)]
    by (simp add: Let_def act_clear_dtc_cleared act_dtc_reports)
qed

theorem act_dtc_confirmation_witness:
  "fst (fold (\<lambda>r p. UdsDiag_UpdateOneDtcStatus p r) [True, True, False, True, True]
     (g_dtcC100Status (act_clear_dtc (bench_act\<lparr>g_dtcC100Status := 9, g_dtcC100ConsecutiveFailCount := 3\<rparr>)), 0)) AND 8 = 0"
  using act_dtc_confirmation [of "bench_act\<lparr>g_dtcC100Status := 9, g_dtcC100ConsecutiveFailCount := 3\<rparr>" "[True, True, False, True, True]"]
  by (simp add: Let_def dtc_byte_ok_def sublist_Cons_right act_clear_dtc_def)

end
