(* ===== verification/Main_Net.thy ===== *)
theory Main_Net
  imports Fw_Prelude
begin

text \<open>
  The network side of the MAIN gateway: \<open>src/MAIN/udp_txrx.c\<close> and \<open>src/MAIN/tcp_txrx.c\<close> (sending,
  opening and closing) and the socket adapter \<open>src/MAIN/BSW/Interface/soad.c\<close> (all but its receive
  table). The TCP/IP stack below them is a library: what its functions return is the environment
  \<open>net_env\<close>, indexed by the number of calls made so far, and what they are asked to send is a list of
  events, oldest first.

  A pointer to bytes is a function from offsets, because the code reads packets at fixed offsets
  without asking for their length: what lies beyond the packet is whatever the memory holds.
\<close>

section \<open>Pointers to bytes\<close>

type_synonym memory = "nat \<Rightarrow> u8"

text \<open>The first bytes at a pointer, a pointer to an array, and a pointer moved by an offset.\<close>

definition bytes :: "memory \<Rightarrow> nat \<Rightarrow> u8 list" where
  "bytes p n = map p [0..<n]"

definition array :: "u8 list \<Rightarrow> memory" where
  "array xs = (\<lambda>i. if i < length xs then xs ! i else 0)"

definition moved :: "nat \<Rightarrow> memory \<Rightarrow> memory" where
  "moved k p = (\<lambda>i. p (k + i))"

lemma length_bytes [simp]: "length (bytes p n) = n"
  by (simp add: bytes_def)

lemma nth_bytes [simp]: "i < n \<Longrightarrow> bytes p n ! i = p i"
  by (simp add: bytes_def)

lemma bytes_array [simp]: "n \<le> length xs \<Longrightarrow> bytes (array xs) n = take n xs"
  by (rule nth_equalityI) (simp_all add: array_def)

lemma bytes_moved: "bytes (moved k p) n = drop k (bytes p (k + n))"
  by (rule nth_equalityI) (simp_all add: moved_def)

lemma array_nth [simp]: "i < length xs \<Longrightarrow> array xs i = xs ! i"
  by (simp add: array_def)

lemma bytes_cong: "(\<And>i. i < n \<Longrightarrow> p i = q i) \<Longrightarrow> bytes p n = bytes q n"
  by (simp add: bytes_def)

section \<open>State\<close>

text \<open>Protocol control blocks of the stack, by number, and internet addresses, by their four bytes.\<close>

type_synonym pcb = nat
type_synonym ip_addr = "u8 list"

datatype err_t = ERR_OK | ERR_MEM | ERR_VAL | ERR_CONN | ERR_ABRT | ERR_ARG | ERR_OTHER nat

record net_env =
  ne_new :: "nat \<Rightarrow> pcb option"       \<comment> \<open>tcp_new_ip_type, udp_new_ip_type\<close>
  ne_bind :: "nat \<Rightarrow> err_t"           \<comment> \<open>tcp_bind, udp_bind\<close>
  ne_listen :: "nat \<Rightarrow> pcb option"    \<comment> \<open>tcp_listen_with_backlog\<close>
  ne_pbuf :: "nat \<Rightarrow> bool"            \<comment> \<open>pbuf_alloc returns a buffer\<close>
  ne_send :: "nat \<Rightarrow> err_t"           \<comment> \<open>udp_sendto, tcp_write\<close>
  ne_sndbuf :: "nat \<Rightarrow> u16"           \<comment> \<open>tcp_sndbuf\<close>
  ne_can :: "nat \<Rightarrow> can_status"       \<comment> \<open>IfxCan_Can_sendMessage\<close>
  ne_aton :: "string \<Rightarrow> ip_addr"       \<comment> \<open>ipaddr_aton\<close>

datatype can_node = CanNode0 | CanNode2

text \<open>A frame of the CAN driver, as it is handed to the controller.\<close>

record can_msg =
  cm_id :: u32
  cm_dlc :: nat
  cm_data :: "u32 list"

datatype net_event =
    TcpWrite pcb "u8 list"
  | TcpClose pcb
  | UdpSendTo pcb ip_addr u16 "u8 list"
  | CanMessage can_node can_msg

record net =
  g_TickCount_1ms :: u32
  net_calls :: nat
  net_out :: "net_event list"
  tcp_listen_pcb :: "pcb option"
  tcp_active_pcb :: "pcb option"
  udp_send_pcb :: "pcb option"
  udp_ctr_pcb :: "pcb option"
  udp_doip_pcb :: "pcb option"
  udp_someip_pcb :: "pcb option"
  udp_broadcast :: bool
  udp_receivers :: "(pcb \<times> u16) list"
  pcip :: ip_addr
  someip_port :: u16
  SoAd_IsClosePending :: bool
  SoAd_CloseRequestTime :: u32

definition call :: "'a net_scheme \<Rightarrow> 'a net_scheme" where
  "call s = s\<lparr>net_calls := Suc (net_calls s)\<rparr>"

definition emit :: "net_event \<Rightarrow> 'a net_scheme \<Rightarrow> 'a net_scheme" where
  "emit v s = s\<lparr>net_out := net_out s @ [v]\<rparr>"

definition Get_SystemTime_ms :: "'a net_scheme \<Rightarrow> u32" where
  "Get_SystemTime_ms s = g_TickCount_1ms s"

section \<open>TCP\<close>

abbreviation (input) TCP_SERVER_PORT :: u16 where "TCP_SERVER_PORT \<equiv> 13400"

definition TcpInit :: "net_env \<Rightarrow> 'a net_scheme \<Rightarrow> 'a net_scheme" where
  "TcpInit e s =
     (let pcb = ne_new e (net_calls s); s = call s
      in case pcb of
           None \<Rightarrow> s
         | Some pcb \<Rightarrow>
             let err = ne_bind e (net_calls s); s = call s
             in if err \<noteq> ERR_OK then emit (TcpClose pcb) s
                else
                  let s' = call s
                  in s'\<lparr>tcp_listen_pcb := ne_listen e (net_calls s)\<rparr>)"

definition tcp_server_accept :: "pcb option \<Rightarrow> err_t \<Rightarrow> 'a net_scheme \<Rightarrow> err_t \<times> 'a net_scheme" where
  "tcp_server_accept newpcb err s =
     (if err \<noteq> ERR_OK \<or> newpcb = None then (ERR_VAL, s)
      else if tcp_active_pcb s \<noteq> None then (ERR_ABRT, s)
      else (ERR_OK, s\<lparr>tcp_active_pcb := newpcb\<rparr>))"

definition tcp_server_error :: "'a net_scheme \<Rightarrow> 'a net_scheme" where
  "tcp_server_error s = s\<lparr>tcp_active_pcb := None\<rparr>"

text \<open>The functions of the stack ignore a null control block.\<close>

definition tcp_server_close :: "pcb option \<Rightarrow> 'a net_scheme \<Rightarrow> 'a net_scheme" where
  "tcp_server_close tpcb s =
     (let s = (case tpcb of None \<Rightarrow> s | Some p \<Rightarrow> emit (TcpClose p) s)
      in if tcp_active_pcb s = tpcb then s\<lparr>tcp_active_pcb := None\<rparr> else s)"

definition TcpSend :: "net_env \<Rightarrow> memory \<Rightarrow> u16 \<Rightarrow> 'a net_scheme \<Rightarrow> err_t \<times> 'a net_scheme" where
  "TcpSend e data len s =
     (case tcp_active_pcb s of
        None \<Rightarrow> (ERR_CONN, s)
      | Some pcb \<Rightarrow>
          if len = 0 then (ERR_ARG, s)
          else if len > ne_sndbuf e (net_calls s) then (ERR_MEM, s)
          else
            let err = ne_send e (net_calls s); s = call s
            in (err, if err = ERR_OK then emit (TcpWrite pcb (bytes data (unat len))) s else s))"

definition doip_server_close :: "'a net_scheme \<Rightarrow> 'a net_scheme" where
  "doip_server_close s = tcp_server_close (tcp_active_pcb s) s"

section \<open>UDP\<close>

abbreviation (input) CTR_PORT :: u16 where "CTR_PORT \<equiv> 5000"
abbreviation (input) DOIP_PORT :: u16 where "DOIP_PORT \<equiv> 13400"
abbreviation (input) SOMEIP_PORT :: u16 where "SOMEIP_PORT \<equiv> 30492"

definition UdpSend_WithPcb ::
  "net_env \<Rightarrow> pcb option \<Rightarrow> ip_addr \<Rightarrow> u16 \<Rightarrow> memory \<Rightarrow> u16 \<Rightarrow> 'a net_scheme \<Rightarrow> err_t \<times> 'a net_scheme" where
  "UdpSend_WithPcb e upcb dst_addr dst_port data len s =
     (case upcb of
        None \<Rightarrow> (ERR_ARG, s)
      | Some p \<Rightarrow>
          if len = 0 then (ERR_ARG, s)
          else
            let allocated = ne_pbuf e (net_calls s); s = call s
            in if \<not> allocated then (ERR_MEM, s)
               else (ne_send e (net_calls s),
                     emit (UdpSendTo p dst_addr dst_port (bytes data (unat len))) (call s)))"

definition UdpSendToPC :: "net_env \<Rightarrow> u16 \<Rightarrow> memory \<Rightarrow> u16 \<Rightarrow> 'a net_scheme \<Rightarrow> err_t \<times> 'a net_scheme" where
  "UdpSendToPC e dst_port data len s = UdpSend_WithPcb e (udp_send_pcb s) (pcip s) dst_port data len s"

definition UdpSendToRPi :: "net_env \<Rightarrow> u16 \<Rightarrow> memory \<Rightarrow> u16 \<Rightarrow> 'a net_scheme \<Rightarrow> err_t \<times> 'a net_scheme" where
  "UdpSendToRPi e dst_port data len s =
     (let rpi_ip = [192, 168, 20, 2] in UdpSend_WithPcb e (udp_send_pcb s) rpi_ip dst_port data len s)"

definition UdpSendSomeIpResponse :: "net_env \<Rightarrow> memory \<Rightarrow> u16 \<Rightarrow> 'a net_scheme \<Rightarrow> err_t \<times> 'a net_scheme" where
  "UdpSendSomeIpResponse e data len s =
     UdpSend_WithPcb e (udp_someip_pcb s) (pcip s) (someip_port s) data len s"

definition UdpSend :: "net_env \<Rightarrow> ip_addr \<Rightarrow> u16 \<Rightarrow> memory \<Rightarrow> u16 \<Rightarrow> 'a net_scheme \<Rightarrow> err_t \<times> 'a net_scheme" where
  "UdpSend e dst_addr dst_port data len s = UdpSend_WithPcb e (udp_send_pcb s) dst_addr dst_port data len s"

definition UdpSendBroadcast :: "net_env \<Rightarrow> u16 \<Rightarrow> memory \<Rightarrow> u16 \<Rightarrow> 'a net_scheme \<Rightarrow> err_t \<times> 'a net_scheme" where
  "UdpSendBroadcast e dst_port data len s =
     (let bcast = [255, 255, 255, 255];
          s = (if udp_send_pcb s \<noteq> None then s\<lparr>udp_broadcast := True\<rparr> else s)
      in UdpSend e bcast dst_port data len s)"

text \<open>
  One of the three receiving sockets of \<open>UdpInit\<close>: a block of the stack, bound to a port, whose
  received packets go to \<open>udp_receive_recv\<close> if the binding succeeds.
\<close>

definition udp_open :: "net_env \<Rightarrow> u16 \<Rightarrow> 'a net_scheme \<Rightarrow> pcb option \<times> 'a net_scheme" where
  "udp_open e port s =
     (let upcb = ne_new e (net_calls s); s = call s
      in case upcb of
           None \<Rightarrow> (None, s)
         | Some p \<Rightarrow>
             let err = ne_bind e (net_calls s); s = call s
             in (Some p, if err = ERR_OK then s\<lparr>udp_receivers := udp_receivers s @ [(p, port)]\<rparr> else s))"

definition UdpInit :: "net_env \<Rightarrow> 'a net_scheme \<Rightarrow> 'a net_scheme" where
  "UdpInit e s =
     (let s = call (s\<lparr>udp_send_pcb := ne_new e (net_calls s)\<rparr>);
          (upcb, s) = udp_open e CTR_PORT s;
          s = s\<lparr>udp_ctr_pcb := upcb\<rparr>;
          (upcb, s) = udp_open e DOIP_PORT s;
          s = s\<lparr>udp_doip_pcb := upcb\<rparr>;
          (upcb, s) = udp_open e SOMEIP_PORT s
      in s\<lparr>udp_someip_pcb := upcb\<rparr>)"

section \<open>The socket adapter\<close>

definition SoAd_CloseSocket :: "u16 \<Rightarrow> 'a net_scheme \<Rightarrow> 'a net_scheme" where
  "SoAd_CloseSocket port s =
     (if port = 13400 then s\<lparr>SoAd_IsClosePending := True, SoAd_CloseRequestTime := Get_SystemTime_ms s\<rparr>
      else s)"

definition SoAd_MainFunction :: "'a net_scheme \<Rightarrow> 'a net_scheme" where
  "SoAd_MainFunction s =
     (if SoAd_IsClosePending s then
        if Get_SystemTime_ms s - SoAd_CloseRequestTime s \<ge> 50
        then (doip_server_close s)\<lparr>SoAd_IsClosePending := False\<rparr>
        else s
      else s)"

definition SoAd_TransmitMulticast ::
  "net_env \<Rightarrow> string \<Rightarrow> u16 \<Rightarrow> memory \<Rightarrow> u16 \<Rightarrow> 'a net_scheme \<Rightarrow> err_t \<times> 'a net_scheme" where
  "SoAd_TransmitMulticast e ipStr destPort data len s =
     (let multicast_ip = ne_aton e ipStr in UdpSend e multicast_ip destPort data len s)"

definition SoAd_IfTransmit :: "net_env \<Rightarrow> u16 \<Rightarrow> memory \<Rightarrow> u16 \<Rightarrow> 'a net_scheme \<Rightarrow> 'a net_scheme" where
  "SoAd_IfTransmit e port payload len s =
     (if port = 13400 then snd (TcpSend e payload len s)
      else if port = 5001 then snd (UdpSendToPC e 5001 payload len s)
      else if port = 5002 then snd (UdpSendToRPi e 5002 payload len s)
      else if port = 30492 then snd (UdpSendSomeIpResponse e payload len s)
      else s)"

end
