(* ===== verification/Main_Can.thy ===== *)
theory Main_Can
  imports Main_Net
begin

unbundle bit_operations_syntax

text \<open>
  Transmission on the CAN side of the gateway: the driver \<open>src/MAIN/candrv.c\<close> (data length codes and
  sending), \<open>CanIf_Transmit\<close> of \<open>src/MAIN/BSW/Interface/canif.c\<close>, \<open>CanTp_Transmit\<close> of
  \<open>src/MAIN/BSW/Interface/cantp.c\<close>, and the transmit half of the PDU router
  (\<open>src/MAIN/BSW/Routing/pdur.c\<close>, \<open>src/MAIN/Configurations/pdur_cfg.c\<close>). The data length codes of the
  driver library are the numbers of the CAN FD standard: 9 to 15 stand for 12 to 64 bytes.
\<close>

section \<open>Data length codes\<close>

definition Can_GetDlc :: "u8 \<Rightarrow> u8" where
  "Can_GetDlc n =
     (if n \<le> 8 then n
      else if n \<le> 12 then 9
      else if n \<le> 16 then 10
      else if n \<le> 20 then 11
      else if n \<le> 24 then 12
      else if n \<le> 32 then 13
      else if n \<le> 48 then 14
      else 15)"

definition Can_GetLength :: "u8 \<Rightarrow> u8" where
  "Can_GetLength dlc =
     (if dlc = 9 then 12
      else if dlc = 10 then 16
      else if dlc = 11 then 20
      else if dlc = 12 then 24
      else if dlc = 13 then 32
      else if dlc = 14 then 48
      else if dlc = 15 then 64
      else dlc)"

section \<open>Frames\<close>

text \<open>\<open>memcpy\<close> into a zeroed array of 16 words on a little-endian processor.\<close>

fun le_words :: "u8 list \<Rightarrow> u32 list" where
  "le_words (a # b # c # d # bs) = pack_le a b c d # le_words bs"
| "le_words _ = []"

fun le_bytes :: "u32 list \<Rightarrow> u8 list" where
  "le_bytes [] = []"
| "le_bytes (w # ws) = byte_at 0 w # byte_at 8 w # byte_at 16 w # byte_at 24 w # le_bytes ws"

definition Can_Send :: "net_env \<Rightarrow> u32 \<Rightarrow> memory \<Rightarrow> u8 \<Rightarrow> 'a net_scheme \<Rightarrow> bool \<times> 'a net_scheme" where
  "Can_Send e canId data n s =
     (if n > 64 then (False, s)
      else
        let messageData = le_words (bytes data (unat n) @ replicate (64 - unat n) 0);
            msg = \<lparr>cm_id = canId, cm_dlc = unat (Can_GetDlc n), cm_data = messageData\<rparr>;
            txNode = (if canId = 0x100 \<or> canId = 0x700 then Some CanNode0
                      else if canId = 0x110 \<or> canId = 0x710 then Some CanNode2
                      else None)
        in case txNode of
             None \<Rightarrow> (False, s)
           | Some txNode \<Rightarrow>
               let status = ne_can e (net_calls s); s = call s
               in if status = NotSentBusy then (False, s)
                  else (True, emit (CanMessage txNode msg) s))"

section \<open>Interface and transport\<close>

definition CanIf_Transmit :: "net_env \<Rightarrow> u32 \<Rightarrow> memory \<Rightarrow> u8 \<Rightarrow> 'a net_scheme \<Rightarrow> 'a net_scheme" where
  "CanIf_Transmit e canId payload n s =
     (if n > 64 then s else let (isSent, s) = Can_Send e canId payload n s in s)"

definition single_frame :: "memory \<Rightarrow> u16 \<Rightarrow> u8 list" where
  "single_frame udsData udsLength =
     (0x00 OR ucast (udsLength AND 0x0F)) # bytes udsData (unat udsLength) @ replicate (7 - unat udsLength) 0"

definition CanTp_Transmit :: "net_env \<Rightarrow> u32 \<Rightarrow> memory \<Rightarrow> u16 \<Rightarrow> 'a net_scheme \<Rightarrow> 'a net_scheme" where
  "CanTp_Transmit e canId udsData udsLength s =
     (if udsLength = 0 \<or> udsLength > 7 then s
      else
        let canPayload = single_frame udsData udsLength
        in CanIf_Transmit e canId (array canPayload) 8 s)"

section \<open>Routing tables\<close>

text \<open>
  The loop that the router, the CAN interface and the socket adapter share: the first entry with the
  key decides, and an entry without a function does nothing.
\<close>

fun table_route :: "('k \<times> 'h option) list \<Rightarrow> 'k \<Rightarrow> 'h option" where
  "table_route [] k = None"
| "table_route ((k', target) # table) k = (if k' = k then target else table_route table k)"

text \<open>
  What a table promises when no key occurs twice: each of its entries is reached, whatever the order of
  the entries, and any other key is ignored.
\<close>

lemma table_route_map_of: "table_route table k = Option.bind (map_of table k) id"
  by (induction table k rule: table_route.induct) auto

locale routing_table =
  fixes table :: "('k \<times> 'h option) list"
  assumes keys_distinct: "distinct (map fst table)"
begin

lemma route_entry: "(k, f) \<in> set table \<Longrightarrow> table_route table k = f"
  using keys_distinct by (simp add: table_route_map_of)

lemma route_unknown: "k \<notin> fst ` set table \<Longrightarrow> table_route table k = None"
  by (simp add: table_route_map_of map_of_eq_None_iff [THEN iffD2])

lemma route_order:
  "distinct (map fst table') \<Longrightarrow> set table' = set table \<Longrightarrow> table_route table' k = table_route table k"
  by (metis keys_distinct map_of_inject_set table_route_map_of)

end

section \<open>The transmit half of the router\<close>

abbreviation (input) PDUR_TX_CAN_ACT_ID :: u16 where "PDUR_TX_CAN_ACT_ID \<equiv> 0xA1"
abbreviation (input) PDUR_TX_CAN_BODY_ID :: u16 where "PDUR_TX_CAN_BODY_ID \<equiv> 0xA2"
abbreviation (input) PDUR_TX_UDP_STAT_ID :: u16 where "PDUR_TX_UDP_STAT_ID \<equiv> 0xB1"
abbreviation (input) PDUR_TX_UDP_SOMEIP :: u16 where "PDUR_TX_UDP_SOMEIP \<equiv> 0xC1"

type_synonym 'a pdu_target = "memory \<Rightarrow> u16 \<Rightarrow> 'a \<Rightarrow> 'a"

definition CAN_Ctr_ActTx :: "net_env \<Rightarrow> 'a net_scheme pdu_target" where
  "CAN_Ctr_ActTx e payload n s = CanIf_Transmit e 0x100 payload (ucast n) s"

definition CAN_Ctr_BodyTx :: "net_env \<Rightarrow> 'a net_scheme pdu_target" where
  "CAN_Ctr_BodyTx e payload n s = CanIf_Transmit e 0x110 payload (ucast n) s"

definition UDP_Stat_Tx :: "net_env \<Rightarrow> 'a net_scheme pdu_target" where
  "UDP_Stat_Tx e payload n s = SoAd_IfTransmit e 5001 payload n s"

definition UDP_SOMEIP_Tx :: "net_env \<Rightarrow> 'a net_scheme pdu_target" where
  "UDP_SOMEIP_Tx e payload n s = SoAd_IfTransmit e 30492 payload n s"

definition PduR_Tx_RoutingTable :: "net_env \<Rightarrow> (u16 \<times> 'a net_scheme pdu_target option) list" where
  "PduR_Tx_RoutingTable e =
     [(PDUR_TX_CAN_ACT_ID, Some (CAN_Ctr_ActTx e)), (PDUR_TX_CAN_BODY_ID, Some (CAN_Ctr_BodyTx e)),
      (PDUR_TX_UDP_STAT_ID, Some (UDP_Stat_Tx e)), (PDUR_TX_UDP_SOMEIP, Some (UDP_SOMEIP_Tx e))]"

definition PduR_RouteTx :: "net_env \<Rightarrow> u16 \<Rightarrow> 'a net_scheme pdu_target" where
  "PduR_RouteTx e txPduId payload n s =
     (case table_route (PduR_Tx_RoutingTable e) txPduId of None \<Rightarrow> s | Some targetFunc \<Rightarrow> targetFunc payload n s)"

interpretation tx_table: routing_table "PduR_Tx_RoutingTable e"
  by unfold_locales (simp add: PduR_Tx_RoutingTable_def)

lemma RouteTx_targets:
  "PduR_RouteTx e 0xA1 = CAN_Ctr_ActTx e" "PduR_RouteTx e 0xA2 = CAN_Ctr_BodyTx e"
  "PduR_RouteTx e 0xB1 = UDP_Stat_Tx e" "PduR_RouteTx e 0xC1 = UDP_SOMEIP_Tx e"
  by (intro ext; simp add: PduR_RouteTx_def PduR_Tx_RoutingTable_def)+

section \<open>Words and bytes\<close>

lemma le_bytes_words: "length bs = 4 * n \<Longrightarrow> le_bytes (le_words bs) = bs"
proof (induction bs arbitrary: n rule: le_words.induct)
  case (1 a b c d bs)
  then have "length bs = 4 * (n - 1)" by simp
  from 1(1) [OF this] show ?case by simp
qed (simp_all, presburger+)

lemma length_le_words [simp]: "length (le_words bs) = length bs div 4"
  by (induction bs rule: le_words.induct) auto

lemma length_le_bytes [simp]: "length (le_bytes ws) = 4 * length ws"
  by (induction ws) auto

lemma le_words_nth:
  "4 * i + 3 < length bs \<Longrightarrow>
     le_words bs ! i = pack_le (bs ! (4 * i)) (bs ! (4 * i + 1)) (bs ! (4 * i + 2)) (bs ! (4 * i + 3))"
proof (induction bs arbitrary: i rule: le_words.induct)
  case (1 a b c d bs)
  show ?case
  proof (cases i)
    case (Suc j)
    then show ?thesis using 1(1) [of j] 1(2) by (simp add: eval_nat_numeral)
  qed (simp add: eval_nat_numeral)
qed simp_all

end
