(* ===== verification/Main_Dcm.thy ===== *)
theory Main_Dcm
  imports Main_Net
begin

unbundle bit_operations_syntax

text \<open>
  The diagnostic manager of the gateway, \<open>src/MAIN/BSW/Service/dcm.c\<close>: trouble codes for the loss of
  communication with the PC, ACT and BODY, the readers of their status, and the UDS services the gateway
  answers itself. An answer leaves through \<open>DoIP_ProcessTx\<close> of \<open>src/MAIN/BSW/Interface/doip.c\<close>, which is
  modelled here with the headers every DoIP message of that file has.
\<close>

section \<open>DoIP messages to the tester\<close>

abbreviation (input) TESTER_SOURCE_ADDRESS :: u16 where "TESTER_SOURCE_ADDRESS \<equiv> 0x0E00"
abbreviation (input) MY_TARGET_ADDRESS :: u16 where "MY_TARGET_ADDRESS \<equiv> 0x0001"

text \<open>
  The total length is kept in 16 bits. Data longer than 65523 bytes would wrap it and overrun the
  buffer of 1024 bytes, which the model does not describe; no caller passes more than 64.
\<close>

definition DoIP_ProcessTx :: "net_env \<Rightarrow> u16 \<Rightarrow> memory \<Rightarrow> u16 \<Rightarrow> 'a net_scheme \<Rightarrow> 'a net_scheme" where
  "DoIP_ProcessTx e sourceAddr udsData udsLength s =
     (let doipPayloadLength = 4 + ucast udsLength :: u32;
          totalTcpLength = ucast (8 + doipPayloadLength) :: u16
      in if totalTcpLength > 1024 then s
         else
           let txBuf =
                 [0x02, 0xFD, 0x80, 0x01,
                  ucast (drop_bit 24 doipPayloadLength), ucast (drop_bit 16 doipPayloadLength),
                  ucast (drop_bit 8 doipPayloadLength), ucast (doipPayloadLength AND 0xFF),
                  ucast (drop_bit 8 sourceAddr), ucast (sourceAddr AND 0xFF),
                  ucast (drop_bit 8 TESTER_SOURCE_ADDRESS), ucast (TESTER_SOURCE_ADDRESS AND 0xFF)]
                 @ bytes udsData (unat udsLength)
           in SoAd_IfTransmit e 13400 (array txBuf) totalTcpLength s)"

section \<open>State\<close>

abbreviation (input) DTC_STATUS_TEST_FAILED :: u8 where "DTC_STATUS_TEST_FAILED \<equiv> 0x01"
abbreviation (input) DTC_STATUS_CONFIRMED_DTC :: u8 where "DTC_STATUS_CONFIRMED_DTC \<equiv> 0x08"

record dcm = net +
  Current_Diag_Session :: u8
  DtcStatus_Pc :: u8
  DtcStatus_Act :: u8
  DtcStatus_Body :: u8
  DtcOccurCount_Pc :: u8
  DtcOccurCount_Act :: u8
  DtcOccurCount_Body :: u8

section \<open>Trouble codes\<close>

definition DCM_Callback_PcCommloss :: "'a dcm_scheme \<Rightarrow> 'a dcm_scheme" where
  "DCM_Callback_PcCommloss s =
     (let s = s\<lparr>DtcStatus_Pc := DtcStatus_Pc s OR DTC_STATUS_TEST_FAILED\<rparr>;
          s = (if DtcOccurCount_Pc s < 255 then s\<lparr>DtcOccurCount_Pc := DtcOccurCount_Pc s + 1\<rparr> else s)
      in if DtcOccurCount_Pc s \<ge> 3
         then s\<lparr>DtcStatus_Pc := DtcStatus_Pc s OR DTC_STATUS_CONFIRMED_DTC\<rparr> else s)"

definition DCM_Callback_ActCommloss :: "'a dcm_scheme \<Rightarrow> 'a dcm_scheme" where
  "DCM_Callback_ActCommloss s =
     (let s = s\<lparr>DtcStatus_Act := DtcStatus_Act s OR DTC_STATUS_TEST_FAILED\<rparr>;
          s = (if DtcOccurCount_Act s < 255 then s\<lparr>DtcOccurCount_Act := DtcOccurCount_Act s + 1\<rparr> else s)
      in if DtcOccurCount_Act s \<ge> 3
         then s\<lparr>DtcStatus_Act := DtcStatus_Act s OR DTC_STATUS_CONFIRMED_DTC\<rparr> else s)"

definition DCM_Callback_BodyCommloss :: "'a dcm_scheme \<Rightarrow> 'a dcm_scheme" where
  "DCM_Callback_BodyCommloss s =
     (let s = s\<lparr>DtcStatus_Body := DtcStatus_Body s OR DTC_STATUS_TEST_FAILED\<rparr>;
          s = (if DtcOccurCount_Body s < 255 then s\<lparr>DtcOccurCount_Body := DtcOccurCount_Body s + 1\<rparr> else s)
      in if DtcOccurCount_Body s \<ge> 3
         then s\<lparr>DtcStatus_Body := DtcStatus_Body s OR DTC_STATUS_CONFIRMED_DTC\<rparr> else s)"

definition DCM_Callback_PcRecovered :: "'a dcm_scheme \<Rightarrow> 'a dcm_scheme" where
  "DCM_Callback_PcRecovered s =
     s\<lparr>DtcStatus_Pc := DtcStatus_Pc s AND NOT DTC_STATUS_TEST_FAILED, DtcOccurCount_Pc := 0\<rparr>"

definition DCM_Callback_ActRecovered :: "'a dcm_scheme \<Rightarrow> 'a dcm_scheme" where
  "DCM_Callback_ActRecovered s =
     s\<lparr>DtcStatus_Act := DtcStatus_Act s AND NOT DTC_STATUS_TEST_FAILED, DtcOccurCount_Act := 0\<rparr>"

definition DCM_Callback_BodyRecovered :: "'a dcm_scheme \<Rightarrow> 'a dcm_scheme" where
  "DCM_Callback_BodyRecovered s =
     s\<lparr>DtcStatus_Body := DtcStatus_Body s AND NOT DTC_STATUS_TEST_FAILED, DtcOccurCount_Body := 0\<rparr>"

definition DCM_Clear_All_DTC :: "'a dcm_scheme \<Rightarrow> 'a dcm_scheme" where
  "DCM_Clear_All_DTC s =
     s\<lparr>DtcStatus_Act := 0, DtcStatus_Body := 0, DtcStatus_Pc := 0,
       DtcOccurCount_Pc := 0, DtcOccurCount_Act := 0, DtcOccurCount_Body := 0\<rparr>"

definition DCM_Get_ActEcu_CommStatus :: "'a dcm_scheme \<Rightarrow> u8" where
  "DCM_Get_ActEcu_CommStatus s = DtcStatus_Act s AND 0x01"

definition DCM_Get_BodyEcu_CommStatus :: "'a dcm_scheme \<Rightarrow> u8" where
  "DCM_Get_BodyEcu_CommStatus s = DtcStatus_Body s AND 0x01"

definition DCM_Get_Pc_CommStatus :: "'a dcm_scheme \<Rightarrow> u8" where
  "DCM_Get_Pc_CommStatus s = DtcStatus_Pc s AND 0x01"

definition DCM_Get_DtcStatus_ActEcu :: "'a dcm_scheme \<Rightarrow> u8" where
  "DCM_Get_DtcStatus_ActEcu s = DtcStatus_Act s"

definition DCM_Get_DtcStatus_BodyEcu :: "'a dcm_scheme \<Rightarrow> u8" where
  "DCM_Get_DtcStatus_BodyEcu s = DtcStatus_Body s"

definition DCM_Get_DtcStatus_Pc :: "'a dcm_scheme \<Rightarrow> u8" where
  "DCM_Get_DtcStatus_Pc s = DtcStatus_Pc s"

section \<open>Services\<close>

text \<open>An answer of \<open>txLen\<close> bytes in \<open>txBuf\<close>, with the gateway's own address.\<close>

definition dcm_answer :: "net_env \<Rightarrow> u8 list \<Rightarrow> 'a dcm_scheme \<Rightarrow> 'a dcm_scheme" where
  "dcm_answer e txBuf s = DoIP_ProcessTx e 0x0001 (array txBuf) (of_nat (length txBuf)) s"

definition Send_NegativeResponse :: "net_env \<Rightarrow> u8 \<Rightarrow> u8 \<Rightarrow> 'a dcm_scheme \<Rightarrow> 'a dcm_scheme" where
  "Send_NegativeResponse e reqSid nrc s = dcm_answer e [0x7F, reqSid, nrc] s"

text \<open>The cases of the switch of \<open>Uds_ProcessRx\<close>.\<close>

definition dcm_session_control :: "net_env \<Rightarrow> memory \<Rightarrow> u16 \<Rightarrow> 'a dcm_scheme \<Rightarrow> 'a dcm_scheme" where
  "dcm_session_control e reqData reqLength s =
     (if reqLength \<noteq> 2 then Send_NegativeResponse e 0x10 0x13 s
      else
        let subFunc = reqData 1
        in if subFunc = 0x01 \<or> subFunc = 0x03
           then dcm_answer e [0x50, subFunc, 0x0b, 0xb8, 0x0b, 0xb8] (s\<lparr>Current_Diag_Session := subFunc\<rparr>)
           else Send_NegativeResponse e 0x10 0x12 s)"

definition dcm_read_data :: "net_env \<Rightarrow> memory \<Rightarrow> u16 \<Rightarrow> 'a dcm_scheme \<Rightarrow> 'a dcm_scheme" where
  "dcm_read_data e reqData reqLength s =
     (if reqLength \<noteq> 3 then Send_NegativeResponse e 0x22 0x13 s
      else
        let did = be16 (reqData 1) (reqData 2);
            txBuf = [0x62, hi8 did, lo8 did]
        in if did = 0xF190 then dcm_answer e (txBuf @ [71, 87, 48, 49]) s
           else if did = 0x0400 then dcm_answer e (txBuf @ [DCM_Get_ActEcu_CommStatus s]) s
           else if did = 0x0401 then dcm_answer e (txBuf @ [DCM_Get_BodyEcu_CommStatus s]) s
           else if did = 0x0402 then dcm_answer e (txBuf @ [DCM_Get_Pc_CommStatus s]) s
           else Send_NegativeResponse e 0x22 0x31 s)"

definition dcm_read_dtc :: "net_env \<Rightarrow> memory \<Rightarrow> u16 \<Rightarrow> 'a dcm_scheme \<Rightarrow> 'a dcm_scheme" where
  "dcm_read_dtc e reqData reqLength s =
     (if reqLength \<noteq> 2 \<and> reqLength \<noteq> 3 then Send_NegativeResponse e 0x19 0x13 s
      else
        let subFunc = reqData 1
        in if subFunc = 0x0A then
             dcm_answer e
               ([0x59, 0x0A, 0xFF] @ [0xC4, 0x00, 0x00, DCM_Get_DtcStatus_ActEcu s] @
                [0xC4, 0x01, 0x00, DCM_Get_DtcStatus_BodyEcu s] @ [0xC4, 0x02, 0x00, DCM_Get_DtcStatus_Pc s]) s
           else if subFunc = 0x02 then
             let statusMask = reqData 2;
                 txBuf = [0x59, 0x02, 0xFF];
                 dtcStatus = DCM_Get_DtcStatus_ActEcu s;
                 txBuf = (if dtcStatus AND statusMask \<noteq> 0 then txBuf @ [0xC4, 0x00, 0x00, dtcStatus] else txBuf);
                 dtcStatus = DCM_Get_DtcStatus_BodyEcu s;
                 txBuf = (if dtcStatus AND statusMask \<noteq> 0 then txBuf @ [0xC4, 0x01, 0x00, dtcStatus] else txBuf);
                 dtcStatus = DCM_Get_DtcStatus_Pc s;
                 txBuf = (if dtcStatus AND statusMask \<noteq> 0 then txBuf @ [0xC4, 0x02, 0x00, dtcStatus] else txBuf)
             in dcm_answer e txBuf s
           else Send_NegativeResponse e 0x19 0x12 s)"

definition dcm_clear_dtc :: "net_env \<Rightarrow> memory \<Rightarrow> u16 \<Rightarrow> 'a dcm_scheme \<Rightarrow> 'a dcm_scheme" where
  "dcm_clear_dtc e reqData reqLength s =
     (if reqLength \<noteq> 4 then Send_NegativeResponse e 0x14 0x13 s
      else
        let groupOfDTC =
              (push_bit 16 (ucast (reqData 1)) OR push_bit 8 (ucast (reqData 2))) OR ucast (reqData 3) :: u32
        in if groupOfDTC = 0xFFFFFF then dcm_answer e [0x54] (DCM_Clear_All_DTC s)
           else Send_NegativeResponse e 0x14 0x31 s)"

definition Uds_ProcessRx :: "net_env \<Rightarrow> memory \<Rightarrow> u16 \<Rightarrow> 'a dcm_scheme \<Rightarrow> 'a dcm_scheme" where
  "Uds_ProcessRx e reqData reqLength s =
     (if reqLength = 0 then s
      else
        let sid = reqData 0
        in if sid = 0x10 then dcm_session_control e reqData reqLength s
           else if sid = 0x22 then dcm_read_data e reqData reqLength s
           else if sid = 0x19 then dcm_read_dtc e reqData reqLength s
           else if sid = 0x14 then dcm_clear_dtc e reqData reqLength s
           else Send_NegativeResponse e sid 0x11 s)"

end
