(* ===== verification/Main_Com.thy ===== *)
theory Main_Com
  imports Main_Can Main_Dcm
begin

unbundle bit_operations_syntax

text \<open>
  The signal layer of the gateway, \<open>src/MAIN/BSW/Service/com.c\<close>, with the application callbacks of
  \<open>src/MAIN/BSW/Service/swc.c\<close>: the driver's control packets and the collision-warning switch come in,
  the states of ACT and BODY come in, commands to both and the vehicle state go out, and the loss of
  each partner is noticed. The fields of the struct \<open>COM_RxBuf_UDP_Ctr\<close> have the prefix \<open>Ctr_\<close>, those of
  \<open>COM_RxBuf_CAN_Stat\<close> the prefix \<open>Stat_\<close>; \<open>boolean\<close> is a byte.
\<close>

section \<open>State\<close>

abbreviation (input) UDP_TIMEOUT_THRESHOLD_MS :: u32 where "UDP_TIMEOUT_THRESHOLD_MS \<equiv> 500"
abbreviation (input) ACT_TIMEOUT_THRESHOLD_MS :: u32 where "ACT_TIMEOUT_THRESHOLD_MS \<equiv> 500"
abbreviation (input) BODY_TIMEOUT_THRESHOLD_MS :: u32 where "BODY_TIMEOUT_THRESHOLD_MS \<equiv> 500"
abbreviation (input) SOMEIP_SERVICE_ID :: u16 where "SOMEIP_SERVICE_ID \<equiv> 0x2001"
abbreviation (input) SOMEIP_METHOD_ID :: u16 where "SOMEIP_METHOD_ID \<equiv> 0x0001"

abbreviation (input) MODE_DEFAULT :: u8 where "MODE_DEFAULT \<equiv> 0"
abbreviation (input) MODE_REMOTE :: u8 where "MODE_REMOTE \<equiv> 1"
abbreviation (input) MODE_DIAG :: u8 where "MODE_DIAG \<equiv> 2"
abbreviation (input) PC_DEFAULT :: u8 where "PC_DEFAULT \<equiv> 0"
abbreviation (input) PC_TIMEOUT_BREAK :: u8 where "PC_TIMEOUT_BREAK \<equiv> 1"
abbreviation (input) PC_TIMEOUT_LIGHT :: u8 where "PC_TIMEOUT_LIGHT \<equiv> 3"
abbreviation (input) IGNITIONOFF :: u8 where "IGNITIONOFF \<equiv> 0"
abbreviation (input) IGNITIONON :: u8 where "IGNITIONON \<equiv> 1"

record com = dcm +
  Ctr_accel :: u8
  Ctr_brake :: u8
  Ctr_steer :: u8
  Ctr_gear :: u8
  Ctr_turn_signal :: u8
  Ctr_horn :: u8
  Ctr_ignition :: u8
  Ctr_head_light :: u8
  Stat_speedl :: u8
  Stat_speedh :: u8
  Stat_gear :: u8
  Stat_steer :: u8
  Stat_steering_angle :: u8
  Body_alive_cnt :: u8
  COM_Collision_Warn :: u8
  COM_Cur_Mode :: u8
  COM_Safety_Override :: u8
  COM_Stat_Cnt :: u8
  COM_TxBuf_CtrAct_CAN :: "u8 list"
  COM_TxBuf_CtrBody_CAN :: "u8 list"
  COM_TxBuf_Stat_UDP :: "u8 list"
  Last_Udp_RxTime :: u32
  Last_Act_RxTime :: u32
  Last_Body_RxTime :: u32
  lastTime_20ms :: u32
  lastTime_50ms :: u32

definition COM_Get_Ignition :: "'a com_scheme \<Rightarrow> u8" where
  "COM_Get_Ignition s = Ctr_ignition s"

definition COM_Get_CurMode :: "'a com_scheme \<Rightarrow> u8" where
  "COM_Get_CurMode s = COM_Cur_Mode s"

definition COM_Get_BodyAliveCnt :: "'a com_scheme \<Rightarrow> u8" where
  "COM_Get_BodyAliveCnt s = Body_alive_cnt s"

definition COM_Get_Collision_Warn :: "'a com_scheme \<Rightarrow> u8" where
  "COM_Get_Collision_Warn s = COM_Collision_Warn s"

definition COM_Set_CurMode :: "u8 \<Rightarrow> 'a com_scheme \<Rightarrow> 'a com_scheme" where
  "COM_Set_CurMode cur_mode s = s\<lparr>COM_Cur_Mode := cur_mode\<rparr>"

definition COM_Set_Safety_Override :: "u8 \<Rightarrow> 'a com_scheme \<Rightarrow> 'a com_scheme" where
  "COM_Set_Safety_Override safety_override s = s\<lparr>COM_Safety_Override := safety_override\<rparr>"

definition COM_Set_Turn_Signal :: "u8 \<Rightarrow> 'a com_scheme \<Rightarrow> 'a com_scheme" where
  "COM_Set_Turn_Signal turn_signal s = s\<lparr>Ctr_turn_signal := turn_signal\<rparr>"

definition COM_Set_Collision_Warn :: "u8 \<Rightarrow> 'a com_scheme \<Rightarrow> 'a com_scheme" where
  "COM_Set_Collision_Warn collision_warn s = s\<lparr>COM_Collision_Warn := collision_warn\<rparr>"

section \<open>Application callbacks\<close>

definition Callback_Diag_RoutingActivated :: "'a com_scheme \<Rightarrow> 'a com_scheme" where
  "Callback_Diag_RoutingActivated s =
     (if COM_Get_CurMode s = MODE_REMOTE then COM_Set_CurMode MODE_DIAG s else s)"

definition Callback_Diag_RoutingDeactivated :: "'a com_scheme \<Rightarrow> 'a com_scheme" where
  "Callback_Diag_RoutingDeactivated s =
     (if COM_Get_CurMode s = MODE_DIAG then COM_Set_CurMode MODE_REMOTE s else s)"

definition Callback_COM_SessionCnt :: "u8 \<Rightarrow> u8" where
  "Callback_COM_SessionCnt cnt = cnt + 1"

definition Callback_COM_PcTimeout :: "'a com_scheme \<Rightarrow> 'a com_scheme" where
  "Callback_COM_PcTimeout s = COM_Set_Turn_Signal PC_TIMEOUT_LIGHT (COM_Set_Safety_Override PC_TIMEOUT_BREAK s)"

definition SWC_BuzzerControlIndication :: "u8 \<Rightarrow> 'a com_scheme \<Rightarrow> 'a com_scheme" where
  "SWC_BuzzerControlIndication msg s = COM_Set_Collision_Warn msg s"

section \<open>Reception\<close>

text \<open>None of the receivers but the one of SOME/IP looks at the length of its packet.\<close>

definition UDP_Ctr_ProcessRx :: "memory \<Rightarrow> u16 \<Rightarrow> 'a com_scheme \<Rightarrow> 'a com_scheme" where
  "UDP_Ctr_ProcessRx payload n s =
     (let s = s\<lparr>Ctr_accel := payload 1, Ctr_brake := payload 2, Ctr_steer := payload 3,
                Ctr_gear := payload 4, Ctr_turn_signal := payload 5, Ctr_horn := payload 6,
                Ctr_ignition := payload 7, Ctr_head_light := payload 8\<rparr>;
          s = (if Ctr_ignition s = IGNITIONON then s\<lparr>COM_Cur_Mode := MODE_REMOTE\<rparr>
               else if Ctr_ignition s = IGNITIONOFF then s\<lparr>COM_Cur_Mode := MODE_DEFAULT\<rparr>
               else s);
          s = s\<lparr>Last_Udp_RxTime := Get_SystemTime_ms s\<rparr>;
          s = COM_Set_Safety_Override PC_DEFAULT s
      in DCM_Callback_PcRecovered s)"

text \<open>The answer to a collision-warning request: the header in network order, then the state.\<close>

definition someip_response :: "memory \<Rightarrow> u8 \<Rightarrow> u8 list" where
  "someip_response rxPacket buzzerState =
     [hi8 SOMEIP_SERVICE_ID, lo8 SOMEIP_SERVICE_ID, hi8 SOMEIP_METHOD_ID, lo8 SOMEIP_METHOD_ID, 0, 0, 0, 10,
      rxPacket 8, rxPacket 9, rxPacket 10, rxPacket 11, 0x01, 0x01, 0x80, 0x00, 1, buzzerState]"

definition SomeIp_SendResponse :: "net_env \<Rightarrow> memory \<Rightarrow> u8 \<Rightarrow> 'a com_scheme \<Rightarrow> 'a com_scheme" where
  "SomeIp_SendResponse e rxPacket buzzerState s =
     (let tx = someip_response rxPacket buzzerState
      in PduR_RouteTx e PDUR_TX_UDP_SOMEIP (array tx) (of_nat (length tx)) s)"

definition SomeIp_ProcessRx :: "net_env \<Rightarrow> memory \<Rightarrow> u16 \<Rightarrow> 'a com_scheme \<Rightarrow> 'a com_scheme" where
  "SomeIp_ProcessRx e payload n s =
     (if n < 18 then s
      else
        let serviceId = be16 (payload 0) (payload 1);
            methodId = be16 (payload 2) (payload 3)
        in if serviceId \<noteq> SOMEIP_SERVICE_ID then s
           else if methodId \<noteq> SOMEIP_METHOD_ID then s
           else
             let s = SWC_BuzzerControlIndication (payload 17) s
             in SomeIp_SendResponse e payload (COM_Collision_Warn s) s)"

definition CAN_Stat_processRx :: "memory \<Rightarrow> u16 \<Rightarrow> 'a com_scheme \<Rightarrow> 'a com_scheme" where
  "CAN_Stat_processRx payload n s =
     (let s = s\<lparr>Stat_speedl := payload 0, Stat_speedh := payload 1, Stat_gear := payload 2,
                Stat_steer := payload 3, Stat_steering_angle := payload 4\<rparr>;
          s = s\<lparr>Last_Act_RxTime := Get_SystemTime_ms s\<rparr>
      in DCM_Callback_ActRecovered s)"

definition CAN_Body_processRx :: "memory \<Rightarrow> u16 \<Rightarrow> 'a com_scheme \<Rightarrow> 'a com_scheme" where
  "CAN_Body_processRx payload n s =
     (let s = s\<lparr>Body_alive_cnt := payload 0\<rparr>;
          s = s\<lparr>Last_Body_RxTime := Get_SystemTime_ms s\<rparr>
      in DCM_Callback_BodyRecovered s)"

section \<open>Transmission\<close>

definition COM_Tx_CtrAct_CAN :: "net_env \<Rightarrow> 'a com_scheme \<Rightarrow> 'a com_scheme" where
  "COM_Tx_CtrAct_CAN e s =
     (let s = s\<lparr>COM_TxBuf_CtrAct_CAN :=
                  [Ctr_accel s, Ctr_steer s, Ctr_brake s, Ctr_gear s, COM_Cur_Mode s, COM_Safety_Override s]\<rparr>
      in PduR_RouteTx e PDUR_TX_CAN_ACT_ID (array (COM_TxBuf_CtrAct_CAN s)) 6 s)"

definition COM_Tx_CtrBody_CAN :: "net_env \<Rightarrow> 'a com_scheme \<Rightarrow> 'a com_scheme" where
  "COM_Tx_CtrBody_CAN e s =
     (let s = s\<lparr>COM_TxBuf_CtrBody_CAN :=
                  [Ctr_head_light s, Ctr_turn_signal s, Ctr_brake s, Ctr_horn s, COM_Collision_Warn s,
                   COM_Cur_Mode s]\<rparr>
      in PduR_RouteTx e PDUR_TX_CAN_BODY_ID (array (COM_TxBuf_CtrBody_CAN s)) 6 s)"

definition COM_Tx_Stat_UDP :: "net_env \<Rightarrow> 'a com_scheme \<Rightarrow> 'a com_scheme" where
  "COM_Tx_Stat_UDP e s =
     (let s = s\<lparr>COM_TxBuf_Stat_UDP := [COM_Stat_Cnt s, Stat_speedl s, Stat_speedh s]\<rparr>;
          s = s\<lparr>COM_Stat_Cnt := Callback_COM_SessionCnt (COM_Stat_Cnt s)\<rparr>
      in PduR_RouteTx e PDUR_TX_UDP_STAT_ID (array (COM_TxBuf_Stat_UDP s)) 3 s)"

definition COM_Tx_MainFunction :: "net_env \<Rightarrow> 'a com_scheme \<Rightarrow> 'a com_scheme" where
  "COM_Tx_MainFunction e s =
     (let currentTime = Get_SystemTime_ms s;
          s = (if currentTime - lastTime_20ms s \<ge> 20
               then (COM_Tx_CtrBody_CAN e (COM_Tx_CtrAct_CAN e s))\<lparr>lastTime_20ms := currentTime\<rparr>
               else s)
      in if currentTime - lastTime_50ms s \<ge> 50
         then (COM_Tx_Stat_UDP e s)\<lparr>lastTime_50ms := currentTime\<rparr>
         else s)"

section \<open>Loss of a partner\<close>

definition COM_TimeOut :: "'a com_scheme \<Rightarrow> 'a com_scheme" where
  "COM_TimeOut s =
     (let currentTime = Get_SystemTime_ms s;
          s = (if COM_Cur_Mode s = MODE_REMOTE \<and> currentTime - Last_Udp_RxTime s \<ge> UDP_TIMEOUT_THRESHOLD_MS
               then (DCM_Callback_PcCommloss (Callback_COM_PcTimeout s))\<lparr>Last_Udp_RxTime := currentTime\<rparr>
               else s);
          s = (if currentTime - Last_Act_RxTime s \<ge> ACT_TIMEOUT_THRESHOLD_MS
               then (DCM_Callback_ActCommloss s)\<lparr>Last_Act_RxTime := currentTime\<rparr> else s)
      in if currentTime - Last_Body_RxTime s \<ge> BODY_TIMEOUT_THRESHOLD_MS
         then (DCM_Callback_BodyCommloss s)\<lparr>Last_Body_RxTime := currentTime\<rparr> else s)"

end
