(* ===== verification/Main_Route.thy ===== *)
theory Main_Route
  imports Main_Com
begin

unbundle bit_operations_syntax

text \<open>
  Reception in the gateway: the diagnostic protocol over IP (\<open>src/MAIN/BSW/Interface/doip.c\<close>), the
  receive half of the PDU router with its table (\<open>pdur.c\<close>, \<open>pdur_cfg.c\<close>), the CAN transport and
  interface with their table (\<open>cantp.c\<close>, \<open>canif.c\<close>, \<open>canif_cfg.c\<close>) and the table of the socket adapter
  (\<open>soad.c\<close>, \<open>soad_cfg.c\<close>).
\<close>

section \<open>The receive half of the router\<close>

abbreviation (input) PDUR_UDP_CONTROL_ID :: u16 where "PDUR_UDP_CONTROL_ID \<equiv> 0x01"
abbreviation (input) PDUR_SOMEIP_ID :: u16 where "PDUR_SOMEIP_ID \<equiv> 0x02"
abbreviation (input) PDUR_DOIP_MAIN_TCP_ID :: u16 where "PDUR_DOIP_MAIN_TCP_ID \<equiv> 0x03"
abbreviation (input) PDUR_DOIP_ACT_TCP_ID :: u16 where "PDUR_DOIP_ACT_TCP_ID \<equiv> 0x04"
abbreviation (input) PDUR_DOIP_BODY_TCP_ID :: u16 where "PDUR_DOIP_BODY_TCP_ID \<equiv> 0x05"
abbreviation (input) PDUR_CAN_STATUS_ID :: u16 where "PDUR_CAN_STATUS_ID \<equiv> 0x11"
abbreviation (input) PDUR_CAN_EVENT_ID :: u16 where "PDUR_CAN_EVENT_ID \<equiv> 0x12"
abbreviation (input) PDUR_CAN_BODY_ID :: u16 where "PDUR_CAN_BODY_ID \<equiv> 0x13"
abbreviation (input) PDUR_CAN_ACT_UDS_ID :: u16 where "PDUR_CAN_ACT_UDS_ID \<equiv> 0x17"
abbreviation (input) PDUR_CAN_BODY_UDS_ID :: u16 where "PDUR_CAN_BODY_UDS_ID \<equiv> 0x18"

definition UDS_TCP_Main_ProcessRx :: "net_env \<Rightarrow> 'a com_scheme pdu_target" where
  "UDS_TCP_Main_ProcessRx e payload n s = Uds_ProcessRx e payload n s"

definition UDS_TCP_Act_ProcessRx :: "net_env \<Rightarrow> 'a com_scheme pdu_target" where
  "UDS_TCP_Act_ProcessRx e payload n s = CanTp_Transmit e 0x700 payload n s"

definition UDS_TCP_Body_ProcessRx :: "net_env \<Rightarrow> 'a com_scheme pdu_target" where
  "UDS_TCP_Body_ProcessRx e payload n s = CanTp_Transmit e 0x710 payload n s"

definition CAN_Event_processRx :: "net_env \<Rightarrow> 'a com_scheme pdu_target" where
  "CAN_Event_processRx e payload n s = SoAd_IfTransmit e 5002 payload n s"

definition CAN_Act_UDS_processRx :: "net_env \<Rightarrow> 'a com_scheme pdu_target" where
  "CAN_Act_UDS_processRx e payload n s = DoIP_ProcessTx e 0x0010 payload n s"

definition CAN_Body_UDS_processRx :: "net_env \<Rightarrow> 'a com_scheme pdu_target" where
  "CAN_Body_UDS_processRx e payload n s = DoIP_ProcessTx e 0x0020 payload n s"

definition PduR_Rx_RoutingTable :: "net_env \<Rightarrow> (u16 \<times> 'a com_scheme pdu_target option) list" where
  "PduR_Rx_RoutingTable e =
     [(PDUR_UDP_CONTROL_ID, Some UDP_Ctr_ProcessRx),
      (PDUR_SOMEIP_ID, Some (SomeIp_ProcessRx e)),
      (PDUR_DOIP_MAIN_TCP_ID, Some (UDS_TCP_Main_ProcessRx e)),
      (PDUR_DOIP_ACT_TCP_ID, Some (UDS_TCP_Act_ProcessRx e)),
      (PDUR_DOIP_BODY_TCP_ID, Some (UDS_TCP_Body_ProcessRx e)),
      (PDUR_CAN_STATUS_ID, Some CAN_Stat_processRx),
      (PDUR_CAN_EVENT_ID, Some (CAN_Event_processRx e)),
      (PDUR_CAN_BODY_ID, Some CAN_Body_processRx),
      (PDUR_CAN_ACT_UDS_ID, Some (CAN_Act_UDS_processRx e)),
      (PDUR_CAN_BODY_UDS_ID, Some (CAN_Body_UDS_processRx e))]"

definition PduR_RouteRx :: "net_env \<Rightarrow> u16 \<Rightarrow> 'a com_scheme pdu_target" where
  "PduR_RouteRx e rxPduId payload n s =
     (case table_route (PduR_Rx_RoutingTable e) rxPduId of None \<Rightarrow> s | Some targetFunc \<Rightarrow> targetFunc payload n s)"

section \<open>CAN transport and interface\<close>

definition CanTp_RxIndication :: "net_env \<Rightarrow> u32 \<Rightarrow> memory \<Rightarrow> u8 \<Rightarrow> 'a com_scheme \<Rightarrow> 'a com_scheme" where
  "CanTp_RxIndication e canId payload n s =
     (if n < 1 then s
      else
        let pciByte = payload 0;
            frameType = drop_bit 4 (pciByte AND 0xF0);
            udsLength = pciByte AND 0x0F
        in if frameType = 0x00 then
             if udsLength > n - 1 then s
             else
               let udsData = moved 1 payload
               in if canId = 0x708 then PduR_RouteRx e PDUR_CAN_ACT_UDS_ID udsData (ucast udsLength) s
                  else if canId = 0x718 then PduR_RouteRx e PDUR_CAN_BODY_UDS_ID udsData (ucast udsLength) s
                  else s
           else s)"

type_synonym 'a can_target = "memory \<Rightarrow> u8 \<Rightarrow> 'a \<Rightarrow> 'a"

definition PduR_RouteRx_CanStatus :: "net_env \<Rightarrow> 'a com_scheme can_target" where
  "PduR_RouteRx_CanStatus e payload n s = PduR_RouteRx e PDUR_CAN_STATUS_ID payload (ucast n) s"

definition PduR_RouteRx_CanEvent :: "net_env \<Rightarrow> 'a com_scheme can_target" where
  "PduR_RouteRx_CanEvent e payload n s = PduR_RouteRx e PDUR_CAN_EVENT_ID payload (ucast n) s"

definition PduR_RouteRx_CanBody :: "net_env \<Rightarrow> 'a com_scheme can_target" where
  "PduR_RouteRx_CanBody e payload n s = PduR_RouteRx e PDUR_CAN_BODY_ID payload (ucast n) s"

definition CanTp_Act_RxIndication :: "net_env \<Rightarrow> 'a com_scheme can_target" where
  "CanTp_Act_RxIndication e payload n s = CanTp_RxIndication e 0x708 payload n s"

definition CanTp_Body_RxIndication :: "net_env \<Rightarrow> 'a com_scheme can_target" where
  "CanTp_Body_RxIndication e payload n s = CanTp_RxIndication e 0x718 payload n s"

definition CanIf_RxTable :: "net_env \<Rightarrow> (u32 \<times> 'a com_scheme can_target option) list" where
  "CanIf_RxTable e =
     [(0x200, Some (PduR_RouteRx_CanStatus e)), (0x210, Some (PduR_RouteRx_CanEvent e)),
      (0x310, Some (PduR_RouteRx_CanBody e)), (0x708, Some (CanTp_Act_RxIndication e)),
      (0x718, Some (CanTp_Body_RxIndication e))]"

definition CanIf_RxIndication :: "net_env \<Rightarrow> u32 \<Rightarrow> 'a com_scheme can_target" where
  "CanIf_RxIndication e canId payload n s =
     (case table_route (CanIf_RxTable e) canId of None \<Rightarrow> s | Some callback \<Rightarrow> callback payload n s)"

section \<open>Diagnostics over IP\<close>

definition DoIP_SendGenericNack :: "net_env \<Rightarrow> u16 \<Rightarrow> u8 \<Rightarrow> 'a com_scheme \<Rightarrow> 'a com_scheme" where
  "DoIP_SendGenericNack e port nackCode s =
     (let txBuf = [0x02, 0xFD, 0x00, 0x00, 0x00, 0x00, 0x00, 0x01, nackCode]
      in SoAd_IfTransmit e port (array txBuf) 9 s)"

definition DoIP_SendDiagAck :: "net_env \<Rightarrow> u16 \<Rightarrow> u16 \<Rightarrow> u16 \<Rightarrow> u8 \<Rightarrow> 'a com_scheme \<Rightarrow> 'a com_scheme" where
  "DoIP_SendDiagAck e port sa ta ackCode s =
     (let txBuf = [0x02, 0xFD, 0x80, 0x02, 0x00, 0x00, 0x00, 0x05,
                   ucast (drop_bit 8 sa), ucast (sa AND 0xFF), ucast (drop_bit 8 ta), ucast (ta AND 0xFF), ackCode]
      in SoAd_IfTransmit e port (array txBuf) 13 s)"

definition DoIP_SendDiagNack :: "net_env \<Rightarrow> u16 \<Rightarrow> u16 \<Rightarrow> u16 \<Rightarrow> u8 \<Rightarrow> 'a com_scheme \<Rightarrow> 'a com_scheme" where
  "DoIP_SendDiagNack e port sa ta nackCode s =
     (let txBuf = [0x02, 0xFD, 0x80, 0x03, 0x00, 0x00, 0x00, 0x05,
                   ucast (drop_bit 8 sa), ucast (sa AND 0xFF), ucast (drop_bit 8 ta), ucast (ta AND 0xFF), nackCode]
      in SoAd_IfTransmit e port (array txBuf) 13 s)"

definition DoIP_IsRegisteredSA :: "u16 \<Rightarrow> u16 \<Rightarrow> bool" where
  "DoIP_IsRegisteredSA port sa \<longleftrightarrow> sa = TESTER_SOURCE_ADDRESS"

definition DoIP_IsKnownTA :: "u16 \<Rightarrow> bool" where
  "DoIP_IsKnownTA ta \<longleftrightarrow> ta = 0x0001 \<or> ta = 0x0010 \<or> ta = 0x0020"

definition DoIP_SendRoutingActivationResponse :: "net_env \<Rightarrow> u16 \<Rightarrow> u16 \<Rightarrow> u8 \<Rightarrow> 'a com_scheme \<Rightarrow> 'a com_scheme" where
  "DoIP_SendRoutingActivationResponse e port testerSA responseCode s =
     (let txBuf = [0x02, 0xFD, 0x00, 0x06, 0x00, 0x00, 0x00, 0x09,
                   ucast (drop_bit 8 testerSA), ucast (testerSA AND 0xFF),
                   ucast (drop_bit 8 MY_TARGET_ADDRESS), ucast (MY_TARGET_ADDRESS AND 0xFF), responseCode]
                  @ replicate 4 0
      in SoAd_IfTransmit e port (array txBuf) 17 s)"

definition DoIP_ProcessRoutingActivation :: "net_env \<Rightarrow> u16 \<Rightarrow> memory \<Rightarrow> u16 \<Rightarrow> 'a com_scheme \<Rightarrow> 'a com_scheme" where
  "DoIP_ProcessRoutingActivation e port payload n s =
     (if n < 15 then s
      else
        let testerSA = be16 (payload 8) (payload 9);
            (responseCode, s) =
              (if testerSA = TESTER_SOURCE_ADDRESS then (0x10 :: u8, Callback_Diag_RoutingActivated s)
               else (0x00, s));
            s = DoIP_SendRoutingActivationResponse e port testerSA responseCode s
        in if responseCode \<noteq> 0x10 then SoAd_CloseSocket port s else s)"

text \<open>A diagnostic message, after the generic header is checked.\<close>

definition doip_diagnostic :: "net_env \<Rightarrow> u16 \<Rightarrow> memory \<Rightarrow> u16 \<Rightarrow> 'a com_scheme \<Rightarrow> 'a com_scheme" where
  "doip_diagnostic e port payload n s =
     (if n < 12 then s
      else
        let sourceAddr = be16 (payload 8) (payload 9);
            targetAddr = be16 (payload 10) (payload 11)
        in if \<not> DoIP_IsRegisteredSA port sourceAddr
           then SoAd_CloseSocket port (DoIP_SendDiagNack e port targetAddr sourceAddr 0x02 s)
           else if \<not> DoIP_IsKnownTA targetAddr
           then DoIP_SendDiagNack e port targetAddr sourceAddr 0x03 s
           else
             let s = DoIP_SendDiagAck e port targetAddr sourceAddr 0x00 s;
                 udsData = moved 12 payload;
                 udsLength = n - 12
             in if targetAddr = 0x0001 then PduR_RouteRx e PDUR_DOIP_MAIN_TCP_ID udsData udsLength s
                else if targetAddr = 0x0010 then PduR_RouteRx e PDUR_DOIP_ACT_TCP_ID udsData udsLength s
                else if targetAddr = 0x0020 then PduR_RouteRx e PDUR_DOIP_BODY_TCP_ID udsData udsLength s
                else s)"

definition DoIP_ProcessRx :: "net_env \<Rightarrow> memory \<Rightarrow> u16 \<Rightarrow> 'a com_scheme \<Rightarrow> 'a com_scheme" where
  "DoIP_ProcessRx e payload n s =
     (let port = 13400
      in if n < 8 then s
         else
           let payloadType = be16 (payload 2) (payload 3);
               expectedPayloadLength =
                 ((push_bit 24 (ucast (payload 4)) OR push_bit 16 (ucast (payload 5)))
                  OR push_bit 8 (ucast (payload 6))) OR ucast (payload 7) :: u32
           in if expectedPayloadLength \<noteq> ucast n - 8
              then SoAd_CloseSocket port (DoIP_SendGenericNack e port 0x04 s)
              else if payloadType = 0x8001 then doip_diagnostic e port payload n s
              else if payloadType = 0x0005 then DoIP_ProcessRoutingActivation e port payload n s
              else DoIP_SendGenericNack e port 0x01 s)"

section \<open>Sockets\<close>

definition PduR_RouteRx_Control :: "net_env \<Rightarrow> 'a com_scheme pdu_target" where
  "PduR_RouteRx_Control e payload n s = PduR_RouteRx e PDUR_UDP_CONTROL_ID payload n s"

definition PduR_RouteRx_SomeIp :: "net_env \<Rightarrow> 'a com_scheme pdu_target" where
  "PduR_RouteRx_SomeIp e payload n s = PduR_RouteRx e PDUR_SOMEIP_ID payload n s"

definition SoAd_RxPortTable :: "net_env \<Rightarrow> (u16 \<times> 'a com_scheme pdu_target option) list" where
  "SoAd_RxPortTable e =
     [(5000, Some (PduR_RouteRx_Control e)), (30492, Some (PduR_RouteRx_SomeIp e)),
      (13400, Some (DoIP_ProcessRx e))]"

definition SoAd_RxIndication :: "net_env \<Rightarrow> u16 \<Rightarrow> 'a com_scheme pdu_target" where
  "SoAd_RxIndication e port payload n s =
     (case table_route (SoAd_RxPortTable e) port of None \<Rightarrow> s | Some callback \<Rightarrow> callback payload n s)"

section \<open>The tables reach every entry\<close>

interpretation rx_table: routing_table "PduR_Rx_RoutingTable e"
  by unfold_locales (simp add: PduR_Rx_RoutingTable_def)

interpretation can_table: routing_table "CanIf_RxTable e"
  by unfold_locales (simp add: CanIf_RxTable_def)

interpretation port_table: routing_table "SoAd_RxPortTable e"
  by unfold_locales (simp add: SoAd_RxPortTable_def)

lemma RouteRx_targets:
  "PduR_RouteRx e 0x01 = UDP_Ctr_ProcessRx" "PduR_RouteRx e 0x02 = SomeIp_ProcessRx e"
  "PduR_RouteRx e 0x03 = UDS_TCP_Main_ProcessRx e" "PduR_RouteRx e 0x04 = UDS_TCP_Act_ProcessRx e"
  "PduR_RouteRx e 0x05 = UDS_TCP_Body_ProcessRx e" "PduR_RouteRx e 0x11 = CAN_Stat_processRx"
  "PduR_RouteRx e 0x12 = CAN_Event_processRx e" "PduR_RouteRx e 0x13 = CAN_Body_processRx"
  "PduR_RouteRx e 0x17 = CAN_Act_UDS_processRx e" "PduR_RouteRx e 0x18 = CAN_Body_UDS_processRx e"
  by (intro ext; simp add: PduR_RouteRx_def PduR_Rx_RoutingTable_def)+

lemma CanIf_targets:
  "CanIf_RxIndication e 0x200 = PduR_RouteRx_CanStatus e"
  "CanIf_RxIndication e 0x210 = PduR_RouteRx_CanEvent e"
  "CanIf_RxIndication e 0x310 = PduR_RouteRx_CanBody e"
  "CanIf_RxIndication e 0x708 = CanTp_Act_RxIndication e"
  "CanIf_RxIndication e 0x718 = CanTp_Body_RxIndication e"
  by (simp_all add: CanIf_RxIndication_def CanIf_RxTable_def fun_eq_iff)

lemma SoAd_targets:
  "SoAd_RxIndication e 5000 = UDP_Ctr_ProcessRx" "SoAd_RxIndication e 30492 = SomeIp_ProcessRx e"
  "SoAd_RxIndication e 13400 = DoIP_ProcessRx e"
  by (intro ext; simp add: SoAd_RxIndication_def SoAd_RxPortTable_def PduR_RouteRx_Control_def
      PduR_RouteRx_SomeIp_def RouteRx_targets)+

lemma unknown_targets:
  "r \<notin> {0x01, 0x02, 0x03, 0x04, 0x05, 0x11, 0x12, 0x13, 0x17, 0x18} \<Longrightarrow> PduR_RouteRx e r p n s = s"
  "c \<notin> {0x200, 0x210, 0x310, 0x708, 0x718} \<Longrightarrow> CanIf_RxIndication e c p n' s = s"
  "port \<notin> {5000, 30492, 13400} \<Longrightarrow> SoAd_RxIndication e port p n s = s"
  unfolding PduR_RouteRx_def CanIf_RxIndication_def SoAd_RxIndication_def
  by (subst rx_table.route_unknown can_table.route_unknown port_table.route_unknown;
      simp add: PduR_Rx_RoutingTable_def CanIf_RxTable_def SoAd_RxPortTable_def)+

end
