(* ===== verification/Main_Ecu.thy ===== *)
theory Main_Ecu
  imports Main_Route
begin

unbundle bit_operations_syntax

text \<open>
  The gateway as a whole: service discovery (\<open>src/MAIN/BSW/Interface/sd.c\<close>), the callbacks of the TCP/IP
  stack (\<open>tcp_server_recv\<close>, \<open>udp_receive_recv\<close>), the reception loop of \<open>src/MAIN/candrv.c\<close> and the main
  program \<open>src/MAIN/Cpu0_Main.c\<close>. Everything runs in the main loop but the millisecond interrupt, which
  only counts \<open>g_TickCount_1ms\<close>; the relation \<open>main_step\<close> interleaves the two, with any packets and any
  frames arriving.
\<close>

section \<open>Service discovery\<close>

record main_ecu = com +
  Sd_SessionId :: u16
  Sd_LastOfferTime :: u32

abbreviation (input) SD_MULTICAST_IP :: string where "SD_MULTICAST_IP \<equiv> ''224.224.224.245''"
abbreviation (input) SD_MULTICAST_PORT :: u16 where "SD_MULTICAST_PORT \<equiv> 30490"
abbreviation (input) SD_SERVICE_ID :: u16 where "SD_SERVICE_ID \<equiv> 0x2001"
abbreviation (input) SD_INSTANCE_ID :: u16 where "SD_INSTANCE_ID \<equiv> 0x0001"
abbreviation (input) SD_MAJOR_VERSION :: u8 where "SD_MAJOR_VERSION \<equiv> 0x01"
abbreviation (input) SD_MINOR_VERSION :: u32 where "SD_MINOR_VERSION \<equiv> 0x00000001"
abbreviation (input) SD_TTL :: u32 where "SD_TTL \<equiv> 10"
abbreviation (input) SD_ENDPOINT_PORT :: u16 where "SD_ENDPOINT_PORT \<equiv> 30492"
abbreviation (input) SD_PROTOCOL_UDP :: u8 where "SD_PROTOCOL_UDP \<equiv> 0x11"

text \<open>Values in network order.\<close>

definition net16 :: "u16 \<Rightarrow> u8 list" where
  "net16 w = [hi8 w, lo8 w]"

definition net32 :: "u32 \<Rightarrow> u8 list" where
  "net32 w = [byte_at 24 w, byte_at 16 w, byte_at 8 w, byte_at 0 w]"

definition sd_offer :: "u16 \<Rightarrow> u8 list" where
  "sd_offer sessionId =
     net16 0xFFFF @ net16 0x8100 @ net32 48 @ net16 0x0000 @ net16 sessionId @
     [0x01, 0x01, 0x02, 0x00] @
     [0x00, 0x00, 0x00, 0x00] @
     net32 16 @
     [0x01, 0x00, 0x00, 0x10] @ net16 SD_SERVICE_ID @ net16 SD_INSTANCE_ID @
     [SD_MAJOR_VERSION, ucast (drop_bit 16 SD_TTL AND 0xFF), ucast (drop_bit 8 SD_TTL AND 0xFF),
      ucast (SD_TTL AND 0xFF)] @ net32 SD_MINOR_VERSION @
     net32 12 @
     net16 9 @ [0x04, 0x00] @ [192, 168, 10, 2] @ [0x00, SD_PROTOCOL_UDP] @ net16 SD_ENDPOINT_PORT"

definition Sd_SendOfferService :: "net_env \<Rightarrow> 'a main_ecu_scheme \<Rightarrow> 'a main_ecu_scheme" where
  "Sd_SendOfferService e s =
     (let buffer = sd_offer (Sd_SessionId s);
          s = s\<lparr>Sd_SessionId := Sd_SessionId s + 1\<rparr>
      in snd (SoAd_TransmitMulticast e SD_MULTICAST_IP SD_MULTICAST_PORT (array buffer) (of_nat (length buffer)) s))"

definition Sd_Init :: "'a main_ecu_scheme \<Rightarrow> 'a main_ecu_scheme" where
  "Sd_Init s = s\<lparr>Sd_SessionId := 1, Sd_LastOfferTime := 0\<rparr>"

definition Sd_MainFunction :: "net_env \<Rightarrow> 'a main_ecu_scheme \<Rightarrow> 'a main_ecu_scheme" where
  "Sd_MainFunction e s =
     (let now = Get_SystemTime_ms s
      in if now - Sd_LastOfferTime s \<ge> 1000
         then Sd_SendOfferService e (s\<lparr>Sd_LastOfferTime := now\<rparr>)
         else s)"

section \<open>Callbacks of the TCP/IP stack\<close>

text \<open>A received buffer: its payload and the length of its first segment.\<close>

type_synonym pbuf = "memory \<times> u16"

definition tcp_server_recv ::
  "net_env \<Rightarrow> pcb \<Rightarrow> u16 \<Rightarrow> pbuf option \<Rightarrow> err_t \<Rightarrow> 'a com_scheme \<Rightarrow> err_t \<times> 'a com_scheme" where
  "tcp_server_recv e tpcb local_port p err s =
     (case p of
        None \<Rightarrow>
          let s = tcp_server_close (Some tpcb) s;
              s = (if local_port = 13400 then Callback_Diag_RoutingDeactivated s else s)
          in (ERR_OK, s)
      | Some (payload, n) \<Rightarrow>
          if err \<noteq> ERR_OK then (err, s)
          else (ERR_OK, SoAd_RxIndication e local_port payload n s))"

definition udp_receive_recv ::
  "net_env \<Rightarrow> u16 \<Rightarrow> pbuf option \<Rightarrow> ip_addr option \<Rightarrow> u16 \<Rightarrow> 'a com_scheme \<Rightarrow> 'a com_scheme" where
  "udp_receive_recv e local_port p addr port s =
     (case p of
        None \<Rightarrow> s
      | Some (payload, n) \<Rightarrow>
          let s = (case addr of
                     None \<Rightarrow> s
                   | Some addr \<Rightarrow>
                       let s = (if local_port = CTR_PORT \<or> local_port = SOMEIP_PORT then s\<lparr>pcip := addr\<rparr> else s)
                       in if local_port = SOMEIP_PORT then s\<lparr>someip_port := port\<rparr> else s)
          in SoAd_RxIndication e local_port payload n s)"

section \<open>CAN reception\<close>

text \<open>
  One round of the loop of \<open>Can_ReadNode\<close>: the message is copied into a local array, whose bytes behind
  the message are whatever they were. A list of messages stands for what the queue holds until it is
  found empty.
\<close>

definition can_payload :: "can_msg \<Rightarrow> memory \<Rightarrow> memory" where
  "can_payload msg stale =
     (\<lambda>i. if i < unat (Can_GetLength (of_nat (cm_dlc msg))) then array (le_bytes (cm_data msg)) i else stale i)"

definition can_receive :: "net_env \<Rightarrow> can_msg \<times> memory \<Rightarrow> 'a com_scheme \<Rightarrow> 'a com_scheme" where
  "can_receive e = (\<lambda>(msg, stale) s.
     CanIf_RxIndication e (cm_id msg) (can_payload msg stale) (Can_GetLength (of_nat (cm_dlc msg))) s)"

definition Can_ReadNode :: "net_env \<Rightarrow> (can_msg \<times> memory) list \<Rightarrow> 'a com_scheme \<Rightarrow> 'a com_scheme" where
  "Can_ReadNode e fifo s = fold (can_receive e) fifo s"

definition Can_Read ::
  "net_env \<Rightarrow> (can_msg \<times> memory) list \<Rightarrow> (can_msg \<times> memory) list \<Rightarrow> 'a com_scheme \<Rightarrow> 'a com_scheme" where
  "Can_Read e fifo0 fifo2 s = Can_ReadNode e fifo2 (Can_ReadNode e fifo0 s)"

section \<open>The main program\<close>

text \<open>The initial values of the static variables.\<close>

definition main_statics :: "'a main_ecu_scheme \<Rightarrow> 'a main_ecu_scheme" where
  "main_statics s =
     s\<lparr>g_TickCount_1ms := 0, net_calls := 0, net_out := [], tcp_listen_pcb := None, tcp_active_pcb := None, udp_send_pcb := None,
       udp_ctr_pcb := None, udp_doip_pcb := None, udp_someip_pcb := None, udp_receivers := [],
       pcip := [0, 0, 0, 0], someip_port := 0, SoAd_IsClosePending := False, SoAd_CloseRequestTime := 0,
       Current_Diag_Session := 0x01, DtcStatus_Pc := 0, DtcStatus_Act := 0, DtcStatus_Body := 0,
       DtcOccurCount_Pc := 0, DtcOccurCount_Act := 0, DtcOccurCount_Body := 0,
       Ctr_accel := 0, Ctr_brake := 0, Ctr_steer := 0, Ctr_gear := 0, Ctr_turn_signal := 0, Ctr_horn := 0,
       Ctr_ignition := 0, Ctr_head_light := 0, Stat_speedl := 0, Stat_speedh := 0, Stat_gear := 0,
       Stat_steer := 0, Stat_steering_angle := 0, Body_alive_cnt := 0, COM_Collision_Warn := 1,
       COM_Cur_Mode := 0, COM_Safety_Override := 0, COM_Stat_Cnt := 0,
       COM_TxBuf_CtrAct_CAN := replicate 6 0, COM_TxBuf_CtrBody_CAN := replicate 6 0,
       COM_TxBuf_Stat_UDP := replicate 3 0, Last_Udp_RxTime := 0, Last_Act_RxTime := 0,
       Last_Body_RxTime := 0, lastTime_20ms := 0, lastTime_50ms := 0,
       Sd_SessionId := 1, Sd_LastOfferTime := 0\<rparr>"

definition main_init :: "net_env \<Rightarrow> 'a main_ecu_scheme \<Rightarrow> 'a main_ecu_scheme" where
  "main_init e s = Sd_Init (TcpInit e (UdpInit e s))"

text \<open>What the loop does after the stack and the CAN queues are emptied.\<close>

definition main_work :: "net_env \<Rightarrow> 'a main_ecu_scheme \<Rightarrow> 'a main_ecu_scheme" where
  "main_work e s =
     (let s = COM_TimeOut s;
          s = COM_Tx_MainFunction e s;
          s = Sd_MainFunction e s
      in SoAd_MainFunction s)"

datatype main_pc = PcPoll | PcCan | PcTimeOut | PcTransmit | PcSd | PcSoAd

inductive main_step :: "net_env \<Rightarrow> main_pc \<times> main_ecu \<Rightarrow> main_pc \<times> main_ecu \<Rightarrow> bool" for e where
  tick: "main_step e (pc, s) (pc, s\<lparr>g_TickCount_1ms := g_TickCount_1ms s + 1\<rparr>)"
| accept: "tcp_listen_pcb s \<noteq> None \<Longrightarrow> main_step e (PcPoll, s) (PcPoll, snd (tcp_server_accept newpcb err s))"
| segment: "tcp_active_pcb s = Some tpcb \<Longrightarrow>
    main_step e (PcPoll, s) (PcPoll, snd (tcp_server_recv e tpcb TCP_SERVER_PORT p err s))"
| lost: "tcp_active_pcb s \<noteq> None \<Longrightarrow> main_step e (PcPoll, s) (PcPoll, tcp_server_error s)"
| datagram: "(upcb, local_port) \<in> set (udp_receivers s) \<Longrightarrow>
    main_step e (PcPoll, s) (PcPoll, udp_receive_recv e local_port p addr port s)"
| polled: "main_step e (PcPoll, s) (PcCan, s)"
| frame: "main_step e (PcCan, s) (PcCan, can_receive e m s)"
| read: "main_step e (PcCan, s) (PcTimeOut, s)"
| timeout: "main_step e (PcTimeOut, s) (PcTransmit, COM_TimeOut s)"
| transmit: "main_step e (PcTransmit, s) (PcSd, COM_Tx_MainFunction e s)"
| offer: "main_step e (PcSd, s) (PcSoAd, Sd_MainFunction e s)"
| sockets: "main_step e (PcSoAd, s) (PcPoll, SoAd_MainFunction s)"

inductive main_reachable :: "net_env \<Rightarrow> main_pc \<times> main_ecu \<Rightarrow> bool" for e where
  init: "main_reachable e (PcPoll, main_init e (main_statics s))"
| step: "main_reachable e x \<Longrightarrow> main_step e x y \<Longrightarrow> main_reachable e y"

inductive_cases main_stepE: "main_step e (pc, s) y"

end
