(* ===== verification/Main_Out.thy ===== *)
theory Main_Out
  imports Main_Ecu
begin

unbundle bit_operations_syntax

text \<open>
  What the gateway sends. Every sending operation only appends events and counts calls
  (\<open>emits\<close>), and every event it appends is well formed (\<open>event_ok\<close>): a DoIP message whose header gives
  its length, a CAN frame with the identifier, node and length the two other control units expect, a
  short datagram.
\<close>

section \<open>Well-formed events\<close>

definition be32 :: "u8 \<Rightarrow> u8 \<Rightarrow> u8 \<Rightarrow> u8 \<Rightarrow> u32" where
  "be32 a b c d = pack_le d c b a"

definition doip_ok :: "u8 list \<Rightarrow> bool" where
  "doip_ok bs \<longleftrightarrow> 8 < length bs \<and> length bs \<le> 1024 \<and> bs ! 0 = 0x02 \<and> bs ! 1 = 0xFD \<and>
     be16 (bs ! 2) (bs ! 3) \<in> {0x0000, 0x0006, 0x8001, 0x8002, 0x8003} \<and>
     be32 (bs ! 4) (bs ! 5) (bs ! 6) (bs ! 7) = of_nat (length bs - 8)"

fun event_ok :: "net_event \<Rightarrow> bool" where
  "event_ok (TcpWrite p bs) = doip_ok bs"
| "event_ok (TcpClose p) = True"
| "event_ok (UdpSendTo p ip port bs) = (bs \<noteq> [])"
| "event_ok (CanMessage node msg) =
     (length (cm_data msg) = 16 \<and>
      (node = CanNode0 \<and> cm_id msg = 0x100 \<and> cm_dlc msg = 6 \<or>
       node = CanNode2 \<and> cm_id msg = 0x110 \<and> cm_dlc msg = 6 \<or>
       (node = CanNode0 \<and> cm_id msg = 0x700 \<or> node = CanNode2 \<and> cm_id msg = 0x710) \<and> cm_dlc msg = 8 \<and>
         (let n = byte_at 0 (cm_data msg ! 0) in 0 < n \<and> n \<le> 7)))"

definition emits :: "'a net_scheme \<Rightarrow> 'a net_scheme \<Rightarrow> bool" where
  "emits s t \<longleftrightarrow> (\<exists>c vs. t = s\<lparr>net_calls := c, net_out := net_out s @ vs\<rparr> \<and> list_all event_ok vs)"

lemma emits_refl [intro, simp]: "emits s s"
  unfolding emits_def by (rule exI [of _ "net_calls s"], rule exI [of _ "[]"]) simp

lemma emits_call [intro, simp]: "emits s (call s)"
  unfolding emits_def call_def by (rule exI [of _ "Suc (net_calls s)"], rule exI [of _ "[]"]) simp

lemma emits_emit [intro]: "event_ok v \<Longrightarrow> emits s (emit v s)"
  unfolding emits_def emit_def by (rule exI [of _ "net_calls s"], rule exI [of _ "[v]"]) simp

lemma emits_trans [trans]: "emits s t \<Longrightarrow> emits t u \<Longrightarrow> emits s u"
  unfolding emits_def by (elim exE conjE, rule exI, rule exI) (auto simp: append_assoc)

lemma emits_call_emit: "event_ok v \<Longrightarrow> emits s (emit v (call s))"
  using emits_trans [OF emits_call emits_emit] .

section \<open>Each sender\<close>

lemma TcpSend_emits:
  assumes "doip_ok (bytes data (unat n))" shows "emits s (snd (TcpSend e data n s))"
  using assms by (auto simp: TcpSend_def Let_def intro: emits_call_emit split: option.split)

lemma UdpSend_WithPcb_emits: "emits s (snd (UdpSend_WithPcb e upcb a port data n s))"
proof -
  have "n \<noteq> 0 \<Longrightarrow> bytes data (unat n) \<noteq> []"
    by (simp add: unat_eq_0 flip: length_0_conv)
  then show ?thesis
    by (auto simp: UdpSend_WithPcb_def Let_def intro: emits_trans [OF emits_call emits_call_emit]
        split: option.split)
qed

lemma IfTransmit_emits:
  "port \<noteq> 13400 \<or> doip_ok (bytes payload (unat n)) \<Longrightarrow> emits s (SoAd_IfTransmit e port payload n s)"
  by (auto simp: SoAd_IfTransmit_def UdpSendToPC_def UdpSendToRPi_def UdpSendSomeIpResponse_def Let_def
      intro: TcpSend_emits UdpSend_WithPcb_emits)

lemma bytes_array_self: "unat n = length xs \<Longrightarrow> bytes (array xs) (unat n) = xs"
  by simp

text \<open>The length field of a DoIP message.\<close>

lemma byte_split:
  fixes w :: u32
  shows "ucast (drop_bit 24 w) = byte_at 24 w" "ucast (drop_bit 16 w) = byte_at 16 w"
    "ucast (drop_bit 8 w) = byte_at 8 w" "ucast (w AND 0xFF) = byte_at 0 w"
  by (rule bit_word_eqI; auto simp: byte_at_def mask_8_conv bit_simps)+

lemma be32_bytes [simp]: "be32 (byte_at 24 w) (byte_at 16 w) (byte_at 8 w) (byte_at 0 w) = w"
  by (simp add: be32_def pack_le_byte_at)

lemma half_split:
  fixes w :: u16
  shows "ucast (drop_bit 8 w) = hi8 w" "ucast (w AND 0xFF) = lo8 w"
  by (rule bit_word_eqI; auto simp: hi8_def lo8_def mask_8_conv bit_simps)+

lemma ProcessTx_packet:
  assumes "unat n \<le> 1012"
  shows "DoIP_ProcessTx e sa udsData n s =
    SoAd_IfTransmit e 13400
      (array ([0x02, 0xFD, 0x80, 0x01] @ net32 (4 + ucast n) @ net16 sa @ [0x0E, 0x00] @ bytes udsData (unat n)))
      (12 + n) s"
proof -
  have w: "unat (4 + ucast n :: u32) = 4 + unat n" "unat (8 + (4 + ucast n) :: u32) = 12 + unat n"
    "unat (12 + n) = 12 + unat n"
    using assms by (simp_all add: unat_word_ariths unsigned_ucast_eq take_bit_nat_eq_self)
  have total: "ucast (8 + (4 + ucast n :: u32)) = 12 + n"
    using assms by (simp only: word_unat_eq_iff unsigned_ucast_eq w) (simp add: take_bit_nat_eq_self)
  moreover have "\<not> 1024 < 12 + n" using assms by (simp add: word_less_nat_alt w)
  ultimately show ?thesis
    by (simp add: DoIP_ProcessTx_def Let_def byte_split half_split net32_def net16_def)
qed

lemma doip_ok_packet:
  assumes "0 < length body" "length body \<le> 1016" "be16 a b \<in> {0x0000, 0x0006, 0x8001, 0x8002, 0x8003}"
    and "len = of_nat (length body)"
  shows "doip_ok ([0x02, 0xFD, a, b] @ net32 len @ body)"
  using assms by (simp add: doip_ok_def net32_def)

lemma ProcessTx_emits:
  assumes "unat n \<le> 1012"
  shows "emits s (DoIP_ProcessTx e sa udsData n s)"
proof -
  let ?body = "net16 sa @ [0x0E, 0x00] @ bytes udsData (unat n)"
  have "doip_ok ([0x02, 0xFD, 0x80, 0x01] @ net32 (4 + ucast n) @ ?body)"
    by (rule doip_ok_packet) (use assms in \<open>simp_all add: net16_def be16_def\<close>)
  moreover have "unat (12 + n) = 12 + unat n" using assms by (simp add: unat_word_ariths)
  ultimately show ?thesis unfolding ProcessTx_packet [OF assms]
    by (intro IfTransmit_emits disjI2) (subst bytes_array_self; simp add: net32_def net16_def)
qed

section \<open>Answers of the gateway itself\<close>

lemma answer_emits: "length bs \<le> 1012 \<Longrightarrow> emits s (dcm_answer e bs s)"
  unfolding dcm_answer_def by (rule ProcessTx_emits) (simp add: unat_of_nat take_bit_nat_eq_self)

text \<open>A packet written out, with a length below 256.\<close>

lemma doip_ok_short:
  assumes "0 < length body" "unat n = length body" "be16 a b \<in> {0x0000, 0x0006, 0x8001, 0x8002, 0x8003}"
  shows "doip_ok ([0x02, 0xFD, a, b, 0, 0, 0, n] @ body)"
proof -
  have "length body < 256" using unsigned_less [of n] by (simp add: assms(2) [symmetric])
  moreover have "be32 0 0 0 n = of_nat (length body)"
    unfolding assms(2) [symmetric]
    by (rule bit_word_eqI) (auto simp: be32_def bit_pack_le bit_simps dest: bit_imp_le_length)
  ultimately show ?thesis using assms(1,3) by (simp add: doip_ok_def)
qed

lemma nack_emits: "emits s (DoIP_SendGenericNack e port c s)"
  using doip_ok_short [of "[c]" 1 0 0]
  by (auto simp: DoIP_SendGenericNack_def be16_def intro!: IfTransmit_emits)

lemma diag_ack_emits: "emits s (DoIP_SendDiagAck e port sa ta c s)" "emits s (DoIP_SendDiagNack e port sa ta c s)"
  using doip_ok_short [of "net16 sa @ net16 ta @ [c]" 5 "0x80" 2] doip_ok_short [of "net16 sa @ net16 ta @ [c]" 5 "0x80" 3]
  by (auto simp: DoIP_SendDiagAck_def DoIP_SendDiagNack_def net16_def be16_def half_split intro!: IfTransmit_emits)

lemma activation_emits: "emits s (DoIP_SendRoutingActivationResponse e port sa c s)"
proof -
  have "replicate 4 0 = [0, 0, 0, 0 :: u8]" by (simp add: eval_nat_numeral)
  then show ?thesis using doip_ok_short [of "[hi8 sa, lo8 sa, 0, 1, c, 0, 0, 0, 0]" 9 0 6]
    by (auto simp: DoIP_SendRoutingActivationResponse_def be16_def half_split intro!: IfTransmit_emits)
qed

section \<open>CAN frames\<close>

text \<open>The bytes of a frame in its sixteen data words.\<close>

definition frame_words :: "memory \<Rightarrow> nat \<Rightarrow> u32 list" where
  "frame_words data n = le_words (bytes data n @ replicate (64 - n) 0)"

lemma length_frame_words: "n \<le> 64 \<Longrightarrow> length (frame_words data n) = 16"
  by (simp add: frame_words_def)

lemma frame_words_nth:
  "4 * i + 3 < n \<Longrightarrow> n \<le> 64 \<Longrightarrow>
     frame_words data n ! i = pack_le (data (4 * i)) (data (4 * i + 1)) (data (4 * i + 2)) (data (4 * i + 3))"
  using le_words_nth [of i "bytes data n @ replicate (64 - n) 0"] by (simp add: frame_words_def nth_append)

lemma Can_Send_frame:
  "n \<le> 64 \<Longrightarrow> Can_Send e canId data n s =
     (if canId = 0x100 \<or> canId = 0x700 \<or> canId = 0x110 \<or> canId = 0x710 then
        if ne_can e (net_calls s) = NotSentBusy then (False, call s)
        else (True, emit (CanMessage (if canId = 0x100 \<or> canId = 0x700 then CanNode0 else CanNode2)
               \<lparr>cm_id = canId, cm_dlc = unat (Can_GetDlc n), cm_data = frame_words data (unat n)\<rparr>) (call s))
      else (False, s))"
  by (auto simp: Can_Send_def frame_words_def Let_def not_less)

lemma CanIf_cases:
  assumes "n \<le> 64"
  obtains "CanIf_Transmit e canId data n s = s" | "CanIf_Transmit e canId data n s = call s"
  | "CanIf_Transmit e canId data n s = emit (CanMessage (if canId = 0x100 \<or> canId = 0x700 then CanNode0 else CanNode2)
        \<lparr>cm_id = canId, cm_dlc = unat (Can_GetDlc n), cm_data = frame_words data (unat n)\<rparr>) (call s)"
  using assms by (cases "ne_can e (net_calls s) = NotSentBusy"; cases "canId = 0x100 \<or> canId = 0x700";
      cases "canId = 0x110 \<or> canId = 0x710") (simp_all add: CanIf_Transmit_def Can_Send_frame)

lemma Can_Send_emits:
  assumes "n \<le> 64" "event_ok (CanMessage (if canId = 0x100 \<or> canId = 0x700 then CanNode0 else CanNode2)
               \<lparr>cm_id = canId, cm_dlc = unat (Can_GetDlc n), cm_data = frame_words data (unat n)\<rparr>)"
  shows "emits s (CanIf_Transmit e canId data n s)"
  using assms(1) by (rule CanIf_cases [of n e canId data s]) (simp_all only: emits_refl emits_call emits_call_emit [OF assms(2)])

lemma command_emits: "canId = 0x100 \<or> canId = 0x110 \<Longrightarrow> emits s (CanIf_Transmit e canId data 6 s)"
  by (rule Can_Send_emits) (auto simp: Can_GetDlc_def length_frame_words)

lemma request_emits:
  assumes "canId = 0x700 \<or> canId = 0x710" "0 < data 0" "data 0 \<le> 7"
  shows "emits s (CanIf_Transmit e canId data 8 s)"
proof -
  have "byte_at 0 (frame_words data 8 ! 0) = data 0" using frame_words_nth [of 0 8 data] by simp
  then show ?thesis using assms by (intro Can_Send_emits) (auto simp: Can_GetDlc_def length_frame_words)
qed

lemma single_frame_first: "unat n \<le> 7 \<Longrightarrow> unat (single_frame data n ! 0) = unat n"
  by (simp add: single_frame_def low_nibble unsigned_ucast_eq take_bit_nat_eq_self)

lemma length_single_frame: "unat n \<le> 7 \<Longrightarrow> length (single_frame data n) = 8"
  by (simp add: single_frame_def)

lemma CanTp_emits:
  assumes "canId = 0x700 \<or> canId = 0x710" shows "emits s (CanTp_Transmit e canId data n s)"
proof (cases "n = 0 \<or> n > 7")
  case False
  then have n: "0 < unat n" "unat n \<le> 7" by (simp_all add: word_less_nat_alt unat_gt_0)
  then have "unat (array (single_frame data n) 0) = unat n" by (simp add: single_frame_first length_single_frame)
  then have "0 < array (single_frame data n) 0 \<and> array (single_frame data n) 0 \<le> 7"
    using n by (simp add: word_less_nat_alt word_le_nat_alt)
  with False assms show ?thesis by (auto simp: CanTp_Transmit_def Let_def intro!: request_emits)
qed (auto simp: CanTp_Transmit_def)

lemma RouteTx_emits:
  "emits s (PduR_RouteTx e 0xA1 p 6 s)" "emits s (PduR_RouteTx e 0xA2 p 6 s)"
  "emits s (PduR_RouteTx e 0xB1 p n s)" "emits s (PduR_RouteTx e 0xC1 p n s)"
  by (auto simp: RouteTx_targets CAN_Ctr_ActTx_def CAN_Ctr_BodyTx_def UDP_Stat_Tx_def UDP_SOMEIP_Tx_def
      intro!: command_emits IfTransmit_emits)

end
