(* ===== verification/Main_Invariant.thy ===== *)
theory Main_Invariant
  imports Main_Out Dtc_Byte
begin

unbundle bit_operations_syntax

text \<open>
  The invariant of the gateway, and that every handler of the main loop keeps it: all events sent are
  well formed, and the modes, the diagnostic session, the trouble codes and the receiving sockets have
  the values they can have.
\<close>

section \<open>The invariant\<close>

text \<open>A trouble code: bit 0 is set while losses are counted, bit 3 after three of them.\<close>

definition comm_dtc_ok :: "u8 \<Rightarrow> u8 \<Rightarrow> bool" where
  "comm_dtc_ok st n \<longleftrightarrow> st AND NOT 9 = 0 \<and> (st AND 1 \<noteq> 0 \<longleftrightarrow> 0 < n) \<and> (3 \<le> n \<longrightarrow> st AND 8 \<noteq> 0)"

text \<open>All that was sent before, \<open>h\<close>, is still there: messages are only added.\<close>

definition main_ok :: "net_event list \<Rightarrow> 'a com_scheme \<Rightarrow> bool" where
  "main_ok h s \<longleftrightarrow> (\<exists>vs. net_out s = h @ vs) \<and> list_all event_ok (net_out s) \<and> COM_Cur_Mode s \<le> 2 \<and> COM_Safety_Override s \<le> 1 \<and>
     Current_Diag_Session s \<in> {1, 3} \<and>
     comm_dtc_ok (DtcStatus_Pc s) (DtcOccurCount_Pc s) \<and> comm_dtc_ok (DtcStatus_Act s) (DtcOccurCount_Act s) \<and>
     comm_dtc_ok (DtcStatus_Body s) (DtcOccurCount_Body s) \<and>
     (\<forall>port \<in> snd ` set (udp_receivers s). port \<in> {5000, 13400, 30492})"

lemma main_ok_emits [fw_inv]: "main_ok h s \<Longrightarrow> emits s t \<Longrightarrow> main_ok h t"
  by (auto simp: main_ok_def emits_def)

section \<open>Trouble codes\<close>

definition comm_loss :: "u8 \<times> u8 \<Rightarrow> u8 \<times> u8" where
  "comm_loss = (\<lambda>(st, n).
     let n = (if n < 255 then n + 1 else n) in (if 3 \<le> n then (st OR 1) OR 8 else st OR 1, n))"

definition comm_back :: "u8 \<times> u8 \<Rightarrow> u8 \<times> u8" where
  "comm_back = (\<lambda>(st, n). (st AND NOT 1, 0))"

lemma comm_loss_ok: "case_prod comm_dtc_ok p \<Longrightarrow> case_prod comm_dtc_ok (comm_loss p)"
proof (cases p)
  case (Pair st n)
  have "n < 255 \<Longrightarrow> unat (n + 1) = Suc (unat n)" by (rule unat_inc_below)
  then show "case_prod comm_dtc_ok p \<Longrightarrow> ?thesis"
    by (auto simp: Pair comm_loss_def comm_dtc_ok_def Let_def u8_bits_09 u8_mask_09 word_less_nat_alt word_le_nat_alt)
qed

lemma comm_back_ok: "case_prod comm_dtc_ok p \<Longrightarrow> case_prod comm_dtc_ok (comm_back p)"
  by (cases p) (simp add: comm_back_def comm_dtc_ok_def u8_bits_09 u8_mask_09)

text \<open>The callbacks, field by field.\<close>

lemma PcCommloss_form:
  "DCM_Callback_PcCommloss s = s\<lparr>DtcStatus_Pc := fst (comm_loss (DtcStatus_Pc s, DtcOccurCount_Pc s)),
     DtcOccurCount_Pc := snd (comm_loss (DtcStatus_Pc s, DtcOccurCount_Pc s))\<rparr>"
  by (simp add: DCM_Callback_PcCommloss_def comm_loss_def Let_def)

lemma ActCommloss_form:
  "DCM_Callback_ActCommloss s = s\<lparr>DtcStatus_Act := fst (comm_loss (DtcStatus_Act s, DtcOccurCount_Act s)),
     DtcOccurCount_Act := snd (comm_loss (DtcStatus_Act s, DtcOccurCount_Act s))\<rparr>"
  by (simp add: DCM_Callback_ActCommloss_def comm_loss_def Let_def)

lemma BodyCommloss_form:
  "DCM_Callback_BodyCommloss s = s\<lparr>DtcStatus_Body := fst (comm_loss (DtcStatus_Body s, DtcOccurCount_Body s)),
     DtcOccurCount_Body := snd (comm_loss (DtcStatus_Body s, DtcOccurCount_Body s))\<rparr>"
  by (simp add: DCM_Callback_BodyCommloss_def comm_loss_def Let_def)

lemma Recovered_form:
  "DCM_Callback_PcRecovered s = s\<lparr>DtcStatus_Pc := fst (comm_back (DtcStatus_Pc s, DtcOccurCount_Pc s)),
     DtcOccurCount_Pc := snd (comm_back (DtcStatus_Pc s, DtcOccurCount_Pc s))\<rparr>"
  "DCM_Callback_ActRecovered s = s\<lparr>DtcStatus_Act := fst (comm_back (DtcStatus_Act s, DtcOccurCount_Act s)),
     DtcOccurCount_Act := snd (comm_back (DtcStatus_Act s, DtcOccurCount_Act s))\<rparr>"
  "DCM_Callback_BodyRecovered s = s\<lparr>DtcStatus_Body := fst (comm_back (DtcStatus_Body s, DtcOccurCount_Body s)),
     DtcOccurCount_Body := snd (comm_back (DtcStatus_Body s, DtcOccurCount_Body s))\<rparr>"
  by (simp_all add: DCM_Callback_PcRecovered_def DCM_Callback_ActRecovered_def DCM_Callback_BodyRecovered_def
      comm_back_def)

lemmas comm_forms = PcCommloss_form ActCommloss_form BodyCommloss_form Recovered_form

lemma main_ok_dtc [fw_inv]:
  assumes "main_ok h s"
  shows "main_ok h (DCM_Callback_PcCommloss s)" "main_ok h (DCM_Callback_ActCommloss s)"
    "main_ok h (DCM_Callback_BodyCommloss s)" "main_ok h (DCM_Callback_PcRecovered s)"
    "main_ok h (DCM_Callback_ActRecovered s)" "main_ok h (DCM_Callback_BodyRecovered s)"
    "main_ok h (DCM_Clear_All_DTC s)"
proof -
  note dtc = comm_loss_ok [of "(st, n)" for st n] comm_back_ok [of "(st, n)" for st n]
  have loss: "comm_dtc_ok st n \<Longrightarrow> comm_dtc_ok (fst (comm_loss (st, n))) (snd (comm_loss (st, n)))"
    and recover: "comm_dtc_ok st n \<Longrightarrow> comm_dtc_ok (fst (comm_back (st, n))) (snd (comm_back (st, n)))" for st n
    using dtc [of st n] by (simp_all add: case_prod_beta)
  then show "main_ok h (DCM_Callback_PcCommloss s)" "main_ok h (DCM_Callback_ActCommloss s)"
    "main_ok h (DCM_Callback_BodyCommloss s)" "main_ok h (DCM_Callback_PcRecovered s)"
    "main_ok h (DCM_Callback_ActRecovered s)" "main_ok h (DCM_Callback_BodyRecovered s)"
    using assms by (simp_all add: main_ok_def comm_forms)
  show "main_ok h (DCM_Clear_All_DTC s)"
    using assms by (simp add: main_ok_def DCM_Clear_All_DTC_def comm_dtc_ok_def)
qed

section \<open>Reception\<close>

lemma main_ok_fields:
  assumes "main_ok h s"
  shows "main_ok h (s\<lparr>Ctr_turn_signal := v\<rparr>)" "main_ok h (s\<lparr>COM_Collision_Warn := v\<rparr>)"
    "main_ok h (s\<lparr>Last_Udp_RxTime := t\<rparr>)" "main_ok h (s\<lparr>Last_Act_RxTime := t\<rparr>)" "main_ok h (s\<lparr>Last_Body_RxTime := t\<rparr>)"
    "main_ok h (s\<lparr>lastTime_20ms := t\<rparr>)" "main_ok h (s\<lparr>lastTime_50ms := t\<rparr>)"
    "main_ok h (s\<lparr>COM_TxBuf_CtrAct_CAN := bs\<rparr>)" "main_ok h (s\<lparr>COM_TxBuf_CtrBody_CAN := bs\<rparr>)"
    "main_ok h (s\<lparr>COM_TxBuf_Stat_UDP := bs\<rparr>)" "main_ok h (s\<lparr>COM_Stat_Cnt := v\<rparr>)" "main_ok h (s\<lparr>pcip := ip\<rparr>)"
    "main_ok h (s\<lparr>someip_port := p\<rparr>)" "main_ok h (s\<lparr>SoAd_IsClosePending := b\<rparr>)"
    "main_ok h (s\<lparr>SoAd_CloseRequestTime := t\<rparr>)" "main_ok h (s\<lparr>tcp_active_pcb := q\<rparr>)" "main_ok h (s\<lparr>tcp_listen_pcb := q\<rparr>)"
    "main_ok h (s\<lparr>g_TickCount_1ms := t\<rparr>)" "main_ok h (call s)"
    "m \<le> 2 \<Longrightarrow> main_ok h (s\<lparr>COM_Cur_Mode := m\<rparr>)" "m \<le> 1 \<Longrightarrow> main_ok h (s\<lparr>COM_Safety_Override := m\<rparr>)"
    "d = 1 \<or> d = 3 \<Longrightarrow> main_ok h (s\<lparr>Current_Diag_Session := d\<rparr>)"
  using assms by (auto simp: main_ok_def call_def)

lemma main_ok_answers [fw_inv]:
  assumes "main_ok h s"
  shows "length bs \<le> 1012 \<Longrightarrow> main_ok h (dcm_answer e bs s)" "main_ok h (Send_NegativeResponse e c d s)"
  using assms by (auto simp: Send_NegativeResponse_def intro!: main_ok_emits [OF _ answer_emits])

lemma main_ok_senders:
  assumes "main_ok h s"
  shows "c = 0x700 \<or> c = 0x710 \<Longrightarrow> main_ok h (CanTp_Transmit e c p n s)"
    "port \<noteq> 13400 \<Longrightarrow> main_ok h (SoAd_IfTransmit e port p n s)"
    "unat n \<le> 1012 \<Longrightarrow> main_ok h (DoIP_ProcessTx e sa p n s)"
  by (rule main_ok_emits [OF assms CanTp_emits] main_ok_emits [OF assms IfTransmit_emits]
      main_ok_emits [OF assms ProcessTx_emits]; simp)+

lemma main_ok_uds [fw_inv]: "main_ok h s \<Longrightarrow> main_ok h (Uds_ProcessRx e p n s)"
  by (simp add: Uds_ProcessRx_def dcm_session_control_def dcm_read_data_def dcm_read_dtc_def dcm_clear_dtc_def
      Let_def main_ok_answers main_ok_dtc main_ok_fields)

lemma main_ok_control [fw_inv]: "main_ok h s \<Longrightarrow> main_ok h (UDP_Ctr_ProcessRx p n s)"
  unfolding UDP_Ctr_ProcessRx_def Let_def by (rule main_ok_dtc) (simp add: main_ok_def COM_Set_Safety_Override_def)

lemma main_ok_someip [fw_inv]: "main_ok h s \<Longrightarrow> main_ok h (SomeIp_ProcessRx e p n s)"
  by (simp add: SomeIp_ProcessRx_def SomeIp_SendResponse_def SWC_BuzzerControlIndication_def COM_Set_Collision_Warn_def
      Let_def main_ok_emits [OF _ RouteTx_emits(4)] main_ok_fields)

lemma main_ok_states [fw_inv]:
  assumes "main_ok h s"
  shows "main_ok h (CAN_Stat_processRx p n s)" "main_ok h (CAN_Body_processRx p n s)"
  unfolding CAN_Stat_processRx_def CAN_Body_processRx_def Let_def
  by (rule main_ok_dtc; use assms in \<open>simp add: main_ok_def\<close>)+

lemma main_ok_route [fw_inv]:
  assumes "main_ok h s" and "r = 0x17 \<or> r = 0x18 \<longrightarrow> unat n \<le> 1012"
  shows "main_ok h (PduR_RouteRx e r p n s)"
proof (cases "r \<in> {0x01, 0x02, 0x03, 0x04, 0x05, 0x11, 0x12, 0x13, 0x17, 0x18}")
  case True
  then show ?thesis using assms
    by (auto simp: RouteRx_targets UDS_TCP_Main_ProcessRx_def UDS_TCP_Act_ProcessRx_def UDS_TCP_Body_ProcessRx_def
        CAN_Event_processRx_def CAN_Act_UDS_processRx_def CAN_Body_UDS_processRx_def main_ok_senders
        main_ok_uds main_ok_control main_ok_someip main_ok_states)
qed (use assms(1) in \<open>simp add: unknown_targets\<close>)

lemma main_ok_CanTp [fw_inv]: "main_ok h s \<Longrightarrow> main_ok h (CanTp_RxIndication e c p n s)"
proof -
  have "unat (ucast (p 0 AND 0xF) :: u16) \<le> 1012"
    using unsigned_less [of "p 0 AND 0xF", where 'a = nat] by (simp add: unsigned_ucast_eq take_bit_nat_eq_self)
  then show "main_ok h s \<Longrightarrow> ?thesis" by (simp add: CanTp_RxIndication_def Let_def main_ok_route)
qed

lemma main_ok_CanIf [fw_inv]: "main_ok h s \<Longrightarrow> main_ok h (CanIf_RxIndication e c p n s)"
  by (cases "c \<in> {0x200, 0x210, 0x310, 0x708, 0x718}")
    (auto simp: CanIf_targets unknown_targets PduR_RouteRx_CanStatus_def PduR_RouteRx_CanEvent_def PduR_RouteRx_CanBody_def
      CanTp_Act_RxIndication_def CanTp_Body_RxIndication_def intro!: main_ok_route main_ok_CanTp)

lemma main_ok_close [fw_inv]: "main_ok h s \<Longrightarrow> main_ok h (SoAd_CloseSocket port s)"
  by (simp add: SoAd_CloseSocket_def main_ok_def)

lemma main_ok_diagnostic [fw_inv]: "main_ok h s \<Longrightarrow> main_ok h (doip_diagnostic e port p n s)"
  by (simp add: doip_diagnostic_def Let_def main_ok_close main_ok_route main_ok_emits [OF _ diag_ack_emits(1)]
      main_ok_emits [OF _ diag_ack_emits(2)])

lemma main_ok_activation [fw_inv]: "main_ok h s \<Longrightarrow> main_ok h (DoIP_ProcessRoutingActivation e port p n s)"
  by (simp add: DoIP_ProcessRoutingActivation_def Callback_Diag_RoutingActivated_def COM_Set_CurMode_def Let_def
      main_ok_close main_ok_fields main_ok_emits [OF _ activation_emits])

lemma main_ok_DoIP [fw_inv]: "main_ok h s \<Longrightarrow> main_ok h (DoIP_ProcessRx e p n s)"
  by (simp add: DoIP_ProcessRx_def Let_def main_ok_close main_ok_diagnostic main_ok_activation
      main_ok_emits [OF _ nack_emits])

lemma main_ok_SoAd [fw_inv]: "main_ok h s \<Longrightarrow> main_ok h (SoAd_RxIndication e port p n s)"
proof (cases "port \<in> {5000, 30492, 13400}")
  case True
  then show "main_ok h s \<Longrightarrow> ?thesis" by (auto simp: SoAd_targets intro: main_ok_control main_ok_someip main_ok_DoIP)
qed (simp add: unknown_targets)

section \<open>The main loop\<close>

lemma main_ok_transmit:
  assumes "main_ok h s"
  shows "main_ok h (COM_Tx_CtrAct_CAN e s)" "main_ok h (COM_Tx_CtrBody_CAN e s)" "main_ok h (COM_Tx_Stat_UDP e s)"
  unfolding COM_Tx_CtrAct_CAN_def COM_Tx_CtrBody_CAN_def COM_Tx_Stat_UDP_def Let_def
  by (rule main_ok_emits [OF _ RouteTx_emits(1)] main_ok_emits [OF _ RouteTx_emits(2)]
      main_ok_emits [OF _ RouteTx_emits(3)]; simp add: main_ok_fields assms)+

lemma main_ok_main_tx [fw_inv]: "main_ok h s \<Longrightarrow> main_ok h (COM_Tx_MainFunction e s)"
  by (simp add: COM_Tx_MainFunction_def Let_def main_ok_transmit main_ok_fields)

lemma main_ok_timeout [fw_inv]: "main_ok h s \<Longrightarrow> main_ok h (COM_TimeOut s)"
  by (simp add: COM_TimeOut_def Callback_COM_PcTimeout_def COM_Set_Turn_Signal_def COM_Set_Safety_Override_def
      Let_def main_ok_fields main_ok_dtc)

lemma main_ok_offer [fw_inv]: "main_ok h s \<Longrightarrow> main_ok h (Sd_MainFunction e s)"
proof -
  have "main_ok h s \<Longrightarrow> main_ok h (Sd_SendOfferService e s)" for s :: "'a main_ecu_scheme"
    unfolding Sd_SendOfferService_def SoAd_TransmitMulticast_def UdpSend_def Let_def
    by (rule main_ok_emits [OF _ UdpSend_WithPcb_emits]) (simp add: main_ok_def)
  moreover have "main_ok h s \<Longrightarrow> main_ok h (s\<lparr>Sd_LastOfferTime := t\<rparr>)" for t by (simp add: main_ok_def)
  ultimately show "main_ok h s \<Longrightarrow> ?thesis" by (simp add: Sd_MainFunction_def Let_def)
qed

lemma main_ok_closed: "main_ok h s \<Longrightarrow> main_ok h (tcp_server_close q s)"
  by (cases q) (auto simp: tcp_server_close_def Let_def emit_def main_ok_def)

lemma main_ok_sockets [fw_inv]: "main_ok h s \<Longrightarrow> main_ok h (SoAd_MainFunction s)"
  by (simp add: SoAd_MainFunction_def doip_server_close_def main_ok_closed main_ok_fields)

lemma main_ok_callbacks [fw_inv]:
  assumes "main_ok h s"
  shows "main_ok h (snd (tcp_server_accept newpcb err s))" "main_ok h (tcp_server_error s)"
    "main_ok h (snd (tcp_server_recv e tpcb port p err s))" "main_ok h (udp_receive_recv e port p addr sport s)"
  using assms main_ok_closed [OF assms, of "Some tpcb"]
  by (auto simp: tcp_server_accept_def tcp_server_error_def tcp_server_recv_def udp_receive_recv_def Let_def
      Callback_Diag_RoutingDeactivated_def COM_Set_CurMode_def main_ok_fields main_ok_SoAd split: option.split)

lemma main_ok_receive [fw_inv]: "main_ok h s \<Longrightarrow> main_ok h (can_receive e m s)"
  by (simp add: can_receive_def case_prod_beta main_ok_CanIf)

lemma main_ok_step: "main_step e x y \<Longrightarrow> main_ok h (snd x) \<Longrightarrow> main_ok h (snd y)"
  by (induction rule: main_step.induct) (simp_all add: fw_inv main_ok_fields)

lemma main_ok_init: "main_ok [] (main_init e (main_statics s))"
proof -
  have "main_ok [] (main_statics s)" by (simp add: main_statics_def main_ok_def comm_dtc_ok_def)
  moreover have "port \<in> {5000, 13400, 30492} \<Longrightarrow> main_ok [] s \<Longrightarrow> main_ok [] (snd (udp_open e port s))"
    for s :: "'a main_ecu_scheme" and port
    by (auto simp: udp_open_def Let_def main_ok_fields split: option.split) (auto simp: main_ok_def call_def)
  moreover have "main_ok [] s \<Longrightarrow> main_ok [] (s\<lparr>udp_send_pcb := q\<rparr>)" "main_ok [] s \<Longrightarrow> main_ok [] (s\<lparr>udp_ctr_pcb := q\<rparr>)"
    "main_ok [] s \<Longrightarrow> main_ok [] (s\<lparr>udp_doip_pcb := q\<rparr>)" "main_ok [] s \<Longrightarrow> main_ok [] (s\<lparr>udp_someip_pcb := q\<rparr>)"
    for s :: "'a main_ecu_scheme" and q by (simp_all add: main_ok_def)
  ultimately have "main_ok [] (UdpInit e (main_statics s))"
    by (simp add: UdpInit_def Let_def case_prod_beta main_ok_fields)
  then have "main_ok [] (TcpInit e (UdpInit e (main_statics s)))"
    by (auto simp: TcpInit_def Let_def main_ok_fields split: option.split intro!: main_ok_emits [OF _ emits_emit])
  then show ?thesis by (simp add: main_init_def Sd_Init_def main_ok_def)
qed

lemma main_ok_reachable: "main_reachable e x \<Longrightarrow> main_ok [] (snd x)"
  by (induction rule: main_reachable.induct) (auto intro: main_ok_init main_ok_step)

text \<open>A step only adds messages.\<close>

lemma main_sends_more:
  assumes "main_step e x y" "main_reachable e x"
  shows "set (net_out (snd x)) \<subseteq> set (net_out (snd y))"
proof -
  have "main_ok (net_out (snd x)) (snd x)" using main_ok_reachable [OF assms(2)] by (simp add: main_ok_def)
  from main_ok_step [OF assms(1) this] show ?thesis by (auto simp: main_ok_def)
qed

lemma receive_sends_more:
  assumes "main_ok [] s"
  shows "set (net_out s) \<subseteq> set (net_out (can_receive e m s))"
proof -
  have "main_ok (net_out s) s" using assms by (simp add: main_ok_def)
  from main_ok_receive [OF this, of e m] show ?thesis by (auto simp: main_ok_def)
qed

end
