(* ===== verification/Main_Function.thy ===== *)
theory Main_Function
  imports Main_Invariant
begin

unbundle bit_operations_syntax

text \<open>
  What the gateway sends, exactly, when the TCP/IP stack and the CAN controller accept what they are
  given: the answer of each diagnostic service, the outcome of a DoIP packet, the frames of the signal
  layer and when they are due.
\<close>

section \<open>A stack that accepts\<close>

definition tcp_ready :: "net_env \<Rightarrow> pcb \<Rightarrow> 'a net_scheme \<Rightarrow> bool" where
  "tcp_ready e q s \<longleftrightarrow> tcp_active_pcb s = Some q \<and> (\<forall>n. ne_send e n = ERR_OK \<and> 1024 \<le> ne_sndbuf e n)"

definition can_ready :: "net_env \<Rightarrow> bool" where
  "can_ready e \<longleftrightarrow> (\<forall>n. ne_can e n \<noteq> NotSentBusy)"

text \<open>The state after one event, and a diagnostic message to the tester.\<close>

definition after_event :: "net_event \<Rightarrow> 'a net_scheme \<Rightarrow> 'a net_scheme" where
  "after_event v s = emit v (call s)"

definition doip_message :: "u16 \<Rightarrow> u8 list \<Rightarrow> u8 list" where
  "doip_message sa body = [0x02, 0xFD, 0x80, 0x01] @ net32 (4 + of_nat (length body)) @ net16 sa @ [0x0E, 0x00] @ body"

lemma after_event_fields [simp]:
  "net_out (after_event v s) = net_out s @ [v]" "tcp_active_pcb (after_event v s) = tcp_active_pcb s"
  "net.more (after_event v s) = net.more s" "g_TickCount_1ms (after_event v s) = g_TickCount_1ms s"
  by (simp_all add: after_event_def emit_def call_def)

lemma ready_after [simp]: "tcp_ready e q (after_event v s) = tcp_ready e q s"
  by (simp add: tcp_ready_def)

lemma IfTransmit_ready:
  assumes "tcp_ready e q s" "0 < n" "n \<le> 1024"
  shows "SoAd_IfTransmit e 13400 payload n s = after_event (TcpWrite q (bytes payload (unat n))) s"
proof -
  have "n \<le> ne_sndbuf e (net_calls s)" "ne_send e (net_calls s) = ERR_OK" "tcp_active_pcb s = Some q"
    using assms by (auto simp: tcp_ready_def intro: order_trans)
  with assms(2) show ?thesis by (simp add: SoAd_IfTransmit_def TcpSend_def after_event_def Let_def not_less)
qed

lemma ProcessTx_ready:
  assumes "tcp_ready e q s" "unat n \<le> 1012"
  shows "DoIP_ProcessTx e sa d n s = after_event (TcpWrite q (doip_message sa (bytes d (unat n)))) s"
proof -
  have u: "unat (12 + n) = 12 + unat n" using assms(2) by (simp add: unat_word_ariths)
  have "0 < 12 + n" "12 + n \<le> 1024" using assms(2) u by (simp_all add: word_less_nat_alt word_le_nat_alt)
  then show ?thesis unfolding ProcessTx_packet [OF assms(2)]
    by (subst IfTransmit_ready [OF assms(1)])
      (simp_all add: u doip_message_def net32_def net16_def)
qed

lemma answer_ready:
  "tcp_ready e q s \<Longrightarrow> length bs \<le> 1012 \<Longrightarrow> dcm_answer e bs s = after_event (TcpWrite q (doip_message 1 bs)) s"
  by (simp add: dcm_answer_def ProcessTx_ready unat_of_nat take_bit_nat_eq_self)

section \<open>The gateway's own diagnostic services\<close>

text \<open>The requests that get a positive answer.\<close>

definition served :: "memory \<Rightarrow> u16 \<Rightarrow> bool" where
  "served q n \<longleftrightarrow>
     q 0 = 0x10 \<and> n = 2 \<and> q 1 \<in> {1, 3} \<or>
     q 0 = 0x22 \<and> n = 3 \<and> be16 (q 1) (q 2) \<in> {0xF190, 0x0400, 0x0401, 0x0402} \<or>
     q 0 = 0x19 \<and> n \<in> {2, 3} \<and> q 1 \<in> {0x0A, 0x02} \<or>
     q 0 = 0x14 \<and> n = 4 \<and> q 1 = 0xFF \<and> q 2 = 0xFF \<and> q 3 = 0xFF"

definition reply_ok :: "u8 \<Rightarrow> bool \<Rightarrow> u8 list \<Rightarrow> bool" where
  "reply_ok sid positive body \<longleftrightarrow> length body \<le> 15 \<and>
     (if positive then body \<noteq> [] \<and> hd body = sid + 0x40
      else \<exists>nrc \<in> {0x11, 0x12, 0x13, 0x31}. body = [0x7F, sid, nrc])"

definition replies :: "pcb \<Rightarrow> u8 \<Rightarrow> bool \<Rightarrow> 'a dcm_scheme \<Rightarrow> 'a dcm_scheme \<Rightarrow> bool" where
  "replies p sid positive s t \<longleftrightarrow>
     (\<exists>body. reply_ok sid positive body \<and> net_out t = net_out s @ [TcpWrite p (doip_message 1 body)])"

lemma replies_answer:
  "tcp_ready e p t \<Longrightarrow> net_out t = net_out s \<Longrightarrow> reply_ok sid b bs \<Longrightarrow> replies p sid b s (dcm_answer e bs t)"
  unfolding replies_def by (rule exI [of _ bs]) (auto simp: answer_ready reply_ok_def split: if_splits)

lemma replies_negative:
  "tcp_ready e p s \<Longrightarrow> nrc \<in> {0x11, 0x12, 0x13, 0x31} \<Longrightarrow> replies p sid False s (Send_NegativeResponse e sid nrc s)"
  unfolding Send_NegativeResponse_def by (rule replies_answer) (auto simp: reply_ok_def)

lemma pack_le_inject: "pack_le a b c d = pack_le a' b' c' d' \<longleftrightarrow> a = a' \<and> b = b' \<and> c = c' \<and> d = d'"
  by (metis byte_at_pack_le)

lemma group_all:
  fixes a b c :: u8
  shows "(push_bit 16 (ucast a) OR push_bit 8 (ucast b)) OR ucast c = (0xFFFFFF :: u32) \<longleftrightarrow>
    a = 0xFF \<and> b = 0xFF \<and> c = 0xFF"
proof -
  have "(push_bit 16 (ucast a) OR push_bit 8 (ucast b)) OR ucast c = pack_le c b a 0"
    by (rule bit_word_eqI) (auto simp: bit_pack_le bit_simps dest: bit_imp_le_length)
  moreover have "(0xFFFFFF :: u32) = pack_le 0xFF 0xFF 0xFF 0" by (simp add: pack_le_def)
  ultimately show ?thesis by (simp only: pack_le_inject) auto
qed

lemma session_reply: "tcp_ready e p s \<Longrightarrow> q 0 = 0x10 \<Longrightarrow> replies p 0x10 (served q n) s (dcm_session_control e q n s)"
  unfolding dcm_session_control_def Let_def served_def
  by (auto intro!: replies_negative replies_answer simp: tcp_ready_def reply_ok_def)

lemma read_reply: "tcp_ready e p s \<Longrightarrow> q 0 = 0x22 \<Longrightarrow> replies p 0x22 (served q n) s (dcm_read_data e q n s)"
  unfolding dcm_read_data_def Let_def served_def
  by (auto intro!: replies_negative replies_answer simp: reply_ok_def)

lemma dtc_reply: "tcp_ready e p s \<Longrightarrow> q 0 = 0x19 \<Longrightarrow> replies p 0x19 (served q n) s (dcm_read_dtc e q n s)"
  unfolding dcm_read_dtc_def Let_def served_def
  by (auto intro!: replies_negative replies_answer simp: reply_ok_def)

lemma clear_reply: "tcp_ready e p s \<Longrightarrow> q 0 = 0x14 \<Longrightarrow> replies p 0x14 (served q n) s (dcm_clear_dtc e q n s)"
  unfolding dcm_clear_dtc_def Let_def served_def group_all
  by (auto intro!: replies_negative replies_answer simp: tcp_ready_def reply_ok_def DCM_Clear_All_DTC_def)

lemma uds_reply:
  assumes "tcp_ready e p s" "n \<noteq> 0"
  shows "replies p (q 0) (served q n) s (Uds_ProcessRx e q n s)"
proof -
  have "replies p (q 0) False s (Send_NegativeResponse e (q 0) 0x11 s)"
    using assms(1) by (rule replies_negative) simp
  then show ?thesis
    using assms session_reply [OF assms(1)] read_reply [OF assms(1)] dtc_reply [OF assms(1)] clear_reply [OF assms(1)]
    by (auto simp: Uds_ProcessRx_def Let_def) (auto simp: served_def)
qed

text \<open>What the services do to the session and the trouble codes.\<close>

definition dcm_state :: "'a dcm_scheme \<Rightarrow> u8 \<times> u8 list" where
  "dcm_state s = (Current_Diag_Session s,
     [DtcStatus_Pc s, DtcStatus_Act s, DtcStatus_Body s, DtcOccurCount_Pc s, DtcOccurCount_Act s, DtcOccurCount_Body s])"

lemma answer_state: "length bs \<le> 1012 \<Longrightarrow> dcm_state (dcm_answer e bs s) = dcm_state s"
  using answer_emits [of bs s e] by (auto simp: emits_def dcm_state_def)

lemma negative_state: "dcm_state (Send_NegativeResponse e c d s) = dcm_state s"
  by (simp add: Send_NegativeResponse_def answer_state)

lemma service_states:
  "dcm_state (dcm_read_data e q n s) = dcm_state s" "dcm_state (dcm_read_dtc e q n s) = dcm_state s"
  "dcm_state (dcm_session_control e q n s) = (if n = 2 \<and> q 1 \<in> {1, 3} then (q 1, snd (dcm_state s)) else dcm_state s)"
  "dcm_state (dcm_clear_dtc e q n s) =
     (if n = 4 \<and> q 1 = 0xFF \<and> q 2 = 0xFF \<and> q 3 = 0xFF then (fst (dcm_state s), [0, 0, 0, 0, 0, 0]) else dcm_state s)"
  by (simp_all add: dcm_read_data_def dcm_read_dtc_def dcm_session_control_def dcm_clear_dtc_def Let_def group_all
      answer_state negative_state)
    (simp_all add: dcm_state_def DCM_Clear_All_DTC_def)

lemma Uds_state:
  "dcm_state (Uds_ProcessRx e q n s) =
     (if served q n \<and> q 0 = 0x10 then (q 1, snd (dcm_state s))
      else if served q n \<and> q 0 = 0x14 then (fst (dcm_state s), [0, 0, 0, 0, 0, 0]) else dcm_state s)"
  by (auto simp: Uds_ProcessRx_def Let_def service_states negative_state served_def)

section \<open>DoIP packets\<close>

text \<open>The packets the gateway sends about a packet: a header of its type, and a body.\<close>

definition doip_reply :: "u8 \<Rightarrow> u8 \<Rightarrow> u8 list \<Rightarrow> u8 list" where
  "doip_reply a b body = [0x02, 0xFD, a, b, 0, 0, 0, of_nat (length body)] @ body"

definition tcp_says :: "pcb \<Rightarrow> u8 list \<Rightarrow> 'a net_scheme \<Rightarrow> 'a net_scheme" where
  "tcp_says q bs s = after_event (TcpWrite q bs) s"

lemma tcp_says_fields [simp]:
  "net_out (tcp_says q bs s) = net_out s @ [TcpWrite q bs]" "tcp_ready e p (tcp_says q bs s) = tcp_ready e p s"
  "net.more (tcp_says q bs s) = net.more s" "SoAd_IsClosePending (tcp_says q bs s) = SoAd_IsClosePending s"
  by (simp_all add: tcp_says_def) (simp add: after_event_def emit_def call_def)

lemma doip_replies:
  assumes "tcp_ready e q s"
  shows "DoIP_SendGenericNack e 13400 c s = tcp_says q (doip_reply 0x00 0x00 [c]) s"
    "DoIP_SendDiagAck e 13400 sa ta c s = tcp_says q (doip_reply 0x80 0x02 (net16 sa @ net16 ta @ [c])) s"
    "DoIP_SendDiagNack e 13400 sa ta c s = tcp_says q (doip_reply 0x80 0x03 (net16 sa @ net16 ta @ [c])) s"
    "DoIP_SendRoutingActivationResponse e 13400 sa c s =
       tcp_says q (doip_reply 0x00 0x06 (net16 sa @ [0, 1, c, 0, 0, 0, 0])) s"
proof -
  have "replicate 4 0 = [0, 0, 0, 0 :: u8]" by (simp add: eval_nat_numeral)
  then show "DoIP_SendGenericNack e 13400 c s = tcp_says q (doip_reply 0x00 0x00 [c]) s"
    "DoIP_SendDiagAck e 13400 sa ta c s = tcp_says q (doip_reply 0x80 0x02 (net16 sa @ net16 ta @ [c])) s"
    "DoIP_SendDiagNack e 13400 sa ta c s = tcp_says q (doip_reply 0x80 0x03 (net16 sa @ net16 ta @ [c])) s"
    "DoIP_SendRoutingActivationResponse e 13400 sa c s =
       tcp_says q (doip_reply 0x00 0x06 (net16 sa @ [0, 1, c, 0, 0, 0, 0])) s"
    by (simp_all add: DoIP_SendGenericNack_def DoIP_SendDiagAck_def DoIP_SendDiagNack_def
        DoIP_SendRoutingActivationResponse_def Let_def tcp_says_def doip_reply_def net16_def half_split
        IfTransmit_ready [OF assms])
qed

lemma expected_length:
  fixes a b c d :: u8
  shows "((push_bit 24 (ucast a) OR push_bit 16 (ucast b)) OR push_bit 8 (ucast c)) OR ucast d = be32 a b c d"
  unfolding be32_def by (rule bit_word_eqI) (auto simp: bit_pack_le bit_simps dest: bit_imp_le_length)

text \<open>A diagnostic request on its way to a control unit.\<close>

definition can_request :: "u32 \<Rightarrow> memory \<Rightarrow> u16 \<Rightarrow> net_event" where
  "can_request canId data n =
     CanMessage (if canId = 0x700 then CanNode0 else CanNode2)
       \<lparr>cm_id = canId, cm_dlc = 8, cm_data = frame_words (array (single_frame data n)) 8\<rparr>"

lemma CanTp_ready:
  assumes "can_ready e" "canId = 0x700 \<or> canId = 0x710" "0 < unat n" "unat n \<le> 7"
  shows "CanTp_Transmit e canId data n s = after_event (can_request canId data n) s"
proof -
  have "n \<noteq> 0" "\<not> 7 < n" using assms(3,4) by (auto simp: word_less_nat_alt)
  then show ?thesis using assms(1,2)
    by (auto simp: CanTp_Transmit_def CanIf_Transmit_def Can_Send_frame Can_GetDlc_def can_ready_def Let_def
        after_event_def can_request_def)
qed

lemma CanTp_dropped: "unat n = 0 \<or> 7 < unat n \<Longrightarrow> CanTp_Transmit e canId data n s = s"
  by (auto simp: CanTp_Transmit_def word_less_nat_alt unat_eq_0)

text \<open>What becomes of a diagnostic message.\<close>

lemma diagnostic_effect:
  assumes "tcp_ready e q s" "can_ready e" and "12 \<le> n" "be16 (p 2) (p 3) = 0x8001"
    and "be32 (p 4) (p 5) (p 6) (p 7) = ucast n - 8"
  shows "let t = DoIP_ProcessRx e p n s; sa = be16 (p 8) (p 9); ta = be16 (p 10) (p 11); data = moved 12 p;
      acked = tcp_says q (doip_reply 0x80 0x02 (net16 ta @ net16 sa @ [0])) s in
    (sa \<noteq> 0x0E00 \<longrightarrow>
       net_out t = net_out s @ [TcpWrite q (doip_reply 0x80 0x03 (net16 ta @ net16 sa @ [2]))] \<and> SoAd_IsClosePending t) \<and>
    (sa = 0x0E00 \<and> ta \<notin> {0x0001, 0x0010, 0x0020} \<longrightarrow>
       t = tcp_says q (doip_reply 0x80 0x03 (net16 ta @ net16 sa @ [3])) s) \<and>
    (sa = 0x0E00 \<and> ta = 0x0001 \<longrightarrow>
       (if n = 12 then t = acked else replies q (p 12) (served data (n - 12)) acked t)) \<and>
    (sa = 0x0E00 \<and> (ta = 0x0010 \<or> ta = 0x0020) \<longrightarrow>
       t = (if 12 < n \<and> n \<le> 19 then after_event (can_request (if ta = 0x0010 then 0x700 else 0x710) data (n - 12)) acked
            else acked))"
proof -
  have n: "\<not> n < 12" "\<not> n < 8" using assms(3) by (simp_all add: word_le_nat_alt word_less_nat_alt)
  have "unat (n - 12) = unat n - 12" using assms(3) by (simp add: unat_sub)
  then have len: "0 < unat (n - 12) \<longleftrightarrow> 12 < n" "unat (n - 12) \<le> 7 \<longleftrightarrow> n \<le> 19" "n - 12 = 0 \<longleftrightarrow> n = 12"
    using assms(3) by (auto simp: word_less_nat_alt word_le_nat_alt)
  have route: "CanTp_Transmit e c data (n - 12) t =
      (if 12 < n \<and> n \<le> 19 then after_event (can_request c data (n - 12)) t else t)"
    if "c = 0x700 \<or> c = 0x710" for c data and t :: "'a com_scheme"
    using CanTp_ready [OF assms(2) that, of "n - 12" data t] CanTp_dropped [of "n - 12" e c data t]
    by (auto simp: len [symmetric])
  have own: "Uds_ProcessRx e data 0 t = t" for data and t :: "'a com_scheme" by (simp add: Uds_ProcessRx_def)
  have reply: "n \<noteq> 12 \<Longrightarrow> replies q (p 12) (served (moved 12 p) (n - 12)) (tcp_says q bs s)
      (Uds_ProcessRx e (moved 12 p) (n - 12) (tcp_says q bs s))" for bs
    using uds_reply [of e q "tcp_says q bs s" "n - 12" "moved 12 p"] len(3) assms(1) by (simp add: moved_def)
  show ?thesis
    unfolding Let_def DoIP_ProcessRx_def expected_length doip_diagnostic_def
    by (auto simp: n assms doip_replies [OF assms(1)] DoIP_IsRegisteredSA_def DoIP_IsKnownTA_def RouteRx_targets
        UDS_TCP_Main_ProcessRx_def UDS_TCP_Act_ProcessRx_def UDS_TCP_Body_ProcessRx_def route own reply SoAd_CloseSocket_def)
qed

end
