(* ===== verification/Main_Timing.thy ===== *)
theory Main_Timing
  imports Main_Function
begin

unbundle bit_operations_syntax

text \<open>
  The gateway over time: reports of a lost and a recovered partner in any order, the cyclic messages
  of the signal layer when it is called every millisecond, and the delayed close of a connection.
\<close>

section \<open>Communication trouble codes\<close>

datatype partner = PartnerPc | PartnerAct | PartnerBody

fun comm_lost :: "partner \<Rightarrow> 'a dcm_scheme \<Rightarrow> 'a dcm_scheme" where
  "comm_lost PartnerPc = DCM_Callback_PcCommloss"
| "comm_lost PartnerAct = DCM_Callback_ActCommloss"
| "comm_lost PartnerBody = DCM_Callback_BodyCommloss"

fun comm_recovered :: "partner \<Rightarrow> 'a dcm_scheme \<Rightarrow> 'a dcm_scheme" where
  "comm_recovered PartnerPc = DCM_Callback_PcRecovered"
| "comm_recovered PartnerAct = DCM_Callback_ActRecovered"
| "comm_recovered PartnerBody = DCM_Callback_BodyRecovered"

fun comm_status :: "partner \<Rightarrow> 'a dcm_scheme \<Rightarrow> u8" where
  "comm_status PartnerPc = DCM_Get_DtcStatus_Pc"
| "comm_status PartnerAct = DCM_Get_DtcStatus_ActEcu"
| "comm_status PartnerBody = DCM_Get_DtcStatus_BodyEcu"

fun comm_count :: "partner \<Rightarrow> 'a dcm_scheme \<Rightarrow> u8" where
  "comm_count PartnerPc = DtcOccurCount_Pc"
| "comm_count PartnerAct = DtcOccurCount_Act"
| "comm_count PartnerBody = DtcOccurCount_Body"

definition comm_pair :: "partner \<Rightarrow> 'a dcm_scheme \<Rightarrow> u8 \<times> u8" where
  "comm_pair p s = (comm_status p s, comm_count p s)"

text \<open>A report \<open>(p, True)\<close> is a loss of partner \<open>p\<close>, \<open>(p, False)\<close> a recovery.\<close>

definition comm_report :: "partner \<times> bool \<Rightarrow> 'a dcm_scheme \<Rightarrow> 'a dcm_scheme" where
  "comm_report = (\<lambda>(p, lost) s. if lost then comm_lost p s else comm_recovered p s)"

lemma comm_status_defs:
  "DCM_Get_DtcStatus_Pc s = DtcStatus_Pc s" "DCM_Get_DtcStatus_ActEcu s = DtcStatus_Act s"
  "DCM_Get_DtcStatus_BodyEcu s = DtcStatus_Body s"
  by (simp_all add: DCM_Get_DtcStatus_Pc_def DCM_Get_DtcStatus_ActEcu_def DCM_Get_DtcStatus_BodyEcu_def)

lemma comm_pair_lost: "comm_pair p (comm_lost q s) = (if p = q then comm_loss (comm_pair p s) else comm_pair p s)"
  by (cases p; cases q) (simp_all add: comm_pair_def comm_forms comm_status_defs)

lemma comm_pair_recovered:
  "comm_pair p (comm_recovered q s) = (if p = q then comm_back (comm_pair p s) else comm_pair p s)"
  by (cases p; cases q) (simp_all add: comm_pair_def comm_forms comm_status_defs)

lemma comm_laws:
  "fst (comm_loss x) AND 1 \<noteq> 0" "fst (comm_back x) AND 1 = 0"
  "min 3 (unat (snd (comm_loss x))) = min 3 (Suc (unat (snd x)))" "snd (comm_back x) = 0"
  "fst (comm_loss x) AND 8 \<noteq> 0 \<longleftrightarrow> fst x AND 8 \<noteq> 0 \<or> 3 \<le> Suc (unat (snd x))"
  "fst (comm_back x) AND 8 = fst x AND 8"
proof -
  have inc: "n < 255 \<Longrightarrow> unat (n + 1) = Suc (unat n)" for n :: u8 by (rule unat_inc_below)
  show "fst (comm_loss x) AND 1 \<noteq> 0" "fst (comm_back x) AND 1 = 0" "snd (comm_back x) = 0"
    "fst (comm_back x) AND 8 = fst x AND 8"
    by (simp_all add: comm_loss_def comm_back_def case_prod_beta Let_def u8_bits_09)
  show "min 3 (unat (snd (comm_loss x))) = min 3 (Suc (unat (snd x)))"
    using inc by (auto simp: comm_loss_def case_prod_beta Let_def word_less_nat_alt)
  show "fst (comm_loss x) AND 8 \<noteq> 0 \<longleftrightarrow> fst x AND 8 \<noteq> 0 \<or> 3 \<le> Suc (unat (snd x))"
    using inc by (auto simp: comm_loss_def case_prod_beta Let_def u8_bits_09 word_less_nat_alt word_le_nat_alt)
qed

interpretation comm_dtc: dtc_memory "comm_lost p" "comm_recovered p" "\<lambda>s. comm_status p s AND 1 \<noteq> 0"
  "\<lambda>s. comm_status p s AND 8 \<noteq> 0" "\<lambda>s. unat (comm_count p s)" "\<lambda>s. True" DCM_Clear_All_DTC
  for p
proof -
  have fields: "comm_status p s = fst (comm_pair p s)" "comm_count p s = snd (comm_pair p s)" for s :: "'a dcm_scheme"
    by (simp_all add: comm_pair_def)
  have clear: "comm_pair p (DCM_Clear_All_DTC s) = (0, 0)" for s :: "'a dcm_scheme"
    by (cases p) (simp_all add: comm_pair_def comm_status_defs DCM_Clear_All_DTC_def)
  show "dtc_memory (comm_lost p) (comm_recovered p) (\<lambda>s. comm_status p s AND 1 \<noteq> 0) (\<lambda>s. comm_status p s AND 8 \<noteq> 0)
      (\<lambda>s. unat (comm_count p s)) (\<lambda>s. True) (DCM_Clear_All_DTC :: 'a dcm_scheme \<Rightarrow> 'a dcm_scheme)"
    by unfold_locales (simp_all only: fields comm_pair_lost comm_pair_recovered comm_laws clear if_True refl, simp_all)
qed

text \<open>The reports about one partner decide its code.\<close>

definition own_reports :: "partner \<Rightarrow> (partner \<times> bool) list \<Rightarrow> bool list" where
  "own_reports p rs = map snd (filter (\<lambda>r. fst r = p) rs)"

lemma reports_own: "comm_pair p (fold comm_report rs s) = comm_pair p (comm_dtc.reports p (own_reports p rs) s)"
proof (induction rs rule: rev_induct)
  case (snoc r rs)
  then show ?case
    by (cases r) (auto simp: own_reports_def comm_report_def comm_dtc.reports_def comm_dtc.report_def
        comm_pair_lost comm_pair_recovered)
qed (simp add: own_reports_def)

section \<open>The delayed close\<close>

text \<open>One millisecond: the interrupt counts, then the operation is called.\<close>

definition tick_ms :: "'a net_scheme \<Rightarrow> 'a net_scheme" where
  "tick_ms s = s\<lparr>g_TickCount_1ms := g_TickCount_1ms s + 1\<rparr>"

lemma tick_ms_fields [simp]:
  "net_out (tick_ms s) = net_out s" "tcp_active_pcb (tick_ms s) = tcp_active_pcb s" "net.more (tick_ms s) = net.more s"
  "SoAd_IsClosePending (tick_ms s) = SoAd_IsClosePending s" "SoAd_CloseRequestTime (tick_ms s) = SoAd_CloseRequestTime s"
  "g_TickCount_1ms (tick_ms s) = g_TickCount_1ms s + 1" "net_calls (tick_ms s) = net_calls s"
  "udp_send_pcb (tick_ms s) = udp_send_pcb s" "pcip (tick_ms s) = pcip s"
  by (simp_all add: tick_ms_def)

definition closing :: "nat \<Rightarrow> 'a net_scheme \<Rightarrow> 'a net_scheme" where
  "closing k s = ((\<lambda>s. SoAd_MainFunction (tick_ms s)) ^^ k) (SoAd_CloseSocket 13400 s)"

lemma closing_Suc: "closing (Suc k) s = SoAd_MainFunction (tick_ms (closing k s))"
  by (simp add: closing_def)

lemma of_nat_le_const: "k < 2 ^ 32 \<Longrightarrow> (50 :: u32) \<le> of_nat k \<longleftrightarrow> 50 \<le> k"
  by (simp add: word_le_nat_alt unat_of_nat take_bit_nat_eq_self)

lemma closing_waits:
  "k < 50 \<Longrightarrow> net_out (closing k s) = net_out s \<and> tcp_active_pcb (closing k s) = tcp_active_pcb s \<and>
     SoAd_IsClosePending (closing k s) \<and> g_TickCount_1ms (closing k s) - SoAd_CloseRequestTime (closing k s) = of_nat k"
proof (induction k)
  case (Suc k)
  have "\<not> (50 :: u32) \<le> 1 + of_nat k" using of_nat_le_const [of "Suc k"] Suc.prems by simp
  moreover have d: "1 + g_TickCount_1ms (closing k s) - SoAd_CloseRequestTime (closing k s) = 1 + of_nat k"
    using Suc by (simp flip: add_diff_eq)
  ultimately show ?case using Suc unfolding d [symmetric] by (simp add: closing_Suc SoAd_MainFunction_def Get_SystemTime_ms_def add.commute)
qed (simp add: closing_def SoAd_CloseSocket_def Get_SystemTime_ms_def)

lemma closing_at_50:
  "net_out (closing 50 s) = net_out s @ (case tcp_active_pcb s of None \<Rightarrow> [] | Some q \<Rightarrow> [TcpClose q]) \<and>
     tcp_active_pcb (closing 50 s) = None \<and> \<not> SoAd_IsClosePending (closing 50 s)"
proof -
  have "Suc 49 = 50" by simp
  then have "closing 50 s = SoAd_MainFunction (tick_ms (closing 49 s))" using closing_Suc [of 49 s] by simp
  moreover have "1 + g_TickCount_1ms (closing 49 s) - SoAd_CloseRequestTime (closing 49 s) = 50"
    using closing_waits [of 49 s] by (simp add: algebra_simps)
  ultimately show ?thesis using closing_waits [of 49 s]
    by (auto simp: SoAd_MainFunction_def Get_SystemTime_ms_def doip_server_close_def tcp_server_close_def emit_def
        add.commute Let_def split: option.split)
qed

lemma closing_done:
  "net_out (closing (50 + k) s) = net_out (closing 50 s) \<and> tcp_active_pcb (closing (50 + k) s) = None \<and>
     \<not> SoAd_IsClosePending (closing (50 + k) s)"
proof (induction k)
  case (Suc k)
  have "closing (50 + Suc k) s = SoAd_MainFunction (tick_ms (closing (50 + k) s))"
    unfolding add_Suc_right by (rule closing_Suc)
  then show ?case using Suc by (simp add: SoAd_MainFunction_def)
qed (use closing_at_50 [of s] in simp)

section \<open>The cyclic messages\<close>

text \<open>The frames and the datagram that the signals of a state give.\<close>

definition act_command_frame :: "'a com_scheme \<Rightarrow> net_event" where
  "act_command_frame s = CanMessage CanNode0 \<lparr>cm_id = 0x100, cm_dlc = 6, cm_data = frame_words (array
     [Ctr_accel s, Ctr_steer s, Ctr_brake s, Ctr_gear s, COM_Cur_Mode s, COM_Safety_Override s]) 6\<rparr>"

definition body_command_frame :: "'a com_scheme \<Rightarrow> net_event" where
  "body_command_frame s = CanMessage CanNode2 \<lparr>cm_id = 0x110, cm_dlc = 6, cm_data = frame_words (array
     [Ctr_head_light s, Ctr_turn_signal s, Ctr_brake s, Ctr_horn s, COM_Collision_Warn s, COM_Cur_Mode s]) 6\<rparr>"

definition udp_ready :: "net_env \<Rightarrow> pcb \<Rightarrow> 'a net_scheme \<Rightarrow> bool" where
  "udp_ready e p s \<longleftrightarrow> udp_send_pcb s = Some p \<and> (\<forall>n. ne_pbuf e n)"

lemma CtrAct_sends:
  assumes "can_ready e"
  shows "COM_Tx_CtrAct_CAN e s = after_event (act_command_frame s) (s\<lparr>COM_TxBuf_CtrAct_CAN :=
    [Ctr_accel s, Ctr_steer s, Ctr_brake s, Ctr_gear s, COM_Cur_Mode s, COM_Safety_Override s]\<rparr>)"
  using assms by (simp add: COM_Tx_CtrAct_CAN_def Let_def RouteTx_targets CAN_Ctr_ActTx_def CanIf_Transmit_def
      Can_Send_frame can_ready_def act_command_frame_def after_event_def Can_GetDlc_def)

lemma CtrBody_sends:
  assumes "can_ready e"
  shows "COM_Tx_CtrBody_CAN e s = after_event (body_command_frame s) (s\<lparr>COM_TxBuf_CtrBody_CAN :=
    [Ctr_head_light s, Ctr_turn_signal s, Ctr_brake s, Ctr_horn s, COM_Collision_Warn s, COM_Cur_Mode s]\<rparr>)"
  using assms by (simp add: COM_Tx_CtrBody_CAN_def Let_def RouteTx_targets CAN_Ctr_BodyTx_def CanIf_Transmit_def
      Can_Send_frame can_ready_def body_command_frame_def after_event_def Can_GetDlc_def)

lemma Stat_sends:
  assumes "udp_ready e p s"
  shows "COM_Tx_Stat_UDP e s = emit (UdpSendTo p (pcip s) 5001 [COM_Stat_Cnt s, Stat_speedl s, Stat_speedh s])
    (call (call (s\<lparr>COM_TxBuf_Stat_UDP := [COM_Stat_Cnt s, Stat_speedl s, Stat_speedh s], COM_Stat_Cnt := COM_Stat_Cnt s + 1\<rparr>)))"
  using assms by (simp add: COM_Tx_Stat_UDP_def Let_def RouteTx_targets UDP_Stat_Tx_def SoAd_IfTransmit_def
      UdpSendToPC_def UdpSend_WithPcb_def Callback_COM_SessionCnt_def udp_ready_def call_def emit_def)

fun is_can :: "net_event \<Rightarrow> bool" where
  "is_can (CanMessage node msg) = True"
| "is_can _ = False"

definition status_packet :: "pcb \<Rightarrow> 'a com_scheme \<Rightarrow> u8 \<Rightarrow> net_event" where
  "status_packet p s cnt = UdpSendTo p (pcip s) 5001 [cnt, Stat_speedl s, Stat_speedh s]"

text \<open>What the messages depend on, apart from the counter of the status.\<close>

definition tx_view :: "'a com_scheme \<Rightarrow> net_event \<times> net_event \<times> net_event \<times> pcb option" where
  "tx_view s = (act_command_frame s, body_command_frame s, status_packet 0 s 0, udp_send_pcb s)"

lemma tx_view_eq:
  assumes "tx_view t = tx_view s"
  shows "act_command_frame t = act_command_frame s" "body_command_frame t = body_command_frame s"
    "status_packet p t c = status_packet p s c" "udp_send_pcb t = udp_send_pcb s"
  using assms by (simp_all add: tx_view_def status_packet_def)

lemma is_can_frames [simp]:
  "is_can (act_command_frame s)" "is_can (body_command_frame s)" "\<not> is_can (status_packet p s c)"
  by (simp_all add: act_command_frame_def body_command_frame_def status_packet_def)

lemma MainFunction_sends:
  assumes "can_ready e" "udp_ready e p s"
  defines "d20 \<equiv> 20 \<le> g_TickCount_1ms s - lastTime_20ms s" and "d50 \<equiv> 50 \<le> g_TickCount_1ms s - lastTime_50ms s"
    and "t \<equiv> COM_Tx_MainFunction e s"
  shows "net_out t = net_out s @ (if d20 then [act_command_frame s, body_command_frame s] else []) @
      (if d50 then [status_packet p s (COM_Stat_Cnt s)] else [])"
    "g_TickCount_1ms t = g_TickCount_1ms s" "tx_view t = tx_view s"
    "lastTime_20ms t = (if d20 then g_TickCount_1ms s else lastTime_20ms s)"
    "lastTime_50ms t = (if d50 then g_TickCount_1ms s else lastTime_50ms s)"
    "COM_Stat_Cnt t = (if d50 then COM_Stat_Cnt s + 1 else COM_Stat_Cnt s)"
proof -
  define u where "u = (if d20 then (COM_Tx_CtrBody_CAN e (COM_Tx_CtrAct_CAN e s))\<lparr>lastTime_20ms := g_TickCount_1ms s\<rparr> else s)"
  have u: "net_out u = net_out s @ (if d20 then [act_command_frame s, body_command_frame s] else [])"
    "g_TickCount_1ms u = g_TickCount_1ms s" "tx_view u = tx_view s" "COM_Stat_Cnt u = COM_Stat_Cnt s"
    "lastTime_20ms u = (if d20 then g_TickCount_1ms s else lastTime_20ms s)" "lastTime_50ms u = lastTime_50ms s"
    by (simp_all add: u_def CtrAct_sends [OF assms(1)] CtrBody_sends [OF assms(1)] tx_view_def)
      (simp_all add: after_event_def emit_def call_def act_command_frame_def body_command_frame_def status_packet_def)
  have ready: "udp_ready e p u" using assms(2) tx_view_eq(4) [OF u(3)] by (simp add: udp_ready_def)
  have t: "t = (if d50 then (COM_Tx_Stat_UDP e u)\<lparr>lastTime_50ms := g_TickCount_1ms s\<rparr> else u)"
    using u(6) by (simp add: t_def u_def COM_Tx_MainFunction_def Get_SystemTime_ms_def Let_def d20_def d50_def)
  have packet: "UdpSendTo p (pcip u) 5001 [COM_Stat_Cnt u, Stat_speedl u, Stat_speedh u] = status_packet p s (COM_Stat_Cnt s)"
    using tx_view_eq(3) [OF u(3), of p "COM_Stat_Cnt s"] u(4) by (simp add: status_packet_def)
  show "net_out t = net_out s @ (if d20 then [act_command_frame s, body_command_frame s] else []) @
      (if d50 then [status_packet p s (COM_Stat_Cnt s)] else [])"
    using u(1) by (simp add: t Stat_sends [OF ready] packet) (simp add: emit_def call_def)
  show "g_TickCount_1ms t = g_TickCount_1ms s" "lastTime_20ms t = (if d20 then g_TickCount_1ms s else lastTime_20ms s)"
    "lastTime_50ms t = (if d50 then g_TickCount_1ms s else lastTime_50ms s)"
    "COM_Stat_Cnt t = (if d50 then COM_Stat_Cnt s + 1 else COM_Stat_Cnt s)"
    using u by (simp_all add: t Stat_sends [OF ready] emit_def call_def)
  have "tx_view t = tx_view u"
    by (simp add: t Stat_sends [OF ready] tx_view_def act_command_frame_def body_command_frame_def status_packet_def emit_def call_def)
  then show "tx_view t = tx_view s" using u(3) by simp
qed

text \<open>\<open>k\<close> milliseconds with a call in each.\<close>

definition cyclic :: "net_env \<Rightarrow> nat \<Rightarrow> 'a com_scheme \<Rightarrow> 'a com_scheme" where
  "cyclic e k s = ((\<lambda>s. COM_Tx_MainFunction e (tick_ms s)) ^^ k) s"

lemma tick_ms_com:
  "lastTime_20ms (tick_ms s) = lastTime_20ms s" "lastTime_50ms (tick_ms s) = lastTime_50ms s"
  "COM_Stat_Cnt (tick_ms s) = COM_Stat_Cnt s" "tx_view (tick_ms s) = tx_view s"
  by (simp_all add: tick_ms_def tx_view_def act_command_frame_def body_command_frame_def status_packet_def)

lemma period_step:
  fixes x y :: u32
  assumes "x - y = of_nat (k mod m)" "0 < m" "m < 2 ^ 32"
  shows "of_nat m \<le> x + 1 - y \<longleftrightarrow> Suc (k mod m) = m"
    "Suc (k mod m) \<noteq> m \<Longrightarrow> x + 1 - y = of_nat (Suc k mod m)"
proof -
  define d where "d = x + 1 - y"
  have d: "d = of_nat (Suc (k mod m))" using assms(1) by (simp add: d_def algebra_simps)
  have lt: "k mod m < m" using assms(2) by simp
  with assms(3) have "Suc (k mod m) < 2 ^ 32" by simp
  then have "unat d = Suc (k mod m)" "unat (of_nat m :: u32) = m"
    using assms(3) unfolding d unat_of_nat by (simp_all add: take_bit_nat_eq_self)
  then have "of_nat m \<le> d \<longleftrightarrow> Suc (k mod m) = m" using lt by (auto simp: word_le_nat_alt)
  moreover have "Suc (k mod m) \<noteq> m \<Longrightarrow> d = of_nat (Suc k mod m)" by (simp add: d mod_Suc)
  ultimately show "of_nat m \<le> x + 1 - y \<longleftrightarrow> Suc (k mod m) = m"
    "Suc (k mod m) \<noteq> m \<Longrightarrow> x + 1 - y = of_nat (Suc k mod m)"
    unfolding d_def by blast+
qed

lemma replicate_pair: "concat (replicate n [x, y]) @ [x, y] = x # y # concat (replicate n [x, y])"
  by (induction n) simp_all

lemma cyclic_run:
  assumes "can_ready e" "udp_ready e p s" and "lastTime_20ms s = g_TickCount_1ms s" "lastTime_50ms s = g_TickCount_1ms s"
  shows "let t = cyclic e k s in
    filter is_can (net_out t) =
      filter is_can (net_out s) @ concat (replicate (k div 20) [act_command_frame s, body_command_frame s]) \<and>
    filter (Not \<circ> is_can) (net_out t) =
      filter (Not \<circ> is_can) (net_out s) @ map (\<lambda>i. status_packet p s (COM_Stat_Cnt s + of_nat i)) [0..<k div 50] \<and>
    tx_view t = tx_view s \<and> COM_Stat_Cnt t = COM_Stat_Cnt s + of_nat (k div 50) \<and>
    g_TickCount_1ms t - lastTime_20ms t = of_nat (k mod 20) \<and> g_TickCount_1ms t - lastTime_50ms t = of_nat (k mod 50)"
proof (induction k)
  case (Suc k)
  define t where "t = tick_ms (cyclic e k s)"
  have now: "cyclic e (Suc k) s = COM_Tx_MainFunction e t" by (simp add: cyclic_def t_def)
  note IH = Suc.IH [unfolded Let_def]
  have view: "tx_view t = tx_view s" using IH by (simp add: t_def tick_ms_com)
  then have ready: "udp_ready e p t" using assms(2) tx_view_eq(4) [OF view] by (simp add: udp_ready_def)
  have cnt: "COM_Stat_Cnt t = COM_Stat_Cnt s + of_nat (k div 50)" using IH by (simp add: t_def tick_ms_com)
  have "of_nat 20 \<le> g_TickCount_1ms t - lastTime_20ms t \<longleftrightarrow> Suc (k mod 20) = 20"
    "Suc (k mod 20) \<noteq> 20 \<Longrightarrow> g_TickCount_1ms t - lastTime_20ms t = of_nat (Suc k mod 20)"
    "of_nat 50 \<le> g_TickCount_1ms t - lastTime_50ms t \<longleftrightarrow> Suc (k mod 50) = 50"
    "Suc (k mod 50) \<noteq> 50 \<Longrightarrow> g_TickCount_1ms t - lastTime_50ms t = of_nat (Suc k mod 50)"
    using period_step [of "g_TickCount_1ms (cyclic e k s)" "lastTime_20ms (cyclic e k s)" k 20]
      period_step [of "g_TickCount_1ms (cyclic e k s)" "lastTime_50ms (cyclic e k s)" k 50] IH
    by (simp_all add: t_def tick_ms_com)
  then show ?case
    unfolding Let_def now
    using MainFunction_sends [OF assms(1) ready] IH view cnt tx_view_eq [OF view]
    by (intro conjI) (auto simp: div_Suc mod_Suc tick_ms_com t_def replicate_pair)
qed (use assms(3,4) in \<open>simp add: cyclic_def\<close>)

end
