(* ===== verification/Main_Props.thy ===== *)
theory Main_Props
  imports Main_Timing
begin

unbundle bit_operations_syntax

text \<open>
  The properties of the gateway, each with an instance on a concrete environment, \<open>bench_net\<close>: a stack
  that gives a control block to every request, accepts everything and always has room, and CAN
  controllers that are never busy.
\<close>

definition bench_net :: net_env where
  "bench_net = \<lparr>ne_new = Some, ne_bind = (\<lambda>n. ERR_OK), ne_listen = Some, ne_pbuf = (\<lambda>n. True), ne_send = (\<lambda>n. ERR_OK),
     ne_sndbuf = (\<lambda>n. 2048), ne_can = (\<lambda>n. SentStatus 0), ne_aton = (\<lambda>s. [224, 224, 224, 245])\<rparr>"

definition bench_main :: main_ecu where
  "bench_main = main_init bench_net (main_statics undefined)"

text \<open>The same with a tester connected.\<close>

definition bench_tester :: main_ecu where
  "bench_tester = snd (tcp_server_accept (Some 7) ERR_OK bench_main)"

lemma bench_net_ready [simp]: "can_ready bench_net"
  by (simp add: can_ready_def bench_net_def)

lemma bench_statics:
  "tcp_active_pcb bench_main = None" "COM_Cur_Mode bench_main = 0" "net_out bench_main = []"
  "g_TickCount_1ms bench_main = 0" "tcp_listen_pcb bench_main \<noteq> None" "DtcStatus_Pc bench_main = 0"
  by (simp_all add: bench_main_def main_init_def Sd_Init_def TcpInit_def UdpInit_def udp_open_def main_statics_def
      bench_net_def call_def Let_def)

lemma bench_tester_ready [simp]: "tcp_ready bench_net 7 bench_tester"
  by (simp add: tcp_ready_def bench_tester_def tcp_server_accept_def bench_statics) (simp add: bench_net_def)

lemma bench_tester_out: "net_out bench_tester = []" "SoAd_IsClosePending bench_tester = SoAd_IsClosePending bench_main"
  "COM_Cur_Mode bench_tester = 0"
  by (simp_all add: bench_tester_def tcp_server_accept_def bench_statics)

section \<open>Reachable states\<close>

text \<open>
  C11. In every reachable state of the gateway, whatever packets and frames arrived and however the
  millisecond interrupt was interleaved: every DoIP message sent has a header of a known type that
  gives its length, every CAN frame is a command of six bytes or a single frame of one to seven
  bytes for the node its identifier belongs to; the mode, the override and the session have their
  values; and each trouble code has its current bit set exactly while losses are counted, its
  history bit after three, and no other bit.
\<close>

theorem main_reachable_invariant:
  assumes "main_reachable e (pc, s)"
  shows "list_all event_ok (net_out s) \<and> COM_Cur_Mode s \<le> 2 \<and> COM_Safety_Override s \<le> 1 \<and>
    (Current_Diag_Session s = 1 \<or> Current_Diag_Session s = 3) \<and>
    comm_dtc_ok (DtcStatus_Pc s) (DtcOccurCount_Pc s) \<and> comm_dtc_ok (DtcStatus_Act s) (DtcOccurCount_Act s) \<and>
    comm_dtc_ok (DtcStatus_Body s) (DtcOccurCount_Body s)"
  using main_ok_reachable [OF assms] by (auto simp: main_ok_def)

theorem main_reachable_invariant_witness: "COM_Cur_Mode bench_tester \<le> 2"
proof -
  have "main_reachable bench_net (PcPoll, bench_tester)"
    unfolding bench_tester_def
    by (rule main_reachable.step [OF main_reachable.init [of bench_net undefined, folded bench_main_def]])
      (rule main_step.accept, rule bench_statics)
  from main_reachable_invariant [OF this] show ?thesis by blast
qed

section \<open>Diagnostics over IP\<close>


text \<open>A routing activation of the tester.\<close>

definition bench_activation :: memory where
  "bench_activation = array [0x02, 0xFD, 0x00, 0x05, 0, 0, 0, 7, 0x0E, 0x00, 0, 0, 0, 0, 0]"



text \<open>The tester asks ACT for the data identifier 0x0100.\<close>

definition bench_act_read :: memory where
  "bench_act_read = array [0x02, 0xFD, 0x80, 0x01, 0, 0, 0, 7, 0x0E, 0x00, 0x00, 0x10, 0x22, 0x01, 0x00]"


section \<open>The gateway's own services\<close>

text \<open>
  C20. A request to the gateway itself that is not empty gets exactly one answer: the positive one, with
  the service identifier plus 0x40, exactly when the request is one of those served, and otherwise
  the negative one of three bytes with one of the codes 0x11, 0x12, 0x13 and 0x31. The session changes
  exactly in a served session control, the trouble codes exactly in a served clear, after which they
  are all zero.
\<close>

theorem main_uds_services:
  assumes "tcp_ready e q s" "n \<noteq> 0"
  shows "let t = Uds_ProcessRx e data n s in replies q (data 0) (served data n) s t \<and>
    Current_Diag_Session t = (if served data n \<and> data 0 = 0x10 then data 1 else Current_Diag_Session s) \<and>
    [DtcStatus_Pc t, DtcStatus_Act t, DtcStatus_Body t, DtcOccurCount_Pc t, DtcOccurCount_Act t, DtcOccurCount_Body t] =
      (if served data n \<and> data 0 = 0x14 then [0, 0, 0, 0, 0, 0]
       else [DtcStatus_Pc s, DtcStatus_Act s, DtcStatus_Body s, DtcOccurCount_Pc s, DtcOccurCount_Act s, DtcOccurCount_Body s])"
  using uds_reply [OF assms, of data] Uds_state [of e data n s] assms(2) by (auto simp: Let_def dcm_state_def)

theorem main_uds_services_witness:
  "let t = Uds_ProcessRx bench_net (array [0x14, 0xFF, 0xFF, 0xFF]) 4 (bench_tester\<lparr>DtcStatus_Act := 9, DtcOccurCount_Act := 3\<rparr>) in
   net_out t \<noteq> [] \<and> DtcStatus_Act t = 0"
proof -
  have "tcp_ready bench_net 7 (bench_tester\<lparr>DtcStatus_Act := 9, DtcOccurCount_Act := 3\<rparr>)"
    using bench_tester_ready by (simp add: tcp_ready_def)
  from main_uds_services [OF this, of 4 "array [0x14, 0xFF, 0xFF, 0xFF]"] show ?thesis
    by (auto simp: Let_def replies_def served_def)
qed

text \<open>
  The communication trouble codes are independent of each other: after a clear and any sequence of
  reports of a lost or recovered partner, however they are interleaved, the code of a partner is
  confirmed exactly when its own reports contain three losses in a row, and its current bit is its
  own last report.
\<close>

theorem main_dtc_confirmation:
  "let t = fold comm_report rs (DCM_Clear_All_DTC s); own = own_reports p rs in
   (comm_status p t AND 8 \<noteq> 0 \<longleftrightarrow> sublist [True, True, True] own) \<and>
   (own \<noteq> [] \<longrightarrow> (comm_status p t AND 1 \<noteq> 0 \<longleftrightarrow> last own))"
proof -
  have "comm_status p (fold comm_report rs u) = comm_status p (comm_dtc.reports p (own_reports p rs) u)"
    for u :: "'a dcm_scheme"
    using reports_own [of p rs u] by (simp add: comm_pair_def)
  then show ?thesis
    using comm_dtc.history_after_clear [of p "own_reports p rs" s]
      comm_dtc.current_reports [of "own_reports p rs" p "DCM_Clear_All_DTC s"]
    by (simp add: Let_def)
qed

theorem main_dtc_confirmation_witness:
  "let t = fold comm_report [(PartnerPc, True), (PartnerAct, False), (PartnerPc, True), (PartnerBody, True), (PartnerPc, True)]
     (DCM_Clear_All_DTC bench_main) in
   comm_status PartnerPc t AND 8 \<noteq> 0 \<and> comm_status PartnerBody t AND 8 = 0 \<and> comm_status PartnerAct t AND 1 = 0"
proof -
  let ?rs = "[(PartnerPc, True), (PartnerAct, False), (PartnerPc, True), (PartnerBody, True), (PartnerPc, True)]"
  show ?thesis
    using main_dtc_confirmation [of ?rs bench_main PartnerPc] main_dtc_confirmation [of ?rs bench_main PartnerBody]
      main_dtc_confirmation [of ?rs bench_main PartnerAct]
    by (simp add: Let_def own_reports_def sublist_Cons_right)
qed

section \<open>Timing\<close>

text \<open>
  C26. When the signal layer is called every millisecond and the network accepts, then after any number
  \<open>k\<close> of calls, also across the wrap of the clock, the gateway has sent one pair of commands, first
  to ACT and then to BODY, for every 20 ms, and one status datagram to the PC for every 50 ms, with
  consecutive counters; every message carries the signals as they were.
\<close>

theorem main_cyclic_messages:
  assumes "can_ready e" "udp_ready e p s" and "lastTime_20ms s = g_TickCount_1ms s" "lastTime_50ms s = g_TickCount_1ms s"
    and "net_out s = []"
  shows "filter is_can (net_out (cyclic e k s)) = concat (replicate (k div 20) [act_command_frame s, body_command_frame s]) \<and>
    filter (Not \<circ> is_can) (net_out (cyclic e k s)) =
      map (\<lambda>i. UdpSendTo p (pcip s) 5001 [COM_Stat_Cnt s + of_nat i, Stat_speedl s, Stat_speedh s]) [0..<k div 50]"
  using cyclic_run [OF assms(1-4), of k] assms(5) by (simp add: Let_def status_packet_def)

theorem main_cyclic_messages_witness:
  "filter is_can (net_out (cyclic bench_net 45 bench_main)) =
     [act_command_frame bench_main, body_command_frame bench_main, act_command_frame bench_main, body_command_frame bench_main]"
proof -
  have "udp_ready bench_net 0 bench_main" "lastTime_20ms bench_main = g_TickCount_1ms bench_main"
    "lastTime_50ms bench_main = g_TickCount_1ms bench_main"
    by (simp_all add: udp_ready_def bench_main_def main_init_def Sd_Init_def TcpInit_def UdpInit_def udp_open_def main_statics_def
      bench_net_def call_def Let_def)
  from main_cyclic_messages [OF bench_net_ready this bench_statics(3), of 45] show ?thesis by (simp add: numeral_2_eq_2)
qed

text \<open>
  A connection that is to be closed is closed once, 50 ms later: for 49 milliseconds nothing is
  sent and the connection stays, so that the acknowledge can still leave; at the fiftieth the
  connection that is active then is closed, and nothing more happens after it.
\<close>

theorem main_delayed_close:
  "net_out (closing k s) = net_out s @ (if k < 50 then [] else case tcp_active_pcb s of None \<Rightarrow> [] | Some q \<Rightarrow> [TcpClose q]) \<and>
   tcp_active_pcb (closing k s) = (if k < 50 then tcp_active_pcb s else None) \<and>
   (SoAd_IsClosePending (closing k s) \<longleftrightarrow> k < 50)"
proof (cases "k < 50")
  case False
  then obtain j where "k = 50 + j" using le_Suc_ex not_less by blast
  then show ?thesis using closing_done [of j s] closing_at_50 [of s] by simp
qed (use closing_waits [of k s] in simp)

end
