(* ===== verification/Vehicle_Bus.thy ===== *)
theory Vehicle_Bus
  imports Main_Timing Act_Function Body_Answer
begin

unbundle bit_operations_syntax

text \<open>
  The CAN bus between the three control units: how a frame that one of them hands to its controller
  looks to the handler of another. The identifier and the bytes are carried unchanged; the gateway
  counts the length as a data length code of the CAN FD standard, ACT and BODY as the number of bytes
  that code stands for. The gateway and ACT send with the fast data phase, BODY without; both are FD frames.
\<close>

section \<open>Frames on the wire\<close>

definition to_act :: "can_msg \<Rightarrow> act_frame" where
  "to_act m = \<lparr>af_id = cm_id m, af_mode = FrameMode_fdLongAndFast,
     af_dlc = unat (Can_GetLength (of_nat (cm_dlc m))), af_data = cm_data m\<rparr>"

definition to_body :: "can_msg \<Rightarrow> can_frame" where
  "to_body m = \<lparr>cf_id = cm_id m, cf_dlc = unat (Can_GetLength (of_nat (cm_dlc m))), cf_data = cm_data m\<rparr>"

definition from_act :: "act_frame \<Rightarrow> can_msg" where
  "from_act f = \<lparr>cm_id = af_id f, cm_dlc = unat (Can_GetDlc (of_nat (af_dlc f))), cm_data = af_data f\<rparr>"

definition from_body :: "can_frame \<Rightarrow> can_msg" where
  "from_body f = \<lparr>cm_id = cf_id f, cm_dlc = unat (Can_GetDlc (of_nat (cf_dlc f))), cm_data = cf_data f\<rparr>"

text \<open>The length codes agree on every length that a unit uses.\<close>

lemma length_code_inverse:
  assumes "n \<le> 8 \<or> n \<in> {12, 16, 20, 24, 32, 48, 64}"
  shows "Can_GetLength (Can_GetDlc n) = n"
proof (cases "n \<le> 8")
  case True
  then have "n \<noteq> 9" "n \<noteq> 10" "n \<noteq> 11" "n \<noteq> 12" "n \<noteq> 13" "n \<noteq> 14" "n \<noteq> 15"
    by (simp_all add: word_le_nat_alt word_unat_eq_iff)
  with True show ?thesis by (simp add: Can_GetLength_def Can_GetDlc_def)
next
  case False
  with assms have "n \<in> {12, 16, 20, 24, 32, 48, 64}" by blast
  then show ?thesis by (elim insertE emptyE; simp add: Can_GetLength_def Can_GetDlc_def)
qed

lemma dlc_length: "n \<le> 8 \<or> n = 12 \<Longrightarrow> unat (Can_GetLength (of_nat (unat (Can_GetDlc n)))) = unat n"
proof -
  assume "n \<le> 8 \<or> n = 12"
  then have "Can_GetLength (Can_GetDlc n) = n" by (intro length_code_inverse) blast
  then show ?thesis by simp
qed

section \<open>The bytes of a frame\<close>

definition padded :: "memory \<Rightarrow> nat \<Rightarrow> memory" where
  "padded d n = (\<lambda>i. if i < n then d i else 0)"

lemma frame_words_padded:
  assumes "4 * i + 3 < 64" "n \<le> 64"
  shows "frame_words d n ! i =
    pack_le (padded d n (4 * i)) (padded d n (4 * i + 1)) (padded d n (4 * i + 2)) (padded d n (4 * i + 3))"
proof -
  have "(bytes d n @ replicate (64 - n) 0) ! k = padded d n k" if "k < 64" for k
    using that assms(2) by (auto simp: padded_def nth_append)
  then show ?thesis
    using assms le_words_nth [of i "bytes d n @ replicate (64 - n) 0"] by (simp add: frame_words_def)
qed

lemma frame_words_first:
  assumes "n \<le> 64"
  shows "frame_words d n ! 0 = pack_le (padded d n 0) (padded d n 1) (padded d n 2) (padded d n 3)"
    "frame_words d n ! 1 = pack_le (padded d n 4) (padded d n 5) (padded d n 6) (padded d n 7)"
  using frame_words_padded [of 0 n d] frame_words_padded [of 1 n d] assms by (simp_all add: numeral_2_eq_2)

lemma upt_8: "[0..<8] = [0, 1, 2, 3, 4, 5, 6, 7]"
  by (simp add: upt_rec)

lemma act_reads: "n \<le> 64 \<Longrightarrow> act_rx_bytes (frame_words d n) = map (padded d n) [0..<8]"
  by (simp add: act_rx_bytes_def frame_words_first upt_8 del: One_nat_def)

lemma body_reads: "n \<le> 64 \<Longrightarrow> BodyCan_UnpackRxBytes (frame_words d n) = map (padded d n) [0..<8]"
  by (simp add: BodyCan_UnpackRxBytes_def frame_words_first upt_8 del: One_nat_def)

text \<open>What the gateway reads from two or three words.\<close>

lemma gateway_reads:
  assumes "i < unat (Can_GetLength (of_nat (cm_dlc m)))" "i < 4 * length (cm_data m)"
  shows "can_payload m stale i = le_bytes (cm_data m) ! i"
  using assms by (simp add: can_payload_def)

section \<open>Commands\<close>

text \<open>What the signals of the gateway ask of ACT and BODY.\<close>

definition act_signals :: "'a com_scheme \<Rightarrow> act_command" where
  "act_signals s = \<lparr>ac_accel = Ctr_accel s, ac_steering = Ctr_steer s, ac_brake = Ctr_brake s, ac_gear = Ctr_gear s,
     ac_mode = COM_Cur_Mode s, ac_safety = COM_Safety_Override s\<rparr>"

definition body_signals :: "'a com_scheme \<Rightarrow> body_command" where
  "body_signals s = \<lparr>bc_headlamp = Ctr_head_light s, bc_turn = Ctr_turn_signal s, bc_brake = Ctr_brake s,
     bc_horn = Ctr_horn s, bc_warning = COM_Collision_Warn s, bc_mode = COM_Cur_Mode s\<rparr>"

lemma act_command_sent:
  assumes "act_command_frame s = CanMessage node m"
  shows "node = CanNode0" "act_frame_command (to_act m) = act_signals s"
    "accepts_act_command (to_act m) \<longleftrightarrow> act_command_valid (act_signals s)"
  using assms by (auto simp: act_command_frame_def act_frame_command_def to_act_def act_reads upt_8 padded_def
      act_signals_def accepts_act_command_def ActCan_IsCanFdFrameMode_def Can_GetLength_def Let_def)

lemma body_command_sent:
  assumes "body_command_frame s = CanMessage node m"
  shows "node = CanNode2" "frame_command (to_body m) = body_signals s"
    "accepts_command (to_body m) \<longleftrightarrow> command_valid (body_signals s)"
  using assms by (auto simp: body_command_frame_def frame_command_def to_body_def body_reads upt_8 padded_def
      body_signals_def accepts_command_def command_valid_def body_command_valid_def Can_GetLength_def Let_def)

section \<open>Diagnostic requests\<close>

lemma single_frame_nth:
  assumes "unat n \<le> 7"
  shows "single_frame d n = ucast n # map (padded d (unat n)) [0..<7]"
proof (rule nth_equalityI)
  show "length (single_frame d n) = length (ucast n # map (padded d (unat n)) [0..<7])"
    using assms by (simp add: single_frame_def)
  fix i assume "i < length (single_frame d n)"
  then show "single_frame d n ! i = (ucast n # map (padded d (unat n)) [0..<7]) ! i"
    using assms by (cases i) (auto simp: single_frame_def nth_append low_nibble padded_def)
qed

lemma request_received:
  assumes "unat n \<le> 7" "can_request canId d n = CanMessage node m"
  shows "cm_id m = canId" "cm_dlc m = 8" "cm_data m = frame_words (array (single_frame d n)) 8"
    "act_rx_bytes (cm_data m) = single_frame d n" "BodyCan_UnpackRxBytes (cm_data m) = single_frame d n"
proof -
  show m: "cm_id m = canId" "cm_dlc m = 8" "cm_data m = frame_words (array (single_frame d n)) 8"
    using assms(2) by (auto simp: can_request_def)
  have "map (padded (array (single_frame d n)) 8) [0..<8] = single_frame d n"
    using length_single_frame [OF assms(1), of d]
    by (intro nth_equalityI) (auto simp: padded_def)
  then show "act_rx_bytes (cm_data m) = single_frame d n" "BodyCan_UnpackRxBytes (cm_data m) = single_frame d n"
    by (simp_all add: m act_reads body_reads)
qed

section \<open>Answers\<close>

text \<open>
  A single frame that arrives at the gateway: the length in its first byte fits the frame, and the bytes
  after it are the payload, whatever memory lies behind the frame.
\<close>

lemma CanTp_answer:
  assumes "tcp_ready e q s" and "canId = 0x708 \<and> sa = 0x0010 \<or> canId = 0x718 \<and> sa = 0x0020"
    and "unat (p 0) < 16" "unat (p 0) < unat n"
  shows "CanIf_RxIndication e canId p n s =
    after_event (TcpWrite q (doip_message sa (bytes (moved 1 p) (unat (p 0))))) s"
proof -
  have low: "p 0 AND 0x0F = p 0" using assms(3) by (rule low_nibble)
  have "(p 0 AND 0x0F) AND 0xF0 = 0" by (simp add: and.assoc)
  then have "p 0 AND 0xF0 = 0" unfolding low .
  then have k: "drop_bit 4 (p 0 AND 0xF0) = 0" "\<not> n < 1" "\<not> p 0 > n - 1"
    using assms(4) by (auto simp: word_less_nat_alt unat_sub word_le_nat_alt simp del: drop_bit_and)
  have len: "unat (ucast (p 0) :: u16) = unat (p 0)"
    using unsigned_less [of "p 0", where 'a = nat] by (simp add: unsigned_ucast_eq take_bit_nat_eq_self)
  have tx: "DoIP_ProcessTx e a d (ucast (p 0)) s = after_event (TcpWrite q (doip_message a (bytes d (unat (p 0))))) s" for a d
    using ProcessTx_ready [OF assms(1), of "ucast (p 0)" a d] assms(3) by (simp add: len)
  have "CanTp_RxIndication e canId p n s =
      PduR_RouteRx e (if canId = 0x708 then 0x17 else 0x18) (moved 1 p) (ucast (p 0)) s"
    using assms(2) k(2,3) unfolding CanTp_RxIndication_def Let_def low k(1) by auto
  then show ?thesis
    using assms(2) by (auto simp: CanIf_targets CanTp_Act_RxIndication_def CanTp_Body_RxIndication_def
        RouteRx_targets CAN_Act_UDS_processRx_def CAN_Body_UDS_processRx_def tx simp del: One_nat_def)
qed

lemma act_frame_le: "act_frame_bytes f = le_bytes (af_data f)"
proof -
  have "concat (map (\<lambda>w. [byte_at 0 w, byte_at 8 w, byte_at 16 w, byte_at 24 w]) ws) = le_bytes ws" for ws
    by (induction ws) simp_all
  then show ?thesis by (simp add: act_frame_bytes_def)
qed

lemma payload_bytes:
  assumes "k + n \<le> unat (Can_GetLength (of_nat (cm_dlc m)))" "k + n \<le> 4 * length (cm_data m)"
  shows "bytes (moved k (can_payload m stale)) n = take n (drop k (le_bytes (cm_data m)))"
  using assms by (intro nth_equalityI) (simp_all add: moved_def gateway_reads)

lemma single_answer:
  assumes "tcp_ready e q s" and "cm_id m = 0x708 \<and> sa = 0x0010 \<or> cm_id m = 0x718 \<and> sa = 0x0020"
    and "le_bytes (cm_data m) = k # bs" "unat k \<le> length bs" "unat k < unat (Can_GetLength (of_nat (cm_dlc m)))" "unat k < 16"
  shows "can_receive e (m, stale) s = after_event (TcpWrite q (doip_message sa (take (unat k) bs))) s"
proof -
  have "length (le_bytes (cm_data m)) = Suc (length bs)" using assms(3) by simp
  then have len: "Suc (unat k) \<le> 4 * length (cm_data m)" using assms(4) by simp
  have "bytes (moved 1 (can_payload m stale)) (unat k) = take (unat k) (drop 1 (le_bytes (cm_data m)))"
    by (rule payload_bytes) (use assms(5) len in simp_all)
  then have body: "bytes (moved 1 (can_payload m stale)) (unat k) = take (unat k) bs" by (simp add: assms(3))
  have "can_payload m stale 0 = le_bytes (cm_data m) ! 0"
    by (rule gateway_reads) (use assms(5) len in linarith)+
  then have first: "can_payload m stale 0 = k" by (simp add: assms(3))
  show ?thesis
    unfolding can_receive_def prod.case
    by (subst CanTp_answer [OF assms(1,2)]) (use assms(5,6) body first in simp_all)
qed

text \<open>The answers of ACT, of one to eleven bytes, and of BODY, of one to seven, reach the tester.\<close>

lemma act_answer_received:
  assumes "tcp_ready e q s" "length p \<le> 11"
  shows "can_receive e (from_act (sf_frame p (of_nat (length p))), stale) s =
    after_event (TcpWrite q (doip_message 0x0010 p)) s"
proof -
  let ?f = "sf_frame p (of_nat (length p))"
  have k: "unat (of_nat (length p) :: u8) = length p" using assms(2) by (simp add: unat_of_nat take_bit_nat_eq_self)
  have "le_bytes (cm_data (from_act ?f)) = of_nat (length p) # p @ replicate (11 - length p) 0"
    using sf_frame_bytes [OF assms(2)] by (simp add: from_act_def act_frame_le)
  moreover have "length p < unat (Can_GetLength (of_nat (cm_dlc (from_act ?f))))" "cm_id (from_act ?f) = 0x708"
    using assms(2) k by (auto simp: from_act_def sf_frame_def Let_def Can_GetDlc_def Can_GetLength_def word_le_nat_alt)
  ultimately show ?thesis
    using single_answer [OF assms(1), of "from_act ?f" "0x0010" "of_nat (length p)" "p @ replicate (11 - length p) 0" stale]
      assms(2) k by simp
qed

lemma le_bytes_pack: "length bs = 8 \<Longrightarrow> le_bytes (BodyCan_PackTxBytes bs) = bs"
  using Unpack_Pack [of bs] by (simp add: BodyCan_UnpackRxBytes_def BodyCan_PackTxBytes_def)

lemma body_answer_received:
  assumes "tcp_ready e q s" "length bs = 8" "unat (bs ! 0) \<le> 7"
  shows "can_receive e (from_body \<lparr>cf_id = 0x718, cf_dlc = 8, cf_data = BodyCan_PackTxBytes bs\<rparr>, stale) s =
    after_event (TcpWrite q (doip_message 0x0020 (take (unat (bs ! 0)) (drop 1 bs)))) s"
proof -
  let ?m = "from_body \<lparr>cf_id = 0x718, cf_dlc = 8, cf_data = BodyCan_PackTxBytes bs\<rparr>"
  have "le_bytes (cm_data ?m) = bs ! 0 # drop 1 bs"
    using assms(2) by (cases bs) (simp_all add: from_body_def le_bytes_pack)
  moreover have "unat (Can_GetLength (of_nat (cm_dlc ?m))) = 8" "cm_id ?m = 0x718"
    by (simp_all add: from_body_def Can_GetDlc_def Can_GetLength_def)
  ultimately show ?thesis
    using single_answer [OF assms(1), of ?m "0x0020" "bs ! 0" "drop 1 bs" stale] assms(2,3) by simp
qed

section \<open>States and events\<close>

lemma short_payload:
  assumes "i < unat (Can_GetLength (of_nat (cm_dlc m)))" "le_bytes (cm_data m) = bs" "i < length bs"
  shows "can_payload m stale i = bs ! i"
proof -
  have "i < 4 * length (cm_data m)" using assms(2,3) length_le_bytes by metis
  then show ?thesis using gateway_reads [OF assms(1)] assms(2) by simp
qed

text \<open>The state of ACT: two bytes of speed, gear, steering and angle.\<close>

lemma act_status_received:
  "can_receive e (from_act (status_frame bs), stale) s =
     DCM_Callback_ActRecovered (s\<lparr>Stat_speedl := bs ! 0, Stat_speedh := bs ! 1, Stat_gear := bs ! 2,
       Stat_steer := bs ! 3, Stat_steering_angle := bs ! 4, Last_Act_RxTime := g_TickCount_1ms s\<rparr>)"
proof -
  let ?m = "from_act (status_frame bs)"
  have m: "le_bytes (cm_data ?m) = [bs ! 0, bs ! 1, bs ! 2, bs ! 3, bs ! 4, 0, 0, 0]"
  proof -
    have "byte_at k (ucast (b :: u8) :: u32) = 0" if "8 \<le> k" for k b
      using that by (intro bit_word_eqI) (auto simp: bit_byte_at bit_simps dest: bit_imp_le_length)
    then show ?thesis by (simp add: from_act_def status_frame_def byte_at_single)
  qed
  have "unat (Can_GetLength (of_nat (cm_dlc ?m))) = 5"
    by (simp add: from_act_def status_frame_def Can_GetDlc_def Can_GetLength_def)
  then have p: "can_payload ?m stale 0 = bs ! 0" "can_payload ?m stale 1 = bs ! 1" "can_payload ?m stale 2 = bs ! 2"
    "can_payload ?m stale 3 = bs ! 3" "can_payload ?m stale 4 = bs ! 4"
    using short_payload [OF _ m] by simp_all
  have "cm_id ?m = 0x200" by (simp add: from_act_def status_frame_def)
  with p show ?thesis
    by (simp add: can_receive_def CanIf_targets PduR_RouteRx_CanStatus_def RouteRx_targets CAN_Stat_processRx_def
        Get_SystemTime_ms_def Let_def del: One_nat_def)
qed

text \<open>A collision event goes on to the Raspberry Pi as it is.\<close>

lemma collision_received:
  assumes "udp_ready e p s"
  shows "can_receive e (from_body \<lparr>cf_id = 0x210, cf_dlc = 5, cf_data = BodyCan_PackTxBytes (collision_event_bytes w)\<rparr>, stale) s =
    emit (UdpSendTo p [192, 168, 20, 2] 5002 (take 5 (collision_event_bytes w))) (call (call s))"
proof -
  let ?m = "from_body \<lparr>cf_id = 0x210, cf_dlc = 5, cf_data = BodyCan_PackTxBytes (collision_event_bytes w)\<rparr>"
  have m: "le_bytes (cm_data ?m) = collision_event_bytes w"
    by (simp add: from_body_def le_bytes_pack collision_event_bytes_def)
  have n: "Can_GetLength (of_nat (cm_dlc ?m)) = 5" "cm_id ?m = 0x210" "length (cm_data ?m) = 2"
    by (simp_all add: from_body_def Can_GetDlc_def Can_GetLength_def BodyCan_PackTxBytes_def)
  have "bytes (can_payload ?m stale) 5 = take 5 (le_bytes (cm_data ?m))"
    using payload_bytes [of 0 5 ?m stale] n by (simp add: moved_def)
  then have b: "bytes (can_payload ?m stale) 5 = take 5 (collision_event_bytes w)" by (simp add: m)
  show ?thesis
    using assms by (simp add: can_receive_def n CanIf_targets PduR_RouteRx_CanEvent_def RouteRx_targets CAN_Event_processRx_def
        SoAd_IfTransmit_def UdpSendToRPi_def UdpSend_WithPcb_def udp_ready_def Let_def b call_def emit_def)
qed

text \<open>The heartbeat of BODY.\<close>

lemma heartbeat_received:
  "can_receive e (from_body \<lparr>cf_id = 0x310, cf_dlc = 1, cf_data = BodyCan_PackTxBytes (a # bs)\<rparr>, stale) s =
     DCM_Callback_BodyRecovered (s\<lparr>Body_alive_cnt := a, Last_Body_RxTime := g_TickCount_1ms s\<rparr>)"
proof -
  let ?m = "from_body \<lparr>cf_id = 0x310, cf_dlc = 1, cf_data = BodyCan_PackTxBytes (a # bs)\<rparr>"
  have "unat (Can_GetLength (of_nat (cm_dlc ?m))) = 1" "cm_id ?m = 0x310"
    "le_bytes (cm_data ?m) ! 0 = a" "length (cm_data ?m) = 2"
    by (simp_all add: from_body_def Can_GetDlc_def Can_GetLength_def BodyCan_PackTxBytes_def)
  then show ?thesis using gateway_reads [of 0 ?m stale]
    by (simp add: can_receive_def CanIf_targets PduR_RouteRx_CanBody_def RouteRx_targets CAN_Body_processRx_def
        Get_SystemTime_ms_def Let_def)
qed

end
