(* ===== verification/Act_Origin.thy ===== *)
theory Act_Origin
  imports Act_Function
begin

unbundle bit_operations_syntax

text \<open>
  What makes the motors of ACT turn. In every state of the loop, the command that is stored and the one
  the loop has copied came in valid frames, and a motor that is not stopped is driven either by the
  routine of the motor test or by a command that was received. What ACT sends has one of two formats.
\<close>

section \<open>Where the motion comes from\<close>

fun act_pc_command :: "act_pc \<Rightarrow> act_command set" where
  "act_pc_command (PcCopied i c) = {c}"
| "act_pc_command (PcCleared i c) = {c}"
| "act_pc_command _ = {}"

text \<open>\<open>act_sourced K x\<close>: the commands in \<open>K\<close> account for all motion and all pending commands.\<close>

definition act_sourced :: "act_command set \<Rightarrow> act_pc \<times> act_ecu \<Rightarrow> bool" where
  "act_sourced K = (\<lambda>(pc, s). (g_rxUpdated s \<longrightarrow> act_copy_command s \<in> K) \<and> act_pc_command pc \<subseteq> K \<and>
     (g_motorState s \<noteq> MOTOR_STATE_STOP \<and> g_routineState s \<noteq> UDS_ROUTINE_MOTOR_TEST \<longrightarrow>
        (\<exists>c\<in>K. fst (commanded_drive c) = g_motorState s)))"

lemma act_sourced_mono: "act_sourced K x \<Longrightarrow> K \<subseteq> K' \<Longrightarrow> act_sourced K' x"
  by (cases x) (auto simp: act_sourced_def)

text \<open>An operation after which the motor moves only as it did before, or in a motor test.\<close>

definition steady :: "'a act_uds_scheme \<Rightarrow> 'a act_uds_scheme \<Rightarrow> bool" where
  "steady s t \<longleftrightarrow> g_motorState t = MOTOR_STATE_STOP \<or> g_routineState t = UDS_ROUTINE_MOTOR_TEST \<or>
     g_motorState t = g_motorState s \<and> g_routineState s \<noteq> UDS_ROUTINE_MOTOR_TEST"

lemma steady_refl [simp, intro]: "steady s s"
  by (auto simp: steady_def)

lemma steady_trans [trans]: "steady s t \<Longrightarrow> steady t u \<Longrightarrow> steady s u"
  by (auto simp: steady_def)

lemma steady_drive: "act_drive t = act_drive s \<Longrightarrow> g_routineState t = g_routineState s \<Longrightarrow> steady s t"
  by (auto simp: steady_def act_drive_def)

lemma sourced_steady:
  assumes "act_sourced K (pc, s)" "act_core t = act_core s" "steady s t" "act_pc_command pc' \<subseteq> K"
  shows "act_sourced K (pc', t)"
  using assms core_fields [OF assms(2)] by (auto simp: act_sourced_def steady_def)

lemma keeps_core: "keeps s t \<Longrightarrow> act_core t = act_core s"
  by (simp add: keeps_def)

section \<open>Diagnostics\<close>

lemma steady_single: "steady s (UdsDiag_SendSingleFrame h p n s)"
  using truncate_fields(4) [OF SendSingleFrame_frame(1)] SendSingleFrame_frame(3) by (rule steady_drive)

lemma steady_request: "steady s (UdsDiag_ProcessRequest h d s)"
proof -
  have sent: "g_motorState (UdsDiag_SendSingleFrame h p n s) = g_motorState s"
    "g_routineState (UdsDiag_SendSingleFrame h p n s) = g_routineState s"
    "g_motorState (UdsDiag_SendNegativeResponse h sid nrc s) = g_motorState s"
    "g_routineState (UdsDiag_SendNegativeResponse h sid nrc s) = g_routineState s" for p n sid nrc and s :: "'a act_uds_scheme"
    by (simp_all add: UdsDiag_SendNegativeResponse_def Let_def SendSingleFrame_frame
        drive_fields(1) [OF truncate_fields(4) [OF SendSingleFrame_frame(1)]])
  let ?P = "\<lambda>s t. g_motorState t = g_motorState s \<and> (g_routineState s \<noteq> UDS_ROUTINE_NONE \<longrightarrow> g_routineState t = g_routineState s)"
  have hs: "?P s (UdsDiag_HandleSessionControl h u n s)" "?P s (UdsDiag_HandleReadDID h u n s)"
    "?P s (UdsDiag_HandleReadDTC h u n s)" "?P s (UdsDiag_HandleClearDTC h u n s)"
    "?P s (UdsDiag_HandleRoutineControl h u n s)" for u n and s :: "'a act_uds_scheme"
    unfolding UdsDiag_HandleSessionControl_def UdsDiag_HandleReadDID_def UdsDiag_HandleReadDTC_def
      UdsDiag_HandleClearDTC_def UdsDiag_HandleRoutineControl_def Let_def
    by (simp_all add: sent act_clear_dtc_def Let_def UdsDiag_StartMotorRoutine_def Encoder_ResetCount_def
        UdsDiag_StartServoRoutine_def MotorControl_SetDutyPercent_def SetKey_form)
  have "?P s (act_uds_dispatch h sid u n s)" for sid u n and s :: "'a act_uds_scheme"
    unfolding act_uds_dispatch_def by (simp add: hs sent)
  then have "?P s (UdsDiag_ProcessRequest h d s)" unfolding UdsDiag_ProcessRequest_def Let_def by simp
  then show ?thesis by (cases "g_routineState s") (auto simp: steady_def)
qed

text \<open>The motor test drives the motor while it lasts, and stops it at its end.\<close>

lemma motor_routine_motion:
  assumes "g_routineState s = UDS_ROUTINE_MOTOR_TEST"
  shows "g_routineState (UdsDiag_UpdateMotorRoutine1ms h s) = UDS_ROUTINE_MOTOR_TEST \<or>
    g_motorState (UdsDiag_UpdateMotorRoutine1ms h s) = MOTOR_STATE_STOP"
proof -
  have "g_motorState (routine_end h r u) = g_motorState u" for r and u :: "'a act_uds_scheme"
    using drive_fields(1) [OF routine_end_frame(6)] .
  then show ?thesis
    using assms by (simp add: MotorRoutine_form Let_def MotorControl_SetDutyPercent_def MotorControl_Stop_def
        MotorControl_Forward_def MotorControl_SetState_def motor_pin_defs set_pin_def)
qed

lemma servo_routine_motion: "g_motorState (UdsDiag_UpdateServoRoutine1ms h s) = g_motorState s"
proof -
  have "g_motorState (routine_end h r u) = g_motorState u" for r and u :: "'a act_uds_scheme"
    using drive_fields(1) [OF routine_end_frame(6)] .
  then show ?thesis by (simp add: ServoRoutine_form Let_def SetKey_form)
qed

lemma steady_routine: "steady s (UdsDiag_UpdateRoutine1ms h s)"
proof (cases "g_routineState s")
  case UDS_ROUTINE_MOTOR_TEST
  from motor_routine_motion [OF this] this show ?thesis
    by (simp add: UdsDiag_UpdateRoutine1ms_def Let_def steady_def) blast
next
  case UDS_ROUTINE_SERVO_TEST
  then show ?thesis by (simp add: UdsDiag_UpdateRoutine1ms_def Let_def steady_def servo_routine_motion)
qed (simp add: UdsDiag_UpdateRoutine1ms_def Let_def steady_def)

section \<open>Every step\<close>

lemma sourced_apply:
  assumes "act_sourced K (PcCleared i c, s)" "act_command_valid c"
  shows "act_sourced K (next_tick i, act_apply c s)"
proof -
  have d: "act_drive (act_apply c s) = commanded_drive c" by (rule act_apply_drive [OF assms(2)])
  then have "g_motorState (act_apply c s) = fst (commanded_drive c)" by (simp add: act_drive_def flip: d)
  then show ?thesis using assms(1) by (auto simp: act_sourced_def act_apply_core next_tick_def)
qed

lemma sourced_expire:
  assumes "act_sourced K (PcTick i, s)"
  shows "act_sourced K (next_tick i, act_expire (act_age s))"
proof -
  have "g_motorState (act_expire (act_age s)) = MOTOR_STATE_STOP"
    using act_expire_effect(2) [of "act_age s"] by (simp add: act_drive_def)
  moreover have "act_core (act_expire (act_age s)) = (g_cmdTimeoutTick100us (act_age s), g_rxUpdated s, act_copy_command s, 0, 0, 1)"
    using act_expire_effect(3) [of "act_age s"] by (simp add: act_age_fields)
  ultimately show ?thesis using assms by (auto simp: act_sourced_def act_core_def next_tick_def)
qed

lemma sourced_isr:
  assumes "act_sourced K (pc, s)"
  shows "act_sourced ((if accepts_act_command f then {act_frame_command f} else {}) \<union> K) (pc, ActCan_RxIsrHandler f s)"
proof -
  have f: "g_motorState (ActCan_RxIsrHandler f s) = g_motorState s" "g_routineState (ActCan_RxIsrHandler f s) = g_routineState s"
    by (simp_all add: ActCan_RxIsrHandler_def UdsDiag_OnCanRequest_def Let_def)
  have "act_copy_command (ActCan_RxIsrHandler f s) = act_frame_command f" if "accepts_act_command f"
    using accepted_effect(3) [OF that] .
  moreover have "g_rxUpdated (ActCan_RxIsrHandler f s) = g_rxUpdated s \<and> act_copy_command (ActCan_RxIsrHandler f s) = act_copy_command s"
    if "\<not> accepts_act_command f" using act_isr_rejected(1) [OF that, of s] by (simp add: keeps_def act_core_def)
  ultimately show ?thesis using assms f by (auto simp: act_sourced_def)
qed

lemma sourced_step:
  assumes "act_step h adc x y" "fst y \<noteq> fst x" "act_sourced K x" "act_inv x"
  shows "act_sourced K y"
  using assms
proof (induction rule: act_step.induct)
  case (expire s i)
  then show ?case by (intro sourced_expire)
next
  case (alive s i)
  then show ?case
    by (simp add: act_sourced_def act_age_fields drive_fields(1) [OF truncate_fields(4) [OF act_age_fields(1)]]
        can_more_fields(2) [OF act_age_fields(2)])
next
  case (none s i)
  then show ?case by (simp add: act_sourced_def next_tick_def)
next
  case (copy s i)
  then show ?case by (simp add: act_sourced_def)
next
  case (clear i c s)
  then show ?case by (simp add: act_sourced_def act_clear_flag_def)
next
  case (drive i c s)
  then show ?case by (intro sourced_apply) (simp_all add: act_inv_def act_pc_ok_def)
next
  case (serve d s)
  have "keeps s (UdsDiag_ProcessRequest h d (s\<lparr>g_reqPending := False\<rparr>))"
    by (rule keeps_trans [OF keeps_debug(3) keeps_request])
  moreover have "steady s (UdsDiag_ProcessRequest h d (s\<lparr>g_reqPending := False\<rparr>))"
    using steady_request [of "s\<lparr>g_reqPending := False\<rparr>" h d] by (simp add: steady_def)
  ultimately show ?case by (intro sourced_steady [OF serve(2) keeps_core]) simp_all
next
  case (routine s)
  show ?case by (rule sourced_steady [OF routine(2) keeps_core [OF keeps_routine] steady_routine]) simp
next
  case (dtc s)
  have "steady s (UdsDiag_UpdateDtcMonitor1ms s)"
    by (rule steady_drive) (simp_all add: UdsDiag_UpdateDtcMonitor1ms_def dtc_timers_def dtc_report_def Let_def
        case_prod_beta act_drive_def)
  then show ?case by (rule sourced_steady [OF dtc(2) keeps_core [OF keeps_dtc]]) simp
next
  case (motor s)
  have m: "act_encoder.more (MotorControl_Update h s) = act_encoder.more s"
    using MotorControl_Update_cycle [of s h] by (simp add: motor_cycle_def)
  show ?case by (rule sourced_steady [OF motor(2) encoder_more_fields(1) [OF m] steady_drive])
      (simp_all add: encoder_more_fields [OF m])
next
  case (encoder s)
  have m: "act_encoder.more (Encoder_Update1ms h s) = act_encoder.more s" by simp
  show ?case by (rule sourced_steady [OF encoder(2) encoder_more_fields(1) [OF m] steady_drive])
      (simp_all add: encoder_more_fields [OF m])
next
  case (pot s)
  show ?case by (rule sourced_steady [OF pot(2) pot_fields(1) steady_drive]) (simp_all add: pot_fields)
next
  case (status s)
  have send: "act_drive (CanComm_SendActStatus h v g st a u) = act_drive u" for v g st a and u :: "act_ecu"
    by (rule truncate_fields(4) [OF SendActStatus_frame(1)])
  have "g_routineState (CanComm_SendActStatus h v g st a u) = g_routineState u" for v g st a and u :: "act_ecu"
    using SendActStatus_frame(3) [of h v g st a u] by (cases "CanComm_SendActStatus h v g st a u"; cases u; simp)
  with drive_fields [OF send] have "steady s (App_SendStatusIfNeeded h s)"
    by (intro steady_drive) (simp_all add: App_SendStatusIfNeeded_def Let_def act_drive_def)
  then show ?case by (rule sourced_steady [OF status(2) keeps_core [OF keeps_status]]) simp
next
  case (debug s)
  then show ?case by (auto simp: act_sourced_def App_UpdateDebugValues_def act_copy_command_def)
next
  case (steer s)
  then have d: "drive_ok (s\<lparr>g_steeringUpdateTimerMs := 0\<rparr>)" "drive_ok s" by (simp_all add: act_inv_def drive_ok_def pot_ok_def)
  have "steady s (main_steering h s)"
    using encoder_more_fields [OF keeps_steering(2) [OF d(1), of h]]
    by (intro steady_drive) (simp_all add: main_steering_def Let_def act_drive_def)
  then show ?case by (rule sourced_steady [OF steer(2) keeps_core [OF keeps_steer [OF d(2)]]]) simp
qed (auto simp: act_sourced_def)

lemma sourced_init: "act_sourced K (PcTick 0, act_main_init h s)"
proof -
  define x where "x = act_before_hold h s"
  define t where "t = act_main_init h s"
  have z: "keeps x ((Steering_Update h ^^ 25) x)" "act_encoder.more ((Steering_Update h ^^ 25) x) = act_encoder.more x"
    using hold_invariant [OF before_hold(1) [of h s], of 25 h] by (simp_all flip: x_def)
  have t: "t = Encoder_ResetCount ((Steering_Update h ^^ 25) x)"
    by (simp add: t_def act_main_init_hold Steering_UpdateForMs_def Let_def flip: x_def)
  then have m: "act_encoder.more t = act_encoder.more x \<or> True" by simp
  have "act_core t = act_core x"
    using z(1) by (simp add: t keeps_def Encoder_ResetCount_def act_core_def act_copy_command_def)
  moreover have "\<not> g_rxUpdated x"
    by (simp add: x_def act_before_hold_def Center_form MotorControl_Coast_def MotorControl_SetState_def motor_pin_defs
        set_pin_def MotorControl_SetDutyPercent_def UdsDiag_Init_def ActCan_Init_def act_can_vars_def
        ActCan_EnableTransceiver_def set_mode_def Let_def)
  moreover have "g_motorState t = MOTOR_STATE_STOP"
    using drive_fields(1) [OF encoder_more_fields(2) [OF z(2)]] before_hold(4) [of h s]
    by (simp add: t Encoder_ResetCount_def x_def)
  ultimately show ?thesis using core_fields(4) [of t x] by (simp add: act_sourced_def flip: t_def)
qed

section \<open>What ACT sends\<close>

definition act_frame_ok :: "act_frame \<Rightarrow> bool" where
  "act_frame_ok f \<longleftrightarrow> ActCan_IsCanFdFrameMode (af_mode f) \<and>
     (af_id f = 0x200 \<and> af_dlc f = 5 \<and> length (af_data f) = 2 \<or>
      af_id f = 0x708 \<and> (af_dlc f = 8 \<or> af_dlc f = 12) \<and> length (af_data f) = 3 \<and>
        (let n = unat (byte_at 0 (af_data f ! 0)) in 0 < n \<and> n < af_dlc f))"

definition act_sends :: "'a act_can_scheme \<Rightarrow> 'a act_can_scheme \<Rightarrow> bool" where
  "act_sends s t \<longleftrightarrow> (\<exists>fs. can_sent t = fs @ can_sent s \<and> list_all act_frame_ok (map snd fs))"

lemma act_sends_same: "can_sent t = can_sent s \<Longrightarrow> act_sends s t"
  by (simp add: act_sends_def)

lemma act_sends_trans [trans]: "act_sends s t \<Longrightarrow> act_sends t u \<Longrightarrow> act_sends s u"
  unfolding act_sends_def by (elim exE conjE, rule exI) (auto simp: append_assoc)

lemma act_sends_one: "act_frame_ok f \<Longrightarrow> can_sent t = (b, f) # can_sent s \<Longrightarrow> act_sends s t"
  unfolding act_sends_def by (rule exI [of _ "[(b, f)]"]) simp

lemma sf_frame_ok:
  assumes "n \<noteq> 0" "n \<le> 11"
  shows "act_frame_ok (sf_frame p n)"
proof -
  have "n AND 0xF = n" using assms(2) by (intro low_nibble) (simp add: word_le_nat_alt)
  then have "byte_at 0 (af_data (sf_frame p n) ! 0) = n"
    by (simp add: sf_frame_def sf_bytes_def Let_def)
  moreover have "0 < unat n" "unat n \<le> 11" "n \<le> 7 \<longleftrightarrow> unat n \<le> 7"
    using assms by (simp_all add: unat_gt_0 word_le_nat_alt)
  ultimately show ?thesis
    by (simp add: act_frame_ok_def Let_def) (auto simp: sf_frame_def Let_def ActCan_IsCanFdFrameMode_def)
qed

lemma act_sends_single: "act_sends s (UdsDiag_SendSingleFrame h p n s)"
proof (cases "n = 0 \<or> n > 11 \<or> hw_can h (can_calls s) = NotSentBusy")
  case True
  then show ?thesis by (intro act_sends_same) (auto simp: UdsDiag_SendSingleFrame_def Let_def)
next
  case False
  then show ?thesis
    by (intro act_sends_one [OF sf_frame_ok, where b = "unat (g_udsTxBufferIndex s)"])
      (auto simp: UdsDiag_SendSingleFrame_def Let_def not_less)
qed

lemma act_sends_status: "act_sends s (CanComm_SendActStatus h v g st a s)"
proof (cases "hw_can h (can_calls s) = NotSentBusy")
  case False
  have "act_frame_ok (status_frame bs)" for bs
    by (simp add: act_frame_ok_def status_frame_def ActCan_IsCanFdFrameMode_def)
  then show ?thesis using False by (rule_tac act_sends_one) (simp_all add: SendActStatus_sent)
qed (simp add: act_sends_same SendActStatus_sent)

lemma act_sends_negative: "act_sends s (UdsDiag_SendNegativeResponse h sid nrc s)"
  using act_sends_single [of "s\<lparr>g_debugUdsLastNrc := ucast nrc\<rparr>"]
  by (simp add: UdsDiag_SendNegativeResponse_def Let_def act_sends_def)

lemma act_sends_request: "act_sends s (UdsDiag_ProcessRequest h d s)"
proof -
  have same: "can_sent (act_clear_dtc s) = can_sent s" "can_sent (UdsDiag_StartMotorRoutine s) = can_sent s"
    "can_sent (UdsDiag_StartServoRoutine s) = can_sent s" for s :: "'a act_uds_scheme"
    by (simp_all add: act_clear_dtc_def Let_def UdsDiag_StartMotorRoutine_def UdsDiag_StartServoRoutine_def
        MotorControl_SetDutyPercent_def Encoder_ResetCount_def SetKey_form)
  have answer: "act_sends s (UdsDiag_SendSingleFrame h p n u)" if "can_sent u = can_sent s" for p n and s u :: "'a act_uds_scheme"
    by (rule act_sends_trans [OF act_sends_same [OF that] act_sends_single])
  have hs: "act_sends s (UdsDiag_HandleSessionControl h u n s)" "act_sends s (UdsDiag_HandleReadDID h u n s)"
    "act_sends s (UdsDiag_HandleReadDTC h u n s)" "act_sends s (UdsDiag_HandleClearDTC h u n s)"
    "act_sends s (UdsDiag_HandleRoutineControl h u n s)" for u n and s :: "'a act_uds_scheme"
    unfolding UdsDiag_HandleSessionControl_def UdsDiag_HandleReadDID_def UdsDiag_HandleReadDTC_def
      UdsDiag_HandleClearDTC_def UdsDiag_HandleRoutineControl_def Let_def
    by (simp_all add: act_sends_negative answer same act_sends_same)
  have "act_sends s (act_uds_dispatch h sid u n s)" for sid u n and s :: "'a act_uds_scheme"
    unfolding act_uds_dispatch_def by (simp add: hs act_sends_negative)
  then have "act_sends (s\<lparr>g_debugUdsLastSid := w\<rparr>) (act_uds_dispatch h sid u n (s\<lparr>g_debugUdsLastSid := w\<rparr>))" for sid u n w .
  then show ?thesis unfolding UdsDiag_ProcessRequest_def Let_def by (simp add: act_sends_def)
qed

lemma act_sends_routine: "act_sends s (UdsDiag_UpdateRoutine1ms h s)"
proof -
  have fin: "act_sends s (routine_end h r u)" if "can_sent u = can_sent s" for r and s u :: "'a act_uds_scheme"
    using act_sends_trans [OF act_sends_same [OF that] act_sends_single]
    by (simp add: routine_end_def UdsDiag_SendRoutineResult_def act_sends_def)
  have "act_sends s (UdsDiag_UpdateMotorRoutine1ms h s)"
    by (simp add: MotorRoutine_form Let_def fin act_sends_same routine_field_defs)
  moreover have "act_sends s (UdsDiag_UpdateServoRoutine1ms h s)"
    by (simp add: ServoRoutine_form Let_def fin act_sends_same SetKey_form)
  ultimately show ?thesis
    by (cases "g_routineState s") (simp_all add: UdsDiag_UpdateRoutine1ms_def Let_def act_sends_def)
qed

lemma act_sends_step:
  assumes "act_step h adc x y" "act_inv x"
  shows "act_sends (snd x) (snd y)"
  using assms
proof (induction rule: act_step.induct)
  case (isr pc s f)
  show ?case by (rule act_sends_same) (simp add: ActCan_RxIsrHandler_def UdsDiag_OnCanRequest_def Let_def)
next
  case (expire s i)
  show ?case by (rule act_sends_same) (simp add: act_expire_effect(6) act_age_def)
next
  case (serve d s)
  show ?case using act_sends_request [of "s\<lparr>g_reqPending := False\<rparr>" h d] by (simp add: act_sends_def)
next
  case (routine s)
  show ?case by (simp add: act_sends_routine)
next
  case (dtc s)
  show ?case
    by (rule act_sends_same) (simp add: UdsDiag_UpdateDtcMonitor1ms_def dtc_timers_def dtc_report_def Let_def case_prod_beta)
next
  case (motor s)
  have m: "act_encoder.more (MotorControl_Update h s) = act_encoder.more s"
    using MotorControl_Update_cycle [of s h] by (simp add: motor_cycle_def)
  show ?case by (rule act_sends_same) (simp add: encoder_more_fields [OF m])
next
  case (encoder s)
  have m: "act_encoder.more (Encoder_Update1ms h s) = act_encoder.more s" by simp
  show ?case by (rule act_sends_same) (simp add: encoder_more_fields [OF m])
next
  case (pot s)
  show ?case by (rule act_sends_same) (simp add: PotAdc_Update1ms_def PotAdc_TryReadRaw_def pot_accumulate_def
        PotAdc_ApplyRaw_def Let_def split: option.split)
next
  case (status s)
  show ?case using act_sends_status [of "s\<lparr>g_canStatusTxTimerMs := 0\<rparr>"]
    by (simp add: App_SendStatusIfNeeded_def Let_def act_sends_def)
next
  case (steer s)
  then have "drive_ok (s\<lparr>g_steeringUpdateTimerMs := 0\<rparr>)" by (simp add: act_inv_def drive_ok_def pot_ok_def)
  from encoder_more_fields(10) [OF keeps_steering(2) [OF this, of h]]
  show ?case by (intro act_sends_same) (simp add: main_steering_def Let_def)
qed (auto intro: act_sends_same simp: act_age_def act_clear_flag_def act_apply_core App_UpdateDebugValues_def)

text \<open>The initialisation sends nothing and starts no routine.\<close>

lemma act_init_sent:
  "can_sent (act_main_init h s) = can_sent s" "g_routineState (act_main_init h s) = UDS_ROUTINE_NONE"
proof -
  define x where "x = act_before_hold h s"
  have z: "act_encoder.more ((Steering_Update h ^^ 25) x) = act_encoder.more x"
    using hold_invariant [OF before_hold(1) [of h s], of 25 h] by (simp flip: x_def)
  have "act_main_init h s = Encoder_ResetCount ((Steering_Update h ^^ 25) x)"
    by (simp add: act_main_init_hold Steering_UpdateForMs_def Let_def flip: x_def)
  then have i: "can_sent (act_main_init h s) = can_sent x" "g_routineState (act_main_init h s) = g_routineState x"
    using encoder_more_fields(4,10) [OF z] by (simp_all add: Encoder_ResetCount_def)
  show "g_routineState (act_main_init h s) = UDS_ROUTINE_NONE"
    using i(2) before_hold(6) [of h s] by (simp add: x_def)
  note i(1)
  also have "can_sent x = can_sent (Encoder_Init h (Steering_Init (MotorControl_Init (act_statics s))))"
    by (simp add: x_def act_before_hold_def Center_form MotorControl_Coast_def MotorControl_SetState_def motor_pin_defs
        set_pin_def MotorControl_SetDutyPercent_def UdsDiag_Init_def ActCan_Init_def act_can_vars_def
        ActCan_EnableTransceiver_def set_mode_def PotAdc_Init_def wait_us_def Let_def)
  also have "\<dots> = can_sent (Steering_Init (MotorControl_Init (act_statics s)))"
    by (rule encoder_more_fields(10)) (rule Encoder_Init_frame)
  also have "\<dots> = can_sent s"
    by (simp add: Steering_Init_def MotorControl_Init_def MotorControl_Stop_def MotorControl_SetState_def
        motor_pin_defs set_pin_def set_mode_def act_statics_def Let_def)
  finally show "can_sent (act_main_init h s) = can_sent s" .
qed

end
