(* ===== verification/Body_Origin.thy ===== *)
theory Body_Origin
  imports Body_Answer
begin

unbundle bit_operations_syntax

text \<open>
  What switches the outputs of BODY on: in every state of the loop they are all off, or they are as a
  received command asks. What BODY sends has one of three formats.
\<close>

section \<open>Where the outputs come from\<close>

definition body_sourced :: "body_command set \<Rightarrow> body_pc \<times> body_ecu \<Rightarrow> bool" where
  "body_sourced K = (\<lambda>(pc, s). (g_rxUpdated s \<longrightarrow> can_copy_command s \<in> K) \<and>
     (\<forall>c. pc_command pc = Some c \<longrightarrow> c \<in> K) \<and>
     (body_commands s = commands_off \<or> body_commands s \<in> commanded ` K))"

lemma body_sourced_mono: "body_sourced K x \<Longrightarrow> K \<subseteq> K' \<Longrightarrow> body_sourced K' x"
  by (cases x) (auto simp: body_sourced_def)

lemma body_sourced_quiet:
  "body_sourced K (pc, s) \<Longrightarrow> quiet s t \<Longrightarrow> pc_command pc' = None \<Longrightarrow> body_sourced K (pc', t)"
  by (auto simp: body_sourced_def quiet_def can_core_def)

lemma body_sourced_tick:
  assumes "body_sourced K (PcTick, s)"
  shows "body_sourced K (PcCommand, can_timeout_1ms h s)"
proof -
  let ?a = "if g_cmdTimeoutMs s < 200 then g_cmdTimeoutMs s + 1 else g_cmdTimeoutMs s"
  let ?s = "s\<lparr>g_bodyCanTimeMs := g_bodyCanTimeMs s + 1, g_cmdTimeoutMs := ?a\<rparr>"
  have "can_timeout_1ms h s = (if 200 \<le> ?a then BodyCan_EnterSafeState h ?s else ?s)"
    by (simp add: can_timeout_1ms_def Let_def)
  then show ?thesis
    using assms safe_state(1,2) [of h ?s]
    by (auto simp: body_sourced_def can_core_def can_copy_command_def body_commands_def)
qed

lemma body_sourced_isr:
  assumes "body_sourced K (pc, s)"
  shows "body_sourced ((if accepts_command f then {frame_command f} else {}) \<union> K) (pc, BodyCan_RxIsrHandler f s)"
proof (cases "accepts_command f")
  case True
  have "body_commands (BodyCan_RxIsrHandler f s) = body_commands s"
    using isr_truncate [of f s] body_commands_truncate by metis
  with True assms isr_accepted [OF True, of s] show ?thesis by (auto simp: body_sourced_def can_core_def)
next
  case False
  with assms isr_rejected [OF False, of s] show ?thesis by (auto simp: body_sourced_def quiet_def can_core_def)
qed

lemma body_sourced_step:
  assumes "body_step h x y" "fst y \<noteq> fst x" "hw_ok h" "ecu_inv x" "body_sourced K x"
  shows "body_sourced K y"
  using assms
proof (induction rule: body_step.induct)
  case (tick s)
  then show ?case by (intro body_sourced_tick)
next
  case (outputs c s)
  then show ?case using can_apply_effect(1,2) [of h c s] by (auto simp: body_sourced_def can_core_def)
next
  case (clear c s)
  then show ?case by (simp add: body_sourced_def can_clear_flag_def body_commands_def)
next
  case (uds s t)
  then obtain u where "BodyCan_ProcessUdsRequestIfNeeded h s = Some u" "quiet s u"
    using quiet_uds [of h s] by (auto simp: ecu_inv_def)
  with uds show ?case by (auto intro: body_sourced_quiet)
next
  case (control s t)
  then obtain u where "BodyControl_Update1ms h s = Some u" "quiet s u"
    using quiet_control [of h s] by (auto simp: ecu_inv_def)
  with control show ?case by (auto intro: body_sourced_quiet)
next
  case (none s)
  then show ?case by (simp add: body_sourced_def)
next
  case (copy s)
  then show ?case by (simp add: body_sourced_def)
qed (simp, (erule body_sourced_quiet, rule quiet_event quiet_heartbeat quiet_mirror quiet_button quiet_end, simp)+)

lemma body_sourced_init: "body_sourced K (PcTick, body_main_init h s)"
proof -
  let ?s = "body_can_debug (body_can_vars (BodyCan_EnableTransceiver (BodyControl_Init h s)))"
  have "body_main_init h s = BodyCan_EnterSafeState h ?s"
    by (simp add: body_main_init_def BodyCan_Init_def)
  moreover have "\<not> g_rxUpdated ?s" by (simp add: body_can_debug_def body_can_vars_def)
  ultimately show ?thesis using safe_state(1,2) [of h ?s] by (simp add: body_sourced_def can_core_def)
qed

section \<open>What BODY sends\<close>

definition body_frame_ok :: "can_frame \<Rightarrow> bool" where
  "body_frame_ok f \<longleftrightarrow> length (cf_data f) = 2 \<and>
     (cf_id f = 0x210 \<and> cf_dlc f = 5 \<or> cf_id f = 0x310 \<and> cf_dlc f = 1 \<or>
      cf_id f = 0x718 \<and> cf_dlc f = 8 \<and> (let n = unat (byte_at 0 (cf_data f ! 0)) in 0 < n \<and> n \<le> 7))"

definition body_sends :: "'a body_ecu_scheme \<Rightarrow> 'a body_ecu_scheme \<Rightarrow> bool" where
  "body_sends s t \<longleftrightarrow> (\<exists>fs. can_sent t = fs @ can_sent s \<and> list_all body_frame_ok (map snd fs))"

lemma body_sends_same: "can_sent t = can_sent s \<Longrightarrow> body_sends s t"
  by (simp add: body_sends_def)

lemma body_sends_transmits:
  assumes "transmits h s t mid dlc bs"
    and "body_frame_ok \<lparr>cf_id = mid, cf_dlc = dlc, cf_data = BodyCan_PackTxBytes bs\<rparr>"
  shows "body_sends s t"
proof (cases "hw_can h (can_calls s) = NotSentBusy")
  case False
  then show ?thesis using assms unfolding body_sends_def transmits_def
    by (intro exI [of _ "[(unat (g_txBufferIndex s), \<lparr>cf_id = mid, cf_dlc = dlc, cf_data = BodyCan_PackTxBytes bs\<rparr>)]"]) simp
qed (use assms in \<open>simp add: transmits_def body_sends_same\<close>)

lemma body_frame_oks:
  "body_frame_ok \<lparr>cf_id = 0x210, cf_dlc = 5, cf_data = BodyCan_PackTxBytes bs\<rparr>"
  "body_frame_ok \<lparr>cf_id = 0x310, cf_dlc = 1, cf_data = BodyCan_PackTxBytes bs\<rparr>"
  "uds_answer sid bs \<Longrightarrow> body_frame_ok \<lparr>cf_id = 0x718, cf_dlc = 8, cf_data = BodyCan_PackTxBytes bs\<rparr>"
  by (simp_all add: body_frame_ok_def BodyCan_PackTxBytes_def uds_answer_def Let_def)

lemma body_sends_uds:
  assumes "hw_ok h" "body_inv s" "BodyCan_ProcessUdsRequestIfNeeded h s = Some t"
  shows "body_sends s t"
proof (cases "g_udsRequestUpdated s")
  case False
  with assms(3) show ?thesis by (simp add: BodyCan_ProcessUdsRequestIfNeeded_def body_sends_same)
next
  case True
  from body_request_answered [OF assms(1,2) True] assms(3)
  show ?thesis
    by (auto simp: Let_def answered_def body_sends_def split: if_splits
        dest: body_sends_transmits [OF _ body_frame_oks(3), unfolded body_sends_def])
qed

lemma body_sends_step:
  assumes "body_step h x y" "hw_ok h" "ecu_inv x"
  shows "body_sends (snd x) (snd y)"
  using assms
proof (induction rule: body_step.induct)
  case (isr pc s f)
  show ?case by (rule body_sends_same) (simp add: BodyCan_RxIsrHandler_def Let_def)
next
  case (tick s)
  show ?case
    by (rule body_sends_same)
      (simp add: can_timeout_1ms_def BodyCan_EnterSafeState_def Let_def more_sent [OF AllOff_frame(2)])
next
  case (outputs c s)
  show ?case
    by (rule body_sends_same)
      (simp add: can_apply_def BodyCan_ApplyBodyCommand_def BodyCan_EnterSafeState_def Let_def more_sent [OF AllOff_frame(2)]
        more_sent [OF more_setters(1)] more_sent [OF more_setters(2)] more_sent [OF more_setters(3)]
        more_sent [OF more_setters(4)] more_sent [OF more_setters(5)])
next
  case (uds s t)
  then show ?case by (simp add: body_sends_uds ecu_inv_def)
next
  case (event s)
  show ?case
  proof (cases "g_collisionEventPending s")
    case True
    from SendPending_pending(2) [OF this] show ?thesis by (auto intro: body_sends_transmits body_frame_oks)
  qed (simp add: BodyCan_SendPendingCollisionEventIfNeeded_def body_sends_same)
next
  case (beat s)
  show ?case
    using body_sends_transmits [OF SendHeartbeat_effect(1) [of h "s\<lparr>g_heartbeatTxTimerMs := 0\<rparr>"] body_frame_oks(2)]
    by (simp add: BodyCan_SendHeartbeatIfNeeded_def Let_def body_sends_def)
next
  case (control s t)
  then have "body_inv s" by (simp add: ecu_inv_def)
  then have "body_frame s t" by (rule body_frame_Update1ms [OF control(2) _ control(1)])
  then have "body.more t = body.more s" by (simp add: body_frame_def)
  from more_sent(2) [OF this] show ?case by (intro body_sends_same) simp
next
  case (button s)
  show ?case
    by (rule body_sends_same)
      (simp add: main_collision_button_def BodyControl_ConsumeCollisionButtonPressedEvent_def
        BodyCan_ReportCollisionOccurred_def Let_def)
next
  case (again s)
  show ?case by (rule body_sends_same) (simp add: main_loop_end_def BodyControl_DelayUs_def wait_us_def)
qed (simp_all add: body_sends_same can_clear_flag_def can_mirror_def)

text \<open>The initialisation sends nothing.\<close>

lemma BodyInit_more: "body.more (BodyControl_Init h s) = body.more s"
proof -
  define a where "a = body_init_vars h (body_init_pins s)"
  have a: "body.more a = body.more s"
    by (simp add: a_def body_init_vars_def body_init_pins_def BodyControl_InitOutputPin_def
        BodyControl_InitInputPinPulldown_def BodyControl_ReadCollisionButtonRawPressed_def read_pin_def
        BodyControl_ResetCollisionWarningSound_def Let_def set_mode_def write_pin_eq set_pin_def)
  have "body.more (BodyControl_RunStartupSelfDiagnosis h a) = body.more a"
    using StartupDiag_form [of h a] by (auto simp: Let_def UpdateDiagDangerLed_form set_pin_def)
  with a show ?thesis
    by (simp add: BodyControl_Init_def Let_def ApplyOutputs_explicit write_pin_eq set_pin_def flip: a_def)
qed

lemma body_init_sent: "can_sent (body_main_init h s) = can_sent s"
  by (simp add: body_main_init_def BodyCan_Init_def BodyCan_EnterSafeState_def more_sent [OF AllOff_frame(2)]
      body_can_debug_def body_can_vars_def BodyCan_EnableTransceiver_def set_pin_def set_mode_def
      more_sent [OF BodyInit_more])

end
