(* ===== verification/Vehicle.thy ===== *)
theory Vehicle
  imports Vehicle_Bus Act_Origin Body_Origin
begin

unbundle bit_operations_syntax

text \<open>
  The three control units on one bus. A step is a step of one unit, or the arrival at one unit of a
  frame that another has handed to its controller before. Nothing is assumed about the bus: a frame
  may come late, more than once, out of order, or never. The network and the CAN controllers are
  arguments, as for the single units.
\<close>

section \<open>The machine\<close>

type_synonym vehicle = "(main_pc \<times> main_ecu) \<times> (act_pc \<times> act_ecu) \<times> (body_pc \<times> body_ecu)"

inductive vehicle_step :: "net_env \<Rightarrow> hw \<Rightarrow> adc \<Rightarrow> hw \<Rightarrow> vehicle \<Rightarrow> vehicle \<Rightarrow> bool" for e ha adc hb where
  gateway: "main_step e m m' \<Longrightarrow> fst m \<noteq> PcCan \<or> fst m' \<noteq> PcCan \<Longrightarrow> vehicle_step e ha adc hb (m, a, b) (m', a, b)"
| clock: "vehicle_step e ha adc hb ((PcCan, s), a, b) ((PcCan, s\<lparr>g_TickCount_1ms := g_TickCount_1ms s + 1\<rparr>), a, b)"
| act: "act_step ha adc a a' \<Longrightarrow> fst a' \<noteq> fst a \<Longrightarrow> vehicle_step e ha adc hb (m, a, b) (m, a', b)"
| body: "body_step hb b b' \<Longrightarrow> fst b' \<noteq> fst b \<Longrightarrow> vehicle_step e ha adc hb (m, a, b) (m, a, b')"
| to_act: "CanMessage CanNode0 msg \<in> set (net_out (snd m)) \<Longrightarrow>
    vehicle_step e ha adc hb (m, (pc, s), b) (m, (pc, ActCan_RxIsrHandler (to_act msg) s), b)"
| to_body: "CanMessage CanNode2 msg \<in> set (net_out (snd m)) \<Longrightarrow>
    vehicle_step e ha adc hb (m, a, (pc, s)) (m, a, (pc, BodyCan_RxIsrHandler (to_body msg) s))"
| from_act: "(k, f) \<in> set (act_can.can_sent (snd a)) \<Longrightarrow>
    vehicle_step e ha adc hb ((PcCan, s), a, b) ((PcCan, can_receive e (from_act f, stale) s), a, b)"
| from_body: "(k, f) \<in> set (body_can.can_sent (snd b)) \<Longrightarrow>
    vehicle_step e ha adc hb ((PcCan, s), a, b) ((PcCan, can_receive e (from_body f, stale) s), a, b)"

inductive vehicle_reachable :: "net_env \<Rightarrow> hw \<Rightarrow> adc \<Rightarrow> hw \<Rightarrow> vehicle \<Rightarrow> bool" for e ha adc hb where
  init: "act_can.can_sent a = [] \<Longrightarrow> body_can.can_sent b = [] \<Longrightarrow>
    vehicle_reachable e ha adc hb
      ((PcPoll, main_init e (main_statics s)), (act_pc.PcTick 0, act_main_init ha a), (body_pc.PcTick, body_main_init hb b))"
| step: "vehicle_reachable e ha adc hb x \<Longrightarrow> vehicle_step e ha adc hb x y \<Longrightarrow> vehicle_reachable e ha adc hb y"

section \<open>Its parts\<close>

text \<open>Each unit does in the vehicle only what it does alone.\<close>

lemma vehicle_step_parts:
  assumes "vehicle_step e ha adc hb (m, a, b) (m', a', b')"
  shows "m' = m \<or> main_step e m m'" "a' = a \<or> act_step ha adc a a'" "b' = b \<or> body_step hb b b'"
  using assms
  by (cases rule: vehicle_step.cases; auto intro: main_step.tick main_step.frame act_step.isr body_step.isr)+

lemma vehicle_parts:
  "vehicle_reachable e ha adc hb x \<Longrightarrow>
     main_reachable e (fst x) \<and> act_reachable ha adc (fst (snd x)) \<and> body_reachable hb (snd (snd x))"
proof (induction rule: vehicle_reachable.induct)
  case (init a b s)
  show ?case by (simp add: main_reachable.init act_reachable.init body_reachable.init)
next
  case (step x y)
  obtain m a b m' a' b' where "x = (m, a, b)" "y = (m', a', b')" by (cases x, cases y) auto
  with step vehicle_step_parts [of e ha adc hb m a b m' a' b'] show ?case
    by (auto intro: main_reachable.step act_reachable.step body_reachable.step)
qed

section \<open>Orders\<close>

text \<open>The commands in the frames that the gateway has sent, as ACT and BODY read and accept them.\<close>

definition act_orders :: "net_event list \<Rightarrow> act_command set" where
  "act_orders vs = {act_frame_command (to_act msg) |msg. CanMessage CanNode0 msg \<in> set vs \<and> accepts_act_command (to_act msg)}"

definition body_orders :: "net_event list \<Rightarrow> body_command set" where
  "body_orders vs = {frame_command (to_body msg) |msg. CanMessage CanNode2 msg \<in> set vs \<and> accepts_command (to_body msg)}"

lemma orders_mono:
  assumes "set vs \<subseteq> set ws" shows "act_orders vs \<subseteq> act_orders ws" "body_orders vs \<subseteq> body_orders ws"
  using assms by (auto simp: act_orders_def body_orders_def)

definition vehicle_inv :: "vehicle \<Rightarrow> bool" where
  "vehicle_inv = (\<lambda>(m, a, b). let vs = net_out (snd m) in
     act_sourced (act_orders vs) a \<and> body_sourced (body_orders vs) b \<and>
     list_all act_frame_ok (map snd (act_can.can_sent (snd a))) \<and>
     list_all body_frame_ok (map snd (body_can.can_sent (snd b))))"

lemma inv_gateway:
  assumes "vehicle_inv (m, a, b)" "set (net_out (snd m)) \<subseteq> set (net_out (snd m'))"
  shows "vehicle_inv (m', a, b)"
  using assms(1) act_sourced_mono [OF _ orders_mono(1) [OF assms(2)], of a]
    body_sourced_mono [OF _ orders_mono(2) [OF assms(2)], of b]
  by (simp add: vehicle_inv_def Let_def)

lemma inv_act:
  assumes "vehicle_inv (m, a, b)" "act_step ha adc a a'" "act_inv a" "act_sourced (act_orders (net_out (snd m))) a'"
  shows "vehicle_inv (m, a', b)"
  using assms act_sends_step [OF assms(2,3)] by (auto simp: vehicle_inv_def act_sends_def Let_def)

lemma inv_body:
  assumes "vehicle_inv (m, a, b)" "body_step hb b b'" "hw_ok hb" "ecu_inv b" "body_sourced (body_orders (net_out (snd m))) b'"
  shows "vehicle_inv (m, a, b')"
  using assms body_sends_step [OF assms(2-4)] by (auto simp: vehicle_inv_def body_sends_def Let_def)

lemma vehicle_inv_step:
  assumes "vehicle_step e ha adc hb x y" "vehicle_reachable e ha adc hb x" "hw_ok hb" "vehicle_inv x"
  shows "vehicle_inv y"
proof -
  have parts: "main_reachable e (fst x)" "act_inv (fst (snd x))" "ecu_inv (snd (snd x))"
    using vehicle_parts [OF assms(2)] act_inv_reachable ecu_inv_reachable assms(3) by blast+
  then have ok: "main_ok [] (snd (fst x))" using main_ok_reachable by blast
  from assms(1) show ?thesis
  proof (cases rule: vehicle_step.cases)
    case (gateway m m' a b)
    then show ?thesis using assms(4) parts(1) main_sends_more [OF gateway(3)] inv_gateway by simp
  next
    case (clock s a b)
    then show ?thesis using assms(4) by (auto intro: inv_gateway)
  next
    case (act a a' m b)
    have "act_sourced (act_orders (net_out (snd m))) a" using assms(4) act(1) by (simp add: vehicle_inv_def Let_def)
    with act parts(2) have "act_sourced (act_orders (net_out (snd m))) a'" by (simp add: sourced_step [OF act(3,4)])
    with act assms(4) parts(2) show ?thesis by (simp add: inv_act [of m a b])
  next
    case (body b b' m a)
    have "body_sourced (body_orders (net_out (snd m))) b" using assms(4) body(1) by (simp add: vehicle_inv_def Let_def)
    with body parts(3) have "body_sourced (body_orders (net_out (snd m))) b'"
      by (simp add: body_sourced_step [OF body(3,4) assms(3)])
    with body assms(3,4) parts(3) show ?thesis by (simp add: inv_body [of m a b])
  next
    case (to_act msg m pc s b)
    let ?K = "act_orders (net_out (snd m))"
    have "act_sourced ?K (pc, s)" using assms(4) to_act(1) by (simp add: vehicle_inv_def Let_def)
    then have "act_sourced ((if accepts_act_command (to_act msg) then {act_frame_command (to_act msg)} else {}) \<union> ?K)
        (pc, ActCan_RxIsrHandler (to_act msg) s)" by (rule sourced_isr)
    moreover have "(if accepts_act_command (to_act msg) then {act_frame_command (to_act msg)} else {}) \<union> ?K = ?K"
      using to_act(3) by (auto simp: act_orders_def)
    ultimately have "act_sourced ?K (pc, ActCan_RxIsrHandler (to_act msg) s)" by simp
    with assms(4) parts(2) show ?thesis
      using inv_act [of m "(pc, s)" b, OF _ act_step.isr] unfolding to_act(1,2) by simp
  next
    case (to_body msg m a pc s)
    let ?K = "body_orders (net_out (snd m))"
    have "body_sourced ?K (pc, s)" using assms(4) to_body(1) by (simp add: vehicle_inv_def Let_def)
    then have "body_sourced ((if accepts_command (to_body msg) then {frame_command (to_body msg)} else {}) \<union> ?K)
        (pc, BodyCan_RxIsrHandler (to_body msg) s)" by (rule body_sourced_isr)
    moreover have "(if accepts_command (to_body msg) then {frame_command (to_body msg)} else {}) \<union> ?K = ?K"
      using to_body(3) by (auto simp: body_orders_def)
    ultimately have "body_sourced ?K (pc, BodyCan_RxIsrHandler (to_body msg) s)" by simp
    with assms(3,4) parts(3) show ?thesis
      using inv_body [of m a "(pc, s)", OF _ body_step.isr] unfolding to_body(1,2) by simp
  next
    case (from_act k f a s b stale)
    show ?thesis using assms(4) ok receive_sends_more [of s e "(from_act f, stale)"]
        inv_gateway [of "(PcCan, s)" a b "(PcCan, can_receive e (from_act f, stale) s)"]
      unfolding from_act(1,2) by simp
  next
    case (from_body k f b s a stale)
    show ?thesis using assms(4) ok receive_sends_more [of s e "(from_body f, stale)"]
        inv_gateway [of "(PcCan, s)" a b "(PcCan, can_receive e (from_body f, stale) s)"]
      unfolding from_body(1,2) by simp
  qed
qed

lemma vehicle_inv_reachable:
  assumes "vehicle_reachable e ha adc hb x" "hw_ok hb"
  shows "vehicle_inv x"
  using assms
proof (induction rule: vehicle_reachable.induct)
  case (init a b s)
  then show ?case
    by (simp add: vehicle_inv_def Let_def sourced_init body_sourced_init act_init_sent(1) body_init_sent)
next
  case (step x y)
  then show ?case by (blast intro: vehicle_inv_step)
qed

end
