(* ===== verification/Vehicle_Flow.thy ===== *)
theory Vehicle_Flow
  imports Vehicle
begin

unbundle bit_operations_syntax

text \<open>
  Data on its way through the vehicle: from the signals of the gateway to the outputs of ACT and BODY,
  and from the tester to ACT or BODY and back.
\<close>

section \<open>Signals to outputs\<close>

lemma signals_delivered:
  fixes t :: "'a com_scheme" and sa :: "'b act_uds_scheme" and sb :: "'c body_ecu_scheme"
  assumes "can_ready e" "hw_ok hb" "body_inv sb" "act_command_valid (act_signals t)" "command_valid (body_signals t)"
  shows "\<exists>ma mb. net_out (COM_Tx_CtrBody_CAN e (COM_Tx_CtrAct_CAN e t)) =
      net_out t @ [CanMessage CanNode0 ma, CanMessage CanNode2 mb] \<and>
    (let u = ActCan_Update100us (ActCan_RxIsrHandler (to_act ma) sa) in act_drive u = commanded_drive (act_signals t) \<and>
       (ac_safety (act_signals t) = 1 \<or> ac_mode (act_signals t) \<noteq> 1 \<or> ac_brake (act_signals t) = 1 \<longrightarrow> braked u)) \<and>
    (\<exists>u. BodyCan_Update1ms hb (BodyCan_RxIsrHandler (to_body mb) sb) = Some u \<and>
       body_commands u = commanded (body_signals t) \<and> body_inv u)"
proof -
  let ?t = "COM_Tx_CtrAct_CAN e t"
  obtain ma where ma: "act_command_frame t = CanMessage CanNode0 ma" by (simp add: act_command_frame_def)
  obtain mb where mb: "body_command_frame t = CanMessage CanNode2 mb" by (simp add: body_command_frame_def)
  have "body_command_frame ?t = body_command_frame t"
    by (simp add: CtrAct_sends [OF assms(1)]) (simp add: body_command_frame_def after_event_def emit_def call_def)
  then have out: "net_out (COM_Tx_CtrBody_CAN e ?t) = net_out t @ [CanMessage CanNode0 ma, CanMessage CanNode2 mb]"
    using ma mb by (simp add: CtrBody_sends [OF assms(1)]) (simp add: CtrAct_sends [OF assms(1)])
  have a: "accepts_act_command (to_act ma)" "act_frame_command (to_act ma) = act_signals t"
    using act_command_sent [OF ma] assms(4) by simp_all
  have b: "accepts_command (to_body mb)" "frame_command (to_body mb) = body_signals t"
    using body_command_sent [OF mb] assms(5) by simp_all
  show ?thesis
    using out act_command_applied [OF a(1), of sa] body_command_applied [OF assms(2,3) b(1)]
    unfolding a(2) b(2) Let_def by blast
qed

section \<open>Requests and answers\<close>

lemma length_nibble:
  assumes "unat n \<le> 7" "0 < unat n"
  defines "k \<equiv> ucast n :: u8"
  shows "k AND 0xF0 = 0" "k AND 0x0F = k" "k \<noteq> 0" "k \<le> 7" "unat k = unat n"
proof -
  show u: "unat k = unat n" using assms by (simp add: k_def unsigned_ucast_eq take_bit_nat_eq_self)
  then have "unat k < 16" using assms(1) by simp
  then show low: "k AND 0x0F = k" by (rule low_nibble)
  have "(k AND 0x0F) AND 0xF0 = 0" by (simp add: and.assoc)
  then show "k AND 0xF0 = 0" unfolding low .
  show "k \<noteq> 0" "k \<le> 7" using u assms(1,2) by (auto simp: word_le_nat_alt)
qed

text \<open>A request reaches BODY, and its answer the tester.\<close>

lemma body_roundtrip:
  fixes sb :: "'a body_ecu_scheme"
  assumes "can_request 0x710 d n = CanMessage node msg" "0 < unat n" "unat n \<le> 7" "hw_ok hb" "body_inv sb"
    and "hw_can hb (body_can.can_calls sb) \<noteq> NotSentBusy" "tcp_ready e q s"
  shows "\<exists>u f r. BodyCan_ProcessUdsRequestIfNeeded hb (BodyCan_RxIsrHandler (to_body msg) sb) = Some u \<and>
    body_can.can_sent u = f # body_can.can_sent sb \<and>
    (\<forall>stale. can_receive e (from_body (snd f), stale) s = after_event (TcpWrite q (doip_message 0x0020 r)) s) \<and>
    (r ! 0 = d 0 + 0x40 \<or> (\<exists>c \<in> {0x11, 0x12, 0x13, 0x31}. r = [0x7F, d 0, c]))"
proof -
  define k :: u8 where "k = ucast n"
  note k = length_nibble [OF assms(3,2), folded k_def]
  define sr where "sr = BodyCan_RxIsrHandler (to_body msg) sb"
  note msg = request_received [OF assms(3,1)]
  have sr: "g_udsRequestUpdated sr" "g_udsRequestByte sr = single_frame d n"
    "body_can.can_calls sr = body_can.can_calls sb" "body_can.can_sent sr = body_can.can_sent sb" "body_can.g_txBufferIndex sr = body_can.g_txBufferIndex sb"
    using msg by (simp_all add: sr_def BodyCan_RxIsrHandler_def to_body_def Can_GetLength_def Let_def)
  have "body_inv sr" using assms(5) isr_truncate [of "to_body msg" sb] body_inv_can_fields unfolding sr_def by blast
  moreover have "single_frame d n ! 0 = k" "drop 1 (single_frame d n) ! 0 = d 0"
    using assms(2,3) by (simp_all add: single_frame_nth k_def padded_def upt_conv_Cons)
  ultimately obtain u where u: "BodyCan_ProcessUdsRequestIfNeeded hb sr = Some u" "answered hb (d 0) sr u"
    using body_request_answered [OF assms(4) _ sr(1)] k by (auto simp: Let_def sr(2))
  then obtain bs where bs: "uds_answer (d 0) bs" "transmits hb sr u 0x718 8 bs" by (auto simp: answered_def)
  define f where "f = (unat (body_can.g_txBufferIndex sb), \<lparr>cf_id = 0x718, cf_dlc = 8, cf_data = BodyCan_PackTxBytes bs\<rparr>)"
  have f: "body_can.can_sent u = f # body_can.can_sent sb" using bs(2) assms(6) by (simp add: transmits_def sr f_def)
  have b: "length bs = 8" "unat (bs ! 0) \<le> 7" "1 \<le> unat (bs ! 0)" using bs(1) by (simp_all add: uds_answer_def)
  define r where "r = take (unat (bs ! 0)) (drop 1 bs)"
  have "can_receive e (from_body (snd f), stale) s = after_event (TcpWrite q (doip_message 0x0020 r)) s" for stale
    using body_answer_received [OF assms(7) b(1,2)] by (simp add: f_def r_def)
  moreover have "r ! 0 = d 0 + 0x40 \<or> (\<exists>c \<in> {0x11, 0x12, 0x13, 0x31}. r = [0x7F, d 0, c])"
  proof -
    obtain x0 x1 x2 x3 xs where x: "bs = x0 # x1 # x2 # x3 # xs" using b(1) by (auto simp: eval_nat_numeral length_Suc_conv)
    have "r ! 0 = x1" using b(3) by (simp add: r_def x)
    moreover have "r = [x1, x2, x3]" if "x0 = 3" using that by (simp add: r_def x)
    ultimately show ?thesis using bs(1) by (auto simp: uds_answer_def x)
  qed
  ultimately show ?thesis using u(1) f unfolding sr_def by blast
qed

text \<open>The same for ACT; the answer to the start of a routine comes when the routine ends.\<close>

lemma act_roundtrip:
  fixes sa :: "'a act_uds_scheme"
  assumes "can_request 0x700 d n = CanMessage node msg" "0 < unat n" "unat n \<le> 7"
    and "hw_can ha (act_can.can_calls sa) \<noteq> NotSentBusy" "tcp_ready e q s"
  shows "let sr = ActCan_RxIsrHandler (to_act msg) sa; u = UdsDiag_ProcessRequest ha (g_reqData sr) (sr\<lparr>g_reqPending := False\<rparr>) in
    g_reqPending sr \<and>
    ((\<exists>f r. act_can.can_sent u = f # act_can.can_sent sa \<and>
      (\<forall>stale. can_receive e (from_act (snd f), stale) s = after_event (TcpWrite q (doip_message 0x0010 r)) s) \<and>
      (r ! 0 = d 0 + 0x40 \<or> (\<exists>c \<in> {0x11, 0x12, 0x13, 0x21, 0x22, 0x31}. r = [0x7F, d 0, c]))) \<or>
     d 0 = 0x31 \<and> act_started sa u)"
proof -
  define k :: u8 where "k = ucast n"
  note k = length_nibble [OF assms(3,2), folded k_def]
  define sr where "sr = ActCan_RxIsrHandler (to_act msg) sa"
  define v where "v = sr\<lparr>g_reqPending := False\<rparr>"
  define u where "u = UdsDiag_ProcessRequest ha (g_reqData sr) v"
  note msg = request_received [OF assms(3,1)]
  have sr: "g_reqPending sr" "g_reqData sr = single_frame d n" "act_can.can_calls v = act_can.can_calls sa" "act_can.can_sent v = act_can.can_sent sa"
    "g_diagSession v = g_diagSession sa" "g_routineState v = g_routineState sa" "g_udsTxBufferIndex v = g_udsTxBufferIndex sa"
    using msg by (simp_all add: sr_def v_def ActCan_RxIsrHandler_def to_act_def Can_GetLength_def ActCan_IsCanFdFrameMode_def
        UdsDiag_OnCanRequest_def Let_def)
  have d: "length (single_frame d n) = 8" "single_frame d n ! 0 = k" "single_frame d n ! 1 = d 0"
    using assms(2,3) by (simp_all add: single_frame_nth k_def padded_def upt_conv_Cons)
  have "act_answered ha (d 0) v u \<or> d 0 = 0x31 \<and> act_started v u"
    using act_request_answered [OF d(1), of ha v] k unfolding d(2,3) u_def sr(2) by simp
  moreover have "act_started sa u" if "act_started v u"
    using that sr by (simp add: act_started_def act_unsent_def)
  moreover have "\<exists>f r. act_can.can_sent u = f # act_can.can_sent sa \<and>
      (\<forall>stale. can_receive e (from_act (snd f), stale) s = after_event (TcpWrite q (doip_message 0x0010 r)) s) \<and>
      (r ! 0 = d 0 + 0x40 \<or> (\<exists>c \<in> {0x11, 0x12, 0x13, 0x21, 0x22, 0x31}. r = [0x7F, d 0, c]))"
    if ans: "act_answered ha (d 0) v u"
  proof -
    obtain p where p: "act_answer (d 0) p" "act_transmits ha v u (sf_frame p (of_nat (length p)))"
      using ans by (auto simp: act_answered_def)
    then have "act_can.can_sent u = (unat (g_udsTxBufferIndex sa), sf_frame p (of_nat (length p))) # act_can.can_sent sa"
      using assms(4) sr by (simp add: act_transmits_def)
    with p(1) act_answer_received [OF assms(5), of p] show ?thesis
      unfolding act_answer_def by (metis snd_conv)
  qed
  ultimately show ?thesis using sr(1) unfolding Let_def by (auto simp flip: sr_def v_def u_def)
qed

section \<open>Frames that fit their receivers\<close>

lemma gateway_frame_act:
  assumes "event_ok (CanMessage CanNode0 msg)"
  shows "(accepts_act_command (to_act msg) \<longleftrightarrow> act_command_valid (act_frame_command (to_act msg))) \<and> cm_id msg = 0x100 \<or>
    ActCan_RxIsrHandler (to_act msg) s = UdsDiag_OnCanRequest (act_rx_bytes (cm_data msg)) s \<and> cm_id msg = 0x700"
  using assms by (auto simp: accepts_act_command_def ActCan_RxIsrHandler_def to_act_def Can_GetLength_def
      ActCan_IsCanFdFrameMode_def Let_def)

lemma gateway_frame_body:
  assumes "event_ok (CanMessage CanNode2 msg)"
  shows "(accepts_command (to_body msg) \<longleftrightarrow> command_valid (frame_command (to_body msg))) \<and> cm_id msg = 0x110 \<or>
    g_udsRequestUpdated (BodyCan_RxIsrHandler (to_body msg) s) \<and>
    g_udsRequestByte (BodyCan_RxIsrHandler (to_body msg) s) = BodyCan_UnpackRxBytes (cm_data msg) \<and> cm_id msg = 0x710"
  using assms by (auto simp: accepts_command_def frame_command_def command_valid_def body_command_valid_def
      BodyCan_RxIsrHandler_def to_body_def Can_GetLength_def Let_def)

lemma answer_forwarded:
  assumes "tcp_ready e q t" "cm_id m = 0x708 \<and> sa = 0x0010 \<or> cm_id m = 0x718 \<and> sa = 0x0020"
    and "cm_data m \<noteq> []" "4 * length (cm_data m) > unat (byte_at 0 (cm_data m ! 0))"
    and "0 < unat (byte_at 0 (cm_data m ! 0))" "unat (byte_at 0 (cm_data m ! 0)) < 16"
    and "unat (byte_at 0 (cm_data m ! 0)) < unat (Can_GetLength (of_nat (cm_dlc m)))"
  shows "\<exists>r. r \<noteq> [] \<and> can_receive e (m, stale) t = after_event (TcpWrite q (doip_message sa r)) t"
proof -
  obtain w ws where w: "cm_data m = w # ws" using assms(3) by (cases "cm_data m") auto
  define bs where "bs = byte_at 8 w # byte_at 16 w # byte_at 24 w # le_bytes ws"
  have b: "le_bytes (cm_data m) = byte_at 0 w # bs" by (simp add: w bs_def)
  have "unat (byte_at 0 w) \<le> length bs" using assms(4) by (simp add: w bs_def)
  from single_answer [OF assms(1,2) b this] assms(5-7)
  have "can_receive e (m, stale) t = after_event (TcpWrite q (doip_message sa (take (unat (byte_at 0 w)) bs))) t"
    by (simp add: w)
  moreover have "take (unat (byte_at 0 w)) bs \<noteq> []" using assms(5) by (simp add: w bs_def)
  ultimately show ?thesis by blast
qed

lemma act_frame_forwarded:
  assumes "act_frame_ok f" "af_id f = 0x708" "tcp_ready e q t"
  shows "\<exists>r. r \<noteq> [] \<and> can_receive e (from_act f, stale) t = after_event (TcpWrite q (doip_message 0x0010 r)) t"
proof -
  define n where "n = unat (byte_at 0 (af_data f ! 0))"
  have f: "length (af_data f) = 3" "0 < n" "n < af_dlc f" "af_dlc f = 8 \<or> af_dlc f = 12"
    using assms(1,2) by (simp_all add: act_frame_ok_def Let_def n_def)
  have m: "cm_id (from_act f) = 0x708" "cm_data (from_act f) = af_data f"
    using assms(2) by (simp_all add: from_act_def)
  have "unat (Can_GetLength (of_nat (cm_dlc (from_act f)))) = af_dlc f"
    using f(4) by (elim disjE) (simp_all add: from_act_def Can_GetDlc_def Can_GetLength_def)
  moreover have "af_data f \<noteq> []" "4 * length (af_data f) > n" "n < 16" using f by auto
  ultimately show ?thesis using f m unfolding n_def by (intro answer_forwarded [OF assms(3)]) simp_all
qed

lemma body_frame_forwarded:
  assumes "body_frame_ok f" "cf_id f = 0x718" "tcp_ready e q t"
  shows "\<exists>r. r \<noteq> [] \<and> can_receive e (from_body f, stale) t = after_event (TcpWrite q (doip_message 0x0020 r)) t"
proof -
  define n where "n = unat (byte_at 0 (cf_data f ! 0))"
  have f: "length (cf_data f) = 2" "0 < n" "n \<le> 7" "cf_dlc f = 8"
    using assms(1,2) by (simp_all add: body_frame_ok_def Let_def n_def)
  have m: "cm_id (from_body f) = 0x718" "cm_data (from_body f) = cf_data f"
    using assms(2) by (simp_all add: from_body_def)
  have "unat (Can_GetLength (of_nat (cm_dlc (from_body f)))) = 8"
    by (simp add: from_body_def f(4) Can_GetDlc_def Can_GetLength_def)
  moreover have "cf_data f \<noteq> []" "4 * length (cf_data f) > n" "n < 16" "n < 8" using f by auto
  ultimately show ?thesis using f m unfolding n_def by (intro answer_forwarded [OF assms(3)]) simp_all
qed

section \<open>The switch of the collision warning\<close>

lemma someip_signals:
  assumes "18 \<le> n" "be16 (p 0) (p 1) = 0x2001" "be16 (p 2) (p 3) = 0x0001"
  shows "body_signals (SomeIp_ProcessRx e p n s) = (body_signals s)\<lparr>bc_warning := p 17\<rparr>"
proof -
  define u where "u = s\<lparr>COM_Collision_Warn := p 17\<rparr>"
  have run: "SomeIp_ProcessRx e p n s = SomeIp_SendResponse e p (p 17) u"
    using assms by (simp add: SomeIp_ProcessRx_def SWC_BuzzerControlIndication_def COM_Set_Collision_Warn_def u_def
        Let_def not_less [symmetric])
  have "emits u (SomeIp_SendResponse e p (p 17) u)" unfolding SomeIp_SendResponse_def Let_def by (rule RouteTx_emits)
  then have "body_signals (SomeIp_SendResponse e p (p 17) u) = body_signals u"
    by (auto simp: emits_def body_signals_def)
  then show ?thesis unfolding run by (simp add: u_def body_signals_def)
qed

end
