(* ===== verification/Vehicle_Props.thy ===== *)
theory Vehicle_Props
  imports Vehicle_Flow Act_Props Body_Props Main_Props
begin

unbundle bit_operations_syntax

text \<open>
  The properties of the three control units together, each with an instance on the concrete
  environments of the single units.
\<close>

section \<open>A run of the vehicle\<close>

definition bench_act_start :: act_ecu where
  "bench_act_start = undefined\<lparr>act_can.can_sent := []\<rparr>"

definition bench_body_start :: body_ecu where
  "bench_body_start = undefined\<lparr>body_can.can_sent := []\<rparr>"

text \<open>A control packet: ignition on, accelerator, gear D, head lamps.\<close>

definition bench_control :: memory where
  "bench_control = array [0, 1, 0, 0, 3, 0, 0, 1, 1]"

definition bench_controlled :: main_ecu where
  "bench_controlled = (UDP_Ctr_ProcessRx bench_control 9 bench_main)\<lparr>g_TickCount_1ms := 20\<rparr>"

definition bench_sent :: main_ecu where
  "bench_sent = COM_Tx_MainFunction bench_net bench_controlled"

abbreviation bench_reachable :: "vehicle \<Rightarrow> bool" where
  "bench_reachable \<equiv> vehicle_reachable bench_net bench_act_hw bench_adc bench_hw"

abbreviation bench_act_vehicle :: act_ecu where
  "bench_act_vehicle \<equiv> act_main_init bench_act_hw bench_act_start"

abbreviation bench_body_vehicle :: body_ecu where
  "bench_body_vehicle \<equiv> body_main_init bench_hw bench_body_start"

lemma bench_clock:
  assumes "vehicle_reachable e ha adc hb ((PcPoll, s), a, b)"
  shows "vehicle_reachable e ha adc hb ((PcPoll, s\<lparr>g_TickCount_1ms := g_TickCount_1ms s + of_nat n\<rparr>), a, b)"
proof (induction n)
  case (Suc n)
  let ?s = "s\<lparr>g_TickCount_1ms := g_TickCount_1ms s + of_nat n\<rparr>"
  have "main_step e (PcPoll, ?s) (PcPoll, ?s\<lparr>g_TickCount_1ms := g_TickCount_1ms ?s + 1\<rparr>)" by (rule main_step.tick)
  from vehicle_reachable.step [OF Suc vehicle_step.gateway [OF this]] show ?case by (simp add: ac_simps)
qed (use assms in simp)

lemma bench_signals:
  "body_signals bench_controlled =
     \<lparr>bc_headlamp = 1, bc_turn = 0, bc_brake = 0, bc_horn = 0, bc_warning = 1, bc_mode = 1\<rparr>"
  "act_signals bench_controlled =
     \<lparr>ac_accel = 1, ac_steering = 0, ac_brake = 0, ac_gear = 3, ac_mode = 1, ac_safety = 0\<rparr>"
  "g_TickCount_1ms bench_controlled = 20" "lastTime_20ms bench_controlled = 0" "lastTime_50ms bench_controlled = 0"
  "COM_TimeOut bench_controlled = bench_controlled" "net_out bench_controlled = []"
  by (simp_all add: bench_controlled_def UDP_Ctr_ProcessRx_def bench_control_def array_def COM_Set_Safety_Override_def
      DCM_Callback_PcRecovered_def body_signals_def act_signals_def bench_main_def main_init_def Sd_Init_def TcpInit_def
      UdpInit_def udp_open_def main_statics_def bench_net_def call_def Get_SystemTime_ms_def COM_TimeOut_def Let_def)

lemma bench_receivers: "(1, 5000) \<in> set (udp_receivers bench_main)"
  by (simp add: bench_main_def main_init_def Sd_Init_def TcpInit_def UdpInit_def udp_open_def main_statics_def
      bench_net_def call_def Let_def)

text \<open>The packet comes, twenty milliseconds pass, the commands go out.\<close>

lemma bench_gateway: "bench_reachable ((PcSd, bench_sent), (act_pc.PcTick 0, bench_act_vehicle), (body_pc.PcTick, bench_body_vehicle))"
proof -
  let ?a = "(act_pc.PcTick 0, bench_act_vehicle)" and ?b = "(body_pc.PcTick, bench_body_vehicle)"
  let ?s = "UDP_Ctr_ProcessRx bench_control 9 bench_main"
  have start: "bench_reachable ((PcPoll, bench_main), ?a, ?b)"
    unfolding bench_main_def by (rule vehicle_reachable.init) (simp_all add: bench_act_start_def bench_body_start_def)
  have recv: "udp_receive_recv bench_net 5000 (Some (bench_control, 9)) None 0 bench_main = ?s"
    by (simp add: udp_receive_recv_def SoAd_targets)
  have next_state: "bench_reachable (m', ?a, ?b)"
    if "bench_reachable (m, ?a, ?b)" "main_step bench_net m m'" "fst m \<noteq> PcCan \<or> fst m' \<noteq> PcCan" for m m'
    by (rule vehicle_reachable.step [OF that(1) vehicle_step.gateway [OF that(2,3)]])
  have "bench_reachable ((PcPoll, ?s), ?a, ?b)"
    using next_state [OF start main_step.datagram [OF bench_receivers, of bench_net "Some (bench_control, 9)" None 0]]
    unfolding recv by simp
  moreover have "?s\<lparr>g_TickCount_1ms := g_TickCount_1ms ?s + of_nat 20\<rparr> = bench_controlled"
    by (simp add: bench_controlled_def UDP_Ctr_ProcessRx_def COM_Set_Safety_Override_def DCM_Callback_PcRecovered_def
        bench_statics Let_def)
  ultimately have "bench_reachable ((PcPoll, bench_controlled), ?a, ?b)" using bench_clock by metis
  from next_state [OF next_state [OF this main_step.polled] main_step.read]
  have "bench_reachable ((PcTimeOut, bench_controlled), ?a, ?b)" by simp
  from next_state [OF this main_step.timeout]
  have "bench_reachable ((PcTransmit, bench_controlled), ?a, ?b)" by (simp add: bench_signals)
  from next_state [OF this main_step.transmit] show ?thesis by (simp add: bench_sent_def)
qed

definition bench_command :: can_msg where
  "bench_command = \<lparr>cm_id = 0x100, cm_dlc = 6, cm_data = frame_words (array [1, 0, 0, 3, 1, 0]) 6\<rparr>"

lemma bench_command_frame: "act_command_frame bench_controlled = CanMessage CanNode0 bench_command"
  using bench_signals(2) by (simp add: act_command_frame_def act_signals_def bench_command_def)

lemma bench_command_sent: "CanMessage CanNode0 bench_command \<in> set (net_out bench_sent)"
proof -
  have "udp_ready bench_net 0 bench_controlled"
    by (simp add: udp_ready_def bench_controlled_def UDP_Ctr_ProcessRx_def COM_Set_Safety_Override_def
        DCM_Callback_PcRecovered_def bench_main_def main_init_def Sd_Init_def TcpInit_def UdpInit_def udp_open_def
        main_statics_def bench_net_def call_def Let_def)
  from MainFunction_sends(1) [OF bench_net_ready this] show ?thesis
    by (simp add: bench_sent_def bench_signals bench_command_frame)
qed

lemma bench_command_accepted:
  "accepts_act_command (to_act bench_command)"
  "act_frame_command (to_act bench_command) =
     \<lparr>ac_accel = 1, ac_steering = 0, ac_brake = 0, ac_gear = 3, ac_mode = 1, ac_safety = 0\<rparr>"
  using act_command_sent [OF bench_command_frame] bench_signals(2)
  by (simp_all add: act_command_valid_def ActCan_IsValidBool_def ActCan_IsValidSteering_def ActCan_IsValidGear_def
      ActCan_IsValidControlMode_def ActCan_IsValidSafetyOverride_def)

text \<open>ACT receives its command and applies it.\<close>

definition bench_moving :: act_ecu where
  "bench_moving = act_apply (act_frame_command (to_act bench_command))
     (act_clear_flag (act_age (ActCan_RxIsrHandler (to_act bench_command) bench_act_vehicle)))"

lemma bench_vehicle_moving:
  "bench_reachable ((PcSd, bench_sent), (act_pc.PcTick 1, bench_moving), (body_pc.PcTick, bench_body_vehicle))"
  "g_motorState bench_moving = MOTOR_STATE_FORWARD" "g_routineState bench_moving \<noteq> UDS_ROUTINE_MOTOR_TEST"
proof -
  let ?m = "(PcSd, bench_sent)" and ?b = "(body_pc.PcTick, bench_body_vehicle)"
  define s where "s = ActCan_RxIsrHandler (to_act bench_command) bench_act_vehicle"
  let ?c = "act_frame_command (to_act bench_command)"
  note acc = accepted_effect(1-3) [OF bench_command_accepted(1), of bench_act_vehicle, folded s_def]
  have next_state: "bench_reachable (?m, a', ?b)"
    if "bench_reachable (?m, a, ?b)" "act_step bench_act_hw bench_adc a a'" "fst a' \<noteq> fst a" for a a'
    by (rule vehicle_reachable.step [OF that(1) vehicle_step.act [OF that(2,3)]])
  have "bench_reachable (?m, (act_pc.PcTick 0, s), ?b)"
    unfolding s_def using bench_gateway bench_command_sent
    by (intro vehicle_reachable.step [OF bench_gateway] vehicle_step.to_act) simp
  moreover have "\<not> act_expired (act_age s)" using acc(1) by (simp add: act_expired_def act_age_def word_le_nat_alt)
  ultimately have "bench_reachable (?m, (PcFlag 0, act_age s), ?b)"
    by (intro next_state [OF _ act_step.alive]) simp_all
  moreover have "act_can.g_rxUpdated (act_age s)" "act_copy_command (act_age s) = ?c" using acc by (simp_all add: act_age_fields)
  ultimately have "bench_reachable (?m, (act_pc.PcCopied 0 ?c, act_age s), ?b)"
    using next_state [OF _ act_step.copy] by fastforce
  from next_state [OF next_state [OF this act_step.clear] act_step.drive]
  show "bench_reachable (?m, (act_pc.PcTick 1, bench_moving), ?b)"
    by (simp add: next_tick_def bench_moving_def flip: s_def)
  have "act_command_valid ?c" using bench_command_accepted(1) by (simp add: accepts_act_command_def)
  have "g_routineState (act_apply ?c u) = g_routineState u" for u :: act_ecu
    by (rule can_more_fields(2) [OF act_apply_core(7)])
  moreover have "g_routineState (ActCan_RxIsrHandler f u) = g_routineState u" for f and u :: act_ecu
    by (simp add: ActCan_RxIsrHandler_def UdsDiag_OnCanRequest_def Let_def)
  moreover have "g_routineState (act_clear_flag u) = g_routineState u" for u :: act_ecu by (simp add: act_clear_flag_def)
  moreover have "g_routineState (act_age u) = g_routineState u" for u :: act_ecu
    by (rule can_more_fields(2) [OF act_age_fields(2)])
  ultimately show "g_routineState bench_moving \<noteq> UDS_ROUTINE_MOTOR_TEST"
    by (simp add: bench_moving_def act_init_sent(2))
  have "act_drive bench_moving = commanded_drive ?c"
    unfolding bench_moving_def by (rule act_apply_drive [OF \<open>act_command_valid ?c\<close>])
  then show "g_motorState bench_moving = MOTOR_STATE_FORWARD"
    by (simp add: bench_command_accepted(2) commanded_drive_def commanded_motor_def act_drive_def)
qed

section \<open>The bus\<close>



text \<open>
  C7. Every frame on the bus has the format of its receiver. What the gateway sends to ACT is a command
  that ACT accepts exactly when its six bytes are in range, or a request that ACT takes up, never a
  frame it rejects for its format; and the same for BODY. What ACT and BODY send is a state, an event
  or a heartbeat, or an answer of at least one byte that the gateway forwards to a connected tester
  as exactly one message with the address of the sender, whatever lies behind the frame in memory.
\<close>

theorem vehicle_bus_typed:
  assumes "vehicle_reachable e ha adc hb ((pm, sm), (pa, sa), (pb, sb))" and "hw_ok hb"
  shows "(\<forall>msg. CanMessage CanNode0 msg \<in> set (net_out sm) \<longrightarrow>
      cm_id msg = 0x100 \<and> (accepts_act_command (to_act msg) \<longleftrightarrow> act_command_valid (act_frame_command (to_act msg))) \<or>
      cm_id msg = 0x700 \<and> (\<forall>s :: act_ecu. ActCan_RxIsrHandler (to_act msg) s = UdsDiag_OnCanRequest (act_rx_bytes (cm_data msg)) s)) \<and>
    (\<forall>msg. CanMessage CanNode2 msg \<in> set (net_out sm) \<longrightarrow>
      cm_id msg = 0x110 \<and> (accepts_command (to_body msg) \<longleftrightarrow> command_valid (frame_command (to_body msg))) \<or>
      cm_id msg = 0x710 \<and> (\<forall>s :: body_ecu. g_udsRequestUpdated (BodyCan_RxIsrHandler (to_body msg) s) \<and>
        g_udsRequestByte (BodyCan_RxIsrHandler (to_body msg) s) = BodyCan_UnpackRxBytes (cm_data msg))) \<and>
    (\<forall>k f. (k, f) \<in> set (act_can.can_sent sa) \<longrightarrow> af_id f = 0x200 \<or> af_id f = 0x708 \<and>
      (\<forall>q t stale. tcp_ready e q (t :: main_ecu) \<longrightarrow>
        (\<exists>r. r \<noteq> [] \<and> can_receive e (from_act f, stale) t = after_event (TcpWrite q (doip_message 0x0010 r)) t))) \<and>
    (\<forall>k f. (k, f) \<in> set (body_can.can_sent sb) \<longrightarrow> cf_id f = 0x210 \<or> cf_id f = 0x310 \<or> cf_id f = 0x718 \<and>
      (\<forall>q t stale. tcp_ready e q (t :: main_ecu) \<longrightarrow>
        (\<exists>r. r \<noteq> [] \<and> can_receive e (from_body f, stale) t = after_event (TcpWrite q (doip_message 0x0020 r)) t)))"
proof (intro conjI allI impI)
  have ok: "list_all event_ok (net_out sm)"
    using main_ok_reachable vehicle_parts [OF assms(1)] by (fastforce simp: main_ok_def)
  have sent: "list_all act_frame_ok (map snd (act_can.can_sent sa))" "list_all body_frame_ok (map snd (body_can.can_sent sb))"
    using vehicle_inv_reachable [OF assms] by (simp_all add: vehicle_inv_def Let_def)
  show "cm_id msg = 0x100 \<and> (accepts_act_command (to_act msg) \<longleftrightarrow> act_command_valid (act_frame_command (to_act msg))) \<or>
      cm_id msg = 0x700 \<and> (\<forall>s :: act_ecu. ActCan_RxIsrHandler (to_act msg) s = UdsDiag_OnCanRequest (act_rx_bytes (cm_data msg)) s)"
    if "CanMessage CanNode0 msg \<in> set (net_out sm)" for msg
  proof -
    have "event_ok (CanMessage CanNode0 msg)" using ok that unfolding list_all_iff by blast
    from gateway_frame_act [OF this] show ?thesis by blast
  qed
  show "cm_id msg = 0x110 \<and> (accepts_command (to_body msg) \<longleftrightarrow> command_valid (frame_command (to_body msg))) \<or>
      cm_id msg = 0x710 \<and> (\<forall>s :: body_ecu. g_udsRequestUpdated (BodyCan_RxIsrHandler (to_body msg) s) \<and>
        g_udsRequestByte (BodyCan_RxIsrHandler (to_body msg) s) = BodyCan_UnpackRxBytes (cm_data msg))"
    if "CanMessage CanNode2 msg \<in> set (net_out sm)" for msg
  proof -
    have "event_ok (CanMessage CanNode2 msg)" using ok that unfolding list_all_iff by blast
    from gateway_frame_body [OF this] show ?thesis by blast
  qed
  show "af_id f = 0x200 \<or> af_id f = 0x708 \<and> (\<forall>q t stale. tcp_ready e q (t :: main_ecu) \<longrightarrow>
        (\<exists>r. r \<noteq> [] \<and> can_receive e (from_act f, stale) t = after_event (TcpWrite q (doip_message 0x0010 r)) t))"
    if "(k, f) \<in> set (act_can.can_sent sa)" for k f
  proof -
    have "act_frame_ok f" using sent(1) that by (force simp: list_all_iff)
    with act_frame_forwarded [OF this] show ?thesis by (auto simp: act_frame_ok_def)
  qed
  show "cf_id f = 0x210 \<or> cf_id f = 0x310 \<or> cf_id f = 0x718 \<and> (\<forall>q t stale. tcp_ready e q (t :: main_ecu) \<longrightarrow>
        (\<exists>r. r \<noteq> [] \<and> can_receive e (from_body f, stale) t = after_event (TcpWrite q (doip_message 0x0020 r)) t))"
    if "(k, f) \<in> set (body_can.can_sent sb)" for k f
  proof -
    have "body_frame_ok f" using sent(2) that by (force simp: list_all_iff)
    with body_frame_forwarded [OF this] show ?thesis by (auto simp: body_frame_ok_def)
  qed
qed

theorem vehicle_bus_typed_witness: "accepts_act_command (to_act bench_command)"
  using vehicle_bus_typed [OF bench_gateway bench_hw_ok] bench_command_sent bench_command_accepted(1) by blast



end
