(* ===== verification/Vehicle_Service.thy ===== *)
theory Vehicle_Service
  imports Vehicle_Flow Act_Props Body_Props Main_Props
begin

unbundle bit_operations_syntax

text \<open>
  What the vehicle does for the driver and for the tester, from one end to the other: driving, the loss
  of the driver's station, diagnostic requests, states and events.
\<close>

section \<open>Driving\<close>

text \<open>
  C2. A control packet with the ignition on and its bytes in range drives the vehicle: the next two
  frames of the gateway make ACT set motors and steering, and BODY its outputs, as the bytes of the
  packet ask, the collision warning being as it was switched before.
\<close>

theorem vehicle_remote_drive:
  fixes s :: "'a com_scheme" and sa :: "'b act_uds_scheme" and sb :: "'c body_ecu_scheme"
  assumes "can_ready e" "hw_ok hb" "body_inv sb" and "p 7 = 1"
    and "act_command_valid \<lparr>ac_accel = p 1, ac_steering = p 3, ac_brake = p 2, ac_gear = p 4, ac_mode = 1, ac_safety = 0\<rparr>"
    and "command_valid \<lparr>bc_headlamp = p 8, bc_turn = p 5, bc_brake = p 2, bc_horn = p 6,
      bc_warning = COM_Collision_Warn s, bc_mode = 1\<rparr>"
  shows "let t = UDP_Ctr_ProcessRx p n s in
    \<exists>ma mb. net_out (COM_Tx_CtrBody_CAN e (COM_Tx_CtrAct_CAN e t)) =
      net_out s @ [CanMessage CanNode0 ma, CanMessage CanNode2 mb] \<and>
      act_drive (ActCan_Update100us (ActCan_RxIsrHandler (to_act ma) sa)) =
        commanded_drive \<lparr>ac_accel = p 1, ac_steering = p 3, ac_brake = p 2, ac_gear = p 4, ac_mode = 1, ac_safety = 0\<rparr> \<and>
      (\<exists>u. BodyCan_Update1ms hb (BodyCan_RxIsrHandler (to_body mb) sb) = Some u \<and>
        body_commands u = commanded \<lparr>bc_headlamp = p 8, bc_turn = p 5, bc_brake = p 2, bc_horn = p 6,
          bc_warning = COM_Collision_Warn s, bc_mode = 1\<rparr>)"
proof -
  let ?t = "UDP_Ctr_ProcessRx p n s"
  have sig: "act_signals ?t = \<lparr>ac_accel = p 1, ac_steering = p 3, ac_brake = p 2, ac_gear = p 4, ac_mode = 1, ac_safety = 0\<rparr>"
    "body_signals ?t = \<lparr>bc_headlamp = p 8, bc_turn = p 5, bc_brake = p 2, bc_horn = p 6,
      bc_warning = COM_Collision_Warn s, bc_mode = 1\<rparr>" "net_out ?t = net_out s"
    using assms(4) by (simp_all add: UDP_Ctr_ProcessRx_def COM_Set_Safety_Override_def DCM_Callback_PcRecovered_def
        act_signals_def body_signals_def Let_def)
  show ?thesis
    using signals_delivered [OF assms(1-3), of ?t sa, unfolded sig] assms(5,6) unfolding Let_def sig by blast
qed

theorem vehicle_remote_drive_witness:
  "let t = UDP_Ctr_ProcessRx (array [0, 1, 0, 1, 3, 0, 0, 1, 1]) 9 bench_main in
   \<exists>ma. CanMessage CanNode0 ma \<in> set (net_out (COM_Tx_CtrBody_CAN bench_net (COM_Tx_CtrAct_CAN bench_net t))) \<and>
     act_drive (ActCan_Update100us (ActCan_RxIsrHandler (to_act ma) bench_act)) = (MOTOR_STATE_FORWARD, 30, 100, STEERING_KEY_LEFT)"
proof -
  let ?p = "array [0, 1, 0, 1, 3, 0, 0, 1, 1]"
  have "body_inv bench_ecu" using bench_inv by (simp add: ecu_inv_def)
  moreover have "COM_Collision_Warn bench_main = 1"
    by (simp add: bench_main_def main_init_def Sd_Init_def TcpInit_def UdpInit_def udp_open_def main_statics_def
        bench_net_def call_def Let_def)
  ultimately show ?thesis
    using vehicle_remote_drive [OF bench_net_ready bench_hw_ok, of bench_ecu ?p bench_main 9 bench_act]
    by (auto simp: Let_def array_def act_command_valid_def ActCan_IsValidBool_def ActCan_IsValidSteering_def
        ActCan_IsValidGear_def ActCan_IsValidControlMode_def ActCan_IsValidSafetyOverride_def command_valid_def
        BodyCan_IsValidBool_def BodyCan_IsValidTurnSignal_def BodyCan_IsValidControlMode_def
        commanded_drive_def commanded_motor_def)
qed

text \<open>
  C3. When the driver's station is silent for half a second during remote drive, the next two frames of
  the gateway stop the vehicle and warn: ACT brakes both motors and centres the steering, BODY sets
  both turn signals and leaves the other outputs to the last packet.
\<close>

theorem vehicle_station_lost:
  fixes s :: "'a com_scheme" and sa :: "'b act_uds_scheme" and sb :: "'c body_ecu_scheme"
  assumes "can_ready e" "hw_ok hb" "body_inv sb"
    and "COM_Cur_Mode s = 1" "500 \<le> g_TickCount_1ms s - Last_Udp_RxTime s"
    and "act_command_valid (act_signals s)" "command_valid (body_signals s)"
  shows "let t = COM_TimeOut s in
    \<exists>ma mb. net_out (COM_Tx_CtrBody_CAN e (COM_Tx_CtrAct_CAN e t)) =
      net_out s @ [CanMessage CanNode0 ma, CanMessage CanNode2 mb] \<and>
      (let u = ActCan_Update100us (ActCan_RxIsrHandler (to_act ma) sa) in
        braked u \<and> act_drive u = (MOTOR_STATE_STOP, 90, 90, STEERING_KEY_NULL)) \<and>
      (\<exists>u. BodyCan_Update1ms hb (BodyCan_RxIsrHandler (to_body mb) sb) = Some u \<and>
        body_commands u = (Ctr_head_light s = 1, Ctr_brake s = 1, True, True, COM_Collision_Warn s = 1, Ctr_horn s = 1))"
proof -
  let ?t = "COM_TimeOut s"
  have sig: "act_signals ?t = (act_signals s)\<lparr>ac_safety := 1\<rparr>" "body_signals ?t = (body_signals s)\<lparr>bc_turn := 3\<rparr>"
    "net_out ?t = net_out s"
    using assms(4,5) by (simp_all add: COM_TimeOut_def Callback_COM_PcTimeout_def COM_Set_Turn_Signal_def
        COM_Set_Safety_Override_def comm_forms act_signals_def body_signals_def Get_SystemTime_ms_def Let_def)
  have v: "act_command_valid (act_signals ?t)" "command_valid (body_signals ?t)"
    using assms(6,7) by (simp_all add: sig act_command_valid_def command_valid_def ActCan_IsValidSafetyOverride_def
        BodyCan_IsValidTurnSignal_def)
  have c: "commanded_drive (act_signals ?t) = (MOTOR_STATE_STOP, 90, 90, STEERING_KEY_NULL)" "ac_safety (act_signals ?t) = 1"
    "commanded (body_signals ?t) = (Ctr_head_light s = 1, Ctr_brake s = 1, True, True, COM_Collision_Warn s = 1, Ctr_horn s = 1)"
    using assms(4) unfolding sig(1,2) by (simp_all add: commanded_drive_def commanded_def body_signals_def)
  show ?thesis
    using signals_delivered [OF assms(1-3) v, of sa] unfolding Let_def c sig(3) by blast
qed

text \<open>The gateway in remote drive, half a second after the last packet.\<close>

definition bench_silent :: main_ecu where
  "bench_silent = bench_main\<lparr>COM_Cur_Mode := 1, Ctr_accel := 1, Ctr_gear := 3, g_TickCount_1ms := 500\<rparr>"

theorem vehicle_station_lost_witness:
  "let t = COM_TimeOut bench_silent in
   \<exists>ma. CanMessage CanNode0 ma \<in> set (net_out (COM_Tx_CtrBody_CAN bench_net (COM_Tx_CtrAct_CAN bench_net t))) \<and>
     braked (ActCan_Update100us (ActCan_RxIsrHandler (to_act ma) bench_act))"
proof -
  have "body_inv bench_ecu" using bench_inv by (simp add: ecu_inv_def)
  moreover have "act_signals bench_silent = \<lparr>ac_accel = 1, ac_steering = 0, ac_brake = 0, ac_gear = 3, ac_mode = 1, ac_safety = 0\<rparr>"
    "body_signals bench_silent = \<lparr>bc_headlamp = 0, bc_turn = 0, bc_brake = 0, bc_horn = 0, bc_warning = 1, bc_mode = 1\<rparr>"
    "Last_Udp_RxTime bench_silent = 0" "COM_Cur_Mode bench_silent = 1" "g_TickCount_1ms bench_silent = 500"
    by (simp_all add: bench_silent_def act_signals_def body_signals_def bench_main_def main_init_def Sd_Init_def TcpInit_def
        UdpInit_def udp_open_def main_statics_def bench_net_def call_def Let_def)
  ultimately show ?thesis
    using vehicle_station_lost [OF bench_net_ready bench_hw_ok, of bench_ecu bench_silent bench_act]
    by (auto simp: Let_def act_command_valid_def ActCan_IsValidBool_def ActCan_IsValidSteering_def
        ActCan_IsValidGear_def ActCan_IsValidControlMode_def ActCan_IsValidSafetyOverride_def command_valid_def
        BodyCan_IsValidBool_def BodyCan_IsValidTurnSignal_def BodyCan_IsValidControlMode_def)
qed



section \<open>Diagnostics\<close>

text \<open>
  C14. A diagnostic request of one to seven bytes for BODY makes the whole way and back: the gateway
  acknowledges it and sends one frame; BODY, when it comes to it, hands its driver one frame; and that
  frame, whatever lies behind it in memory, becomes one message to the tester from the address of
  BODY, which answers the requested service, positively or with one of four negative codes.
\<close>

theorem vehicle_diagnosis_body:
  fixes s :: "'a com_scheme" and sb :: "'b body_ecu_scheme"
  assumes "tcp_ready e q s" "can_ready e" and "12 < n" "n \<le> 19" "be16 (p 2) (p 3) = 0x8001"
    and "be32 (p 4) (p 5) (p 6) (p 7) = ucast n - 8" "be16 (p 8) (p 9) = 0x0E00" "be16 (p 10) (p 11) = 0x0020"
    and "hw_ok hb" "body_inv sb" "hw_can hb (body_can.can_calls sb) \<noteq> NotSentBusy"
  shows "let t = DoIP_ProcessRx e p n s in
    \<exists>mb u f r. net_out t = net_out s @ [TcpWrite q (doip_reply 0x80 0x02 [0x00, 0x20, 0x0E, 0x00, 0]), CanMessage CanNode2 mb] \<and>
      BodyCan_ProcessUdsRequestIfNeeded hb (BodyCan_RxIsrHandler (to_body mb) sb) = Some u \<and>
      body_can.can_sent u = f # body_can.can_sent sb \<and>
      (\<forall>stale. can_receive e (from_body (snd f), stale) t = after_event (TcpWrite q (doip_message 0x0020 r)) t) \<and>
      (r ! 0 = p 12 + 0x40 \<or> (\<exists>c \<in> {0x11, 0x12, 0x13, 0x31}. r = [0x7F, p 12, c]))"
proof -
  define k where "k = n - 12"
  have k: "0 < unat k" "unat k \<le> 7" using assms(3,4) by (simp_all add: k_def word_less_nat_alt word_le_nat_alt unat_sub)
  define acked where "acked = tcp_says q (doip_reply 0x80 0x02 [0x00, 0x20, 0x0E, 0x00, 0]) s"
  define t where "t = after_event (can_request 0x710 (moved 12 p) k) acked"
  obtain mb where mb: "can_request 0x710 (moved 12 p) k = CanMessage CanNode2 mb" by (simp add: can_request_def)
  have "12 \<le> n" using assms(3) by simp
  then have t: "DoIP_ProcessRx e p n s = t"
    using diagnostic_effect [OF assms(1,2) _ assms(5,6)] assms(3,4,7,8)
    by (simp add: Let_def t_def acked_def k_def net16_def hi8_def lo8_def)
  have out: "net_out t = net_out s @ [TcpWrite q (doip_reply 0x80 0x02 [0x00, 0x20, 0x0E, 0x00, 0]), CanMessage CanNode2 mb]"
    by (simp add: t_def mb acked_def)
  have ready: "tcp_ready e q t" using assms(1) by (simp add: t_def acked_def)
  have "moved 12 p 0 = p 12" by (simp add: moved_def)
  with body_roundtrip [OF mb k assms(9-11) ready] out show ?thesis unfolding Let_def t by metis
qed

text \<open>The tester asks BODY for the data identifier 0x0200.\<close>

definition bench_body_read :: memory where
  "bench_body_read = array [0x02, 0xFD, 0x80, 0x01, 0, 0, 0, 7, 0x0E, 0x00, 0x00, 0x20, 0x22, 0x02, 0x00]"

theorem vehicle_diagnosis_body_witness:
  "\<exists>mb u f. CanMessage CanNode2 mb \<in> set (net_out (DoIP_ProcessRx bench_net bench_body_read 15 bench_tester)) \<and>
     BodyCan_ProcessUdsRequestIfNeeded bench_hw (BodyCan_RxIsrHandler (to_body mb) bench_ecu) = Some u \<and>
     body_can.can_sent u = f # body_can.can_sent bench_ecu"
proof -
  have "body_inv bench_ecu" using bench_inv by (simp add: ecu_inv_def)
  then show ?thesis
    using vehicle_diagnosis_body [OF bench_tester_ready bench_net_ready _ _ _ _ _ _ bench_hw_ok, of 15 bench_body_read bench_ecu]
    by (simp add: Let_def bench_body_read_def array_def be16_def be32_def pack_le_def bench_hw_def) fastforce
qed

text \<open>
  C15. The same for ACT, at any moment of its loop: the request waits for the next look at it and is then
  answered by one frame that becomes one message to the tester from the address of ACT, with one of six
  negative codes if any; only the start of a routine is not answered before the routine ends.
\<close>

theorem vehicle_diagnosis_act:
  fixes s :: "'a com_scheme" and sa :: "'b act_uds_scheme"
  assumes "tcp_ready e q s" "can_ready e" and "12 < n" "n \<le> 19" "be16 (p 2) (p 3) = 0x8001"
    and "be32 (p 4) (p 5) (p 6) (p 7) = ucast n - 8" "be16 (p 8) (p 9) = 0x0E00" "be16 (p 10) (p 11) = 0x0010"
    and "hw_can ha (act_can.can_calls sa) \<noteq> NotSentBusy"
  shows "let t = DoIP_ProcessRx e p n s in
    \<exists>ma. net_out t = net_out s @ [TcpWrite q (doip_reply 0x80 0x02 [0x00, 0x10, 0x0E, 0x00, 0]), CanMessage CanNode0 ma] \<and>
     (let sr = ActCan_RxIsrHandler (to_act ma) sa; u = UdsDiag_ProcessRequest ha (g_reqData sr) (sr\<lparr>g_reqPending := False\<rparr>) in
      g_reqPending sr \<and>
      ((\<exists>f r. act_can.can_sent u = f # act_can.can_sent sa \<and>
        (\<forall>stale. can_receive e (from_act (snd f), stale) t = after_event (TcpWrite q (doip_message 0x0010 r)) t) \<and>
        (r ! 0 = p 12 + 0x40 \<or> (\<exists>c \<in> {0x11, 0x12, 0x13, 0x21, 0x22, 0x31}. r = [0x7F, p 12, c]))) \<or>
       p 12 = 0x31 \<and> act_started sa u))"
proof -
  define k where "k = n - 12"
  have k: "0 < unat k" "unat k \<le> 7" using assms(3,4) by (simp_all add: k_def word_less_nat_alt word_le_nat_alt unat_sub)
  define acked where "acked = tcp_says q (doip_reply 0x80 0x02 [0x00, 0x10, 0x0E, 0x00, 0]) s"
  define t where "t = after_event (can_request 0x700 (moved 12 p) k) acked"
  obtain ma where ma: "can_request 0x700 (moved 12 p) k = CanMessage CanNode0 ma" by (simp add: can_request_def)
  have "12 \<le> n" using assms(3) by simp
  then have t: "DoIP_ProcessRx e p n s = t"
    using diagnostic_effect [OF assms(1,2) _ assms(5,6)] assms(3,4,7,8)
    by (simp add: Let_def t_def acked_def k_def net16_def hi8_def lo8_def)
  have out: "net_out t = net_out s @ [TcpWrite q (doip_reply 0x80 0x02 [0x00, 0x10, 0x0E, 0x00, 0]), CanMessage CanNode0 ma]"
    by (simp add: t_def ma acked_def)
  have ready: "tcp_ready e q t" using assms(1) by (simp add: t_def acked_def)
  have d: "moved 12 p 0 = p 12" by (simp add: moved_def)
  show ?thesis
    using out act_roundtrip [OF ma k assms(9) ready] unfolding Let_def t d by blast
qed

theorem vehicle_diagnosis_act_witness:
  "\<exists>ma. CanMessage CanNode0 ma \<in> set (net_out (DoIP_ProcessRx bench_net bench_act_read 15 bench_tester)) \<and>
     g_reqPending (ActCan_RxIsrHandler (to_act ma) bench_act)"
  using vehicle_diagnosis_act [OF bench_tester_ready bench_net_ready, of 15 bench_act_read bench_act_hw bench_act]
  by (simp add: Let_def bench_act_read_def array_def be16_def be32_def pack_le_def bench_act_hw_def) fastforce

section \<open>States and events\<close>

text \<open>
  C27. What ACT measures reaches the driver's station and a collision reaches the Raspberry Pi. A state of
  ACT with any speed, taken in by the gateway, ends its trouble code's count and is sent on with the
  next status datagram, low byte of the speed first, saturated at 65535. A pending collision event that
  BODY can hand to its driver leaves the gateway as one datagram with the flag 1 and the four bytes of
  the time at which the button was pressed, most significant first.
\<close>

theorem vehicle_states_and_events:
  fixes s :: "'a com_scheme" and sb :: "'b body_ecu_scheme"
  assumes "udp_ready e p s"
  shows "(let t = can_receive e (from_act (status_frame (status_bytes v g st a)), stale) s; w = (if v > 65535 then 65535 else ucast v) in
      Last_Act_RxTime t = g_TickCount_1ms s \<and> DtcOccurCount_Act t = 0 \<and> DtcStatus_Act t AND 1 = 0 \<and>
      net_out (COM_Tx_Stat_UDP e t) = net_out s @ [UdpSendTo p (pcip s) 5001 [COM_Stat_Cnt s, lo8 w, hi8 w]]) \<and>
    (g_collisionEventPending sb \<and> hw_can hb (body_can.can_calls sb) \<noteq> NotSentBusy \<longrightarrow>
      (\<exists>k f b. body_can.can_sent (BodyCan_SendPendingCollisionEventIfNeeded hb sb) = (k, f) # body_can.can_sent sb \<and>
        net_out (can_receive e (from_body f, stale) s) = net_out s @ [UdpSendTo p [192, 168, 20, 2] 5002 b] \<and>
        b ! 0 = 1 \<and> length b = 5 \<and> be32 (b ! 1) (b ! 2) (b ! 3) (b ! 4) = g_pendingCollisionOccurrenceTimeMs sb))"
proof (intro conjI impI)
  define w :: u16 where "w = (if v > 65535 then 65535 else ucast v)"
  define bs where "bs = status_bytes v g st a"
  define t where "t = can_receive e (from_act (status_frame bs), stale) s"
  have b: "bs ! 0 = lo8 w" "bs ! 1 = hi8 w" by (simp_all add: bs_def status_bytes_def w_def Let_def)
  have t: "udp_ready e p t" "pcip t = pcip s" "COM_Stat_Cnt t = COM_Stat_Cnt s" "net_out t = net_out s" "Stat_speedl t = lo8 w"
    "Stat_speedh t = hi8 w" "Last_Act_RxTime t = g_TickCount_1ms s" "DtcOccurCount_Act t = 0" "DtcStatus_Act t AND 1 = 0"
    using assms comm_laws(2,4) b by (simp_all add: t_def act_status_received comm_forms udp_ready_def del: One_nat_def)
  then have "net_out (COM_Tx_Stat_UDP e t) = net_out s @ [UdpSendTo p (pcip s) 5001 [COM_Stat_Cnt s, lo8 w, hi8 w]]"
    by (simp add: Stat_sends [OF t(1)] emit_def call_def)
  with t show "let t = can_receive e (from_act (status_frame (status_bytes v g st a)), stale) s; w = (if v > 65535 then 65535 else ucast v) in
      Last_Act_RxTime t = g_TickCount_1ms s \<and> DtcOccurCount_Act t = 0 \<and> DtcStatus_Act t AND 1 = 0 \<and>
      net_out (COM_Tx_Stat_UDP e t) = net_out s @ [UdpSendTo p (pcip s) 5001 [COM_Stat_Cnt s, lo8 w, hi8 w]]"
    unfolding Let_def by (simp add: t_def bs_def w_def)
next
  assume pending: "g_collisionEventPending sb \<and> hw_can hb (body_can.can_calls sb) \<noteq> NotSentBusy"
  define bs where "bs = collision_event_bytes (g_pendingCollisionOccurrenceTimeMs sb)"
  define f where "f = \<lparr>cf_id = 0x210, cf_dlc = 5, cf_data = BodyCan_PackTxBytes bs\<rparr>"
  have "body_can.can_sent (BodyCan_SendPendingCollisionEventIfNeeded hb sb) =
      (unat (body_can.g_txBufferIndex sb), f) # body_can.can_sent sb"
    using SendPending_pending(2) [of sb hb] pending by (simp add: transmits_def f_def bs_def)
  moreover have "net_out (can_receive e (from_body f, stale) s) = net_out s @ [UdpSendTo p [192, 168, 20, 2] 5002 (take 5 bs)]"
    using collision_received [OF assms] by (simp add: f_def bs_def emit_def call_def)
  moreover have "take 5 bs ! 0 = 1" "length (take 5 bs) = 5"
    "be32 (take 5 bs ! 1) (take 5 bs ! 2) (take 5 bs ! 3) (take 5 bs ! 4) = g_pendingCollisionOccurrenceTimeMs sb"
    by (simp_all add: bs_def collision_event_bytes_def)
  ultimately show "\<exists>k f b. body_can.can_sent (BodyCan_SendPendingCollisionEventIfNeeded hb sb) = (k, f) # body_can.can_sent sb \<and>
        net_out (can_receive e (from_body f, stale) s) = net_out s @ [UdpSendTo p [192, 168, 20, 2] 5002 b] \<and>
        b ! 0 = 1 \<and> length b = 5 \<and> be32 (b ! 1) (b ! 2) (b ! 3) (b ! 4) = g_pendingCollisionOccurrenceTimeMs sb" by blast
qed

theorem vehicle_states_and_events_witness:
  "\<exists>k f b. body_can.can_sent (BodyCan_SendPendingCollisionEventIfNeeded bench_hw (bench_ecu\<lparr>g_collisionEventPending := True\<rparr>)) =
      (k, f) # body_can.can_sent bench_ecu \<and>
    net_out (can_receive bench_net (from_body f, \<lambda>i. 0) bench_main) = [UdpSendTo 0 [192, 168, 20, 2] 5002 b] \<and> b ! 0 = 1"
proof -
  have "udp_ready bench_net 0 bench_main"
    by (simp add: udp_ready_def bench_main_def main_init_def Sd_Init_def TcpInit_def UdpInit_def udp_open_def main_statics_def
      bench_net_def call_def Let_def)
  from vehicle_states_and_events [OF this, of _ _ _ _ "\<lambda>i. 0" "bench_ecu\<lparr>g_collisionEventPending := True\<rparr>" bench_hw]
  show ?thesis by (simp add: bench_statics bench_hw_def Let_def) blast
qed

end
