(* ===== verification/Can_Setup.thy ===== *)
theory Can_Setup
  imports Act_Can Body_Ecu Main_Route
begin

unbundle bit_operations_syntax

text \<open>
  How the three units set up their CAN controllers: \<open>Can_Init\<close> and \<open>Can_ConfigFilter\<close> of
  \<open>src/MAIN/candrv.c\<close>, and the hardware half of \<open>ActCan_Init\<close> (\<open>src/ACT/ActCan.c\<close>) and \<open>BodyCan_Init\<close>
  (\<open>src/BODY/BodyCan.c\<close>). The code fills configuration structures and hands them to the driver library;
  the model keeps the structures as they are handed over. Fields the code does not assign keep the
  value \<open>IfxCan_Can_initNodeConfig\<close> gave them (the argument \<open>d\<close>) or, for a local variable, whatever was
  there. What a filter lets through is the controller's business: \<open>filter_laws\<close> states what its manual
  documents, and the theorems quantify the rest.
\<close>

section \<open>Configurations\<close>

text \<open>The enumerators of the library that the code uses. A data field size is its number of bytes.\<close>

datatype node_id = NodeId_0 | NodeId_2
datatype tx_mode = TxMode_dedicatedBuffers
datatype rx_mode = RxMode_dedicatedBuffers | RxMode_fifo0 | RxMode_sharedFifo0
datatype filter_type = FilterType_none | FilterType_classic | FilterType_range
datatype filter_action = StoreInRxFifo0 | StoreInRxBuffer

record node_pins =
  txPin :: pin
  rxPin :: pin

record message_ram =
  baseAddress :: u32
  standardFilterListStartAddress :: nat
  extendedFilterListStartAddress :: nat
  rxFifo0StartAddress :: nat
  rxFifo1StartAddress :: nat
  rxBuffersStartAddress :: nat
  txEventFifoStartAddress :: nat
  txBuffersStartAddress :: nat

record node_config =
  nodeId :: node_id
  busLoopbackEnabled :: bool
  baudrate :: nat
  fastBaudrate :: nat
  pins :: node_pins
  transmitAndReceive :: bool
  frameMode :: frame_mode
  txMode :: tx_mode
  dedicatedTxBuffersNumber :: nat
  txBufferDataFieldSize :: nat
  rxMode :: rx_mode
  rxFifo0Size :: nat
  rxFifo0DataFieldSize :: nat
  rxBufferDataFieldSize :: nat
  standardMessageId :: bool
  standardListSize :: nat
  rejectNonMatching :: bool
  rejectRemoteStandard :: bool
  rejectRemoteExtended :: bool
  rxBufferInterrupt :: bool
  rxInterruptPriority :: nat
  messageRAM :: message_ram

record can_filter =
  number :: nat
  elementConfiguration :: filter_action
  filterType :: filter_type
  id1 :: u32
  id2 :: u32
  rxBufferOffset :: nat

text \<open>The filter elements of a node in the message RAM; \<open>IfxCan_Can_setStandardFilter\<close> writes one.\<close>

type_synonym filter_list = "nat \<Rightarrow> can_filter"

definition setStandardFilter :: "can_filter \<Rightarrow> filter_list \<Rightarrow> filter_list" where
  "setStandardFilter f fs = fs(number f := f)"

lemma setStandardFilter_same [simp]: "number f = k \<Longrightarrow> setStandardFilter f fs k = f"
  by (simp add: setStandardFilter_def)

lemma setStandardFilter_other [simp]: "number f \<noteq> k \<Longrightarrow> setStandardFilter f fs k = fs k"
  by (simp add: setStandardFilter_def)

section \<open>The gateway\<close>

record can_setup = io +
  nodeConfig0 :: node_config
  nodeConfig2 :: node_config
  filters0 :: filter_list
  filters2 :: filter_list

abbreviation (input) CAN_RX_FIFO_SIZE :: nat where "CAN_RX_FIFO_SIZE \<equiv> 8"

definition node0_config :: "u32 \<Rightarrow> node_config \<Rightarrow> node_config" where
  "node0_config ram d = d
     \<lparr>nodeId := NodeId_0, baudrate := 500000, fastBaudrate := 2000000,
      pins := \<lparr>txPin = (20, 8), rxPin = (20, 7)\<rparr>,
      transmitAndReceive := True, frameMode := FrameMode_fdLongAndFast,
      txMode := TxMode_dedicatedBuffers, txBufferDataFieldSize := 64,
      rxMode := RxMode_fifo0, rxFifo0Size := CAN_RX_FIFO_SIZE, rxFifo0DataFieldSize := 64,
      rxBufferDataFieldSize := 64,
      standardMessageId := True, standardListSize := 3, rejectNonMatching := True, rejectRemoteStandard := True,
      messageRAM :=
        \<lparr>baseAddress = ram, standardFilterListStartAddress = 0x000, extendedFilterListStartAddress = 0x040,
         rxFifo0StartAddress = 0x080, rxFifo1StartAddress = 0x200, rxBuffersStartAddress = 0x300,
         txEventFifoStartAddress = 0x400, txBuffersStartAddress = 0x500\<rparr>\<rparr>"

definition node2_config :: "u32 \<Rightarrow> node_config \<Rightarrow> node_config" where
  "node2_config ram d = d
     \<lparr>nodeId := NodeId_2, baudrate := 500000, fastBaudrate := 2000000,
      pins := \<lparr>txPin = (15, 0), rxPin = (15, 1)\<rparr>,
      transmitAndReceive := True, frameMode := FrameMode_fdLongAndFast,
      txMode := TxMode_dedicatedBuffers, txBufferDataFieldSize := 64,
      rxMode := RxMode_fifo0, rxFifo0Size := CAN_RX_FIFO_SIZE, rxFifo0DataFieldSize := 64,
      rxBufferDataFieldSize := 64,
      standardMessageId := True, standardListSize := 3, rejectNonMatching := True, rejectRemoteStandard := True,
      messageRAM :=
        \<lparr>baseAddress = ram, standardFilterListStartAddress = 0x800, extendedFilterListStartAddress = 0x840,
         rxFifo0StartAddress = 0x880, rxFifo1StartAddress = 0xA00, rxBuffersStartAddress = 0xB00,
         txEventFifoStartAddress = 0xC00, txBuffersStartAddress = 0xD00\<rparr>\<rparr>"

definition Can_ConfigFilter :: "can_filter \<Rightarrow> 'a can_setup_scheme \<Rightarrow> 'a can_setup_scheme" where
  "Can_ConfigFilter f s =
     (let f = f\<lparr>elementConfiguration := StoreInRxFifo0, filterType := FilterType_classic\<rparr>;
          f = f\<lparr>number := 0, id1 := 0x200, id2 := 0x7FF\<rparr>;
          s = s\<lparr>filters0 := setStandardFilter f (filters0 s)\<rparr>;
          f = f\<lparr>number := 1, id1 := 0x708, id2 := 0x7FF\<rparr>;
          s = s\<lparr>filters0 := setStandardFilter f (filters0 s)\<rparr>;
          f = f\<lparr>number := 0, id1 := 0x210, id2 := 0x7FF\<rparr>;
          s = s\<lparr>filters2 := setStandardFilter f (filters2 s)\<rparr>;
          f = f\<lparr>number := 1, id1 := 0x310, id2 := 0x7FF\<rparr>;
          s = s\<lparr>filters2 := setStandardFilter f (filters2 s)\<rparr>;
          f = f\<lparr>number := 2, id1 := 0x718, id2 := 0x7FF\<rparr>
      in s\<lparr>filters2 := setStandardFilter f (filters2 s)\<rparr>)"

text \<open>\<open>f\<close> is the uninitialised local variable of \<open>Can_ConfigFilter\<close>, \<open>ram\<close> the address of the message RAM.\<close>

definition Can_Init :: "u32 \<Rightarrow> node_config \<Rightarrow> can_filter \<Rightarrow> 'a can_setup_scheme \<Rightarrow> 'a can_setup_scheme" where
  "Can_Init ram d f s =
     (let s = set_pin (20, 6) False (set_mode (20, 6) OutputPushPull s);
          s = s\<lparr>nodeConfig0 := node0_config ram d\<rparr>;
          s = s\<lparr>nodeConfig2 := node2_config ram d\<rparr>
      in Can_ConfigFilter f s)"

section \<open>ACT and BODY\<close>

abbreviation (input) ACT_CAN_RX_BUFFER_ID :: nat where "ACT_CAN_RX_BUFFER_ID \<equiv> 0"
abbreviation (input) BODY_CAN_RX_BUFFER_ID :: nat where "BODY_CAN_RX_BUFFER_ID \<equiv> 0"

definition act_node_config :: "node_config \<Rightarrow> node_config" where
  "act_node_config d = d
     \<lparr>busLoopbackEnabled := False, nodeId := NodeId_0,
      transmitAndReceive := True, frameMode := FrameMode_fdLongAndFast, baudrate := 500000, fastBaudrate := 2000000,
      txMode := TxMode_dedicatedBuffers, dedicatedTxBuffersNumber := 4, txBufferDataFieldSize := 12,
      rxMode := RxMode_dedicatedBuffers, rxBufferDataFieldSize := 8,
      standardMessageId := True, standardListSize := 2, rejectNonMatching := True,
      rejectRemoteStandard := True, rejectRemoteExtended := True,
      messageRAM := (messageRAM d)
        \<lparr>baseAddress := 0xF0200000, standardFilterListStartAddress := 0x000,
         rxBuffersStartAddress := 0x100, txBuffersStartAddress := 0x200\<rparr>,
      rxBufferInterrupt := True, rxInterruptPriority := 10,
      pins := \<lparr>txPin = (20, 8), rxPin = (20, 7)\<rparr>\<rparr>"

definition act_filters :: "can_filter \<Rightarrow> can_filter \<Rightarrow> filter_list \<Rightarrow> filter_list" where
  "act_filters cmd diag fs =
     (let cmd = cmd\<lparr>number := 0, elementConfiguration := StoreInRxBuffer, filterType := FilterType_none,
             id1 := 0x100, id2 := 0x100, rxBufferOffset := ACT_CAN_RX_BUFFER_ID\<rparr>;
          fs = setStandardFilter cmd fs;
          diag = diag\<lparr>number := 1, elementConfiguration := StoreInRxBuffer, filterType := FilterType_none,
             id1 := 0x700, id2 := 0x700, rxBufferOffset := ACT_CAN_RX_BUFFER_ID\<rparr>
      in setStandardFilter diag fs)"

definition body_node_config :: "node_config \<Rightarrow> node_config" where
  "body_node_config d = d
     \<lparr>busLoopbackEnabled := False, nodeId := NodeId_0,
      transmitAndReceive := True, frameMode := FrameMode_fdLong, baudrate := 500000, fastBaudrate := 2000000,
      txMode := TxMode_dedicatedBuffers, dedicatedTxBuffersNumber := 2, txBufferDataFieldSize := 64,
      rxMode := RxMode_dedicatedBuffers, rxBufferDataFieldSize := 64,
      standardMessageId := True, standardListSize := 2, rejectNonMatching := True,
      rejectRemoteStandard := True, rejectRemoteExtended := True,
      messageRAM := (messageRAM d)
        \<lparr>baseAddress := 0xF0200000, standardFilterListStartAddress := 0x000,
         rxBuffersStartAddress := 0x100, txBuffersStartAddress := 0x200\<rparr>,
      rxBufferInterrupt := True, rxInterruptPriority := 10,
      pins := \<lparr>txPin = (20, 8), rxPin = (20, 7)\<rparr>\<rparr>"

definition body_filters :: "can_filter \<Rightarrow> can_filter \<Rightarrow> filter_list \<Rightarrow> filter_list" where
  "body_filters f0 f1 fs =
     (let f0 = f0\<lparr>number := 0, elementConfiguration := StoreInRxBuffer, filterType := FilterType_none,
             id1 := BODY_CAN_CMD_ID, id2 := BODY_CAN_CMD_ID, rxBufferOffset := BODY_CAN_RX_BUFFER_ID\<rparr>;
          fs = setStandardFilter f0 fs;
          f1 = f1\<lparr>number := 1, elementConfiguration := StoreInRxBuffer, filterType := FilterType_none,
             id1 := BODY_CAN_UDS_REQ_ID, id2 := BODY_CAN_UDS_REQ_ID, rxBufferOffset := BODY_CAN_RX_BUFFER_ID\<rparr>
      in setStandardFilter f1 fs)"

section \<open>What the filters let through\<close>

text \<open>
  A classic filter compares the bits of its mask, a range filter both ends, the filter of a dedicated
  buffer its identifier. A
  node that rejects frames no filter matches receives what one of its filters accepts.
\<close>

definition filter_laws :: "(can_filter \<Rightarrow> u32 \<Rightarrow> bool) \<Rightarrow> bool" where
  "filter_laws acc \<longleftrightarrow>
     (\<forall>f i. elementConfiguration f = StoreInRxFifo0 \<and> filterType f = FilterType_classic \<longrightarrow>
        (acc f i \<longleftrightarrow> i AND id2 f = id1 f AND id2 f)) \<and>
     (\<forall>f i. elementConfiguration f = StoreInRxFifo0 \<and> filterType f = FilterType_range \<longrightarrow>
        (acc f i \<longleftrightarrow> id1 f \<le> i \<and> i \<le> id2 f)) \<and>
     (\<forall>f i. elementConfiguration f = StoreInRxBuffer \<longrightarrow> (acc f i \<longleftrightarrow> i = id1 f))"

definition node_receives :: "(can_filter \<Rightarrow> u32 \<Rightarrow> bool) \<Rightarrow> node_config \<Rightarrow> filter_list \<Rightarrow> u32 \<Rightarrow> bool" where
  "node_receives acc c fs i \<longleftrightarrow> \<not> rejectNonMatching c \<or> (\<exists>k < standardListSize c. acc (fs k) i)"

lemma less_by_cases: "(\<exists>k < 2. P k) \<longleftrightarrow> P (0::nat) \<or> P 1" "(\<exists>k < 3. P k) \<longleftrightarrow> P (0::nat) \<or> P 1 \<or> P 2"
  by (auto simp: numeral_2_eq_2 numeral_3_eq_3 less_Suc_eq)

lemma standard_id: "i < 0x800 \<Longrightarrow> i AND 0x7FF = (i :: u32)"
proof -
  assume "i < 0x800"
  then have "unat i < 2048" by (simp add: word_less_nat_alt)
  moreover have "i AND 0x7FF = take_bit 11 i" by (simp add: mask_eq_exp_minus_1 take_bit_eq_mask)
  ultimately show ?thesis by (simp add: word_unat_eq_iff unsigned_take_bit_eq take_bit_nat_eq_self)
qed

text \<open>The identifiers each node receives.\<close>

lemma gateway_receives:
  assumes "filter_laws acc" "i < 0x800"
  shows "node_receives acc (nodeConfig0 (Can_Init ram d f s)) (filters0 (Can_Init ram d f s)) i \<longleftrightarrow>
      i = 0x200 \<or> i = 0x708 \<or> acc (filters0 s 2) i"
    and "node_receives acc (nodeConfig2 (Can_Init ram d f s)) (filters2 (Can_Init ram d f s)) i \<longleftrightarrow>
      i = 0x210 \<or> i = 0x310 \<or> i = 0x718"
  using assms(1) unfolding filter_laws_def node_receives_def
  by (auto simp: Can_Init_def Can_ConfigFilter_def node0_config_def node2_config_def set_pin_def set_mode_def
      less_by_cases standard_id [OF assms(2)] Let_def)

lemma act_receives:
  assumes "filter_laws acc"
  shows "node_receives acc (act_node_config d) (act_filters cmd diag fs) i \<longleftrightarrow> i = 0x100 \<or> i = 0x700"
  using assms unfolding filter_laws_def node_receives_def
  by (auto simp: act_node_config_def act_filters_def less_by_cases Let_def)

lemma body_receives:
  assumes "filter_laws acc"
  shows "node_receives acc (body_node_config d) (body_filters f0 f1 fs) i \<longleftrightarrow> i = 0x110 \<or> i = 0x710"
  using assms unfolding filter_laws_def node_receives_def
  by (auto simp: body_node_config_def body_filters_def less_by_cases Let_def)

section \<open>The message RAM\<close>

text \<open>
  The regions that the program uses, as start and length in bytes: a standard filter takes four bytes,
  a queue or buffer element eight and its data field.
\<close>

definition ram_regions :: "node_config \<Rightarrow> (nat \<times> nat) list" where
  "ram_regions c =
     [(standardFilterListStartAddress (messageRAM c), 4 * standardListSize c),
      (case rxMode c of
         RxMode_fifo0 \<Rightarrow> (rxFifo0StartAddress (messageRAM c), rxFifo0Size c * (8 + rxFifo0DataFieldSize c))
       | RxMode_sharedFifo0 \<Rightarrow> (rxFifo0StartAddress (messageRAM c), rxFifo0Size c * (8 + rxFifo0DataFieldSize c))
       | RxMode_dedicatedBuffers \<Rightarrow> (rxBuffersStartAddress (messageRAM c), 8 + rxBufferDataFieldSize c)),
      (txBuffersStartAddress (messageRAM c), dedicatedTxBuffersNumber c * (8 + txBufferDataFieldSize c))]"

definition separate :: "(nat \<times> nat) list \<Rightarrow> bool" where
  "separate = sorted_wrt (\<lambda>r q. fst r + snd r \<le> fst q)"

end
