(* ===== verification/Vehicle_Frames.thy ===== *)
theory Vehicle_Frames
  imports Vehicle_Props Can_Setup
begin

unbundle bit_operations_syntax

text \<open>
  The set-up of the CAN controllers against what the units send: both ends of each bus run at the same
  rates, the filters let through exactly the identifiers that the receiving software handles, and every
  frame fits into the elements of the message RAM at both ends.
\<close>

section \<open>One end to the other\<close>

definition rx_data_field :: "node_config \<Rightarrow> nat" where
  "rx_data_field c = (case rxMode c of RxMode_fifo0 \<Rightarrow> rxFifo0DataFieldSize c | RxMode_sharedFifo0 \<Rightarrow> rxFifo0DataFieldSize c
     | RxMode_dedicatedBuffers \<Rightarrow> rxBufferDataFieldSize c)"

text \<open>A frame with identifier \<open>i\<close> and \<open>n\<close> bytes gets from the node \<open>t\<close> into the message RAM of the node \<open>r\<close>.\<close>

definition link_carries ::
    "(can_filter \<Rightarrow> u32 \<Rightarrow> bool) \<Rightarrow> node_config \<Rightarrow> node_config \<Rightarrow> filter_list \<Rightarrow> u32 \<Rightarrow> nat \<Rightarrow> bool" where
  "link_carries acc t r fs i n \<longleftrightarrow> baudrate t = baudrate r \<and> fastBaudrate t = fastBaudrate r \<and>
     frameMode t \<noteq> FrameMode_standard \<and> frameMode r \<noteq> FrameMode_standard \<and>
     standardMessageId r \<and> node_receives acc r fs i \<and> n \<le> txBufferDataFieldSize t \<and> n \<le> rx_data_field r"

lemma gateway_link:
  "baudrate (nodeConfig0 (Can_Init ram d f s)) = 500000" "fastBaudrate (nodeConfig0 (Can_Init ram d f s)) = 2000000"
  "baudrate (nodeConfig2 (Can_Init ram d f s)) = 500000" "fastBaudrate (nodeConfig2 (Can_Init ram d f s)) = 2000000"
  "frameMode (nodeConfig0 (Can_Init ram d f s)) = FrameMode_fdLongAndFast"
  "frameMode (nodeConfig2 (Can_Init ram d f s)) = FrameMode_fdLongAndFast"
  "standardMessageId (nodeConfig0 (Can_Init ram d f s))" "standardMessageId (nodeConfig2 (Can_Init ram d f s))"
  "txBufferDataFieldSize (nodeConfig0 (Can_Init ram d f s)) = 64" "txBufferDataFieldSize (nodeConfig2 (Can_Init ram d f s)) = 64"
  "rx_data_field (nodeConfig0 (Can_Init ram d f s)) = 64" "rx_data_field (nodeConfig2 (Can_Init ram d f s)) = 64"
  by (simp_all add: Can_Init_def Can_ConfigFilter_def node0_config_def node2_config_def set_pin_def set_mode_def
      rx_data_field_def Let_def)

lemma unit_link:
  "baudrate (act_node_config d) = 500000" "fastBaudrate (act_node_config d) = 2000000"
  "baudrate (body_node_config d) = 500000" "fastBaudrate (body_node_config d) = 2000000"
  "frameMode (act_node_config d) = FrameMode_fdLongAndFast" "frameMode (body_node_config d) = FrameMode_fdLong"
  "standardMessageId (act_node_config d)" "standardMessageId (body_node_config d)"
  "txBufferDataFieldSize (act_node_config d) = 12" "txBufferDataFieldSize (body_node_config d) = 64"
  "rx_data_field (act_node_config d) = 8" "rx_data_field (body_node_config d) = 64"
  by (simp_all add: act_node_config_def body_node_config_def rx_data_field_def)

text \<open>The frames that a unit sends have an identifier of the other end and at most eight or twelve bytes.\<close>

lemma gateway_frame_size:
  assumes "event_ok (CanMessage node msg)"
  shows "unat (Can_GetLength (of_nat (cm_dlc msg))) \<le> 8"
    and "cm_id msg \<in> (if node = CanNode0 then {0x100, 0x700} else {0x110, 0x710})"
  using assms by (auto simp: Can_GetLength_def)

lemma act_frame_size: "act_frame_ok f \<Longrightarrow> af_dlc f \<le> 12 \<and> (af_id f = 0x200 \<or> af_id f = 0x708)"
  by (auto simp: act_frame_ok_def)

lemma body_frame_size: "body_frame_ok f \<Longrightarrow> cf_dlc f \<le> 8 \<and> (cf_id f = 0x210 \<or> cf_id f = 0x310 \<or> cf_id f = 0x718)"
  by (auto simp: body_frame_ok_def)

section \<open>Properties\<close>


text \<open>
  C8. Every frame that a unit of the vehicle hands to its controller gets into the message RAM of its
  receiver: both ends run at the same rates, the receiver's filters accept it, and it fits into the
  elements of both ends, of which those of ACT have room for twelve bytes to send and eight to receive.
\<close>

theorem vehicle_frames_pass:
  assumes "vehicle_reachable e ha adc hb ((pm, sm), (pa, sa), (pb, sb))" "hw_ok hb" "filter_laws acc"
  shows "let t = Can_Init ram d f s; ac = act_node_config da; af = act_filters g h fa;
      bc = body_node_config db; bf = body_filters j k fb in
    (\<forall>msg. CanMessage CanNode0 msg \<in> set (net_out sm) \<longrightarrow>
      link_carries acc (nodeConfig0 t) ac af (cm_id msg) (af_dlc (to_act msg))) \<and>
    (\<forall>msg. CanMessage CanNode2 msg \<in> set (net_out sm) \<longrightarrow>
      link_carries acc (nodeConfig2 t) bc bf (cm_id msg) (cf_dlc (to_body msg))) \<and>
    (\<forall>b m. (b, m) \<in> set (act_can.can_sent sa) \<longrightarrow>
      link_carries acc ac (nodeConfig0 t) (filters0 t) (af_id m) (af_dlc m)) \<and>
    (\<forall>b m. (b, m) \<in> set (body_can.can_sent sb) \<longrightarrow>
      link_carries acc bc (nodeConfig2 t) (filters2 t) (cf_id m) (cf_dlc m))"
proof -
  have "list_all event_ok (net_out sm)"
    using main_ok_reachable vehicle_parts [OF assms(1)] by (fastforce simp: main_ok_def)
  then have gw: "event_ok (CanMessage node msg)" if "CanMessage node msg \<in> set (net_out sm)" for node msg
    using that unfolding list_all_iff by blast
  have "list_all act_frame_ok (map snd (act_can.can_sent sa))" "list_all body_frame_ok (map snd (body_can.can_sent sb))"
    using vehicle_inv_reachable [OF assms(1,2)] by (simp_all add: vehicle_inv_def Let_def)
  then have all: "\<forall>x\<in>set (act_can.can_sent sa). act_frame_ok (snd x)" "\<forall>x\<in>set (body_can.can_sent sb). body_frame_ok (snd x)"
    by (simp_all add: list_all_iff)
  have sent: "act_frame_ok m" if "(b, m) \<in> set (act_can.can_sent sa)" for b m using bspec [OF all(1) that] by simp
  have sent': "body_frame_ok m" if "(b, m) \<in> set (body_can.can_sent sb)" for b m using bspec [OF all(2) that] by simp
  have std: "(0x200 :: u32) < 0x800" "(0x708 :: u32) < 0x800" "(0x210 :: u32) < 0x800" "(0x310 :: u32) < 0x800" "(0x718 :: u32) < 0x800"
    by simp_all
  have receives: "node_receives acc (nodeConfig0 (Can_Init ram d f s)) (filters0 (Can_Init ram d f s)) i"
    if "i = 0x200 \<or> i = 0x708" for i
    using that gateway_receives(1) [OF assms(3) std(1)] gateway_receives(1) [OF assms(3) std(2)] by blast
  have receives': "node_receives acc (nodeConfig2 (Can_Init ram d f s)) (filters2 (Can_Init ram d f s)) i"
    if "i = 0x210 \<or> i = 0x310 \<or> i = 0x718" for i
    using that gateway_receives(2) [OF assms(3) std(3)] gateway_receives(2) [OF assms(3) std(4)]
      gateway_receives(2) [OF assms(3) std(5)] by blast
  note link = link_carries_def gateway_link unit_link act_receives [OF assms(3)] body_receives [OF assms(3)]
  have "link_carries acc (nodeConfig0 (Can_Init ram d f s)) (act_node_config da) (act_filters g h fa) (cm_id msg) (af_dlc (to_act msg))"
    if "CanMessage CanNode0 msg \<in> set (net_out sm)" for msg
    using gateway_frame_size [OF gw [OF that]] by (simp add: link to_act_def)
  moreover have "link_carries acc (nodeConfig2 (Can_Init ram d f s)) (body_node_config db) (body_filters j k fb) (cm_id msg) (cf_dlc (to_body msg))"
    if "CanMessage CanNode2 msg \<in> set (net_out sm)" for msg
    using gateway_frame_size [OF gw [OF that]] by (simp add: link to_body_def)
  moreover have "link_carries acc (act_node_config da) (nodeConfig0 (Can_Init ram d f s)) (filters0 (Can_Init ram d f s)) (af_id m) (af_dlc m)"
    if "(b, m) \<in> set (act_can.can_sent sa)" for b m
    using act_frame_size [OF sent [OF that]] receives by (simp add: link)
  moreover have "link_carries acc (body_node_config db) (nodeConfig2 (Can_Init ram d f s)) (filters2 (Can_Init ram d f s)) (cf_id m) (cf_dlc m)"
    if "(b, m) \<in> set (body_can.can_sent sb)" for b m
    using body_frame_size [OF sent' [OF that]] receives' by (simp add: link)
  ultimately show ?thesis unfolding Let_def by blast
qed

text \<open>A controller that behaves as its manual says.\<close>

definition bench_filter :: "can_filter \<Rightarrow> u32 \<Rightarrow> bool" where
  "bench_filter f i \<longleftrightarrow> (if elementConfiguration f = StoreInRxBuffer then i = id1 f
     else if filterType f = FilterType_range then id1 f \<le> i \<and> i \<le> id2 f else i AND id2 f = id1 f AND id2 f)"

definition bench_element :: can_filter where
  "bench_element = \<lparr>number = 2, elementConfiguration = StoreInRxBuffer, filterType = FilterType_none,
     id1 = 0, id2 = 0, rxBufferOffset = 0\<rparr>"

definition bench_node :: node_config where
  "bench_node = \<lparr>nodeId = NodeId_0, busLoopbackEnabled = False, baudrate = 0, fastBaudrate = 0,
     pins = \<lparr>txPin = (0, 0), rxPin = (0, 0)\<rparr>, transmitAndReceive = False, frameMode = FrameMode_standard,
     txMode = TxMode_dedicatedBuffers, dedicatedTxBuffersNumber = 1, txBufferDataFieldSize = 8,
     rxMode = RxMode_dedicatedBuffers, rxFifo0Size = 0, rxFifo0DataFieldSize = 8, rxBufferDataFieldSize = 8,
     standardMessageId = False, standardListSize = 0, rejectNonMatching = False, rejectRemoteStandard = False,
     rejectRemoteExtended = False, rxBufferInterrupt = False, rxInterruptPriority = 0,
     messageRAM = \<lparr>baseAddress = 0, standardFilterListStartAddress = 0, extendedFilterListStartAddress = 0,
       rxFifo0StartAddress = 0, rxFifo1StartAddress = 0, rxBuffersStartAddress = 0, txEventFifoStartAddress = 0,
       txBuffersStartAddress = 0\<rparr>\<rparr>"

definition bench_setup :: can_setup where
  "bench_setup = \<lparr>io_reads = 0, pin_cmd = \<lambda>p. True, pin_cfg = \<lambda>p. None, io_log = [],
     nodeConfig0 = bench_node, nodeConfig2 = bench_node, filters0 = \<lambda>k. bench_element, filters2 = \<lambda>k. bench_element\<rparr>"

lemma bench_filter_laws: "filter_laws bench_filter"
  by (simp add: filter_laws_def bench_filter_def)


theorem vehicle_frames_pass_witness:
  "link_carries bench_filter (nodeConfig0 (Can_Init 0xF0200000 bench_node bench_element bench_setup)) (act_node_config bench_node)
     (act_filters bench_element bench_element (\<lambda>k. bench_element)) (cm_id bench_command) (af_dlc (to_act bench_command))"
  using vehicle_frames_pass [OF bench_gateway bench_hw_ok bench_filter_laws] bench_command_sent
  unfolding Let_def by blast

end
