(* ===== verification/Periodic_Flag.thy ===== *)
theory Periodic_Flag
  imports Fw_Prelude
begin

text \<open>
  The contract of a periodic job that an interrupt announces and a loop carries out, as the timers of
  the TCP/IP stack are: a tick counts and, once per period, clears the counter and sets a flag; a poll
  takes the flag and does the job if it was set. Then, when the loop comes round at least once per
  period, the job is done exactly once for every period that has passed; without that condition, never
  more often.
\<close>

text \<open>
  \<open>polled tick poll limit n g s t\<close>: from \<open>s\<close> to \<open>t\<close> there were \<open>n\<close> ticks, \<open>g\<close> of them since the last
  poll, and never more than \<open>limit\<close> without one.
\<close>

inductive polled :: "('s \<Rightarrow> 's \<Rightarrow> bool) \<Rightarrow> ('s \<Rightarrow> 's \<Rightarrow> bool) \<Rightarrow> nat \<Rightarrow> nat \<Rightarrow> nat \<Rightarrow> 's \<Rightarrow> 's \<Rightarrow> bool"
  for tick poll limit where
  start: "polled tick poll limit 0 0 s s"
| tick: "polled tick poll limit n g s t \<Longrightarrow> g < limit \<Longrightarrow> tick t u \<Longrightarrow> polled tick poll limit (Suc n) (Suc g) s u"
| poll: "polled tick poll limit n g s t \<Longrightarrow> poll t u \<Longrightarrow> polled tick poll limit n 0 s u"

lemma polled_limit: "polled tick poll limit n g s t \<Longrightarrow> limit \<le> limit' \<Longrightarrow> polled tick poll limit' n g s t"
  by (induction rule: polled.induct) (auto intro: polled.intros)

locale periodic_flag =
  fixes tick :: "'s \<Rightarrow> 's \<Rightarrow> bool"
    and poll :: "'s \<Rightarrow> 's \<Rightarrow> bool"
    and count :: "'s \<Rightarrow> nat"
    and flag :: "'s \<Rightarrow> bool"
    and served :: "'s \<Rightarrow> nat"
    and period :: nat
    and ok :: "'s \<Rightarrow> bool"
  assumes ok_tick: "ok s \<Longrightarrow> tick s t \<Longrightarrow> ok t"
    and ok_poll: "ok s \<Longrightarrow> poll s t \<Longrightarrow> ok t"
    and count_below: "ok s \<Longrightarrow> count s < period"
    and count_tick: "ok s \<Longrightarrow> tick s t \<Longrightarrow> count t = (if Suc (count s) = period then 0 else Suc (count s))"
    and flag_tick: "ok s \<Longrightarrow> tick s t \<Longrightarrow> flag t \<longleftrightarrow> flag s \<or> Suc (count s) = period"
    and served_tick: "ok s \<Longrightarrow> tick s t \<Longrightarrow> served t = served s"
    and count_poll: "ok s \<Longrightarrow> poll s t \<Longrightarrow> count t = count s"
    and flag_poll: "ok s \<Longrightarrow> poll s t \<Longrightarrow> \<not> flag t"
    and served_poll: "ok s \<Longrightarrow> poll s t \<Longrightarrow> served t = served s + of_bool (flag s)"
begin

lemma polled_ok: "polled tick poll limit n g s t \<Longrightarrow> ok s \<Longrightarrow> ok t"
  by (induction rule: polled.induct) (auto intro: ok_tick ok_poll)

lemma div_next:
  assumes "m mod period = c" "c < period"
  shows "Suc m div period = (if Suc c = period then Suc (m div period) else m div period)"
    and "Suc m mod period = (if Suc c = period then 0 else Suc c)"
  using assms by (auto simp: div_Suc mod_Suc)

lemma polled_count: "polled tick poll limit n g s t \<Longrightarrow> ok s \<Longrightarrow> count t = (count s + n) mod period"
proof (induction rule: polled.induct)
  case (start s)
  then show ?case using count_below by simp
next
  case (tick n g s t u)
  have "ok t" by (rule polled_ok [OF tick.hyps(1) tick.prems])
  have c: "(count s + n) mod period = count t" "count t < period"
    using tick.IH [OF tick.prems] count_below [OF \<open>ok t\<close>] by simp_all
  show ?case using count_tick [OF \<open>ok t\<close> tick.hyps(3)] div_next(2) [OF c] by simp
next
  case (poll n g s t u)
  then show ?case using count_poll [OF polled_ok [OF poll.hyps(1)]] by simp
qed

lemma served_at_most:
  assumes "polled tick poll limit n g s t" "ok s" "\<not> flag s"
  shows "served t + of_bool (flag t) \<le> served s + (count s + n) div period"
  using assms
proof (induction rule: polled.induct)
  case (start s)
  then show ?case by simp
next
  case (tick n g s t u)
  have "ok t" by (rule polled_ok [OF tick.hyps(1) tick.prems(1)])
  have c: "(count s + n) mod period = count t" "count t < period"
    using polled_count [OF tick.hyps(1) tick.prems(1)] count_below [OF \<open>ok t\<close>] by simp_all
  show ?case
    using tick.IH [OF tick.prems] flag_tick [OF \<open>ok t\<close> tick.hyps(3)] served_tick [OF \<open>ok t\<close> tick.hyps(3)]
    by (auto simp: div_next(1) [OF c])
next
  case (poll n g s t u)
  have "ok t" by (rule polled_ok [OF poll.hyps(1) poll.prems(1)])
  then show ?case
    using poll.IH [OF poll.prems] flag_poll [OF \<open>ok t\<close> poll.hyps(2)] served_poll [OF \<open>ok t\<close> poll.hyps(2)] by simp
qed

theorem served_exactly:
  assumes "polled tick poll limit n g s t" "ok s" "\<not> flag s" "limit \<le> period"
  shows "served t + of_bool (flag t) = served s + (count s + n) div period \<and> (flag t \<longrightarrow> count t < g)"
  using assms
proof (induction rule: polled.induct)
  case (start s)
  then show ?case using count_below by simp
next
  case (tick n g s t u)
  have "ok t" by (rule polled_ok [OF tick.hyps(1) tick.prems(1)])
  have c: "(count s + n) mod period = count t" "count t < period"
    using polled_count [OF tick.hyps(1) tick.prems(1)] count_below [OF \<open>ok t\<close>] by simp_all
  have ih: "served t + of_bool (flag t) = served s + (count s + n) div period" "flag t \<longrightarrow> count t < g"
    using tick.IH [OF tick.prems] by simp_all
  have "\<not> (flag t \<and> Suc (count t) = period)" using ih(2) tick.hyps(2) tick.prems(3) by linarith
  then show ?case
    using ih flag_tick [OF \<open>ok t\<close> tick.hyps(3)] served_tick [OF \<open>ok t\<close> tick.hyps(3)] count_tick [OF \<open>ok t\<close> tick.hyps(3)]
    by (auto simp: div_next(1) [OF c])
next
  case (poll n g s t u)
  have "ok t" by (rule polled_ok [OF poll.hyps(1) poll.prems(1)])
  then show ?case
    using poll.IH [OF poll.prems] flag_poll [OF \<open>ok t\<close> poll.hyps(2)] served_poll [OF \<open>ok t\<close> poll.hyps(2)] by simp
qed

end

end
