(* ===== verification/Eth_Phy.thy ===== *)
theory Eth_Phy
  imports Fw_Prelude
begin

unbundle bit_operations_syntax

text \<open>
  The driver of the Ethernet transceiver of the gateway,
  \<open>src/MAIN/Libraries/Ethernet/Phy_Dp83825i/IfxGeth_Phy_Dp83825i.c\<close>. It reads and writes the registers of
  the transceiver through the management interface of the controller: it writes an address word, which
  starts a transfer, and waits until the busy bit is clear. The busy bit and the data register are
  inputs, indexed by the number of reads so far; what the program writes is a log, oldest first.
\<close>

section \<open>The management interface\<close>

record mdio_env =
  mdio_busy :: "nat \<Rightarrow> bool"   \<comment> \<open>\<open>GETH_MAC_MDIO_ADDRESS.B.GB\<close> at the n-th read\<close>
  mdio_data :: "nat \<Rightarrow> u32"    \<comment> \<open>\<open>GETH_MAC_MDIO_DATA.U\<close> at the n-th read\<close>

datatype mdio_event = MdioAddress u32 | MdioData u32

record eth_phy =
  mdio_polls :: nat
  mdio_reads :: nat
  mdio_log :: "mdio_event list"
  Ethernet_Phy_Id1 :: u32
  Ethernet_Phy_Id2 :: u32
  Phy_IdRed :: bool
  iPhyInitDone :: u32

definition mdio_write :: "mdio_event \<Rightarrow> 'a eth_phy_scheme \<Rightarrow> 'a eth_phy_scheme" where
  "mdio_write v s = s\<lparr>mdio_log := mdio_log s @ [v]\<rparr>"

definition mdio_read :: "mdio_env \<Rightarrow> 'a eth_phy_scheme \<Rightarrow> u32 \<times> 'a eth_phy_scheme" where
  "mdio_read e s = (mdio_data e (mdio_reads s), s\<lparr>mdio_reads := Suc (mdio_reads s)\<rparr>)"

partial_function (option) WAIT_MDIO_READY :: "mdio_env \<Rightarrow> 'a eth_phy_scheme \<Rightarrow> 'a eth_phy_scheme option" where
  "WAIT_MDIO_READY e s =
     (let s' = s\<lparr>mdio_polls := Suc (mdio_polls s)\<rparr>
      in if mdio_busy e (mdio_polls s) then WAIT_MDIO_READY e s' else Some s')"

text \<open>The two address words: read and write of register \<open>r\<close> of the transceiver at address \<open>l\<close>.\<close>

definition mdio_read_word :: "u32 \<Rightarrow> u32 \<Rightarrow> u32" where
  "mdio_read_word l r = push_bit 21 l OR push_bit 16 r OR push_bit 8 0 OR push_bit 2 3 OR push_bit 0 1"

definition mdio_write_word :: "u32 \<Rightarrow> u32 \<Rightarrow> u32" where
  "mdio_write_word l r = push_bit 21 l OR push_bit 16 r OR push_bit 8 0 OR push_bit 2 1 OR push_bit 0 1"

definition Phy_read_mdio_reg :: "mdio_env \<Rightarrow> u32 \<Rightarrow> u32 \<Rightarrow> 'a eth_phy_scheme \<Rightarrow> (u32 \<times> 'a eth_phy_scheme) option" where
  "Phy_read_mdio_reg e layeraddr regaddr s = do {
     s \<leftarrow> WAIT_MDIO_READY e (mdio_write (MdioAddress (mdio_read_word layeraddr regaddr)) s);
     Some (mdio_read e s) }"

definition Phy_write_mdio_reg :: "mdio_env \<Rightarrow> u32 \<Rightarrow> u32 \<Rightarrow> u32 \<Rightarrow> 'a eth_phy_scheme \<Rightarrow> 'a eth_phy_scheme option" where
  "Phy_write_mdio_reg e layeraddr regaddr data s =
     WAIT_MDIO_READY e (mdio_write (MdioAddress (mdio_write_word layeraddr regaddr)) (mdio_write (MdioData data) s))"

abbreviation (input) MDIO_BMCR :: u32 where "MDIO_BMCR \<equiv> 0x00"
abbreviation (input) MDIO_BMSR :: u32 where "MDIO_BMSR \<equiv> 0x01"
abbreviation (input) MDIO_PHYIDR1 :: u32 where "MDIO_PHYIDR1 \<equiv> 0x02"
abbreviation (input) MDIO_PHYIDR2 :: u32 where "MDIO_PHYIDR2 \<equiv> 0x03"
abbreviation (input) MDIO_PHYSTS :: u32 where "MDIO_PHYSTS \<equiv> 0x10"

section \<open>Reset and initialisation\<close>

text \<open>The first wait of \<open>IfxGet_Eth_Phy_Dp83825i_reset\<close> counts down, the second does not end by itself.\<close>

partial_function (option) reset_wait_limited ::
    "mdio_env \<Rightarrow> u32 \<Rightarrow> 'a eth_phy_scheme \<Rightarrow> (u32 \<times> 'a eth_phy_scheme) option" where
  "reset_wait_limited e uiTimeout s =
     Option.bind (Phy_read_mdio_reg e 0 MDIO_BMCR s) (\<lambda>(value, s).
       if value AND 0x8000 = 0 then Some (uiTimeout, s)
       else if uiTimeout = 0 then Some (uiTimeout - 1, s)
       else reset_wait_limited e (uiTimeout - 1) s)"

partial_function (option) reset_wait :: "mdio_env \<Rightarrow> 'a eth_phy_scheme \<Rightarrow> 'a eth_phy_scheme option" where
  "reset_wait e s =
     Option.bind (Phy_read_mdio_reg e 0 MDIO_BMCR s) (\<lambda>(value, s).
       if value AND 0x8000 = 0 then Some s else reset_wait e s)"

definition Phy_reset :: "mdio_env \<Rightarrow> 'a eth_phy_scheme \<Rightarrow> 'a eth_phy_scheme option" where
  "Phy_reset e s = do {
     s \<leftarrow> WAIT_MDIO_READY e s;
     (uiTimeout, s) \<leftarrow> reset_wait_limited e 2000 s;
     if uiTimeout \<noteq> 0xFFFFFFFF then do {
       s \<leftarrow> Phy_write_mdio_reg e 0 MDIO_BMCR 0x8000 s;
       s \<leftarrow> reset_wait e s;
       (v1, s) \<leftarrow> Phy_read_mdio_reg e 0 MDIO_PHYIDR1 s;
       let s = s\<lparr>Ethernet_Phy_Id1 := v1\<rparr> in do {
       (v2, s) \<leftarrow> Phy_read_mdio_reg e 0 MDIO_PHYIDR2 s;
       Some (s\<lparr>Ethernet_Phy_Id2 := v2, Phy_IdRed := True\<rparr>) } }
     else Some (s\<lparr>Ethernet_Phy_Id1 := 0, Phy_IdRed := True\<rparr>) }"

definition Phy_init :: "mdio_env \<Rightarrow> 'a eth_phy_scheme \<Rightarrow> 'a eth_phy_scheme option" where
  "Phy_init e s = do {
     s \<leftarrow> WAIT_MDIO_READY e s;
     s \<leftarrow> Phy_write_mdio_reg e 0 MDIO_BMCR 0x8000 s;
     s \<leftarrow> reset_wait e s;
     s \<leftarrow> Phy_write_mdio_reg e 0 MDIO_BMCR 0x1200 s;
     Some (s\<lparr>iPhyInitDone := 1\<rparr>) }"

section \<open>The state of the link\<close>

text \<open>The three fields of the controller's status word that the driver fills.\<close>

record phy_link =
  LNKSPEED :: nat
  LNKMOD :: nat
  LNKSTS :: nat

definition Phy_link_status :: "mdio_env \<Rightarrow> 'a eth_phy_scheme \<Rightarrow> (phy_link \<times> 'a eth_phy_scheme) option" where
  "Phy_link_status e s =
     (let link_status = \<lparr>LNKSPEED = 0, LNKMOD = 0, LNKSTS = 0\<rparr>
      in if iPhyInitDone s \<noteq> 0 then do {
           (value, s) \<leftarrow> Phy_read_mdio_reg e 0 MDIO_PHYSTS s;
           let link_status = (if value AND 0x2 = 0 then link_status\<lparr>LNKSPEED := 1\<rparr> else link_status);
               link_status = (if value AND 0x4 \<noteq> 0 then link_status\<lparr>LNKMOD := 1\<rparr> else link_status)
           in do {
           (value, s) \<leftarrow> Phy_read_mdio_reg e 0 MDIO_BMSR s;
           Some (if value AND 0x4 \<noteq> 0 then link_status\<lparr>LNKSTS := 1\<rparr> else link_status, s) } }
         else Some (link_status, s))"

section \<open>It returns\<close>

text \<open>
  The controller ends every transfer, and the transceiver every reset: after any point there is a read
  at which the busy bit is clear, and one at which the reset bit is.
\<close>

definition mdio_ok :: "mdio_env \<Rightarrow> bool" where
  "mdio_ok e \<longleftrightarrow> (\<forall>n. \<exists>m\<ge>n. \<not> mdio_busy e m)"

definition phy_wakes :: "mdio_env \<Rightarrow> bool" where
  "phy_wakes e \<longleftrightarrow> (\<forall>n. \<exists>m\<ge>n. mdio_data e m AND 0x8000 = 0)"

text \<open>What the management interface leaves alone.\<close>

definition mdio_only :: "'a eth_phy_scheme \<Rightarrow> 'a eth_phy_scheme \<Rightarrow> bool" where
  "mdio_only s t \<longleftrightarrow> (\<exists>p r l. t = s\<lparr>mdio_polls := p, mdio_reads := r, mdio_log := l\<rparr>)"

lemma mdio_only_refl [simp]: "mdio_only s s"
  unfolding mdio_only_def by (rule exI [of _ "mdio_polls s"], rule exI [of _ "mdio_reads s"], rule exI [of _ "mdio_log s"]) simp

lemma mdio_only_polls [simp]: "mdio_only s (s\<lparr>mdio_polls := p\<rparr>)"
  unfolding mdio_only_def by (rule exI [of _ p], rule exI [of _ "mdio_reads s"], rule exI [of _ "mdio_log s"]) simp

lemma mdio_only_trans [trans]: "mdio_only s t \<Longrightarrow> mdio_only t u \<Longrightarrow> mdio_only s u"
  unfolding mdio_only_def by (elim exE) (simp, blast)

lemma mdio_only_fields:
  assumes "mdio_only s t"
  shows "iPhyInitDone t = iPhyInitDone s" "Ethernet_Phy_Id1 t = Ethernet_Phy_Id1 s" "Phy_IdRed t = Phy_IdRed s"
    "eth_phy.more t = eth_phy.more s"
  using assms by (auto simp: mdio_only_def)

lemma WAIT_returns:
  assumes "mdio_ok e" shows "\<exists>n. WAIT_MDIO_READY e s = Some (s\<lparr>mdio_polls := n\<rparr>)"
proof -
  obtain m where "mdio_polls s \<le> m" "\<not> mdio_busy e m" using assms unfolding mdio_ok_def by blast
  then show ?thesis
  proof (induction "m - mdio_polls s" arbitrary: s rule: less_induct)
    case less
    show ?case
    proof (cases "mdio_busy e (mdio_polls s)")
      case True
      let ?t = "s\<lparr>mdio_polls := Suc (mdio_polls s)\<rparr>"
      have "mdio_polls s < m" using True less.prems by (cases "mdio_polls s = m") auto
      then have "\<exists>n. WAIT_MDIO_READY e ?t = Some (?t\<lparr>mdio_polls := n\<rparr>)" using less.prems by (intro less.hyps) auto
      with True show ?thesis by (subst WAIT_MDIO_READY.simps) (simp add: Let_def)
    qed (subst WAIT_MDIO_READY.simps, auto)
  qed
qed

lemma read_returns:
  assumes "mdio_ok e"
  shows "\<exists>n. Phy_read_mdio_reg e l r s = Some (mdio_data e (mdio_reads s),
    s\<lparr>mdio_polls := n, mdio_reads := Suc (mdio_reads s), mdio_log := mdio_log s @ [MdioAddress (mdio_read_word l r)]\<rparr>)"
proof -
  let ?t = "mdio_write (MdioAddress (mdio_read_word l r)) s"
  obtain n where "WAIT_MDIO_READY e ?t = Some (?t\<lparr>mdio_polls := n\<rparr>)" using WAIT_returns [OF assms] by blast
  then show ?thesis
    by (intro exI [of _ n]) (simp add: Phy_read_mdio_reg_def mdio_write_def mdio_read_def)
qed

lemma read_only:
  assumes "mdio_ok e"
  obtains t where "Phy_read_mdio_reg e l r s = Some (mdio_data e (mdio_reads s), t)" "mdio_only s t"
    "mdio_reads t = Suc (mdio_reads s)"
  using read_returns [OF assms, of l r s] that unfolding mdio_only_def by fastforce

lemma write_returns:
  assumes "mdio_ok e"
  shows "\<exists>n. Phy_write_mdio_reg e l r d s =
    Some (s\<lparr>mdio_polls := n, mdio_log := mdio_log s @ [MdioData d, MdioAddress (mdio_write_word l r)]\<rparr>)"
proof -
  let ?t = "mdio_write (MdioAddress (mdio_write_word l r)) (mdio_write (MdioData d) s)"
  obtain n where "WAIT_MDIO_READY e ?t = Some (?t\<lparr>mdio_polls := n\<rparr>)" using WAIT_returns [OF assms] by blast
  then show ?thesis by (intro exI [of _ n]) (simp add: Phy_write_mdio_reg_def mdio_write_def)
qed

lemma write_only:
  assumes "mdio_ok e"
  obtains t where "Phy_write_mdio_reg e l r d s = Some t" "mdio_only s t" "mdio_reads t = mdio_reads s"
proof -
  obtain n where n: "Phy_write_mdio_reg e l r d s =
      Some (s\<lparr>mdio_polls := n, mdio_log := mdio_log s @ [MdioData d, MdioAddress (mdio_write_word l r)]\<rparr>)"
    using write_returns [OF assms] by blast
  show thesis
  proof (rule that [OF n])
    show "mdio_only s (s\<lparr>mdio_polls := n, mdio_log := mdio_log s @ [MdioData d, MdioAddress (mdio_write_word l r)]\<rparr>)"
      unfolding mdio_only_def by (intro exI [of _ n] exI [of _ "mdio_reads s"] exI) simp
  qed simp
qed

lemma reset_wait_returns:
  assumes "mdio_ok e" "phy_wakes e"
  shows "\<exists>t. reset_wait e s = Some t \<and> mdio_only s t"
proof -
  obtain m where "mdio_reads s \<le> m" "mdio_data e m AND 0x8000 = 0" using assms(2) unfolding phy_wakes_def by blast
  then show ?thesis
  proof (induction "m - mdio_reads s" arbitrary: s rule: less_induct)
    case less
    obtain t where t: "Phy_read_mdio_reg e 0 0 s = Some (mdio_data e (mdio_reads s), t)" "mdio_only s t"
      "mdio_reads t = Suc (mdio_reads s)" by (rule read_only [OF assms(1)])
    show ?case
    proof (cases "mdio_data e (mdio_reads s) AND 0x8000 = 0")
      case True
      with t show ?thesis by (subst reset_wait.simps) simp
    next
      case False
      then have "mdio_reads s < m" using less.prems by (cases "mdio_reads s = m") auto
      then have "\<exists>u. reset_wait e t = Some u \<and> mdio_only t u"
        using less.prems t(3) by (intro less.hyps) auto
      then obtain u where "reset_wait e t = Some u" "mdio_only t u" by blast
      with False t show ?thesis using mdio_only_trans [OF t(2)] by (subst reset_wait.simps) simp
    qed
  qed
qed

text \<open>The limited wait reads at most one time more than its limit says.\<close>

lemma reset_wait_limited_returns:
  assumes "mdio_ok e"
  shows "\<exists>k t. reset_wait_limited e n s = Some (n - of_nat k, t) \<and> mdio_only s t \<and> k \<le> Suc (unat n) \<and>
    (\<forall>i<k. mdio_data e (mdio_reads s + i) AND 0x8000 \<noteq> 0) \<and>
    (k \<le> unat n \<longrightarrow> mdio_data e (mdio_reads s + k) AND 0x8000 = 0)"
proof (induction "unat n" arbitrary: n s)
  case 0
  then have "n = 0" by (simp add: unat_eq_zero)
  obtain t where t: "Phy_read_mdio_reg e 0 0 s = Some (mdio_data e (mdio_reads s), t)" "mdio_only s t"
    by (rule read_only [OF assms])
  show ?case
  proof (cases "mdio_data e (mdio_reads s) AND 0x8000 = 0")
    case True
    with t \<open>n = 0\<close> show ?thesis by (subst reset_wait_limited.simps, intro exI [of _ 0]) simp
  next
    case False
    with t \<open>n = 0\<close> show ?thesis by (subst reset_wait_limited.simps, intro exI [of _ 1]) simp
  qed
next
  case (Suc m)
  obtain t where t: "Phy_read_mdio_reg e 0 0 s = Some (mdio_data e (mdio_reads s), t)" "mdio_only s t"
    "mdio_reads t = Suc (mdio_reads s)" by (rule read_only [OF assms])
  have nz: "n \<noteq> 0" using Suc.hyps(2) by auto
  with Suc.hyps(2) have n: "n \<noteq> 0" "unat (n - 1) = m" by (simp_all add: unat_minus_one)
  show ?case
  proof (cases "mdio_data e (mdio_reads s) AND 0x8000 = 0")
    case True
    with t show ?thesis by (subst reset_wait_limited.simps, intro exI [of _ 0]) simp
  next
    case False
    obtain k u where k: "reset_wait_limited e (n - 1) t = Some (n - 1 - of_nat k, u)" "mdio_only t u" "k \<le> Suc (unat (n - 1))"
      "\<forall>i<k. mdio_data e (mdio_reads t + i) AND 0x8000 \<noteq> 0"
      "k \<le> unat (n - 1) \<longrightarrow> mdio_data e (mdio_reads t + k) AND 0x8000 = 0"
      using Suc.hyps(1) [of "n - 1" t] n(2) by blast
    have "reset_wait_limited e n s = Some (n - of_nat (Suc k), u)"
      using False t k(1) n(1) by (subst reset_wait_limited.simps) (simp add: algebra_simps)
    moreover have "mdio_data e (mdio_reads s + i) AND 0x8000 \<noteq> 0" if "i < Suc k" for i
      using that False k(4) t(3) by (cases i) auto
    ultimately show ?thesis
      using k(3,5) mdio_only_trans [OF t(2) k(2)] t(3) n(2) Suc.hyps(2) by (intro exI [of _ "Suc k"] exI [of _ u]) auto
  qed
qed

section \<open>Outcomes\<close>

lemma Phy_reset_returns:
  assumes "mdio_ok e" "phy_wakes e"
  shows "\<exists>t. Phy_reset e s = Some t \<and> Phy_IdRed t \<and> iPhyInitDone t = iPhyInitDone s \<and>
    ((\<forall>i\<le>2000. mdio_data e (mdio_reads s + i) AND 0x8000 \<noteq> 0) \<longrightarrow> Ethernet_Phy_Id1 t = 0)"
proof -
  obtain p where p: "WAIT_MDIO_READY e s = Some (s\<lparr>mdio_polls := p\<rparr>)" using WAIT_returns [OF assms(1)] by blast
  define a where "a = s\<lparr>mdio_polls := p\<rparr>"
  obtain k b where k: "reset_wait_limited e 2000 a = Some (2000 - of_nat k, b)" "mdio_only a b" "k \<le> Suc (unat (2000 :: u32))"
    "\<forall>i<k. mdio_data e (mdio_reads a + i) AND 0x8000 \<noteq> 0"
    "k \<le> unat (2000 :: u32) \<longrightarrow> mdio_data e (mdio_reads a + k) AND 0x8000 = 0"
    using reset_wait_limited_returns [OF assms(1), of 2000 a] by blast
  have a: "mdio_only s a" "mdio_reads a = mdio_reads s"
    by (simp_all add: a_def)
  show ?thesis
  proof (cases "k \<le> 2000")
    case True
    then have "of_nat k \<le> (2000 :: u32)" "unat (of_nat k :: u32) = k" by (simp_all add: word_le_nat_alt unat_of_nat)
    then have le: "unat (2000 - of_nat k :: u32) \<le> 2000" by (simp add: unat_sub)
    have limit: "2000 - of_nat k \<noteq> (0xFFFFFFFF :: u32)"
    proof
      assume "2000 - of_nat k = (0xFFFFFFFF :: u32)"
      with le show False by simp
    qed
    obtain c where c: "Phy_write_mdio_reg e 0 0 0x8000 b = Some c" "mdio_only b c" by (rule write_only [OF assms(1)])
    obtain d where d: "reset_wait e c = Some d" "mdio_only c d" using reset_wait_returns [OF assms] by blast
    obtain f where f: "Phy_read_mdio_reg e 0 2 d = Some (mdio_data e (mdio_reads d), f)" "mdio_only d f"
      by (rule read_only [OF assms(1)])
    define f' where "f' = f\<lparr>Ethernet_Phy_Id1 := mdio_data e (mdio_reads d)\<rparr>"
    obtain g where g: "Phy_read_mdio_reg e 0 3 f' = Some (mdio_data e (mdio_reads f'), g)" "mdio_only f' g"
      by (rule read_only [OF assms(1)])
    have run: "Phy_reset e s = Some (g\<lparr>Ethernet_Phy_Id2 := mdio_data e (mdio_reads f'), Phy_IdRed := True\<rparr>)"
      using p k(1) limit c d f g by (simp add: Phy_reset_def Let_def flip: a_def f'_def)
    have "mdio_only s f" using a(1) k(2) c(2) d(2) f(2) by (blast intro: mdio_only_trans)
    then have "iPhyInitDone g = iPhyInitDone s" using mdio_only_fields(1) [OF g(2)] by (simp add: f'_def mdio_only_fields)
    moreover have "mdio_data e (mdio_reads s + k) AND 0x8000 = 0" using k(5) True a(2) by simp
    ultimately show ?thesis using True run by auto
  next
    case False
    with k(3) have "k = 2001" by simp
    then have "Phy_reset e s = Some (b\<lparr>Ethernet_Phy_Id1 := 0, Phy_IdRed := True\<rparr>)"
      using p k(1) by (simp add: Phy_reset_def flip: a_def)
    then show ?thesis using mdio_only_fields(1) [OF k(2)] mdio_only_fields(1) [OF a(1)] by simp
  qed
qed

lemma Phy_init_returns:
  assumes "mdio_ok e" "phy_wakes e"
  shows "\<exists>t. Phy_init e s = Some t \<and> iPhyInitDone t = 1 \<and> eth_phy.more t = eth_phy.more s"
proof -
  obtain p where p: "WAIT_MDIO_READY e s = Some (s\<lparr>mdio_polls := p\<rparr>)" using WAIT_returns [OF assms(1)] by blast
  obtain c where c: "Phy_write_mdio_reg e 0 0 0x8000 (s\<lparr>mdio_polls := p\<rparr>) = Some c" "mdio_only (s\<lparr>mdio_polls := p\<rparr>) c"
    by (rule write_only [OF assms(1)])
  obtain d where d: "reset_wait e c = Some d" "mdio_only c d" using reset_wait_returns [OF assms] by blast
  obtain f where f: "Phy_write_mdio_reg e 0 0 0x1200 d = Some f" "mdio_only d f" by (rule write_only [OF assms(1)])
  have "Phy_init e s = Some (f\<lparr>iPhyInitDone := 1\<rparr>)" using p c(1) d(1) f(1) by (simp add: Phy_init_def)
  moreover have "eth_phy.more f = eth_phy.more s"
    using mdio_only_fields(4) [OF c(2)] mdio_only_fields(4) [OF d(2)] mdio_only_fields(4) [OF f(2)] by simp
  ultimately show ?thesis by simp
qed

lemma link_status_returns:
  assumes "mdio_ok e"
  shows "\<exists>t. mdio_only s t \<and> Phy_link_status e s = Some
    (if iPhyInitDone s = 0 then \<lparr>LNKSPEED = 0, LNKMOD = 0, LNKSTS = 0\<rparr>
     else \<lparr>LNKSPEED = of_bool (mdio_data e (mdio_reads s) AND 2 = 0), LNKMOD = of_bool (mdio_data e (mdio_reads s) AND 4 \<noteq> 0),
       LNKSTS = of_bool (mdio_data e (Suc (mdio_reads s)) AND 4 \<noteq> 0)\<rparr>, t)"
proof (cases "iPhyInitDone s = 0")
  case True
  then show ?thesis by (intro exI [of _ s]) (simp add: Phy_link_status_def Let_def)
next
  case False
  obtain a where a: "Phy_read_mdio_reg e 0 0x10 s = Some (mdio_data e (mdio_reads s), a)" "mdio_only s a"
    "mdio_reads a = Suc (mdio_reads s)" by (rule read_only [OF assms])
  obtain b where b: "Phy_read_mdio_reg e 0 1 a = Some (mdio_data e (mdio_reads a), b)" "mdio_only a b"
    by (rule read_only [OF assms])
  show ?thesis
    using False a b mdio_only_trans [OF a(2) b(2)] by (intro exI [of _ b]) (simp add: Phy_link_status_def Let_def)
qed

end
