(* ===== verification/Eth_Timers.thy ===== *)
theory Eth_Timers
  imports Periodic_Flag Eth_Phy Main_Timing
begin

unbundle bit_operations_syntax

text \<open>
  How the gateway drives its TCP/IP stack, \<open>src/MAIN/Libraries/Ethernet/lwip/port/src/Ifx_Lwip.c\<close> with
  the millisecond interrupt of \<open>src/MAIN/BSW/Driver/geth_lwip.c\<close>: the interrupt counts four timers and sets
  a flag when one has run out, the main loop takes the flags and calls the timer functions of the stack
  or looks at the link. The stack's functions are library calls; the model keeps the list of them,
  oldest first. \<open>netif_set_link_up\<close> and \<open>netif_set_link_down\<close> set and clear the link flag of the interface.
\<close>

section \<open>State\<close>

datatype stack_call =
    Tcp_fasttmr
  | Tcp_slowtmr
  | Etharp_tmr
  | Set_link_up
  | Set_link_down
  | SetDuplexMode bool    \<comment> \<open>full duplex\<close>
  | SetLineSpeed nat      \<comment> \<open>megabits per second\<close>

record lwip_port = eth_phy +
  timer_arp :: u16
  timer_tcp_fast :: u16
  timer_tcp_slow :: u16
  timer_link :: u16
  timerFlags :: u16
  netif_flags :: u8
  stack_calls :: "stack_call list"

abbreviation (input) IFX_LWIP_ARP_PERIOD :: u16 where "IFX_LWIP_ARP_PERIOD \<equiv> 1000"
abbreviation (input) IFX_LWIP_TCP_FAST_PERIOD :: u16 where "IFX_LWIP_TCP_FAST_PERIOD \<equiv> 250"
abbreviation (input) IFX_LWIP_TCP_SLOW_PERIOD :: u16 where "IFX_LWIP_TCP_SLOW_PERIOD \<equiv> 500"
abbreviation (input) IFX_LWIP_LINK_PERIOD :: u16 where "IFX_LWIP_LINK_PERIOD \<equiv> 100"
abbreviation (input) IFX_LWIP_FLAG_ARP :: u16 where "IFX_LWIP_FLAG_ARP \<equiv> 2"
abbreviation (input) IFX_LWIP_FLAG_TCP_FAST :: u16 where "IFX_LWIP_FLAG_TCP_FAST \<equiv> 4"
abbreviation (input) IFX_LWIP_FLAG_TCP_SLOW :: u16 where "IFX_LWIP_FLAG_TCP_SLOW \<equiv> 8"
abbreviation (input) IFX_LWIP_FLAG_LINK :: u16 where "IFX_LWIP_FLAG_LINK \<equiv> 16"
abbreviation (input) NETIF_FLAG_LINK_UP :: u8 where "NETIF_FLAG_LINK_UP \<equiv> 4"

definition stack_call :: "stack_call \<Rightarrow> 'a lwip_port_scheme \<Rightarrow> 'a lwip_port_scheme" where
  "stack_call c s = s\<lparr>stack_calls := stack_calls s @ [c]\<rparr>"

section \<open>The interrupt\<close>

definition Ifx_Lwip_timerIncr :: "u16 \<Rightarrow> u16 \<Rightarrow> u16 \<times> u16 \<Rightarrow> u16 \<times> u16" where
  "Ifx_Lwip_timerIncr PERIOD FLAG = (\<lambda>(var, fl).
     let var = var + 1 in if var \<ge> PERIOD then (0, fl OR FLAG) else (var, fl))"

definition Ifx_Lwip_onTimerTick :: "'a lwip_port_scheme \<Rightarrow> 'a lwip_port_scheme" where
  "Ifx_Lwip_onTimerTick s =
     (let (arp, fl) = Ifx_Lwip_timerIncr IFX_LWIP_ARP_PERIOD IFX_LWIP_FLAG_ARP (timer_arp s, timerFlags s);
          (tcp_fast, fl) = Ifx_Lwip_timerIncr IFX_LWIP_TCP_FAST_PERIOD IFX_LWIP_FLAG_TCP_FAST (timer_tcp_fast s, fl);
          (tcp_slow, fl) = Ifx_Lwip_timerIncr IFX_LWIP_TCP_SLOW_PERIOD IFX_LWIP_FLAG_TCP_SLOW (timer_tcp_slow s, fl);
          (link, fl) = Ifx_Lwip_timerIncr IFX_LWIP_LINK_PERIOD IFX_LWIP_FLAG_LINK (timer_link s, fl)
      in s\<lparr>timer_arp := arp, timer_tcp_fast := tcp_fast, timer_tcp_slow := tcp_slow, timer_link := link,
           timerFlags := fl\<rparr>)"

text \<open>The interrupt of the system timer counts the milliseconds of the gateway and of the stack.\<close>

definition updateLwIPStackISR ::
    "'a net_scheme \<times> 'b lwip_port_scheme \<Rightarrow> 'a net_scheme \<times> 'b lwip_port_scheme" where
  "updateLwIPStackISR = (\<lambda>(m, s). (m\<lparr>g_TickCount_1ms := g_TickCount_1ms m + 1\<rparr>, Ifx_Lwip_onTimerTick s))"

definition sys_now :: "'a net_scheme \<Rightarrow> u32" where
  "sys_now m = g_TickCount_1ms m"

section \<open>The loop\<close>

definition link_up :: "'a lwip_port_scheme \<Rightarrow> bool" where
  "link_up s \<longleftrightarrow> netif_flags s AND NETIF_FLAG_LINK_UP \<noteq> 0"

definition netif_set_link_up :: "'a lwip_port_scheme \<Rightarrow> 'a lwip_port_scheme" where
  "netif_set_link_up s = stack_call Set_link_up (s\<lparr>netif_flags := netif_flags s OR NETIF_FLAG_LINK_UP\<rparr>)"

definition netif_set_link_down :: "'a lwip_port_scheme \<Rightarrow> 'a lwip_port_scheme" where
  "netif_set_link_down s = stack_call Set_link_down (s\<lparr>netif_flags := netif_flags s AND NOT NETIF_FLAG_LINK_UP\<rparr>)"

definition timer_due :: "u16 \<Rightarrow> u16 \<Rightarrow> stack_call \<Rightarrow> 'a lwip_port_scheme \<Rightarrow> 'a lwip_port_scheme" where
  "timer_due fl FLAG c s = (if fl AND FLAG \<noteq> 0 \<and> link_up s then stack_call c s else s)"

definition link_check :: "phy_link \<Rightarrow> 'a lwip_port_scheme \<Rightarrow> 'a lwip_port_scheme" where
  "link_check ctrl_status s =
     (if LNKSTS ctrl_status = 0 then netif_set_link_down s
      else let s = stack_call (SetDuplexMode (LNKMOD ctrl_status = 1)) s;
               s = (if LNKSPEED ctrl_status = 0 then stack_call (SetLineSpeed 10) s
                    else if LNKSPEED ctrl_status = 1 then stack_call (SetLineSpeed 100) s
                    else stack_call (SetLineSpeed 1000) s)
           in netif_set_link_up s)"

definition Ifx_Lwip_pollTimerFlags :: "mdio_env \<Rightarrow> 'a lwip_port_scheme \<Rightarrow> 'a lwip_port_scheme option" where
  "Ifx_Lwip_pollTimerFlags e s =
     (let fl = timerFlags s;
          s = s\<lparr>timerFlags := 0\<rparr>;
          s = timer_due fl IFX_LWIP_FLAG_TCP_FAST Tcp_fasttmr s;
          s = timer_due fl IFX_LWIP_FLAG_TCP_SLOW Tcp_slowtmr s;
          s = timer_due fl IFX_LWIP_FLAG_ARP Etharp_tmr s
      in if fl AND IFX_LWIP_FLAG_LINK \<noteq> 0
         then do { (ctrl_status, s) \<leftarrow> Phy_link_status e s; Some (link_check ctrl_status s) }
         else Some s)"

section \<open>Each timer is a periodic job\<close>

lemma timerIncr_law:
  assumes "unat v < unat p"
  shows "unat (fst (Ifx_Lwip_timerIncr p f (v, fl))) = (if Suc (unat v) = unat p then 0 else Suc (unat v))"
    and "snd (Ifx_Lwip_timerIncr p f (v, fl)) = (if Suc (unat v) = unat p then fl OR f else fl)"
proof -
  have "unat (v + 1) = Suc (unat v)" using assms by (intro unat_inc_below [where l = p]) (simp add: word_less_nat_alt)
  with assms show "unat (fst (Ifx_Lwip_timerIncr p f (v, fl))) = (if Suc (unat v) = unat p then 0 else Suc (unat v))"
    "snd (Ifx_Lwip_timerIncr p f (v, fl)) = (if Suc (unat v) = unat p then fl OR f else fl)"
    by (auto simp: Ifx_Lwip_timerIncr_def Let_def word_le_nat_alt)
qed

text \<open>The timers run, the transceiver is started and always reports a link, and the interface is up.\<close>

definition timers_ok :: "'a lwip_port_scheme \<Rightarrow> bool" where
  "timers_ok s \<longleftrightarrow>
     unat (timer_arp s) < 1000 \<and> unat (timer_tcp_fast s) < 250 \<and> unat (timer_tcp_slow s) < 500 \<and> unat (timer_link s) < 100"

definition port_ok :: "mdio_env \<Rightarrow> lwip_port \<Rightarrow> bool" where
  "port_ok e s \<longleftrightarrow> mdio_ok e \<and> (\<forall>n. mdio_data e n AND 4 \<noteq> 0) \<and> iPhyInitDone s \<noteq> 0 \<and> link_up s \<and> timers_ok s"

abbreviation port_tick :: "lwip_port \<Rightarrow> lwip_port \<Rightarrow> bool" where
  "port_tick s t \<equiv> t = Ifx_Lwip_onTimerTick s"

abbreviation port_poll :: "mdio_env \<Rightarrow> lwip_port \<Rightarrow> lwip_port \<Rightarrow> bool" where
  "port_poll e s t \<equiv> Ifx_Lwip_pollTimerFlags e s = Some t"

abbreviation flag_set :: "u16 \<Rightarrow> lwip_port \<Rightarrow> bool" where
  "flag_set f s \<equiv> timerFlags s AND f \<noteq> 0"

abbreviation calls :: "stack_call \<Rightarrow> lwip_port \<Rightarrow> nat" where
  "calls c s \<equiv> count_list (stack_calls s) c"

lemma tick_timers:
  "timer_arp (Ifx_Lwip_onTimerTick s) = fst (Ifx_Lwip_timerIncr 1000 2 (timer_arp s, 0))"
  "timer_tcp_fast (Ifx_Lwip_onTimerTick s) = fst (Ifx_Lwip_timerIncr 250 4 (timer_tcp_fast s, 0))"
  "timer_tcp_slow (Ifx_Lwip_onTimerTick s) = fst (Ifx_Lwip_timerIncr 500 8 (timer_tcp_slow s, 0))"
  "timer_link (Ifx_Lwip_onTimerTick s) = fst (Ifx_Lwip_timerIncr 100 16 (timer_link s, 0))"
  "netif_flags (Ifx_Lwip_onTimerTick s) = netif_flags s" "stack_calls (Ifx_Lwip_onTimerTick s) = stack_calls s"
  "iPhyInitDone (Ifx_Lwip_onTimerTick s) = iPhyInitDone s"
  by (simp_all add: Ifx_Lwip_onTimerTick_def Ifx_Lwip_timerIncr_def Let_def)

lemma tick_flags:
  assumes "timers_ok s"
  shows "timerFlags (Ifx_Lwip_onTimerTick s) AND 2 \<noteq> 0 \<longleftrightarrow> timerFlags s AND 2 \<noteq> 0 \<or> Suc (unat (timer_arp s)) = 1000"
    and "timerFlags (Ifx_Lwip_onTimerTick s) AND 4 \<noteq> 0 \<longleftrightarrow> timerFlags s AND 4 \<noteq> 0 \<or> Suc (unat (timer_tcp_fast s)) = 250"
    and "timerFlags (Ifx_Lwip_onTimerTick s) AND 8 \<noteq> 0 \<longleftrightarrow> timerFlags s AND 8 \<noteq> 0 \<or> Suc (unat (timer_tcp_slow s)) = 500"
    and "timerFlags (Ifx_Lwip_onTimerTick s) AND 16 \<noteq> 0 \<longleftrightarrow> timerFlags s AND 16 \<noteq> 0 \<or> Suc (unat (timer_link s)) = 100"
proof -
  have u: "unat (1000 :: u16) = 1000" "unat (250 :: u16) = 250" "unat (500 :: u16) = 500" "unat (100 :: u16) = 100" by simp_all
  have incr: "snd (Ifx_Lwip_timerIncr 1000 f (timer_arp s, fl)) = (if Suc (unat (timer_arp s)) = 1000 then fl OR f else fl)"
    "snd (Ifx_Lwip_timerIncr 250 f (timer_tcp_fast s, fl)) = (if Suc (unat (timer_tcp_fast s)) = 250 then fl OR f else fl)"
    "snd (Ifx_Lwip_timerIncr 500 f (timer_tcp_slow s, fl)) = (if Suc (unat (timer_tcp_slow s)) = 500 then fl OR f else fl)"
    "snd (Ifx_Lwip_timerIncr 100 f (timer_link s, fl)) = (if Suc (unat (timer_link s)) = 100 then fl OR f else fl)" for f fl
    using timerIncr_law(2) [of "timer_arp s" 1000 f fl] timerIncr_law(2) [of "timer_tcp_fast s" 250 f fl]
      timerIncr_law(2) [of "timer_tcp_slow s" 500 f fl] timerIncr_law(2) [of "timer_link s" 100 f fl] assms
    by (simp_all add: timers_ok_def)
  have fl: "timerFlags (Ifx_Lwip_onTimerTick s) =
      snd (Ifx_Lwip_timerIncr 100 16 (timer_link s, snd (Ifx_Lwip_timerIncr 500 8 (timer_tcp_slow s,
        snd (Ifx_Lwip_timerIncr 250 4 (timer_tcp_fast s, snd (Ifx_Lwip_timerIncr 1000 2 (timer_arp s, timerFlags s))))))))"
    by (simp add: Ifx_Lwip_onTimerTick_def Let_def case_prod_beta)
  show "timerFlags (Ifx_Lwip_onTimerTick s) AND 2 \<noteq> 0 \<longleftrightarrow> timerFlags s AND 2 \<noteq> 0 \<or> Suc (unat (timer_arp s)) = 1000"
    "timerFlags (Ifx_Lwip_onTimerTick s) AND 4 \<noteq> 0 \<longleftrightarrow> timerFlags s AND 4 \<noteq> 0 \<or> Suc (unat (timer_tcp_fast s)) = 250"
    "timerFlags (Ifx_Lwip_onTimerTick s) AND 8 \<noteq> 0 \<longleftrightarrow> timerFlags s AND 8 \<noteq> 0 \<or> Suc (unat (timer_tcp_slow s)) = 500"
    "timerFlags (Ifx_Lwip_onTimerTick s) AND 16 \<noteq> 0 \<longleftrightarrow> timerFlags s AND 16 \<noteq> 0 \<or> Suc (unat (timer_link s)) = 100"
    unfolding fl incr by (simp_all add: or_disjoint_and)
qed

lemma timer_due_form:
  "timer_due fl f c s = s\<lparr>stack_calls := stack_calls s @ (if fl AND f \<noteq> 0 \<and> link_up s then [c] else [])\<rparr>"
  by (simp add: timer_due_def stack_call_def)

lemma link_check_effect:
  "link_up (link_check c s) \<longleftrightarrow> LNKSTS c \<noteq> 0"
  "stack_calls (link_check c s) = stack_calls s @ (if LNKSTS c = 0 then [Set_link_down] else
     [SetDuplexMode (LNKMOD c = 1), SetLineSpeed (if LNKSPEED c = 0 then 10 else if LNKSPEED c = 1 then 100 else 1000), Set_link_up])"
proof -
  have "(netif_flags s AND NOT 4) AND 4 = 0" by (rule bit_word_eqI) (auto simp: bit_simps)
  then show "link_up (link_check c s) \<longleftrightarrow> LNKSTS c \<noteq> 0"
    "stack_calls (link_check c s) = stack_calls s @ (if LNKSTS c = 0 then [Set_link_down] else
     [SetDuplexMode (LNKMOD c = 1), SetLineSpeed (if LNKSPEED c = 0 then 10 else if LNKSPEED c = 1 then 100 else 1000), Set_link_up])"
    by (simp_all add: link_check_def netif_set_link_up_def netif_set_link_down_def stack_call_def link_up_def Let_def)
qed

text \<open>One poll: each flag taken, each due function called, the link confirmed.\<close>

lemma poll_effect:
  assumes "port_ok e s"
  shows "\<exists>t. Ifx_Lwip_pollTimerFlags e s = Some t \<and> timerFlags t = 0 \<and> link_up t \<and> iPhyInitDone t = iPhyInitDone s \<and>
    timer_arp t = timer_arp s \<and> timer_tcp_fast t = timer_tcp_fast s \<and> timer_tcp_slow t = timer_tcp_slow s \<and> timer_link t = timer_link s \<and>
    calls Tcp_fasttmr t = calls Tcp_fasttmr s + of_bool (flag_set 4 s) \<and>
    calls Tcp_slowtmr t = calls Tcp_slowtmr s + of_bool (flag_set 8 s) \<and>
    calls Etharp_tmr t = calls Etharp_tmr s + of_bool (flag_set 2 s) \<and>
    calls Set_link_up t = calls Set_link_up s + of_bool (flag_set 16 s)"
proof -
  have up: "netif_flags s AND 4 \<noteq> 0" "mdio_ok e" "iPhyInitDone s \<noteq> 0" "\<And>n. mdio_data e n AND 4 \<noteq> 0"
    using assms by (simp_all add: port_ok_def link_up_def)
  define a where "a = timer_due (timerFlags s) 2 Etharp_tmr (timer_due (timerFlags s) 8 Tcp_slowtmr
      (timer_due (timerFlags s) 4 Tcp_fasttmr (s\<lparr>timerFlags := 0\<rparr>)))"
  have a: "timerFlags a = 0" "netif_flags a = netif_flags s" "iPhyInitDone a = iPhyInitDone s"
    "timer_arp a = timer_arp s" "timer_tcp_fast a = timer_tcp_fast s" "timer_tcp_slow a = timer_tcp_slow s" "timer_link a = timer_link s"
    "calls Tcp_fasttmr a = calls Tcp_fasttmr s + of_bool (flag_set 4 s)"
    "calls Tcp_slowtmr a = calls Tcp_slowtmr s + of_bool (flag_set 8 s)"
    "calls Etharp_tmr a = calls Etharp_tmr s + of_bool (flag_set 2 s)"
    "calls Set_link_up a = calls Set_link_up s"
    using up(1) by (simp_all add: a_def timer_due_def stack_call_def link_up_def)
  obtain t where t: "mdio_only a t" "Phy_link_status e a = Some
    (if iPhyInitDone a = 0 then \<lparr>LNKSPEED = 0, LNKMOD = 0, LNKSTS = 0\<rparr>
     else \<lparr>LNKSPEED = of_bool (mdio_data e (mdio_reads a) AND 2 = 0), LNKMOD = of_bool (mdio_data e (mdio_reads a) AND 4 \<noteq> 0),
       LNKSTS = of_bool (mdio_data e (Suc (mdio_reads a)) AND 4 \<noteq> 0)\<rparr>, t)"
    using link_status_returns [OF up(2), of a] by blast
  have run: "Ifx_Lwip_pollTimerFlags e s = (if flag_set 16 s
      then Option.bind (Phy_link_status e a) (\<lambda>(ctrl_status, s). Some (link_check ctrl_status s)) else Some a)"
    by (simp add: Ifx_Lwip_pollTimerFlags_def Let_def a_def)
  show ?thesis
  proof (cases "flag_set 16 s")
    case False
    with run a up(1) show ?thesis by (intro exI [of _ a]) (simp add: link_up_def)
  next
    case True
    define c where "c = \<lparr>LNKSPEED = of_bool (mdio_data e (mdio_reads a) AND 2 = 0), LNKMOD = 1, LNKSTS = 1\<rparr>"
    have "Ifx_Lwip_pollTimerFlags e s = Some (link_check c t)"
      using run True t(2) a(3) up(3,4) by (simp add: c_def)
    moreover obtain p r l where "t = a\<lparr>mdio_polls := p, mdio_reads := r, mdio_log := l\<rparr>"
      using t(1) unfolding mdio_only_def by blast
    ultimately show ?thesis
      using a up(1) True by (intro exI [of _ "link_check c t"])
        (simp add: c_def link_check_def netif_set_link_up_def stack_call_def link_up_def Let_def)
  qed
qed

lemma port_ok_tick: "port_ok e s \<Longrightarrow> port_ok e (Ifx_Lwip_onTimerTick s)"
  using timerIncr_law(1) [of "timer_arp s" 1000 2 0] timerIncr_law(1) [of "timer_tcp_fast s" 250 4 0]
    timerIncr_law(1) [of "timer_tcp_slow s" 500 8 0] timerIncr_law(1) [of "timer_link s" 100 16 0]
  by (simp add: port_ok_def timers_ok_def tick_timers link_up_def)

lemma port_ok_poll: "port_ok e s \<Longrightarrow> port_poll e s t \<Longrightarrow> port_ok e t"
  using poll_effect [of e s] by (auto simp: port_ok_def timers_ok_def)

lemma tick_facts:
  assumes "timers_ok s"
  shows "unat (timer_arp (Ifx_Lwip_onTimerTick s)) = (if Suc (unat (timer_arp s)) = 1000 then 0 else Suc (unat (timer_arp s)))"
    and "unat (timer_tcp_fast (Ifx_Lwip_onTimerTick s)) = (if Suc (unat (timer_tcp_fast s)) = 250 then 0 else Suc (unat (timer_tcp_fast s)))"
    and "unat (timer_tcp_slow (Ifx_Lwip_onTimerTick s)) = (if Suc (unat (timer_tcp_slow s)) = 500 then 0 else Suc (unat (timer_tcp_slow s)))"
    and "unat (timer_link (Ifx_Lwip_onTimerTick s)) = (if Suc (unat (timer_link s)) = 100 then 0 else Suc (unat (timer_link s)))"
    and "unat (timer_arp s) < 1000" "unat (timer_tcp_fast s) < 250" "unat (timer_tcp_slow s) < 500" "unat (timer_link s) < 100"
  using assms timerIncr_law(1) [of "timer_arp s" 1000 2 0] timerIncr_law(1) [of "timer_tcp_fast s" 250 4 0]
    timerIncr_law(1) [of "timer_tcp_slow s" 500 8 0] timerIncr_law(1) [of "timer_link s" 100 16 0]
  by (simp_all add: timers_ok_def tick_timers)

lemma poll_facts:
  assumes "port_ok e s" "port_poll e s t"
  shows "timerFlags t = 0" "timer_arp t = timer_arp s" "timer_tcp_fast t = timer_tcp_fast s" "timer_tcp_slow t = timer_tcp_slow s"
    "timer_link t = timer_link s" "calls Tcp_fasttmr t = calls Tcp_fasttmr s + of_bool (flag_set 4 s)"
    "calls Tcp_slowtmr t = calls Tcp_slowtmr s + of_bool (flag_set 8 s)"
    "calls Etharp_tmr t = calls Etharp_tmr s + of_bool (flag_set 2 s)"
    "calls Set_link_up t = calls Set_link_up s + of_bool (flag_set 16 s)"
  using poll_effect [OF assms(1)] assms(2) by auto

text \<open>The contract of each of the four timers.\<close>

lemma port_timers: "port_ok e s \<Longrightarrow> timers_ok s"
  by (simp add: port_ok_def)

lemma port_periodic:
  assumes below: "\<And>s. timers_ok s \<Longrightarrow> unat (T s) < P"
    and ticks: "\<And>s. timers_ok s \<Longrightarrow> unat (T (Ifx_Lwip_onTimerTick s)) = (if Suc (unat (T s)) = P then 0 else Suc (unat (T s)))"
    and flags: "\<And>s. timers_ok s \<Longrightarrow> flag_set f (Ifx_Lwip_onTimerTick s) \<longleftrightarrow> flag_set f s \<or> Suc (unat (T s)) = P"
    and polls: "\<And>s t. port_ok e s \<Longrightarrow> port_poll e s t \<Longrightarrow> T t = T s"
      "\<And>s t. port_ok e s \<Longrightarrow> port_poll e s t \<Longrightarrow> calls c t = calls c s + of_bool (flag_set f s)"
  shows "periodic_flag port_tick (port_poll e) (\<lambda>s. unat (T s)) (flag_set f) (calls c) P (port_ok e)"
proof
  fix s t
  assume ok: "port_ok e s"
  note t = port_timers [OF ok]
  show "unat (T s) < P" by (rule below [OF t])
  show "port_ok e t" "unat (T t) = (if Suc (unat (T s)) = P then 0 else Suc (unat (T s)))"
    "flag_set f t \<longleftrightarrow> flag_set f s \<or> Suc (unat (T s)) = P" "calls c t = calls c s" if "port_tick s t"
    unfolding that by (rule port_ok_tick [OF ok], rule ticks [OF t], rule flags [OF t], simp add: tick_timers)
  show "port_ok e t" "unat (T t) = unat (T s)" "\<not> flag_set f t" "calls c t = calls c s + of_bool (flag_set f s)" if "port_poll e s t"
    using port_ok_poll [OF ok that] polls [OF ok that] poll_facts(1) [OF ok that] by simp_all
qed

text \<open>The contract of each of the four timers.\<close>

interpretation fast: periodic_flag port_tick "port_poll e" "\<lambda>s. unat (timer_tcp_fast s)" "flag_set 4" "calls Tcp_fasttmr" 250 "port_ok e"
  by (rule port_periodic [OF tick_facts(6) tick_facts(2) tick_flags(2) poll_facts(3) poll_facts(6)])

interpretation slow: periodic_flag port_tick "port_poll e" "\<lambda>s. unat (timer_tcp_slow s)" "flag_set 8" "calls Tcp_slowtmr" 500 "port_ok e"
  by (rule port_periodic [OF tick_facts(7) tick_facts(3) tick_flags(3) poll_facts(4) poll_facts(7)])

interpretation arp: periodic_flag port_tick "port_poll e" "\<lambda>s. unat (timer_arp s)" "flag_set 2" "calls Etharp_tmr" 1000 "port_ok e"
  by (rule port_periodic [OF tick_facts(5) tick_facts(1) tick_flags(1) poll_facts(2) poll_facts(8)])

interpretation link: periodic_flag port_tick "port_poll e" "\<lambda>s. unat (timer_link s)" "flag_set 16" "calls Set_link_up" 100 "port_ok e"
  by (rule port_periodic [OF tick_facts(8) tick_facts(4) tick_flags(4) poll_facts(5) poll_facts(9)])

section \<open>Properties\<close>

text \<open>
  C18. While the transceiver reports a link and the main loop comes round at least every 100 ms, the stack's
  fast timer is called exactly once per 250 ms, its slow timer once per 500 ms, the one of its address
  cache once per second and the link is looked at once per 100 ms, the last call of each being possibly
  still due; and a poll always returns.
\<close>

theorem eth_stack_timers:
  assumes "polled port_tick (port_poll e) 100 n g s t" and "port_ok e s"
    and "timer_arp s = 0" "timer_tcp_fast s = 0" "timer_tcp_slow s = 0" "timer_link s = 0" "timerFlags s = 0" "stack_calls s = []"
  shows "calls Tcp_fasttmr t + of_bool (flag_set 4 t) = n div 250 \<and>
    calls Tcp_slowtmr t + of_bool (flag_set 8 t) = n div 500 \<and>
    calls Etharp_tmr t + of_bool (flag_set 2 t) = n div 1000 \<and>
    calls Set_link_up t + of_bool (flag_set 16 t) = n div 100 \<and>
    (\<exists>u. Ifx_Lwip_pollTimerFlags e t = Some u)"
proof -
  have "port_ok e t" by (rule fast.polled_ok [OF assms(1,2)])
  then have "\<exists>u. Ifx_Lwip_pollTimerFlags e t = Some u" using poll_effect by blast
  then show ?thesis
    using fast.served_exactly [OF assms(1,2)] slow.served_exactly [OF assms(1,2)] arp.served_exactly [OF assms(1,2)]
      link.served_exactly [OF assms(1,2)] assms(3-8) by simp
qed

text \<open>
  When the link is due, the interface goes up exactly when the transceiver reports a link, and then
  the controller is first set to the duplex mode and the speed it reports, 10 or 100 Mbit/s; a link
  that is lost is taken down and, from then on, no timer of the stack is called.
\<close>

theorem eth_link_follows:
  assumes "mdio_ok e" "iPhyInitDone s \<noteq> 0" "timerFlags s AND 16 \<noteq> 0"
  shows "let r = mdio_reads s; up = (mdio_data e (Suc r) AND 4 \<noteq> 0) in
    \<exists>t cs. Ifx_Lwip_pollTimerFlags e s = Some t \<and> (link_up t \<longleftrightarrow> up) \<and>
      stack_calls t = stack_calls s @ cs @
        (if up then [SetDuplexMode (mdio_data e r AND 4 \<noteq> 0), SetLineSpeed (if mdio_data e r AND 2 = 0 then 100 else 10), Set_link_up]
         else [Set_link_down]) \<and>
      (\<not> up \<longrightarrow> (\<forall>f m c. timer_due f m c t = t))"
proof -
  define a where "a = timer_due (timerFlags s) 2 Etharp_tmr (timer_due (timerFlags s) 8 Tcp_slowtmr
      (timer_due (timerFlags s) 4 Tcp_fasttmr (s\<lparr>timerFlags := 0\<rparr>)))"
  have "\<exists>cs. stack_calls a = stack_calls s @ cs" by (simp add: a_def timer_due_form)
  then obtain cs where a: "stack_calls a = stack_calls s @ cs" "mdio_reads a = mdio_reads s" "iPhyInitDone a = iPhyInitDone s"
    by (simp add: a_def timer_due_form)
  obtain t where t: "mdio_only a t" "Phy_link_status e a = Some
    (if iPhyInitDone a = 0 then \<lparr>LNKSPEED = 0, LNKMOD = 0, LNKSTS = 0\<rparr>
     else \<lparr>LNKSPEED = of_bool (mdio_data e (mdio_reads a) AND 2 = 0), LNKMOD = of_bool (mdio_data e (mdio_reads a) AND 4 \<noteq> 0),
       LNKSTS = of_bool (mdio_data e (Suc (mdio_reads a)) AND 4 \<noteq> 0)\<rparr>, t)"
    using link_status_returns [OF assms(1), of a] by blast
  define c where "c = \<lparr>LNKSPEED = of_bool (mdio_data e (mdio_reads s) AND 2 = 0), LNKMOD = of_bool (mdio_data e (mdio_reads s) AND 4 \<noteq> 0),
       LNKSTS = of_bool (mdio_data e (Suc (mdio_reads s)) AND 4 \<noteq> 0)\<rparr>"
  have "Ifx_Lwip_pollTimerFlags e s = Some (link_check c t)"
    using t(2) a(2,3) assms(2,3) by (simp add: Ifx_Lwip_pollTimerFlags_def Let_def c_def flip: a_def)
  moreover have "\<exists>p r l. t = a\<lparr>mdio_polls := p, mdio_reads := r, mdio_log := l\<rparr>"
    using t(1) unfolding mdio_only_def by blast
  then have "stack_calls t = stack_calls s @ cs" using a(1) by auto
  moreover have "timer_due f m x (link_check c t) = link_check c t" if "LNKSTS c = 0" for f m x
    using that by (simp add: timer_due_def link_check_effect)
  ultimately have "Ifx_Lwip_pollTimerFlags e s = Some (link_check c t)" "stack_calls (link_check c t) = stack_calls s @ cs @
      (if LNKSTS c \<noteq> 0 then [SetDuplexMode (LNKMOD c = 1), SetLineSpeed (if LNKSPEED c = 1 then 100 else 10), Set_link_up] else [Set_link_down])"
    "LNKSTS c = 0 \<longrightarrow> (\<forall>f m x. timer_due f m x (link_check c t) = link_check c t)"
    by (auto simp: link_check_effect c_def)
  then show ?thesis
    unfolding Let_def by (intro exI [of _ "link_check c t"] exI [of _ cs]) (simp add: link_check_effect c_def)
qed

text \<open>An environment: the interface is never busy, the transceiver reports 100 Mbit/s, full duplex, link.\<close>

definition bench_mdio :: mdio_env where
  "bench_mdio = \<lparr>mdio_busy = \<lambda>n. False, mdio_data = \<lambda>n. 4\<rparr>"

definition bench_port :: lwip_port where
  "bench_port = \<lparr>mdio_polls = 0, mdio_reads = 0, mdio_log = [], Ethernet_Phy_Id1 = 0, Ethernet_Phy_Id2 = 0, Phy_IdRed = False,
     iPhyInitDone = 1, timer_arp = 0, timer_tcp_fast = 0, timer_tcp_slow = 0, timer_link = 0, timerFlags = 0,
     netif_flags = 4, stack_calls = []\<rparr>"

lemma bench_port_ok: "port_ok bench_mdio bench_port"
  by (auto simp: port_ok_def timers_ok_def mdio_ok_def link_up_def bench_mdio_def bench_port_def)

text \<open>A hundred milliseconds and one pass of the loop.\<close>

theorem eth_link_follows_witness:
  "\<exists>t cs. Ifx_Lwip_pollTimerFlags bench_mdio (bench_port\<lparr>timerFlags := 16\<rparr>) = Some t \<and> link_up t \<and>
     stack_calls t = cs @ [SetDuplexMode True, SetLineSpeed 100, Set_link_up]"
  using eth_link_follows [of bench_mdio "bench_port\<lparr>timerFlags := 16\<rparr>"] bench_port_ok
  by (simp add: port_ok_def Let_def bench_mdio_def bench_port_def)

theorem eth_stack_timers_witness:
  "\<exists>t. Ifx_Lwip_pollTimerFlags bench_mdio ((Ifx_Lwip_onTimerTick ^^ 100) bench_port) = Some t \<and> calls Set_link_up t = 1"
proof -
  have run: "polled port_tick (port_poll bench_mdio) 100 n n bench_port ((Ifx_Lwip_onTimerTick ^^ n) bench_port)" if "n \<le> 100" for n
    using that by (induction n) (auto intro: polled.intros)
  have ok: "port_ok bench_mdio ((Ifx_Lwip_onTimerTick ^^ 100) bench_port)"
    by (rule fast.polled_ok [OF run [OF order_refl] bench_port_ok])
  then obtain t where t: "Ifx_Lwip_pollTimerFlags bench_mdio ((Ifx_Lwip_onTimerTick ^^ 100) bench_port) = Some t" "timerFlags t = 0"
    using poll_effect by blast
  have "polled port_tick (port_poll bench_mdio) 100 100 0 bench_port t"
    by (rule polled.poll [OF run [OF order_refl] t(1)])
  from eth_stack_timers [OF this bench_port_ok] t show ?thesis by (simp add: bench_port_def)
qed

end
