(* ===== verification/Eth_Frames.thy ===== *)
theory Eth_Frames
  imports Eth_Timers
begin

unbundle bit_operations_syntax

text \<open>
  The network interface of the gateway, \<open>src/MAIN/Libraries/Ethernet/lwip/port/src/netif.c\<close>, and its
  set-up in \<open>Ifx_Lwip.c\<close>: frames between the buffers of the Ethernet controller and the packet buffers of
  the TCP/IP stack. The descriptors of the controller and the allocator of packet buffers are inputs.

  A packet buffer is a chain of segments; two padding bytes before the Ethernet header keep what
  follows it aligned. \<open>pbuf_remove_header\<close> and \<open>pbuf_add_header\<close> of
  \<open>src/MAIN/Libraries/Ethernet/lwip/src/core/pbuf.c\<close> move the start of the first segment; bytes dropped
  stay in memory and can be taken back, unless the buffer only refers to memory elsewhere. \<open>pbuf_alloc\<close>
  takes elements of 592 bytes from a pool.
\<close>

section \<open>Packet buffers\<close>

record pbuf_chain =
  pb_dropped :: "u8 list"
  pb_segs :: "u8 list list"
  pb_ref :: bool             \<comment> \<open>the type is \<open>PBUF_REF\<close> or \<open>PBUF_ROM\<close>\<close>

definition first_seg :: "pbuf_chain \<Rightarrow> u8 list" where
  "first_seg p = (case pb_segs p of [] \<Rightarrow> [] | b # bs \<Rightarrow> b)"

definition tot_len :: "pbuf_chain \<Rightarrow> nat" where
  "tot_len p = length (concat (pb_segs p))"

definition pbuf_drop :: "nat \<Rightarrow> pbuf_chain \<Rightarrow> pbuf_chain" where
  "pbuf_drop n p =
     (if n \<le> length (first_seg p)
      then p\<lparr>pb_dropped := pb_dropped p @ take n (first_seg p), pb_segs := drop n (first_seg p) # tl (pb_segs p)\<rparr>
      else p)"

definition pbuf_reclaim :: "nat \<Rightarrow> pbuf_chain \<Rightarrow> pbuf_chain" where
  "pbuf_reclaim n p =
     (if n \<le> length (pb_dropped p) \<and> \<not> pb_ref p
      then let k = length (pb_dropped p) - n
           in p\<lparr>pb_dropped := take k (pb_dropped p), pb_segs := (drop k (pb_dropped p) @ first_seg p) # tl (pb_segs p)\<rparr>
      else p)"

abbreviation (input) ETH_PAD_SIZE :: nat where "ETH_PAD_SIZE \<equiv> 2"

lemma pbuf_reclaim_drop:
  assumes "n \<le> length (first_seg p)" "pb_segs p \<noteq> []" "\<not> pb_ref p"
  shows "pbuf_reclaim n (pbuf_drop n p) = p"
proof -
  obtain b bs where "pb_segs p = b # bs" using assms(2) by (cases "pb_segs p") auto
  with assms(1,3) show ?thesis by (cases p) (simp add: pbuf_reclaim_def pbuf_drop_def first_seg_def Let_def)
qed

text \<open>An allocation from the pool: the lengths of the segments, if there are enough free elements.\<close>

abbreviation (input) PBUF_POOL_BUFSIZE :: nat where "PBUF_POOL_BUFSIZE \<equiv> 592"

function pool_lengths :: "nat \<Rightarrow> nat list" where
  "pool_lengths rem_len =
     (let qlen = min rem_len PBUF_POOL_BUFSIZE
      in if rem_len - qlen > 0 then qlen # pool_lengths (rem_len - qlen) else [qlen])"
  by auto
termination by (relation "measure id") auto

declare pool_lengths.simps [simp del]

definition pbuf_alloc_pool :: "nat \<Rightarrow> nat \<Rightarrow> nat list option" where
  "pbuf_alloc_pool free n = (if length (pool_lengths n) \<le> free then Some (pool_lengths n) else None)"

lemma pool_lengths_sum [simp]: "sum_list (pool_lengths n) = n"
proof (induction n rule: pool_lengths.induct)
  case (1 n)
  then show ?case by (subst pool_lengths.simps) (auto simp: Let_def)
qed

lemma pool_lengths_first: "\<exists>ns. pool_lengths n = min n PBUF_POOL_BUFSIZE # ns"
  by (subst pool_lengths.simps) (auto simp: Let_def)

section \<open>Transmission\<close>

datatype eth_event =
    EthSend "u8 list"        \<comment> \<open>a frame from the transmit buffer\<close>
  | EthSendRef nat           \<comment> \<open>so many bytes that are in the controller's memory already\<close>
  | StackInput pbuf_chain    \<comment> \<open>\<open>netif->input\<close>\<close>
  | PbufFree pbuf_chain

record eth_rx =
  rdes1 :: u32
  rdes3 :: u32
  rx_data :: memory

record eth_if = lwip_port +
  eth_out :: "eth_event list"
  rx_ring :: "eth_rx list"   \<comment> \<open>the descriptors with data, oldest first\<close>
  eth_allocs :: nat
  eth_inputs :: nat

definition eth_emit :: "eth_event \<Rightarrow> 'a eth_if_scheme \<Rightarrow> 'a eth_if_scheme" where
  "eth_emit v s = s\<lparr>eth_out := eth_out s @ [v]\<rparr>"

definition mem_write :: "u16 \<Rightarrow> u8 list \<Rightarrow> memory \<Rightarrow> memory" where
  "mem_write l bs m = (\<lambda>i. if unat l \<le> i \<and> i < unat l + length bs then bs ! (i - unat l) else m i)"

fun copy_segments :: "u8 list list \<Rightarrow> memory \<times> u16 \<Rightarrow> memory \<times> u16" where
  "copy_segments [] (tbuf, l) = (tbuf, l)"
| "copy_segments (q # qs) (tbuf, l) = copy_segments qs (mem_write l q tbuf, l + of_nat (length q))"

text \<open>\<open>tbuf\<close> is the transmit buffer the library gives; it waits until there is one.\<close>

definition low_level_output :: "memory \<Rightarrow> pbuf_chain \<Rightarrow> 'a eth_if_scheme \<Rightarrow> pbuf_chain \<times> 'a eth_if_scheme" where
  "low_level_output tbuf p s =
     (let p = pbuf_drop ETH_PAD_SIZE p;
          s = (if pb_ref p then eth_emit (EthSendRef (tot_len p)) s
               else let (tbuf, l) = copy_segments (pb_segs p) (tbuf, 0)
                    in eth_emit (EthSend (bytes tbuf (unat l))) s)
      in (pbuf_reclaim ETH_PAD_SIZE p, s))"

section \<open>Reception\<close>

definition GetRxFrameSize :: "eth_rx \<Rightarrow> u16" where
  "GetRxFrameSize descr =
     (if rdes3 descr AND push_bit 15 1 \<noteq> 0 \<or> rdes1 descr AND push_bit 7 1 \<noteq> 0 \<or> rdes3 descr AND push_bit 28 1 = 0
      then 0xFFFF else ucast ((rdes3 descr AND 0x7FFF) - 4))"

text \<open>
  The stack as this file sees it: the free elements of the pool, what the memory of a buffer holds
  before it is written, and whether \<open>netif->input\<close> returns \<open>ERR_OK\<close>.
\<close>

record eth_env =
  ee_free :: "nat \<Rightarrow> nat"
  ee_stale :: "nat \<Rightarrow> memory"
  ee_input :: "nat \<Rightarrow> bool"

fun fill_segments :: "nat list \<Rightarrow> memory \<Rightarrow> u8 list list" where
  "fill_segments [] src = []"
| "fill_segments (n # ns) src = bytes src n # fill_segments ns (moved n src)"

definition low_level_input :: "eth_env \<Rightarrow> 'a eth_if_scheme \<Rightarrow> pbuf_chain option \<times> 'a eth_if_scheme" where
  "low_level_input e s =
     (let len = (case rx_ring s of [] \<Rightarrow> 0 | d # ds \<Rightarrow> GetRxFrameSize d)
      in if len = 0 then (None, s)
         else
           let len = len + of_nat ETH_PAD_SIZE;
               k = eth_allocs s;
               s = s\<lparr>eth_allocs := Suc k\<rparr>
           in case pbuf_alloc_pool (ee_free e k) (unat len) of
                None \<Rightarrow> (None, s)
              | Some ns \<Rightarrow>
                  let p = pbuf_drop ETH_PAD_SIZE \<lparr>pb_dropped = [], pb_segs = fill_segments ns (ee_stale e k), pb_ref = False\<rparr>;
                      src = rx_data (hd (rx_ring s));
                      p = p\<lparr>pb_segs := fill_segments (map length (pb_segs p)) src\<rparr>;
                      s = s\<lparr>rx_ring := tl (rx_ring s)\<rparr>
                  in (Some (pbuf_reclaim ETH_PAD_SIZE p), s))"

text \<open>The type field, behind padding and two addresses; beyond a short segment it is stale memory.\<close>

definition eth_type :: "memory \<Rightarrow> pbuf_chain \<Rightarrow> u16" where
  "eth_type stale p =
     (let m = (\<lambda>i. if i < length (first_seg p) then first_seg p ! i else stale i)
      in be16 (m (ETH_PAD_SIZE + 12)) (m (ETH_PAD_SIZE + 13)))"

abbreviation (input) ETHTYPE_IP :: u16 where "ETHTYPE_IP \<equiv> 0x0800"
abbreviation (input) ETHTYPE_ARP :: u16 where "ETHTYPE_ARP \<equiv> 0x0806"

definition ifx_netif_input :: "eth_env \<Rightarrow> 'a eth_if_scheme \<Rightarrow> 'a eth_if_scheme" where
  "ifx_netif_input e s =
     (let stale = ee_stale e (eth_allocs s)
      in case low_level_input e s of
           (None, s) \<Rightarrow> s
         | (Some p, s) \<Rightarrow>
             if eth_type stale p = ETHTYPE_IP \<or> eth_type stale p = ETHTYPE_ARP
             then let k = eth_inputs s;
                      s = eth_emit (StackInput p) (s\<lparr>eth_inputs := Suc k\<rparr>)
                  in if ee_input e k then s else eth_emit (PbufFree p) s
             else eth_emit (PbufFree p) s)"

definition Ifx_Lwip_pollReceiveFlags :: "eth_env \<Rightarrow> 'a eth_if_scheme \<Rightarrow> 'a eth_if_scheme" where
  "Ifx_Lwip_pollReceiveFlags e s = ifx_netif_input e s"

section \<open>Bytes through the segments\<close>

lemma map_length_fill [simp]: "map length (fill_segments ns src) = ns"
  by (induction ns src rule: fill_segments.induct) simp_all

lemma bytes_append: "bytes src (m + n) = bytes src m @ bytes (moved m src) n"
  by (rule nth_equalityI) (auto simp: bytes_def moved_def nth_append)

lemma concat_fill [simp]: "concat (fill_segments ns src) = bytes src (sum_list ns)"
proof (induction ns src rule: fill_segments.induct)
  case (1 src)
  show ?case by (simp add: bytes_def)
qed (simp add: bytes_append)

lemma bytes_mem_write: "bytes (mem_write 0 bs m) (length bs) = bs"
  by (rule nth_equalityI) (auto simp: bytes_def mem_write_def)

lemma mem_write_append:
  assumes "unat l + length xs < 65536"
  shows "mem_write (l + of_nat (length xs)) ys (mem_write l xs m) = mem_write l (xs @ ys) m"
proof -
  have "unat (l + of_nat (length xs)) = unat l + length xs"
    using assms by (simp add: unat_word_ariths unat_of_nat)
  then show ?thesis by (auto simp: mem_write_def fun_eq_iff nth_append)
qed

lemma copy_segments_concat:
  "unat l + length (concat qs) < 65536 \<Longrightarrow>
     copy_segments qs (tbuf, l) = (mem_write l (concat qs) tbuf, l + of_nat (length (concat qs)))"
proof (induction qs arbitrary: tbuf l)
  case Nil
  show ?case by (auto simp: mem_write_def fun_eq_iff)
next
  case (Cons q qs)
  have "unat (l + of_nat (length q)) = unat l + length q"
    using Cons.prems by (simp add: unat_word_ariths unat_of_nat)
  with Cons show ?case by (simp add: mem_write_append)
qed

lemma frame_output:
  assumes "pb_segs p \<noteq> []" "2 \<le> length (first_seg p)" "\<not> pb_ref p" "tot_len p < 65536"
  shows "low_level_output tbuf p s = (p, eth_emit (EthSend (drop 2 (concat (pb_segs p)))) s)"
proof -
  obtain b bs where p: "pb_segs p = b # bs" using assms(1) by (cases "pb_segs p") auto
  define q where "q = pbuf_drop 2 p"
  have q: "concat (pb_segs q) = drop 2 (concat (pb_segs p))" "\<not> pb_ref q" "pbuf_reclaim 2 q = p"
    using assms(2,3) p pbuf_reclaim_drop [OF assms(2,1,3)] by (simp_all add: q_def pbuf_drop_def first_seg_def)
  have l: "length (concat (pb_segs q)) < 65536" using assms(4) by (simp add: q(1) tot_len_def)
  then have "unat (of_nat (length (concat (pb_segs q))) :: u16) = length (concat (pb_segs q))" by (simp add: unat_of_nat)
  then show ?thesis
    using copy_segments_concat [of 0 "pb_segs q" tbuf] l q bytes_mem_write [of "concat (pb_segs q)" tbuf]
    by (simp add: low_level_output_def Let_def flip: q_def)
qed

text \<open>The length of a received frame without its check sum.\<close>

definition rx_length :: "eth_rx \<Rightarrow> nat" where
  "rx_length d = unat (rdes3 d AND 0x7FFF) - 4"

definition rx_good :: "eth_rx \<Rightarrow> bool" where
  "rx_good d \<longleftrightarrow> rdes3 d AND push_bit 15 1 = 0 \<and> rdes1 d AND push_bit 7 1 = 0 \<and> rdes3 d AND push_bit 28 1 \<noteq> 0"

lemma rx_bound: "unat (x AND 0x7FFF :: u32) < 32768"
proof -
  have "x AND 0x7FFF = take_bit 15 x" by (simp add: mask_eq_exp_minus_1 take_bit_eq_mask)
  then show ?thesis by (simp add: unsigned_take_bit_eq take_bit_nat_less_exp [of 15, simplified])
qed

lemma GetRxFrameSize_good:
  assumes "rx_good d" "4 \<le> unat (rdes3 d AND 0x7FFF)"
  shows "unat (GetRxFrameSize d) = rx_length d" "rx_length d < 32764"
proof -
  have "4 \<le> rdes3 d AND 0x7FFF" using assms(2) by (simp add: word_le_nat_alt)
  then have "unat ((rdes3 d AND 0x7FFF) - 4) = rx_length d" by (simp add: unat_sub rx_length_def)
  moreover show "rx_length d < 32764" using rx_bound [of "rdes3 d"] assms(2) unfolding rx_length_def by linarith
  ultimately show "unat (GetRxFrameSize d) = rx_length d"
    using assms(1) by (simp add: GetRxFrameSize_def rx_good_def unsigned_ucast_eq take_bit_nat_eq_self)
qed

text \<open>What \<open>low_level_input\<close> makes of a frame when the pool has room for it.\<close>

lemma frame_input:
  assumes "rx_ring s = d # ds" "GetRxFrameSize d \<noteq> 0" "n = unat (GetRxFrameSize d + 2)" "2 \<le> n"
    and "length (pool_lengths n) \<le> ee_free e (eth_allocs s)"
  shows "\<exists>p. low_level_input e s = (Some p, s\<lparr>eth_allocs := Suc (eth_allocs s), rx_ring := ds\<rparr>) \<and>
    concat (pb_segs p) = bytes (ee_stale e (eth_allocs s)) 2 @ bytes (rx_data d) (n - 2) \<and>
    length (first_seg p) = min n 592 \<and> pb_segs p \<noteq> [] \<and> \<not> pb_ref p \<and> pb_dropped p = []"
proof -
  obtain ns where ns: "pool_lengths n = min n 592 # ns" using pool_lengths_first by blast
  define m where "m = ee_stale e (eth_allocs s)"
  define p where "p = pbuf_drop 2 \<lparr>pb_dropped = [], pb_segs = fill_segments (pool_lengths n) m, pb_ref = False\<rparr>"
  have p: "p = \<lparr>pb_dropped = take 2 (bytes m (min n 592)),
      pb_segs = drop 2 (bytes m (min n 592)) # fill_segments ns (moved (min n 592) m), pb_ref = False\<rparr>"
    using assms(4) by (simp add: p_def ns pbuf_drop_def first_seg_def)
  have pad: "take 2 (bytes m (min n 592)) = bytes m 2"
    using assms(4) by (intro nth_equalityI) (auto simp: bytes_def)
  have sum: "min n 592 - 2 + sum_list ns = n - 2"
    using pool_lengths_sum [of n] assms(4) by (simp add: ns)
  define q where "q = pbuf_reclaim 2 (p\<lparr>pb_segs := fill_segments (map length (pb_segs p)) (rx_data d)\<rparr>)"
  have q: "q = \<lparr>pb_dropped = [], pb_segs = (bytes m 2 @ bytes (rx_data d) (min n 592 - 2)) #
      fill_segments ns (moved (min n 592 - 2) (rx_data d)), pb_ref = False\<rparr>"
    by (simp add: q_def p pbuf_reclaim_def first_seg_def pad)
  have "concat (pb_segs q) = bytes m 2 @ bytes (rx_data d) (n - 2)"
    using bytes_append [of "rx_data d" "min n 592 - 2" "sum_list ns"] by (simp add: q sum)
  moreover have "low_level_input e s = (Some q, s\<lparr>eth_allocs := Suc (eth_allocs s), rx_ring := ds\<rparr>)"
    using assms(1,2,5) by (simp add: low_level_input_def Let_def pbuf_alloc_pool_def q_def p_def m_def flip: assms(3))
  moreover have "length (first_seg q) = min n 592" using assms(4) by (simp add: q first_seg_def)
  ultimately show ?thesis by (intro exI [of _ q]) (simp add: q m_def)
qed

section \<open>Set-up\<close>

record eth_addr =
  addr :: "u8 list"

record gateway_if = eth_if +
  hwaddr :: "u8 list"
  hwaddr_len :: nat
  mtu :: u16
  netif_ip :: "u8 list"
  netif_mask :: "u8 list"
  netif_gw :: "u8 list"
  igmp_groups :: "u8 list list"
  g_srcAddr :: "u8 list"

abbreviation (input) NETIF_FLAG_UP :: u8 where "NETIF_FLAG_UP \<equiv> 0x01"
abbreviation (input) NETIF_FLAG_BROADCAST :: u8 where "NETIF_FLAG_BROADCAST \<equiv> 0x02"
abbreviation (input) NETIF_FLAG_ETHARP :: u8 where "NETIF_FLAG_ETHARP \<equiv> 0x08"
abbreviation (input) NETIF_FLAG_IGMP :: u8 where "NETIF_FLAG_IGMP \<equiv> 0x20"

text \<open>
  \<open>st\<close> is the status register of the controller that \<open>low_level_init\<close> reads. The configuration of
  queues, descriptors and pins is left to the library.
\<close>

definition low_level_init :: "mdio_env \<Rightarrow> phy_link \<Rightarrow> u8 list \<Rightarrow> 'a gateway_if_scheme \<Rightarrow> 'a gateway_if_scheme option" where
  "low_level_init e st mac s =
     (let s = s\<lparr>hwaddr_len := 6, hwaddr := take 6 mac, mtu := 1500,
                netif_flags := NETIF_FLAG_BROADCAST OR NETIF_FLAG_ETHARP\<rparr>
      in do {
        s \<leftarrow> Phy_init e s;
        Some (if LNKSTS st = 1
              then let s = s\<lparr>netif_flags := netif_flags s OR NETIF_FLAG_LINK_UP\<rparr>;
                       s = stack_call (SetDuplexMode (LNKMOD st = 1)) s
                   in stack_call (SetLineSpeed (if LNKSPEED st = 0 then 10 else if LNKSPEED st = 1 then 100 else 1000)) s
              else s) })"

definition ifx_netif_init :: "mdio_env \<Rightarrow> phy_link \<Rightarrow> u8 list \<Rightarrow> 'a gateway_if_scheme \<Rightarrow> 'a gateway_if_scheme option" where
  "ifx_netif_init e st mac s = low_level_init e st mac s"

text \<open>\<open>joined\<close>: \<open>igmp_joingroup\<close> returns \<open>ERR_OK\<close>.\<close>

definition Ifx_Lwip_init :: "mdio_env \<Rightarrow> phy_link \<Rightarrow> bool \<Rightarrow> u8 list \<Rightarrow> 'a gateway_if_scheme \<Rightarrow> 'a gateway_if_scheme option" where
  "Ifx_Lwip_init e st joined mac s =
     (let s = s\<lparr>netif_ip := [192, 168, 10, 2], netif_mask := [255, 255, 255, 0], netif_gw := [192, 168, 10, 1], netif_flags := 0\<rparr>
      in do {
        s \<leftarrow> ifx_netif_init e st mac s;
        let s = s\<lparr>netif_flags := netif_flags s OR NETIF_FLAG_IGMP\<rparr>;
            s = s\<lparr>netif_flags := netif_flags s OR NETIF_FLAG_UP\<rparr>
        in Some (if joined then s\<lparr>igmp_groups := igmp_groups s @ [[224, 224, 224, 245]]\<rparr> else s) })"

definition initLwip :: "mdio_env \<Rightarrow> phy_link \<Rightarrow> bool \<Rightarrow> u8 list \<Rightarrow> 'a gateway_if_scheme \<Rightarrow> 'a gateway_if_scheme option" where
  "initLwip e st joined mac s = Ifx_Lwip_init e st joined mac (s\<lparr>g_srcAddr := take 6 mac\<rparr>)"

lemma gateway_more:
  assumes "eth_phy.more t = eth_phy.more (s :: 'a gateway_if_scheme)"
  shows "netif_flags t = netif_flags s" "hwaddr t = hwaddr s" "mtu t = mtu s" "netif_ip t = netif_ip s" "timerFlags t = timerFlags s"
    "timer_arp t = timer_arp s" "timer_tcp_fast t = timer_tcp_fast s" "timer_tcp_slow t = timer_tcp_slow s" "timer_link t = timer_link s"
    "igmp_groups t = igmp_groups s" "stack_calls t = stack_calls s" "netif_mask t = netif_mask s"
  using assms by (cases s; cases t; simp)+

lemma initLwip_returns:
  assumes "mdio_ok e" "phy_wakes e"
  shows "\<exists>t. initLwip e st joined mac s = Some t \<and> iPhyInitDone t = 1 \<and> hwaddr t = take 6 mac \<and> netif_ip t = [192, 168, 10, 2] \<and>
    mtu t = 1500 \<and> netif_flags t = (if LNKSTS st = 1 then 0x2F else 0x2B) \<and> timers_ok t = timers_ok s \<and> timerFlags t = timerFlags s"
proof -
  define a where "a = s\<lparr>g_srcAddr := take 6 mac, netif_ip := [192, 168, 10, 2], netif_mask := [255, 255, 255, 0],
    netif_gw := [192, 168, 10, 1], netif_flags := 0, hwaddr_len := 6, hwaddr := take 6 mac, mtu := 1500, netif_flags := 2 OR 8\<rparr>"
  obtain b where b: "Phy_init e a = Some b" "iPhyInitDone b = 1" "eth_phy.more b = eth_phy.more a"
    using Phy_init_returns [OF assms, of a] by blast
  note more = gateway_more [OF b(3)]
  show ?thesis
    unfolding initLwip_def Ifx_Lwip_init_def ifx_netif_init_def low_level_init_def stack_call_def Let_def
    using b(1,2) more by (simp add: a_def timers_ok_def)
qed

section \<open>Properties\<close>


text \<open>
  C31. A descriptor with an error, instead of being dropped, becomes a packet buffer of one byte: the marker
  \<open>0xFFFF\<close> plus the padding wraps to 1. Whether it goes to the stack depends on what the buffer held
  before. A descriptor of a frame with nothing but a check sum, and every frame while the pool is
  short, stays at the head of the ring.
\<close>

theorem eth_bad_descriptor:
  assumes "rx_ring s = d # ds"
  shows "(\<not> rx_good d \<and> 1 \<le> ee_free e (eth_allocs s) \<longrightarrow>
      (let m = ee_stale e (eth_allocs s); t = ifx_netif_input e s in
       \<exists>q. length (concat (pb_segs q)) = 1 \<and> rx_ring t = ds \<and>
         eth_out t = eth_out s @
           (if be16 (m 14) (m 15) = 0x0800 \<or> be16 (m 14) (m 15) = 0x0806
            then StackInput q # (if ee_input e (eth_inputs s) then [] else [PbufFree q]) else [PbufFree q]))) \<and>
    (rx_good d \<and> unat (rdes3 d AND 0x7FFF) = 4 \<longrightarrow> ifx_netif_input e s = s) \<and>
    (ee_free e (eth_allocs s) = 0 \<longrightarrow> rx_ring (ifx_netif_input e s) = d # ds \<and> eth_out (ifx_netif_input e s) = eth_out s)"
proof (intro conjI impI)
  assume a: "\<not> rx_good d \<and> 1 \<le> ee_free e (eth_allocs s)"
  have bad: "GetRxFrameSize d = 0xFFFF" using a by (auto simp: GetRxFrameSize_def rx_good_def)
  have one: "pool_lengths (Suc 0) = [Suc 0]" by (subst pool_lengths.simps) simp
  define m where "m = ee_stale e (eth_allocs s)"
  define q where "q = \<lparr>pb_dropped = [], pb_segs = [bytes (rx_data d) 1], pb_ref = False\<rparr>"
  have "low_level_input e s = (Some q, s\<lparr>eth_allocs := Suc (eth_allocs s), rx_ring := ds\<rparr>)"
    using a assms by (simp add: low_level_input_def Let_def bad one pbuf_alloc_pool_def pbuf_drop_def pbuf_reclaim_def first_seg_def q_def)
  moreover have "eth_type m q = be16 (m 14) (m 15)" by (simp add: eth_type_def q_def first_seg_def)
  moreover have "length (concat (pb_segs q)) = 1" by (simp add: q_def)
  ultimately show "let m = ee_stale e (eth_allocs s); t = ifx_netif_input e s in
       \<exists>q. length (concat (pb_segs q)) = 1 \<and> rx_ring t = ds \<and>
         eth_out t = eth_out s @
           (if be16 (m 14) (m 15) = 0x0800 \<or> be16 (m 14) (m 15) = 0x0806
            then StackInput q # (if ee_input e (eth_inputs s) then [] else [PbufFree q]) else [PbufFree q])"
    by (auto simp: ifx_netif_input_def eth_emit_def Let_def simp flip: m_def intro!: exI [of _ q])
next
  assume a: "rx_good d \<and> unat (rdes3 d AND 0x7FFF) = 4"
  then have "unat (GetRxFrameSize d) = 0" using GetRxFrameSize_good(1) [of d] by (simp add: rx_length_def)
  then have "GetRxFrameSize d = 0" by (simp add: unat_eq_zero)
  then show "ifx_netif_input e s = s" using assms by (simp add: ifx_netif_input_def low_level_input_def Let_def)
next
  assume a: "ee_free e (eth_allocs s) = 0"
  have "length (pool_lengths k) \<noteq> 0" for k using pool_lengths_first [of k] by auto
  then show "rx_ring (ifx_netif_input e s) = d # ds" "eth_out (ifx_netif_input e s) = eth_out s"
    using a assms by (simp_all add: ifx_netif_input_def low_level_input_def Let_def pbuf_alloc_pool_def)
qed

text \<open>An ARP request of 60 bytes and a packet buffer in two segments; a stack with all its elements.\<close>

definition bench_rx :: eth_rx where
  "bench_rx = \<lparr>rdes1 = 0, rdes3 = 0x10000040,
     rx_data = array (replicate 12 0xFF @ [0x08, 0x06] @ replicate 46 0)\<rparr>"

definition bench_pbuf :: pbuf_chain where
  "bench_pbuf = \<lparr>pb_dropped = [], pb_segs = [[0, 0, 1, 2, 3], [4, 5]], pb_ref = False\<rparr>"

definition bench_eth :: eth_env where
  "bench_eth = \<lparr>ee_free = \<lambda>k. 16, ee_stale = \<lambda>k i. 0, ee_input = \<lambda>k. True\<rparr>"

definition bench_if :: eth_if where
  "bench_if = \<lparr>mdio_polls = 0, mdio_reads = 0, mdio_log = [], Ethernet_Phy_Id1 = 0, Ethernet_Phy_Id2 = 0, Phy_IdRed = False,
     iPhyInitDone = 1, timer_arp = 0, timer_tcp_fast = 0, timer_tcp_slow = 0, timer_link = 0, timerFlags = 0,
     netif_flags = 4, stack_calls = [], eth_out = [], rx_ring = [bench_rx], eth_allocs = 0, eth_inputs = 0\<rparr>"

lemma bench_rx_good: "rx_good bench_rx" "unat (rdes3 bench_rx AND 0x7FFF) = 64" "rx_length bench_rx = 60"
  by (simp_all add: rx_good_def bench_rx_def rx_length_def)


theorem eth_bad_descriptor_witness:
  "\<exists>q. length (concat (pb_segs q)) = 1 \<and>
     eth_out (ifx_netif_input bench_eth (bench_if\<lparr>rx_ring := [bench_rx\<lparr>rdes1 := 0x80\<rparr>]\<rparr>)) = [PbufFree q]"
proof -
  have "\<not> rx_good (bench_rx\<lparr>rdes1 := 0x80\<rparr>)" by (simp add: rx_good_def)
  with eth_bad_descriptor [of "bench_if\<lparr>rx_ring := [bench_rx\<lparr>rdes1 := 0x80\<rparr>]\<rparr>" "bench_rx\<lparr>rdes1 := 0x80\<rparr>" "[]" bench_eth]
  show ?thesis by (auto simp: bench_if_def bench_eth_def be16_def Let_def)
qed

end
