(* ===== verification/Board_Clock.thy ===== *)
theory Board_Clock
  imports Act_Speed
begin

unbundle bit_operations_syntax

text \<open>
  The clock of the gateway board, \<open>src/MAIN/BSW/Driver/stm.c\<close>. The timer counts 64 bits at 100 MHz; the
  functions for microseconds and milliseconds divide its count in single precision. The arithmetic is
  that of \<open>Act_Speed\<close>. The lemmas say when that is exact and how much of a time it loses.
\<close>

section \<open>The timer\<close>

type_synonym u64 = "64 word"

text \<open>The two registers, of which reading the low one freezes the high one.\<close>

record stm_regs =
  TIM0 :: u32
  CAP :: u32

definition stm_count :: "stm_regs \<Rightarrow> u64" where
  "stm_count r = ucast (TIM0 r) OR push_bit 32 (ucast (CAP r))"

definition stm_divide :: "u64 \<Rightarrow> rat \<Rightarrow> u64" where
  "stm_divide result d = word_of_int \<lfloor>f32 (f32 (of_nat (unat result)) / d)\<rfloor>"

definition getTimeUs :: "stm_regs \<Rightarrow> u64" where
  "getTimeUs r =
     (let result = stm_count r; frequency = f32 100000000
      in stm_divide result (f32 (frequency / f32 1000000)))"

definition getTimeMs :: "stm_regs \<Rightarrow> u64" where
  "getTimeMs r =
     (let result = stm_count r; frequency = f32 100000000
      in stm_divide result (f32 (frequency / f32 1000)))"

definition getTime10ns :: "stm_regs \<Rightarrow> u64" where
  "getTime10ns r = stm_count r"

section \<open>Single precision\<close>

lemma powi2_less: "(2 :: rat) powi a < 2 powi b \<longleftrightarrow> a < b"
  using power_int_strict_increasing [of a b "2 :: rat"] power_int_increasing [of b a "2 :: rat"]
  by (cases "a < b") auto

lemma rat_exponent_unique:
  assumes "2 powi e \<le> x" "x < 2 * 2 powi e"
  shows "rat_exponent x = e"
proof -
  have x: "0 < x" using assms(1) by (rule less_le_trans [rotated]) simp
  note b = rat_exponent_bounds [OF x]
  have s: "2 * 2 powi k = (2 powi (k + 1) :: rat)" for k :: int by (simp add: power_int_add)
  have "(2 :: rat) powi rat_exponent x < 2 powi (e + 1)" using b(1) assms(2) unfolding s by linarith
  moreover have "(2 :: rat) powi e < 2 powi (rat_exponent x + 1)" using b(2) assms(1) unfolding s by linarith
  ultimately show ?thesis by (simp add: powi2_less)
qed

lemma round_even_of_int [simp]: "round_even (of_int n) = n"
  by (simp add: round_even_def)

lemma round_even_mono: "x \<le> y \<Longrightarrow> round_even x \<le> round_even y"
proof -
  assume le: "x \<le> y"
  then have fl: "\<lfloor>x\<rfloor> \<le> \<lfloor>y\<rfloor>" by (rule floor_mono)
  have bound: "round_even z \<in> {\<lfloor>z\<rfloor>, \<lfloor>z\<rfloor> + 1}" for z by (simp add: round_even_def Let_def)
  show ?thesis
  proof (cases "\<lfloor>x\<rfloor> = \<lfloor>y\<rfloor>")
    case True
    then show ?thesis using le by (auto simp: round_even_def Let_def)
  next
    case False
    then have "\<lfloor>x\<rfloor> + 1 \<le> \<lfloor>y\<rfloor>" using fl by simp
    then show ?thesis using bound [of x] bound [of y] by auto
  qed
qed

lemma f32_pos: "0 < x \<Longrightarrow> f32 x = of_int (round_even (x / 2 powi (rat_exponent x - 23))) * 2 powi (rat_exponent x - 23)"
  by (simp add: f32_def Let_def)

text \<open>Rounding does not leave the powers of two around a number.\<close>

lemma f32_between:
  assumes "0 < x"
  shows "2 powi rat_exponent x \<le> f32 x" "f32 x \<le> 2 * 2 powi rat_exponent x"
proof -
  define q where "q = (2 :: rat) powi (rat_exponent x - 23)"
  have q: "0 < q" "2 powi rat_exponent x = 2 ^ 23 * q" by (simp_all add: q_def power_int_diff)
  have "of_int (2 ^ 23) \<le> x / q" "x / q \<le> of_int (2 ^ 24)"
    using rat_exponent_bounds [OF assms] q by (simp_all add: field_simps)
  then have "2 ^ 23 \<le> round_even (x / q)" "round_even (x / q) \<le> 2 ^ 24"
    using round_even_mono [of "of_int (2 ^ 23)" "x / q"] round_even_mono [of "x / q" "of_int (2 ^ 24)"]
    by (simp_all only: round_even_of_int)
  then have "of_int (2 ^ 23) \<le> (of_int (round_even (x / q)) :: rat)" "(of_int (round_even (x / q)) :: rat) \<le> of_int (2 ^ 24)"
    by (simp_all only: of_int_le_iff)
  then have "2 ^ 23 * q \<le> of_int (round_even (x / q)) * q" "of_int (round_even (x / q)) * q \<le> 2 ^ 24 * q"
    using q(1) by (simp_all add: mult_right_mono)
  then show "2 powi rat_exponent x \<le> f32 x" "f32 x \<le> 2 * 2 powi rat_exponent x"
    unfolding f32_pos [OF assms] q_def [symmetric] q(2) by simp_all
qed

lemma f32_mono:
  assumes "x \<le> y" shows "f32 x \<le> f32 y"
proof (cases "0 < x")
  case False
  have "0 \<le> f32 y" using f32_between(1) [of y] by (cases "0 < y") (auto simp: f32_def intro: order_trans [rotated])
  with False show ?thesis by (simp add: f32_def)
next
  case x: True
  with assms have y: "0 < y" by simp
  show ?thesis
  proof (cases "rat_exponent x = rat_exponent y")
    case True
    define q where "q = (2 :: rat) powi (rat_exponent y - 23)"
    have q: "0 < q" by (simp add: q_def)
    then have "x / q \<le> y / q" using assms by (simp add: divide_right_mono)
    then have "of_int (round_even (x / q)) * q \<le> of_int (round_even (y / q)) * q"
      using round_even_mono q by (simp add: mult_right_mono)
    then show ?thesis unfolding f32_pos [OF x] f32_pos [OF y] True q_def .
  next
    case False
    have s: "2 * 2 powi k = (2 powi (k + 1) :: rat)" for k :: int by (simp add: power_int_add)
    have "(2 :: rat) powi rat_exponent x < 2 powi (rat_exponent y + 1)"
      using rat_exponent_bounds(1) [OF x] rat_exponent_bounds(2) [OF y] assms unfolding s by linarith
    with False have "rat_exponent x + 1 \<le> rat_exponent y" by (simp add: powi2_less)
    then have "(2 :: rat) powi (rat_exponent x + 1) \<le> 2 powi rat_exponent y" by (intro power_int_increasing) simp_all
    then show ?thesis using f32_between(2) [OF x] f32_between(1) [OF y] unfolding s by linarith
  qed
qed

text \<open>Whole numbers below two to the 24 are kept.\<close>

lemma f32_nat:
  assumes "n < 2 ^ 24" shows "f32 (of_nat n) = of_nat n"
proof (cases "n = 0")
  case False
  define x where "x = (of_nat n :: rat)"
  have x: "0 < x" "x < 2 ^ 24" using False assms by (simp_all add: x_def)
  have "(2 :: rat) powi rat_exponent x < 2 powi 24" using rat_exponent_bounds(1) [OF x(1)] x(2) by simp
  then have e: "rat_exponent x < 24" by (simp only: powi2_less)
  define k where "k = nat (23 - rat_exponent x)"
  have k: "rat_exponent x - 23 = - int k" using e by (simp add: k_def)
  have "x / 2 powi (rat_exponent x - 23) = of_int (int n * 2 ^ k)" unfolding k by (simp add: x_def power_int_minus divide_inverse)
  then have "f32 x = of_int (int n * 2 ^ k) * 2 powi (- int k)" unfolding f32_pos [OF x(1)] k by (simp only: round_even_of_int)
  also have "\<dots> = x" by (simp add: x_def power_int_minus)
  finally show ?thesis by (simp add: x_def)
qed (simp add: f32_def)

section \<open>What the clock shows\<close>

lemma clock_divisors: "f32 (f32 100000000 / f32 1000000) = 100" "f32 (f32 100000000 / f32 1000) = 100000"
proof -
  have big: "f32 100000000 = 100000000"
  proof -
    have e: "rat_exponent 100000000 = 26" by (rule rat_exponent_unique) simp_all
    have "(100000000 :: rat) / 2 powi (26 - 23) = of_int 12500000" by simp
    then show ?thesis using f32_pos [of 100000000] unfolding e by (simp only: round_even_of_int) simp
  qed
  have n: "f32 1000000 = 1000000" "f32 1000 = 1000" "f32 100 = 100" "f32 100000 = 100000"
    using f32_nat [of 1000000] f32_nat [of 1000] f32_nat [of 100] f32_nat [of 100000] by simp_all
  show "f32 (f32 100000000 / f32 1000000) = 100" "f32 (f32 100000000 / f32 1000) = 100000"
    by (simp_all add: big n)
qed

lemma near_quotient: "0 < d \<Longrightarrow> near 2 (of_nat n / d) (f32 (f32 (of_nat n) / d))"
  using near_f32 [OF near_scale [OF near_f32 [OF near_refl [of "of_nat n"]], of "1 / d"]]
  by (simp add: numeral_2_eq_2)

lemma count_bound: "(of_nat (unat (c :: u64)) :: rat) < 2 ^ 64"
proof -
  have "unat c < 2 ^ 64" using unsigned_less [of c] by simp
  then have "(of_nat (unat c) :: rat) < of_nat (2 ^ 64)" by (simp only: of_nat_less_iff)
  then show ?thesis by simp
qed

lemma stm_divide_value:
  assumes "2 \<le> d"
  shows "int (unat (stm_divide c d)) = \<lfloor>f32 (f32 (of_nat (unat c)) / d)\<rfloor>"
    and "\<bar>f32 (f32 (of_nat (unat c)) / d) - of_nat (unat c) / d\<bar> \<le> of_nat (unat c) / d / 1000000"
proof -
  let ?x = "of_nat (unat c) / d" and ?y = "f32 (f32 (of_nat (unat c)) / d)"
  have n: "near 2 ?x ?y" using assms by (intro near_quotient) simp
  then have pos: "0 \<le> \<lfloor>?y\<rfloor>" using near_pos by (simp add: zero_le_floor)
  show err: "\<bar>?y - ?x\<bar> \<le> ?x / 1000000" by (rule near_abs [OF n]) simp
  have "of_nat (unat c) / d \<le> of_nat (unat c) / 2" using assms by (intro divide_left_mono of_nat_0_le_iff) simp_all
  moreover have "of_nat (unat c) / 2 < (9223372036854775808 :: rat)" using count_bound [of c] by simp
  ultimately have "?x < 9223372036854775808" by (rule le_less_trans)
  moreover have "y < 18446744073709551616" if "x < 9223372036854775808" "\<bar>y - x\<bar> \<le> x / 1000000" for x y :: rat
    using that by linarith
  ultimately have "?y < 18446744073709551616" using err by blast
  then have "\<lfloor>?y\<rfloor> < 2 ^ 64" by (simp add: floor_less_iff)
  with pos show "int (unat (stm_divide c d)) = \<lfloor>?y\<rfloor>"
    by (simp add: stm_divide_def unsigned_of_int take_bit_int_eq_self)
qed

text \<open>Below two to the 24 ticks the quotient is exact.\<close>

lemma stm_divide_exact:
  assumes "unat c < 2 ^ 24" "2 \<le> d" "of_nat e = d"
  shows "unat (stm_divide c d) = unat c div e"
proof -
  define n where "n = unat c"
  let ?k = "n div e" and ?y = "f32 (of_nat n / d)"
  have e: "0 < e" using assms(2,3) by (cases e) auto
  have "?k \<le> n" by simp
  then have "?k < 2 ^ 24" using assms(1) unfolding n_def by (rule le_less_trans)
  then have k: "f32 (of_nat ?k) = of_nat ?k" by (rule f32_nat)
  have "?k * e \<le> n" by simp
  then have "of_nat (?k * e) \<le> (of_nat n :: rat)" by (simp only: of_nat_le_iff)
  then have lo: "of_nat ?k \<le> of_nat n / d" using assms(2,3) by (simp add: le_divide_eq)
  then have "of_nat ?k \<le> ?y" using f32_mono [OF lo] k by simp
  moreover have "n + 1 \<le> (?k + 1) * e" using e by (simp add: dividend_less_times_div Suc_leI mult.commute)
  then have "(of_nat (n + 1) :: rat) \<le> of_nat ((?k + 1) * e)" by (simp only: of_nat_le_iff)
  then have hi: "of_nat n / d + 1 / d \<le> of_nat ?k + 1" using assms(2,3) by (simp add: field_simps)
  have "of_nat n < (2 ^ 24 :: rat)"
    using assms(1) by (metis n_def of_nat_less_iff of_nat_numeral of_nat_power)
  then have "of_nat n / d / 2 ^ 24 < 1 / d" using assms(2) by (simp add: field_simps)
  moreover have "\<bar>?y - of_nat n / d\<bar> \<le> of_nat n / d / 2 ^ 24" using assms(2) by (intro f32_error) simp
  ultimately have "of_nat ?k \<le> ?y" "?y < of_nat ?k + 1" using hi by linarith+
  then have "\<lfloor>?y\<rfloor> = int ?k" by (simp add: floor_eq_iff)
  moreover have "f32 (of_nat n) = of_nat n" using assms(1) by (intro f32_nat) (simp add: n_def)
  ultimately have "int (unat (stm_divide c d)) = int ?k"
    unfolding stm_divide_value(1) [OF assms(2)] n_def by simp
  then show ?thesis unfolding n_def of_nat_eq_iff .
qed

lemma stm_divide_mono: "2 \<le> d \<Longrightarrow> a \<le> b \<Longrightarrow> stm_divide a d \<le> stm_divide b d"
proof -
  assume d: "2 \<le> d" and "a \<le> b"
  then have "(of_nat (unat a) :: rat) \<le> of_nat (unat b)" by (intro of_nat_mono) (simp add: word_le_nat_alt)
  then have "f32 (f32 (of_nat (unat a)) / d) \<le> f32 (f32 (of_nat (unat b)) / d)"
    using d by (intro f32_mono divide_right_mono) simp_all
  then have "int (unat (stm_divide a d)) \<le> int (unat (stm_divide b d))"
    unfolding stm_divide_value(1) [OF d] by (rule floor_mono)
  then show ?thesis by (simp add: word_le_def)
qed

lemma getTime_divide: "getTimeUs r = stm_divide (stm_count r) 100" "getTimeMs r = stm_divide (stm_count r) 100000"
  by (simp_all add: getTimeUs_def getTimeMs_def clock_divisors Let_def)

text \<open>At two to the 40 ticks, three hours, a float counts in steps of two to the 17.\<close>

lemma f32_step:
  assumes "d \<le> 2 ^ 16" shows "f32 (of_nat (2 ^ 40 + d)) = 2 ^ 40"
proof -
  define x where "x = (of_nat (2 ^ 40 + d) :: rat)"
  have d: "(of_nat d :: rat) \<le> 2 ^ 16" using assms by (metis of_nat_le_iff of_nat_numeral of_nat_power)
  have x: "x = 2 ^ 40 + of_nat d" by (simp add: x_def)
  have e: "rat_exponent x = 40" using d by (intro rat_exponent_unique) (simp_all add: x)
  have q: "x / 2 powi (40 - 23) = of_int (2 ^ 23) + of_nat d / 2 ^ 17" by (simp add: x add_divide_distrib)
  have fl: "\<lfloor>of_int (2 ^ 23) + of_nat d / 2 ^ 17 :: rat\<rfloor> = 2 ^ 23"
    using d by (simp add: floor_eq_iff)
  have "round_even (of_int (2 ^ 23) + of_nat d / 2 ^ 17) = 2 ^ 23"
    unfolding round_even_def Let_def fl using d by (auto simp: field_simps)
  moreover have "0 < x" by (simp add: x)
  ultimately show ?thesis using f32_pos [of x] unfolding e q by (simp add: x_def)
qed

section \<open>Property\<close>

text \<open>
  C39. The clock never goes back. Its microseconds and milliseconds are exact for the first 167 milliseconds
  and later wrong by at most one part in a million; three hours after the start, 655 microseconds pass
  without the clock showing any of them.
\<close>

theorem board_clock:
  shows "(stm_count r \<le> stm_count r' \<longrightarrow> getTimeUs r \<le> getTimeUs r' \<and> getTimeMs r \<le> getTimeMs r') \<and>
    (unat (stm_count r) < 2 ^ 24 \<longrightarrow> unat (getTimeUs r) = unat (stm_count r) div 100 \<and> unat (getTimeMs r) = unat (stm_count r) div 100000) \<and>
    \<bar>of_nat (unat (getTimeUs r)) - of_nat (unat (stm_count r)) / 100\<bar> \<le> 1 + (of_nat (unat (stm_count r)) / 100 / 1000000 :: rat) \<and>
    (unat (stm_count r) = 2 ^ 40 \<and> unat (stm_count r') = 2 ^ 40 + d \<and> d \<le> 2 ^ 16 \<longrightarrow> getTimeUs r' = getTimeUs r)"
proof (intro conjI impI)
  show "\<bar>of_nat (unat (getTimeUs r)) - of_nat (unat (stm_count r)) / 100\<bar> \<le> 1 + (of_nat (unat (stm_count r)) / 100 / 1000000 :: rat)"
  proof -
    let ?y = "f32 (f32 (of_nat (unat (stm_count r))) / 100)"
    have "of_int (int (unat (getTimeUs r))) = (of_int \<lfloor>?y\<rfloor> :: rat)"
      using stm_divide_value(1) [of 100 "stm_count r"] by (simp add: getTime_divide)
    then have "(of_nat (unat (getTimeUs r)) :: rat) \<le> ?y" "?y < of_nat (unat (getTimeUs r)) + 1" by (simp_all, linarith)
    moreover have "\<bar>?y - of_nat (unat (stm_count r)) / 100\<bar> \<le> of_nat (unat (stm_count r)) / 100 / 1000000"
      by (rule stm_divide_value(2)) simp
    ultimately show ?thesis by linarith
  qed
next
  assume "unat (stm_count r) = 2 ^ 40 \<and> unat (stm_count r') = 2 ^ 40 + d \<and> d \<le> 2 ^ 16"
  then have "f32 (of_nat (unat (stm_count r))) = f32 (of_nat (unat (stm_count r')))"
    using f32_step [of 0] f32_step [of d] by simp
  then show "getTimeUs r' = getTimeUs r" by (simp add: getTime_divide stm_divide_def)
qed (simp_all add: getTime_divide stm_divide_mono stm_divide_exact)

text \<open>The registers at the start and three hours later.\<close>

lemma count_of_regs: "stm_count \<lparr>TIM0 = 0, CAP = 256\<rparr> = 2 ^ 40" "stm_count \<lparr>TIM0 = 60000, CAP = 256\<rparr> = 2 ^ 40 + 60000"
  by (simp_all add: stm_count_def push_bit_eq_mult)

theorem board_clock_witness:
  "getTimeUs \<lparr>TIM0 = 60000, CAP = 256\<rparr> = getTimeUs \<lparr>TIM0 = 0, CAP = 256\<rparr>"
  using board_clock [of "\<lparr>TIM0 = 0, CAP = 256\<rparr>" "\<lparr>TIM0 = 60000, CAP = 256\<rparr>" 60000] by (simp add: count_of_regs)

end
