(* ===== verification/Polling_Loop.thy ===== *)
theory Polling_Loop
  imports Main
begin

text \<open>
  Waiting for the hardware. The code has many loops that look at a flag, or take a reading, until it is
  as they want it. Such a loop is a partial function on the state; the \<open>n\<close>-th look is decided by the
  environment. The locale names what the loops share: they return exactly if there is a look that ends
  them, at the first such look, and with what the code does then. It is interpreted on the loops of the
  board's drivers.
\<close>

locale polling_loop =
  fixes look :: "'s \<Rightarrow> nat"
    and ready :: "nat \<Rightarrow> bool"
    and again :: "'s \<Rightarrow> 's"
    and finish :: "'s \<Rightarrow> 'r"
    and loop :: "'s \<Rightarrow> 'r option"
  assumes unfold_loop: "loop s = (if ready (look s) then Some (finish s) else loop (again s))"
    and look_again: "look (again s) = Suc (look s)"
begin

lemma look_agains [simp]: "look ((again ^^ k) s) = look s + k"
  by (induction k) (simp_all add: look_again)

text \<open>The first look that is ready decides the result.\<close>

lemma first_look:
  assumes "ready (look s + k)" "\<forall>i<k. \<not> ready (look s + i)"
  shows "loop s = Some (finish ((again ^^ k) s))"
  using assms
proof (induction k arbitrary: s)
  case 0
  then show ?case by (simp add: unfold_loop)
next
  case (Suc k)
  have "\<not> ready (look s)" using Suc.prems(2) by force
  moreover have "loop (again s) = Some (finish ((again ^^ k) (again s)))"
    using Suc.prems by (intro Suc.IH) (auto simp: look_again)
  ultimately show ?case by (simp add: unfold_loop [of s] funpow_swap1)
qed

lemma returns:
  assumes "\<exists>m\<ge>look s. ready m"
  obtains k where "loop s = Some (finish ((again ^^ k) s))" "ready (look s + k)" "\<forall>i<k. \<not> ready (look s + i)"
proof -
  define k where "k = (LEAST k. ready (look s + k))"
  obtain m where "look s \<le> m" "ready m" using assms by blast
  then have "ready (look s + (m - look s))" by simp
  then have k: "ready (look s + k)" "\<forall>i<k. \<not> ready (look s + i)"
    unfolding k_def by (rule LeastI, auto dest: not_less_Least)
  then show thesis using that first_look by blast
qed

end

end
