(* ===== verification/Board_Sonar.thy ===== *)
theory Board_Sonar
  imports Board_Clock Polling_Loop "HOL-Library.Multiset"
begin

text \<open>
  The ultrasonic sensors of the gateway board, \<open>src/MAIN/BSW/IO/Ultrasonic.c\<close>. The three pairs of functions
  differ in pins and static variables only. Echo pin and clock are inputs, indexed by the number of looks
  so far; one pass of a waiting loop is one look. The loop of 2000 empty passes that holds the trigger
  takes no time here. Distances are floats, as in \<open>Board_Clock\<close>.
\<close>

section \<open>The averaging filter\<close>

record avg_filter =
  filt_buf :: "rat list"
  old_index :: nat
  sensorRxCnt :: u32

abbreviation (input) FILT_SIZE :: nat where "FILT_SIZE \<equiv> 5"

definition filter_init :: avg_filter where
  "filter_init = \<lparr>filt_buf = replicate FILT_SIZE 0, old_index = 0, sensorRxCnt = 0\<rparr>"

definition filter_step :: "rat \<Rightarrow> avg_filter \<Rightarrow> rat \<times> avg_filter" where
  "filter_step distance_nofilt st =
     (let st = st\<lparr>old_index := (old_index st + 1) mod FILT_SIZE\<rparr>;
          st = st\<lparr>filt_buf := (filt_buf st)[old_index st := distance_nofilt]\<rparr>;
          st = st\<lparr>sensorRxCnt := sensorRxCnt st + 1\<rparr>
      in if sint (sensorRxCnt st) > 5
         then let total = foldl (\<lambda>sum x. f32 (sum + x)) 0 (filt_buf st) in (f32 (total / 5), st)
         else (distance_nofilt, st))"

section \<open>A measurement\<close>

record sonar_env =
  se_echo :: "nat \<Rightarrow> pin \<Rightarrow> bool"
  se_clock :: "nat \<Rightarrow> stm_regs"

record sonar = io +
  sonar_looks :: nat
  right_filt :: avg_filter
  left_filt :: avg_filter
  rear_filt :: avg_filter

definition sonar_time :: "sonar_env \<Rightarrow> 'a sonar_scheme \<Rightarrow> u64 \<times> 'a sonar_scheme" where
  "sonar_time e s = (getTimeUs (se_clock e (sonar_looks s)), s\<lparr>sonar_looks := Suc (sonar_looks s)\<rparr>)"

partial_function (option) wait_echo ::
    "sonar_env \<Rightarrow> pin \<Rightarrow> bool \<Rightarrow> u64 \<Rightarrow> 'a sonar_scheme \<Rightarrow> (bool \<times> 'a sonar_scheme) option" where
  "wait_echo e p level timeout s =
     (let n = sonar_looks s; s = s\<lparr>sonar_looks := Suc n\<rparr>
      in if se_echo e n p = level then Some (True, s)
         else if getTimeUs (se_clock e n) - timeout > 50000 then Some (False, s)
         else wait_echo e p level timeout s)"

definition sonar_distance :: "u64 \<Rightarrow> rat" where
  "sonar_distance duration =
     (if duration > 5850 then 100 else f32 (f32 (f32 (343 / 10000) * f32 (of_nat (unat duration))) / 2))"

definition read_sensor :: "pin \<Rightarrow> pin \<Rightarrow> sonar_env \<Rightarrow> 'a sonar_scheme \<Rightarrow> (rat \<times> 'a sonar_scheme) option" where
  "read_sensor trig echo e s =
     (let s = set_pin trig True s;
          s = set_pin trig False s;
          (timeout, s) = sonar_time e s
      in Option.bind (wait_echo e echo True timeout s) (\<lambda>(high, s).
        if \<not> high then Some (0, s)
        else
          let (timer_start, s) = sonar_time e s;
              timeout = timer_start
          in Option.bind (wait_echo e echo False timeout s) (\<lambda>(low, s).
            if \<not> low then Some (0, s)
            else let (timer_end, s) = sonar_time e s in Some (sonar_distance (timer_end - timer_start), s))))"

definition Ultrasonic_ReadRightSensor_noFilt :: "sonar_env \<Rightarrow> 'a sonar_scheme \<Rightarrow> (rat \<times> 'a sonar_scheme) option" where
  "Ultrasonic_ReadRightSensor_noFilt = read_sensor (15, 3) (15, 2)"

definition Ultrasonic_ReadLeftSensor_noFilt :: "sonar_env \<Rightarrow> 'a sonar_scheme \<Rightarrow> (rat \<times> 'a sonar_scheme) option" where
  "Ultrasonic_ReadLeftSensor_noFilt = read_sensor (10, 7) (2, 8)"

definition Ultrasonic_ReadSensor_noFilt :: "sonar_env \<Rightarrow> 'a sonar_scheme \<Rightarrow> (rat \<times> 'a sonar_scheme) option" where
  "Ultrasonic_ReadSensor_noFilt = read_sensor (13, 2) (13, 1)"

definition Ultrasonic_ReadRightSensor_Filt :: "sonar_env \<Rightarrow> 'a sonar_scheme \<Rightarrow> (rat \<times> 'a sonar_scheme) option" where
  "Ultrasonic_ReadRightSensor_Filt e s =
     Option.bind (Ultrasonic_ReadRightSensor_noFilt e s) (\<lambda>(d, s).
       let (f, st) = filter_step d (right_filt s) in Some (f, s\<lparr>right_filt := st\<rparr>))"

definition Ultrasonic_ReadLeftSensor_Filt :: "sonar_env \<Rightarrow> 'a sonar_scheme \<Rightarrow> (rat \<times> 'a sonar_scheme) option" where
  "Ultrasonic_ReadLeftSensor_Filt e s =
     Option.bind (Ultrasonic_ReadLeftSensor_noFilt e s) (\<lambda>(d, s).
       let (f, st) = filter_step d (left_filt s) in Some (f, s\<lparr>left_filt := st\<rparr>))"

definition Ultrasonic_ReadSensor_Filt :: "sonar_env \<Rightarrow> 'a sonar_scheme \<Rightarrow> (rat \<times> 'a sonar_scheme) option" where
  "Ultrasonic_ReadSensor_Filt e s =
     Option.bind (Ultrasonic_ReadSensor_noFilt e s) (\<lambda>(d, s).
       let (f, st) = filter_step d (rear_filt s) in Some (f, s\<lparr>rear_filt := st\<rparr>))"

definition Ultrasonics_Init :: "'a sonar_scheme \<Rightarrow> 'a sonar_scheme" where
  "Ultrasonics_Init s =
     (let s = set_mode (13, 2) OutputPushPull s;
          s = set_mode (13, 1) InputPullUp s;
          s = set_mode (15, 3) OutputPushPull s;
          s = set_mode (15, 2) InputPullUp s;
          s = set_mode (10, 7) OutputPushPull s
      in set_mode (2, 8) OutputPushPull s)"

section \<open>A measurement returns\<close>

interpretation echo_wait: polling_loop sonar_looks
  "\<lambda>n. se_echo e n p = level \<or> getTimeUs (se_clock e n) - timeout > 50000"
  "\<lambda>s. s\<lparr>sonar_looks := Suc (sonar_looks s)\<rparr>"
  "\<lambda>s. (se_echo e (sonar_looks s) p = level, s\<lparr>sonar_looks := Suc (sonar_looks s)\<rparr>)"
  "wait_echo e p level timeout"
  by unfold_locales (subst wait_echo.simps, simp_all add: Let_def)

lemma sonar_agains: "((\<lambda>s. s\<lparr>sonar_looks := Suc (sonar_looks s)\<rparr>) ^^ k) s = s\<lparr>sonar_looks := sonar_looks s + k\<rparr>"
  by (induction k) simp_all

text \<open>After any reading of the clock there is a later look at which more than 50 ms have passed.\<close>

definition clock_runs :: "sonar_env \<Rightarrow> bool" where
  "clock_runs e \<longleftrightarrow> (\<forall>k n. k \<le> n \<longrightarrow> (\<exists>m\<ge>n. getTimeUs (se_clock e m) - getTimeUs (se_clock e k) > 50000))"

lemma wait_echo_returns:
  assumes "clock_runs e" "k \<le> sonar_looks s"
  obtains b n where "wait_echo e p level (getTimeUs (se_clock e k)) s = Some (b, s\<lparr>sonar_looks := n\<rparr>)" "sonar_looks s < n"
proof -
  have "\<exists>m\<ge>sonar_looks s. se_echo e m p = level \<or> getTimeUs (se_clock e m) - getTimeUs (se_clock e k) > 50000"
    using assms unfolding clock_runs_def by blast
  then obtain j where "wait_echo e p level (getTimeUs (se_clock e k)) s =
      Some (se_echo e (sonar_looks s + j) p = level, s\<lparr>sonar_looks := Suc (sonar_looks s + j)\<rparr>)"
    using echo_wait.returns [of s e p level "getTimeUs (se_clock e k)" thesis] by (simp add: sonar_agains)
  then show thesis by (rule that) simp
qed

lemma sonar_distance_range: "0 \<le> sonar_distance d \<and> sonar_distance d \<le> 101"
proof (cases "d > 5850")
  case False
  let ?n = "of_nat (unat d) :: rat"
  have "unat d \<le> 5850" using False by (simp add: not_less word_le_nat_alt)
  then have n: "0 \<le> ?n" "?n \<le> 5850" using of_nat_mono [of "unat d" 5850, where ?'a = rat] by (rule_tac of_nat_0_le_iff, simp)
  have "near 3 (343 / 10000 * ?n) (f32 (f32 (343 / 10000) * f32 ?n))"
    using near_f32 [OF near_mult [OF near_f32 [OF near_refl [of "343 / 10000"]] near_f32 [OF near_refl [OF n(1)]]]]
    by (simp add: numeral_3_eq_3)
  from near_f32 [OF near_scale [OF this, of "1 / 2"]]
  have near: "near 4 (343 / 10000 * ?n / 2) (sonar_distance d)"
    using False by (simp add: sonar_distance_def eval_nat_numeral)
  have "\<bar>sonar_distance d - 343 / 10000 * ?n / 2\<bar> \<le> 343 / 10000 * ?n / 2 / 1000000" by (rule near_abs [OF near]) simp
  moreover have "y \<le> 101" if "\<bar>y - 343 / 10000 * x / 2\<bar> \<le> 343 / 10000 * x / 2 / 1000000" "x \<le> 5850" for x y :: rat
    using that by linarith
  ultimately show ?thesis using near_pos [OF near] n(2) by blast
qed (simp add: sonar_distance_def)

lemma read_sensor_returns:
  assumes "clock_runs e"
  shows "\<exists>d n. read_sensor trig echo e s = Some (d, (set_pin trig False (set_pin trig True s))\<lparr>sonar_looks := n\<rparr>) \<and>
    (d = 0 \<or> (\<exists>i j. i < j \<and> d = sonar_distance (getTimeUs (se_clock e j) - getTimeUs (se_clock e i))))"
proof -
  define t where "t = set_pin trig False (set_pin trig True s)"
  obtain b n where w: "wait_echo e echo True (getTimeUs (se_clock e (sonar_looks t))) (t\<lparr>sonar_looks := Suc (sonar_looks t)\<rparr>) =
      Some (b, t\<lparr>sonar_looks := n\<rparr>)"
    by (rule wait_echo_returns [OF assms, of "sonar_looks t" "t\<lparr>sonar_looks := Suc (sonar_looks t)\<rparr>" echo True]) auto
  obtain c m where v: "wait_echo e echo False (getTimeUs (se_clock e n)) (t\<lparr>sonar_looks := Suc n\<rparr>) = Some (c, t\<lparr>sonar_looks := m\<rparr>)" "n < m"
    by (rule wait_echo_returns [OF assms, of n "t\<lparr>sonar_looks := Suc n\<rparr>" echo False]) auto
  show ?thesis
    unfolding read_sensor_def t_def [symmetric] Let_def sonar_time_def
    using w v by (cases b; cases c) auto
qed

section \<open>The filter\<close>

lemma near_add: "near k a b \<Longrightarrow> near k c d \<Longrightarrow> near k (a + c) (b + d)"
  by (simp add: near_def distrib_right)

lemma near_weaken:
  assumes "near k x y" shows "near (Suc k) x y"
proof -
  let ?d = "1 - 1 / 2 ^ 24 :: rat" and ?u = "1 + 1 / 2 ^ 24 :: rat"
  have "?d ^ Suc k \<le> ?d ^ k" "?u ^ k \<le> ?u ^ Suc k" by (simp_all add: power_Suc_le_self)
  then have "x * ?d ^ Suc k \<le> x * ?d ^ k" "x * ?u ^ k \<le> x * ?u ^ Suc k"
    using assms by (auto simp: near_def intro!: mult_left_mono simp del: power_Suc)
  with assms show ?thesis unfolding near_def by linarith
qed

lemma near_more: "near k x y \<Longrightarrow> k \<le> j \<Longrightarrow> near j x y"
proof (induction j)
  case (Suc j)
  then show ?case using near_weaken by (cases "k = Suc j") auto
qed simp

text \<open>The sum of the buffer, rounded after each term.\<close>

lemma near_sum:
  "near k a b \<Longrightarrow> (\<forall>x\<in>set xs. 0 \<le> x) \<Longrightarrow> near (k + length xs) (a + sum_list xs) (foldl (\<lambda>sum x. f32 (sum + x)) b xs)"
proof (induction xs arbitrary: k a b)
  case (Cons x xs)
  have "near k (a + x) (b + x)" using Cons.prems near_more [OF near_refl [of x], of k] by (intro near_add) auto
  from Cons.IH [OF near_f32 [OF this]] Cons.prems(2) show ?case by (simp add: add.assoc)
qed simp

text \<open>The state after a list of readings: the last five are in the buffer.\<close>

definition filter_run :: "rat list \<Rightarrow> avg_filter" where
  "filter_run ds = foldl (\<lambda>st d. snd (filter_step d st)) filter_init ds"

lemma filter_step_state:
  "snd (filter_step d st) = \<lparr>filt_buf = (filt_buf st)[(old_index st + 1) mod 5 := d], old_index = (old_index st + 1) mod 5,
     sensorRxCnt = sensorRxCnt st + 1, \<dots> = avg_filter.more st\<rparr>"
  by (cases st) (simp add: filter_step_def Let_def)

lemma filter_step_value:
  "fst (filter_step d st) = (if sint (sensorRxCnt st + 1) > 5
     then f32 (foldl (\<lambda>sum x. f32 (sum + x)) 0 ((filt_buf st)[(old_index st + 1) mod 5 := d]) / 5) else d)"
  by (simp add: filter_step_def Let_def)

lemma filter_run_snoc: "filter_run (ds @ [d]) = snd (filter_step d (filter_run ds))"
  by (simp add: filter_run_def)

lemma filter_run_state:
  "old_index (filter_run ds) = length ds mod 5 \<and> sensorRxCnt (filter_run ds) = of_nat (length ds) \<and>
   length (filt_buf (filter_run ds)) = 5 \<and>
   (\<forall>k. k < length ds \<and> length ds \<le> k + 5 \<longrightarrow> filt_buf (filter_run ds) ! (Suc k mod 5) = ds ! k)"
proof (induction ds rule: rev_induct)
  case Nil
  show ?case by (simp add: filter_run_def filter_init_def)
next
  case (snoc d ds)
  define st where "st = filter_run ds"
  define i where "i = Suc (length ds) mod 5"
  have i: "Suc (old_index st) mod 5 = i" "i < 5" using snoc.IH by (simp_all add: st_def i_def mod_Suc_eq)
  have st: "filter_run (ds @ [d]) = \<lparr>filt_buf = (filt_buf st)[i := d], old_index = i, sensorRxCnt = sensorRxCnt st + 1\<rparr>"
    by (simp add: filter_run_snoc filter_step_state st_def [symmetric] i)
  have "(filt_buf st)[i := d] ! (Suc k mod 5) = (ds @ [d]) ! k" if k: "k \<le> length ds" "length ds < k + 5" for k
  proof (cases "k = length ds")
    case True
    then show ?thesis using snoc.IH i(2) by (simp add: st_def i_def)
  next
    case False
    with k have less: "k < length ds" "Suc (length ds) - Suc k < 5" "0 < Suc (length ds) - Suc k" by auto
    have "Suc k mod 5 \<noteq> i"
    proof
      assume "Suc k mod 5 = i"
      then have "5 dvd Suc (length ds) - Suc k" using less(1) unfolding i_def by (metis less_imp_le_nat mod_eq_dvd_iff_nat Suc_le_mono)
      then show False using less(2,3) by (meson nat_dvd_not_less)
    qed
    then show ?thesis using snoc.IH less(1) k(2) by (simp add: st_def nth_append)
  qed
  then show ?case using snoc.IH by (simp add: st st_def [symmetric] i_def)
qed

lemma filter_buffer:
  assumes "5 \<le> length ds"
  shows "mset (filt_buf (filter_run ds)) = mset (drop (length ds - 5) ds)"
proof -
  define b r where "b = filt_buf (filter_run ds)" and "r = length ds mod 5"
  have len: "length b = 5" using filter_run_state [of ds] by (simp add: b_def)
  have slots: "\<forall>k. k < length ds \<and> length ds \<le> k + 5 \<longrightarrow> b ! (Suc k mod 5) = ds ! k"
    using filter_run_state [of ds] unfolding b_def by blast
  have at: "b ! ((r + 1 + j) mod 5) = ds ! (length ds - 5 + j)" if "j < 5" for j
  proof -
    have "Suc (n - 5 + j) mod 5 = (n mod 5 + 1 + j) mod 5" if "5 \<le> n" for n :: nat
    proof -
      define c where "c = n - 5"
      then have c: "n = c + 5" using that by simp
      show ?thesis using mod_add_left_eq [of c 5 "Suc j"] by (simp add: c)
    qed
    from this [OF assms] slots [rule_format, of "length ds - 5 + j"] that assms show ?thesis by (simp add: r_def)
  qed
  have list5: "xs = [xs ! 0, xs ! 1, xs ! 2, xs ! 3, xs ! 4]" if "length xs = 5" for xs :: "rat list"
    using that by (intro nth_equalityI) (auto simp: less_Suc_eq numeral_eq_Suc)
  have d: "drop (length ds - 5) ds = map (\<lambda>j. b ! ((r + 1 + j) mod 5)) [0, 1, 2, 3, 4]"
    using at [of 0] at [of 1] at [of 2] at [of 3] at [of 4] list5 [of "drop (length ds - 5) ds"] assms by simp
  have "r < 5" by (simp add: r_def)
  then have "r = 0 \<or> r = 1 \<or> r = 2 \<or> r = 3 \<or> r = 4" by auto
  then have "mset (map (\<lambda>j. b ! ((r + 1 + j) mod 5)) [0, 1, 2, 3, 4]) = mset [b ! 0, b ! 1, b ! 2, b ! 3, b ! 4]"
    by (elim disjE) (simp_all flip: numeral_2_eq_2)
  also have "\<dots> = mset b" by (rule arg_cong [OF list5 [OF len, symmetric]])
  finally show ?thesis unfolding d b_def [symmetric] by (rule sym)
qed

section \<open>Properties\<close>


text \<open>
  The filter gives the first five readings as they are and then, up to two to the 31 readings, the mean
  of the last five, with at most one part in a million of error.
\<close>

theorem board_sonar_filter:
  assumes "Suc (length ds) < 2 ^ 31" "\<forall>x\<in>set (ds @ [d]). 0 \<le> x"
  shows "let v = fst (filter_step d (filter_run ds)); mean = sum_list (drop (length ds - 4) (ds @ [d])) / 5 in
    if length ds < 5 then v = d else \<bar>v - mean\<bar> \<le> mean / 1000000"
proof -
  define st where "st = filter_run (ds @ [d])"
  let ?n = "Suc (length ds)"
  have state: "sensorRxCnt (filter_run ds) + 1 = of_nat ?n" "(filt_buf (filter_run ds))[(old_index (filter_run ds) + 1) mod 5 := d] = filt_buf st"
    using filter_run_state [of ds] by (simp_all add: st_def filter_run_snoc filter_step_state)
  have "sint (of_nat ?n :: u32) = int ?n"
    using assms(1) by (simp only: signed_of_nat) (simp add: signed_take_bit_int_eq_self)
  then have v: "fst (filter_step d (filter_run ds)) =
      (if length ds < 5 then d else f32 (foldl (\<lambda>sum x. f32 (sum + x)) 0 (filt_buf st) / 5))"
    unfolding filter_step_value state by auto
  show ?thesis
  proof (cases "length ds < 5")
    case False
    define xs where "xs = drop (length ds - 4) (ds @ [d])"
    have m: "mset (filt_buf st) = mset xs" using filter_buffer [of "ds @ [d]"] False by (simp add: st_def xs_def)
    then have "set (filt_buf st) = set xs" by (rule mset_eq_setD)
    moreover have "set xs \<subseteq> set (ds @ [d])" unfolding xs_def by (rule set_drop_subset)
    ultimately have nonneg: "\<forall>x\<in>set (filt_buf st). 0 \<le> x" using assms(2) by blast
    have "sum_list (filt_buf st) = sum_list xs" using m by (metis sum_mset_sum_list)
    moreover have "length (filt_buf st) = 5" using filter_run_state [of "ds @ [d]"] by (simp add: st_def)
    ultimately have "near 5 (sum_list xs) (foldl (\<lambda>sum x. f32 (sum + x)) 0 (filt_buf st))"
      using near_sum [OF near_refl [of 0] nonneg] by simp
    from near_f32 [OF near_scale [OF this, of "1 / 5"]]
    have "near 6 (sum_list xs / 5) (fst (filter_step d (filter_run ds)))" using False by (simp add: v)
    from near_abs [OF this] False show ?thesis by (simp add: Let_def xs_def)
  qed (simp add: v)
qed

text \<open>A clock that counts 100 ms and wraps, an echo that never comes; six equal readings.\<close>

definition bench_sonar :: sonar_env where
  "bench_sonar = \<lparr>se_echo = \<lambda>n p. False, se_clock = \<lambda>n. \<lparr>TIM0 = (if even n then 0 else 10000000), CAP = 0\<rparr>\<rparr>"

lemma bench_sonar_clock: "getTimeUs (se_clock bench_sonar n) = (if even n then 0 else 100000)"
proof -
  have "unat (getTimeUs \<lparr>TIM0 = 10000000, CAP = 0\<rparr>) = 100000" "unat (getTimeUs \<lparr>TIM0 = 0, CAP = 0\<rparr>) = 0"
    by (simp_all add: getTime_divide stm_divide_exact [where e = 100] stm_count_def)
  then have "getTimeUs \<lparr>TIM0 = 10000000, CAP = 0\<rparr> = 100000" "getTimeUs \<lparr>TIM0 = 0, CAP = 0\<rparr> = 0"
    by (simp_all add: word_unat_eq_iff)
  then show ?thesis by (simp add: bench_sonar_def)
qed

lemma bench_clock_runs: "clock_runs bench_sonar"
  unfolding clock_runs_def
proof (intro allI impI)
  fix k n :: nat
  show "\<exists>m\<ge>n. 50000 < getTimeUs (se_clock bench_sonar m) - getTimeUs (se_clock bench_sonar k)"
  proof (cases "even k")
    case True
    then show ?thesis by (intro exI [of _ "Suc (2 * n)"]) (simp add: bench_sonar_clock)
  next
    case False
    then show ?thesis by (intro exI [of _ "2 * n"]) (simp add: bench_sonar_clock)
  qed
qed


theorem board_sonar_filter_witness:
  "\<bar>fst (filter_step 50 (filter_run [10, 20, 30, 40, 50])) - 38\<bar> \<le> 38 / 1000000"
  using board_sonar_filter [of "[10, 20, 30, 40, 50]" 50] by (simp add: Let_def)

end
