(* ===== verification/Board_Io.thy ===== *)
theory Board_Io
  imports Board_Clock Polling_Loop
begin

unbundle bit_operations_syntax

text \<open>
  Switches, lamps, buzzer, motor bridge and converter of the gateway board: \<open>GPIO.c\<close>, \<open>Buzzer.c\<close> and
  \<open>Motor.c\<close> of \<open>src/MAIN/BSW/IO\<close>, \<open>gtm_atom_pwm.c\<close>, \<open>gpt12.c\<close> and \<open>evadc.c\<close> of \<open>src/MAIN/BSW/Driver\<close>. Pins are
  those of \<open>Fw_Prelude\<close>. Passes of an empty loop are counted, not timed.
\<close>

section \<open>Lamps and switches\<close>

definition bit_of :: "u32 \<Rightarrow> bool" where
  "bit_of v \<longleftrightarrow> v AND 1 \<noteq> 0"

definition GPIO_SetLed :: "u8 \<Rightarrow> u8 \<Rightarrow> 'a io_scheme \<Rightarrow> 'a io_scheme" where
  "GPIO_SetLed num_LED onOff s =
     (if num_LED = 1 then set_pin (10, 2) (bit_of (ucast onOff)) s
      else if num_LED = 2 then set_pin (10, 1) (bit_of (ucast onOff)) s
      else s)"

definition GPIO_ToggleLed :: "u8 \<Rightarrow> 'a io_scheme \<Rightarrow> 'a io_scheme" where
  "GPIO_ToggleLed num_LED s =
     (if num_LED = 1 then set_pin (10, 2) (\<not> pin_cmd s (10, 2)) s
      else if num_LED = 2 then set_pin (10, 1) (\<not> pin_cmd s (10, 1)) s
      else s)"

definition GPIO_Init :: "'a io_scheme \<Rightarrow> 'a io_scheme" where
  "GPIO_Init s =
     (let s = set_mode (10, 1) OutputPushPull s;
          s = set_mode (10, 2) OutputPushPull s;
          s = GPIO_SetLed 1 0 s;
          s = GPIO_SetLed 2 0 s;
          s = set_mode (2, 0) InputPullUp s
      in set_mode (0, 7) InputPullUp s)"

abbreviation (input) SW1_PIN :: pin where "SW1_PIN \<equiv> (2, 0)"
abbreviation (input) SW2_PIN :: pin where "SW2_PIN \<equiv> (2, 1)"
abbreviation (input) SW3_PIN :: pin where "SW3_PIN \<equiv> (0, 7)"

definition get_switch :: "hw \<Rightarrow> pin \<Rightarrow> 'a io_scheme \<Rightarrow> bool \<times> 'a io_scheme" where
  "get_switch h p s = (case read_pin h p s of (b, s) \<Rightarrow> (\<not> b, s))"

definition GPIO_getSW1 :: "hw \<Rightarrow> 'a io_scheme \<Rightarrow> bool \<times> 'a io_scheme" where
  "GPIO_getSW1 h = get_switch h SW1_PIN"

definition GPIO_getSW2 :: "hw \<Rightarrow> 'a io_scheme \<Rightarrow> bool \<times> 'a io_scheme" where
  "GPIO_getSW2 h = get_switch h SW2_PIN"

definition GPIO_getSW3 :: "hw \<Rightarrow> 'a io_scheme \<Rightarrow> bool \<times> 'a io_scheme" where
  "GPIO_getSW3 h = get_switch h SW3_PIN"

text \<open>One round of the debouncing: ten samples, none for an unknown switch.\<close>

fun samples :: "(hw \<Rightarrow> 'a io_scheme \<Rightarrow> bool \<times> 'a io_scheme) \<Rightarrow> hw \<Rightarrow> nat \<Rightarrow> 'a io_scheme \<Rightarrow> bool list \<times> 'a io_scheme" where
  "samples get h 0 s = ([], s)"
| "samples get h (Suc n) s = (let (b, s) = get h s; (bs, s) = samples get h n s in (b # bs, s))"

definition sw_round :: "hw \<Rightarrow> nat \<Rightarrow> bool list \<Rightarrow> 'a io_scheme \<Rightarrow> bool list \<times> 'a io_scheme" where
  "sw_round h sw_num buf s =
     (if sw_num = 1 then samples GPIO_getSW1 h 10 s
      else if sw_num = 2 then samples GPIO_getSW2 h 10 s
      else if sw_num = 3 then samples GPIO_getSW3 h 10 s
      else (buf, s))"

partial_function (option) debounce ::
    "hw \<Rightarrow> nat \<Rightarrow> nat \<Rightarrow> bool list \<Rightarrow> 'a io_scheme \<Rightarrow> (bool \<times> 'a io_scheme) option" where
  "debounce h sw_num cnt buf s =
     (if cnt < 10000 then
        let (buf, s) = sw_round h sw_num buf s;
            cnt = (if list_all (\<lambda>b. b = hd buf) buf then cnt else 0)
        in debounce h sw_num (cnt + 1) buf s
      else Some (hd buf, s))"

definition GPIO_getSWxDebounce :: "hw \<Rightarrow> nat \<Rightarrow> 'a io_scheme \<Rightarrow> (bool \<times> 'a io_scheme) option" where
  "GPIO_getSWxDebounce h sw_num s = debounce h sw_num 0 (replicate 10 False) s"

section \<open>Buzzer\<close>

record board_buzzer = io +
  beepCnt :: int
  beepOnOff :: int
  spins :: "nat list"   \<comment> \<open>passes of each empty loop, oldest first\<close>

abbreviation (input) BUZZER_PIN :: pin where "BUZZER_PIN \<equiv> (2, 3)"

definition IsrGpt1T3Handler_Beep :: "'a board_buzzer_scheme \<Rightarrow> 'a board_buzzer_scheme" where
  "IsrGpt1T3Handler_Beep s =
     (let s = (if beepCnt s < beepOnOff s \<or> beepOnOff s = 1 then set_pin BUZZER_PIN (\<not> pin_cmd s BUZZER_PIN) s
               else if beepCnt s < beepOnOff s * 2 then set_pin BUZZER_PIN False s
               else s\<lparr>beepCnt := 0\<rparr>)
      in s\<lparr>beepCnt := beepCnt s + 1\<rparr>)"

definition setBeepCycle :: "int \<Rightarrow> 'a board_buzzer_scheme \<Rightarrow> 'a board_buzzer_scheme" where
  "setBeepCycle cycle s = s\<lparr>beepOnOff := cycle\<rparr>"

definition Buzzer_Init :: "'a board_buzzer_scheme \<Rightarrow> 'a board_buzzer_scheme" where
  "Buzzer_Init s = set_mode BUZZER_PIN OutputPushPull s"

definition spin :: "nat \<Rightarrow> 'a board_buzzer_scheme \<Rightarrow> 'a board_buzzer_scheme" where
  "spin n s = s\<lparr>spins := spins s @ [n]\<rparr>"

text \<open>A frequency of zero divides by zero in the code: \<open>Hz\<close> is meant to be positive.\<close>

definition Buzzer_Buzz :: "nat \<Rightarrow> 'a board_buzzer_scheme \<Rightarrow> 'a board_buzzer_scheme" where
  "Buzzer_Buzz Hz s =
     (let lp = 1000000000 div Hz div 2 div 5 div 2;
          s = set_pin BUZZER_PIN True s;
          s = spin lp s;
          s = set_pin BUZZER_PIN False s
      in spin lp s)"

definition beep_periods :: "nat \<Rightarrow> nat \<Rightarrow> nat" where
  "beep_periods Hz duration_ms =
     (let second = f32 (f32 (of_nat duration_ms) / 1000) in nat \<lfloor>f32 (f32 (of_nat Hz) * second)\<rfloor>)"

definition Buzzer_Beep :: "nat \<Rightarrow> nat \<Rightarrow> 'a board_buzzer_scheme \<Rightarrow> 'a board_buzzer_scheme" where
  "Buzzer_Beep Hz duration_ms s = (Buzzer_Buzz Hz ^^ beep_periods Hz duration_ms) s"

section \<open>Motor bridge\<close>

text \<open>The three pairs of configuration and driver of \<open>gtm_atom_pwm.c\<close>; only two of them are set up.\<close>

datatype pwm = PwmA | PwmB | PwmUnset

record board_motor = io +
  dutyCycle :: "pwm \<Rightarrow> u32"
  pwm_set_up :: "pwm \<Rightarrow> bool"
  pwm_inits :: "pwm list"

definition pwm_init :: "pwm \<Rightarrow> 'a board_motor_scheme \<Rightarrow> 'a board_motor_scheme" where
  "pwm_init c s = s\<lparr>pwm_inits := pwm_inits s @ [c]\<rparr>"

definition GtmAtomPwm_Init :: "'a board_motor_scheme \<Rightarrow> 'a board_motor_scheme" where
  "GtmAtomPwm_Init s =
     (let s = pwm_init PwmA (s\<lparr>pwm_set_up := (pwm_set_up s)(PwmA := True)\<rparr>)
      in pwm_init PwmB (s\<lparr>pwm_set_up := (pwm_set_up s)(PwmB := True)\<rparr>))"

definition GtmAtomPwm_SetDutyCycle :: "u32 \<Rightarrow> 'a board_motor_scheme \<Rightarrow> 'a board_motor_scheme" where
  "GtmAtomPwm_SetDutyCycle d s = pwm_init PwmUnset (s\<lparr>dutyCycle := (dutyCycle s)(PwmUnset := d)\<rparr>)"

definition GtmAtomPwmA_SetDutyCycle :: "u32 \<Rightarrow> 'a board_motor_scheme \<Rightarrow> 'a board_motor_scheme" where
  "GtmAtomPwmA_SetDutyCycle d s = pwm_init PwmA (s\<lparr>dutyCycle := (dutyCycle s)(PwmA := d)\<rparr>)"

definition GtmAtomPwmB_SetDutyCycle :: "u32 \<Rightarrow> 'a board_motor_scheme \<Rightarrow> 'a board_motor_scheme" where
  "GtmAtomPwmB_SetDutyCycle d s = pwm_init PwmB (s\<lparr>dutyCycle := (dutyCycle s)(PwmB := d)\<rparr>)"

abbreviation (input) DIR_A :: pin where "DIR_A \<equiv> (10, 1)"
abbreviation (input) DIR_B :: pin where "DIR_B \<equiv> (10, 2)"
abbreviation (input) BRAKE_A :: pin where "BRAKE_A \<equiv> (2, 7)"
abbreviation (input) BRAKE_B :: pin where "BRAKE_B \<equiv> (2, 6)"

definition board_Motor_Init :: "'a board_motor_scheme \<Rightarrow> 'a board_motor_scheme" where
  "board_Motor_Init s =
     (let s = set_mode BRAKE_A OutputPushPull s;
          s = set_mode BRAKE_B OutputPushPull s;
          s = GtmAtomPwm_Init s;
          s = GtmAtomPwmA_SetDutyCycle 0 s
      in GtmAtomPwmB_SetDutyCycle 0 s)"

definition Motor_movChA :: "int \<Rightarrow> 'a board_motor_scheme \<Rightarrow> 'a board_motor_scheme" where
  "Motor_movChA dir s =
     (let s = set_pin DIR_A (dir \<noteq> 0) s;
          s = set_pin BRAKE_A False s
      in GtmAtomPwm_SetDutyCycle 1000 s)"

definition Motor_stopChA :: "'a board_motor_scheme \<Rightarrow> 'a board_motor_scheme" where
  "Motor_stopChA s = set_pin BRAKE_A True s"

definition Motor_movChA_PWM :: "int \<Rightarrow> int \<Rightarrow> 'a board_motor_scheme \<Rightarrow> 'a board_motor_scheme" where
  "Motor_movChA_PWM duty dir s =
     (let s = GtmAtomPwmA_SetDutyCycle (word_of_int (duty * 10)) s;
          s = set_pin DIR_A (dir \<noteq> 0) s
      in set_pin BRAKE_A False s)"

definition Motor_movChB :: "int \<Rightarrow> 'a board_motor_scheme \<Rightarrow> 'a board_motor_scheme" where
  "Motor_movChB dir s =
     (let s = set_pin DIR_B (dir \<noteq> 0) s;
          s = set_pin BRAKE_B False s
      in GtmAtomPwm_SetDutyCycle 1000 s)"

definition Motor_stopChB :: "'a board_motor_scheme \<Rightarrow> 'a board_motor_scheme" where
  "Motor_stopChB s = set_pin BRAKE_B True s"

definition Motor_movChB_PWM :: "int \<Rightarrow> int \<Rightarrow> 'a board_motor_scheme \<Rightarrow> 'a board_motor_scheme" where
  "Motor_movChB_PWM duty dir s =
     (let s = GtmAtomPwmB_SetDutyCycle (word_of_int (duty * 10)) s;
          s = set_pin DIR_B (dir \<noteq> 0) s
      in set_pin BRAKE_B False s)"

section \<open>Delay counter and converter\<close>

record board_timer =
  cntDelay :: u32

definition IsrGpt2T6Handler :: "'a board_timer_scheme \<Rightarrow> 'a board_timer_scheme" where
  "IsrGpt2T6Handler s = s\<lparr>cntDelay := cntDelay s + 1\<rparr>"

definition getcntDelay :: "'a board_timer_scheme \<Rightarrow> u32" where
  "getcntDelay s = cntDelay s"

definition setcntDelay :: "u32 \<Rightarrow> 'a board_timer_scheme \<Rightarrow> 'a board_timer_scheme" where
  "setcntDelay n s = s\<lparr>cntDelay := n\<rparr>"

text \<open>The result of a conversion as the library reads it: a valid flag and twelve bits.\<close>

record adc_result =
  VF :: bool
  RESULT :: u16

partial_function (option) read_result :: "(nat \<Rightarrow> adc_result) \<Rightarrow> nat \<Rightarrow> (u32 \<times> nat) option" where
  "read_result res n = (if VF (res n) then Some (ucast (RESULT (res n)), Suc n) else read_result res (Suc n))"

definition Evadc_readVR :: "(nat \<Rightarrow> adc_result) \<Rightarrow> nat \<Rightarrow> (u32 \<times> nat) option" where
  "Evadc_readVR vr n = read_result vr n"

definition Evadc_readPR :: "(nat \<Rightarrow> adc_result) \<Rightarrow> nat \<Rightarrow> (u32 \<times> nat) option" where
  "Evadc_readPR pr n = read_result pr n"

interpretation converter: polling_loop "\<lambda>n. n" "\<lambda>n. VF (res n)" Suc "\<lambda>n. (ucast (RESULT (res n)), Suc n)" "read_result res"
  by unfold_locales (subst read_result.simps, simp_all)

section \<open>Debouncing\<close>

definition sw_pin :: "nat \<Rightarrow> pin option" where
  "sw_pin sw_num = (if sw_num = 1 then Some SW1_PIN else if sw_num = 2 then Some SW2_PIN else if sw_num = 3 then Some SW3_PIN else None)"

lemma get_switch_value: "get_switch h p s = (\<not> hw_pin h (io_reads s) p, s\<lparr>io_reads := Suc (io_reads s)\<rparr>)"
  by (simp add: get_switch_def read_pin_def)

lemma switches:
  "GPIO_getSW1 = (\<lambda>h. get_switch h SW1_PIN)" "GPIO_getSW2 = (\<lambda>h. get_switch h SW2_PIN)" "GPIO_getSW3 = (\<lambda>h. get_switch h SW3_PIN)"
  by (simp_all add: fun_eq_iff GPIO_getSW1_def GPIO_getSW2_def GPIO_getSW3_def)

lemma samples_value:
  "samples (\<lambda>h. get_switch h p) h n s = (map (\<lambda>i. \<not> hw_pin h (io_reads s + i) p) [0..<n], s\<lparr>io_reads := io_reads s + n\<rparr>)"
proof (induction n arbitrary: s)
  case (Suc n)
  have "map (\<lambda>i. \<not> hw_pin h (io_reads s + i) p) [0..<Suc n] =
      (\<not> hw_pin h (io_reads s) p) # map (\<lambda>i. \<not> hw_pin h (Suc (io_reads s) + i) p) [0..<n]"
    by (simp add: upt_conv_Cons map_Suc_upt [symmetric] del: upt_Suc)
  then show ?case by (simp add: get_switch_value [of h p s] Suc.IH Let_def del: upt_Suc)
qed simp

lemma sw_round_value:
  assumes "sw_pin sw_num = Some p"
  shows "sw_round h sw_num buf s = (map (\<lambda>i. \<not> hw_pin h (io_reads s + i) p) [0..<10], s\<lparr>io_reads := io_reads s + 10\<rparr>)"
  using assms by (auto simp: sw_round_def sw_pin_def switches samples_value simp del: upt_Suc split: if_splits)

text \<open>The round that starts at read \<open>n\<close> agrees on the level \<open>b\<close> of the switch.\<close>

definition agrees :: "hw \<Rightarrow> pin \<Rightarrow> nat \<Rightarrow> bool \<Rightarrow> bool" where
  "agrees h p n b \<longleftrightarrow> (\<forall>i<10. hw_pin h (n + i) p = (\<not> b))"

lemma debounce_step:
  assumes "sw_pin sw_num = Some p" "cnt < 10000"
  shows "debounce h sw_num cnt buf s = (let t = s\<lparr>io_reads := io_reads s + 10\<rparr>;
      bs = map (\<lambda>i. \<not> hw_pin h (io_reads s + i) p) [0..<10] in
    debounce h sw_num (if agrees h p (io_reads s) (\<not> hw_pin h (io_reads s) p) then cnt + 1 else 1) bs t)"
proof -
  have hd: "hd (map (\<lambda>i. \<not> hw_pin h (io_reads s + i) p) [0..<10]) = (\<not> hw_pin h (io_reads s) p)"
    by (simp add: hd_map upt_conv_Cons)
  have "list_all (\<lambda>b. b = (\<not> hw_pin h (io_reads s) p)) (map (\<lambda>i. \<not> hw_pin h (io_reads s + i) p) [0..<10]) =
      agrees h p (io_reads s) (\<not> hw_pin h (io_reads s) p)"
    by (auto simp: agrees_def list_all_iff)
  then show ?thesis using assms(2)
    by (subst debounce.simps) (simp add: sw_round_value [OF assms(1)] Let_def hd del: upt_Suc)
qed

text \<open>While the switch is steady every round counts.\<close>

lemma debounce_steady:
  assumes "sw_pin sw_num = Some p" "\<forall>k\<ge>io_reads s. hw_pin h k p = (\<not> b)" "cnt \<le> 10000"
  shows "debounce h sw_num cnt buf s =
    Some (if cnt = 10000 then hd buf else b, s\<lparr>io_reads := io_reads s + 10 * (10000 - cnt)\<rparr>)"
  using assms(2,3)
proof (induction "10000 - cnt" arbitrary: cnt buf s)
  case 0
  then show ?case by (subst debounce.simps) simp
next
  case (Suc m)
  then have less: "cnt < 10000" "10000 - Suc cnt = m" by simp_all
  define t where "t = s\<lparr>io_reads := io_reads s + 10\<rparr>"
  define bs where "bs = map (\<lambda>i. \<not> hw_pin h (io_reads s + i) p) [0..<10]"
  have b: "hw_pin h (io_reads s) p = (\<not> b)" "agrees h p (io_reads s) b" "hd bs = b"
    using Suc.prems(1) by (simp_all add: agrees_def bs_def hd_map upt_conv_Cons)
  have "debounce h sw_num cnt buf s = debounce h sw_num (Suc cnt) bs t"
    using debounce_step [OF assms(1) less(1), of h buf s] b by (simp add: Let_def t_def bs_def del: upt_Suc)
  also have "\<dots> = Some (if Suc cnt = 10000 then hd bs else b, t\<lparr>io_reads := io_reads t + 10 * (10000 - Suc cnt)\<rparr>)"
    using Suc.prems less by (intro Suc.hyps(1)) (simp_all add: t_def)
  also have "io_reads t + 10 * (10000 - Suc cnt) = io_reads s + 10 * (10000 - cnt)" using less(1) by (simp add: t_def)
  finally show ?case using less(1) b(3) by (simp add: t_def split: if_splits)
qed

lemma debounce_returns:
  assumes "sw_pin sw_num = Some p" "\<forall>k\<ge>n. hw_pin h k p = (\<not> b)" "cnt \<le> 10000"
  shows "\<exists>r. debounce h sw_num cnt buf s = Some r"
  using assms(3)
proof (induction "n - io_reads s" arbitrary: cnt buf s rule: less_induct)
  case less
  consider "n \<le> io_reads s" | "cnt = 10000" | "io_reads s < n" "cnt < 10000" using less.prems by linarith
  then show ?case
  proof cases
    case 1
    then have "\<forall>k\<ge>io_reads s. hw_pin h k p = (\<not> b)" using assms(2) by auto
    from debounce_steady [OF assms(1) this less.prems] show ?thesis by blast
  next
    case 2
    then show ?thesis by (subst debounce.simps) simp
  next
    case 3
    then show ?thesis unfolding debounce_step [OF assms(1) 3(2)] Let_def by (intro less.hyps) auto
  qed
qed

text \<open>The last round agreed on the level returned.\<close>

lemma debounce_last:
  fixes s :: "'a io_scheme"
  assumes "debounce h sw_num cnt buf s = Some (c, s')" "sw_pin sw_num = Some p" "cnt < 10000"
  shows "io_reads s + 10 \<le> io_reads s' \<and> agrees h p (io_reads s' - 10) c"
proof -
  define P where "P = (\<lambda>h sw_num cnt buf s (r :: bool \<times> 'a io_scheme). sw_pin sw_num = Some p \<longrightarrow>
      (if cnt < (10000 :: nat) then io_reads s + 10 \<le> io_reads (snd r) \<and> agrees h p (io_reads (snd r) - 10) (fst r)
       else r = (hd buf, s)))"
  have "P h sw_num cnt buf s (c, s')"
  proof (rule debounce.raw_induct [OF _ assms(1)])
    fix rec h sw_num cnt buf and s :: "'a io_scheme" and r
    assume IH: "\<And>h sw_num cnt buf s r. rec h sw_num cnt buf s = Some r \<Longrightarrow> P h sw_num cnt buf s r"
      and body: "(if cnt < 10000 then let (buf, s) = sw_round h sw_num buf s;
          cnt = if list_all (\<lambda>b. b = hd buf) buf then cnt else 0 in rec h sw_num (cnt + 1) buf s
        else Some (hd buf, s)) = Some r"
    show "P h sw_num cnt buf s r"
      unfolding P_def
    proof (intro impI)
      assume pin: "sw_pin sw_num = Some p"
      define bs where "bs = map (\<lambda>i. \<not> hw_pin h (io_reads s + i) p) [0..<10]"
      define t where "t = s\<lparr>io_reads := io_reads s + 10\<rparr>"
      define n where "n = (if list_all (\<lambda>b. b = hd bs) bs then cnt else 0) + 1"
      have hd: "hd bs = (\<not> hw_pin h (io_reads s) p)" by (simp add: bs_def hd_map upt_conv_Cons)
      have agree: "agrees h p (io_reads s) (hd bs)" if "list_all (\<lambda>b. b = hd bs) bs"
        using that unfolding hd by (auto simp: bs_def agrees_def list_all_iff simp del: upt_Suc)
      show "if cnt < 10000 then io_reads s + 10 \<le> io_reads (snd r) \<and> agrees h p (io_reads (snd r) - 10) (fst r)
        else r = (hd buf, s)"
      proof (cases "cnt < 10000")
        case True
        have "rec h sw_num n bs t = Some r"
          using body True by (simp add: sw_round_value [OF pin] Let_def n_def bs_def t_def del: upt_Suc)
        then have ih: "if n < 10000 then io_reads t + 10 \<le> io_reads (snd r) \<and> agrees h p (io_reads (snd r) - 10) (fst r)
            else r = (hd bs, t)" using IH pin unfolding P_def by blast
        show ?thesis
        proof (cases "n < 10000")
          case False
          then have "list_all (\<lambda>b. b = hd bs) bs" by (auto simp: n_def split: if_splits)
          with ih False True agree show ?thesis by (simp add: t_def)
        qed (use ih True in \<open>simp add: t_def\<close>)
      qed (use body in simp)
    qed
  qed
  then show ?thesis using assms(2,3) by (simp add: P_def)
qed

section \<open>Properties\<close>

text \<open>
  C36. Reading a debounced switch returns when the switch comes to rest, and what it returns the last ten
  samples had in common; a switch at rest is read in 100000 samples.
\<close>

theorem board_debounce:
  assumes "sw_pin sw_num = Some p" "\<forall>k\<ge>n. hw_pin h k p = (\<not> b)"
  shows "\<exists>c s'. GPIO_getSWxDebounce h sw_num s = Some (c, s') \<and> (\<forall>i<10. hw_pin h (io_reads s' - 10 + i) p = (\<not> c)) \<and>
    (n \<le> io_reads s \<longrightarrow> c = b \<and> io_reads s' = io_reads s + 100000)"
proof -
  obtain c s' where r: "debounce h sw_num 0 (replicate 10 False) s = Some (c, s')"
    using debounce_returns [OF assms, of 0 "replicate 10 False" s] by auto
  have "agrees h p (io_reads s' - 10) c" using debounce_last [OF r assms(1)] by simp
  moreover have "c = b \<and> io_reads s' = io_reads s + 100000" if "n \<le> io_reads s"
  proof -
    have "\<forall>k\<ge>io_reads s. hw_pin h k p = (\<not> b)" using that assms(2) by auto
    from debounce_steady [OF assms(1) this, of 0 "replicate 10 False"] r show ?thesis by auto
  qed
  ultimately show ?thesis using r by (auto simp: GPIO_getSWxDebounce_def agrees_def)
qed

text \<open>
  The beeper. With a cycle of \<open>c\<close> interrupts the pin toggles for \<open>c\<close> interrupts and is low for the next \<open>c\<close>,
  over and over. A cycle of zero stops it where it is: the pin keeps its level, high or low.
\<close>

lemma beep_tick:
  assumes "beepOnOff s = int c" "2 \<le> c" "beepCnt s = int m + 1" "m < 2 * c"
    and "pin_cmd s BUZZER_PIN \<longleftrightarrow> m < c \<and> odd m"
  shows "let t = IsrGpt1T3Handler_Beep s; k = (if Suc m = 2 * c then 0 else Suc m) in
    beepOnOff t = int c \<and> beepCnt t = int k + 1 \<and> k < 2 * c \<and> (pin_cmd t BUZZER_PIN \<longleftrightarrow> k < c \<and> odd k)"
proof -
  consider "Suc m < c" | "c \<le> Suc m" "Suc m < 2 * c" | "Suc m = 2 * c" using assms(4) by linarith
  then show ?thesis using assms by cases (auto simp: IsrGpt1T3Handler_Beep_def Let_def set_pin_def)
qed

theorem board_beep:
  assumes "beepOnOff s = int c" "2 \<le> c" "beepCnt s = 1" "\<not> pin_cmd s BUZZER_PIN"
  shows "let t = (IsrGpt1T3Handler_Beep ^^ n) s; m = n mod (2 * c) in
    beepCnt t = int m + 1 \<and> (pin_cmd t BUZZER_PIN \<longleftrightarrow> m < c \<and> odd m)"
proof -
  have "let t = (IsrGpt1T3Handler_Beep ^^ n) s; m = n mod (2 * c) in
    beepOnOff t = int c \<and> beepCnt t = int m + 1 \<and> (pin_cmd t BUZZER_PIN \<longleftrightarrow> m < c \<and> odd m)"
  proof (induction n)
    case 0
    then show ?case using assms by simp
  next
    case (Suc n)
    have "n mod (2 * c) < 2 * c" using assms(2) by simp
    from beep_tick [OF _ assms(2) _ this, of "(IsrGpt1T3Handler_Beep ^^ n) s"] Suc.IH show ?case
      by (simp add: Let_def mod_Suc)
  qed
  then show ?thesis by (simp add: Let_def)
qed

lemma beep_stuck:
  assumes "beepOnOff s = 0" "0 \<le> beepCnt s"
  shows "pin_cmd (IsrGpt1T3Handler_Beep s) = pin_cmd s \<and> 0 \<le> beepCnt (IsrGpt1T3Handler_Beep s)"
  using assms by (simp add: IsrGpt1T3Handler_Beep_def Let_def)

text \<open>Full speed ahead sets the duty of a driver that was never set up: the motor, its brake released, stands still.\<close>

lemma full_speed_stands_still:
  "dutyCycle (Motor_movChA dir (board_Motor_Init s)) PwmA = 0"
  "dutyCycle (Motor_movChB dir (board_Motor_Init s)) PwmB = 0"
  "pwm_set_up (board_Motor_Init s) PwmUnset = pwm_set_up s PwmUnset"
  "last (pwm_inits (Motor_movChA dir (board_Motor_Init s))) = PwmUnset"
  by (simp_all add: Motor_movChA_def Motor_movChB_def board_Motor_Init_def GtmAtomPwm_Init_def GtmAtomPwm_SetDutyCycle_def
      GtmAtomPwmA_SetDutyCycle_def GtmAtomPwmB_SetDutyCycle_def pwm_init_def set_pin_def set_mode_def Let_def)

lemma conversion_first_valid:
  assumes "VF (vr (n + k))" "\<forall>i<k. \<not> VF (vr (n + i))"
  shows "Evadc_readVR vr n = Some (ucast (RESULT (vr (n + k))), Suc (n + k))"
proof -
  have "(Suc ^^ k) n = n + k" by (induction k) simp_all
  then show ?thesis using converter.first_look [of vr n k, OF assms] unfolding Evadc_readVR_def by (simp only:)
qed

definition bench_board_hw :: hw where
  "bench_board_hw = \<lparr>hw_pin = \<lambda>n p. False, hw_stm = \<lambda>n. 0, hw_ticks_us = 100, hw_can = \<lambda>n. SentStatus 0\<rparr>"

theorem board_debounce_witness:
  "\<forall>s :: io. \<exists>s'. GPIO_getSWxDebounce bench_board_hw 1 s = Some (True, s')"
proof
  fix s :: io
  have "sw_pin 1 = Some SW1_PIN" "\<forall>k\<ge>0. hw_pin bench_board_hw k SW1_PIN = (\<not> True)"
    by (simp_all add: sw_pin_def bench_board_hw_def)
  from board_debounce [OF this, of s] show "\<exists>s'. GPIO_getSWxDebounce bench_board_hw 1 s = Some (True, s')"
    by auto
qed

definition bench_buzzer :: board_buzzer where
  "bench_buzzer = \<lparr>io_reads = 0, pin_cmd = \<lambda>p. False, pin_cfg = \<lambda>p. None, io_log = [], beepCnt = 1, beepOnOff = 10, spins = []\<rparr>"

theorem board_beep_witness: "pin_cmd ((IsrGpt1T3Handler_Beep ^^ 23) bench_buzzer) BUZZER_PIN"
  using board_beep [of bench_buzzer 10 23] by (simp add: bench_buzzer_def Let_def)

end
