(* ===== verification/Board_Uart.thy ===== *)
theory Board_Uart
  imports Fw_Prelude Polling_Loop
begin

unbundle bit_operations_syntax

text \<open>
  The serial ports of the gateway board: \<open>src/MAIN/BSW/Driver/asclin.c\<close>, the console
  \<open>src/MAIN/BSW/etc/my_stdio.c\<close> and the Bluetooth module \<open>src/MAIN/BSW/etc/Bluetooth.c\<close>. The flags and
  the data register of a port are inputs, indexed by the number of looks at them; what the program
  writes is a log, oldest first. Writing or reading beyond a local array is the value \<open>Inl\<close> of a result.
\<close>

section \<open>A port\<close>

record uart_env =
  ue_ready :: "nat \<Rightarrow> bool"    \<comment> \<open>\<open>FLAGS.TFL\<close> is set at the n-th look\<close>
  ue_filled :: "nat \<Rightarrow> bool"   \<comment> \<open>\<open>FLAGS.RFL\<close> is set at the n-th poll\<close>
  ue_data :: "nat \<Rightarrow> u8"       \<comment> \<open>\<open>RXDATA\<close> at the n-th poll\<close>
  ue_error :: "nat \<Rightarrow> bool"    \<comment> \<open>one of \<open>FLAGS.PE\<close>, \<open>FE\<close>, \<open>RFO\<close> at the n-th poll\<close>

datatype uart_event = TxClear | TxByte u8 | RxClear | ErrorClear | DelayMs u32

record uart =
  tx_looks :: nat
  rx_polls :: nat
  uart_log :: "uart_event list"

definition uart_emit :: "uart_event \<Rightarrow> uart \<Rightarrow> uart" where
  "uart_emit v u = u\<lparr>uart_log := uart_log u @ [v]\<rparr>"

partial_function (option) OutUart :: "uart_env \<Rightarrow> u8 \<Rightarrow> uart \<Rightarrow> uart option" where
  "OutUart e chr u =
     (let u' = u\<lparr>tx_looks := Suc (tx_looks u)\<rparr>
      in if ue_ready e (tx_looks u) then Some (uart_emit (TxByte chr) (uart_emit TxClear u')) else OutUart e chr u')"

definition PollUart :: "uart_env \<Rightarrow> uart \<Rightarrow> u8 option \<times> uart" where
  "PollUart e u =
     (let n = rx_polls u; u = u\<lparr>rx_polls := Suc n\<rparr>
      in if ue_filled e n then
           let ret = ue_data e n; u = uart_emit RxClear u
           in if ue_error e n then (None, uart_emit ErrorClear u) else (Some ret, u)
         else (None, u))"

partial_function (option) InUart :: "uart_env \<Rightarrow> uart \<Rightarrow> (u8 \<times> uart) option" where
  "InUart e u = (case PollUart e u of (Some ch, u) \<Rightarrow> Some (ch, u) | (None, u) \<Rightarrow> InUart e u)"

definition InUartNonBlock :: "uart_env \<Rightarrow> uart \<Rightarrow> u8 \<times> uart" where
  "InUartNonBlock e u = (case PollUart e u of (Some ch, u) \<Rightarrow> (ch, u) | (None, u) \<Rightarrow> (- 1, u))"

section \<open>The two ports of the board\<close>

text \<open>\<open>ASCLIN0\<close> is the console, \<open>ASCLIN1\<close> goes to the Bluetooth module; their drivers are the same code.\<close>

record board_uart =
  asc0 :: uart
  asc1 :: uart

definition on_asc0 :: "(uart \<Rightarrow> uart option) \<Rightarrow> 'a board_uart_scheme \<Rightarrow> 'a board_uart_scheme option" where
  "on_asc0 f s = map_option (\<lambda>u. s\<lparr>asc0 := u\<rparr>) (f (asc0 s))"

definition on_asc1 :: "(uart \<Rightarrow> uart option) \<Rightarrow> 'a board_uart_scheme \<Rightarrow> 'a board_uart_scheme option" where
  "on_asc1 f s = map_option (\<lambda>u. s\<lparr>asc1 := u\<rparr>) (f (asc1 s))"

definition Asclin0_OutUart :: "uart_env \<Rightarrow> u8 \<Rightarrow> 'a board_uart_scheme \<Rightarrow> 'a board_uart_scheme option" where
  "Asclin0_OutUart e chr = on_asc0 (OutUart e chr)"

definition Asclin1_OutUart :: "uart_env \<Rightarrow> u8 \<Rightarrow> 'a board_uart_scheme \<Rightarrow> 'a board_uart_scheme option" where
  "Asclin1_OutUart e chr = on_asc1 (OutUart e chr)"

definition Asclin0_InUart :: "uart_env \<Rightarrow> 'a board_uart_scheme \<Rightarrow> (u8 \<times> 'a board_uart_scheme) option" where
  "Asclin0_InUart e s = map_option (\<lambda>(ch, u). (ch, s\<lparr>asc0 := u\<rparr>)) (InUart e (asc0 s))"

definition Asclin1_InUart :: "uart_env \<Rightarrow> 'a board_uart_scheme \<Rightarrow> (u8 \<times> 'a board_uart_scheme) option" where
  "Asclin1_InUart e s = map_option (\<lambda>(ch, u). (ch, s\<lparr>asc1 := u\<rparr>)) (InUart e (asc1 s))"

definition Asclin0_InUartNonBlock :: "uart_env \<Rightarrow> 'a board_uart_scheme \<Rightarrow> u8 \<times> 'a board_uart_scheme" where
  "Asclin0_InUartNonBlock e s = (case InUartNonBlock e (asc0 s) of (ch, u) \<Rightarrow> (ch, s\<lparr>asc0 := u\<rparr>))"

definition Asclin0RxIsrHandler :: "uart_env \<Rightarrow> 'a board_uart_scheme \<Rightarrow> 'a board_uart_scheme option" where
  "Asclin0RxIsrHandler e s = do { (c, s) \<leftarrow> Asclin0_InUart e s; Asclin0_OutUart e c s }"

fun send_all :: "uart_env \<Rightarrow> u8 list \<Rightarrow> uart \<Rightarrow> uart option" where
  "send_all e [] u = Some u"
| "send_all e (c # cs) u = do { u \<leftarrow> OutUart e c u; send_all e cs u }"

section \<open>The console\<close>

datatype c_error = OutOfBounds

type_synonym 'a run = "(c_error + 'a) option"

text \<open>A C string ends at the first zero byte.\<close>

definition c_str :: "u8 list \<Rightarrow> u8 list" where
  "c_str cs = takeWhile (\<lambda>c. c \<noteq> 0) cs"

fun crlf :: "u8 list \<Rightarrow> u8 list" where
  "crlf [] = []"
| "crlf (c # cs) = (if c = 0x0A then 0x0D # c # crlf cs else c # crlf cs)"

abbreviation (input) BUFSIZE :: nat where "BUFSIZE \<equiv> 128"

text \<open>\<open>txt\<close> is what \<open>vsprintf\<close> makes of the format and the arguments, up to its terminating zero.\<close>

definition printf_bytes :: "u8 list \<Rightarrow> c_error + u8 list" where
  "printf_bytes txt =
     (if length txt \<ge> BUFSIZE then Inl OutOfBounds
      else let buffer2 = crlf (c_str txt) in if length buffer2 \<ge> BUFSIZE then Inl OutOfBounds else Inr buffer2)"

definition my_printf :: "uart_env \<Rightarrow> u8 list \<Rightarrow> 'a board_uart_scheme \<Rightarrow> 'a board_uart_scheme run" where
  "my_printf e txt s =
     (case printf_bytes txt of Inl er \<Rightarrow> Some (Inl er)
      | Inr buffer2 \<Rightarrow> map_option Inr (on_asc0 (send_all e buffer2) s))"

definition my_puts :: "uart_env \<Rightarrow> u8 list \<Rightarrow> 'a board_uart_scheme \<Rightarrow> 'a board_uart_scheme run" where
  "my_puts e str s =
     (let buffer = c_str str @ [0x0D, 0x0A]
      in if length buffer \<ge> BUFSIZE then Some (Inl OutOfBounds)
         else map_option Inr (on_asc0 (send_all e buffer) s))"

text \<open>The loop of \<open>my_scanf\<close> that reads and echoes a line; \<open>buf\<close> has 128 bytes.\<close>

abbreviation (input) KB_BS :: u8 where "KB_BS \<equiv> 0x7F"
abbreviation (input) KB_CR :: u8 where "KB_CR \<equiv> 0x0D"

partial_function (option) scan_line ::
    "uart_env \<Rightarrow> u8 list \<Rightarrow> nat \<Rightarrow> 'a board_uart_scheme \<Rightarrow> (u8 list \<times> 'a board_uart_scheme) run" where
  "scan_line e buf idx s =
     Option.bind (Asclin0_InUart e s) (\<lambda>(c, s).
       if c = KB_BS \<or> c = 8 then
         if idx > 0 then
           Option.bind (my_printf e [8, 0x20, 8] s) (\<lambda>r. case r of Inl er \<Rightarrow> Some (Inl er)
             | Inr s \<Rightarrow> scan_line e (buf[idx - 1 := 0]) (idx - 1) s)
         else scan_line e buf idx s
       else if c = KB_CR then
         if idx + 1 \<ge> length buf then Some (Inl OutOfBounds)
         else Option.bind (my_printf e [c] s) (\<lambda>r. case r of Inl er \<Rightarrow> Some (Inl er)
             | Inr s \<Rightarrow> Some (Inr (buf[idx + 1 := 0], s)))
       else if idx \<ge> length buf then Some (Inl OutOfBounds)
       else Option.bind (my_printf e [c] s) (\<lambda>r. case r of Inl er \<Rightarrow> Some (Inl er)
             | Inr s \<Rightarrow> scan_line e (buf[idx := c]) (idx + 1) s))"

text \<open>\<open>remove_null\<close> moves the rest of the line to the front. It looks for a byte that is
  not zero and then for the zero that ends the rest, neither of which need be in the buffer.\<close>

definition remove_null :: "u8 list \<Rightarrow> c_error + u8 list" where
  "remove_null s =
     (let rest = dropWhile (\<lambda>c. c = 0) s
      in if 0 \<notin> set rest then Inl OutOfBounds
         else let buf = c_str rest in Inr (buf @ replicate (length s - length buf) 0))"

text \<open>
  The value of \<open>atoi\<close> and \<open>atoll\<close> as long as it fits the type; outside, C leaves it undefined. What
  \<open>atof\<close> gives is the argument \<open>af\<close>.
\<close>

definition is_space :: "u8 \<Rightarrow> bool" where
  "is_space c \<longleftrightarrow> c = 0x20 \<or> 9 \<le> c \<and> c \<le> 13"

definition is_digit :: "u8 \<Rightarrow> bool" where
  "is_digit c \<longleftrightarrow> 0x30 \<le> c \<and> c \<le> 0x39"

definition digits_value :: "u8 list \<Rightarrow> int" where
  "digits_value cs = foldl (\<lambda>v c. 10 * v + (uint c - 0x30)) 0 (takeWhile is_digit cs)"

definition c_atoi :: "u8 list \<Rightarrow> int" where
  "c_atoi buf =
     (case dropWhile is_space (c_str buf) of
        [] \<Rightarrow> 0
      | c # cs \<Rightarrow> if c = 0x2D then - digits_value cs else if c = 0x2B then digits_value cs else digits_value (c # cs))"

datatype 'r scan_value = ScanChar u8 | ScanInt int | ScanLong int | ScanStr "u8 list" | ScanFloat 'r | ScanDouble 'r

text \<open>What the number conversions do to the line: the first word and the space behind it become zeros.\<close>

definition blank_word :: "u8 list \<Rightarrow> u8 list" where
  "blank_word buf =
     (let k = length (takeWhile (\<lambda>c. c \<noteq> 0 \<and> c \<noteq> 0x20) buf) in replicate (Suc k) 0 @ drop (Suc k) buf)"

definition blank_string :: "u8 list \<Rightarrow> u8 list" where
  "blank_string buf = (let k = length (c_str buf) in replicate k 0 @ drop k buf)"

fun scan_format :: "(u8 list \<Rightarrow> 'r) \<Rightarrow> u8 list \<Rightarrow> u8 list \<Rightarrow> 'r scan_value list \<Rightarrow> c_error + 'r scan_value list" where
  "scan_format af [] buf vs = Inr vs"
| "scan_format af (c # fmt) buf vs =
     (if c = 0 then Inr vs
      else if c \<noteq> 0x25 then scan_format af fmt buf vs
      else case fmt of
        [] \<Rightarrow> Inl OutOfBounds
      | c # fmt \<Rightarrow>
          if c = 0x6C then
            (case fmt of
               [] \<Rightarrow> Inl OutOfBounds
             | c1 # fmt \<Rightarrow>
                 let (vs, buf) = (if c1 = 0x64 then (vs @ [ScanLong (c_atoi buf)], blank_word buf)
                                  else if c1 = 0x66 then (vs @ [ScanDouble (af (c_str buf))], blank_word buf)
                                  else (vs, buf))
                 in case remove_null buf of Inl er \<Rightarrow> Inl er | Inr buf \<Rightarrow> scan_format af fmt buf vs)
          else
            let (vs, buf) = (if c = 0x63 then (vs @ [ScanChar (buf ! 0)], buf[0 := 0])
                             else if c = 0x64 then (vs @ [ScanInt (c_atoi buf)], blank_word buf)
                             else if c = 0x73 then (vs @ [ScanStr (c_str buf)], blank_string buf)
                             else if c = 0x66 then (vs @ [ScanFloat (af (c_str buf))], blank_word buf)
                             else (vs, buf))
            in case remove_null buf of Inl er \<Rightarrow> Inl er | Inr buf \<Rightarrow> scan_format af fmt buf vs)"

declare scan_format.simps(2) [simp del]

definition my_scanf :: "(u8 list \<Rightarrow> 'r) \<Rightarrow> uart_env \<Rightarrow> u8 list \<Rightarrow> 'a board_uart_scheme \<Rightarrow> ('r scan_value list \<times> 'a board_uart_scheme) run" where
  "my_scanf af e fmt s =
     Option.bind (scan_line e (replicate 128 0) 0 s) (\<lambda>r. case r of Inl er \<Rightarrow> Some (Inl er)
       | Inr (buf, s) \<Rightarrow> Option.bind (my_printf e [0x0A] s) (\<lambda>r. case r of Inl er \<Rightarrow> Some (Inl er)
           | Inr s \<Rightarrow> Some (case scan_format af fmt buf [] of Inl er \<Rightarrow> Inl er | Inr vs \<Rightarrow> Inr (vs, s))))"

section \<open>The Bluetooth module\<close>

text \<open>A command is built in a buffer of 30 bytes and sent with its terminating zero, then 300 ms pass.\<close>

definition at_command :: "uart_env \<Rightarrow> u8 list \<Rightarrow> 'a board_uart_scheme \<Rightarrow> 'a board_uart_scheme run" where
  "at_command e txt s =
     (if length txt \<ge> 30 then Some (Inl OutOfBounds)
      else do {
        s \<leftarrow> on_asc1 (send_all e (c_str txt @ [0])) s;
        Some (Inr (s\<lparr>asc1 := uart_emit (DelayMs 300) (asc1 s)\<rparr>)) })"

abbreviation (input) AT_NAME :: "u8 list" where "AT_NAME \<equiv> [0x41, 0x54, 0x2B, 0x4E, 0x41, 0x4D, 0x45]"
abbreviation (input) AT_PIN :: "u8 list" where "AT_PIN \<equiv> [0x41, 0x54, 0x2B, 0x50, 0x49, 0x4E]"
abbreviation (input) AT_BAUD4 :: "u8 list" where "AT_BAUD4 \<equiv> [0x41, 0x54, 0x2B, 0x42, 0x41, 0x55, 0x44, 0x34]"
abbreviation (input) AT_BAUD8 :: "u8 list" where "AT_BAUD8 \<equiv> [0x41, 0x54, 0x2B, 0x42, 0x41, 0x55, 0x44, 0x38]"

definition Bluetooth_SetName :: "uart_env \<Rightarrow> u8 list \<Rightarrow> 'a board_uart_scheme \<Rightarrow> 'a board_uart_scheme run" where
  "Bluetooth_SetName e name s = at_command e (AT_NAME @ c_str name) s"

definition Bluetooth_SetPwd :: "uart_env \<Rightarrow> u8 list \<Rightarrow> 'a board_uart_scheme \<Rightarrow> 'a board_uart_scheme run" where
  "Bluetooth_SetPwd e pwd s = at_command e (AT_PIN @ c_str pwd) s"

text \<open>For any other rate the buffer is never written: \<open>stale\<close> is what the stack holds there.\<close>

definition Bluetooth_SetBaud :: "uart_env \<Rightarrow> u8 list \<Rightarrow> nat \<Rightarrow> 'a board_uart_scheme \<Rightarrow> 'a board_uart_scheme run" where
  "Bluetooth_SetBaud e stale baudrate s =
     (if baudrate = 9600 then at_command e AT_BAUD4 s
      else if baudrate = 115200 then at_command e AT_BAUD8 s
      else if c_str stale = stale then Some (Inl OutOfBounds) else at_command e (c_str stale) s)"

definition Bluetooth_ATCommand :: "uart_env \<Rightarrow> u8 list \<Rightarrow> 'a board_uart_scheme \<Rightarrow> 'a board_uart_scheme run" where
  "Bluetooth_ATCommand e cmd s = at_command e (c_str cmd) s"

definition Bluetooth_RecvByteBlocked :: "uart_env \<Rightarrow> 'a board_uart_scheme \<Rightarrow> (u8 \<times> 'a board_uart_scheme) option" where
  "Bluetooth_RecvByteBlocked e s = Asclin1_InUart e s"

definition Bluetooth_RecvByteNonBlocked :: "uart_env \<Rightarrow> 'a board_uart_scheme \<Rightarrow> u8 \<times> 'a board_uart_scheme" where
  "Bluetooth_RecvByteNonBlocked e s = (case InUartNonBlock e (asc1 s) of (ch, u) \<Rightarrow> (ch, s\<lparr>asc1 := u\<rparr>))"

definition Bluetooth_SendByteBlocked :: "uart_env \<Rightarrow> u8 \<Rightarrow> 'a board_uart_scheme \<Rightarrow> 'a board_uart_scheme option" where
  "Bluetooth_SendByteBlocked e ch s = Asclin1_OutUart e ch s"

definition Bluetooth_printf :: "uart_env \<Rightarrow> u8 list \<Rightarrow> 'a board_uart_scheme \<Rightarrow> 'a board_uart_scheme run" where
  "Bluetooth_printf e txt s =
     (case printf_bytes txt of Inl er \<Rightarrow> Some (Inl er)
      | Inr buffer2 \<Rightarrow> map_option Inr (on_asc1 (send_all e buffer2) s))"


section \<open>The driver returns\<close>

text \<open>The transmitter becomes ready again and again.\<close>

definition uart_ok :: "uart_env \<Rightarrow> bool" where
  "uart_ok e \<longleftrightarrow> (\<forall>n. \<exists>m\<ge>n. ue_ready e m)"

fun sent :: "uart_event list \<Rightarrow> u8 list" where
  "sent [] = []"
| "sent (TxByte c # es) = c # sent es"
| "sent (_ # es) = sent es"

lemma sent_append [simp]: "sent (es @ fs) = sent es @ sent fs"
  by (induction es rule: sent.induct) simp_all

interpretation transmitter: polling_loop tx_looks "ue_ready e" "\<lambda>u. u\<lparr>tx_looks := Suc (tx_looks u)\<rparr>"
  "\<lambda>u. uart_emit (TxByte c) (uart_emit TxClear (u\<lparr>tx_looks := Suc (tx_looks u)\<rparr>))" "OutUart e c"
  by unfold_locales (subst OutUart.simps, simp_all add: Let_def)

lemma looks: "((\<lambda>u. u\<lparr>tx_looks := Suc (tx_looks u)\<rparr>) ^^ k) u = u\<lparr>tx_looks := tx_looks u + k\<rparr>"
  by (induction k) simp_all

lemma OutUart_returns:
  assumes "uart_ok e"
  shows "\<exists>n. OutUart e c u = Some (u\<lparr>tx_looks := n, uart_log := uart_log u @ [TxClear, TxByte c]\<rparr>)"
proof -
  have "\<exists>m\<ge>tx_looks u. ue_ready e m" using assms unfolding uart_ok_def by blast
  then obtain k where "OutUart e c u =
      Some (uart_emit (TxByte c) (uart_emit TxClear (u\<lparr>tx_looks := Suc (tx_looks u + k)\<rparr>)))"
    using transmitter.returns [of u e c thesis] by (simp add: looks)
  then show ?thesis by (simp add: uart_emit_def) blast
qed

text \<open>What sending leaves alone: the number of polls of the receiver.\<close>

lemma send_all_returns:
  assumes "uart_ok e"
  shows "\<exists>u'. send_all e cs u = Some u' \<and> sent (uart_log u') = sent (uart_log u) @ cs \<and> rx_polls u' = rx_polls u"
proof (induction cs arbitrary: u)
  case (Cons c cs)
  obtain n where "OutUart e c u = Some (u\<lparr>tx_looks := n, uart_log := uart_log u @ [TxClear, TxByte c]\<rparr>)"
    using OutUart_returns [OF assms] by blast
  with Cons.IH [of "u\<lparr>tx_looks := n, uart_log := uart_log u @ [TxClear, TxByte c]\<rparr>"] show ?case by auto
qed simp

text \<open>The characters that come in from poll \<open>n\<close> on, those with an error left out.\<close>

definition good_poll :: "uart_env \<Rightarrow> nat \<Rightarrow> bool" where
  "good_poll e n \<longleftrightarrow> ue_filled e n \<and> \<not> ue_error e n"

primrec typed :: "uart_env \<Rightarrow> nat \<Rightarrow> u8 list \<Rightarrow> bool" where
  "typed e n [] \<longleftrightarrow> True"
| "typed e n (c # cs) \<longleftrightarrow>
     (\<exists>m\<ge>n. (\<forall>k. n \<le> k \<and> k < m \<longrightarrow> \<not> good_poll e k) \<and> good_poll e m \<and> ue_data e m = c \<and> typed e (Suc m) cs)"

lemma PollUart_cases:
  "PollUart e u = (if good_poll e (rx_polls u)
     then (Some (ue_data e (rx_polls u)), u\<lparr>rx_polls := Suc (rx_polls u), uart_log := uart_log u @ [RxClear]\<rparr>)
     else (None, u\<lparr>rx_polls := Suc (rx_polls u),
       uart_log := uart_log u @ (if ue_filled e (rx_polls u) then [RxClear, ErrorClear] else [])\<rparr>))"
  by (simp add: PollUart_def good_poll_def uart_emit_def Let_def)

interpretation receiver: polling_loop rx_polls "good_poll e" "\<lambda>u. snd (PollUart e u)"
  "\<lambda>u. (ue_data e (rx_polls u), snd (PollUart e u))" "InUart e"
  by unfold_locales (subst InUart.simps, simp_all add: PollUart_cases)

lemma polls_silent: "(\<forall>i<k. \<not> good_poll e (rx_polls u + i)) \<Longrightarrow> sent (uart_log (((\<lambda>u. snd (PollUart e u)) ^^ k) u)) = sent (uart_log u)"
  by (induction k) (auto simp: PollUart_cases)

lemma InUart_typed:
  assumes "typed e (rx_polls u) (c # cs)"
  shows "\<exists>u'. InUart e u = Some (c, u') \<and> typed e (rx_polls u') cs \<and> sent (uart_log u') = sent (uart_log u)"
proof -
  obtain m where m: "rx_polls u \<le> m" "\<forall>k. rx_polls u \<le> k \<and> k < m \<longrightarrow> \<not> good_poll e k" "good_poll e m" "ue_data e m = c"
    "typed e (Suc m) cs" using assms by auto
  define k where "k = m - rx_polls u"
  define t where "t = ((\<lambda>u. snd (PollUart e u)) ^^ k) u"
  have k: "rx_polls t = m" "\<forall>i<k. \<not> good_poll e (rx_polls u + i)" using m(1,2) by (simp_all add: k_def t_def)
  have "InUart e u = Some (ue_data e (rx_polls t), snd (PollUart e t))"
    using receiver.first_look [of e u k] k m(1,3) by (simp add: k_def t_def)
  moreover have "sent (uart_log t) = sent (uart_log u)" unfolding t_def by (rule polls_silent [OF k(2)])
  ultimately show ?thesis using m(3-5) by (simp add: k(1) PollUart_cases)
qed

section \<open>Printing and reading a line\<close>

lemma printf_bytes_result:
  "printf_bytes txt = (if length txt < 128 \<and> length (crlf (c_str txt)) < 128 then Inr (crlf (c_str txt)) else Inl OutOfBounds)"
  by (simp add: printf_bytes_def Let_def)

lemma my_printf_result:
  assumes "uart_ok e"
  shows "\<exists>u. my_printf e txt s = Some (if length txt < 128 \<and> length (crlf (c_str txt)) < 128
      then Inr (s\<lparr>asc0 := u\<rparr>) else Inl OutOfBounds) \<and>
    sent (uart_log u) = sent (uart_log (asc0 s)) @ crlf (c_str txt) \<and> rx_polls u = rx_polls (asc0 s)"
proof -
  obtain u where "send_all e (crlf (c_str txt)) (asc0 s) = Some u"
    "sent (uart_log u) = sent (uart_log (asc0 s)) @ crlf (c_str txt)" "rx_polls u = rx_polls (asc0 s)"
    using send_all_returns [OF assms] by blast
  then show ?thesis by (intro exI [of _ u]) (simp add: my_printf_def printf_bytes_result on_asc0_def)
qed

lemma my_printf_short:
  assumes "uart_ok e" "length txt < 10"
  obtains u where "my_printf e txt s = Some (Inr (s\<lparr>asc0 := u\<rparr>))"
    "sent (uart_log u) = sent (uart_log (asc0 s)) @ crlf (c_str txt)" "rx_polls u = rx_polls (asc0 s)"
proof -
  have "length (crlf cs) \<le> 2 * length cs" for cs by (induction cs rule: crlf.induct) auto
  from this [of "c_str txt"] have "length (crlf (c_str txt)) \<le> 2 * length (c_str txt)" .
  moreover have "length (c_str txt) \<le> length txt" unfolding c_str_def by (rule length_takeWhile_le)
  ultimately have "length txt < 128 \<and> length (crlf (c_str txt)) < 128" using assms(2) by linarith
  then show thesis using my_printf_result [OF assms(1), of "txt" s] that by auto
qed

text \<open>The line as an editor sees it: each character goes to its end, a backspace takes one off.\<close>

definition edit :: "u8 list \<Rightarrow> u8 \<Rightarrow> u8 list" where
  "edit ln c = (if c = 0x7F \<or> c = 8 then butlast ln else ln @ [c])"

fun echo :: "u8 list \<Rightarrow> u8 list \<Rightarrow> u8 list" where
  "echo ln [] = []"
| "echo ln (c # cs) =
     (if c = 0x7F \<or> c = 8 then (if ln = [] then [] else [8, 0x20, 8]) else crlf (c_str [c])) @ echo (edit ln c) cs"

definition line_buf :: "u8 list \<Rightarrow> u8 list" where
  "line_buf ln = ln @ replicate (128 - length ln) 0"

lemma line_buf_length [simp]: "length ln \<le> 128 \<Longrightarrow> length (line_buf ln) = 128"
  by (simp add: line_buf_def)

lemma line_buf_put: "length ln < 128 \<Longrightarrow> (line_buf ln)[length ln := c] = line_buf (ln @ [c])"
  by (cases "128 - length ln") (auto simp: line_buf_def list_update_append)

lemma line_buf_take:
  assumes "ln \<noteq> []" "length ln \<le> 128"
  shows "(line_buf ln)[length ln - 1 := 0] = line_buf (butlast ln)"
proof -
  obtain ms c where ms: "ln = ms @ [c]" using assms(1) by (metis rev_exhaust)
  with assms(2) have "128 - length ms = Suc (128 - length ln)" by simp
  then show ?thesis by (simp add: ms line_buf_def list_update_append)
qed

lemma line_buf_end: "length ln < 127 \<Longrightarrow> (line_buf ln)[Suc (length ln) := 0] = line_buf ln"
  by (intro nth_equalityI) (auto simp: line_buf_def nth_append nth_list_update)

lemma scan_line_run:
  fixes s :: "'a board_uart_scheme"
  assumes "uart_ok e" "typed e (rx_polls (asc0 s)) (cs @ [0x0D])" "0x0D \<notin> set cs"
    and "\<forall>k\<le>length cs. length (foldl edit ln (take k cs)) \<le> 128"
  shows "\<exists>s'. scan_line e (line_buf ln) (length ln) s =
      Some (if length (foldl edit ln cs) < 127 then Inr (line_buf (foldl edit ln cs), s') else Inl OutOfBounds) \<and>
    sent (uart_log (asc0 s')) = sent (uart_log (asc0 s)) @ echo ln cs @ [0x0D]"
  using assms(2-4)
proof (induction cs arbitrary: ln s)
  case Nil
  obtain v where v: "InUart e (asc0 s) = Some (0x0D, v)" "sent (uart_log v) = sent (uart_log (asc0 s))"
    using InUart_typed [of e "asc0 s" "0x0D" "[]"] Nil.prems(1) by (simp only: append.simps) blast
  define t where "t = s\<lparr>asc0 := v\<rparr>"
  obtain w where w: "my_printf e [0x0D] t = Some (Inr (t\<lparr>asc0 := w\<rparr>))" "sent (uart_log w) = sent (uart_log v) @ [0x0D]"
    by (rule my_printf_short [OF assms(1), of "[0x0D]" t]) (auto simp: t_def c_str_def)
  have ln: "length (line_buf ln) = 128" using Nil.prems(3) by simp
  have "Asclin0_InUart e s = Some (0x0D, t)" by (simp add: Asclin0_InUart_def v(1) t_def)
  then have run: "scan_line e (line_buf ln) (length ln) s = Some (if length ln < 127
      then Inr ((line_buf ln)[Suc (length ln) := 0], t\<lparr>asc0 := w\<rparr>) else Inl OutOfBounds)"
    by (subst scan_line.simps) (simp add: ln w(1))
  have out: "sent (uart_log (asc0 (t\<lparr>asc0 := w\<rparr>))) = sent (uart_log (asc0 s)) @ [0x0D]"
    by (simp add: w(2) v(2))
  show ?case
    by (rule exI [of _ "t\<lparr>asc0 := w\<rparr>"], simp only: run out foldl.simps echo.simps append.simps)
      (simp add: line_buf_end)
next
  case (Cons c cs)
  obtain v where v: "InUart e (asc0 s) = Some (c, v)" "typed e (rx_polls v) (cs @ [0x0D])" "sent (uart_log v) = sent (uart_log (asc0 s))"
    using InUart_typed [of e "asc0 s" c "cs @ [0x0D]"] Cons.prems(1) by (simp only: append.simps) blast
  define t where "t = s\<lparr>asc0 := v\<rparr>"
  have get: "Asclin0_InUart e s = Some (c, t)" by (simp add: Asclin0_InUart_def v(1) t_def)
  have len: "length ln \<le> 128" "length (edit ln c) \<le> 128"
    using Cons.prems(3) [rule_format, of 0] Cons.prems(3) [rule_format, of 1] by simp_all
  have c: "c \<noteq> 0x0D" "0x0D \<notin> set cs" using Cons.prems(2) by auto
  have rest: "\<forall>k\<le>length cs. length (foldl edit (edit ln c) (take k cs)) \<le> 128"
  proof (intro allI impI)
    fix k assume "k \<le> length cs"
    then show "length (foldl edit (edit ln c) (take k cs)) \<le> 128"
      using Cons.prems(3) [rule_format, of "Suc k"] by simp
  qed
  have step: "\<exists>s'. scan_line e (line_buf (edit ln c)) (length (edit ln c)) t' =
      Some (if length (foldl edit ln (c # cs)) < 127 then Inr (line_buf (foldl edit ln (c # cs)), s') else Inl OutOfBounds) \<and>
    sent (uart_log (asc0 s')) = sent (uart_log (asc0 s)) @ echo ln (c # cs) @ [0x0D]"
    if t': "rx_polls (asc0 t') = rx_polls v"
      "sent (uart_log (asc0 t')) = sent (uart_log v) @ (if c = 0x7F \<or> c = 8 then (if ln = [] then [] else [8, 0x20, 8]) else crlf (c_str [c]))"
    for t' :: "'a board_uart_scheme"
  proof -
    have "typed e (rx_polls (asc0 t')) (cs @ [0x0D])" using v(2) t'(1) by simp
    from Cons.IH [OF this c(2) rest] show ?thesis by (simp only: foldl.simps echo.simps t'(2) v(3) append_assoc)
  qed
  show ?case
  proof (cases "c = 0x7F \<or> c = 8")
    case True
    show ?thesis
    proof (cases "ln = []")
      case ln: True
      have "scan_line e (line_buf ln) (length ln) s = scan_line e (line_buf (edit ln c)) (length (edit ln c)) t"
        using True ln by (subst scan_line.simps) (auto simp: get edit_def)
      then show ?thesis using step [of t] True ln by (simp add: t_def)
    next
      case ln: False
      obtain w where w: "my_printf e [8, 0x20, 8] t = Some (Inr (t\<lparr>asc0 := w\<rparr>))"
        "sent (uart_log w) = sent (uart_log v) @ [8, 0x20, 8]" "rx_polls w = rx_polls v"
        by (rule my_printf_short [OF assms(1), of "[8, 0x20, 8]" t]) (auto simp: t_def c_str_def)
      have "scan_line e (line_buf ln) (length ln) s = scan_line e (line_buf (edit ln c)) (length (edit ln c)) (t\<lparr>asc0 := w\<rparr>)"
        using True ln line_buf_take [OF ln len(1)] by (subst scan_line.simps) (auto simp: get w(1) edit_def)
      then show ?thesis using step [of "t\<lparr>asc0 := w\<rparr>"] True ln w(2,3) by simp
    qed
  next
    case False
    then have ln: "length ln < 128" "edit ln c = ln @ [c]" using len(2) by (auto simp: edit_def)
    obtain w where w: "my_printf e [c] t = Some (Inr (t\<lparr>asc0 := w\<rparr>))"
      "sent (uart_log w) = sent (uart_log v) @ crlf (c_str [c])" "rx_polls w = rx_polls v"
      by (rule my_printf_short [OF assms(1), of "[c]" t]) (auto simp: t_def)
    have "scan_line e (line_buf ln) (length ln) s = scan_line e (line_buf (edit ln c)) (length (edit ln c)) (t\<lparr>asc0 := w\<rparr>)"
      using False c(1) ln line_buf_put [OF ln(1), of c] line_buf_length [OF len(1)]
      by (subst scan_line.simps) (simp add: get w(1))
    then show ?thesis using step [of "t\<lparr>asc0 := w\<rparr>"] False w(2,3) by simp
  qed
qed


text \<open>A line that is one word disappears with the first conversion of a number or a string.\<close>

lemma line_buf_nil: "line_buf [] = replicate 128 0"
  by (simp add: line_buf_def)

lemma line_buf_word:
  assumes "0 \<notin> set w" "0x20 \<notin> set w" "length w < 128"
  shows "c_str (line_buf w) = w" "takeWhile (\<lambda>c. c \<noteq> 0 \<and> c \<noteq> 0x20) (line_buf w) = w"
proof -
  obtain k where k: "128 - length w = Suc k" using assms(3) by (cases "128 - length w") auto
  have "takeWhile (\<lambda>c. c \<noteq> 0) w = w" "takeWhile (\<lambda>c. c \<noteq> 0 \<and> c \<noteq> 0x20) w = w"
    using assms(1,2) by (auto simp: takeWhile_eq_all_conv)
  then show "c_str (line_buf w) = w" "takeWhile (\<lambda>c. c \<noteq> 0 \<and> c \<noteq> 0x20) (line_buf w) = w"
    using assms(1,2) by (auto simp: line_buf_def k c_str_def takeWhile_append)
qed

lemma blank_line:
  assumes "0 \<notin> set w" "0x20 \<notin> set w" "length w < 128"
  shows "blank_word (line_buf w) = replicate 128 0" "blank_string (line_buf w) = replicate 128 0"
  using line_buf_word [OF assms] assms(3)
  by (auto simp: blank_word_def blank_string_def Let_def line_buf_def intro!: nth_equalityI simp: nth_append nth_Cons')

lemma remove_null_zeros: "remove_null (replicate n 0) = Inl OutOfBounds"
  by (simp add: remove_null_def)

lemma scan_word:
  assumes "0 \<notin> set w" "0x20 \<notin> set w" "length w < 128" "d \<in> {0x64, 0x73, 0x66}"
  shows "scan_format af (0x25 # d # fmt) (line_buf w) vs = Inl OutOfBounds"
  using assms(4) blank_line [OF assms(1-3)] by (auto simp: scan_format.simps(2) remove_null_zeros)

section \<open>Properties\<close>

text \<open>
  The console. \<open>my_printf\<close> sends the text with a carriage return before each line feed, or overruns its
  buffers when the text or the result has 128 bytes or more. A line typed to \<open>my_scanf\<close> is kept as an editor
  keeps it, echoed as it is typed, and zero-filled; a line of 127 characters, which with its terminating
  zero still fits the buffer, is written beyond it.
\<close>

theorem board_console:
  assumes "uart_ok e"
  shows "(let out = crlf (c_str str) in \<exists>u. my_printf e str s = Some (if length str < 128 \<and> length out < 128
        then Inr (s\<lparr>asc0 := u\<rparr>) else Inl OutOfBounds) \<and> sent (uart_log u) = sent (uart_log (asc0 s)) @ out) \<and>
    (typed e (rx_polls (asc0 s)) (cs @ [0x0D]) \<and> 0x0D \<notin> set cs \<and> (\<forall>k\<le>length cs. length (foldl edit [] (take k cs)) \<le> 128) \<longrightarrow>
      (let line = foldl edit [] cs in \<exists>s'. scan_line e (replicate 128 0) 0 s =
          Some (if length line < 127 then Inr (line @ replicate (128 - length line) 0, s') else Inl OutOfBounds) \<and>
        sent (uart_log (asc0 s')) = sent (uart_log (asc0 s)) @ echo [] cs @ [0x0D]))"
proof (intro conjI impI)
  show "let out = crlf (c_str str) in \<exists>u. my_printf e str s = Some (if length str < 128 \<and> length out < 128
        then Inr (s\<lparr>asc0 := u\<rparr>) else Inl OutOfBounds) \<and> sent (uart_log u) = sent (uart_log (asc0 s)) @ out"
    using my_printf_result [OF assms, of str s] unfolding Let_def by blast
next
  assume "typed e (rx_polls (asc0 s)) (cs @ [0x0D]) \<and> 0x0D \<notin> set cs \<and> (\<forall>k\<le>length cs. length (foldl edit [] (take k cs)) \<le> 128)"
  then show "let line = foldl edit [] cs in \<exists>s'. scan_line e (replicate 128 0) 0 s =
          Some (if length line < 127 then Inr (line @ replicate (128 - length line) 0, s') else Inl OutOfBounds) \<and>
        sent (uart_log (asc0 s')) = sent (uart_log (asc0 s)) @ echo [] cs @ [0x0D]"
    using scan_line_run [OF assms, of s cs "[]"] unfolding Let_def line_buf_nil unfolding line_buf_def list.size by blast
qed

text \<open>
  C40. \<open>my_scanf\<close> never reads a single number or string: when the conversion has taken all of the line,
  \<open>remove_null\<close> looks for the rest beyond the end of the buffer.
\<close>

theorem board_scanf_overrun:
  assumes "uart_ok e" "typed e (rx_polls (asc0 s)) (cs @ [0x0D])" "0x0D \<notin> set cs"
    and "\<forall>k\<le>length cs. length (foldl edit [] (take k cs)) \<le> 128"
    and "w = foldl edit [] cs" "length w < 127" "0 \<notin> set w" "0x20 \<notin> set w" "d \<in> {0x64, 0x73, 0x66}"
  shows "my_scanf af e (0x25 # d # fmt) s = Some (Inl OutOfBounds)"
proof -
  obtain s' where "scan_line e (replicate 128 0) 0 s = Some (Inr (line_buf w, s'))"
    using scan_line_run [OF assms(1-3), of "[]"] assms(4-6) by (auto simp: line_buf_nil)
  moreover obtain u where "my_printf e [0x0A] s' = Some (Inr (s'\<lparr>asc0 := u\<rparr>))"
    by (rule my_printf_short [OF assms(1), of "[0x0A]" s']) auto
  ultimately show ?thesis using scan_word [OF assms(7,8) less_trans [OF assms(6)] assms(9), of af fmt "[]"] by (simp add: my_scanf_def)
qed

definition bench_uart :: uart_env where
  "bench_uart = \<lparr>ue_ready = (\<lambda>n. True), ue_filled = (\<lambda>n. True),
     ue_data = (\<lambda>n. if n = 0 then 0x34 else if n = 1 then 0x33 else if n = 2 then 8 else if n = 3 then 0x32 else 0x0D),
     ue_error = (\<lambda>n. False)\<rparr>"

definition bench_console :: board_uart where
  "bench_console = (let u = \<lparr>tx_looks = 0, rx_polls = 0, uart_log = []\<rparr> in \<lparr>asc0 = u, asc1 = u\<rparr>)"

lemma bench_uart_ok: "uart_ok bench_uart"
  by (auto simp: uart_ok_def bench_uart_def)

lemma bench_typed: "typed bench_uart (rx_polls (asc0 bench_console)) ([0x34, 0x33, 8, 0x32] @ [0x0D])"
proof -
  have here: "typed bench_uart n (c # cs)" if "ue_data bench_uart n = c" "typed bench_uart (Suc n) cs" for n c cs
  proof -
    have "good_poll bench_uart n" by (simp add: good_poll_def bench_uart_def)
    with that show ?thesis unfolding typed.simps by (intro exI [of _ n]) auto
  qed
  have "typed bench_uart 0 [0x34, 0x33, 8, 0x32, 0x0D]"
    by (intro here, simp_all add: bench_uart_def)
  then show ?thesis by (simp only: bench_console_def Let_def board_uart.simps uart.simps append.simps)
qed

lemma edit_length: "length (foldl edit ln cs) \<le> length ln + length cs"
proof (induction cs arbitrary: ln)
  case (Cons c cs)
  have "length (edit ln c) \<le> Suc (length ln)" by (auto simp: edit_def)
  with Cons.IH [of "edit ln c"] show ?case by simp
qed simp

lemma bench_prefix: "\<forall>k\<le>length [0x34, 0x33, 8, 0x32 :: u8]. length (foldl edit [] (take k [0x34, 0x33, 8, 0x32])) \<le> 128"
  using edit_length [of "[]"] by (fastforce intro: order_trans)

text \<open>The keys 4, 3, backspace, 2 and return.\<close>

theorem board_console_witness:
  "\<exists>s'. scan_line bench_uart (replicate 128 0) 0 bench_console = Some (Inr ([0x34, 0x32] @ replicate 126 0, s')) \<and>
     sent (uart_log (asc0 s')) = [0x34, 0x33, 8, 0x20, 8, 0x32, 0x0D]"
  using board_console [OF bench_uart_ok, of "[]" bench_console "[0x34, 0x33, 8, 0x32]"] bench_typed bench_prefix
  by (simp add: edit_def c_str_def bench_console_def Let_def)

theorem board_scanf_overrun_witness:
  "my_scanf (\<lambda>t. ()) bench_uart [0x25, 0x64] bench_console = Some (Inl OutOfBounds)"
  by (rule board_scanf_overrun [OF bench_uart_ok bench_typed _ bench_prefix refl, of "0x64" "\<lambda>t. ()" "[]"])
    (simp_all add: edit_def)

end
