(* ===== verification/Board_Can.thy ===== *)
theory Board_Can
  imports Can_Setup Board_Uart
begin

unbundle bit_operations_syntax

text \<open>
  The general CAN drivers of the gateway board, \<open>can.c\<close> and \<open>canfd.c\<close> of \<open>src/MAIN/BSW/Driver\<close>, and the
  distance sensor \<open>src/MAIN/BSW/IO/ToF.c\<close> that reports by CAN. Configurations are those of \<open>Can_Setup\<close>
  with the fields for interrupts. Whether the controller accepts a frame is an input, indexed by the
  number of attempts.
\<close>

section \<open>State\<close>

record board_node = node_config +
  transmissionCompletedEnabled :: bool
  tracoPriority :: nat
  tracoLine :: nat
  rxFifo0NewMessageEnabled :: bool
  rxf0nPriority :: nat
  rxf0nLine :: nat

text \<open>\<open>g_mcmcan\<close> and \<open>g_mcmcanFD\<close> have the same fields; the data arrays have 8 and 64 bytes.\<close>

record board_can = io +
  canNodeConfig :: board_node
  canSrcNode :: board_node
  canDstNode :: board_node
  dst_filters :: filter_list
  canFilter :: can_filter
  txData :: "u8 list"
  rxData :: "u8 list"
  send_looks :: nat
  frames_out :: "(u32 \<times> nat \<times> u8 list) list"   \<comment> \<open>identifier, length code, data\<close>

datatype can_baudrates = BD_NOUSE | BD_500K | BD_1M
datatype canfd_baudrates = HS_BD_NOUSE | HS_BD_2M | HS_BD_4M

section \<open>Initialisation\<close>

definition wake_transceiver :: "'a io_scheme \<Rightarrow> 'a io_scheme" where
  "wake_transceiver s = set_pin (20, 6) False (set_mode (20, 6) OutputPushPull s)"

definition node_of :: "node_id \<Rightarrow> board_node \<Rightarrow> board_node" where
  "node_of n c = (case n of
     NodeId_0 \<Rightarrow> c\<lparr>nodeId := NodeId_0, pins := \<lparr>txPin = (20, 8), rxPin = (20, 7)\<rparr>\<rparr>
   | NodeId_2 \<Rightarrow> c\<lparr>nodeId := NodeId_2, pins := \<lparr>txPin = (15, 0), rxPin = (15, 1)\<rparr>\<rparr>)"

definition low_speed :: "can_baudrates \<Rightarrow> board_node \<Rightarrow> board_node" where
  "low_speed b c = (case b of BD_NOUSE \<Rightarrow> c\<lparr>busLoopbackEnabled := True\<rparr>
     | BD_500K \<Rightarrow> c\<lparr>baudrate := 500000\<rparr> | BD_1M \<Rightarrow> c\<lparr>baudrate := 1000000\<rparr>)"

definition high_speed :: "canfd_baudrates \<Rightarrow> board_node \<Rightarrow> board_node" where
  "high_speed b c = (case b of HS_BD_NOUSE \<Rightarrow> c\<lparr>busLoopbackEnabled := True\<rparr>
     | HS_BD_2M \<Rightarrow> c\<lparr>fastBaudrate := 2000000\<rparr> | HS_BD_4M \<Rightarrow> c\<lparr>fastBaudrate := 4000000\<rparr>)"

definition reception_config :: "board_node \<Rightarrow> board_node" where
  "reception_config c = c\<lparr>standardMessageId := True, standardListSize := 8, rejectNonMatching := True, rejectRemoteStandard := True,
     rxFifo0NewMessageEnabled := True\<rparr>"

text \<open>A default for \<open>initNodeConfig\<close> is the argument \<open>d\<close>; both nodes get the same configuration, one before
  and one after the fields for reception are set.\<close>

definition Can_SetFilterRange :: "u32 \<Rightarrow> u32 \<Rightarrow> 'a board_can_scheme \<Rightarrow> 'a board_can_scheme" where
  "Can_SetFilterRange start stop s =
     (let f = (canFilter s)\<lparr>number := 0, filterType := FilterType_range, elementConfiguration := StoreInRxFifo0,
                id1 := start, id2 := stop\<rparr>
      in s\<lparr>canFilter := f, dst_filters := setStandardFilter f (dst_filters s)\<rparr>)"

definition Can_SetFilterMask :: "u32 \<Rightarrow> u32 \<Rightarrow> 'a board_can_scheme \<Rightarrow> 'a board_can_scheme" where
  "Can_SetFilterMask i msk s =
     (let f = (canFilter s)\<lparr>number := 0, filterType := FilterType_classic, elementConfiguration := StoreInRxFifo0,
                id1 := i, id2 := msk\<rparr>
      in s\<lparr>canFilter := f, dst_filters := setStandardFilter f (dst_filters s)\<rparr>)"

definition Can_Init_0 :: "board_node \<Rightarrow> can_baudrates \<Rightarrow> node_id \<Rightarrow> 'a board_can_scheme \<Rightarrow> 'a board_can_scheme" where
  "Can_Init_0 d ls_baudrate CAN_Node s =
     (let s = wake_transceiver s;
          c = low_speed ls_baudrate d;
          c = node_of CAN_Node (c\<lparr>busLoopbackEnabled := False\<rparr>);
          c = c\<lparr>transmitAndReceive := True, transmissionCompletedEnabled := True, tracoPriority := 2, tracoLine := 0\<rparr>;
          s = s\<lparr>canSrcNode := c\<rparr>;
          c = c\<lparr>rxMode := RxMode_sharedFifo0, rxBufferDataFieldSize := 8, rxFifo0DataFieldSize := 8, rxFifo0Size := 15\<rparr>;
          c = (reception_config c)\<lparr>rxf0nPriority := 1, rxf0nLine := 1\<rparr>;
          s = s\<lparr>canDstNode := c, canNodeConfig := c\<rparr>
      in Can_SetFilterRange 0 0x7FF s)"

definition CanFd_Init :: "board_node \<Rightarrow> can_baudrates \<Rightarrow> canfd_baudrates \<Rightarrow> node_id \<Rightarrow> 'a board_can_scheme \<Rightarrow> 'a board_can_scheme" where
  "CanFd_Init d ls_baudrate hs_baudrate CANFD_Node s =
     (let s = wake_transceiver s;
          c = high_speed hs_baudrate (low_speed ls_baudrate d);
          c = node_of CANFD_Node (c\<lparr>busLoopbackEnabled := False\<rparr>);
          c = c\<lparr>transmitAndReceive := True, frameMode := FrameMode_fdLongAndFast, txMode := TxMode_dedicatedBuffers,
                txBufferDataFieldSize := 64, transmissionCompletedEnabled := True, tracoPriority := 4, tracoLine := 2\<rparr>;
          s = s\<lparr>canSrcNode := c\<rparr>;
          c = c\<lparr>rxMode := RxMode_fifo0, rxBufferDataFieldSize := 64, rxFifo0DataFieldSize := 64, rxFifo0Size := 4\<rparr>;
          c = (reception_config c)\<lparr>rxf0nPriority := 3, rxf0nLine := 3\<rparr>;
          f = (canFilter s)\<lparr>number := 1, filterType := FilterType_range, elementConfiguration := StoreInRxFifo0,
                id1 := 0, id2 := 0x7FF\<rparr>
      in s\<lparr>canDstNode := c, canNodeConfig := c, canFilter := f, dst_filters := setStandardFilter f (dst_filters s)\<rparr>)"

section \<open>Sending\<close>

text \<open>The loop around \<open>IfxCan_Can_sendMessage\<close>; the frame goes out at the first attempt that is not busy.\<close>

partial_function (option) send_until :: "(nat \<Rightarrow> can_status) \<Rightarrow> u32 \<times> nat \<times> u8 list \<Rightarrow> 'a board_can_scheme \<Rightarrow> 'a board_can_scheme option" where
  "send_until st f s =
     (let n = send_looks s; s = s\<lparr>send_looks := Suc n\<rparr>
      in if st n = NotSentBusy then send_until st f s else Some (s\<lparr>frames_out := frames_out s @ [f]\<rparr>))"

text \<open>The classic driver takes eight bytes from the caller whatever the length.\<close>

definition Can_SendMsg :: "(nat \<Rightarrow> can_status) \<Rightarrow> u32 \<Rightarrow> memory \<Rightarrow> nat \<Rightarrow> 'a board_can_scheme \<Rightarrow> 'a board_can_scheme option" where
  "Can_SendMsg st mid src len s =
     (let s = s\<lparr>txData := bytes src 8\<rparr> in send_until st (mid, len, txData s) s)"

definition fd_code :: "nat \<Rightarrow> nat" where
  "fd_code len =
     (if len > 48 then 15 else if len > 32 then 14 else if len > 24 then 13 else if len > 20 then 12
      else if len > 16 then 11 else if len > 12 then 10 else if len > 8 then 9 else len)"

definition fd_length :: "nat \<Rightarrow> nat" where
  "fd_length dlc =
     (if dlc = 15 then 64 else if dlc = 14 then 48 else if dlc = 13 then 32 else if dlc = 12 then 24
      else if dlc = 11 then 20 else if dlc = 10 then 16 else if dlc = 9 then 12 else dlc)"

definition CanFd_SendMsg :: "(nat \<Rightarrow> can_status) \<Rightarrow> u32 \<Rightarrow> memory \<Rightarrow> nat \<Rightarrow> 'a board_can_scheme \<Rightarrow> 'a board_can_scheme run" where
  "CanFd_SendMsg st mid src len s =
     (if len > 64 then Some (Inl OutOfBounds)
      else let s = s\<lparr>txData := bytes src len @ drop len (txData s)\<rparr>
           in map_option Inr (send_until st (mid, fd_code len, txData s) s))"

section \<open>Receiving\<close>

text \<open>A received frame. \<open>IfxCan_Can_readMessage\<close> copies its bytes to the front of the array.\<close>

record rx_frame =
  rf_id :: u32
  rf_code :: nat
  rf_bytes :: "u8 list"

definition read_message :: "rx_frame \<Rightarrow> 'a board_can_scheme \<Rightarrow> 'a board_can_scheme" where
  "read_message f s = s\<lparr>rxData := rf_bytes f @ drop (length (rf_bytes f)) (rxData s)\<rparr>"

definition Can_RecvMsg :: "rx_frame \<Rightarrow> 'a board_can_scheme \<Rightarrow> (u32 \<times> u8 list \<times> nat) \<times> 'a board_can_scheme" where
  "Can_RecvMsg f s = (let s = read_message f s in ((rf_id f, take 8 (rxData s), rf_code f), s))"

definition CanFd_RecvMsg :: "rx_frame \<Rightarrow> 'a board_can_scheme \<Rightarrow> (u32 \<times> u8 list \<times> nat) \<times> 'a board_can_scheme" where
  "CanFd_RecvMsg f s = (let s = read_message f s in ((rf_id f, take 64 (rxData s), fd_length (rf_code f)), s))"

text \<open>The default interrupt prints the frame, byte by byte up to its length code.\<close>

abbreviation (input) CAN_RX_TEXT :: "u8 list" where "CAN_RX_TEXT \<equiv> [0x43, 0x41, 0x4E, 0x20, 0x52, 0x78, 0x3A, 0x20]"

fun print_bytes :: "uart_env \<Rightarrow> u8 list \<Rightarrow> nat \<Rightarrow> 'b board_uart_scheme \<Rightarrow> 'b board_uart_scheme run" where
  "print_bytes e rx 0 u = Some (Inr u)"
| "print_bytes e [] (Suc n) u = Some (Inl OutOfBounds)"
| "print_bytes e (c # rx) (Suc n) u =
     Option.bind (my_printf e [c] u) (\<lambda>r. case r of Inl er \<Rightarrow> Some (Inl er) | Inr u \<Rightarrow> print_bytes e rx n u)"

definition Can_RxIsrHandler ::
    "uart_env \<Rightarrow> rx_frame \<Rightarrow> 'a board_can_scheme \<Rightarrow> 'b board_uart_scheme \<Rightarrow> ('a board_can_scheme \<times> 'b board_uart_scheme) run" where
  "Can_RxIsrHandler e f s u =
     (let ((rxID, rx, rxLen), s) = Can_RecvMsg f s
      in Option.bind (my_printf e CAN_RX_TEXT u) (\<lambda>r. case r of Inl er \<Rightarrow> Some (Inl er)
         | Inr u \<Rightarrow> Option.bind (print_bytes e rx rxLen u) (\<lambda>r. case r of Inl er \<Rightarrow> Some (Inl er)
         | Inr u \<Rightarrow> map_option (map_sum id (Pair s)) (my_printf e [0x0A] u))))"

definition CanFd_RxIsrHandler :: "rx_frame \<Rightarrow> 'a board_can_scheme \<Rightarrow> 'a board_can_scheme" where
  "CanFd_RxIsrHandler f s = snd (CanFd_RecvMsg f s)"

section \<open>The distance sensor\<close>

definition TofIsrHandler :: "rx_frame \<Rightarrow> 'a board_can_scheme \<times> u32 \<Rightarrow> 'a board_can_scheme \<times> u32" where
  "TofIsrHandler f = (\<lambda>(s, g_TofValue).
     let ((rxID, rx, rxLen), s) = Can_RecvMsg f s;
         signal_strength = be16 (rx ! 5) (rx ! 4)
     in (s, if signal_strength \<noteq> 0
            then push_bit 16 (ucast (rx ! 2)) OR push_bit 8 (ucast (rx ! 1)) OR ucast (rx ! 0)
            else g_TofValue))"

definition Tof_GetValue :: "u32 \<Rightarrow> u32" where
  "Tof_GetValue g_TofValue = g_TofValue"

section \<open>What one end sends the other receives\<close>

interpretation sender: polling_loop send_looks "\<lambda>n. st n \<noteq> NotSentBusy" "\<lambda>s. s\<lparr>send_looks := Suc (send_looks s)\<rparr>"
  "\<lambda>s. s\<lparr>send_looks := Suc (send_looks s), frames_out := frames_out s @ [f]\<rparr>" "send_until st f"
  by unfold_locales (subst send_until.simps, simp_all add: Let_def)

lemma send_looks_agains: "((\<lambda>s. s\<lparr>send_looks := Suc (send_looks s)\<rparr>) ^^ k) s = s\<lparr>send_looks := send_looks s + k\<rparr>"
  by (induction k) simp_all

lemma send_until_returns:
  assumes "\<exists>m\<ge>send_looks s. st m \<noteq> NotSentBusy"
  shows "\<exists>n. send_until st f s = Some (s\<lparr>send_looks := n, frames_out := frames_out s @ [f]\<rparr>)"
proof -
  obtain k where "send_until st f s = Some (s\<lparr>send_looks := Suc (send_looks s + k), frames_out := frames_out s @ [f]\<rparr>)"
    using sender.returns [of s st f thesis] assms by (simp add: send_looks_agains)
  then show ?thesis by blast
qed

text \<open>The length a code stands for is the least that a frame can have.\<close>

definition fd_sizes :: "nat set" where
  "fd_sizes = {0..8} \<union> {12, 16, 20, 24, 32, 48, 64}"

lemma fd_length_code:
  assumes "len \<le> 64"
  shows "len \<le> fd_length (fd_code len)" "fd_length (fd_code len) \<in> fd_sizes"
    and "n \<in> fd_sizes \<Longrightarrow> len \<le> n \<Longrightarrow> fd_length (fd_code len) \<le> n" "fd_length (fd_code len) \<le> 64" "fd_code len \<le> 15"
  using assms by (auto simp: fd_length_def fd_code_def fd_sizes_def split: if_splits)

lemma loopback_lost:
  "\<not> busLoopbackEnabled (canSrcNode (Can_Init_0 d b n s))" "\<not> busLoopbackEnabled (canDstNode (Can_Init_0 d b n s))"
  "\<not> busLoopbackEnabled (canSrcNode (CanFd_Init d b g n s))" "\<not> busLoopbackEnabled (canDstNode (CanFd_Init d b g n s))"
  by (simp_all add: Can_Init_0_def CanFd_Init_def Can_SetFilterRange_def node_of_def wake_transceiver_def reception_config_def
      set_pin_def set_mode_def Let_def split: node_id.split)

section \<open>Properties\<close>

text \<open>
  C35. A message of up to 64 bytes arrives with its identifier and its bytes, in the shortest frame it fits in.
  The rest of the frame is not filled: it carries what earlier messages left in the sender's array. A
  longer message is written beyond the array.
\<close>

theorem board_canfd_roundtrip:
  assumes "\<exists>m\<ge>send_looks s. st m \<noteq> NotSentBusy" "length (txData s) = 64" "length (rxData r) = 64"
  shows "if len \<le> 64
    then \<exists>s' f n d. CanFd_SendMsg st mid src len s = Some (Inr s') \<and> frames_out s' = frames_out s @ [(mid, fd_code len, txData s')] \<and>
      f = \<lparr>rf_id = mid, rf_code = fd_code len, rf_bytes = take (fd_length (fd_code len)) (txData s')\<rparr> \<and>
      fst (CanFd_RecvMsg f r) = (mid, d, n) \<and> take len d = bytes src len \<and>
      n \<in> fd_sizes \<and> len \<le> n \<and> (\<forall>m\<in>fd_sizes. len \<le> m \<longrightarrow> n \<le> m) \<and>
      (\<forall>i. len \<le> i \<and> i < n \<longrightarrow> d ! i = txData s ! i)
    else CanFd_SendMsg st mid src len s = Some (Inl OutOfBounds)"
proof (cases "len \<le> 64")
  case True
  define data where "data = bytes src len @ drop len (txData s)"
  define n where "n = fd_length (fd_code len)"
  define d where "d = take n data @ drop n (rxData r)"
  define f where "f = \<lparr>rf_id = mid, rf_code = fd_code len, rf_bytes = take n data\<rparr>"
  note n = fd_length_code [OF True, folded n_def]
  have len: "length (bytes src len) = len" "length data = 64" using assms(2) True by (simp_all add: data_def bytes_def)
  obtain k where "send_until st (mid, fd_code len, data) (s\<lparr>txData := data\<rparr>) =
      Some ((s\<lparr>txData := data\<rparr>)\<lparr>send_looks := k, frames_out := frames_out s @ [(mid, fd_code len, data)]\<rparr>)"
    using send_until_returns [of "s\<lparr>txData := data\<rparr>" st "(mid, fd_code len, data)"] assms(1) by auto
  then have "\<exists>s'. CanFd_SendMsg st mid src len s = Some (Inr s') \<and> frames_out s' = frames_out s @ [(mid, fd_code len, data)] \<and> txData s' = data"
    using True by (simp add: CanFd_SendMsg_def data_def Let_def)
  moreover have "fst (CanFd_RecvMsg f r) = (mid, d, n)"
    using len n(4) assms(3) by (simp add: CanFd_RecvMsg_def read_message_def f_def d_def n_def [symmetric] Let_def)
  moreover have "take len d = bytes src len" using len n(1) by (simp add: d_def data_def min_absorb1)
  moreover have "d ! i = txData s ! i" if "len \<le> i" "i < n" for i
    using that len n(4) True assms(2) less_le_trans [of i n 64] diff_less_mono [of i n len] by (simp add: d_def data_def nth_append)
  ultimately show ?thesis using True n(1-3) unfolding f_def n_def by (simp add: n_def) blast
qed (simp add: CanFd_SendMsg_def)

text \<open>
  The classic receive interrupt prints a frame of up to eight bytes and reads beyond its array when the
  length code is larger, as it may be on a classic bus, where it still means eight bytes.
\<close>

lemma print_bytes_result:
  assumes "uart_ok e"
  shows "\<exists>u'. print_bytes e rx n u = Some (if n \<le> length rx then Inr (u\<lparr>asc0 := u'\<rparr>) else Inl OutOfBounds) \<and>
    sent (uart_log u') = sent (uart_log (asc0 u)) @ crlf (filter (\<lambda>c. c \<noteq> 0) (take n rx))"
proof (induction rx arbitrary: n u)
  case Nil
  show ?case by (intro exI [of _ "asc0 u"], cases n) auto
next
  case (Cons c rx)
  show ?case
  proof (cases n)
    case 0
    then show ?thesis by (intro exI [of _ "asc0 u"]) simp
  next
    case (Suc k)
    obtain v where v: "my_printf e [c] u = Some (Inr (u\<lparr>asc0 := v\<rparr>))" "sent (uart_log v) = sent (uart_log (asc0 u)) @ crlf (c_str [c])"
      by (rule my_printf_short [OF assms, of "[c]" u]) auto
    obtain u' where "print_bytes e rx k (u\<lparr>asc0 := v\<rparr>) = Some (if k \<le> length rx then Inr (u\<lparr>asc0 := u'\<rparr>) else Inl OutOfBounds)"
      "sent (uart_log u') = sent (uart_log v) @ crlf (filter (\<lambda>c. c \<noteq> 0) (take k rx))"
      using Cons.IH [of k "u\<lparr>asc0 := v\<rparr>"] by (elim exE conjE) (rule that, simp_all)
    then show ?thesis using v by (intro exI [of _ u']) (auto simp: Suc c_str_def)
  qed
qed

theorem board_can_interrupt:
  assumes "uart_ok e" "length (rxData s) = 8" "length (rf_bytes f) \<le> 8"
  shows "if rf_code f \<le> 8
    then \<exists>u'. Can_RxIsrHandler e f s u = Some (Inr (read_message f s, u\<lparr>asc0 := u'\<rparr>)) \<and>
      sent (uart_log u') = sent (uart_log (asc0 u)) @ CAN_RX_TEXT @
        crlf (filter (\<lambda>c. c \<noteq> 0) (take (rf_code f) (rxData (read_message f s)))) @ [0x0D, 0x0A]
    else Can_RxIsrHandler e f s u = Some (Inl OutOfBounds)"
proof -
  have len: "length (rxData (read_message f s)) = 8" using assms(2,3) by (simp add: read_message_def)
  obtain v where v: "my_printf e CAN_RX_TEXT u = Some (Inr (u\<lparr>asc0 := v\<rparr>))" "sent (uart_log v) = sent (uart_log (asc0 u)) @ CAN_RX_TEXT"
    by (rule my_printf_short [OF assms(1), of CAN_RX_TEXT u]) (auto simp: c_str_def)
  obtain w where w: "print_bytes e (rxData (read_message f s)) (rf_code f) (u\<lparr>asc0 := v\<rparr>) =
      Some (if rf_code f \<le> 8 then Inr (u\<lparr>asc0 := w\<rparr>) else Inl OutOfBounds)"
    "sent (uart_log w) = sent (uart_log v) @ crlf (filter (\<lambda>c. c \<noteq> 0) (take (rf_code f) (rxData (read_message f s))))"
    using print_bytes_result [OF assms(1), of "rxData (read_message f s)" "rf_code f" "u\<lparr>asc0 := v\<rparr>"] len
    by (elim exE conjE) (rule that, simp_all)
  obtain x where x: "my_printf e [0x0A] (u\<lparr>asc0 := w\<rparr>) = Some (Inr (u\<lparr>asc0 := x\<rparr>))" "sent (uart_log x) = sent (uart_log w) @ [0x0D, 0x0A]"
    by (rule my_printf_short [OF assms(1), of "[0x0A]" "u\<lparr>asc0 := w\<rparr>"]) (auto simp: c_str_def)
  have all: "take 8 (rxData (read_message f s)) = rxData (read_message f s)" using len by simp
  have "Can_RxIsrHandler e f s u = Some (if rf_code f \<le> 8 then Inr (read_message f s, u\<lparr>asc0 := x\<rparr>) else Inl OutOfBounds)"
    using v(1) w(1) x(1) by (simp add: Can_RxIsrHandler_def Can_RecvMsg_def Let_def all)
  moreover have "sent (uart_log x) = sent (uart_log (asc0 u)) @ CAN_RX_TEXT @
      crlf (filter (\<lambda>c. c \<noteq> 0) (take (rf_code f) (rxData (read_message f s)))) @ [0x0D, 0x0A]"
    using v(2) w(2) x(2) by simp
  ultimately show ?thesis by auto
qed

text \<open>The sensor's value is that of the last frame whose signal strength was not zero.\<close>

lemma tof_value:
  "snd (TofIsrHandler f (s, v)) = (let rx = take 8 (rxData (read_message f s)) in
     if be16 (rx ! 5) (rx ! 4) = 0 then v else push_bit 16 (ucast (rx ! 2)) OR push_bit 8 (ucast (rx ! 1)) OR ucast (rx ! 0))"
  by (simp add: TofIsrHandler_def Can_RecvMsg_def Let_def)

text \<open>A message of nine bytes carries three bytes of an earlier one; a frame of twelve bytes makes the handler
  read beyond its array.\<close>

theorem board_canfd_roundtrip_witness:
  "\<forall>s :: board_can. \<exists>s' n d. CanFd_SendMsg (\<lambda>n. SentStatus 0) 0x123 (\<lambda>i. 0) 9 (s\<lparr>txData := replicate 64 7\<rparr>) = Some (Inr s') \<and>
     fst (CanFd_RecvMsg \<lparr>rf_id = 0x123, rf_code = 9, rf_bytes = take 12 (txData s')\<rparr> (s\<lparr>rxData := replicate 64 0\<rparr>)) = (0x123, d, n) \<and>
     d ! 11 = 7"
proof
  fix s :: board_can
  let ?s = "s\<lparr>txData := replicate 64 7\<rparr>"
  let ?r = "s\<lparr>rxData := replicate 64 0\<rparr>"
  have c: "fd_code 9 = 9" "fd_length 9 = 12" by (simp_all add: fd_code_def fd_length_def)
  have "\<exists>m\<ge>send_looks ?s. (\<lambda>n. SentStatus 0) m \<noteq> NotSentBusy" by (intro exI [of _ "send_looks ?s"]) simp
  from board_canfd_roundtrip [OF this, of ?r 9 "0x123" "\<lambda>i. 0"]
  obtain s' n d where s': "CanFd_SendMsg (\<lambda>n. SentStatus 0) 0x123 (\<lambda>i. 0) 9 ?s = Some (Inr s')"
    "fst (CanFd_RecvMsg \<lparr>rf_id = 0x123, rf_code = fd_code 9, rf_bytes = take (fd_length (fd_code 9)) (txData s')\<rparr> ?r) = (0x123, d, n)"
    "n \<in> fd_sizes" "9 \<le> n" "\<forall>i. 9 \<le> i \<and> i < n \<longrightarrow> d ! i = txData ?s ! i"
    by auto
  have "12 \<le> n" using s'(3,4) by (auto simp: fd_sizes_def)
  then have "d ! 11 = 7" using s'(5) by simp
  then show "\<exists>s' n d. CanFd_SendMsg (\<lambda>n. SentStatus 0) 0x123 (\<lambda>i. 0) 9 ?s = Some (Inr s') \<and>
     fst (CanFd_RecvMsg \<lparr>rf_id = 0x123, rf_code = 9, rf_bytes = take 12 (txData s')\<rparr> ?r) = (0x123, d, n) \<and>
     d ! 11 = 7"
    using s'(1,2) by (auto simp: c)
qed

theorem board_can_interrupt_witness:
  "\<forall>s :: board_can. Can_RxIsrHandler bench_uart \<lparr>rf_id = 0x123, rf_code = 9, rf_bytes = [1, 2, 3, 4, 5, 6, 7, 8]\<rparr>
     (s\<lparr>rxData := replicate 8 0\<rparr>) bench_console = Some (Inl OutOfBounds)"
  using board_can_interrupt [OF bench_uart_ok, of "s\<lparr>rxData := replicate 8 0\<rparr>"
      "\<lparr>rf_id = 0x123, rf_code = 9, rf_bytes = [1, 2, 3, 4, 5, 6, 7, 8]\<rparr>" bench_console for s :: board_can]
  by simp

end
